(* ===== verification/Prelude.thy ===== *)
theory Prelude
  imports Main "HOL-Library.AList" "HOL-Library.Multiset"
begin

text \<open>
  Shared vocabulary of the development. The Go constructs that every component uses are named
  once: slices (where \<^verbatim>\<open>nil\<close> and the empty slice differ), maps, three-way comparison
  functions and \<^verbatim>\<open>sort.Slice\<close>. The locale \<open>comparator\<close> states what a Go comparison
  function promises and collects what sorting with such a function guarantees; each component
  interprets it on its own comparison function.
\<close>

named_theorems go_defs \<open>unfolding rules of small operations of the Go standard library\<close>
named_theorems validate_simps \<open>characterisations of the Validate methods\<close>

section \<open>Slices\<close>

text \<open>A Go slice is \<^verbatim>\<open>nil\<close> or a sequence; \<^verbatim>\<open>nil\<close> and the empty slice are different values
  although both have length 0 and no elements to range over.\<close>

type_synonym 'a slice = "'a list option"

definition elems :: "'a slice \<Rightarrow> 'a list" where
  "elems s = (case s of None \<Rightarrow> [] | Some xs \<Rightarrow> xs)"

lemma elems_simps [simp]: "elems None = []" "elems (Some xs) = xs"
  by (simp_all add: elems_def)

section \<open>Maps\<close>

text \<open>A Go map is an association list with distinct keys; \<open>map_of\<close> looks up,
  \<open>AList.update\<close> assigns and \<open>AList.delete\<close> deletes.\<close>

type_synonym ('k, 'v) gomap = "('k \<times> 'v) list"

definition map_from :: "('v \<Rightarrow> 'k) \<Rightarrow> 'v list \<Rightarrow> ('k, 'v) gomap" where
  "map_from key xs = foldl (\<lambda>m x. AList.update (key x) x m) [] xs"

lemma map_from_Nil [simp]: "map_from key [] = []"
  by (simp add: map_from_def)

lemma map_from_snoc: "map_from key (xs @ [x]) = AList.update (key x) x (map_from key xs)"
  by (simp add: map_from_def)

lemma distinct_map_from [simp]: "distinct (map fst (map_from key xs))"
  by (induction xs rule: rev_induct) (simp_all add: map_from_snoc distinct_update)

lemma map_from_lookup_key: "map_of (map_from key xs) k = Some v \<Longrightarrow> v \<in> set xs \<and> key v = k"
  by (induction xs rule: rev_induct) (auto simp: map_from_snoc update_conv split: if_splits)

lemma map_from_lookup_None: "map_of (map_from key xs) k = None \<longleftrightarrow> k \<notin> key ` set xs"
  by (induction xs rule: rev_induct) (auto simp: map_from_snoc update_conv)

lemma update_new: "k \<notin> fst ` set m \<Longrightarrow> AList.update k v m = m @ [(k, v)]"
  by (induction m) auto

lemma map_from_distinct: "distinct (map key xs) \<Longrightarrow> map_from key xs = map (\<lambda>x. (key x, x)) xs"
proof (induction xs rule: rev_induct)
  case (snoc y ys)
  then have "key y \<notin> fst ` set (map (\<lambda>x. (key x, x)) ys)" by (auto simp: image_iff)
  from update_new [OF this, of y] snoc show ?case by (simp add: map_from_snoc)
qed simp

lemma map_from_lookup:
  assumes "distinct (map key xs)" and "x \<in> set xs"
  shows "map_of (map_from key xs) (key x) = Some x"
proof -
  have "(key x, x) \<in> set (map (\<lambda>x. (key x, x)) xs)" using assms(2) by simp
  moreover have "distinct (map fst (map (\<lambda>x. (key x, x)) xs))"
    using assms(1) by (simp add: comp_def)
  ultimately show ?thesis
    by (simp add: map_from_distinct [OF assms(1)] map_of_is_SomeI)
qed

text \<open>A map built from records is keyed: every entry stands under the key of its record.\<close>

definition keyed :: "('v \<Rightarrow> 'k) \<Rightarrow> ('k, 'v) gomap \<Rightarrow> bool" where
  "keyed key m \<longleftrightarrow> distinct (map fst m) \<and> (\<forall>(k, v) \<in> set m. key v = k)"

lemma keyed_Nil [simp]: "keyed key []"
  by (simp add: keyed_def)

lemma keyed_lookup: "keyed key m \<Longrightarrow> map_of m k = Some v \<Longrightarrow> key v = k"
  by (auto simp: keyed_def dest: map_of_SomeD)

lemma keyed_update:
  assumes "keyed key m" "key v = k"
  shows "keyed key (AList.update k v m)"
  unfolding keyed_def
proof
  show d: "distinct (map fst (AList.update k v m))" using assms(1) by (simp add: keyed_def distinct_update)
  show "\<forall>(k', v') \<in> set (AList.update k v m). key v' = k'"
  proof safe
    fix k' v' assume "(k', v') \<in> set (AList.update k v m)"
    then have "map_of (AList.update k v m) k' = Some v'" using d by simp
    then show "key v' = k'" using assms keyed_lookup by (auto simp: update_conv split: if_splits)
  qed
qed

lemma keyed_map_from [simp]: "keyed key (map_from key xs)"
  by (induction xs rule: rev_induct) (simp_all add: map_from_snoc keyed_update)

text \<open>Left folds that leave a part of the state alone.\<close>

lemma foldl_frame: "(\<And>s x. P (f s x) = P s) \<Longrightarrow> P (foldl f s xs) = P s"
  by (induction xs arbitrary: s) simp_all

lemma foldl_invariant: "I s \<Longrightarrow> (\<And>s x. x \<in> set xs \<Longrightarrow> I s \<Longrightarrow> I (f s x)) \<Longrightarrow> I (foldl f s xs)"
  by (induction xs arbitrary: s) simp_all

section \<open>Three-way comparison and sorting\<close>

text \<open>\<^verbatim>\<open>sort.Slice\<close> sorts in place by a comparison; the model is insertion sort. Go leaves
  the order of equal elements open, so results are only used where the comparison separates the
  elements (\<open>sort_by_unique\<close>).\<close>

fun insert_by :: "('a \<Rightarrow> 'a \<Rightarrow> int) \<Rightarrow> 'a \<Rightarrow> 'a list \<Rightarrow> 'a list" where
  "insert_by cmp x [] = [x]"
| "insert_by cmp x (y # ys) = (if cmp x y \<le> 0 then x # y # ys else y # insert_by cmp x ys)"

definition sort_by :: "('a \<Rightarrow> 'a \<Rightarrow> int) \<Rightarrow> 'a list \<Rightarrow> 'a list" where
  "sort_by cmp xs = foldr (insert_by cmp) xs []"

definition cmp_on :: "('b \<Rightarrow> 'a) \<Rightarrow> ('a \<Rightarrow> 'a \<Rightarrow> int) \<Rightarrow> 'b \<Rightarrow> 'b \<Rightarrow> int" where
  "cmp_on f cmp x y = cmp (f x) (f y)"

definition cmp_then :: "('a \<Rightarrow> 'a \<Rightarrow> int) \<Rightarrow> ('a \<Rightarrow> 'a \<Rightarrow> int) \<Rightarrow> 'a \<Rightarrow> 'a \<Rightarrow> int" where
  "cmp_then c1 c2 x y = (if c1 x y \<noteq> 0 then c1 x y else c2 x y)"

definition sortedMapValues :: "('v \<Rightarrow> 'v \<Rightarrow> int) \<Rightarrow> ('k, 'v) gomap \<Rightarrow> 'v list" where
  "sortedMapValues cmp m = sort_by cmp (map snd m)"

lemma mset_insert_by [simp]: "mset (insert_by cmp x xs) = add_mset x (mset xs)"
  by (induction xs) auto

lemma mset_sort_by [simp]: "mset (sort_by cmp xs) = mset xs"
  by (induction xs) (simp_all add: sort_by_def)

lemma set_sort_by [simp]: "set (sort_by cmp xs) = set xs"
  by (metis mset_sort_by set_mset_mset)

lemma length_sort_by [simp]: "length (sort_by cmp xs) = length xs"
  by (metis mset_sort_by size_mset)

lemma distinct_map_sort_by [simp]: "distinct (map f (sort_by cmp xs)) = distinct (map f xs)"
  by (metis mset_sort_by mset_map mset_eq_imp_distinct_iff)

text \<open>Reading the sorted values of a keyed map back gives the map.\<close>

lemma map_from_sortedMapValues:
  assumes "keyed key m"
  shows "map_of (map_from key (sortedMapValues cmp m)) = map_of m"
proof
  fix k
  have dk: "map key (map snd m) = map fst m"
    using assms by (auto simp: keyed_def)
  then have "distinct (map key (map snd m))" using assms by (simp only: keyed_def)
  then have d: "distinct (map key (sortedMapValues cmp m))"
    by (simp only: sortedMapValues_def distinct_map_sort_by)
  show "map_of (map_from key (sortedMapValues cmp m)) k = map_of m k"
  proof (cases "map_of m k")
    case None
    have "k \<notin> key ` set (sortedMapValues cmp m)"
    proof
      assume "k \<in> key ` set (sortedMapValues cmp m)"
      then have "k \<in> set (map key (map snd m))" by (auto simp: sortedMapValues_def)
      then show False using None dk by (simp add: map_of_eq_None_iff)
    qed
    with None show ?thesis by (simp add: map_from_lookup_None)
  next
    case (Some v)
    then have "(k, v) \<in> set m" by (rule map_of_SomeD)
    then have v: "v \<in> set (sortedMapValues cmp m)" by (force simp: sortedMapValues_def)
    have k: "key v = k" using keyed_lookup [OF assms Some] .
    from map_from_lookup [OF d v] Some k show ?thesis by simp
  qed
qed

locale comparator =
  fixes cmp :: "'a \<Rightarrow> 'a \<Rightarrow> int"
  assumes cmp_refl: "cmp x x = 0"
    and cmp_flip: "cmp y x = - cmp x y"
    and cmp_trans: "cmp x y \<le> 0 \<Longrightarrow> cmp y z \<le> 0 \<Longrightarrow> cmp x z \<le> 0"
begin

lemma cmp_total: "cmp x y \<le> 0 \<or> cmp y x \<le> 0"
  using cmp_flip [of x y] by linarith

lemma sorted_insert_by:
  "sorted_wrt (\<lambda>a b. cmp a b \<le> 0) ys \<Longrightarrow> sorted_wrt (\<lambda>a b. cmp a b \<le> 0) (insert_by cmp x ys)"
proof (induction ys)
  case (Cons y ys)
  have set_ins: "set (insert_by cmp x ys) = insert x (set ys)"
    by (metis mset_insert_by set_mset_add_mset_insert set_mset_mset)
  show ?case
  proof (cases "cmp x y \<le> 0")
    case True
    with Cons.prems show ?thesis by (auto intro: cmp_trans)
  next
    case False
    then have "cmp y x \<le> 0" using cmp_total by blast
    with False Cons show ?thesis by (auto simp: set_ins)
  qed
qed simp

lemma sorted_sort_by: "sorted_wrt (\<lambda>a b. cmp a b \<le> 0) (sort_by cmp xs)"
  by (induction xs) (simp_all add: sort_by_def sorted_insert_by)

lemma sort_by_unique:
  assumes "sorted_wrt (\<lambda>a b. cmp a b \<le> 0) xs" and "mset xs = mset ys"
    and "\<And>x y. x \<in> set xs \<Longrightarrow> y \<in> set xs \<Longrightarrow> cmp x y = 0 \<Longrightarrow> x = y"
  shows "sort_by cmp ys = xs"
proof -
  have "sorted_wrt (\<lambda>a b. cmp a b \<le> 0) zs \<Longrightarrow> mset zs = mset xs \<Longrightarrow> zs = xs" for zs
    using assms(1,3)
  proof (induction zs arbitrary: xs)
    case (Cons z zs)
    then obtain w ws where ws: "xs = w # ws" by (cases xs) auto
    from Cons.prems(2) have sets: "set (z # zs) = set xs" by (metis set_mset_mset)
    have "cmp z w \<le> 0"
      using Cons.prems(1) sets ws cmp_refl by (metis list.set_intros(1) set_ConsD sorted_wrt.simps(2) order_refl)
    moreover have "cmp w z \<le> 0"
      using Cons.prems(3) sets ws cmp_refl by (metis list.set_intros(1) set_ConsD sorted_wrt.simps(2) order_refl)
    ultimately have "cmp z w = 0" using cmp_flip [of w z] by linarith
    then have "z = w" using Cons.prems(4) sets ws by auto
    with Cons ws show ?case by simp
  qed simp
  from this [of "sort_by cmp ys"] show ?thesis by (simp add: sorted_sort_by assms(2))
qed

lemma sort_by_perm:
  assumes "mset xs = mset ys"
    and "\<And>x y. x \<in> set xs \<Longrightarrow> y \<in> set xs \<Longrightarrow> cmp x y = 0 \<Longrightarrow> x = y"
  shows "sort_by cmp xs = sort_by cmp ys"
  by (rule sort_by_unique [symmetric]) (use assms in \<open>simp_all add: sorted_sort_by\<close>)

end

lemma comparator_on:
  assumes "comparator cmp"
  shows "comparator (cmp_on f cmp)"
proof
  show "cmp_on f cmp x x = 0" for x
    unfolding cmp_on_def by (rule comparator.cmp_refl [OF assms])
  show "cmp_on f cmp y x = - cmp_on f cmp x y" for x y
    unfolding cmp_on_def by (rule comparator.cmp_flip [OF assms])
  show "cmp_on f cmp x y \<le> 0 \<Longrightarrow> cmp_on f cmp y z \<le> 0 \<Longrightarrow> cmp_on f cmp x z \<le> 0" for x y z
    unfolding cmp_on_def by (rule comparator.cmp_trans [OF assms])
qed

lemma comparator_then:
  assumes "comparator c1" and "comparator c2"
  shows "comparator (cmp_then c1 c2)"
proof
  show "cmp_then c1 c2 x x = 0" for x
    using assms by (simp add: cmp_then_def comparator.cmp_refl)
  show "cmp_then c1 c2 y x = - cmp_then c1 c2 x y" for x y
    using assms comparator.cmp_flip [of c1 y x] comparator.cmp_flip [of c2 y x]
    by (simp add: cmp_then_def)
  show "cmp_then c1 c2 x z \<le> 0" if le: "cmp_then c1 c2 x y \<le> 0" "cmp_then c1 c2 y z \<le> 0" for x y z
  proof -
    have t1: "c1 x y \<le> 0" "c1 y z \<le> 0" using le by (auto simp: cmp_then_def split: if_splits)
    then have xz: "c1 x z \<le> 0" using comparator.cmp_trans [OF assms(1)] by blast
    show ?thesis
    proof (cases "c1 x z = 0")
      case True
      have "c1 z x \<le> 0" using True comparator.cmp_flip [OF assms(1), of z x] by simp
      then have "c1 z y \<le> 0" "c1 y x \<le> 0"
        using t1 comparator.cmp_trans [OF assms(1)] by blast+
      then have "c1 x y = 0" "c1 y z = 0"
        using t1 comparator.cmp_flip [OF assms(1), of x y] comparator.cmp_flip [OF assms(1), of y z]
        by linarith+
      with le True comparator.cmp_trans [OF assms(2)] show ?thesis
        by (auto simp: cmp_then_def)
    next
      case False
      with xz show ?thesis by (simp add: cmp_then_def)
    qed
  qed
qed

end
