(* ===== verification/Go_Strings.thy ===== *)
theory Go_Strings
  imports Prelude
begin

text \<open>
  The parts of the Go standard library that the sources use on strings and numbers. A Go string
  is a byte sequence, here a \<^typ>\<open>string\<close> (a list of 8-bit characters). The theory models
  regular expressions (\<^verbatim>\<open>regexp\<close>, anchored at both ends as every pattern of the sources is),
  UTF-8 (\<^verbatim>\<open>unicode/utf8\<close>), \<^verbatim>\<open>strings.Compare\<close> and decimal conversion of \<^verbatim>\<open>math/big\<close>
  integers, with the laws the validators rely on.
\<close>

abbreviation byte :: "char \<Rightarrow> nat" where
  "byte c \<equiv> of_char c"

section \<open>strings.Compare\<close>

fun string_compare :: "string \<Rightarrow> string \<Rightarrow> int" where
  "string_compare [] [] = 0"
| "string_compare [] (d # ds) = -1"
| "string_compare (c # cs) [] = 1"
| "string_compare (c # cs) (d # ds) =
     (if byte c < byte d then -1 else if byte d < byte c then 1 else string_compare cs ds)"

lemma string_compare_0 [simp]: "string_compare s t = 0 \<longleftrightarrow> s = t"
  by (induction s t rule: string_compare.induct) (auto simp: not_less dest: antisym)

lemma string_compare_flip: "string_compare t s = - string_compare s t"
  by (induction s t rule: string_compare.induct) auto

lemma string_compare_trans:
  "string_compare s t \<le> 0 \<Longrightarrow> string_compare t u \<le> 0 \<Longrightarrow> string_compare s u \<le> 0"
proof (induction s arbitrary: t u)
  case Nil
  then show ?case by (cases u) auto
next
  case (Cons c cs)
  then obtain d ds where t: "t = d # ds" by (cases t) auto
  with Cons.prems obtain e es where u: "u = e # es" by (cases u) auto
  from Cons t u show ?case by (auto split: if_splits)
qed

interpretation string_cmp: comparator string_compare
proof
  show "string_compare y x = - string_compare x y" for x y by (rule string_compare_flip)
  show "string_compare x y \<le> 0 \<Longrightarrow> string_compare y z \<le> 0 \<Longrightarrow> string_compare x z \<le> 0" for x y z
    by (rule string_compare_trans)
qed simp

section \<open>Anchored regular expressions\<close>

datatype regex =
    Fail
  | Empty
  | Class "char \<Rightarrow> bool"
  | Alt regex regex
  | Seq regex regex
  | Star regex

definition Lit :: "string \<Rightarrow> regex" where
  "Lit s = foldr (\<lambda>c r. Seq (Class (\<lambda>d. d = c)) r) s Empty"

definition Plus1 :: "regex \<Rightarrow> regex" where
  "Plus1 r = Seq r (Star r)"

definition Times :: "nat \<Rightarrow> regex \<Rightarrow> regex" where
  "Times n r = foldr Seq (replicate n r) Empty"

inductive in_lang :: "regex \<Rightarrow> string \<Rightarrow> bool" where
  in_Empty: "in_lang Empty []"
| in_Class: "p c \<Longrightarrow> in_lang (Class p) [c]"
| in_AltL: "in_lang r s \<Longrightarrow> in_lang (Alt r q) s"
| in_AltR: "in_lang q s \<Longrightarrow> in_lang (Alt r q) s"
| in_Seq: "in_lang r s \<Longrightarrow> in_lang q t \<Longrightarrow> in_lang (Seq r q) (s @ t)"
| in_Star0: "in_lang (Star r) []"
| in_Star: "in_lang r s \<Longrightarrow> in_lang (Star r) t \<Longrightarrow> in_lang (Star r) (s @ t)"

inductive_simps in_lang_simps: "in_lang Fail s" "in_lang Empty s" "in_lang (Class p) s"
  "in_lang (Alt r q) s" "in_lang (Seq r q) s"
inductive_cases in_StarE: "in_lang (Star r) s"

fun nullable :: "regex \<Rightarrow> bool" where
  "nullable Fail = False"
| "nullable Empty = True"
| "nullable (Class p) = False"
| "nullable (Alt r q) = (nullable r \<or> nullable q)"
| "nullable (Seq r q) = (nullable r \<and> nullable q)"
| "nullable (Star r) = True"

text \<open>Constructors that prune failed branches keep the states of the matcher small.\<close>

fun mk_alt :: "regex \<Rightarrow> regex \<Rightarrow> regex" where
  "mk_alt Fail q = q"
| "mk_alt r Fail = r"
| "mk_alt r q = Alt r q"

fun mk_seq :: "regex \<Rightarrow> regex \<Rightarrow> regex" where
  "mk_seq Fail q = Fail"
| "mk_seq Empty q = q"
| "mk_seq r q = Seq r q"

fun deriv :: "char \<Rightarrow> regex \<Rightarrow> regex" where
  "deriv c Fail = Fail"
| "deriv c Empty = Fail"
| "deriv c (Class p) = (if p c then Empty else Fail)"
| "deriv c (Alt r q) = mk_alt (deriv c r) (deriv c q)"
| "deriv c (Seq r q) =
     (if nullable r then mk_alt (mk_seq (deriv c r) q) (deriv c q) else mk_seq (deriv c r) q)"
| "deriv c (Star r) = mk_seq (deriv c r) (Star r)"

fun re_match :: "regex \<Rightarrow> string \<Rightarrow> bool" where
  "re_match r [] = nullable r"
| "re_match r (c # s) = re_match (deriv c r) s"

lemma in_lang_mk_alt [simp]: "in_lang (mk_alt r q) s \<longleftrightarrow> in_lang r s \<or> in_lang q s"
  by (cases "(r, q)" rule: mk_alt.cases) (auto simp: in_lang_simps)

lemma in_lang_mk_seq [simp]:
  "in_lang (mk_seq r q) s \<longleftrightarrow> (\<exists>u v. s = u @ v \<and> in_lang r u \<and> in_lang q v)"
  by (cases "(r, q)" rule: mk_seq.cases) (auto simp: in_lang_simps)

lemma nullable_iff: "nullable r \<longleftrightarrow> in_lang r []"
  by (induction r) (auto simp: in_lang_simps intro: in_Star0)

lemma star_Cons:
  "in_lang (Star r) (c # s) \<longleftrightarrow> (\<exists>u v. s = u @ v \<and> in_lang r (c # u) \<and> in_lang (Star r) v)"
proof
  have "in_lang q w \<Longrightarrow> q = Star r \<Longrightarrow> w = c # s \<Longrightarrow>
      \<exists>u v. s = u @ v \<and> in_lang r (c # u) \<and> in_lang (Star r) v" for q w
  proof (induction arbitrary: s rule: in_lang.induct)
    case (in_Star r' a b)
    then show ?case by (cases a) auto
  qed simp_all
  then show "in_lang (Star r) (c # s) \<Longrightarrow>
      \<exists>u v. s = u @ v \<and> in_lang r (c # u) \<and> in_lang (Star r) v" by blast
next
  assume "\<exists>u v. s = u @ v \<and> in_lang r (c # u) \<and> in_lang (Star r) v"
  then obtain u v where "s = u @ v" "in_lang r (c # u)" "in_lang (Star r) v" by blast
  then show "in_lang (Star r) (c # s)" using in_lang.in_Star [of r "c # u" v] by simp
qed

lemma in_lang_deriv: "in_lang (deriv c r) s \<longleftrightarrow> in_lang r (c # s)"
proof (induction r arbitrary: s)
  case (Seq r q)
  have "in_lang (Seq r q) (c # s) \<longleftrightarrow>
      (in_lang r [] \<and> in_lang q (c # s)) \<or> (\<exists>u v. s = u @ v \<and> in_lang r (c # u) \<and> in_lang q v)"
    by (auto simp: in_lang_simps Cons_eq_append_conv)
  with Seq show ?case by (auto simp: nullable_iff)
next
  case (Star r)
  then show ?case by (simp add: star_Cons)
qed (auto simp: in_lang_simps)

text \<open>The derivative matcher decides the language of the pattern.\<close>

lemma re_match_iff: "re_match r s \<longleftrightarrow> in_lang r s"
  by (induction s arbitrary: r) (simp_all add: nullable_iff in_lang_deriv)

fun over :: "(char \<Rightarrow> bool) \<Rightarrow> regex \<Rightarrow> bool" where
  "over P Fail = True"
| "over P Empty = True"
| "over P (Class p) = (\<forall>c. p c \<longrightarrow> P c)"
| "over P (Alt r q) = (over P r \<and> over P q)"
| "over P (Seq r q) = (over P r \<and> over P q)"
| "over P (Star r) = over P r"

lemma in_lang_over: "in_lang r s \<Longrightarrow> over P r \<Longrightarrow> c \<in> set s \<Longrightarrow> P c"
  by (induction rule: in_lang.induct) auto

lemma in_lang_star_class: "in_lang (Star (Class p)) s \<longleftrightarrow> (\<forall>c \<in> set s. p c)"
proof (induction s)
  case Nil
  then show ?case by (simp add: in_Star0)
next
  case (Cons c s)
  then show ?case by (auto simp: star_Cons in_lang_simps)
qed

definition lower :: "char \<Rightarrow> bool" where
  "lower c \<longleftrightarrow> 97 \<le> byte c \<and> byte c \<le> 122"

definition upper :: "char \<Rightarrow> bool" where
  "upper c \<longleftrightarrow> 65 \<le> byte c \<and> byte c \<le> 90"

definition digit :: "char \<Rightarrow> bool" where
  "digit c \<longleftrightarrow> 48 \<le> byte c \<and> byte c \<le> 57"

definition one_of :: "string \<Rightarrow> char \<Rightarrow> bool" where
  "one_of cs c = List.member cs c"

section \<open>UTF-8\<close>

definition cont :: "nat \<Rightarrow> bool" where
  "cont b \<longleftrightarrow> 128 \<le> b \<and> b \<le> 191"

text \<open>\<^verbatim>\<open>utf8.DecodeRune\<close>: the first code point and its width, or nothing where the bytes are
  not valid UTF-8 (overlong forms, surrogates and values beyond U+10FFFF included).\<close>

fun decode_rune :: "nat list \<Rightarrow> (nat \<times> nat) option" where
  "decode_rune [] = None"
| "decode_rune (a # bs) =
     (if a < 128 then Some (a, 1)
      else case bs of
        [] \<Rightarrow> None
      | b # cs \<Rightarrow>
          if 194 \<le> a \<and> a \<le> 223 \<and> cont b then Some ((a - 192) * 64 + (b - 128), 2)
          else case cs of
            [] \<Rightarrow> None
          | c # ds \<Rightarrow>
              if 224 \<le> a \<and> a \<le> 239 \<and> cont b \<and> cont c \<and> (a = 224 \<longrightarrow> 160 \<le> b) \<and> (a = 237 \<longrightarrow> b \<le> 159)
              then Some ((a - 224) * 4096 + (b - 128) * 64 + (c - 128), 3)
              else case ds of
                [] \<Rightarrow> None
              | d # es \<Rightarrow>
                  if 240 \<le> a \<and> a \<le> 244 \<and> cont b \<and> cont c \<and> cont d \<and>
                     (a = 240 \<longrightarrow> 144 \<le> b) \<and> (a = 244 \<longrightarrow> b \<le> 143)
                  then Some ((a - 240) * 262144 + (b - 128) * 4096 + (c - 128) * 64 + (d - 128), 4)
                  else None)"

text \<open>Ranging over a string yields its code points; \<^verbatim>\<open>None\<close> stands for one invalid byte,
  which Go reports as U+FFFD of width one.\<close>

function runes :: "string \<Rightarrow> nat option list" where
  "runes [] = []"
| "runes (c # s) = (case decode_rune (map of_char (c # s)) of
       None \<Rightarrow> None # runes s
     | Some (r, w) \<Rightarrow> Some r # runes (drop (w - 1) s))"
  by pat_completeness auto
termination
  by (relation "measure length") auto

definition utf8_valid :: "string \<Rightarrow> bool" where
  "utf8_valid s = list_all (\<lambda>r. r \<noteq> None) (runes s)"

text \<open>\<^verbatim>\<open>json.Marshal\<close> writes U+FFFD for every invalid byte of a string.\<close>

function utf8_repair :: "string \<Rightarrow> string" where
  "utf8_repair [] = []"
| "utf8_repair (c # s) = (case decode_rune (map of_char (c # s)) of
       None \<Rightarrow> map char_of [239, 191, 189 :: nat] @ utf8_repair s
     | Some (r, w) \<Rightarrow> c # take (w - 1) s @ utf8_repair (drop (w - 1) s))"
  by pat_completeness auto
termination
  by (relation "measure length") auto

definition is_control :: "nat \<Rightarrow> bool" where
  "is_control r \<longleftrightarrow> r < 32 \<or> 127 \<le> r \<and> r \<le> 159"

lemma utf8_repair_id: "utf8_valid s \<Longrightarrow> utf8_repair s = s"
  by (induction s rule: utf8_repair.induct)
    (auto simp: utf8_valid_def split: option.splits)

lemma utf8_valid_ascii: "(\<And>c. c \<in> set s \<Longrightarrow> byte c < 128) \<Longrightarrow> utf8_valid s"
  by (induction s rule: runes.induct) (auto simp: utf8_valid_def split: option.splits)

section \<open>Decimal integers\<close>

definition digit_val :: "char \<Rightarrow> int" where
  "digit_val c = int (byte c) - 48"

definition digits_val :: "string \<Rightarrow> int" where
  "digits_val s = foldl (\<lambda>n c. 10 * n + digit_val c) 0 s"

text \<open>\<^verbatim>\<open>(*big.Int).SetString(s, 10)\<close>: an optional sign and at least one decimal digit.\<close>

definition SetString10 :: "string \<Rightarrow> int option" where
  "SetString10 s =
     (let (neg, ds) = (case s of
          c # cs \<Rightarrow> if c = CHR ''-'' then (True, cs) else if c = CHR ''+'' then (False, cs) else (False, s)
        | [] \<Rightarrow> (False, []))
      in if ds \<noteq> [] \<and> list_all digit ds
         then Some (if neg then - digits_val ds else digits_val ds) else None)"

definition digit_char :: "nat \<Rightarrow> char" where
  "digit_char n = char_of (48 + n)"

fun nat_string :: "nat \<Rightarrow> string" where
  "nat_string n = (if n < 10 then [digit_char n] else nat_string (n div 10) @ [digit_char (n mod 10)])"

declare nat_string.simps [simp del]

text \<open>\<^verbatim>\<open>(*big.Int).String()\<close>.\<close>

definition int_string :: "int \<Rightarrow> string" where
  "int_string i = (if i < 0 then CHR ''-'' # nat_string (nat (- i)) else nat_string (nat i))"

definition int_cmp :: "int \<Rightarrow> int \<Rightarrow> int" where
  "int_cmp a b = (if a < b then -1 else if a = b then 0 else 1)"

definition BitLen_le :: "nat \<Rightarrow> int \<Rightarrow> bool" where
  "BitLen_le w n \<longleftrightarrow> \<bar>n\<bar> < 2 ^ w"

interpretation int_cmp: comparator int_cmp
  by unfold_locales (auto simp: int_cmp_def split: if_splits)

lemma byte_digit_char: "n < 10 \<Longrightarrow> byte (digit_char n) = 48 + n"
  by (simp add: digit_char_def)

lemma digits_val_snoc: "digits_val (s @ [c]) = 10 * digits_val s + digit_val c"
  by (simp add: digits_val_def)

lemma nat_string_digits: "list_all digit (nat_string n)"
proof (induction n rule: nat_string.induct)
  case (1 n)
  have "m < 10 \<Longrightarrow> digit (digit_char m)" for m by (simp add: digit_def byte_digit_char)
  with 1 show ?case by (subst nat_string.simps) simp
qed

lemma nat_string_ne [simp]: "nat_string n \<noteq> []"
  by (subst nat_string.simps) simp

lemma digits_val_nat_string: "digits_val (nat_string n) = int n"
proof (induction n rule: nat_string.induct)
  case (1 n)
  have "int (10 * (n div 10) + n mod 10) = int n" by simp
  then have split: "10 * int (n div 10) + int (n mod 10) = int n"
    by (simp only: of_nat_add of_nat_mult of_nat_numeral)
  from 1 split show ?case
    by (subst nat_string.simps)
      (auto simp: digits_val_snoc digit_val_def byte_digit_char digits_val_def [of "[digit_char n]"])
qed

lemma nat_string_hd: "n \<noteq> 0 \<Longrightarrow> \<exists>d ds. nat_string n = d # ds \<and> d \<noteq> CHR ''0'' \<and> digit d"
proof (induction n rule: nat_string.induct)
  case (1 n)
  show ?case
  proof (cases "n < 10")
    case True
    with "1.prems" have "byte (digit_char n) \<noteq> byte (CHR ''0'')" by (simp add: byte_digit_char)
    then have "digit_char n \<noteq> CHR ''0''" by metis
    with True show ?thesis by (subst nat_string.simps) (simp add: digit_def byte_digit_char)
  next
    case False
    with 1 obtain d ds where "nat_string (n div 10) = d # ds" "d \<noteq> CHR ''0''" "digit d" by fastforce
    with False show ?thesis by (subst nat_string.simps) simp
  qed
qed

lemma digits_val_inj:
  assumes "list_all digit s" "list_all digit t" "length s = length t" "digits_val s = digits_val t"
  shows "s = t"
  using assms(3,1,2,4)
proof (induction s t rule: rev_induct2)
  case (4 x xs y ys)
  have "digit_val x = digit_val y \<and> digits_val xs = digits_val ys"
    using 4 by (auto simp: digits_val_snoc digit_val_def digit_def)
  with 4 show ?case by (auto simp: digit_val_def)
qed simp_all

end
