(* ===== verification/Errors.thy ===== *)
theory Errors
  imports Go_Strings
begin

text \<open>
  Stable rejection identifiers and their global ranking (\<^verbatim>\<open>semreg/v1/validation.go\<close>). Every
  validator collects the errors it can know independently and reports the one of best rank. The
  locale \<open>error_ranking\<close> is the contract of such a reporter; it is interpreted here on
  \<^verbatim>\<open>bestError\<close>. The order in which checks are written never changes the reported identifier.
\<close>

section \<open>Errors\<close>

text \<open>\<^verbatim>\<open>ErrorID\<close> is an open string type: \<open>OtherErrorID\<close> holds every string that is not one of
  the declared constants.\<close>

datatype ErrorID =
    InvalidJSON | DuplicateKey | InvalidContract | MissingMember | UnknownMember
  | InvalidIdentifier | InvalidDecimal | InvalidValue | InvalidTime | InvalidEvidence
  | InvalidEnum | BoundsExceeded | NoncanonicalOrder | DigestMismatch | DanglingReference
  | DerivationCycle | StaleSourceEpoch | StaleDriverGeneration | SequenceConflict
  | RevisionConflict | IncomparableClockEpoch | GenerationTransitionIncomplete
  | DefinitionOwnerConflict | DefinitionOwnerMissing | IdentityNotQualified
  | CapabilityNotQualified | CapabilityUnavailable | AuthorityMissing | DeadlineExpired
  | PreconditionFailed | RouteSelectionForbidden | AmbiguousRoute | RetryForbidden
  | InvalidOutcome | EchoSuppressed | CausalBudgetExceeded | ProjectionIncomplete
  | AliasNotRoutable | OtherErrorID string

text \<open>A Go \<^verbatim>\<open>error\<close> is a \<^verbatim>\<open>*Error\<close> of this package or a foreign error returned by a
  registered hook.\<close>

datatype error = Error ErrorID string | ForeignError string

type_synonym err = "error option"

definition errID :: "ErrorID \<Rightarrow> string \<Rightarrow> error" where
  "errID eid detail = Error eid detail"

fun ErrorIdentifier :: "error \<Rightarrow> ErrorID" where
  "ErrorIdentifier (Error eid _) = eid"
| "ErrorIdentifier (ForeignError _) = InvalidValue"

fun errorRanks :: "ErrorID \<Rightarrow> nat option" where
  "errorRanks InvalidJSON = Some 1" | "errorRanks DuplicateKey = Some 2"
| "errorRanks InvalidContract = Some 3" | "errorRanks MissingMember = Some 4"
| "errorRanks UnknownMember = Some 5" | "errorRanks InvalidIdentifier = Some 6"
| "errorRanks InvalidDecimal = Some 7" | "errorRanks InvalidValue = Some 8"
| "errorRanks InvalidTime = Some 9" | "errorRanks InvalidEvidence = Some 10"
| "errorRanks InvalidEnum = Some 11" | "errorRanks BoundsExceeded = Some 12"
| "errorRanks NoncanonicalOrder = Some 13" | "errorRanks DigestMismatch = Some 14"
| "errorRanks DanglingReference = Some 15" | "errorRanks DerivationCycle = Some 16"
| "errorRanks StaleSourceEpoch = Some 17" | "errorRanks StaleDriverGeneration = Some 18"
| "errorRanks SequenceConflict = Some 19" | "errorRanks RevisionConflict = Some 20"
| "errorRanks IncomparableClockEpoch = Some 21"
| "errorRanks GenerationTransitionIncomplete = Some 22"
| "errorRanks DefinitionOwnerConflict = Some 23" | "errorRanks DefinitionOwnerMissing = Some 24"
| "errorRanks IdentityNotQualified = Some 25" | "errorRanks CapabilityNotQualified = Some 26"
| "errorRanks CapabilityUnavailable = Some 27" | "errorRanks AuthorityMissing = Some 28"
| "errorRanks DeadlineExpired = Some 29" | "errorRanks PreconditionFailed = Some 30"
| "errorRanks RouteSelectionForbidden = Some 31" | "errorRanks AmbiguousRoute = Some 32"
| "errorRanks RetryForbidden = Some 33" | "errorRanks InvalidOutcome = Some 34"
| "errorRanks EchoSuppressed = Some 35" | "errorRanks CausalBudgetExceeded = Some 36"
| "errorRanks ProjectionIncomplete = Some 37" | "errorRanks AliasNotRoutable = Some 38"
| "errorRanks (OtherErrorID _) = None"

text \<open>The rank an error competes with; an unlisted identifier competes as \<^verbatim>\<open>InvalidValue\<close>.\<close>

definition rank_with :: "(ErrorID \<Rightarrow> nat option) \<Rightarrow> error \<Rightarrow> nat" where
  "rank_with ranks e = (case ranks (ErrorIdentifier e) of
     Some n \<Rightarrow> n
   | None \<Rightarrow> (case ranks InvalidValue of Some n \<Rightarrow> n | None \<Rightarrow> 0))"

definition max_int :: nat where
  "max_int = 9223372036854775807"

fun best_loop :: "(error \<Rightarrow> nat) \<Rightarrow> err \<Rightarrow> nat \<Rightarrow> err list \<Rightarrow> err" where
  "best_loop rank best bestRank [] = best"
| "best_loop rank best bestRank (None # es) = best_loop rank best bestRank es"
| "best_loop rank best bestRank (Some e # es) =
     (if rank e < bestRank then best_loop rank (Some e) (rank e) es
      else best_loop rank best bestRank es)"

definition bestError :: "err list \<Rightarrow> err" where
  "bestError errors = best_loop (rank_with errorRanks) None max_int errors"

text \<open>Reading \<^verbatim>\<open>errorRanks[ErrorIdentifier(err)]\<close> gives 0 for an unlisted identifier.\<close>

definition errorRank :: "error \<Rightarrow> nat" where
  "errorRank e = (case errorRanks (ErrorIdentifier e) of Some n \<Rightarrow> n | None \<Rightarrow> 0)"

definition rankOf :: "ErrorID \<Rightarrow> nat" where
  "rankOf eid = (case errorRanks eid of Some n \<Rightarrow> n | None \<Rightarrow> 0)"

definition check_err :: "bool \<Rightarrow> ErrorID \<Rightarrow> string \<Rightarrow> err" where
  "check_err bad eid detail = (if bad then Some (errID eid detail) else None)"

section \<open>The ranking contract\<close>

definition listed :: "error \<Rightarrow> bool" where
  "listed e \<longleftrightarrow> errorRanks (ErrorIdentifier e) \<noteq> None"

locale error_ranking =
  fixes rank :: "error \<Rightarrow> nat" and pick :: "err list \<Rightarrow> err"
  assumes pick_None_iff: "pick es = None \<longleftrightarrow> (\<forall>e \<in> set es. e = None)"
    and pick_mem: "pick es = Some e \<Longrightarrow> Some e \<in> set es"
    and pick_least: "pick es = Some e \<Longrightarrow> Some e' \<in> set es \<Longrightarrow> rank e \<le> rank e'"
    and rank_inj: "listed e \<Longrightarrow> listed e' \<Longrightarrow> rank e = rank e' \<Longrightarrow> ErrorIdentifier e = ErrorIdentifier e'"
begin

lemma pick_Nil: "pick [] = None"
  by (simp add: pick_None_iff)

lemma pick_Cons_None_iff: "pick (e # es) = None \<longleftrightarrow> e = None \<and> pick es = None"
  by (simp add: pick_None_iff)

lemma pick_append_None_iff: "pick (es @ fs) = None \<longleftrightarrow> pick es = None \<and> pick fs = None"
  by (auto simp: pick_None_iff)

lemma pick_map_None_iff: "pick (map f xs) = None \<longleftrightarrow> (\<forall>x \<in> set xs. f x = None)"
  by (auto simp: pick_None_iff)

lemma pick_order_independent:
  assumes same: "set es = set fs" and all: "\<And>e. Some e \<in> set es \<Longrightarrow> listed e"
  shows "map_option ErrorIdentifier (pick es) = map_option ErrorIdentifier (pick fs)"
proof (cases "pick es")
  case None
  then have "pick fs = None" using same by (simp add: pick_None_iff)
  with None show ?thesis by simp
next
  case (Some e)
  then have "Some e \<in> set fs" using same pick_mem by blast
  then have "pick fs \<noteq> None" by (auto simp: pick_None_iff)
  then obtain f where f: "pick fs = Some f" by blast
  have "Some e \<in> set es" "Some f \<in> set es" using Some f pick_mem same by auto
  moreover from this have "rank e = rank f" using Some f pick_least same by (metis antisym)
  ultimately show ?thesis using Some f rank_inj all by simp
qed

lemma pick_rank_le:
  assumes "Some e \<in> set es"
  shows "\<exists>b. pick es = Some b \<and> rank b \<le> rank e"
  using assms pick_None_iff pick_least by (metis not_Some_eq)

end

section \<open>bestError meets it\<close>

definition listed_ids :: "ErrorID list" where
  "listed_ids =
    [InvalidJSON, DuplicateKey, InvalidContract, MissingMember, UnknownMember, InvalidIdentifier,
     InvalidDecimal, InvalidValue, InvalidTime, InvalidEvidence, InvalidEnum, BoundsExceeded,
     NoncanonicalOrder, DigestMismatch, DanglingReference, DerivationCycle, StaleSourceEpoch,
     StaleDriverGeneration, SequenceConflict, RevisionConflict, IncomparableClockEpoch,
     GenerationTransitionIncomplete, DefinitionOwnerConflict, DefinitionOwnerMissing,
     IdentityNotQualified, CapabilityNotQualified, CapabilityUnavailable, AuthorityMissing,
     DeadlineExpired, PreconditionFailed, RouteSelectionForbidden, AmbiguousRoute, RetryForbidden,
     InvalidOutcome, EchoSuppressed, CausalBudgetExceeded, ProjectionIncomplete, AliasNotRoutable]"

lemma errorRanks_position: "errorRanks i = Some n \<Longrightarrow> listed_ids ! (n - 1) = i"
  by (cases i) (auto simp: listed_ids_def)

lemma errorRanks_inj: "errorRanks i = Some n \<Longrightarrow> errorRanks j = Some n \<Longrightarrow> i = j"
  using errorRanks_position by metis

lemma errorRanks_bound: "errorRanks i = Some n \<Longrightarrow> 1 \<le> n \<and> n \<le> 38"
  by (cases i) auto

lemma rank_with_bound: "rank_with errorRanks e < max_int"
  using errorRanks_bound by (auto simp: rank_with_def max_int_def split: option.split) fastforce

lemma best_loop_cases:
  "best_loop rank best r es = best \<or> (\<exists>e. best_loop rank best r es = Some e \<and> Some e \<in> set es \<and> rank e < r)"
  by (induction rank best r es rule: best_loop.induct) (auto intro: less_trans)

lemma best_loop_least:
  "Some e \<in> set es \<Longrightarrow> rank e < r \<Longrightarrow>
     \<exists>b. best_loop rank best r es = Some b \<and> rank b \<le> rank e"
proof (induction rank best r es rule: best_loop.induct)
  case (3 rank best r e0 es)
  show ?case
  proof (cases "rank e0 < r")
    case True
    show ?thesis
    proof (cases "Some e \<in> set es \<and> rank e < rank e0")
      case True
      with \<open>rank e0 < r\<close> 3 show ?thesis by simp
    next
      case False
      then have "rank e0 \<le> rank e" using 3 by auto
      with \<open>rank e0 < r\<close> best_loop_cases [of rank "Some e0" "rank e0" es] show ?thesis by fastforce
    qed
  next
    case False
    with 3 show ?thesis by auto
  qed
qed auto

lemma best_loop_None_iff:
  assumes "\<And>e. rank e < r"
  shows "best_loop rank None r es = None \<longleftrightarrow> (\<forall>e \<in> set es. e = None)"
proof
  assume *: "best_loop rank None r es = None"
  show "\<forall>e \<in> set es. e = None"
  proof
    fix e assume e: "e \<in> set es"
    show "e = None"
    proof (cases e)
      case (Some x)
      with e * best_loop_least [of x es rank r None] assms [of x] show ?thesis by auto
    qed
  qed
next
  assume "\<forall>e \<in> set es. e = None"
  then show "best_loop rank None r es = None"
    using best_loop_cases [of rank None r es] by auto
qed

interpretation best: error_ranking "rank_with errorRanks" bestError
proof
  show "bestError es = None \<longleftrightarrow> (\<forall>e \<in> set es. e = None)" for es
    unfolding bestError_def by (rule best_loop_None_iff) (rule rank_with_bound)
  show "bestError es = Some e \<Longrightarrow> Some e \<in> set es" for es e
    using best_loop_cases [of "rank_with errorRanks" None max_int es] by (auto simp: bestError_def)
  show "bestError es = Some e \<Longrightarrow> Some e' \<in> set es \<Longrightarrow>
      rank_with errorRanks e \<le> rank_with errorRanks e'" for es e e'
    using best_loop_least [of e' es "rank_with errorRanks" max_int None] rank_with_bound
    by (auto simp: bestError_def)
  show "listed e \<Longrightarrow> listed e' \<Longrightarrow> rank_with errorRanks e = rank_with errorRanks e' \<Longrightarrow>
      ErrorIdentifier e = ErrorIdentifier e'" for e e'
    by (auto simp: listed_def rank_with_def dest: errorRanks_inj)
qed

lemmas bestError_simps [simp] = best.pick_Nil best.pick_Cons_None_iff best.pick_append_None_iff

lemma bestError_map_None [simp]: "bestError (map f xs) = None \<longleftrightarrow> (\<forall>x \<in> set xs. f x = None)"
  by (rule best.pick_map_None_iff)

lemma check_err_None [simp]: "check_err bad eid d = None \<longleftrightarrow> \<not> bad"
  by (simp add: check_err_def)

lemma ErrorIdentifier_errID [simp]: "ErrorIdentifier (errID i d) = i"
  by (simp add: errID_def)

lemma bestError_None_Cons [simp]: "bestError (None # es) = bestError es"
  by (simp add: bestError_def)

lemma bestError_single [simp]: "bestError [e] = e"
proof (cases e)
  case (Some x)
  then show ?thesis using rank_with_bound [of x] by (simp add: bestError_def)
qed simp

end
