(* ===== verification/Types.thy ===== *)
theory Types
  imports Errors
begin

text \<open>
  The records of \<^verbatim>\<open>semreg/v1/types.go\<close>. Every Go struct is a \<open>record\<close> with the source's
  fields, prefixed by an abbreviation of the struct because field names are global here. A string
  enumeration is a \<open>datatype\<close> with the declared constants and one constructor for every other
  string. Identifier types are strings; \<^verbatim>\<open>Uint64\<close> and \<^verbatim>\<open>Int64\<close> are the decimal strings they
  are in the source. A pointer field is an \<open>option\<close>, a slice is a \<open>slice\<close>.
\<close>

section \<open>Scalar types\<close>

type_synonym ContractVersion = string
type_synonym DefinitionID = string
type_synonym OpaqueID = string
type_synonym Digest = string
type_synonym SemanticVersion = string
type_synonym VersionLabel = string
type_synonym Uint64 = string
type_synonym Int64 = string
type_synonym AssetID = OpaqueID
type_synonym SourceID = OpaqueID
type_synonym SourceEpochID = OpaqueID
type_synonym ClockEpochID = OpaqueID
type_synonym NativeBindingID = OpaqueID
type_synonym CandidateID = OpaqueID
type_synonym ConflictID = OpaqueID
type_synonym CapabilityInstanceID = OpaqueID
type_synonym ServiceInstanceID = OpaqueID
type_synonym SnapshotID = OpaqueID
type_synonym BatchID = OpaqueID
type_synonym OriginID = OpaqueID
type_synonym CorrelationID = OpaqueID
type_synonym PolicyID = OpaqueID
type_synonym TargetID = OpaqueID

definition ContractKernelV1 :: ContractVersion where
  "ContractKernelV1 = ''helianthus.semantic.kernel/v1''"

definition ContractEvaluationV1 :: ContractVersion where
  "ContractEvaluationV1 = ''helianthus.semantic.evaluation/v1''"

definition ContractSelectionV1 :: ContractVersion where
  "ContractSelectionV1 = ''helianthus.semantic.selection/v1''"

definition ContractRetainedObservationV1 :: ContractVersion where
  "ContractRetainedObservationV1 = ''helianthus.semantic.retained-observation/v1''"

record VersionRange =
  vr_Minimum :: SemanticVersion
  vr_MaximumExclusive :: SemanticVersion

section \<open>Evidence, time and identity\<close>

datatype EvidenceAccess = EvidenceAccessPublic | EvidenceAccessAuthorized | EvidenceAccessRestricted
  | EvidenceAccessOther string

datatype RedactionState = RedactionNone | RedactionRedacted | RedactionMetadataOnly
  | RedactionOther string

record EvidenceRef =
  ev_Owner :: DefinitionID
  ev_Kind :: DefinitionID
  ev_Digest :: Digest
  ev_Contract :: ContractVersion
  ev_Access :: EvidenceAccess
  ev_Redaction :: RedactionState

datatype SourceState = SourceCurrent | SourceRetired | SourceStateOther string

record TimePoint =
  tp_UnixNanoseconds :: Int64
  tp_ClockID :: DefinitionID
  tp_UncertaintyNS :: Uint64

record MonotonicPoint =
  mp_ClockEpochID :: ClockEpochID
  mp_Nanoseconds :: Uint64

record SourceDescriptor =
  sd_SourceID :: SourceID
  sd_SourceEpochID :: SourceEpochID
  sd_ProtocolID :: DefinitionID
  sd_ProfileID :: DefinitionID
  sd_ProfileVersion :: VersionLabel
  sd_RegistryEvidence :: EvidenceRef
  sd_StartedAt :: TimePoint
  sd_State :: SourceState
  sd_Revision :: Uint64

datatype OriginKind = OriginNativeObservation | OriginDerived | OriginOperator | OriginAutomation
  | OriginProjection | OriginKindOther string

record OriginRef =
  or_OriginID :: OriginID
  or_Kind :: OriginKind
  or_SourceID :: "SourceID option"
  or_SourceEpochID :: "SourceEpochID option"
  or_BindingID :: "NativeBindingID option"
  or_Evidence :: "EvidenceRef slice"

datatype BindingState = BindingCurrent | BindingFenced | BindingRetired | BindingStateOther string

record NativeBinding =
  nb_BindingID :: NativeBindingID
  nb_AssetID :: AssetID
  nb_SourceID :: SourceID
  nb_SourceEpochID :: SourceEpochID
  nb_DriverGeneration :: Uint64
  nb_NativeResource :: EvidenceRef
  nb_State :: BindingState
  nb_Revision :: Uint64

datatype LinkState = LinkCandidate | LinkQualified | LinkRejected | LinkConflict | LinkWithdrawn
  | LinkStateOther string

record IdentityLink =
  il_AssetID :: AssetID
  il_BindingID :: NativeBindingID
  il_State :: LinkState
  il_Basis :: "EvidenceRef slice"
  il_Revision :: Uint64

record SourcePathRef =
  sp_BindingID :: NativeBindingID
  sp_SourceID :: SourceID
  sp_SourceEpochID :: SourceEpochID
  sp_DriverGeneration :: Uint64

record DerivationInput =
  di_CandidateID :: CandidateID
  di_CandidateRevision :: Uint64
  di_SourcePaths :: "SourcePathRef slice"

record Derivation =
  dv_Algorithm :: DefinitionID
  dv_Version :: SemanticVersion
  dv_Inputs :: "DerivationInput slice"
  dv_Evidence :: "EvidenceRef slice"

section \<open>Values, facts and quality\<close>

record Decimal =
  dc_Coefficient :: string
  dc_Exponent10 :: int

record Symbol =
  sy_Namespace :: DefinitionID
  sy_Token :: string
  sy_Known :: bool

datatype ValueKind = ValueQuantity | ValueBoolean | ValueText | ValueSymbol | ValueSymbols | ValueTime
  | ValueKindOther string

record Quantity =
  qt_Number :: Decimal
  qt_Unit :: DefinitionID

record Value =
  vl_Kind :: ValueKind
  vl_Quantity :: "Quantity option"
  vl_Boolean :: "bool option"
  vl_Text :: "string option"
  vl_Symbol :: "Symbol option"
  vl_Symbols :: "Symbol slice"
  vl_Time :: "TimePoint option"

record Dimension =
  dm_ID :: DefinitionID
  dm_Value :: Value

record FactKey =
  fk_PackID :: DefinitionID
  fk_PackVersion :: SemanticVersion
  fk_FactID :: DefinitionID
  fk_Dimensions :: "Dimension slice"

record Times =
  tm_PhenomenonAt :: "TimePoint option"
  tm_SourceAt :: "TimePoint option"
  tm_ReceivedAt :: TimePoint
  tm_ReceiptMonotonic :: MonotonicPoint
  tm_EvaluatedAt :: TimePoint
  tm_EvaluateMonotonic :: MonotonicPoint

record FreshnessPolicy =
  fp_PolicyID :: PolicyID
  fp_Version :: SemanticVersion
  fp_FreshForNS :: Uint64
  fp_RetainForNS :: Uint64
  fp_MaxWallUncertaintyNS :: Uint64

datatype AssertionKind = AssertionObserved | AssertionInferred | AssertionKindOther string

datatype Qualification = QualificationCandidate | QualificationQualified | QualificationUnsupported
  | QualificationUnknown | QualificationRejected | QualificationOther string

datatype Promotion = PromotionUnpromoted | PromotionPromoted | PromotionOther string

datatype Validity = ValidityGood | ValiditySuspect | ValidityBad | ValidityUnknown
  | ValidityOther string

datatype Availability = AvailabilityAvailable | AvailabilityDegraded | AvailabilityUnavailable
  | AvailabilityWithdrawn | AvailabilityOther string

datatype Freshness = FreshnessFresh | FreshnessStale | FreshnessExpired | FreshnessUnknown
  | FreshnessOther string

record Quality =
  ql_Assertion :: AssertionKind
  ql_Qualification :: Qualification
  ql_Promotion :: Promotion
  ql_Validity :: Validity
  ql_Availability :: Availability
  ql_Freshness :: Freshness
  ql_Reasons :: "DefinitionID slice"

text \<open>\<^verbatim>\<open>HopCount\<close> and \<^verbatim>\<open>MaxHops\<close> are \<^verbatim>\<open>uint16\<close> values.\<close>

record CausalContext =
  cc_Origin :: OriginRef
  cc_CorrelationID :: CorrelationID
  cc_ParentCorrelationID :: "CorrelationID option"
  cc_HopCount :: nat
  cc_MaxHops :: nat
  cc_FirstSeenAt :: TimePoint
  cc_ExpiresAt :: TimePoint
  cc_Path :: "TargetID slice"

record FactCandidate =
  fc_CandidateID :: CandidateID
  fc_Key :: FactKey
  fc_Value :: "Value option"
  fc_Quality :: Quality
  fc_Times :: Times
  fc_FreshnessPolicy :: FreshnessPolicy
  fc_BindingID :: "NativeBindingID option"
  fc_SourceEpochID :: "SourceEpochID option"
  fc_DriverGeneration :: "Uint64 option"
  fc_Origin :: OriginRef
  fc_Causal :: "CausalContext option"
  fc_Evidence :: "EvidenceRef slice"
  fc_Derivation :: "Derivation option"
  fc_Revision :: Uint64

datatype ConflictKind = ConflictValue | ConflictKindOther string

datatype ConflictState = ConflictOpen | ConflictStateOther string

record Conflict =
  cf_ConflictID :: ConflictID
  cf_Kind :: ConflictKind
  cf_Candidates :: "CandidateID slice"
  cf_Evidence :: "EvidenceRef slice"
  cf_State :: ConflictState

record FactEnvelope =
  fe_AssetID :: AssetID
  fe_Key :: FactKey
  fe_Candidates :: "FactCandidate slice"
  fe_Conflicts :: "Conflict slice"
  fe_Revision :: Uint64

datatype RetainedRemoval = RetainedRemovalGenerationFence | RetainedRemovalSourceRetirement
  | RetainedRemovalOther string

record RetainedObservationRecord =
  ro_Contract :: ContractVersion
  ro_Candidate :: FactCandidate
  ro_Removal :: RetainedRemoval

section \<open>Definitions, services and capabilities\<close>

record PackRef =
  pk_ID :: DefinitionID
  pk_Version :: SemanticVersion

record DefinitionRef =
  df_Pack :: PackRef
  df_ID :: DefinitionID
  df_Version :: SemanticVersion

record DefinitionIndex =
  dx_Pack :: PackRef
  dx_Fields :: "DefinitionRef slice"
  dx_Services :: "DefinitionRef slice"
  dx_Capabilities :: "DefinitionRef slice"
  dx_Operations :: "DefinitionRef slice"
  dx_EffectRules :: "DefinitionRef slice"

record TypedField =
  tf_ID :: DefinitionID
  tf_Value :: Value

datatype PredicateOp = PredicateEqual | PredicateNotEqual | PredicateLess | PredicateLessEqual
  | PredicateGreater | PredicateGreaterEqual | PredicateContains | PredicateOther string

record ServiceInstance =
  si_InstanceID :: ServiceInstanceID
  si_AssetID :: AssetID
  si_Definition :: DefinitionRef
  si_BindingID :: NativeBindingID
  si_SourceEpochID :: SourceEpochID
  si_DriverGeneration :: Uint64
  si_Qualification :: Qualification
  si_Availability :: Availability
  si_Revision :: Uint64

record CapabilityInstance =
  ci_InstanceID :: CapabilityInstanceID
  ci_AssetID :: AssetID
  ci_ServiceInstance :: ServiceInstanceID
  ci_Definition :: DefinitionRef
  ci_BindingID :: NativeBindingID
  ci_SourceEpochID :: SourceEpochID
  ci_DriverGeneration :: Uint64
  ci_Qualification :: Qualification
  ci_Availability :: Availability
  ci_Constraints :: "TypedField slice"
  ci_ActivationEvidence :: "EvidenceRef slice"
  ci_Revision :: Uint64

record GenerationFence =
  gf_SourceID :: SourceID
  gf_SourceEpochID :: SourceEpochID
  gf_DriverGeneration :: Uint64
  gf_Reason :: DefinitionID
  gf_Evidence :: "EvidenceRef slice"
  gf_Revision :: Uint64

section \<open>Publication, evaluation and selection\<close>

record PublicationBatch =
  pb_Contract :: ContractVersion
  pb_BatchID :: BatchID
  pb_BatchDigest :: Digest
  pb_AssetID :: AssetID
  pb_SourceID :: SourceID
  pb_SourceEpochID :: SourceEpochID
  pb_DriverGeneration :: Uint64
  pb_Sequence :: Uint64
  pb_ExpectedSemanticRevision :: Uint64
  pb_ObservedAt :: TimePoint
  pb_SourceUpserts :: "SourceDescriptor slice"
  pb_SourceRetirements :: "SourceEpochID slice"
  pb_BindingUpserts :: "NativeBinding slice"
  pb_IdentityLinkUpserts :: "IdentityLink slice"
  pb_FactUpserts :: "FactCandidate slice"
  pb_FactWithdrawals :: "CandidateID slice"
  pb_ServiceUpserts :: "ServiceInstance slice"
  pb_ServiceWithdrawals :: "ServiceInstanceID slice"
  pb_CapabilityUpserts :: "CapabilityInstance slice"
  pb_CapabilityWithdrawals :: "CapabilityInstanceID slice"
  pb_GenerationFences :: "GenerationFence slice"

record RevisionVector =
  rv_Semantic :: Uint64
  rv_Identity :: Uint64
  rv_Facts :: Uint64
  rv_Services :: Uint64
  rv_Capabilities :: Uint64

record PublicationCursor =
  pc_SourceID :: SourceID
  pc_SourceEpochID :: SourceEpochID
  pc_DriverGeneration :: Uint64
  pc_LastSequence :: Uint64
  pc_LastBatchDigest :: Digest
  pc_Fenced :: bool

record Snapshot =
  sn_Contract :: ContractVersion
  sn_SnapshotID :: SnapshotID
  sn_AssetID :: AssetID
  sn_Revisions :: RevisionVector
  sn_EvaluatedAt :: TimePoint
  sn_EvaluateMonotonic :: MonotonicPoint
  sn_Sources :: "SourceDescriptor slice"
  sn_Bindings :: "NativeBinding slice"
  sn_IdentityLinks :: "IdentityLink slice"
  sn_Facts :: "FactEnvelope slice"
  sn_Retained :: "RetainedObservationRecord slice"
  sn_Services :: "ServiceInstance slice"
  sn_Capabilities :: "CapabilityInstance slice"
  sn_Fences :: "GenerationFence slice"
  sn_Cursors :: "PublicationCursor slice"

record EvaluationContext =
  ec_EvaluatedAt :: TimePoint
  ec_EvaluateMonotonic :: MonotonicPoint

record EvaluatedFact =
  ef_CandidateID :: CandidateID
  ef_CandidateRevision :: Uint64
  ef_Freshness :: Freshness
  ef_EffectiveAvailability :: Availability

record EvaluatedRetainedObservation =
  er_Observation :: RetainedObservationRecord
  er_Freshness :: Freshness

record EvaluationView =
  vw_Contract :: ContractVersion
  vw_SnapshotID :: SnapshotID
  vw_Revisions :: RevisionVector
  vw_Context :: EvaluationContext
  vw_Facts :: "EvaluatedFact slice"
  vw_Retained :: "EvaluatedRetainedObservation slice"
  vw_EvaluationDigest :: Digest

record Selection =
  sl_Contract :: ContractVersion
  sl_SnapshotID :: SnapshotID
  sl_Revisions :: RevisionVector
  sl_EvaluationDigest :: Digest
  sl_Context :: EvaluationContext
  sl_Key :: FactKey
  sl_PolicyID :: PolicyID
  sl_PolicyVersion :: SemanticVersion
  sl_SelectedCandidate :: CandidateID
  sl_CandidateRevision :: Uint64
  sl_PresentationOnly :: bool

text \<open>\<^verbatim>\<open>SelectionPolicy\<close> and \<^verbatim>\<open>PackValidator\<close> are interfaces implemented by other packages; a
  value of the interface is the record of its methods.\<close>

record SelectionPolicy =
  py_PolicyID :: PolicyID
  py_Version :: SemanticVersion
  py_Select :: "FactEnvelope \<Rightarrow> EvaluatedFact list \<Rightarrow> error + CandidateID"

record PackValidator =
  pv_Pack :: PackRef
  pv_Definitions :: DefinitionIndex
  pv_ValidateFact :: "FactKey \<Rightarrow> Value option \<Rightarrow> err"
  pv_ValidateService :: "ServiceInstance \<Rightarrow> err"
  pv_ValidateCapability :: "CapabilityInstance \<Rightarrow> err"
  pv_ValidateField :: "DefinitionRef \<Rightarrow> TypedField \<Rightarrow> err"
  pv_MatchConstraints :: "CapabilityInstance \<Rightarrow> TypedField slice \<Rightarrow> err"
  pv_EvaluatePredicate :: "FactCandidate \<Rightarrow> PredicateOp \<Rightarrow> Value \<Rightarrow> error + bool"

text \<open>What the model takes from outside the repository: \<open>nfc_normal\<close> is
  \<^verbatim>\<open>norm.NFC.IsNormalString\<close> of \<^verbatim>\<open>golang.org/x/text\<close>, and \<open>sha256_hex\<close> is the hexadecimal
  SHA-256 digest, left open so that the theorems hold for every hash function.\<close>

record env =
  nfc_normal :: "string \<Rightarrow> bool"
  sha256_hex :: "string \<Rightarrow> string"

end
