(* ===== verification/Scalars.thy ===== *)
theory Scalars
  imports Types
begin

text \<open>
  Scalar syntax of \<^verbatim>\<open>semreg/v1/validation.go\<close>: the identifier patterns, 64-bit decimal counters,
  semantic versions and text. Counters are canonical decimal strings, so comparing them as strings
  (as the kernel does for revisions, sequences and generations) is comparing the numbers.
\<close>

section \<open>Patterns\<close>

definition lower_digit :: "char \<Rightarrow> bool" where
  "lower_digit c \<longleftrightarrow> lower c \<or> digit c"

definition nonzero_digit :: "char \<Rightarrow> bool" where
  "nonzero_digit c \<longleftrightarrow> 49 \<le> byte c \<and> byte c \<le> 57"

definition alnum :: "char \<Rightarrow> bool" where
  "alnum c \<longleftrightarrow> upper c \<or> lower c \<or> digit c"

definition hex_digit :: "char \<Rightarrow> bool" where
  "hex_digit c \<longleftrightarrow> digit c \<or> 97 \<le> byte c \<and> byte c \<le> 102"

definition contractRE :: regex where
  "contractRE = Seq (Class lower) (Seq (Star (Class lower_digit))
     (Seq (Star (Seq (Class (one_of ''._/-'')) (Plus1 (Class lower_digit))))
       (Seq (Class (one_of ''./'')) (Seq (Class (one_of ''v''))
         (Seq (Class nonzero_digit) (Star (Class digit)))))))"

definition definitionRE :: regex where
  "definitionRE = Seq (Class lower) (Seq (Star (Class lower_digit))
     (Plus1 (Seq (Class (one_of ''._-'')) (Plus1 (Class lower_digit)))))"

definition opaque_char :: "char \<Rightarrow> bool" where
  "opaque_char c \<longleftrightarrow> alnum c \<or> one_of ''._:/@-'' c"

definition opaqueRE :: regex where
  "opaqueRE = Seq (Class alnum) (Star (Class opaque_char))"

definition u64RE :: regex where
  "u64RE = Alt (Class (one_of ''0'')) (Seq (Class nonzero_digit) (Star (Class digit)))"

definition i64RE :: regex where
  "i64RE = Alt (Class (one_of ''0''))
     (Seq (Alt Empty (Class (one_of ''-''))) (Seq (Class nonzero_digit) (Star (Class digit))))"

definition coefficientRE :: regex where
  "coefficientRE = Alt (Class (one_of ''0''))
     (Seq (Alt Empty (Class (one_of ''-''))) (Seq (Class nonzero_digit) (Star (Class digit))))"

definition semverRE :: regex where
  "semverRE = Seq u64RE (Seq (Class (one_of ''.'')) (Seq u64RE (Seq (Class (one_of ''.'')) u64RE)))"

definition digestRE :: regex where
  "digestRE = Seq (Lit ''sha256:'') (Times 64 (Class hex_digit))"

definition errorIDRE :: regex where
  "errorIDRE = Seq (Class lower) (Star (Class (\<lambda>c. lower_digit c \<or> one_of ''_'' c)))"

definition validDefinition :: "DefinitionID \<Rightarrow> bool" where
  "validDefinition v \<longleftrightarrow> length v \<ge> 3 \<and> length v \<le> 160 \<and> re_match definitionRE v"

definition validContract :: "ContractVersion \<Rightarrow> bool" where
  "validContract v \<longleftrightarrow> length v \<ge> 1 \<and> length v \<le> 128 \<and> re_match contractRE v"

definition validOpaque :: "string \<Rightarrow> bool" where
  "validOpaque v \<longleftrightarrow> length v \<ge> 1 \<and> length v \<le> 256 \<and> re_match opaqueRE v"

definition validSemver :: "SemanticVersion \<Rightarrow> bool" where
  "validSemver v \<longleftrightarrow> re_match semverRE v"

definition validDigest :: "Digest \<Rightarrow> bool" where
  "validDigest v \<longleftrightarrow> re_match digestRE v"

text \<open>A label is trimmed ASCII without control characters. A byte above 127 is a code point
  above \<^verbatim>\<open>unicode.MaxASCII\<close> (or an invalid byte, read as U+FFFD), so the loop over the runes
  is a loop over the bytes, and \<^verbatim>\<open>strings.TrimSpace\<close> only has to look at ASCII spaces.\<close>

definition ascii_space :: "char \<Rightarrow> bool" where
  "ascii_space c \<longleftrightarrow> byte c = 32 \<or> 9 \<le> byte c \<and> byte c \<le> 13"

definition validVersionLabel :: "VersionLabel \<Rightarrow> bool" where
  "validVersionLabel s \<longleftrightarrow>
     \<not> (length s < 1 \<or> length s > 128 \<or> ascii_space (hd s) \<or> ascii_space (last s)) \<and>
     list_all (\<lambda>c. \<not> (byte c > 127 \<or> is_control (byte c))) s"

section \<open>Counters\<close>

definition u64 :: "Uint64 \<Rightarrow> int option \<times> bool" where
  "u64 v = (if \<not> re_match u64RE v then (None, False)
            else case SetString10 v of
              None \<Rightarrow> (None, False)
            | Some n \<Rightarrow> (Some n, n \<ge> 0 \<and> BitLen_le 64 n))"

definition i64 :: "Int64 \<Rightarrow> int option \<times> bool" where
  "i64 v = (if \<not> re_match i64RE v then (None, False)
            else case SetString10 v of
              None \<Rightarrow> (None, False)
            | Some n \<Rightarrow> (Some n, - (2 ^ 63) \<le> n \<and> n < 2 ^ 63))"

text \<open>The value of a counter where the parse succeeds.\<close>

definition u64_val :: "Uint64 \<Rightarrow> int option" where
  "u64_val v = (if snd (u64 v) then fst (u64 v) else None)"

definition i64_val :: "Int64 \<Rightarrow> int option" where
  "i64_val v = (if snd (i64 v) then fst (i64 v) else None)"

definition positive :: "Uint64 \<Rightarrow> bool" where
  "positive v = (case u64_val v of Some n \<Rightarrow> n > 0 | None \<Rightarrow> False)"

fun split_dots :: "string \<Rightarrow> string list" where
  "split_dots [] = [[]]"
| "split_dots (c # s) =
     (if c = CHR ''.'' then [] # split_dots s
      else case split_dots s of w # ws \<Rightarrow> (c # w) # ws | [] \<Rightarrow> [[c]])"

fun compare_parts :: "string list \<Rightarrow> string list \<Rightarrow> int" where
  "compare_parts (a # as) (b # bs) =
     (case (SetString10 a, SetString10 b) of
        (Some an, Some bn) \<Rightarrow> if int_cmp an bn \<noteq> 0 then int_cmp an bn else compare_parts as bs
      | _ \<Rightarrow> compare_parts as bs)"
| "compare_parts _ _ = 0"

definition compareSemver :: "SemanticVersion \<Rightarrow> SemanticVersion \<Rightarrow> int \<times> bool" where
  "compareSemver a b =
     (if \<not> validSemver a \<or> \<not> validSemver b then (0, False)
      else (compare_parts (split_dots a) (split_dots b), True))"

definition compareUint64 :: "Uint64 \<Rightarrow> Uint64 \<Rightarrow> int" where
  "compareUint64 a b = (case (fst (u64 a), fst (u64 b)) of
     (Some an, Some bn) \<Rightarrow> int_cmp an bn
   | _ \<Rightarrow> string_compare a b)"

definition increment :: "Uint64 \<Rightarrow> Uint64" where
  "increment value = (case fst (u64 value) of None \<Rightarrow> ''1'' | Some n \<Rightarrow> int_string (n + 1))"

section \<open>Text\<close>

definition validateText :: "env \<Rightarrow> string \<Rightarrow> nat \<Rightarrow> nat \<Rightarrow> bool \<Rightarrow> err" where
  "validateText E s mn mx controls =
     (if \<not> utf8_valid s \<or> \<not> nfc_normal E s then Some (errID InvalidValue ''text'')
      else if length s < mn \<or> length s > mx then Some (errID BoundsExceeded ''text'')
      else if list_ex (\<lambda>r. case r of None \<Rightarrow> False
                       | Some r \<Rightarrow> is_control r \<and> (\<not> controls \<or> (r \<noteq> 9 \<and> r \<noteq> 10 \<and> r \<noteq> 13))) (runes s)
      then Some (errID InvalidValue ''text control'') else None)"

section \<open>Validate methods of the scalar types\<close>

definition ContractVersion_Validate :: "ContractVersion \<Rightarrow> err" where
  "ContractVersion_Validate v = check_err (\<not> validContract v) InvalidContract ''contract''"

definition DefinitionID_Validate :: "DefinitionID \<Rightarrow> err" where
  "DefinitionID_Validate v = check_err (\<not> validDefinition v) InvalidIdentifier ''definition''"

definition Digest_Validate :: "Digest \<Rightarrow> err" where
  "Digest_Validate v = check_err (\<not> validDigest v) InvalidValue ''digest''"

definition SemanticVersion_Validate :: "SemanticVersion \<Rightarrow> err" where
  "SemanticVersion_Validate v = check_err (\<not> validSemver v) InvalidIdentifier ''semantic version''"

definition VersionLabel_Validate :: "VersionLabel \<Rightarrow> err" where
  "VersionLabel_Validate v = check_err (\<not> validVersionLabel v) InvalidValue ''version label''"

definition Uint64_Validate :: "Uint64 \<Rightarrow> err" where
  "Uint64_Validate v = check_err (\<not> snd (u64 v)) InvalidValue ''uint64''"

definition Int64_Validate :: "Int64 \<Rightarrow> err" where
  "Int64_Validate v = check_err (\<not> snd (i64 v)) InvalidValue ''int64''"

definition validateOpaqueValue :: "string \<Rightarrow> string \<Rightarrow> err" where
  "validateOpaqueValue v detail = check_err (\<not> validOpaque v) InvalidIdentifier detail"

definition VersionRange_Validate :: "VersionRange \<Rightarrow> err" where
  "VersionRange_Validate r =
     (let (cmp, ok) = compareSemver (vr_Minimum r) (vr_MaximumExclusive r) in
      bestError
        [check_err (\<not> validSemver (vr_Minimum r) \<or> \<not> validSemver (vr_MaximumExclusive r))
           InvalidIdentifier ''version range'',
         check_err (ok \<and> cmp \<ge> 0) InvalidValue ''version range''])"

definition VersionRange_Matches :: "VersionRange \<Rightarrow> SemanticVersion \<Rightarrow> error + bool" where
  "VersionRange_Matches r v =
     (case bestError [VersionRange_Validate r, SemanticVersion_Validate v] of
        Some e \<Rightarrow> Inl e
      | None \<Rightarrow> Inr (fst (compareSemver (vr_Minimum r) v) \<le> 0 \<and>
                     fst (compareSemver v (vr_MaximumExclusive r)) < 0))"

section \<open>Laws\<close>

lemmas scalar_validate_defs = ContractVersion_Validate_def DefinitionID_Validate_def
  Digest_Validate_def SemanticVersion_Validate_def VersionLabel_Validate_def Uint64_Validate_def
  Int64_Validate_def validateOpaqueValue_def

lemma scalar_validate_None [simp]:
  "ContractVersion_Validate v = None \<longleftrightarrow> validContract v"
  "DefinitionID_Validate v = None \<longleftrightarrow> validDefinition v"
  "Digest_Validate v = None \<longleftrightarrow> validDigest v"
  "SemanticVersion_Validate v = None \<longleftrightarrow> validSemver v"
  "VersionLabel_Validate v = None \<longleftrightarrow> validVersionLabel v"
  "Uint64_Validate v = None \<longleftrightarrow> snd (u64 v)"
  "Int64_Validate v = None \<longleftrightarrow> snd (i64 v)"
  "validateOpaqueValue v d = None \<longleftrightarrow> validOpaque v"
  by (simp_all add: scalar_validate_defs)

lemma digits_val_bounds:
  assumes "list_all digit ds"
  shows "0 \<le> digits_val ds \<and> digits_val ds < 10 ^ length ds"
  using assms
proof (induction ds rule: rev_induct)
  case (snoc d ds)
  then have "0 \<le> digits_val ds" "digits_val ds < 10 ^ length ds" "0 \<le> digit_val d" "digit_val d \<le> 9"
    by (auto simp: digit_val_def digit_def)
  then show ?case by (simp add: digits_val_snoc)
qed (simp add: digits_val_def)

lemma digits_val_lower:
  assumes "list_all digit (d # ds)" and "nonzero_digit d"
  shows "10 ^ length ds \<le> digits_val (d # ds)"
  using assms(1)
proof (induction ds rule: rev_induct)
  case Nil
  then show ?case using assms(2) by (simp add: digits_val_def digit_val_def nonzero_digit_def)
next
  case (snoc e es)
  then have "10 ^ length es \<le> digits_val (d # es)" "0 \<le> digit_val e"
    by (auto simp: digit_val_def digit_def)
  then show ?case using digits_val_snoc [of "d # es" e] by simp
qed

lemma digit_char_0: "digit_char 0 = CHR ''0''"
proof -
  have "char_of (byte (CHR ''0'')) = CHR ''0''" by (rule char_of_char)
  then show ?thesis by (simp add: digit_char_def)
qed

lemma nonzero_digit_iff: "nonzero_digit c \<longleftrightarrow> digit c \<and> c \<noteq> CHR ''0''"
proof -
  have "byte c = byte (CHR ''0'') \<longleftrightarrow> c = CHR ''0''" by (rule of_char_eq_iff)
  then have "c = CHR ''0'' \<longleftrightarrow> byte c = 48" by simp
  then show ?thesis by (auto simp: nonzero_digit_def digit_def)
qed

lemma canonical_digits:
  assumes "list_all digit (d # ds)" and "nonzero_digit d"
  shows "nat_string (nat (digits_val (d # ds))) = d # ds"
proof -
  let ?n = "nat (digits_val (d # ds))" and ?v = "digits_val (d # ds)"
  have v: "10 ^ length ds \<le> ?v" "?v < 10 ^ Suc (length ds)"
    using digits_val_lower [OF assms] digits_val_bounds [OF assms(1)] by auto
  then have pos: "0 < ?v" by (smt (verit) zero_less_power)
  then obtain e es where es: "nat_string ?n = e # es" "e \<noteq> CHR ''0''" "digit e"
    using nat_string_hd [of ?n] by auto
  have val: "digits_val (e # es) = ?v"
    using digits_val_nat_string [of ?n] es pos by simp
  have dig: "list_all digit (e # es)" using nat_string_digits [of ?n] es by simp
  have "10 ^ length es \<le> ?v" "?v < 10 ^ Suc (length es)"
    using digits_val_lower [OF dig] digits_val_bounds [OF dig] es val
    by (auto simp: nonzero_digit_iff)
  with v have "(10::int) ^ length ds < 10 ^ Suc (length es)" "(10::int) ^ length es < 10 ^ Suc (length ds)"
    by linarith+
  then have "length ds < Suc (length es)" "length es < Suc (length ds)"
    using power_strict_increasing_iff [of "10::int"] by (metis one_less_numeral_iff semiring_norm(76))+
  then have "length ds = length es" by simp
  then have "e # es = d # ds" using digits_val_inj [OF dig assms(1)] val by simp
  with es show ?thesis by simp
qed

lemma u64RE_iff:
  "re_match u64RE v \<longleftrightarrow> v = ''0'' \<or> (\<exists>d ds. v = d # ds \<and> nonzero_digit d \<and> list_all digit ds)"
proof -
  have "in_lang (Seq (Class nonzero_digit) (Star (Class digit))) v \<longleftrightarrow>
      (\<exists>d ds. v = [d] @ ds \<and> nonzero_digit d \<and> list_all digit ds)"
    by (auto simp: in_lang_simps in_lang_star_class list_all_iff)
      (metis append_Cons append_Nil)
  then show ?thesis by (auto simp: re_match_iff u64RE_def in_lang_simps one_of_def)
qed

lemma digit_not_sign: "digit c \<Longrightarrow> c \<noteq> CHR ''-'' \<and> c \<noteq> CHR ''+''"
  by (auto simp: digit_def)

lemma SetString10_digits: "list_all digit (d # ds) \<Longrightarrow> SetString10 (d # ds) = Some (digits_val (d # ds))"
  using digit_not_sign [of d] by (simp add: SetString10_def)

lemma u64_match_value:
  assumes "re_match u64RE v"
  shows "\<exists>n \<ge> 0. SetString10 v = Some n \<and> int_string n = v"
proof (cases "v = ''0''")
  case True
  have "SetString10 ''0'' = Some 0" by (simp add: SetString10_def digit_def digits_val_def digit_val_def)
  moreover have "int_string 0 = ''0''" by (simp add: int_string_def nat_string.simps digit_char_0)
  ultimately show ?thesis using True by auto
next
  case False
  with assms obtain d ds where v: "v = d # ds" "nonzero_digit d" "list_all digit ds"
    by (auto simp: u64RE_iff)
  then have dig: "list_all digit (d # ds)" by (simp add: nonzero_digit_iff)
  show ?thesis
    using v SetString10_digits [OF dig] digits_val_bounds [OF dig] canonical_digits [OF dig]
    by (auto simp: int_string_def)
qed

lemma u64_int_string:
  assumes "0 \<le> n"
  shows "u64 (int_string n) = (Some n, n < 2 ^ 64)"
proof -
  have dig: "list_all digit (nat_string (nat n))" by (rule nat_string_digits)
  have "re_match u64RE (nat_string (nat n))"
  proof (cases "nat n = 0")
    case True
    then have "nat_string (nat n) = ''0''" by (simp add: nat_string.simps digit_char_0)
    then show ?thesis by (simp only: u64RE_iff) simp
  next
    case False
    with nat_string_hd [OF this] dig show ?thesis by (auto simp: u64RE_iff nonzero_digit_iff)
  qed
  moreover have "SetString10 (nat_string (nat n)) = Some n"
    using SetString10_digits dig digits_val_nat_string [of "nat n"] assms
    by (cases "nat_string (nat n)") auto
  ultimately show ?thesis using assms by (simp add: u64_def int_string_def BitLen_le_def)
qed

lemma u64_valD: "u64_val v = Some n \<Longrightarrow> 0 \<le> n \<and> n < 2 ^ 64 \<and> int_string n = v"
  using u64_match_value [of v]
  by (auto simp: u64_val_def u64_def BitLen_le_def split: if_splits option.splits)

lemma u64_val_int_string: "0 \<le> n \<Longrightarrow> n < 2 ^ 64 \<Longrightarrow> u64_val (int_string n) = Some n"
  by (simp add: u64_val_def u64_int_string)

lemma u64_ok_iff: "snd (u64 v) \<longleftrightarrow> u64_val v \<noteq> None"
  by (auto simp: u64_val_def u64_def split: option.splits)

lemma u64_ok_val: "snd (u64 v) \<Longrightarrow> fst (u64 v) = u64_val v"
  by (simp add: u64_val_def)

lemma i64_ok_val: "snd (i64 v) \<Longrightarrow> fst (i64 v) = i64_val v"
  by (simp add: i64_val_def)

lemma i64_ok_iff: "snd (i64 v) \<longleftrightarrow> i64_val v \<noteq> None"
  by (auto simp: i64_val_def i64_def split: option.splits)

lemma positive_iff: "positive v \<longleftrightarrow> (\<exists>n. u64_val v = Some n \<and> 0 < n)"
  by (auto simp: positive_def split: option.splits)

lemma positive_ok: "positive v \<Longrightarrow> snd (u64 v)"
  by (auto simp: positive_iff u64_ok_iff)

lemma u64_val_inj: "u64_val a = Some n \<Longrightarrow> u64_val b = Some n \<Longrightarrow> a = b"
  using u64_valD by metis

lemma increment_val: "u64_val v = Some n \<Longrightarrow> increment v = int_string (n + 1)"
  by (auto simp: increment_def u64_val_def split: if_splits)

text \<open>An increment past the 64-bit range leaves the counter syntax, so the revision checks that
  follow it fail closed.\<close>

lemma increment_positive: "u64_val v = Some n \<Longrightarrow> positive (increment v) \<longleftrightarrow> n + 1 < 2 ^ 64"
  using u64_valD [of v n] u64_int_string [of "n + 1"]
  by (auto simp: increment_val positive_def u64_val_def)

lemma increment_u64_val: "u64_val v = Some n \<Longrightarrow> n + 1 < 2 ^ 64 \<Longrightarrow> u64_val (increment v) = Some (n + 1)"
  using u64_valD [of v n] by (simp add: increment_val u64_val_int_string)

lemma compareUint64_val:
  "u64_val a = Some m \<Longrightarrow> u64_val b = Some n \<Longrightarrow> compareUint64 a b = int_cmp m n"
  by (auto simp: compareUint64_def u64_val_def split: if_splits)

lemma fst_u64_nonneg: "fst (u64 v) = Some n \<Longrightarrow> 0 \<le> n \<and> int_string n = v"
  using u64_match_value [of v] by (auto simp: u64_def split: if_splits option.splits)

lemma string_compare_range: "string_compare s t \<in> {-1, 0, 1}"
  by (induction s t rule: string_compare.induct) auto

lemma validOpaque_ascii: "validOpaque v \<Longrightarrow> c \<in> set v \<Longrightarrow> opaque_char c"
  using in_lang_over [of opaqueRE v opaque_char c]
  by (auto simp: validOpaque_def re_match_iff opaqueRE_def opaque_char_def)

lemma validOpaque_ne [simp]: "\<not> validOpaque []"
  by (simp add: validOpaque_def)

end
