(* ===== verification/Collections.thy ===== *)
theory Collections
  imports Scalars
begin

text \<open>
  Keyed collections. Every slice of records that the contract calls a collection has an identity
  (\<^verbatim>\<open>collectionKeyFields\<close>, \<^verbatim>\<open>collectionKeyValid\<close> and \<^verbatim>\<open>collectionKey\<close> of
  \<^verbatim>\<open>semreg/v1/collector.go\<close>) and must be free of duplicates and in ascending order of it
  (\<^verbatim>\<open>duplicateAndOrder\<close> of \<^verbatim>\<open>semreg/v1/validation.go\<close>). The source finds identity and key by
  reflection on the element type; here each element type has an \<open>identity\<close> record. The locale
  \<open>collection\<close> is what \<^verbatim>\<open>duplicateAndOrder\<close> relies on, and proves that its two booleans mean
  exactly: strictly ascending.
\<close>

section \<open>Identity of an element\<close>

text \<open>The key is the list of its parts; the source joins them by an injective JSON encoding.\<close>

record 'a identity =
  key_valid :: "'a \<Rightarrow> bool"
  key_of :: "'a \<Rightarrow> string list"

fun dup_order_loop :: "'a identity \<Rightarrow> ('a \<Rightarrow> 'a \<Rightarrow> int) \<Rightarrow> string list list \<Rightarrow> 'a option \<Rightarrow> bool \<Rightarrow> bool \<Rightarrow>
    'a list \<Rightarrow> bool \<times> bool" where
  "dup_order_loop I compare seen previous duplicate ordered [] = (duplicate, ordered)"
| "dup_order_loop I compare seen previous duplicate ordered (item # items) =
     (if key_valid I item then
        dup_order_loop I compare (key_of I item # seen) (Some item)
          (duplicate \<or> key_of I item \<in> set seen)
          (ordered \<and> (case previous of None \<Rightarrow> True | Some p \<Rightarrow> \<not> compare p item > 0))
          items
      else dup_order_loop I compare seen previous duplicate ordered items)"

definition duplicateAndOrder :: "'a identity \<Rightarrow> ('a \<Rightarrow> 'a \<Rightarrow> int) \<Rightarrow> 'a slice \<Rightarrow> bool \<times> bool" where
  "duplicateAndOrder I compare items = dup_order_loop I compare [] None False True (elems items)"

definition orderedUnique :: "'a identity \<Rightarrow> ('a \<Rightarrow> 'a \<Rightarrow> int) \<Rightarrow> 'a slice \<Rightarrow> err" where
  "orderedUnique I compare values =
     (let (duplicate, ordered) = duplicateAndOrder I compare values in
      bestError [check_err duplicate DuplicateKey ''collection'',
                 check_err (\<not> ordered) NoncanonicalOrder ''collection''])"

section \<open>The contract\<close>

definition ascending :: "('a \<Rightarrow> 'a \<Rightarrow> int) \<Rightarrow> 'a list \<Rightarrow> bool" where
  "ascending compare xs \<longleftrightarrow> sorted_wrt (\<lambda>a b. compare a b < 0) xs"

locale collection =
  fixes I :: "'a identity" and compare :: "'a \<Rightarrow> 'a \<Rightarrow> int"
  assumes compare_0: "key_valid I x \<Longrightarrow> key_valid I y \<Longrightarrow> compare x y = 0 \<longleftrightarrow> key_of I x = key_of I y"
    and compare_flip: "key_valid I x \<Longrightarrow> key_valid I y \<Longrightarrow> compare y x = - compare x y"
    and compare_trans: "key_valid I x \<Longrightarrow> key_valid I y \<Longrightarrow> key_valid I z \<Longrightarrow>
      compare x y \<le> 0 \<Longrightarrow> compare y z \<le> 0 \<Longrightarrow> compare x z \<le> 0"
begin

lemma less_trans: "key_valid I x \<Longrightarrow> key_valid I y \<Longrightarrow> key_valid I z \<Longrightarrow>
    compare x y < 0 \<Longrightarrow> compare y z \<le> 0 \<Longrightarrow> compare x z < 0"
proof -
  assume v: "key_valid I x" "key_valid I y" "key_valid I z" and l: "compare x y < 0" "compare y z \<le> 0"
  have "compare x z \<le> 0" using v l compare_trans [of x y z] by simp
  moreover have "compare x z \<noteq> 0"
  proof
    assume "compare x z = 0"
    then have "compare z x \<le> 0" using compare_flip [of x z] v by simp
    then have "compare y x \<le> 0" using compare_trans [of y z x] v l by simp
    with compare_flip [of x y] v l show False by simp
  qed
  ultimately show ?thesis by simp
qed

lemma loop_flags:
  "dup_order_loop I compare seen prev d ok xs = (False, True) \<Longrightarrow> \<not> d \<and> ok"
  by (induction I compare seen prev d ok xs rule: dup_order_loop.induct) (auto split: if_splits)

lemma loop_ok_iff:
  assumes "list_all (key_valid I) xs" "list_all (key_valid I) pre" "ascending compare (pre @ [p])"
    "key_valid I p" "set seen = key_of I ` set (pre @ [p])"
  shows "dup_order_loop I compare seen (Some p) False True xs = (False, True) \<longleftrightarrow>
      ascending compare (pre @ p # xs)"
  using assms
proof (induction xs arbitrary: seen pre p)
  case (Cons x xs)
  have vx: "key_valid I x" using Cons.prems(1) by simp
  show ?case
  proof (cases "compare p x < 0")
    case True
    have below: "compare y x < 0" if "y \<in> set (pre @ [p])" for y
    proof (cases "y = p")
      case False
      with that have y: "y \<in> set pre" by simp
      then have "compare y p < 0" using Cons.prems(3) by (simp add: ascending_def sorted_wrt_append)
      moreover have "key_valid I y" using Cons.prems(2) y by (simp add: list_all_iff)
      ultimately show ?thesis using less_trans [of y p x] True vx Cons.prems(4) by simp
    qed (use True in simp)
    have "key_of I x \<noteq> key_of I y" if "y \<in> set (pre @ [p])" for y
    proof -
      have "key_valid I y" using Cons.prems(2,4) that by (auto simp: list_all_iff)
      then show ?thesis using compare_0 [of y x] below [OF that] vx by auto
    qed
    then have new: "key_of I x \<notin> set seen" using Cons.prems(5) by auto
    have asc: "ascending compare ((pre @ [p]) @ [x])"
      using Cons.prems(3) below by (simp add: ascending_def sorted_wrt_append)
    have "dup_order_loop I compare (key_of I x # seen) (Some x) False True xs = (False, True) \<longleftrightarrow>
        ascending compare ((pre @ [p]) @ x # xs)"
      by (rule Cons.IH) (use Cons.prems vx asc in auto)
    then show ?thesis using new vx True by simp
  next
    case False
    have "\<not> ascending compare (pre @ p # x # xs)"
      using False by (simp add: ascending_def sorted_wrt_append)
    moreover have "dup_order_loop I compare seen (Some p) False True (x # xs) \<noteq> (False, True)"
    proof
      assume ok: "dup_order_loop I compare seen (Some p) False True (x # xs) = (False, True)"
      have "\<not> key_of I x \<in> set seen \<and> \<not> compare p x > 0"
        using ok vx by (auto dest!: loop_flags)
      with False have "compare p x = 0" and "key_of I x \<notin> set seen" by simp_all
      then show False using compare_0 [of p x] vx Cons.prems(4,5) by auto
    qed
    ultimately show ?thesis by blast
  qed
qed (simp add: ascending_def)

text \<open>No duplicate and no disorder is exactly strictly ascending.\<close>

lemma duplicateAndOrder_iff:
  assumes "list_all (key_valid I) (elems xs)"
  shows "duplicateAndOrder I compare xs = (False, True) \<longleftrightarrow> ascending compare (elems xs)"
proof (cases "elems xs")
  case (Cons y ys)
  then show ?thesis using loop_ok_iff [of ys "[]" y "[key_of I y]"] assms
    by (simp add: duplicateAndOrder_def ascending_def)
qed (simp add: duplicateAndOrder_def ascending_def)

lemma orderedUnique_iff:
  assumes "list_all (key_valid I) (elems xs)"
  shows "orderedUnique I compare xs = None \<longleftrightarrow> ascending compare (elems xs)"
  using duplicateAndOrder_iff [OF assms]
  by (auto simp: orderedUnique_def split: prod.splits)

lemma ascending_distinct:
  assumes "ascending compare xs" and "list_all (key_valid I) xs"
  shows "distinct (map (key_of I) xs)"
  using assms
proof (induction xs)
  case (Cons x xs)
  then have "\<forall>y \<in> set xs. compare x y < 0" "\<forall>y \<in> set (x # xs). key_valid I y"
    by (simp_all add: ascending_def list_all_iff)
  then have "\<forall>y \<in> set xs. key_of I x \<noteq> key_of I y" using compare_0 by fastforce
  with Cons show ?case by (auto simp: ascending_def image_iff)
qed simp

text \<open>Two ascending collections with the same elements are the same list: the canonical form of a
  collection is unique.\<close>

lemma ascending_unique:
  assumes "ascending compare xs" "ascending compare ys" "set xs = set ys"
    and "list_all (key_valid I) xs" "list_all (key_valid I) ys"
  shows "xs = ys"
  using assms
proof (induction xs arbitrary: ys)
  case (Cons x xs)
  then obtain y zs where ys: "ys = y # zs" by (cases ys) auto
  have v: "key_valid I x" "key_valid I y" using Cons.prems(4,5) ys by simp_all
  have "x = y"
  proof (rule ccontr)
    assume "x \<noteq> y"
    then have "x \<in> set zs" "y \<in> set xs" using Cons.prems(3) ys by auto
    then have "compare y x < 0" "compare x y < 0" using Cons.prems(1,2) ys by (simp_all add: ascending_def)
    with compare_flip [of x y] v show False by simp
  qed
  moreover have "x \<notin> set xs" "y \<notin> set zs"
    using Cons.prems(1,2) ys v compare_0 [of x x] compare_0 [of y y] by (auto simp: ascending_def)
  ultimately have "set xs = set zs" using Cons.prems(3) ys by auto
  with Cons ys \<open>x = y\<close> show ?case by (simp add: ascending_def)
qed simp

end

section \<open>Building instances\<close>

text \<open>A comparison that separates keys, read off a comparator on some view of the element.\<close>

lemma collection_on:
  assumes cmp: "comparator c" and zero: "\<And>a b. c a b = 0 \<longleftrightarrow> a = b"
    and view: "\<And>x y. key_valid I x \<Longrightarrow> key_valid I y \<Longrightarrow> f x = f y \<longleftrightarrow> key_of I x = key_of I y"
  shows "collection I (cmp_on f c)"
proof
  show "cmp_on f c x y = 0 \<longleftrightarrow> key_of I x = key_of I y" if "key_valid I x" "key_valid I y" for x y
    using that by (simp add: cmp_on_def zero view)
  show "cmp_on f c y x = - cmp_on f c x y" for x y
    unfolding cmp_on_def by (rule comparator.cmp_flip [OF cmp])
  show "cmp_on f c x y \<le> 0 \<Longrightarrow> cmp_on f c y z \<le> 0 \<Longrightarrow> cmp_on f c x z \<le> 0" for x y z
    unfolding cmp_on_def by (rule comparator.cmp_trans [OF cmp])
qed

text \<open>Collections keyed by one string.\<close>

definition string_identity :: "(string \<Rightarrow> bool) \<Rightarrow> ('a \<Rightarrow> string) \<Rightarrow> 'a identity" where
  "string_identity valid f = \<lparr>key_valid = (\<lambda>x. valid (f x)), key_of = (\<lambda>x. [f x])\<rparr>"

lemma string_identity_simps [simp]:
  "key_valid (string_identity valid f) x = valid (f x)"
  "key_of (string_identity valid f) x = [f x]"
  by (simp_all add: string_identity_def)

interpretation by_string: collection "string_identity valid f" "cmp_on f string_compare" for valid f
  by (rule collection_on) (simp_all add: string_cmp.comparator_axioms)

text \<open>Comparing counters that are known to be valid.\<close>

lemma compareUint64_0: "snd (u64 a) \<Longrightarrow> snd (u64 b) \<Longrightarrow> compareUint64 a b = 0 \<longleftrightarrow> a = b"
proof -
  assume "snd (u64 a)" "snd (u64 b)"
  then obtain m n where v: "u64_val a = Some m" "u64_val b = Some n" by (auto simp: u64_ok_iff)
  then have "compareUint64 a b = 0 \<longleftrightarrow> m = n"
    by (simp add: compareUint64_val int_cmp_def)
  with v u64_val_inj [of a n b] show ?thesis by auto
qed

lemma compareUint64_flip: "compareUint64 b a = - compareUint64 a b"
  using int_cmp.cmp_flip [of "the (fst (u64 b))" "the (fst (u64 a))"] string_compare_flip [of b a]
  by (cases "fst (u64 a)"; cases "fst (u64 b)") (simp_all add: compareUint64_def)

lemma compareUint64_trans:
  "snd (u64 a) \<Longrightarrow> snd (u64 b) \<Longrightarrow> snd (u64 c) \<Longrightarrow>
     compareUint64 a b \<le> 0 \<Longrightarrow> compareUint64 b c \<le> 0 \<Longrightarrow> compareUint64 a c \<le> 0"
proof -
  assume "snd (u64 a)" "snd (u64 b)" "snd (u64 c)" and le: "compareUint64 a b \<le> 0" "compareUint64 b c \<le> 0"
  then obtain l m n where v: "u64_val a = Some l" "u64_val b = Some m" "u64_val c = Some n"
    by (auto simp: u64_ok_iff)
  show ?thesis
    using le int_cmp.cmp_trans [of l m n]
    by (simp add: compareUint64_val [OF v(1,2)] compareUint64_val [OF v(2,3)] compareUint64_val [OF v(1,3)])
qed

text \<open>Two comparisons in sequence separate the pair of keys.\<close>

lemma collection_then:
  assumes a: "collection I c1" and b: "collection J c2"
    and valid: "\<And>x. key_valid K x \<Longrightarrow> key_valid I x \<and> key_valid J x"
    and key: "\<And>x y. key_of K x = key_of K y \<longleftrightarrow> key_of I x = key_of I y \<and> key_of J x = key_of J y"
  shows "collection K (cmp_then c1 c2)"
proof
  fix x y assume "key_valid K x" "key_valid K y"
  then have v: "key_valid I x" "key_valid I y" "key_valid J x" "key_valid J y" using valid by auto
  show "cmp_then c1 c2 x y = 0 \<longleftrightarrow> key_of K x = key_of K y"
    using collection.compare_0 [OF a v(1,2)] collection.compare_0 [OF b v(3,4)] key
    by (auto simp: cmp_then_def)
  show "cmp_then c1 c2 y x = - cmp_then c1 c2 x y"
    using collection.compare_flip [OF a v(1,2)] collection.compare_flip [OF b v(3,4)]
    by (simp add: cmp_then_def)
next
  fix x y z
  assume v: "key_valid K x" "key_valid K y" "key_valid K z"
    and le: "cmp_then c1 c2 x y \<le> 0" "cmp_then c1 c2 y z \<le> 0"
  have vi: "key_valid I x" "key_valid I y" "key_valid I z"
    and vj: "key_valid J x" "key_valid J y" "key_valid J z" using v valid by auto
  have t: "c1 x y \<le> 0" "c1 y z \<le> 0" using le by (auto simp: cmp_then_def split: if_splits)
  then have xz: "c1 x z \<le> 0" using collection.compare_trans [OF a vi] by blast
  show "cmp_then c1 c2 x z \<le> 0"
  proof (cases "c1 x z = 0")
    case True
    have "\<not> c1 x y < 0" using collection.less_trans [OF a vi _ t(2)] True by auto
    with t have "c1 x y = 0" by simp
    moreover from this have "c1 y z = 0"
      using True collection.compare_0 [OF a] vi by metis
    ultimately show ?thesis
      using le True collection.compare_trans [OF b vj] by (simp add: cmp_then_def)
  next
    case False
    with xz show ?thesis by (simp add: cmp_then_def)
  qed
qed

definition counter_identity :: "('a \<Rightarrow> Uint64) \<Rightarrow> 'a identity" where
  "counter_identity f = \<lparr>key_valid = (\<lambda>x. positive (f x)), key_of = (\<lambda>x. [f x])\<rparr>"

lemma counter_identity_simps [simp]:
  "key_valid (counter_identity f) x = positive (f x)" "key_of (counter_identity f) x = [f x]"
  by (simp_all add: counter_identity_def)

interpretation by_counter: collection "counter_identity f" "cmp_on f compareUint64" for f
proof
  show "cmp_on f compareUint64 x y = 0 \<longleftrightarrow>
      key_of (counter_identity f) x = key_of (counter_identity f) y"
    if "key_valid (counter_identity f) x" "key_valid (counter_identity f) y" for x y :: 'a
    using that by (simp add: cmp_on_def compareUint64_0 positive_ok)
  show "cmp_on f compareUint64 y x = - cmp_on f compareUint64 x y" for x y
    unfolding cmp_on_def by (rule compareUint64_flip)
  show "cmp_on f compareUint64 x y \<le> 0 \<Longrightarrow> cmp_on f compareUint64 y z \<le> 0 \<Longrightarrow>
      cmp_on f compareUint64 x z \<le> 0"
    if "key_valid (counter_identity f) x" "key_valid (counter_identity f) y"
      "key_valid (counter_identity f) z" for x y z :: 'a
    unfolding cmp_on_def
    using that compareUint64_trans [of "f x" "f y" "f z"] by (simp add: positive_ok)
qed

end
