(* ===== verification/Canonical_JSON.thy ===== *)
theory Canonical_JSON
  imports Scalars
begin

text \<open>
  The canonical JSON writer (\<^verbatim>\<open>writeCanonical\<close>, \<^verbatim>\<open>writeJSONString\<close> and \<^verbatim>\<open>compareJCSKey\<close> of
  \<^verbatim>\<open>semreg/v1/validation.go\<close>) over JSON trees. Digests and collection identities are computed
  from its output, so what matters is that the output determines the tree: \<open>render_inj\<close> shows
  that two trees with the same canonical text are equal up to the order of object members.
\<close>

section \<open>Trees and the writer\<close>

datatype json =
    JNull
  | JString string
  | JBool bool
  | JNumber string
  | JArray "json list"
  | JObject "(string \<times> json) list"

definition utf16_unit :: "nat option \<Rightarrow> nat list" where
  "utf16_unit r = (case r of
     None \<Rightarrow> [65533]
   | Some n \<Rightarrow> if n < 65536 then [n]
       else [55296 + (n - 65536) div 1024, 56320 + (n - 65536) mod 1024])"

definition utf16_encode :: "string \<Rightarrow> nat list" where
  "utf16_encode s = concat (map utf16_unit (runes s))"

fun units_compare :: "nat list \<Rightarrow> nat list \<Rightarrow> int" where
  "units_compare [] [] = 0"
| "units_compare [] (y # ys) = -1"
| "units_compare (x # xs) [] = 1"
| "units_compare (x # xs) (y # ys) =
     (if x < y then -1 else if x > y then 1 else units_compare xs ys)"

definition compareJCSKey :: "string \<Rightarrow> string \<Rightarrow> int" where
  "compareJCSKey a b = units_compare (utf16_encode a) (utf16_encode b)"

definition hex_char :: "nat \<Rightarrow> char" where
  "hex_char n = char_of (if n < 10 then 48 + n else 87 + n)"

definition bs :: char where "bs = CHR 0x5C"

definition dq :: char where "dq = CHR 0x22"

definition escape :: "char \<Rightarrow> string" where
  "escape c =
     (if c = dq \<or> c = bs then [bs, c]
      else if byte c = 8 then [bs, CHR ''b'']
      else if byte c = 9 then [bs, CHR ''t'']
      else if byte c = 10 then [bs, CHR ''n'']
      else if byte c = 12 then [bs, CHR ''f'']
      else if byte c = 13 then [bs, CHR ''r'']
      else if byte c < 32 then [bs, CHR ''u'', CHR ''0'', CHR ''0'', hex_char (byte c div 16), hex_char (byte c mod 16)]
      else [c])"

text \<open>The source ranges over runes; on valid UTF-8 every byte of a multi-byte rune is above 127
  and is written as it is, so the loop works byte by byte.\<close>

definition quoted :: "string \<Rightarrow> string" where
  "quoted s = dq # concat (map escape s) @ [dq]"

definition writeJSONString :: "string \<Rightarrow> string option" where
  "writeJSONString s = (if utf8_valid s then Some (quoted s) else None)"

fun join :: "string list \<Rightarrow> string" where
  "join [] = []"
| "join [w] = w"
| "join (w # ws) = w @ CHR '','' # join ws"

definition write_member :: "string \<Rightarrow> string option \<Rightarrow> (string \<times> string) option" where
  "write_member k v = (case (writeJSONString k, v) of
     (Some a, Some b) \<Rightarrow> Some (k, a @ CHR '':'' # b)
   | _ \<Rightarrow> None)"

fun writeCanonical :: "json \<Rightarrow> string option" where
  "writeCanonical JNull = Some ''null''"
| "writeCanonical (JString s) = writeJSONString s"
| "writeCanonical (JBool b) = Some (if b then ''true'' else ''false'')"
| "writeCanonical (JNumber n) = Some n"
| "writeCanonical (JArray xs) =
     map_option (\<lambda>ws. CHR ''['' # join ws @ '']'') (those (map writeCanonical xs))"
| "writeCanonical (JObject ms) =
     map_option (\<lambda>ws. CHR ''{'' # join (map snd (sort_by (cmp_on fst compareJCSKey) ws)) @ ''}'')
       (those (map (\<lambda>m. write_member (fst m) (writeCanonical (snd m))) ms))"

section \<open>Canonical member order\<close>

text \<open>\<open>jcs\<close> sorts the members of every object; \<open>render\<close> writes a tree in the order it has.\<close>

fun jcs :: "json \<Rightarrow> json" where
  "jcs (JArray xs) = JArray (map jcs xs)"
| "jcs (JObject ms) = JObject (sort_by (cmp_on fst compareJCSKey) (map (\<lambda>m. (fst m, jcs (snd m))) ms))"
| "jcs j = j"

fun render :: "json \<Rightarrow> string" where
  "render JNull = ''null''"
| "render (JString s) = quoted s"
| "render (JBool b) = (if b then ''true'' else ''false'')"
| "render (JNumber n) = n"
| "render (JArray xs) = CHR ''['' # join (map render xs) @ '']''"
| "render (JObject ms) = CHR ''{'' # join (map (\<lambda>m. quoted (fst m) @ CHR '':'' # render (snd m)) ms) @ ''}''"

text \<open>Strings are valid UTF-8 and numbers are non-empty signed decimals.\<close>

definition number_text :: "string \<Rightarrow> bool" where
  "number_text n \<longleftrightarrow> n \<noteq> [] \<and> list_all (\<lambda>c. digit c \<or> c = CHR ''-'') n"

fun json_wf :: "json \<Rightarrow> bool" where
  "json_wf JNull = True"
| "json_wf (JString s) = utf8_valid s"
| "json_wf (JBool b) = True"
| "json_wf (JNumber n) = number_text n"
| "json_wf (JArray xs) = list_all json_wf xs"
| "json_wf (JObject ms) = list_all (\<lambda>m. utf8_valid (fst m) \<and> json_wf (snd m)) ms"

lemma map_insert_by: "map f (insert_by (cmp_on f cmp) x xs) = insert_by cmp (f x) (map f xs)"
  by (induction xs) (auto simp: cmp_on_def)

lemma map_sort_by: "(\<And>x. g (f x) = g' x) \<Longrightarrow>
    map f (sort_by (cmp_on g' cmp) xs) = sort_by (cmp_on g cmp) (map f xs)"
proof (induction xs)
  case (Cons x xs)
  have "map f (insert_by (cmp_on g' cmp) x ys) = insert_by (cmp_on g cmp) (f x) (map f ys)" for ys
    by (induction ys) (simp_all add: cmp_on_def Cons.prems)
  with Cons show ?case by (simp add: sort_by_def)
qed (simp add: sort_by_def)

lemma those_map_Some: "(\<And>x. x \<in> set xs \<Longrightarrow> f x = Some (g x)) \<Longrightarrow> those (map f xs) = Some (map g xs)"
  by (induction xs) auto

lemma json_wf_jcs: "json_wf j \<Longrightarrow> json_wf (jcs j)"
  by (induction j rule: jcs.induct) (auto simp: list_all_iff)

text \<open>The writer sorts and renders, and never fails on a well-formed tree.\<close>

lemma writeCanonical_render: "json_wf j \<Longrightarrow> writeCanonical j = Some (render (jcs j))"
proof (induction j rule: writeCanonical.induct)
  case (5 xs)
  then have "those (map writeCanonical xs) = Some (map (\<lambda>x. render (jcs x)) xs)"
    by (intro those_map_Some) (simp add: list_all_iff)
  then show ?case by (simp add: comp_def)
next
  case (6 ms)
  let ?w = "\<lambda>m. (fst m, quoted (fst m) @ CHR '':'' # render (jcs (snd m)))"
  have "those (map (\<lambda>m. write_member (fst m) (writeCanonical (snd m))) ms) = Some (map ?w ms)"
    by (intro those_map_Some) (use 6 in \<open>auto simp: write_member_def writeJSONString_def list_all_iff\<close>)
  moreover have "sort_by (cmp_on fst compareJCSKey) (map ?w ms)
      = map ?w (sort_by (cmp_on fst compareJCSKey) ms)"
    by (rule map_sort_by [symmetric]) simp
  moreover have "sort_by (cmp_on fst compareJCSKey) (map (\<lambda>m. (fst m, jcs (snd m))) ms)
      = map (\<lambda>m. (fst m, jcs (snd m))) (sort_by (cmp_on fst compareJCSKey) ms)"
    by (rule map_sort_by [symmetric]) simp
  ultimately show ?case by (simp add: comp_def)
qed (auto simp: writeJSONString_def)

section \<open>The text determines the tree\<close>

definition hex_value :: "char \<Rightarrow> nat" where
  "hex_value c = (if byte c < 58 then byte c - 48 else byte c - 87)"

fun unescape :: "string \<Rightarrow> char \<times> string" where
  "unescape [] = (dq, [])"
| "unescape (c # r) =
     (if c = bs then (case r of
        d # t \<Rightarrow>
          if d = CHR ''b'' then (char_of (8::nat), t) else if d = CHR ''t'' then (char_of (9::nat), t)
          else if d = CHR ''n'' then (char_of (10::nat), t) else if d = CHR ''f'' then (char_of (12::nat), t)
          else if d = CHR ''r'' then (char_of (13::nat), t)
          else if d = CHR ''u'' then
            (char_of (16 * hex_value (t ! 2) + hex_value (t ! 3)), drop 4 t)
          else (d, t)
      | [] \<Rightarrow> (c, r))
      else (c, r))"

lemma hex_value_char: "n < 16 \<Longrightarrow> hex_value (hex_char n) = n"
  by (simp add: hex_value_def hex_char_def)

lemma escape_not_dq: "escape c = d # t \<Longrightarrow> d \<noteq> dq"
  by (auto simp: escape_def dq_def bs_def split: if_splits)

lemma escape_ne [simp]: "escape c \<noteq> []"
  by (simp add: escape_def)

lemma unescape_escape: "unescape (escape c @ r) = (c, r)"
proof -
  have b: "byte c < 32 \<Longrightarrow> 16 * hex_value (hex_char (byte c div 16)) + hex_value (hex_char (byte c mod 16)) = byte c"
    by (simp add: hex_value_char)
  have chars: "byte c = n \<Longrightarrow> char_of n = c" for n by auto
  show ?thesis
    by (auto simp: escape_def b chars bs_def dq_def)
qed

lemma escape_prefix_free: "escape c @ r = escape d @ s \<Longrightarrow> c = d \<and> r = s"
  by (metis unescape_escape prod.inject)

lemma escapes_inj:
  "concat (map escape s) @ dq # r = concat (map escape t) @ dq # r' \<Longrightarrow> s = t \<and> r = r'"
proof (induction s arbitrary: t)
  case Nil
  show ?case
  proof (cases t)
    case (Cons d ds)
    obtain e es where e: "escape d = e # es" by (cases "escape d") auto
    with Nil Cons escape_not_dq [OF e] show ?thesis by simp
  qed (use Nil in simp)
next
  case (Cons c cs)
  show ?case
  proof (cases t)
    case Nil
    obtain e es where e: "escape c = e # es" by (cases "escape c") auto
    with Nil Cons.prems escape_not_dq [OF e] show ?thesis by simp
  next
    case (Cons d ds)
    with Cons.prems have "escape c @ (concat (map escape cs) @ dq # r)
        = escape d @ (concat (map escape ds) @ dq # r')" by simp
    from escape_prefix_free [OF this] Cons.IH [of ds] Cons show ?thesis by auto
  qed
qed

lemma quoted_inj: "quoted s @ r = quoted t @ r' \<Longrightarrow> s = t \<and> r = r'"
  using escapes_inj [of s r t r'] by (simp add: quoted_def)

text \<open>What may follow a value inside a document: the end, a comma or a closing bracket.\<close>

definition delim :: "string \<Rightarrow> bool" where
  "delim r \<longleftrightarrow> r = [] \<or> hd r \<in> {CHR '','', CHR '']'', CHR ''}''}"

lemma delim_simps [simp]: "delim []" "delim (CHR '','' # r)" "delim (CHR '']'' # r)" "delim (CHR ''}'' # r)"
  by (simp_all add: delim_def)

lemma delim_Cons: "delim (k # q) \<longleftrightarrow> delim [k]"
  by (simp add: delim_def)

lemma number_prefix:
  assumes "number_text m" "number_text n" "m @ r = n @ s" "delim r" "delim s"
  shows "m = n \<and> r = s"
proof -
  have stop: "\<not> (digit c \<or> c = CHR ''-'')" if "r' = c # cs" "delim r'" for r' c cs
    using that by (auto simp: delim_def digit_def)
  have tw: "takeWhile (\<lambda>c. digit c \<or> c = CHR ''-'') (k @ q) = k" if "number_text k" "delim q" for k q
    using that stop [of q] by (cases q) (auto simp: number_text_def list_all_iff takeWhile_append2)
  have "m = n" using tw [OF assms(1,4)] tw [OF assms(2,5)] assms(3) by metis
  with assms(3) show ?thesis by simp
qed

definition head_tag :: "json \<Rightarrow> nat" where
  "head_tag j = (case j of JNull \<Rightarrow> 0 | JString _ \<Rightarrow> 1 | JBool True \<Rightarrow> 2 | JBool False \<Rightarrow> 3
     | JNumber _ \<Rightarrow> 4 | JArray _ \<Rightarrow> 5 | JObject _ \<Rightarrow> 6)"

definition char_tag :: "char \<Rightarrow> nat" where
  "char_tag c = (if c = CHR ''n'' then 0 else if c = dq then 1 else if c = CHR ''t'' then 2
     else if c = CHR ''f'' then 3 else if c = CHR ''['' then 5 else if c = CHR ''{'' then 6 else 4)"

lemma number_head: "digit c \<or> c = CHR ''-'' \<Longrightarrow> char_tag c = 4 \<and> \<not> delim [c]"
proof (elim disjE)
  assume "digit c"
  then have ne: "\<not> digit d \<Longrightarrow> c \<noteq> d" for d by blast
  have "c \<noteq> CHR ''n''" "c \<noteq> dq" "c \<noteq> CHR ''t''" "c \<noteq> CHR ''f''" "c \<noteq> CHR ''[''" "c \<noteq> CHR ''{''"
    "c \<noteq> CHR '',''" "c \<noteq> CHR '']''" "c \<noteq> CHR ''}''"
    by (rule ne, simp add: digit_def dq_def)+
  then show ?thesis by (simp add: char_tag_def delim_def)
qed (simp add: char_tag_def delim_def dq_def)

lemma render_hd: "json_wf j \<Longrightarrow> \<exists>c t. render j = c # t \<and> char_tag c = head_tag j \<and> \<not> delim (render j @ r)"
proof (cases j)
  case (JNumber n)
  moreover assume "json_wf j"
  ultimately obtain c t where n: "n = c # t" and c: "digit c \<or> c = CHR ''-''"
    by (cases n) (auto simp: number_text_def)
  have "delim (c # t @ r) \<longleftrightarrow> delim [c]" by (rule delim_Cons)
  with n number_head [OF c] JNumber show ?thesis by (simp add: head_tag_def)
qed (auto simp: head_tag_def char_tag_def quoted_def dq_def delim_def)

lemma render_same_tag:
  assumes "json_wf a" "json_wf b" "render a @ r = render b @ s"
  shows "head_tag a = head_tag b"
proof -
  obtain c t where a: "render a = c # t" "char_tag c = head_tag a" using render_hd [OF assms(1)] by blast
  obtain d u where b: "render b = d # u" "char_tag d = head_tag b" using render_hd [OF assms(2)] by blast
  show ?thesis using a b assms(3) by simp
qed

lemma head_tag_simps:
  "head_tag JNull = 0" "head_tag (JString t) = 1" "head_tag (JBool c) = (if c then 2 else 3)"
  "head_tag (JNumber n) = 4" "head_tag (JArray xs) = 5" "head_tag (JObject ms) = 6"
  by (simp_all add: head_tag_def split: bool.split)

lemma join_Cons: "ws \<noteq> [] \<Longrightarrow> join (w # ws) = w @ CHR '','' # join ws"
  by (cases ws) auto

text \<open>Lists of self-delimiting texts: one lemma for arrays and objects.\<close>

lemma join_inj:
  assumes step: "\<And>x y r s. x \<in> set xs \<Longrightarrow> w x @ r = w y @ s \<Longrightarrow> P y \<Longrightarrow> delim r \<Longrightarrow> delim s \<Longrightarrow> x = y \<and> r = s"
    and nonempty: "\<And>x r. P x \<Longrightarrow> \<not> delim (w x @ r)"
    and P: "list_all P xs" "list_all P ys"
    and eq: "join (map w xs) @ k # r = join (map w ys) @ k # s"
    and k: "delim [k]" "k \<noteq> CHR '',''"
  shows "xs = ys \<and> r = s"
  using P eq step
proof (induction xs arbitrary: ys)
  case Nil
  show ?case
  proof (cases ys)
    case (Cons y zs)
    have "join (map w ys) @ k # s = k # r" using Nil.prems(3) by simp
    then have "delim (join (map w ys) @ k # s)" using k(1) by (simp add: delim_Cons [of k r])
    moreover have "\<not> delim (join (map w ys) @ k # s)"
      using nonempty [of y] Nil.prems(2) Cons by (cases zs) (simp_all add: join_Cons)
    ultimately show ?thesis by blast
  qed (use Nil in simp)
next
  case (Cons x xs)
  obtain y zs where ys: "ys = y # zs"
  proof (cases ys)
    case Nil
    have "join (map w (x # xs)) @ k # r = k # s" using Cons.prems(3) Nil by simp
    then have "delim (join (map w (x # xs)) @ k # r)" using k(1) by (simp only: delim_Cons [of k s])
    moreover have "\<not> delim (join (map w (x # xs)) @ k # r)"
      using nonempty [of x] Cons.prems(1) by (cases xs) (simp_all add: join_Cons)
    ultimately show ?thesis by blast
  qed
  let ?tail = "\<lambda>zs q. (if zs = [] then k # q else CHR '','' # join (map w zs) @ k # q)"
  have form: "join (map w (x # xs)) @ k # q = w x @ ?tail xs q" for x xs q
    by (cases xs) (auto simp: join_Cons)
  have weq: "w x @ ?tail xs r = w y @ ?tail zs s"
    using Cons.prems(3) form [of x xs r] form [of y zs s] by (simp only: ys)
  have dl: "delim (?tail zs q)" for zs q
    using k(1) delim_Cons [of k q] by (cases "zs = []") simp_all
  have Py: "P y" using Cons.prems(2) ys by simp
  from Cons.prems(4) [OF _ weq Py dl dl]
  have xy: "x = y" and tl: "?tail xs r = ?tail zs s" by simp_all
  show ?case
  proof (cases "xs = [] \<or> zs = []")
    case True
    then have "xs = [] \<and> zs = []" using tl k(2) by (cases "xs = []"; cases "zs = []") auto
    with tl xy ys show ?thesis by simp
  next
    case False
    with tl have tl': "join (map w xs) @ k # r = join (map w zs) @ k # s" by simp
    have "xs = zs \<and> r = s"
    proof (rule Cons.IH [OF _ _ tl'])
      show "list_all P xs" "list_all P zs" using Cons.prems(1,2) ys by simp_all
      show "x' = y' \<and> r' = s'" if "x' \<in> set xs" "w x' @ r' = w y' @ s'" "P y'" "delim r'" "delim s'"
        for x' y' r' s' using Cons.prems(4) [of x' r' y' s'] that by simp
    qed
    with ys xy show ?thesis by simp
  qed
qed

lemma render_inj_gen:
  "json_wf a \<Longrightarrow> json_wf b \<Longrightarrow> render a @ r = render b @ s \<Longrightarrow> delim r \<Longrightarrow> delim s \<Longrightarrow> a = b \<and> r = s"
proof (induction a arbitrary: b r s)
  case (JArray xs)
  have tag: "head_tag b = 5"
    using render_same_tag [OF JArray.prems(1,2,3)] by (simp add: head_tag_simps)
  then obtain ys where b: "b = JArray ys" by (cases b) (auto simp: head_tag_simps split: if_splits)
  have "xs = ys \<and> r = s"
  proof (rule join_inj [where w = render and P = json_wf and k = "CHR '']''"])
    show "x \<in> set xs \<Longrightarrow> render x @ r = render y @ s \<Longrightarrow> json_wf y \<Longrightarrow> delim r \<Longrightarrow> delim s \<Longrightarrow> x = y \<and> r = s"
      for x y r s using JArray.IH JArray.prems(1) by (auto simp: list_all_iff)
    show "json_wf x \<Longrightarrow> \<not> delim (render x @ r)" for x r using render_hd by blast
  qed (use JArray.prems b in auto)
  with b show ?case by simp
next
  case (JObject ms)
  let ?w = "\<lambda>m. quoted (fst m) @ CHR '':'' # render (snd m)"
  have tag: "head_tag b = 6"
    using render_same_tag [OF JObject.prems(1,2,3)] by (simp add: head_tag_simps)
  then obtain ns where b: "b = JObject ns" by (cases b) (auto simp: head_tag_simps split: if_splits)
  have "ms = ns \<and> r = s"
  proof (rule join_inj [where w = ?w and P = "\<lambda>m. utf8_valid (fst m) \<and> json_wf (snd m)" and k = "CHR ''}''"])
    fix x y :: "string \<times> json" and r s
    assume x: "x \<in> set ms" and eq: "?w x @ r = ?w y @ s" and y: "utf8_valid (fst y) \<and> json_wf (snd y)"
      and d: "delim r" "delim s"
    from eq have "quoted (fst x) @ (CHR '':'' # render (snd x) @ r)
        = quoted (fst y) @ (CHR '':'' # render (snd y) @ s)" by simp
    from quoted_inj [OF this] have fst: "fst x = fst y" and rest: "render (snd x) @ r = render (snd y) @ s"
      by auto
    have wx: "json_wf (snd x)" using JObject.prems(1) x by (simp add: list_all_iff)
    have "snd x = snd y \<and> r = s"
      by (rule JObject.IH [OF x _ wx conjunct2 [OF y] rest d]) (simp add: snds.simps)
    with fst show "x = y \<and> r = s" by (simp add: prod_eq_iff)
  next
    show "utf8_valid (fst x) \<and> json_wf (snd x) \<Longrightarrow> \<not> delim (?w x @ r)" for x :: "string \<times> json" and r
      by (simp add: quoted_def dq_def delim_def)
  qed (use JObject.prems b in auto)
  with b show ?case by simp
next
  case (JNumber n)
  have "head_tag b = 4"
    using render_same_tag [OF JNumber.prems(1,2,3)] by (simp add: head_tag_simps)
  then obtain m where "b = JNumber m" by (cases b) (auto simp: head_tag_simps split: if_splits)
  with JNumber number_prefix [of n m r s] show ?case by simp
next
  case (JString t)
  have "head_tag b = 1"
    using render_same_tag [OF JString.prems(1,2,3)] by (simp add: head_tag_simps)
  then obtain u where "b = JString u" by (cases b) (auto simp: head_tag_simps split: if_splits)
  with JString quoted_inj [of t r u s] show ?case by simp
next
  case JNull
  have "head_tag b = 0"
    using render_same_tag [OF JNull.prems(1,2,3)] by (simp add: head_tag_simps)
  then have "b = JNull" by (cases b) (auto simp: head_tag_simps split: if_splits)
  with JNull show ?case by simp
next
  case (JBool c)
  have "head_tag b = head_tag (JBool c)"
    using render_same_tag [OF JBool.prems(1,2,3)] by simp
  then have "b = JBool c" by (cases b) (auto simp: head_tag_simps split: if_splits)
  with JBool show ?case by simp
qed

lemma render_inj: "json_wf a \<Longrightarrow> json_wf b \<Longrightarrow> render a = render b \<Longrightarrow> a = b"
  using render_inj_gen [of a b "[]" "[]"] by simp

lemma writeCanonical_inj:
  assumes "json_wf a" "json_wf b" "writeCanonical a = writeCanonical b"
  shows "jcs a = jcs b"
  using assms by (auto simp: writeCanonical_render intro: render_inj json_wf_jcs)

text \<open>Equal canonical objects have the same members.\<close>

lemma jcs_object_members:
  assumes "jcs (JObject ms) = jcs (JObject ns)"
  shows "set (map (\<lambda>m. (fst m, jcs (snd m))) ms) = set (map (\<lambda>m. (fst m, jcs (snd m))) ns)"
proof -
  let ?f = "map (\<lambda>m. (fst m, jcs (snd m)))"
  have "sort_by (cmp_on fst compareJCSKey) (?f ms) = sort_by (cmp_on fst compareJCSKey) (?f ns)"
    using assms by (simp only: jcs.simps json.inject)
  then have "set (sort_by (cmp_on fst compareJCSKey) (?f ms)) = set (sort_by (cmp_on fst compareJCSKey) (?f ns))"
    by (rule arg_cong)
  then show ?thesis by (simp only: set_sort_by)
qed

end
