(* ===== verification/Marshal.thy ===== *)
theory Marshal
  imports Canonical_JSON
begin

text \<open>
  \<^verbatim>\<open>json.Marshal\<close> on the records of \<^verbatim>\<open>semreg/v1/types.go\<close>, as the JSON tree that
  \<^verbatim>\<open>parseJSON\<close> reads back from its output: member names and omission rules are those of the
  struct tags, a \<^verbatim>\<open>nil\<close> slice is \<^verbatim>\<open>null\<close>, and invalid UTF-8 bytes of a string are
  replaced. The last section shows that a valid fact key is determined by its canonical text.
\<close>

section \<open>Values of the encoder\<close>

definition jstr :: "string \<Rightarrow> json" where
  "jstr s = JString (utf8_repair s)"

definition jslice :: "('a \<Rightarrow> json) \<Rightarrow> 'a slice \<Rightarrow> json" where
  "jslice f s = (case s of None \<Rightarrow> JNull | Some xs \<Rightarrow> JArray (map f xs))"

definition member_opt :: "string \<Rightarrow> ('a \<Rightarrow> json) \<Rightarrow> 'a option \<Rightarrow> (string \<times> json) list" where
  "member_opt k f v = (case v of None \<Rightarrow> [] | Some x \<Rightarrow> [(k, f x)])"

definition member_nonempty :: "string \<Rightarrow> ('a \<Rightarrow> json) \<Rightarrow> 'a slice \<Rightarrow> (string \<times> json) list" where
  "member_nonempty k f s = (if elems s = [] then [] else [(k, JArray (map f (elems s)))])"

section \<open>Canonical bytes and digests\<close>

text \<open>\<^verbatim>\<open>canonicalize\<close> on the output of \<^verbatim>\<open>json.Marshal\<close>. Marshalled structs are valid JSON
  with distinct member names, so of its error branches only the writer's can be taken.\<close>

definition canonicalize :: "json \<Rightarrow> error + string" where
  "canonicalize j = (case writeCanonical j of
     None \<Rightarrow> Inl (errID InvalidJSON ''canonical json'')
   | Some s \<Rightarrow> Inr s)"

text \<open>\<^verbatim>\<open>CanonicalJSON\<close> for a record type given by its \<^verbatim>\<open>Validate\<close> method and its encoding.\<close>

definition CanonicalJSON :: "('a \<Rightarrow> err) \<Rightarrow> ('a \<Rightarrow> json) \<Rightarrow> 'a \<Rightarrow> error + string" where
  "CanonicalJSON validate enc x = (case validate x of
     Some e \<Rightarrow> Inl e
   | None \<Rightarrow> canonicalize (enc x))"

definition sha256_digest :: "env \<Rightarrow> string \<Rightarrow> string" where
  "sha256_digest E s = ''sha256:'' @ sha256_hex E s"

definition DigestRecord :: "env \<Rightarrow> ('a \<Rightarrow> err) \<Rightarrow> ('a \<Rightarrow> json) \<Rightarrow> 'a \<Rightarrow> error + Digest" where
  "DigestRecord E validate enc x = (case CanonicalJSON validate enc x of
     Inl e \<Rightarrow> Inl e
   | Inr s \<Rightarrow> Inr (sha256_digest E s))"

text \<open>The digests of batches, snapshots and views leave out the member that holds them.\<close>

fun without_member :: "string \<Rightarrow> json \<Rightarrow> json" where
  "without_member k (JObject ms) = JObject (filter (\<lambda>m. fst m \<noteq> k) ms)"
| "without_member k j = j"

definition digest_without :: "env \<Rightarrow> string \<Rightarrow> string \<Rightarrow> json \<Rightarrow> error + Digest" where
  "digest_without E k detail j = (case writeCanonical (without_member k j) of
     None \<Rightarrow> Inl (errID InvalidJSON detail)
   | Some s \<Rightarrow> Inr (sha256_digest E s))"

section \<open>Enumerations\<close>

fun EvidenceAccess_string :: "EvidenceAccess \<Rightarrow> string" where
  "EvidenceAccess_string EvidenceAccessPublic = ''public''"
| "EvidenceAccess_string EvidenceAccessAuthorized = ''authorized''"
| "EvidenceAccess_string EvidenceAccessRestricted = ''restricted''"
| "EvidenceAccess_string (EvidenceAccessOther s) = s"

fun RedactionState_string :: "RedactionState \<Rightarrow> string" where
  "RedactionState_string RedactionNone = ''none''"
| "RedactionState_string RedactionRedacted = ''redacted''"
| "RedactionState_string RedactionMetadataOnly = ''metadata_only''"
| "RedactionState_string (RedactionOther s) = s"

fun SourceState_string :: "SourceState \<Rightarrow> string" where
  "SourceState_string SourceCurrent = ''current''"
| "SourceState_string SourceRetired = ''retired''"
| "SourceState_string (SourceStateOther s) = s"

fun OriginKind_string :: "OriginKind \<Rightarrow> string" where
  "OriginKind_string OriginNativeObservation = ''native_observation''"
| "OriginKind_string OriginDerived = ''derived''"
| "OriginKind_string OriginOperator = ''operator''"
| "OriginKind_string OriginAutomation = ''automation''"
| "OriginKind_string OriginProjection = ''projection''"
| "OriginKind_string (OriginKindOther s) = s"

fun BindingState_string :: "BindingState \<Rightarrow> string" where
  "BindingState_string BindingCurrent = ''current''"
| "BindingState_string BindingFenced = ''fenced''"
| "BindingState_string BindingRetired = ''retired''"
| "BindingState_string (BindingStateOther s) = s"

fun LinkState_string :: "LinkState \<Rightarrow> string" where
  "LinkState_string LinkCandidate = ''candidate''"
| "LinkState_string LinkQualified = ''qualified''"
| "LinkState_string LinkRejected = ''rejected''"
| "LinkState_string LinkConflict = ''conflict''"
| "LinkState_string LinkWithdrawn = ''withdrawn''"
| "LinkState_string (LinkStateOther s) = s"

fun ValueKind_string :: "ValueKind \<Rightarrow> string" where
  "ValueKind_string ValueQuantity = ''quantity''"
| "ValueKind_string ValueBoolean = ''boolean''"
| "ValueKind_string ValueText = ''text''"
| "ValueKind_string ValueSymbol = ''symbol''"
| "ValueKind_string ValueSymbols = ''symbols''"
| "ValueKind_string ValueTime = ''time''"
| "ValueKind_string (ValueKindOther s) = s"

fun AssertionKind_string :: "AssertionKind \<Rightarrow> string" where
  "AssertionKind_string AssertionObserved = ''observed''"
| "AssertionKind_string AssertionInferred = ''inferred''"
| "AssertionKind_string (AssertionKindOther s) = s"

fun Qualification_string :: "Qualification \<Rightarrow> string" where
  "Qualification_string QualificationCandidate = ''candidate''"
| "Qualification_string QualificationQualified = ''qualified''"
| "Qualification_string QualificationUnsupported = ''unsupported''"
| "Qualification_string QualificationUnknown = ''unknown''"
| "Qualification_string QualificationRejected = ''rejected''"
| "Qualification_string (QualificationOther s) = s"

fun Promotion_string :: "Promotion \<Rightarrow> string" where
  "Promotion_string PromotionUnpromoted = ''unpromoted''"
| "Promotion_string PromotionPromoted = ''promoted''"
| "Promotion_string (PromotionOther s) = s"

fun Validity_string :: "Validity \<Rightarrow> string" where
  "Validity_string ValidityGood = ''good''"
| "Validity_string ValiditySuspect = ''suspect''"
| "Validity_string ValidityBad = ''bad''"
| "Validity_string ValidityUnknown = ''unknown''"
| "Validity_string (ValidityOther s) = s"

fun Availability_string :: "Availability \<Rightarrow> string" where
  "Availability_string AvailabilityAvailable = ''available''"
| "Availability_string AvailabilityDegraded = ''degraded''"
| "Availability_string AvailabilityUnavailable = ''unavailable''"
| "Availability_string AvailabilityWithdrawn = ''withdrawn''"
| "Availability_string (AvailabilityOther s) = s"

fun Freshness_string :: "Freshness \<Rightarrow> string" where
  "Freshness_string FreshnessFresh = ''fresh''"
| "Freshness_string FreshnessStale = ''stale''"
| "Freshness_string FreshnessExpired = ''expired''"
| "Freshness_string FreshnessUnknown = ''unknown''"
| "Freshness_string (FreshnessOther s) = s"

fun ConflictKind_string :: "ConflictKind \<Rightarrow> string" where
  "ConflictKind_string ConflictValue = ''value''"
| "ConflictKind_string (ConflictKindOther s) = s"

fun ConflictState_string :: "ConflictState \<Rightarrow> string" where
  "ConflictState_string ConflictOpen = ''open''"
| "ConflictState_string (ConflictStateOther s) = s"

fun RetainedRemoval_string :: "RetainedRemoval \<Rightarrow> string" where
  "RetainedRemoval_string RetainedRemovalGenerationFence = ''generation_fence''"
| "RetainedRemoval_string RetainedRemovalSourceRetirement = ''source_retirement''"
| "RetainedRemoval_string (RetainedRemovalOther s) = s"

section \<open>Records\<close>

definition json_of_VersionRange :: "VersionRange \<Rightarrow> json" where
  "json_of_VersionRange x = JObject
    ([(''minimum'', jstr (vr_Minimum x)),
      (''maximum_exclusive'', jstr (vr_MaximumExclusive x))])"

definition json_of_EvidenceRef :: "EvidenceRef \<Rightarrow> json" where
  "json_of_EvidenceRef x = JObject
    ([(''owner'', jstr (ev_Owner x)),
      (''kind'', jstr (ev_Kind x)),
      (''digest'', jstr (ev_Digest x)),
      (''contract'', jstr (ev_Contract x)),
      (''access'', jstr (EvidenceAccess_string (ev_Access x))),
      (''redaction'', jstr (RedactionState_string (ev_Redaction x)))])"

definition json_of_TimePoint :: "TimePoint \<Rightarrow> json" where
  "json_of_TimePoint x = JObject
    ([(''unix_nanoseconds'', jstr (tp_UnixNanoseconds x)),
      (''clock_id'', jstr (tp_ClockID x)),
      (''uncertainty_ns'', jstr (tp_UncertaintyNS x))])"

definition json_of_MonotonicPoint :: "MonotonicPoint \<Rightarrow> json" where
  "json_of_MonotonicPoint x = JObject
    ([(''clock_epoch_id'', jstr (mp_ClockEpochID x)),
      (''nanoseconds'', jstr (mp_Nanoseconds x))])"

definition json_of_SourceDescriptor :: "SourceDescriptor \<Rightarrow> json" where
  "json_of_SourceDescriptor x = JObject
    ([(''source_id'', jstr (sd_SourceID x)),
      (''source_epoch_id'', jstr (sd_SourceEpochID x)),
      (''protocol_id'', jstr (sd_ProtocolID x)),
      (''profile_id'', jstr (sd_ProfileID x)),
      (''profile_version'', jstr (sd_ProfileVersion x)),
      (''registry_evidence'', json_of_EvidenceRef (sd_RegistryEvidence x)),
      (''started_at'', json_of_TimePoint (sd_StartedAt x)),
      (''state'', jstr (SourceState_string (sd_State x))),
      (''revision'', jstr (sd_Revision x))])"

definition json_of_OriginRef :: "OriginRef \<Rightarrow> json" where
  "json_of_OriginRef x = JObject
    ([(''origin_id'', jstr (or_OriginID x)),
      (''kind'', jstr (OriginKind_string (or_Kind x)))] @
     member_opt ''source_id'' jstr (or_SourceID x) @
     member_opt ''source_epoch_id'' jstr (or_SourceEpochID x) @
     member_opt ''binding_id'' jstr (or_BindingID x) @
     [(''evidence'', jslice json_of_EvidenceRef (or_Evidence x))])"

definition json_of_NativeBinding :: "NativeBinding \<Rightarrow> json" where
  "json_of_NativeBinding x = JObject
    ([(''binding_id'', jstr (nb_BindingID x)),
      (''asset_id'', jstr (nb_AssetID x)),
      (''source_id'', jstr (nb_SourceID x)),
      (''source_epoch_id'', jstr (nb_SourceEpochID x)),
      (''driver_generation'', jstr (nb_DriverGeneration x)),
      (''native_resource'', json_of_EvidenceRef (nb_NativeResource x)),
      (''state'', jstr (BindingState_string (nb_State x))),
      (''revision'', jstr (nb_Revision x))])"

definition json_of_IdentityLink :: "IdentityLink \<Rightarrow> json" where
  "json_of_IdentityLink x = JObject
    ([(''asset_id'', jstr (il_AssetID x)),
      (''binding_id'', jstr (il_BindingID x)),
      (''state'', jstr (LinkState_string (il_State x))),
      (''basis'', jslice json_of_EvidenceRef (il_Basis x)),
      (''revision'', jstr (il_Revision x))])"

definition json_of_SourcePathRef :: "SourcePathRef \<Rightarrow> json" where
  "json_of_SourcePathRef x = JObject
    ([(''binding_id'', jstr (sp_BindingID x)),
      (''source_id'', jstr (sp_SourceID x)),
      (''source_epoch_id'', jstr (sp_SourceEpochID x)),
      (''driver_generation'', jstr (sp_DriverGeneration x))])"

definition json_of_DerivationInput :: "DerivationInput \<Rightarrow> json" where
  "json_of_DerivationInput x = JObject
    ([(''candidate_id'', jstr (di_CandidateID x)),
      (''candidate_revision'', jstr (di_CandidateRevision x)),
      (''source_paths'', jslice json_of_SourcePathRef (di_SourcePaths x))])"

definition json_of_Derivation :: "Derivation \<Rightarrow> json" where
  "json_of_Derivation x = JObject
    ([(''algorithm'', jstr (dv_Algorithm x)),
      (''version'', jstr (dv_Version x)),
      (''inputs'', jslice json_of_DerivationInput (dv_Inputs x)),
      (''evidence'', jslice json_of_EvidenceRef (dv_Evidence x))])"

definition json_of_Decimal :: "Decimal \<Rightarrow> json" where
  "json_of_Decimal x = JObject
    ([(''coefficient'', jstr (dc_Coefficient x)),
      (''exponent10'', JNumber (int_string (dc_Exponent10 x)))])"

definition json_of_Symbol :: "Symbol \<Rightarrow> json" where
  "json_of_Symbol x = JObject
    ([(''namespace'', jstr (sy_Namespace x)),
      (''token'', jstr (sy_Token x)),
      (''known'', JBool (sy_Known x))])"

definition json_of_Quantity :: "Quantity \<Rightarrow> json" where
  "json_of_Quantity x = JObject
    ([(''number'', json_of_Decimal (qt_Number x)),
      (''unit'', jstr (qt_Unit x))])"

definition json_of_Value :: "Value \<Rightarrow> json" where
  "json_of_Value x = JObject
    ([(''kind'', jstr (ValueKind_string (vl_Kind x)))] @
     member_opt ''quantity'' json_of_Quantity (vl_Quantity x) @
     member_opt ''boolean'' JBool (vl_Boolean x) @
     member_opt ''text'' jstr (vl_Text x) @
     member_opt ''symbol'' json_of_Symbol (vl_Symbol x) @
     member_nonempty ''symbols'' json_of_Symbol (vl_Symbols x) @
     member_opt ''time'' json_of_TimePoint (vl_Time x))"

definition json_of_Dimension :: "Dimension \<Rightarrow> json" where
  "json_of_Dimension x = JObject
    ([(''id'', jstr (dm_ID x)),
      (''value'', json_of_Value (dm_Value x))])"

definition json_of_FactKey :: "FactKey \<Rightarrow> json" where
  "json_of_FactKey x = JObject
    ([(''pack_id'', jstr (fk_PackID x)),
      (''pack_version'', jstr (fk_PackVersion x)),
      (''fact_id'', jstr (fk_FactID x)),
      (''dimensions'', jslice json_of_Dimension (fk_Dimensions x))])"

definition json_of_Times :: "Times \<Rightarrow> json" where
  "json_of_Times x = JObject
    (member_opt ''phenomenon_at'' json_of_TimePoint (tm_PhenomenonAt x) @
     member_opt ''source_at'' json_of_TimePoint (tm_SourceAt x) @
     [(''received_at'', json_of_TimePoint (tm_ReceivedAt x)),
      (''receipt_monotonic'', json_of_MonotonicPoint (tm_ReceiptMonotonic x)),
      (''evaluated_at'', json_of_TimePoint (tm_EvaluatedAt x)),
      (''evaluate_monotonic'', json_of_MonotonicPoint (tm_EvaluateMonotonic x))])"

definition json_of_FreshnessPolicy :: "FreshnessPolicy \<Rightarrow> json" where
  "json_of_FreshnessPolicy x = JObject
    ([(''policy_id'', jstr (fp_PolicyID x)),
      (''version'', jstr (fp_Version x)),
      (''fresh_for_ns'', jstr (fp_FreshForNS x)),
      (''retain_for_ns'', jstr (fp_RetainForNS x)),
      (''max_wall_uncertainty_ns'', jstr (fp_MaxWallUncertaintyNS x))])"

definition json_of_Quality :: "Quality \<Rightarrow> json" where
  "json_of_Quality x = JObject
    ([(''assertion'', jstr (AssertionKind_string (ql_Assertion x))),
      (''qualification'', jstr (Qualification_string (ql_Qualification x))),
      (''promotion'', jstr (Promotion_string (ql_Promotion x))),
      (''validity'', jstr (Validity_string (ql_Validity x))),
      (''availability'', jstr (Availability_string (ql_Availability x))),
      (''freshness'', jstr (Freshness_string (ql_Freshness x))),
      (''reasons'', jslice jstr (ql_Reasons x))])"

definition json_of_CausalContext :: "CausalContext \<Rightarrow> json" where
  "json_of_CausalContext x = JObject
    ([(''origin'', json_of_OriginRef (cc_Origin x)),
      (''correlation_id'', jstr (cc_CorrelationID x))] @
     member_opt ''parent_correlation_id'' jstr (cc_ParentCorrelationID x) @
     [(''hop_count'', JNumber (nat_string (cc_HopCount x))),
      (''max_hops'', JNumber (nat_string (cc_MaxHops x))),
      (''first_seen_at'', json_of_TimePoint (cc_FirstSeenAt x)),
      (''expires_at'', json_of_TimePoint (cc_ExpiresAt x)),
      (''path'', jslice jstr (cc_Path x))])"

definition json_of_FactCandidate :: "FactCandidate \<Rightarrow> json" where
  "json_of_FactCandidate x = JObject
    ([(''candidate_id'', jstr (fc_CandidateID x)),
      (''key'', json_of_FactKey (fc_Key x))] @
     member_opt ''value'' json_of_Value (fc_Value x) @
     [(''quality'', json_of_Quality (fc_Quality x)),
      (''times'', json_of_Times (fc_Times x)),
      (''freshness_policy'', json_of_FreshnessPolicy (fc_FreshnessPolicy x))] @
     member_opt ''binding_id'' jstr (fc_BindingID x) @
     member_opt ''source_epoch_id'' jstr (fc_SourceEpochID x) @
     member_opt ''driver_generation'' jstr (fc_DriverGeneration x) @
     [(''origin'', json_of_OriginRef (fc_Origin x))] @
     member_opt ''causal'' json_of_CausalContext (fc_Causal x) @
     [(''evidence'', jslice json_of_EvidenceRef (fc_Evidence x))] @
     member_opt ''derivation'' json_of_Derivation (fc_Derivation x) @
     [(''revision'', jstr (fc_Revision x))])"

definition json_of_Conflict :: "Conflict \<Rightarrow> json" where
  "json_of_Conflict x = JObject
    ([(''conflict_id'', jstr (cf_ConflictID x)),
      (''kind'', jstr (ConflictKind_string (cf_Kind x))),
      (''candidates'', jslice jstr (cf_Candidates x)),
      (''evidence'', jslice json_of_EvidenceRef (cf_Evidence x)),
      (''state'', jstr (ConflictState_string (cf_State x)))])"

definition json_of_FactEnvelope :: "FactEnvelope \<Rightarrow> json" where
  "json_of_FactEnvelope x = JObject
    ([(''asset_id'', jstr (fe_AssetID x)),
      (''key'', json_of_FactKey (fe_Key x)),
      (''candidates'', jslice json_of_FactCandidate (fe_Candidates x)),
      (''conflicts'', jslice json_of_Conflict (fe_Conflicts x)),
      (''revision'', jstr (fe_Revision x))])"

definition json_of_RetainedObservationRecord :: "RetainedObservationRecord \<Rightarrow> json" where
  "json_of_RetainedObservationRecord x = JObject
    ([(''contract'', jstr (ro_Contract x)),
      (''candidate'', json_of_FactCandidate (ro_Candidate x)),
      (''removal'', jstr (RetainedRemoval_string (ro_Removal x)))])"

definition json_of_PackRef :: "PackRef \<Rightarrow> json" where
  "json_of_PackRef x = JObject
    ([(''id'', jstr (pk_ID x)),
      (''version'', jstr (pk_Version x))])"

definition json_of_DefinitionRef :: "DefinitionRef \<Rightarrow> json" where
  "json_of_DefinitionRef x = JObject
    ([(''pack'', json_of_PackRef (df_Pack x)),
      (''id'', jstr (df_ID x)),
      (''version'', jstr (df_Version x))])"

definition json_of_TypedField :: "TypedField \<Rightarrow> json" where
  "json_of_TypedField x = JObject
    ([(''id'', jstr (tf_ID x)),
      (''value'', json_of_Value (tf_Value x))])"

definition json_of_ServiceInstance :: "ServiceInstance \<Rightarrow> json" where
  "json_of_ServiceInstance x = JObject
    ([(''instance_id'', jstr (si_InstanceID x)),
      (''asset_id'', jstr (si_AssetID x)),
      (''definition'', json_of_DefinitionRef (si_Definition x)),
      (''binding_id'', jstr (si_BindingID x)),
      (''source_epoch_id'', jstr (si_SourceEpochID x)),
      (''driver_generation'', jstr (si_DriverGeneration x)),
      (''qualification'', jstr (Qualification_string (si_Qualification x))),
      (''availability'', jstr (Availability_string (si_Availability x))),
      (''revision'', jstr (si_Revision x))])"

definition json_of_CapabilityInstance :: "CapabilityInstance \<Rightarrow> json" where
  "json_of_CapabilityInstance x = JObject
    ([(''instance_id'', jstr (ci_InstanceID x)),
      (''asset_id'', jstr (ci_AssetID x)),
      (''service_instance'', jstr (ci_ServiceInstance x)),
      (''definition'', json_of_DefinitionRef (ci_Definition x)),
      (''binding_id'', jstr (ci_BindingID x)),
      (''source_epoch_id'', jstr (ci_SourceEpochID x)),
      (''driver_generation'', jstr (ci_DriverGeneration x)),
      (''qualification'', jstr (Qualification_string (ci_Qualification x))),
      (''availability'', jstr (Availability_string (ci_Availability x))),
      (''constraints'', jslice json_of_TypedField (ci_Constraints x)),
      (''activation_evidence'', jslice json_of_EvidenceRef (ci_ActivationEvidence x)),
      (''revision'', jstr (ci_Revision x))])"

definition json_of_GenerationFence :: "GenerationFence \<Rightarrow> json" where
  "json_of_GenerationFence x = JObject
    ([(''source_id'', jstr (gf_SourceID x)),
      (''source_epoch_id'', jstr (gf_SourceEpochID x)),
      (''driver_generation'', jstr (gf_DriverGeneration x)),
      (''reason'', jstr (gf_Reason x)),
      (''evidence'', jslice json_of_EvidenceRef (gf_Evidence x)),
      (''revision'', jstr (gf_Revision x))])"

definition json_of_PublicationBatch :: "PublicationBatch \<Rightarrow> json" where
  "json_of_PublicationBatch x = JObject
    ([(''contract'', jstr (pb_Contract x)),
      (''batch_id'', jstr (pb_BatchID x)),
      (''batch_digest'', jstr (pb_BatchDigest x)),
      (''asset_id'', jstr (pb_AssetID x)),
      (''source_id'', jstr (pb_SourceID x)),
      (''source_epoch_id'', jstr (pb_SourceEpochID x)),
      (''driver_generation'', jstr (pb_DriverGeneration x)),
      (''sequence'', jstr (pb_Sequence x)),
      (''expected_semantic_revision'', jstr (pb_ExpectedSemanticRevision x)),
      (''observed_at'', json_of_TimePoint (pb_ObservedAt x)),
      (''source_upserts'', jslice json_of_SourceDescriptor (pb_SourceUpserts x)),
      (''source_retirements'', jslice jstr (pb_SourceRetirements x)),
      (''binding_upserts'', jslice json_of_NativeBinding (pb_BindingUpserts x)),
      (''identity_link_upserts'', jslice json_of_IdentityLink (pb_IdentityLinkUpserts x)),
      (''fact_upserts'', jslice json_of_FactCandidate (pb_FactUpserts x)),
      (''fact_withdrawals'', jslice jstr (pb_FactWithdrawals x)),
      (''service_upserts'', jslice json_of_ServiceInstance (pb_ServiceUpserts x)),
      (''service_withdrawals'', jslice jstr (pb_ServiceWithdrawals x)),
      (''capability_upserts'', jslice json_of_CapabilityInstance (pb_CapabilityUpserts x)),
      (''capability_withdrawals'', jslice jstr (pb_CapabilityWithdrawals x)),
      (''generation_fences'', jslice json_of_GenerationFence (pb_GenerationFences x))])"

definition json_of_RevisionVector :: "RevisionVector \<Rightarrow> json" where
  "json_of_RevisionVector x = JObject
    ([(''semantic'', jstr (rv_Semantic x)),
      (''identity'', jstr (rv_Identity x)),
      (''facts'', jstr (rv_Facts x)),
      (''services'', jstr (rv_Services x)),
      (''capabilities'', jstr (rv_Capabilities x))])"

definition json_of_PublicationCursor :: "PublicationCursor \<Rightarrow> json" where
  "json_of_PublicationCursor x = JObject
    ([(''source_id'', jstr (pc_SourceID x)),
      (''source_epoch_id'', jstr (pc_SourceEpochID x)),
      (''driver_generation'', jstr (pc_DriverGeneration x)),
      (''last_sequence'', jstr (pc_LastSequence x)),
      (''last_batch_digest'', jstr (pc_LastBatchDigest x)),
      (''fenced'', JBool (pc_Fenced x))])"

definition json_of_Snapshot :: "Snapshot \<Rightarrow> json" where
  "json_of_Snapshot x = JObject
    ([(''contract'', jstr (sn_Contract x)),
      (''snapshot_id'', jstr (sn_SnapshotID x)),
      (''asset_id'', jstr (sn_AssetID x)),
      (''revisions'', json_of_RevisionVector (sn_Revisions x)),
      (''evaluated_at'', json_of_TimePoint (sn_EvaluatedAt x)),
      (''evaluate_monotonic'', json_of_MonotonicPoint (sn_EvaluateMonotonic x)),
      (''sources'', jslice json_of_SourceDescriptor (sn_Sources x)),
      (''bindings'', jslice json_of_NativeBinding (sn_Bindings x)),
      (''identity_links'', jslice json_of_IdentityLink (sn_IdentityLinks x)),
      (''facts'', jslice json_of_FactEnvelope (sn_Facts x))] @
     member_nonempty ''retained_observations'' json_of_RetainedObservationRecord (sn_Retained x) @
     [(''services'', jslice json_of_ServiceInstance (sn_Services x)),
      (''capabilities'', jslice json_of_CapabilityInstance (sn_Capabilities x)),
      (''fences'', jslice json_of_GenerationFence (sn_Fences x)),
      (''cursors'', jslice json_of_PublicationCursor (sn_Cursors x))])"

definition json_of_EvaluationContext :: "EvaluationContext \<Rightarrow> json" where
  "json_of_EvaluationContext x = JObject
    ([(''evaluated_at'', json_of_TimePoint (ec_EvaluatedAt x)),
      (''evaluate_monotonic'', json_of_MonotonicPoint (ec_EvaluateMonotonic x))])"

definition json_of_EvaluatedFact :: "EvaluatedFact \<Rightarrow> json" where
  "json_of_EvaluatedFact x = JObject
    ([(''candidate_id'', jstr (ef_CandidateID x)),
      (''candidate_revision'', jstr (ef_CandidateRevision x)),
      (''freshness'', jstr (Freshness_string (ef_Freshness x))),
      (''effective_availability'', jstr (Availability_string (ef_EffectiveAvailability x)))])"

definition json_of_EvaluatedRetainedObservation :: "EvaluatedRetainedObservation \<Rightarrow> json" where
  "json_of_EvaluatedRetainedObservation x = JObject
    ([(''observation'', json_of_RetainedObservationRecord (er_Observation x)),
      (''freshness'', jstr (Freshness_string (er_Freshness x)))])"

definition json_of_EvaluationView :: "EvaluationView \<Rightarrow> json" where
  "json_of_EvaluationView x = JObject
    ([(''contract'', jstr (vw_Contract x)),
      (''snapshot_id'', jstr (vw_SnapshotID x)),
      (''revisions'', json_of_RevisionVector (vw_Revisions x)),
      (''context'', json_of_EvaluationContext (vw_Context x)),
      (''facts'', jslice json_of_EvaluatedFact (vw_Facts x))] @
     member_nonempty ''retained_observations'' json_of_EvaluatedRetainedObservation (vw_Retained x) @
     [(''evaluation_digest'', jstr (vw_EvaluationDigest x))])"

definition json_of_Selection :: "Selection \<Rightarrow> json" where
  "json_of_Selection x = JObject
    ([(''contract'', jstr (sl_Contract x)),
      (''snapshot_id'', jstr (sl_SnapshotID x)),
      (''revisions'', json_of_RevisionVector (sl_Revisions x)),
      (''evaluation_digest'', jstr (sl_EvaluationDigest x)),
      (''context'', json_of_EvaluationContext (sl_Context x)),
      (''key'', json_of_FactKey (sl_Key x)),
      (''policy_id'', jstr (sl_PolicyID x)),
      (''policy_version'', jstr (sl_PolicyVersion x)),
      (''selected_candidate'', jstr (sl_SelectedCandidate x)),
      (''candidate_revision'', jstr (sl_CandidateRevision x)),
      (''presentation_only'', JBool (sl_PresentationOnly x))])"

end
