(* ===== verification/Validation.thy ===== *)
theory Validation
  imports Collections Marshal
begin

text \<open>
  The \<^verbatim>\<open>Validate\<close> methods of the records in \<^verbatim>\<open>semreg/v1/validation.go\<close>. Each method collects
  the independent errors of its members in the order of the source and returns the best one. The
  first argument \<open>E\<close> is the environment where a record contains text. For every record the
  \<open>validate_simps\<close> give what acceptance means.
\<close>

section \<open>Shared pieces\<close>

definition opt_err :: "('a \<Rightarrow> err) \<Rightarrow> 'a option \<Rightarrow> err" where
  "opt_err f v = (case v of None \<Rightarrow> None | Some x \<Rightarrow> f x)"

lemma opt_err_None [simp]: "opt_err f v = None \<longleftrightarrow> (\<forall>x. v = Some x \<longrightarrow> f x = None)"
  by (simp add: opt_err_def split: option.split)

abbreviation duplicated :: "'a identity \<Rightarrow> ('a \<Rightarrow> 'a \<Rightarrow> int) \<Rightarrow> 'a slice \<Rightarrow> bool" where
  "duplicated I c xs \<equiv> fst (duplicateAndOrder I c xs)"

abbreviation in_order :: "'a identity \<Rightarrow> ('a \<Rightarrow> 'a \<Rightarrow> int) \<Rightarrow> 'a slice \<Rightarrow> bool" where
  "in_order I c xs \<equiv> snd (duplicateAndOrder I c xs)"

abbreviation opaque_identity :: "('a \<Rightarrow> string) \<Rightarrow> 'a identity" where
  "opaque_identity f \<equiv> string_identity validOpaque f"

abbreviation definition_identity :: "('a \<Rightarrow> string) \<Rightarrow> 'a identity" where
  "definition_identity f \<equiv> string_identity validDefinition f"

abbreviation by_field :: "('a \<Rightarrow> string) \<Rightarrow> 'a \<Rightarrow> 'a \<Rightarrow> int" where
  "by_field f \<equiv> cmp_on f string_compare"

text \<open>\<^verbatim>\<open>check\<close> closures accumulate \<^verbatim>\<open>failure = bestError(failure, err)\<close>; the result is the best
  error of the sequence, so accumulating code is modelled by the list of its checks.\<close>

lemma bestError_accumulate: "foldl (\<lambda>failure e. bestError [failure, e]) None es = bestError es"
proof -
  let ?R = "rank_with errorRanks"
  have step: "foldl (\<lambda>failure e. bestError [failure, e]) (Some b) xs = best_loop ?R (Some b) (?R b) xs" for b xs
  proof (induction xs arbitrary: b)
    case (Cons e xs)
    then show ?case by (cases e) (simp_all add: bestError_def rank_with_bound)
  qed simp
  show ?thesis
  proof (induction es)
    case (Cons e es)
    show ?case
    proof (cases e)
      case None
      with Cons show ?thesis by (simp add: bestError_def)
    next
      case (Some x)
      have "foldl (\<lambda>failure e. bestError [failure, e]) None (e # es)
          = foldl (\<lambda>failure e. bestError [failure, e]) (Some x) es"
        by (simp add: Some bestError_def rank_with_bound)
      also have "\<dots> = bestError (e # es)"
        by (simp only: step) (simp add: Some bestError_def rank_with_bound)
      finally show ?thesis .
    qed
  qed simp
qed

section \<open>Evidence\<close>

definition validateEvidence :: "EvidenceRef \<Rightarrow> err" where
  "validateEvidence e =
     (let synt = check_err (\<not> validDefinition (ev_Owner e) \<or> \<not> validDefinition (ev_Kind e) \<or>
            \<not> validContract (ev_Contract e) \<or> \<not> validDigest (ev_Digest e))
          InvalidEvidence ''evidence reference'';
        enum = check_err (ev_Access e \<notin> {EvidenceAccessPublic, EvidenceAccessAuthorized, EvidenceAccessRestricted})
          InvalidEnum ''evidence access'';
        enum = (if ev_Redaction e \<notin> {RedactionNone, RedactionRedacted, RedactionMetadataOnly}
                then bestError [enum, Some (errID InvalidEnum ''redaction'')] else enum);
        access = check_err (ev_Access e = EvidenceAccessRestricted \<and> ev_Redaction e = RedactionNone)
          InvalidEvidence ''restricted evidence''
      in bestError [synt, access, enum])"

definition nul :: char where "nul = CHR 0x00"

definition evidence_key :: "EvidenceRef \<Rightarrow> string" where
  "evidence_key e = ev_Owner e @ nul # ev_Kind e @ nul # ev_Contract e @ nul # ev_Digest e"

definition compareEvidence :: "EvidenceRef \<Rightarrow> EvidenceRef \<Rightarrow> int" where
  "compareEvidence a b = string_compare (evidence_key a) (evidence_key b)"

definition EvidenceRef_identity :: "EvidenceRef identity" where
  "EvidenceRef_identity =
     \<lparr>key_valid = (\<lambda>e. validDefinition (ev_Owner e) \<and> validDefinition (ev_Kind e) \<and>
        validContract (ev_Contract e) \<and> validDigest (ev_Digest e)),
      key_of = (\<lambda>e. [ev_Owner e, ev_Kind e, ev_Contract e, ev_Digest e])\<rparr>"

definition validateEvidenceSet :: "EvidenceRef slice \<Rightarrow> nat \<Rightarrow> nat \<Rightarrow> err" where
  "validateEvidenceSet es mn mx =
     bestError
       ([check_err (es = None) MissingMember ''evidence'',
         check_err (duplicated EvidenceRef_identity compareEvidence es) DuplicateKey ''evidence''] @
        map validateEvidence (elems es) @
        [check_err (length (elems es) < mn \<or> length (elems es) > mx) BoundsExceeded ''evidence'',
         check_err (\<not> in_order EvidenceRef_identity compareEvidence es) NoncanonicalOrder ''evidence''])"

section \<open>Time\<close>

definition TimePoint_Validate :: "TimePoint \<Rightarrow> err" where
  "TimePoint_Validate t =
     (let timeErr = check_err (\<not> snd (i64 (tp_UnixNanoseconds t))) InvalidTime ''unix nanoseconds'';
          timeErr = (if \<not> snd (u64 (tp_UncertaintyNS t))
                     then bestError [timeErr, Some (errID InvalidTime ''uncertainty'')] else timeErr)
      in bestError [DefinitionID_Validate (tp_ClockID t), timeErr])"

definition MonotonicPoint_Validate :: "MonotonicPoint \<Rightarrow> err" where
  "MonotonicPoint_Validate m =
     bestError [validateOpaqueValue (mp_ClockEpochID m) ''clock epoch id'',
       check_err (\<not> snd (u64 (mp_Nanoseconds m))) InvalidTime ''monotonic'']"

definition Times_Validate :: "Times \<Rightarrow> err" where
  "Times_Validate t =
     bestError
       [TimePoint_Validate (tm_ReceivedAt t), MonotonicPoint_Validate (tm_ReceiptMonotonic t),
        TimePoint_Validate (tm_EvaluatedAt t), MonotonicPoint_Validate (tm_EvaluateMonotonic t),
        opt_err TimePoint_Validate (tm_PhenomenonAt t), opt_err TimePoint_Validate (tm_SourceAt t),
        (if mp_ClockEpochID (tm_ReceiptMonotonic t) = mp_ClockEpochID (tm_EvaluateMonotonic t)
         then (case (u64_val (mp_Nanoseconds (tm_ReceiptMonotonic t)), u64_val (mp_Nanoseconds (tm_EvaluateMonotonic t))) of
             (Some r, Some e) \<Rightarrow> check_err (e < r) InvalidTime ''monotonic order''
           | _ \<Rightarrow> None)
         else None)]"

definition ElapsedMonotonicNS :: "Times \<Rightarrow> error + Uint64" where
  "ElapsedMonotonicNS t = (case Times_Validate t of
     Some e \<Rightarrow> Inl e
   | None \<Rightarrow>
       if mp_ClockEpochID (tm_ReceiptMonotonic t) \<noteq> mp_ClockEpochID (tm_EvaluateMonotonic t)
       then Inl (errID IncomparableClockEpoch ''monotonic epoch'')
       else (case (fst (u64 (mp_Nanoseconds (tm_ReceiptMonotonic t))), fst (u64 (mp_Nanoseconds (tm_EvaluateMonotonic t)))) of
           (Some received, Some evaluated) \<Rightarrow> Inr (int_string (evaluated - received))
         | _ \<Rightarrow> Inl (ForeignError ''nil counter'')))"

definition FreshnessPolicy_Validate :: "FreshnessPolicy \<Rightarrow> err" where
  "FreshnessPolicy_Validate p =
     (let f = u64_val (fp_FreshForNS p); r = u64_val (fp_RetainForNS p); u = u64_val (fp_MaxWallUncertaintyNS p)
      in bestError
       [validateOpaqueValue (fp_PolicyID p) ''policy id'', SemanticVersion_Validate (fp_Version p),
        check_err (case (f, r, u) of (Some fn, Some rn, Some un) \<Rightarrow> fn \<le> 0 \<or> rn \<le> fn | _ \<Rightarrow> True)
          InvalidTime ''freshness policy''])"

definition EvaluationContext_Validate :: "EvaluationContext \<Rightarrow> err" where
  "EvaluationContext_Validate c =
     bestError [TimePoint_Validate (ec_EvaluatedAt c), MonotonicPoint_Validate (ec_EvaluateMonotonic c)]"

section \<open>Sources, bindings and links\<close>

definition SourceDescriptor_Validate :: "SourceDescriptor \<Rightarrow> err" where
  "SourceDescriptor_Validate s =
     bestError
       [validateOpaqueValue (sd_SourceID s) ''source id'',
        validateOpaqueValue (sd_SourceEpochID s) ''source epoch id'',
        DefinitionID_Validate (sd_ProtocolID s), DefinitionID_Validate (sd_ProfileID s),
        VersionLabel_Validate (sd_ProfileVersion s), validateEvidence (sd_RegistryEvidence s),
        TimePoint_Validate (sd_StartedAt s),
        check_err (\<not> positive (sd_Revision s)) InvalidIdentifier ''source revision'',
        check_err (sd_State s \<notin> {SourceCurrent, SourceRetired}) InvalidEnum ''source state'']"

definition OriginRef_Validate :: "OriginRef \<Rightarrow> err" where
  "OriginRef_Validate o' =
     bestError
       [validateOpaqueValue (or_OriginID o') ''origin id'', validateEvidenceSet (or_Evidence o') 1 32,
        check_err (or_Kind o' \<notin> {OriginNativeObservation, OriginDerived, OriginOperator, OriginAutomation, OriginProjection})
          InvalidEnum ''origin kind'',
        opt_err (\<lambda>v. validateOpaqueValue v ''source id'') (or_SourceID o'),
        opt_err (\<lambda>v. validateOpaqueValue v ''source epoch id'') (or_SourceEpochID o'),
        opt_err (\<lambda>v. validateOpaqueValue v ''binding id'') (or_BindingID o'),
        (if or_Kind o' = OriginNativeObservation
         then check_err (or_SourceID o' = None \<or> or_SourceEpochID o' = None \<or> or_BindingID o' = None)
                MissingMember ''native origin path''
         else check_err (or_SourceID o' \<noteq> None \<or> or_SourceEpochID o' \<noteq> None \<or> or_BindingID o' \<noteq> None)
                InvalidValue ''non-native origin path'')]"

definition NativeBinding_Validate :: "NativeBinding \<Rightarrow> err" where
  "NativeBinding_Validate b =
     bestError
       [validateOpaqueValue (nb_BindingID b) ''binding id'', validateOpaqueValue (nb_AssetID b) ''asset id'',
        validateOpaqueValue (nb_SourceID b) ''source id'',
        validateOpaqueValue (nb_SourceEpochID b) ''source epoch id'',
        check_err (\<not> positive (nb_DriverGeneration b) \<or> \<not> positive (nb_Revision b)) InvalidIdentifier ''native binding'',
        validateEvidence (nb_NativeResource b),
        check_err (nb_State b \<notin> {BindingCurrent, BindingFenced, BindingRetired}) InvalidEnum ''binding state'']"

definition IdentityLink_Validate :: "IdentityLink \<Rightarrow> err" where
  "IdentityLink_Validate i =
     bestError
       [validateOpaqueValue (il_AssetID i) ''asset id'', validateOpaqueValue (il_BindingID i) ''binding id'',
        check_err (\<not> positive (il_Revision i)) InvalidIdentifier ''identity revision'',
        check_err (il_State i \<notin> {LinkCandidate, LinkQualified, LinkRejected, LinkConflict, LinkWithdrawn})
          InvalidEnum ''link state'',
        (case il_Basis i of
           None \<Rightarrow> Some (errID MissingMember ''identity basis'')
         | Some basis \<Rightarrow> if basis = [] then Some (errID IdentityNotQualified ''identity basis'')
                         else validateEvidenceSet (Some basis) 1 32)]"

definition SourcePathRef_Validate :: "SourcePathRef \<Rightarrow> err" where
  "SourcePathRef_Validate p =
     bestError
       [validateOpaqueValue (sp_BindingID p) ''binding id'', validateOpaqueValue (sp_SourceID p) ''source id'',
        validateOpaqueValue (sp_SourceEpochID p) ''source epoch id'',
        check_err (\<not> positive (sp_DriverGeneration p)) InvalidIdentifier ''driver generation'']"

definition compareSourcePath :: "SourcePathRef \<Rightarrow> SourcePathRef \<Rightarrow> int" where
  "compareSourcePath = cmp_then (by_field sp_SourceID) (cmp_then (by_field sp_SourceEpochID)
     (cmp_then (cmp_on sp_DriverGeneration compareUint64) (by_field sp_BindingID)))"

definition SourcePathRef_identity :: "SourcePathRef identity" where
  "SourcePathRef_identity =
     \<lparr>key_valid = (\<lambda>p. validOpaque (sp_SourceID p) \<and> validOpaque (sp_SourceEpochID p) \<and>
        positive (sp_DriverGeneration p) \<and> validOpaque (sp_BindingID p)),
      key_of = (\<lambda>p. [sp_SourceID p, sp_SourceEpochID p, sp_DriverGeneration p, sp_BindingID p])\<rparr>"

definition DerivationInput_Validate :: "DerivationInput \<Rightarrow> err" where
  "DerivationInput_Validate d =
     bestError
       ([check_err (di_SourcePaths d = None) MissingMember ''source paths'',
         validateOpaqueValue (di_CandidateID d) ''candidate id'',
         check_err (\<not> positive (di_CandidateRevision d)) InvalidIdentifier ''candidate revision''] @
        map SourcePathRef_Validate (elems (di_SourcePaths d)) @
        [check_err (length (elems (di_SourcePaths d)) < 1 \<or> length (elems (di_SourcePaths d)) > 32)
           BoundsExceeded ''source paths'',
         check_err (duplicated SourcePathRef_identity compareSourcePath (di_SourcePaths d)) DuplicateKey ''source paths'',
         check_err (\<not> in_order SourcePathRef_identity compareSourcePath (di_SourcePaths d))
           NoncanonicalOrder ''source paths''])"

definition Derivation_Validate :: "Derivation \<Rightarrow> err" where
  "Derivation_Validate d =
     (let I = opaque_identity di_CandidateID; c = by_field di_CandidateID in
      bestError
       ([check_err (dv_Inputs d = None) MissingMember ''derivation inputs'',
         DefinitionID_Validate (dv_Algorithm d), SemanticVersion_Validate (dv_Version d)] @
        map DerivationInput_Validate (elems (dv_Inputs d)) @
        [check_err (length (elems (dv_Inputs d)) < 1 \<or> length (elems (dv_Inputs d)) > 32)
           BoundsExceeded ''derivation inputs'',
         check_err (duplicated I c (dv_Inputs d)) DerivationCycle ''derivation input'',
         check_err (\<not> in_order I c (dv_Inputs d)) NoncanonicalOrder ''derivation inputs'',
         validateEvidenceSet (dv_Evidence d) 0 32]))"

section \<open>Values\<close>

definition Decimal_Validate :: "Decimal \<Rightarrow> err" where
  "Decimal_Validate d =
     check_err
       (\<not> re_match coefficientRE (dc_Coefficient d) \<or> dc_Exponent10 d < -18 \<or> dc_Exponent10 d > 18 \<or>
        (dc_Coefficient d = ''0'' \<and> dc_Exponent10 d \<noteq> 0) \<or>
        (dc_Coefficient d \<noteq> ''0'' \<and> dc_Coefficient d \<noteq> [] \<and> last (dc_Coefficient d) = CHR ''0''))
       InvalidDecimal ''decimal''"

definition Symbol_Validate :: "env \<Rightarrow> Symbol \<Rightarrow> err" where
  "Symbol_Validate E s =
     (let v = (if sy_Token s = [] then Some (errID InvalidValue ''symbol token'')
               else validateText E (sy_Token s) 1 256 False);
          v = (if take 7 (sy_Namespace s) = ''native.''
               then (if sy_Known s then bestError [v, Some (errID InvalidValue ''known native symbol'')] else v)
               else if \<not> sy_Known s then bestError [v, Some (errID InvalidValue ''unknown symbol namespace'')] else v)
      in bestError [DefinitionID_Validate (sy_Namespace s), v])"

definition Quantity_Validate :: "Quantity \<Rightarrow> err" where
  "Quantity_Validate q = bestError [Decimal_Validate (qt_Number q), DefinitionID_Validate (qt_Unit q)]"

definition Symbol_identity :: "env \<Rightarrow> Symbol identity" where
  "Symbol_identity E =
     \<lparr>key_valid = (\<lambda>s. validDefinition (sy_Namespace s) \<and> sy_Token s \<noteq> [] \<and> validateText E (sy_Token s) 0 256 False = None),
      key_of = (\<lambda>s. [sy_Namespace s, sy_Token s])\<rparr>"

definition compareSymbol :: "Symbol \<Rightarrow> Symbol \<Rightarrow> int" where
  "compareSymbol = cmp_then (by_field sy_Namespace) (by_field sy_Token)"

definition validateSymbols :: "env \<Rightarrow> Symbol slice \<Rightarrow> err" where
  "validateSymbols E symbols =
     bestError
       (map (Symbol_Validate E) (elems symbols) @
        [check_err (length (elems symbols) < 1 \<or> length (elems symbols) > 64) BoundsExceeded ''symbols'',
         check_err (duplicated (Symbol_identity E) compareSymbol symbols) DuplicateKey ''symbols'',
         check_err (\<not> in_order (Symbol_identity E) compareSymbol symbols) NoncanonicalOrder ''symbols''])"

definition payload_count :: "Value \<Rightarrow> nat" where
  "payload_count v = of_bool (vl_Quantity v \<noteq> None) + of_bool (vl_Boolean v \<noteq> None) +
     of_bool (vl_Text v \<noteq> None) + of_bool (vl_Symbol v \<noteq> None) +
     of_bool (vl_Symbols v \<noteq> None) + of_bool (vl_Time v \<noteq> None)"

definition Value_Validate :: "env \<Rightarrow> Value \<Rightarrow> err" where
  "Value_Validate E v =
     bestError
       [opt_err Quantity_Validate (vl_Quantity v),
        opt_err (\<lambda>t. validateText E t 0 4096 True) (vl_Text v),
        opt_err (Symbol_Validate E) (vl_Symbol v),
        (if vl_Symbols v \<noteq> None then validateSymbols E (vl_Symbols v) else None),
        opt_err TimePoint_Validate (vl_Time v),
        check_err (payload_count v \<noteq> 1) InvalidValue ''value payload'',
        (case vl_Kind v of
           ValueQuantity \<Rightarrow> check_err (vl_Quantity v = None) InvalidValue ''quantity payload''
         | ValueBoolean \<Rightarrow> check_err (vl_Boolean v = None) InvalidValue ''boolean payload''
         | ValueText \<Rightarrow> check_err (vl_Text v = None) InvalidValue ''text payload''
         | ValueSymbol \<Rightarrow> check_err (vl_Symbol v = None) InvalidValue ''symbol payload''
         | ValueSymbols \<Rightarrow> check_err (vl_Symbols v = None) InvalidValue ''symbols payload''
         | ValueTime \<Rightarrow> check_err (vl_Time v = None) InvalidValue ''time payload''
         | ValueKindOther _ \<Rightarrow> Some (errID InvalidEnum ''value kind''))]"

definition Dimension_Validate :: "env \<Rightarrow> Dimension \<Rightarrow> err" where
  "Dimension_Validate E d =
     bestError
       [DefinitionID_Validate (dm_ID d), Value_Validate E (dm_Value d),
        check_err (vl_Kind (dm_Value d) \<notin> {ValueBoolean, ValueText, ValueSymbol, ValueQuantity})
          InvalidValue ''dimension kind'']"

definition FactKey_Validate :: "env \<Rightarrow> FactKey \<Rightarrow> err" where
  "FactKey_Validate E k =
     (let I = definition_identity dm_ID; c = by_field dm_ID in
      bestError
       ([check_err (fk_Dimensions k = None) MissingMember ''dimensions'',
         DefinitionID_Validate (fk_PackID k), SemanticVersion_Validate (fk_PackVersion k),
         DefinitionID_Validate (fk_FactID k)] @
        map (Dimension_Validate E) (elems (fk_Dimensions k)) @
        [check_err (length (elems (fk_Dimensions k)) > 16) BoundsExceeded ''dimensions'',
         check_err (duplicated I c (fk_Dimensions k)) DuplicateKey ''dimensions'',
         check_err (\<not> in_order I c (fk_Dimensions k)) NoncanonicalOrder ''dimensions'']))"

definition factKeyIdentity :: "env \<Rightarrow> FactKey \<Rightarrow> error + string" where
  "factKeyIdentity E key = CanonicalJSON (FactKey_Validate E) json_of_FactKey key"

section \<open>Quality and causality\<close>

definition Quality_Validate :: "Quality \<Rightarrow> err" where
  "Quality_Validate q =
     (let I = definition_identity (\<lambda>x. x); c = by_field (\<lambda>x. x) in
      bestError
       ([check_err (ql_Reasons q = None) MissingMember ''reasons''] @
        map DefinitionID_Validate (elems (ql_Reasons q)) @
        [check_err (ql_Assertion q \<notin> {AssertionObserved, AssertionInferred}) InvalidEnum ''assertion'',
         check_err (ql_Qualification q \<notin> {QualificationCandidate, QualificationQualified, QualificationUnsupported,
             QualificationUnknown, QualificationRejected}) InvalidEnum ''qualification'',
         check_err (ql_Promotion q \<notin> {PromotionUnpromoted, PromotionPromoted}) InvalidEnum ''promotion'',
         check_err (ql_Validity q \<notin> {ValidityGood, ValiditySuspect, ValidityBad, ValidityUnknown}) InvalidEnum ''validity'',
         check_err (ql_Availability q \<notin> {AvailabilityAvailable, AvailabilityDegraded, AvailabilityUnavailable,
             AvailabilityWithdrawn}) InvalidEnum ''availability'',
         check_err (ql_Freshness q \<notin> {FreshnessFresh, FreshnessStale, FreshnessExpired, FreshnessUnknown})
           InvalidEnum ''freshness'',
         check_err (ql_Promotion q = PromotionPromoted \<and>
             (ql_Qualification q \<noteq> QualificationQualified \<or>
              ql_Validity q \<notin> {ValidityGood, ValiditySuspect} \<or>
              ql_Availability q \<notin> {AvailabilityAvailable, AvailabilityDegraded})) InvalidValue ''promotion'',
         check_err (length (elems (ql_Reasons q)) > 16) BoundsExceeded ''reasons'',
         check_err (duplicated I c (ql_Reasons q)) DuplicateKey ''reasons'',
         check_err (\<not> in_order I c (ql_Reasons q)) NoncanonicalOrder ''reasons'']))"

definition causal_limit_ns :: int where
  "causal_limit_ns = 300000000000"

definition causalTimeErrors :: "TimePoint option \<Rightarrow> TimePoint option \<Rightarrow> err list" where
  "causalTimeErrors firstPoint expiresPoint =
     check_err ((\<exists>f \<in> set_option firstPoint. tp_ClockID f \<noteq> ''clock.utc'') \<or>
                (\<exists>e \<in> set_option expiresPoint. tp_ClockID e \<noteq> ''clock.utc'')) InvalidTime ''causal clock'' #
     (case (firstPoint, expiresPoint) of
        (Some f, Some e) \<Rightarrow>
          (case (i64_val (tp_UnixNanoseconds f), i64_val (tp_UnixNanoseconds e)) of
             (Some a, Some z) \<Rightarrow>
               [if z - a < 0 then Some (errID InvalidTime ''causal order'')
                else check_err (z - a > causal_limit_ns) CausalBudgetExceeded ''causal lifetime'']
           | _ \<Rightarrow> [])
      | _ \<Rightarrow> [])"

definition CausalContext_Validate :: "CausalContext \<Rightarrow> err" where
  "CausalContext_Validate c =
     bestError
       ([check_err (cc_Path c = None) MissingMember ''causal path'',
         OriginRef_Validate (cc_Origin c), validateOpaqueValue (cc_CorrelationID c) ''correlation id'',
         TimePoint_Validate (cc_FirstSeenAt c), TimePoint_Validate (cc_ExpiresAt c),
         opt_err (\<lambda>v. validateOpaqueValue v ''correlation id'') (cc_ParentCorrelationID c)] @
        map (\<lambda>t. validateOpaqueValue t ''target id'') (elems (cc_Path c)) @
        causalTimeErrors (Some (cc_FirstSeenAt c)) (Some (cc_ExpiresAt c)) @
        [check_err (cc_MaxHops c < 1 \<or> cc_MaxHops c > 16 \<or> cc_HopCount c > cc_MaxHops c \<or>
            cc_HopCount c \<noteq> length (elems (cc_Path c)) \<or>
            duplicated (opaque_identity (\<lambda>x. x)) (by_field (\<lambda>x. x)) (cc_Path c))
           CausalBudgetExceeded ''causal path''])"

section \<open>Candidates\<close>

definition presentMemberErrors :: "env \<Rightarrow> FactCandidate \<Rightarrow> err list" where
  "presentMemberErrors E c =
     [opt_err (Value_Validate E) (fc_Value c), opt_err CausalContext_Validate (fc_Causal c),
      opt_err (\<lambda>v. validateOpaqueValue v ''binding id'') (fc_BindingID c),
      opt_err (\<lambda>v. validateOpaqueValue v ''source epoch id'') (fc_SourceEpochID c),
      opt_err (\<lambda>g. check_err (\<not> positive g) InvalidIdentifier ''driver generation'') (fc_DriverGeneration c)] @
     (case fc_Derivation c of
        None \<Rightarrow> []
      | Some d \<Rightarrow> Derivation_Validate d #
          map (\<lambda>i. check_err (di_CandidateID i = fc_CandidateID c) DerivationCycle ''self reference'') (elems (dv_Inputs d)))"

abbreviation no_source_path :: "FactCandidate \<Rightarrow> bool" where
  "no_source_path c \<equiv> fc_BindingID c = None \<or> fc_SourceEpochID c = None \<or> fc_DriverGeneration c = None"

definition differ :: "'a option \<Rightarrow> 'a option \<Rightarrow> bool" where
  "differ a b = (case (a, b) of (Some x, Some y) \<Rightarrow> x \<noteq> y | _ \<Rightarrow> False)"

definition FactCandidate_Validate :: "env \<Rightarrow> FactCandidate \<Rightarrow> err" where
  "FactCandidate_Validate E c =
     (let q = fc_Quality c; og = fc_Origin c;
          valueForbidden = ql_Qualification q \<in> {QualificationUnsupported, QualificationRejected} \<or>
            ql_Availability q = AvailabilityWithdrawn
      in bestError
       (presentMemberErrors E c @
        [validateOpaqueValue (fc_CandidateID c) ''candidate id'', FactKey_Validate E (fc_Key c),
         Quality_Validate q, Times_Validate (fc_Times c), FreshnessPolicy_Validate (fc_FreshnessPolicy c),
         OriginRef_Validate og, validateEvidenceSet (fc_Evidence c) 1 32,
         check_err (\<not> positive (fc_Revision c)) InvalidIdentifier ''candidate revision'',
         check_err (valueForbidden \<and> fc_Value c \<noteq> None) InvalidValue ''forbidden candidate value'',
         check_err (\<not> valueForbidden \<and> fc_Value c = None) MissingMember ''candidate value'',
         check_err (ql_Assertion q = AssertionInferred \<and>
             (fc_BindingID c \<noteq> None \<or> fc_SourceEpochID c \<noteq> None \<or> fc_DriverGeneration c \<noteq> None))
           InvalidValue ''inferred source path'',
         check_err (ql_Assertion q = AssertionInferred \<and> fc_Derivation c = None) MissingMember ''derivation'',
         check_err (ql_Assertion q = AssertionObserved \<and> fc_Derivation c \<noteq> None) InvalidValue ''observed derivation'',
         check_err (ql_Assertion q = AssertionObserved \<and> no_source_path c) MissingMember ''observed source path'',
         check_err (or_Kind og = OriginDerived \<and> fc_Derivation c = None) MissingMember ''derived origin derivation'',
         check_err (or_Kind og = OriginNativeObservation \<and> no_source_path c) MissingMember ''native observation path'',
         check_err (or_Kind og = OriginNativeObservation \<and> \<not> no_source_path c \<and>
             differ (fc_BindingID c) (or_BindingID og)) InvalidValue ''origin binding'',
         check_err (or_Kind og = OriginNativeObservation \<and> \<not> no_source_path c \<and>
             differ (fc_SourceEpochID c) (or_SourceEpochID og)) InvalidValue ''origin epoch'',
         check_err (or_Kind og = OriginProjection \<and> fc_Causal c = None) MissingMember ''projection causal context'']))"

definition retainedRemovalError :: "RetainedRemoval \<Rightarrow> err" where
  "retainedRemovalError r =
     check_err (r \<notin> {RetainedRemovalGenerationFence, RetainedRemovalSourceRetirement}) InvalidEnum ''retained removal''"

definition RetainedObservationRecord_Validate :: "env \<Rightarrow> RetainedObservationRecord \<Rightarrow> err" where
  "RetainedObservationRecord_Validate E r =
     bestError
       [check_err (ro_Contract r \<noteq> ContractRetainedObservationV1) InvalidContract ''retained observation'',
        retainedRemovalError (ro_Removal r), FactCandidate_Validate E (ro_Candidate r)]"

section \<open>Definitions, services and capabilities\<close>

definition PackRef_Validate :: "PackRef \<Rightarrow> err" where
  "PackRef_Validate p = bestError [DefinitionID_Validate (pk_ID p), SemanticVersion_Validate (pk_Version p)]"

definition DefinitionRef_Validate :: "DefinitionRef \<Rightarrow> err" where
  "DefinitionRef_Validate d =
     bestError [PackRef_Validate (df_Pack d), DefinitionID_Validate (df_ID d), SemanticVersion_Validate (df_Version d)]"

definition compareVersion :: "SemanticVersion \<Rightarrow> SemanticVersion \<Rightarrow> int" where
  "compareVersion a b = (let (c, ok) = compareSemver a b in if ok then c else string_compare a b)"

definition compareDefinition :: "DefinitionRef \<Rightarrow> DefinitionRef \<Rightarrow> int" where
  "compareDefinition = cmp_then (by_field df_ID) (cmp_on df_Version compareVersion)"

definition DefinitionRef_identity :: "DefinitionRef identity" where
  "DefinitionRef_identity =
     \<lparr>key_valid = (\<lambda>d. validDefinition (df_ID d) \<and> validSemver (df_Version d)),
      key_of = (\<lambda>d. [df_ID d, df_Version d])\<rparr>"

definition group_errors :: "PackRef \<Rightarrow> ErrorID \<Rightarrow> DefinitionRef slice \<Rightarrow> err list" where
  "group_errors pack duplicateClass refs =
     [check_err (refs = None) MissingMember ''definition collection''] @
     concat (map (\<lambda>ref. [DefinitionRef_Validate ref,
        check_err (df_Pack ref \<noteq> pack) DefinitionOwnerConflict ''definition index pack'']) (elems refs)) @
     [check_err (duplicated DefinitionRef_identity compareDefinition refs) duplicateClass ''definitions'',
      check_err (\<not> in_order DefinitionRef_identity compareDefinition refs) NoncanonicalOrder ''definitions'']"

definition DefinitionIndex_validationErrors :: "ErrorID \<Rightarrow> DefinitionIndex \<Rightarrow> err list" where
  "DefinitionIndex_validationErrors duplicateClass d =
     PackRef_Validate (dx_Pack d) #
     concat (map (group_errors (dx_Pack d) duplicateClass)
       [dx_Fields d, dx_Services d, dx_Capabilities d, dx_Operations d, dx_EffectRules d])"

definition DefinitionIndex_Validate :: "DefinitionIndex \<Rightarrow> err" where
  "DefinitionIndex_Validate d = bestError (DefinitionIndex_validationErrors DuplicateKey d)"

definition TypedField_Validate :: "env \<Rightarrow> TypedField \<Rightarrow> err" where
  "TypedField_Validate E f = bestError [DefinitionID_Validate (tf_ID f), Value_Validate E (tf_Value f)]"

definition PredicateOp_Validate :: "PredicateOp \<Rightarrow> err" where
  "PredicateOp_Validate p =
     check_err (p \<notin> {PredicateEqual, PredicateNotEqual, PredicateLess, PredicateLessEqual, PredicateGreater,
       PredicateGreaterEqual, PredicateContains}) InvalidEnum ''predicate''"

abbreviation known_qualifications :: "Qualification set" where
  "known_qualifications \<equiv> {QualificationCandidate, QualificationQualified, QualificationUnsupported,
     QualificationUnknown, QualificationRejected}"

abbreviation known_availabilities :: "Availability set" where
  "known_availabilities \<equiv> {AvailabilityAvailable, AvailabilityDegraded, AvailabilityUnavailable, AvailabilityWithdrawn}"

definition ServiceInstance_Validate :: "ServiceInstance \<Rightarrow> err" where
  "ServiceInstance_Validate s =
     (let enum = check_err (si_Qualification s \<notin> known_qualifications) InvalidEnum ''service qualification'';
          enum = (if si_Availability s \<notin> known_availabilities
                  then bestError [enum, Some (errID InvalidEnum ''service availability'')] else enum);
          numeric = check_err (\<not> positive (si_DriverGeneration s) \<or> \<not> positive (si_Revision s))
            InvalidIdentifier ''service generation/revision''
      in bestError
       [validateOpaqueValue (si_InstanceID s) ''service instance id'', validateOpaqueValue (si_AssetID s) ''asset id'',
        DefinitionRef_Validate (si_Definition s), validateOpaqueValue (si_BindingID s) ''binding id'',
        validateOpaqueValue (si_SourceEpochID s) ''source epoch id'', numeric, enum])"

definition validateConstraintFields :: "env \<Rightarrow> TypedField slice \<Rightarrow> err" where
  "validateConstraintFields E fs =
     (let I = definition_identity tf_ID; c = by_field tf_ID in
      bestError
       ([check_err (fs = None) MissingMember ''constraints''] @
        map (TypedField_Validate E) (elems fs) @
        [check_err (length (elems fs) > 64) BoundsExceeded ''constraints'',
         check_err (duplicated I c fs) DuplicateKey ''constraints'',
         check_err (\<not> in_order I c fs) NoncanonicalOrder ''constraints'']))"

definition CapabilityInstance_Validate :: "env \<Rightarrow> CapabilityInstance \<Rightarrow> err" where
  "CapabilityInstance_Validate E c =
     bestError
       [validateConstraintFields E (ci_Constraints c),
        validateOpaqueValue (ci_InstanceID c) ''capability instance id'', validateOpaqueValue (ci_AssetID c) ''asset id'',
        validateOpaqueValue (ci_ServiceInstance c) ''service instance id'', DefinitionRef_Validate (ci_Definition c),
        validateOpaqueValue (ci_BindingID c) ''binding id'', validateOpaqueValue (ci_SourceEpochID c) ''source epoch id'',
        check_err (\<not> positive (ci_DriverGeneration c) \<or> \<not> positive (ci_Revision c))
          InvalidIdentifier ''capability generation/revision'',
        check_err (ci_Qualification c \<notin> known_qualifications) InvalidEnum ''capability qualification'',
        check_err (ci_Availability c \<notin> known_availabilities) InvalidEnum ''capability availability'',
        (case ci_ActivationEvidence c of
           None \<Rightarrow> Some (errID MissingMember ''activation evidence'')
         | Some ev \<Rightarrow> if ev = [] then Some (errID CapabilityNotQualified ''activation evidence'')
                      else validateEvidenceSet (Some ev) 1 32)]"

section \<open>Publication and evaluation records\<close>

definition GenerationFence_Validate :: "GenerationFence \<Rightarrow> err" where
  "GenerationFence_Validate f =
     bestError
       [validateOpaqueValue (gf_SourceID f) ''source id'', validateOpaqueValue (gf_SourceEpochID f) ''source epoch id'',
        check_err (\<not> positive (gf_DriverGeneration f) \<or> \<not> positive (gf_Revision f)) InvalidIdentifier ''generation fence'',
        DefinitionID_Validate (gf_Reason f), validateEvidenceSet (gf_Evidence f) 1 32]"

definition RevisionVector_Validate :: "RevisionVector \<Rightarrow> err" where
  "RevisionVector_Validate r =
     check_err (\<not> positive (rv_Semantic r) \<or> \<not> positive (rv_Identity r) \<or> \<not> positive (rv_Facts r) \<or>
       \<not> positive (rv_Services r) \<or> \<not> positive (rv_Capabilities r)) InvalidIdentifier ''revision vector''"

definition PublicationCursor_Validate :: "PublicationCursor \<Rightarrow> err" where
  "PublicationCursor_Validate c =
     bestError
       [validateOpaqueValue (pc_SourceID c) ''source id'', validateOpaqueValue (pc_SourceEpochID c) ''source epoch id'',
        check_err (\<not> positive (pc_DriverGeneration c) \<or> \<not> positive (pc_LastSequence c)) InvalidIdentifier ''publication cursor'',
        Digest_Validate (pc_LastBatchDigest c)]"

definition EvaluatedFact_Validate :: "EvaluatedFact \<Rightarrow> err" where
  "EvaluatedFact_Validate f =
     bestError
       [validateOpaqueValue (ef_CandidateID f) ''candidate id'',
        check_err (\<not> positive (ef_CandidateRevision f)) InvalidIdentifier ''evaluated candidate revision'',
        check_err (ef_Freshness f \<notin> {FreshnessFresh, FreshnessStale, FreshnessExpired, FreshnessUnknown})
          InvalidEnum ''evaluated freshness'',
        check_err (ef_EffectiveAvailability f \<notin> known_availabilities) InvalidEnum ''effective availability'']"

definition EvaluatedRetainedObservation_Validate :: "env \<Rightarrow> EvaluatedRetainedObservation \<Rightarrow> err" where
  "EvaluatedRetainedObservation_Validate E f =
     (if er_Freshness f \<notin> {FreshnessFresh, FreshnessStale, FreshnessExpired, FreshnessUnknown}
      then Some (errID InvalidEnum ''evaluated retained freshness'')
      else RetainedObservationRecord_Validate E (er_Observation f))"

definition Selection_Validate :: "env \<Rightarrow> Selection \<Rightarrow> err" where
  "Selection_Validate E s =
     bestError
       [check_err (sl_Contract s \<noteq> ContractSelectionV1) InvalidContract ''selection'',
        validateOpaqueValue (sl_SnapshotID s) ''snapshot id'', RevisionVector_Validate (sl_Revisions s),
        Digest_Validate (sl_EvaluationDigest s), EvaluationContext_Validate (sl_Context s), FactKey_Validate E (sl_Key s),
        validateOpaqueValue (sl_PolicyID s) ''policy id'', SemanticVersion_Validate (sl_PolicyVersion s),
        validateOpaqueValue (sl_SelectedCandidate s) ''candidate id'',
        check_err (\<not> positive (sl_CandidateRevision s)) InvalidIdentifier ''selection candidate revision'',
        check_err (\<not> sl_PresentationOnly s) InvalidValue ''presentation only'']"

section \<open>Canonical order of the collections\<close>

lemma no_nul_split: "nul \<notin> set a \<Longrightarrow> nul \<notin> set b \<Longrightarrow> a @ nul # r = b @ nul # s \<longleftrightarrow> a = b \<and> r = s"
proof (induction a arbitrary: b)
  case Nil
  then show ?case by (cases b) auto
next
  case (Cons x a)
  then show ?case by (cases b) auto
qed

lemma byte_nul: "byte nul = 0"
  by (simp add: nul_def)

text \<open>All identifier patterns are over non-zero ASCII characters.\<close>

definition plain_char :: "char \<Rightarrow> bool" where
  "plain_char c \<longleftrightarrow> 0 < byte c \<and> byte c < 128"

definition plain :: "string \<Rightarrow> bool" where
  "plain s \<longleftrightarrow> (\<forall>c \<in> set s. plain_char c)"

lemma plain_no_nul: "plain s \<Longrightarrow> nul \<notin> set s"
  by (auto simp: plain_def plain_char_def byte_nul)

lemma plain_utf8: "plain s \<Longrightarrow> utf8_valid s"
  by (rule utf8_valid_ascii) (simp add: plain_def plain_char_def)

lemma plain_match: "re_match r s \<Longrightarrow> over plain_char r \<Longrightarrow> plain s"
  using in_lang_over [of r s plain_char] by (auto simp: re_match_iff plain_def)

lemma class_plain:
  "lower c \<Longrightarrow> plain_char c" "digit c \<Longrightarrow> plain_char c" "lower_digit c \<Longrightarrow> plain_char c"
  "nonzero_digit c \<Longrightarrow> plain_char c" "alnum c \<Longrightarrow> plain_char c" "hex_digit c \<Longrightarrow> plain_char c"
  by (auto simp: plain_char_def lower_def digit_def lower_digit_def nonzero_digit_def alnum_def upper_def hex_digit_def)

lemma one_of_plain: "list_all plain_char cs \<Longrightarrow> one_of cs c \<Longrightarrow> plain_char c"
  by (auto simp: one_of_def list_all_iff)

lemma one_of_literals:
  "one_of ''._-'' c \<Longrightarrow> plain_char c" "one_of ''._/-'' c \<Longrightarrow> plain_char c" "one_of ''./'' c \<Longrightarrow> plain_char c"
  "one_of ''v'' c \<Longrightarrow> plain_char c" "one_of ''0'' c \<Longrightarrow> plain_char c" "one_of ''.'' c \<Longrightarrow> plain_char c"
  "one_of ''-'' c \<Longrightarrow> plain_char c" "one_of ''._:/@-'' c \<Longrightarrow> plain_char c"
  by (erule one_of_plain [rotated], simp add: plain_char_def)+

lemma validDefinition_plain: "validDefinition v \<Longrightarrow> plain v"
  by (rule plain_match [of definitionRE])
    (simp_all add: validDefinition_def definitionRE_def Plus1_def class_plain one_of_literals)

lemma validContract_plain: "validContract v \<Longrightarrow> plain v"
  by (rule plain_match [of contractRE])
    (simp_all add: validContract_def contractRE_def Plus1_def class_plain one_of_literals)

lemma validSemver_plain: "validSemver v \<Longrightarrow> plain v"
  by (rule plain_match [of semverRE])
    (simp_all add: validSemver_def semverRE_def u64RE_def class_plain one_of_literals)

lemma validOpaque_plain: "validOpaque v \<Longrightarrow> plain v"
  by (rule plain_match [of opaqueRE])
    (auto simp: validOpaque_def opaqueRE_def opaque_char_def class_plain one_of_literals)

lemma coefficient_plain: "re_match coefficientRE v \<Longrightarrow> plain v"
  by (rule plain_match [of coefficientRE]) (simp_all add: coefficientRE_def class_plain one_of_literals)

lemma u64_plain: "snd (u64 v) \<Longrightarrow> plain v"
  by (rule plain_match [of u64RE])
    (auto simp: u64_def u64RE_def class_plain one_of_literals split: if_splits)

lemma compareEvidence_on: "compareEvidence = cmp_on evidence_key string_compare"
  by (simp add: fun_eq_iff compareEvidence_def cmp_on_def)

interpretation evidence_set: collection EvidenceRef_identity compareEvidence
  unfolding compareEvidence_on
proof (rule collection_on)
  fix x y :: EvidenceRef
  assume "key_valid EvidenceRef_identity x" "key_valid EvidenceRef_identity y"
  then have "nul \<notin> set (ev_Owner x)" "nul \<notin> set (ev_Kind x)" "nul \<notin> set (ev_Contract x)"
    "nul \<notin> set (ev_Owner y)" "nul \<notin> set (ev_Kind y)" "nul \<notin> set (ev_Contract y)"
    by (simp_all add: EvidenceRef_identity_def validDefinition_plain validContract_plain plain_no_nul)
  then show "evidence_key x = evidence_key y \<longleftrightarrow> key_of EvidenceRef_identity x = key_of EvidenceRef_identity y"
    by (simp add: evidence_key_def EvidenceRef_identity_def no_nul_split)
qed (simp_all add: string_cmp.comparator_axioms)

text \<open>A field compared by \<^verbatim>\<open>strings.Compare\<close>, with no condition on it, as a building block.\<close>

definition field_identity :: "('a \<Rightarrow> string) \<Rightarrow> 'a identity" where
  "field_identity f = string_identity (\<lambda>_. True) f"

lemma collection_field: "collection (field_identity f) (by_field f)"
  unfolding field_identity_def by (rule by_string.collection_axioms)

definition pair_identity :: "'a identity \<Rightarrow> 'a identity \<Rightarrow> 'a identity" where
  "pair_identity I J = \<lparr>key_valid = (\<lambda>x. key_valid I x \<and> key_valid J x), key_of = (\<lambda>x. key_of I x @ key_of J x)\<rparr>"

lemma collection_field_then:
  assumes "collection J c"
  shows "collection (pair_identity (field_identity f) J) (cmp_then (by_field f) c)"
  by (rule collection_then [OF collection_field assms]) (simp_all add: pair_identity_def field_identity_def)

lemma collection_counter_then:
  assumes "collection J c"
  shows "collection (pair_identity (counter_identity f) J) (cmp_then (cmp_on f compareUint64) c)"
  by (rule collection_then [OF by_counter.collection_axioms assms]) (simp_all add: pair_identity_def)

lemma collection_weaken:
  assumes "collection I c" and "\<And>x. key_valid K x \<Longrightarrow> key_valid I x" and "key_of K = key_of I"
  shows "collection K c"
proof
  fix x y assume v: "key_valid K x" "key_valid K y"
  then have vi: "key_valid I x" "key_valid I y" using assms(2) by blast+
  show "c x y = 0 \<longleftrightarrow> key_of K x = key_of K y"
    using collection.compare_0 [OF assms(1) vi] by (simp only: assms(3))
  show "c y x = - c x y" by (rule collection.compare_flip [OF assms(1) vi])
next
  fix x y z assume "key_valid K x" "key_valid K y" "key_valid K z" "c x y \<le> 0" "c y z \<le> 0"
  then show "c x z \<le> 0" using collection.compare_trans [OF assms(1)] assms(2) by blast
qed

interpretation source_paths: collection SourcePathRef_identity compareSourcePath
proof -
  have "collection (pair_identity (field_identity sp_SourceID) (pair_identity (field_identity sp_SourceEpochID)
      (pair_identity (counter_identity sp_DriverGeneration) (field_identity sp_BindingID)))) compareSourcePath"
    unfolding compareSourcePath_def
    by (intro collection_field_then collection_counter_then collection_field)
  then show "collection SourcePathRef_identity compareSourcePath"
    by (rule collection_weaken)
      (simp_all add: SourcePathRef_identity_def pair_identity_def field_identity_def fun_eq_iff)
qed

interpretation symbol_set: collection "Symbol_identity E" compareSymbol for E
proof -
  have "collection (pair_identity (field_identity sy_Namespace) (field_identity sy_Token)) compareSymbol"
    unfolding compareSymbol_def by (intro collection_field_then collection_field)
  then show "collection (Symbol_identity E) compareSymbol"
    by (rule collection_weaken) (simp_all add: Symbol_identity_def pair_identity_def field_identity_def fun_eq_iff)
qed

end
