(* ===== verification/Key_Identity.thy ===== *)
theory Key_Identity
  imports Validation
begin

text \<open>
  The identity of a fact key is its canonical JSON text (\<^verbatim>\<open>factKeyIdentity\<close>). The kernel uses it as
  a map key, as a sort key and as part of other identities, so two valid keys must have the same
  text only if they are the same key. That is proved here from the injectivity of the canonical
  writer and the shape of valid dimension values.
\<close>

section \<open>Reading members off canonical objects\<close>

lemma jcs_lookup:
  assumes "jcs (JObject ms) = jcs (JObject ns)" "distinct (map fst ms)" "distinct (map fst ns)"
  shows "map_option jcs (map_of ms k) = map_option jcs (map_of ns k)"
proof -
  have mem: "map_of xs k = Some v \<longleftrightarrow> (k, v) \<in> set xs" if "distinct (map fst xs)" for xs :: "(string \<times> json) list" and v
    using that by (simp add: map_of_eq_Some_iff)
  have transfer: "\<exists>w. map_of ys k = Some w \<and> jcs w = jcs v"
    if "jcs (JObject xs) = jcs (JObject ys)" "distinct (map fst ys)" "(k, v) \<in> set xs" for xs ys v
  proof -
    have "(k, jcs v) \<in> set (map (\<lambda>m. (fst m, jcs (snd m))) xs)" using that(3) by force
    then have "(k, jcs v) \<in> set (map (\<lambda>m. (fst m, jcs (snd m))) ys)"
      using jcs_object_members [OF that(1)] by (simp only:)
    then obtain w where "(k, w) \<in> set ys" "jcs w = jcs v" by auto
    then show ?thesis using that(2) by (auto simp: map_of_eq_Some_iff)
  qed
  show ?thesis
  proof (cases "map_of ms k")
    case None
    have "map_of ns k = None"
    proof (rule ccontr)
      assume "map_of ns k \<noteq> None"
      then obtain v where "(k, v) \<in> set ns" using assms(3) by (auto simp: map_of_eq_Some_iff)
      with transfer [OF assms(1) [symmetric] assms(2)] None show False by auto
    qed
    with None show ?thesis by simp
  next
    case (Some v)
    then have "(k, v) \<in> set ms" using assms(2) by (simp add: map_of_eq_Some_iff)
    from transfer [OF assms(1,3) this] Some show ?thesis by auto
  qed
qed

lemma jcs_JString [simp]: "jcs (jstr s) = jstr s"
  by (simp add: jstr_def)

lemma jstr_inj: "utf8_valid s \<Longrightarrow> utf8_valid t \<Longrightarrow> jstr s = jstr t \<longleftrightarrow> s = t"
  by (simp add: jstr_def utf8_repair_id)

lemma plain_jstr_inj: "plain s \<Longrightarrow> plain t \<Longrightarrow> jstr s = jstr t \<longleftrightarrow> s = t"
  by (simp add: jstr_inj plain_utf8)

lemma json_wf_jstr: "utf8_valid s \<Longrightarrow> json_wf (jstr s)"
  by (simp add: jstr_def utf8_repair_id)

lemma int_string_inj: "int_string i = int_string j \<longleftrightarrow> i = j"
proof
  assume eq: "int_string i = int_string j"
  have first: "\<exists>d ds. nat_string n = d # ds \<and> digit d" for n
    using nat_string_digits [of n] nat_string_ne [of n] by (cases "nat_string n") auto
  have hd: "hd (int_string k) = CHR ''-'' \<longleftrightarrow> k < 0" for k
  proof (cases "k < 0")
    case False
    obtain d ds where d: "nat_string (nat k) = d # ds" "digit d" using first by blast
    with False digit_not_sign [OF d(2)] show ?thesis by (simp add: int_string_def)
  qed (simp add: int_string_def)
  have sign: "(i < 0) = (j < 0)" using hd [of i] hd [of j] by (simp only: eq)
  have "nat_string (nat \<bar>i\<bar>) = nat_string (nat \<bar>j\<bar>)"
    using eq sign by (cases "i < 0") (simp_all add: int_string_def)
  then have "int (nat \<bar>i\<bar>) = int (nat \<bar>j\<bar>)" by (metis digits_val_nat_string)
  then have "\<bar>i\<bar> = \<bar>j\<bar>" by simp
  with sign show "i = j" by (auto simp: abs_if split: if_splits)
qed simp

lemma int_string_number: "number_text (int_string i)"
  using nat_string_digits by (auto simp: number_text_def int_string_def list_all_iff)

section \<open>Values of dimensions\<close>

definition quantity_value :: "Quantity \<Rightarrow> Value" where
  "quantity_value q = \<lparr>vl_Kind = ValueQuantity, vl_Quantity = Some q, vl_Boolean = None, vl_Text = None,
     vl_Symbol = None, vl_Symbols = None, vl_Time = None\<rparr>"

definition boolean_value :: "bool \<Rightarrow> Value" where
  "boolean_value b = \<lparr>vl_Kind = ValueBoolean, vl_Quantity = None, vl_Boolean = Some b, vl_Text = None,
     vl_Symbol = None, vl_Symbols = None, vl_Time = None\<rparr>"

definition text_value :: "string \<Rightarrow> Value" where
  "text_value t = \<lparr>vl_Kind = ValueText, vl_Quantity = None, vl_Boolean = None, vl_Text = Some t,
     vl_Symbol = None, vl_Symbols = None, vl_Time = None\<rparr>"

definition symbol_value :: "Symbol \<Rightarrow> Value" where
  "symbol_value s = \<lparr>vl_Kind = ValueSymbol, vl_Quantity = None, vl_Boolean = None, vl_Text = None,
     vl_Symbol = Some s, vl_Symbols = None, vl_Time = None\<rparr>"

lemmas value_forms = quantity_value_def boolean_value_def text_value_def symbol_value_def

text \<open>A valid dimension carries exactly one payload, of one of four kinds.\<close>

lemma dimension_value_cases:
  assumes "Dimension_Validate E d = None"
  obtains (q) q where "dm_Value d = quantity_value q" "Quantity_Validate q = None"
  | (b) b where "dm_Value d = boolean_value b"
  | (t) t where "dm_Value d = text_value t" "validateText E t 0 4096 True = None"
  | (s) s where "dm_Value d = symbol_value s" "Symbol_Validate E s = None"
proof -
  let ?v = "dm_Value d"
  have one: "payload_count ?v = 1" and kind: "vl_Kind ?v \<in> {ValueBoolean, ValueText, ValueSymbol, ValueQuantity}"
    and v: "Value_Validate E ?v = None"
    using assms by (auto simp: Dimension_Validate_def Value_Validate_def)
  have pick: "(vl_Kind ?v = ValueQuantity \<and> vl_Quantity ?v \<noteq> None) \<or> (vl_Kind ?v = ValueBoolean \<and> vl_Boolean ?v \<noteq> None) \<or>
      (vl_Kind ?v = ValueText \<and> vl_Text ?v \<noteq> None) \<or> (vl_Kind ?v = ValueSymbol \<and> vl_Symbol ?v \<noteq> None)"
    using v kind by (auto simp: Value_Validate_def)
  have others: "of_bool (vl_Quantity ?v \<noteq> None) + of_bool (vl_Boolean ?v \<noteq> None) + of_bool (vl_Text ?v \<noteq> None) +
      of_bool (vl_Symbol ?v \<noteq> None) + of_bool (vl_Symbols ?v \<noteq> None) + of_bool (vl_Time ?v \<noteq> None) = (1 :: nat)"
    using one by (simp add: payload_count_def)
  show thesis
    using pick
  proof (elim disjE conjE)
    assume k: "vl_Kind ?v = ValueQuantity" and p: "vl_Quantity ?v \<noteq> None"
    then obtain x where x: "vl_Quantity ?v = Some x" by blast
    with others have "vl_Boolean ?v = None \<and> vl_Text ?v = None \<and> vl_Symbol ?v = None \<and> vl_Symbols ?v = None \<and> vl_Time ?v = None"
      by (simp add: of_bool_def split: if_splits)
    with k x have "?v = quantity_value x" by (cases ?v) (simp add: value_forms)
    moreover have "Quantity_Validate x = None" using v x by (simp add: Value_Validate_def)
    ultimately show thesis by (rule q)
  next
    assume k: "vl_Kind ?v = ValueBoolean" and p: "vl_Boolean ?v \<noteq> None"
    then obtain x where x: "vl_Boolean ?v = Some x" by blast
    with others have "vl_Quantity ?v = None \<and> vl_Text ?v = None \<and> vl_Symbol ?v = None \<and> vl_Symbols ?v = None \<and> vl_Time ?v = None"
      by (simp add: of_bool_def split: if_splits)
    with k x have "?v = boolean_value x" by (cases ?v) (simp add: value_forms)
    then show thesis by (rule b)
  next
    assume k: "vl_Kind ?v = ValueText" and p: "vl_Text ?v \<noteq> None"
    then obtain x where x: "vl_Text ?v = Some x" by blast
    with others have "vl_Quantity ?v = None \<and> vl_Boolean ?v = None \<and> vl_Symbol ?v = None \<and> vl_Symbols ?v = None \<and> vl_Time ?v = None"
      by (simp add: of_bool_def split: if_splits)
    with k x have "?v = text_value x" by (cases ?v) (simp add: value_forms)
    moreover have "validateText E x 0 4096 True = None" using v x by (simp add: Value_Validate_def)
    ultimately show thesis by (rule t)
  next
    assume k: "vl_Kind ?v = ValueSymbol" and p: "vl_Symbol ?v \<noteq> None"
    then obtain x where x: "vl_Symbol ?v = Some x" by blast
    with others have "vl_Quantity ?v = None \<and> vl_Boolean ?v = None \<and> vl_Text ?v = None \<and> vl_Symbols ?v = None \<and> vl_Time ?v = None"
      by (simp add: of_bool_def split: if_splits)
    with k x have "?v = symbol_value x" by (cases ?v) (simp add: value_forms)
    moreover have "Symbol_Validate E x = None" using v x by (simp add: Value_Validate_def)
    ultimately show thesis by (rule s)
  qed
qed

lemma validateText_utf8: "validateText E t m n c = None \<Longrightarrow> utf8_valid t"
  by (auto simp: validateText_def split: if_splits)

lemma Symbol_Validate_utf8: "Symbol_Validate E s = None \<Longrightarrow> utf8_valid (sy_Namespace s) \<and> utf8_valid (sy_Token s)"
  by (auto simp: Symbol_Validate_def Let_def validDefinition_plain plain_utf8 dest: validateText_utf8 split: if_splits)

lemma Quantity_Validate_plain:
  "Quantity_Validate q = None \<Longrightarrow> plain (dc_Coefficient (qt_Number q)) \<and> plain (qt_Unit q)"
  by (auto simp: Quantity_Validate_def Decimal_Validate_def validDefinition_plain coefficient_plain)

lemma value_json_forms:
  "json_of_Value (quantity_value q) = JObject [(''kind'', jstr ''quantity''), (''quantity'', json_of_Quantity q)]"
  "json_of_Value (boolean_value b) = JObject [(''kind'', jstr ''boolean''), (''boolean'', JBool b)]"
  "json_of_Value (text_value t) = JObject [(''kind'', jstr ''text''), (''text'', jstr t)]"
  "json_of_Value (symbol_value s) = JObject [(''kind'', jstr ''symbol''), (''symbol'', json_of_Symbol s)]"
  by (simp_all add: json_of_Value_def value_forms member_opt_def member_nonempty_def)

lemma ascii_literal_utf8: "list_all (\<lambda>c. byte c < 128) s \<Longrightarrow> utf8_valid s"
  by (rule utf8_valid_ascii) (simp add: list_all_iff)

lemma kind_literals:
  "utf8_valid ''kind''" "utf8_valid ''quantity''" "utf8_valid ''boolean''" "utf8_valid ''text''" "utf8_valid ''symbol''"
  "utf8_valid ''number''" "utf8_valid ''unit''" "utf8_valid ''coefficient''" "utf8_valid ''exponent10''"
  "utf8_valid ''namespace''" "utf8_valid ''token''" "utf8_valid ''known''" "utf8_valid ''id''" "utf8_valid ''value''"
  "utf8_valid ''pack_id''" "utf8_valid ''pack_version''" "utf8_valid ''fact_id''" "utf8_valid ''dimensions''"
  by (rule ascii_literal_utf8, simp)+

lemma Quantity_json:
  assumes "Quantity_Validate a = None"
  shows "json_wf (json_of_Quantity a)"
    and "Quantity_Validate b = None \<Longrightarrow> jcs (json_of_Quantity a) = jcs (json_of_Quantity b) \<Longrightarrow> a = b"
proof -
  note pa = Quantity_Validate_plain [OF assms]
  show "json_wf (json_of_Quantity a)"
    using pa by (simp add: json_of_Quantity_def json_of_Decimal_def json_wf_jstr plain_utf8 int_string_number kind_literals)
  assume b: "Quantity_Validate b = None" and eq: "jcs (json_of_Quantity a) = jcs (json_of_Quantity b)"
  note pb = Quantity_Validate_plain [OF b]
  note look = jcs_lookup [OF eq [unfolded json_of_Quantity_def]]
  from look [of "''unit''"] look [of "''number''"]
  have unit: "qt_Unit a = qt_Unit b" and num: "jcs (json_of_Decimal (qt_Number a)) = jcs (json_of_Decimal (qt_Number b))"
    using pa pb by (simp_all add: plain_jstr_inj)
  note look = jcs_lookup [OF num [unfolded json_of_Decimal_def]]
  from look [of "''coefficient''"] look [of "''exponent10''"]
  have "qt_Number a = qt_Number b" using pa pb by (simp add: plain_jstr_inj int_string_inj)
  with unit show "a = b" by simp
qed

lemma Symbol_json:
  assumes "Symbol_Validate E a = None"
  shows "json_wf (json_of_Symbol a)"
    and "Symbol_Validate E b = None \<Longrightarrow> jcs (json_of_Symbol a) = jcs (json_of_Symbol b) \<Longrightarrow> a = b"
proof -
  note pa = Symbol_Validate_utf8 [OF assms]
  show "json_wf (json_of_Symbol a)" using pa by (simp add: json_of_Symbol_def json_wf_jstr kind_literals)
  assume b: "Symbol_Validate E b = None" and eq: "jcs (json_of_Symbol a) = jcs (json_of_Symbol b)"
  note pb = Symbol_Validate_utf8 [OF b]
  note look = jcs_lookup [OF eq [unfolded json_of_Symbol_def]]
  from look [of "''namespace''"] look [of "''token''"] look [of "''known''"]
  show "a = b" using pa pb by (simp add: jstr_inj)
qed

section \<open>Dimensions and keys\<close>

lemma Dimension_json_wf:
  assumes "Dimension_Validate E d = None"
  shows "json_wf (json_of_Dimension d)"
proof -
  have "utf8_valid (dm_ID d)" using assms by (simp add: Dimension_Validate_def validDefinition_plain plain_utf8)
  moreover have "json_wf (json_of_Value (dm_Value d))"
    using assms
  proof (cases rule: dimension_value_cases)
    case (q q)
    then show ?thesis by (simp add: value_json_forms json_wf_jstr kind_literals Quantity_json(1))
  next
    case (t t)
    then show ?thesis by (simp add: value_json_forms json_wf_jstr kind_literals validateText_utf8)
  next
    case (s s)
    then show ?thesis by (simp add: value_json_forms json_wf_jstr kind_literals Symbol_json(1))
  qed (simp add: value_json_forms json_wf_jstr kind_literals)
  ultimately show ?thesis by (simp add: json_of_Dimension_def json_wf_jstr kind_literals)
qed

text \<open>The member that carries the payload, with its encoding.\<close>

inductive payload :: "env \<Rightarrow> Value \<Rightarrow> string \<Rightarrow> json \<Rightarrow> bool" where
  payload_quantity: "Quantity_Validate q = None \<Longrightarrow> payload E (quantity_value q) ''quantity'' (json_of_Quantity q)"
| payload_boolean: "payload E (boolean_value b) ''boolean'' (JBool b)"
| payload_text: "utf8_valid t \<Longrightarrow> payload E (text_value t) ''text'' (jstr t)"
| payload_symbol: "Symbol_Validate E x = None \<Longrightarrow> payload E (symbol_value x) ''symbol'' (json_of_Symbol x)"

inductive_cases payload_quantityE: "payload E v ''quantity'' p"
inductive_cases payload_booleanE: "payload E v ''boolean'' p"
inductive_cases payload_textE: "payload E v ''text'' p"
inductive_cases payload_symbolE: "payload E v ''symbol'' p"

lemma payload_json:
  assumes "payload E v k p"
  shows "json_of_Value v = JObject [(''kind'', jstr k), (k, p)]" "utf8_valid k" "k \<noteq> ''kind''"
  using assms by (cases; simp add: value_json_forms kind_literals)+

lemma dimension_payload:
  assumes "Dimension_Validate E d = None"
  shows "\<exists>k p. payload E (dm_Value d) k p"
  using assms
proof (cases rule: dimension_value_cases)
  case (q q)
  then show ?thesis using payload_quantity by metis
next
  case (b b)
  then show ?thesis using payload_boolean by metis
next
  case (t t)
  then show ?thesis using payload_text validateText_utf8 by metis
next
  case (s s)
  then show ?thesis using payload_symbol by metis
qed

lemma payload_inj:
  assumes "payload E v k p" "payload E w k r" "jcs p = jcs r"
  shows "v = w"
  using assms(1)
proof cases
  case (payload_quantity q)
  with assms(2,3) Quantity_json(2) show ?thesis by (auto elim!: payload_quantityE)
next
  case (payload_boolean b)
  with assms(2,3) show ?thesis by (auto elim!: payload_booleanE)
next
  case (payload_text t)
  with assms(2,3) show ?thesis by (auto elim!: payload_textE simp: jstr_inj)
next
  case (payload_symbol x)
  with assms(2,3) Symbol_json(2) show ?thesis by (auto elim!: payload_symbolE)
qed

lemma dimension_value_inj:
  assumes "Dimension_Validate E c = None" "Dimension_Validate E d = None"
    and "jcs (json_of_Value (dm_Value c)) = jcs (json_of_Value (dm_Value d))"
  shows "dm_Value c = dm_Value d"
proof -
  obtain k p l r where c: "payload E (dm_Value c) k p" and d: "payload E (dm_Value d) l r"
    using dimension_payload assms(1,2) by blast
  note look = jcs_lookup [OF assms(3) [unfolded payload_json(1) [OF c] payload_json(1) [OF d]]]
  have kl: "k = l"
    using look [of "''kind''"] payload_json(2,3) [OF c] payload_json(2,3) [OF d] by (simp add: jstr_inj)
  have "jcs p = jcs r" using look [of k] payload_json(3) [OF d] by (simp add: kl)
  with c d show ?thesis unfolding kl by (rule payload_inj)
qed

lemma Dimension_json_inj:
  assumes "Dimension_Validate E c = None" "Dimension_Validate E d = None"
    and "jcs (json_of_Dimension c) = jcs (json_of_Dimension d)"
  shows "c = d"
proof -
  note look = jcs_lookup [OF assms(3) [unfolded json_of_Dimension_def]]
  have "plain (dm_ID c)" "plain (dm_ID d)"
    using assms(1,2) by (simp_all add: Dimension_Validate_def validDefinition_plain)
  then have "dm_ID c = dm_ID d" using look [of "''id''"] by (simp add: plain_jstr_inj)
  moreover have "dm_Value c = dm_Value d"
    using dimension_value_inj [OF assms(1,2)] look [of "''value''"] by simp
  ultimately show ?thesis by simp
qed

lemma FactKey_ValidateD:
  assumes "FactKey_Validate E k = None"
  shows "fk_Dimensions k \<noteq> None" "plain (fk_PackID k)" "plain (fk_PackVersion k)" "plain (fk_FactID k)"
    "\<forall>d \<in> set (elems (fk_Dimensions k)). Dimension_Validate E d = None"
  using assms by (auto simp: FactKey_Validate_def Let_def validDefinition_plain validSemver_plain)

lemma FactKey_json_wf:
  assumes "FactKey_Validate E k = None"
  shows "json_wf (json_of_FactKey k)"
  using FactKey_ValidateD [OF assms] Dimension_json_wf [of E]
  by (auto simp: json_of_FactKey_def json_wf_jstr plain_utf8 kind_literals jslice_def list_all_iff)

lemma map_jcs_inj:
  assumes "\<forall>d \<in> set xs \<union> set ys. Dimension_Validate E d = None"
    and "map jcs (map json_of_Dimension xs) = map jcs (map json_of_Dimension ys)"
  shows "xs = ys"
  using assms
proof (induction xs arbitrary: ys)
  case (Cons x xs)
  then obtain y zs where "ys = y # zs" by (cases ys) auto
  with Cons Dimension_json_inj [of E x y] show ?case by simp
qed simp

lemma factKeyIdentity_valid:
  assumes "FactKey_Validate E k = None"
  shows "factKeyIdentity E k = Inr (render (jcs (json_of_FactKey k)))"
  using assms writeCanonical_render [OF FactKey_json_wf [OF assms]]
  by (simp add: factKeyIdentity_def CanonicalJSON_def canonicalize_def)

lemma factKeyIdentity_Inr: "factKeyIdentity E k = Inr t \<Longrightarrow> FactKey_Validate E k = None"
  by (auto simp: factKeyIdentity_def CanonicalJSON_def split: option.splits)

lemma factKeyIdentity_inj:
  assumes "factKeyIdentity E a = Inr t" "factKeyIdentity E b = Inr t"
  shows "a = b"
proof -
  have va: "FactKey_Validate E a = None" and vb: "FactKey_Validate E b = None"
    using assms factKeyIdentity_Inr by blast+
  have "render (jcs (json_of_FactKey a)) = render (jcs (json_of_FactKey b))"
    using assms by (simp add: factKeyIdentity_valid va vb)
  then have eq: "jcs (json_of_FactKey a) = jcs (json_of_FactKey b)"
    by (intro render_inj json_wf_jcs FactKey_json_wf [OF va] FactKey_json_wf [OF vb])
  note look = jcs_lookup [OF eq [unfolded json_of_FactKey_def]]
  note da = FactKey_ValidateD [OF va] and db = FactKey_ValidateD [OF vb]
  have "fk_PackID a = fk_PackID b" "fk_PackVersion a = fk_PackVersion b" "fk_FactID a = fk_FactID b"
    using look [of "''pack_id''"] look [of "''pack_version''"] look [of "''fact_id''"] da(2-4) db(2-4)
    by (simp_all add: plain_jstr_inj)
  moreover have "fk_Dimensions a = fk_Dimensions b"
  proof -
    obtain xs ys where xs: "fk_Dimensions a = Some xs" and ys: "fk_Dimensions b = Some ys" using da(1) db(1) by blast
    with look [of "''dimensions''"] have "map jcs (map json_of_Dimension xs) = map jcs (map json_of_Dimension ys)"
      by (simp add: jslice_def)
    then have "xs = ys" using map_jcs_inj [of xs ys E] da(5) db(5) xs ys by auto
    with xs ys show ?thesis by simp
  qed
  ultimately show ?thesis by simp
qed

end
