(* ===== verification/Facts.thy ===== *)
theory Facts
  imports Key_Identity
begin

text \<open>
  Facts with several candidates (\<^verbatim>\<open>Conflict\<close>, \<^verbatim>\<open>FactEnvelope\<close> and \<^verbatim>\<open>deriveConflicts\<close> of
  \<^verbatim>\<open>semreg/v1/validation.go\<close>, \<^verbatim>\<open>rebuildEnvelopes\<close> and the retained-observation identity of
  \<^verbatim>\<open>semreg/v1/publication.go\<close>). Candidates that disagree are kept side by side; the conflict
  list is derived from them and never supplied.
\<close>

section \<open>Conflicts\<close>

definition Conflict_Validate :: "Conflict \<Rightarrow> err" where
  "Conflict_Validate c =
     (let I = opaque_identity (\<lambda>x. x); cmp = by_field (\<lambda>x. x) in
      bestError
       ([validateOpaqueValue (cf_ConflictID c) ''conflict id''] @
        map (\<lambda>v. validateOpaqueValue v ''candidate id'') (elems (cf_Candidates c)) @
        [check_err (cf_Kind c \<noteq> ConflictValue) InvalidEnum ''conflict kind'',
         check_err (cf_State c \<noteq> ConflictOpen) InvalidEnum ''conflict state'',
         check_err (length (elems (cf_Candidates c)) < 2 \<or> length (elems (cf_Candidates c)) > 32)
           BoundsExceeded ''conflict candidates'',
         check_err (duplicated I cmp (cf_Candidates c)) DuplicateKey ''conflict candidates'',
         check_err (\<not> in_order I cmp (cf_Candidates c)) NoncanonicalOrder ''conflict candidates'',
         validateEvidenceSet (cf_Evidence c) 1 1024]))"

definition sameFactKey :: "env \<Rightarrow> FactKey \<Rightarrow> FactKey \<Rightarrow> bool" where
  "sameFactKey E a b = (case (factKeyIdentity E a, factKeyIdentity E b) of
     (Inr x, Inr y) \<Rightarrow> x = y
   | _ \<Rightarrow> False)"

text \<open>Removing neighbours that compare equal, as the loops over \<^verbatim>\<open>dedup\<close> do.\<close>

fun dedup_from :: "('a \<Rightarrow> 'a \<Rightarrow> int) \<Rightarrow> 'a \<Rightarrow> 'a list \<Rightarrow> 'a list" where
  "dedup_from cmp x [] = [x]"
| "dedup_from cmp x (y # ys) = (if cmp x y \<noteq> 0 then x # dedup_from cmp y ys else dedup_from cmp x ys)"

fun dedup_adjacent :: "('a \<Rightarrow> 'a \<Rightarrow> int) \<Rightarrow> 'a list \<Rightarrow> 'a list" where
  "dedup_adjacent cmp [] = []"
| "dedup_adjacent cmp (x # xs) = dedup_from cmp x xs"

definition eligible_candidate :: "FactCandidate \<Rightarrow> bool" where
  "eligible_candidate c \<longleftrightarrow> fc_Value c \<noteq> None \<and>
     ql_Qualification (fc_Quality c) = QualificationQualified \<and> ql_Promotion (fc_Quality c) = PromotionPromoted"

fun sum_list_errors :: "(error + 'a) list \<Rightarrow> error + 'a list" where
  "sum_list_errors [] = Inr []"
| "sum_list_errors (Inl e # xs) = Inl e"
| "sum_list_errors (Inr x # xs) = (case sum_list_errors xs of Inl e \<Rightarrow> Inl e | Inr ys \<Rightarrow> Inr (x # ys))"

definition append_nil :: "'a list \<Rightarrow> 'a slice" where
  "append_nil xs = (if xs = [] then None else Some xs)"

definition conflict_identity_json :: "AssetID \<Rightarrow> FactKey \<Rightarrow> CandidateID list \<Rightarrow> json" where
  "conflict_identity_json asset key ids = JObject
     [(''contract'', jstr ''helianthus.semantic.conflict-id/v1''), (''asset_id'', jstr asset),
      (''key'', json_of_FactKey key), (''kind'', jstr (ConflictKind_string ConflictValue)),
      (''candidates'', JArray (map jstr ids))]"

definition deriveConflicts :: "env \<Rightarrow> AssetID \<Rightarrow> FactKey \<Rightarrow> FactCandidate list \<Rightarrow> error + Conflict list" where
  "deriveConflicts E asset key candidates =
     (let eligible = filter eligible_candidate candidates in
      case sum_list_errors (map (\<lambda>c. CanonicalJSON (Value_Validate E) json_of_Value (the (fc_Value c))) eligible) of
        Inl e \<Rightarrow> Inl e
      | Inr canonical \<Rightarrow>
          if length (remdups canonical) < 2 then Inr []
          else
            (let ids = map fc_CandidateID (sort_by (by_field fc_CandidateID) eligible);
                 evidence = concat (map (\<lambda>c. elems (fc_Evidence c)) eligible);
                 dedup = dedup_adjacent compareEvidence (sort_by compareEvidence evidence)
             in case canonicalize (conflict_identity_json asset key ids) of
                  Inl e \<Rightarrow> Inl e
                | Inr text \<Rightarrow> Inr
                    [\<lparr>cf_ConflictID = sha256_digest E text, cf_Kind = ConflictValue, cf_Candidates = Some ids,
                      cf_Evidence = append_nil dedup, cf_State = ConflictOpen\<rparr>]))"

section \<open>Envelopes\<close>

definition FactEnvelope_Validate :: "env \<Rightarrow> FactEnvelope \<Rightarrow> err" where
  "FactEnvelope_Validate E f =
     (let I = opaque_identity fc_CandidateID; cmp = by_field fc_CandidateID;
          J = opaque_identity cf_ConflictID; ccmp = by_field cf_ConflictID;
          derived = deriveConflicts E (fe_AssetID f) (fe_Key f) (elems (fe_Candidates f))
      in bestError
       ([check_err (fe_Candidates f = None) MissingMember ''candidates'',
         check_err (fe_Conflicts f = None) MissingMember ''conflicts'',
         validateOpaqueValue (fe_AssetID f) ''asset id'', FactKey_Validate E (fe_Key f),
         check_err (\<not> positive (fe_Revision f)) InvalidIdentifier ''fact revision''] @
        concat (map (\<lambda>c. [FactCandidate_Validate E c,
          check_err (\<not> sameFactKey E (fc_Key c) (fe_Key f)) InvalidValue ''candidate key'']) (elems (fe_Candidates f))) @
        [check_err (length (elems (fe_Candidates f)) < 1 \<or> length (elems (fe_Candidates f)) > 32)
           BoundsExceeded ''candidates'',
         check_err (duplicated I cmp (fe_Candidates f)) DuplicateKey ''candidates'',
         check_err (\<not> in_order I cmp (fe_Candidates f)) NoncanonicalOrder ''candidates''] @
        map Conflict_Validate (elems (fe_Conflicts f)) @
        [check_err (duplicated J ccmp (fe_Conflicts f)) DuplicateKey ''conflicts'',
         check_err (\<not> in_order J ccmp (fe_Conflicts f)) NoncanonicalOrder ''conflicts'',
         (case derived of Inl e \<Rightarrow> Some e | Inr _ \<Rightarrow> None),
         (case derived of Inl e \<Rightarrow> None
          | Inr expected \<Rightarrow> check_err (Some expected \<noteq> fe_Conflicts f) InvalidValue ''derived conflicts'')]))"

text \<open>The comparison of \<^verbatim>\<open>compareEnvelope\<close>: a failed identity reads as the empty string.\<close>

definition key_text :: "env \<Rightarrow> FactKey \<Rightarrow> string" where
  "key_text E k = (case factKeyIdentity E k of Inl _ \<Rightarrow> [] | Inr s \<Rightarrow> s)"

definition compareEnvelope :: "env \<Rightarrow> FactEnvelope \<Rightarrow> FactEnvelope \<Rightarrow> int" where
  "compareEnvelope E a b = string_compare (key_text E (fe_Key a)) (key_text E (fe_Key b))"

definition FactEnvelope_identity :: "env \<Rightarrow> FactEnvelope identity" where
  "FactEnvelope_identity E =
     \<lparr>key_valid = (\<lambda>f. FactKey_Validate E (fe_Key f) = None), key_of = (\<lambda>f. [key_text E (fe_Key f)])\<rparr>"

text \<open>Grouping candidates by the identity of their key. A Go map from identity to group is an
  association list; a group keeps the key of its first candidate.\<close>

type_synonym fact_groups = "(string, FactKey \<times> FactCandidate list) gomap"

definition add_to_group :: "string \<Rightarrow> FactCandidate \<Rightarrow> fact_groups \<Rightarrow> fact_groups" where
  "add_to_group key c groups = (case map_of groups key of
     None \<Rightarrow> AList.update key (fc_Key c, [c]) groups
   | Some (k, cs) \<Rightarrow> AList.update key (k, cs @ [c]) groups)"

fun group_candidates :: "env \<Rightarrow> FactCandidate list \<Rightarrow> fact_groups \<Rightarrow> error + fact_groups" where
  "group_candidates E [] groups = Inr groups"
| "group_candidates E (c # cs) groups = (case factKeyIdentity E (fc_Key c) of
     Inl e \<Rightarrow> Inl e
   | Inr key \<Rightarrow> group_candidates E cs (add_to_group key c groups))"

definition rebuild_envelope :: "env \<Rightarrow> AssetID \<Rightarrow> (string, FactEnvelope) gomap \<Rightarrow>
    string \<times> FactKey \<times> FactCandidate list \<Rightarrow> error + FactEnvelope" where
  "rebuild_envelope E asset oldByKey g = (case g of (key, k, cs) \<Rightarrow>
     (let candidates = sort_by (by_field fc_CandidateID) cs in
      case deriveConflicts E asset k candidates of
        Inl e \<Rightarrow> Inl e
      | Inr conflicts \<Rightarrow> Inr
          \<lparr>fe_AssetID = asset, fe_Key = k, fe_Candidates = Some candidates, fe_Conflicts = Some conflicts,
           fe_Revision = (case map_of oldByKey key of
               None \<Rightarrow> ''1''
             | Some old \<Rightarrow>
                 if fe_Candidates old \<noteq> Some candidates \<or> fe_Conflicts old \<noteq> Some conflicts
                 then increment (fe_Revision old) else fe_Revision old)\<rparr>))"

definition rebuildEnvelopes :: "env \<Rightarrow> FactEnvelope list \<Rightarrow> AssetID \<Rightarrow> FactCandidate list \<Rightarrow> error + FactEnvelope list" where
  "rebuildEnvelopes E previous asset candidates =
     (case sum_list_errors (map (\<lambda>f. map_sum id (\<lambda>k. (k, f)) (factKeyIdentity E (fe_Key f))) previous) of
        Inl e \<Rightarrow> Inl e
      | Inr old \<Rightarrow>
          (case group_candidates E candidates [] of
             Inl e \<Rightarrow> Inl e
           | Inr groups \<Rightarrow>
               sum_list_errors
                 (map (rebuild_envelope E asset (foldl (\<lambda>m (k, f). AList.update k f m) [] old))
                   (sort_by (by_field fst) groups))))"

section \<open>Retained observations\<close>

definition retainedObservationIdentity :: "env \<Rightarrow> FactCandidate \<Rightarrow> error + string" where
  "retainedObservationIdentity E c = (case (fc_BindingID c, fc_SourceEpochID c, fc_DriverGeneration c) of
     (Some b, Some ep, Some g) \<Rightarrow>
       (case factKeyIdentity E (fc_Key c) of
          Inl e \<Rightarrow> Inl e
        | Inr key \<Rightarrow> Inr (fc_CandidateID c @ nul # fc_Revision c @ nul # key @ nul # b @ nul # ep @ nul # g))
   | _ \<Rightarrow> Inl (errID InvalidValue ''retained observation identity''))"

definition identity_text :: "env \<Rightarrow> FactCandidate \<Rightarrow> string" where
  "identity_text E c = (case retainedObservationIdentity E c of Inl _ \<Rightarrow> [] | Inr s \<Rightarrow> s)"

fun identity_order_loop :: "string \<Rightarrow> string list \<Rightarrow> string option \<Rightarrow> (error + string) list \<Rightarrow> err" where
  "identity_order_loop detail seen previous [] = None"
| "identity_order_loop detail seen previous (Inl e # rest) = Some e"
| "identity_order_loop detail seen previous (Inr i # rest) =
     (if i \<in> set seen then Some (errID DuplicateKey detail)
      else if (case previous of None \<Rightarrow> False | Some p \<Rightarrow> string_compare p i > 0)
      then Some (errID NoncanonicalOrder detail)
      else identity_order_loop detail (i # seen) (Some i) rest)"

definition retainedObservationOrderError :: "env \<Rightarrow> RetainedObservationRecord slice \<Rightarrow> err" where
  "retainedObservationOrderError E records =
     identity_order_loop ''retained observations'' [] None
       (map (\<lambda>r. retainedObservationIdentity E (ro_Candidate r)) (elems records))"

definition evaluatedRetainedObservationOrderError :: "env \<Rightarrow> EvaluatedRetainedObservation slice \<Rightarrow> err" where
  "evaluatedRetainedObservationOrderError E records =
     identity_order_loop ''evaluated retained observations'' [] None
       (map (\<lambda>r. retainedObservationIdentity E (ro_Candidate (er_Observation r))) (elems records))"

end
