(* ===== verification/Derivation_Graph.thy ===== *)
theory Derivation_Graph
  imports Facts
begin

text \<open>
  Closing the derivation graph (\<^verbatim>\<open>closeCandidateGraph\<close> and \<^verbatim>\<open>candidateGraphResolver\<close> of
  \<^verbatim>\<open>semreg/v1/publication.go\<close>). An observed candidate rests on the current binding of its source
  path; a derived candidate rests on its inputs, whose source paths it must name exactly. The
  resolver memoises one result per candidate and treats every cycle of the graph as one failure.
  Both traversals of the source are unbounded recursions; here they carry fuel, one unit per
  nested call, and running out of it is reported as an error of its own, so it can never look like
  acceptance.
\<close>

section \<open>Resolver state\<close>

type_synonym candidate_map = "(CandidateID, FactCandidate) gomap"
type_synonym binding_map = "(NativeBindingID, NativeBinding) gomap"

record candidateGraphResult =
  gr_paths :: "SourcePathRef slice"
  gr_depth :: int
  gr_err :: err

record graph =
  g_candidates :: candidate_map
  g_bindings :: binding_map
  g_cycles :: "(CandidateID, CandidateID list) gomap"

record resolver_state =
  rs_states :: "(CandidateID, nat) gomap"
  rs_results :: "(CandidateID, candidateGraphResult) gomap"

definition maxDerivationNodes :: nat where "maxDerivationNodes = 4096"
definition maxStagedDerivationNodes :: nat where "maxStagedDerivationNodes = maxDerivationNodes * 2"
definition maxDerivationDepth :: int where "maxDerivationDepth = 32"

definition zero_result :: candidateGraphResult where
  "zero_result = \<lparr>gr_paths = None, gr_depth = 0, gr_err = None\<rparr>"

definition fuel_error :: error where
  "fuel_error = errID (OtherErrorID ''model.fuel'') ''fuel''"

definition lookup_state :: "resolver_state \<Rightarrow> CandidateID \<Rightarrow> nat" where
  "lookup_state st cid = (case map_of (rs_states st) cid of None \<Rightarrow> 0 | Some n \<Rightarrow> n)"

definition lookup_cycle :: "graph \<Rightarrow> CandidateID \<Rightarrow> CandidateID list" where
  "lookup_cycle g cid = (case map_of (g_cycles g) cid of None \<Rightarrow> [] | Some c \<Rightarrow> c)"

definition lifecycleError :: "NativeBinding \<Rightarrow> error" where
  "lifecycleError b = (if nb_State b = BindingRetired then errID StaleSourceEpoch ''retired binding''
     else errID StaleDriverGeneration ''fenced binding'')"

section \<open>Resolution\<close>

definition observed_result :: "graph \<Rightarrow> FactCandidate \<Rightarrow> candidateGraphResult" where
  "observed_result g c = (let r = zero_result\<lparr>gr_depth := 1\<rparr> in
     case (fc_BindingID c, fc_SourceEpochID c, fc_DriverGeneration c, or_SourceID (fc_Origin c)) of
       (Some b, Some ep, Some gen, Some src) \<Rightarrow>
         (case map_of (g_bindings g) b of
            None \<Rightarrow> r\<lparr>gr_err := Some (errID DanglingReference ''observed candidate binding'')\<rparr>
          | Some binding \<Rightarrow>
              if nb_State binding \<noteq> BindingCurrent then r\<lparr>gr_err := Some (lifecycleError binding)\<rparr>
              else if nb_SourceID binding \<noteq> src \<or> nb_SourceEpochID binding \<noteq> ep \<or> nb_DriverGeneration binding \<noteq> gen
              then r\<lparr>gr_err := Some (errID DanglingReference ''observed candidate path'')\<rparr>
              else r\<lparr>gr_paths := Some [\<lparr>sp_BindingID = b, sp_SourceID = src, sp_SourceEpochID = ep,
                       sp_DriverGeneration = gen\<rparr>]\<rparr>)
     | _ \<Rightarrow> r\<lparr>gr_err := Some (errID DanglingReference ''observed candidate path'')\<rparr>)"

definition finish :: "CandidateID \<Rightarrow> candidateGraphResult \<Rightarrow> resolver_state \<Rightarrow>
    resolver_state \<times> candidateGraphResult \<times> err" where
  "finish cid r st =
     (st\<lparr>rs_states := AList.update cid 2 (rs_states st), rs_results := AList.update cid r (rs_results st)\<rparr>, r, gr_err r)"

type_synonym resolve_fun = "resolver_state \<Rightarrow> CandidateID \<Rightarrow> resolver_state \<times> candidateGraphResult \<times> err"

text \<open>The loop over the inputs of a derived candidate: collected paths, failure and depth.\<close>

fun resolve_inputs :: "resolve_fun \<Rightarrow> graph \<Rightarrow> DerivationInput list \<Rightarrow> resolver_state \<Rightarrow>
    SourcePathRef list \<Rightarrow> err \<Rightarrow> int \<Rightarrow> resolver_state \<times> SourcePathRef list \<times> err \<times> int" where
  "resolve_inputs rec g [] st paths failure depth = (st, paths, failure, depth)"
| "resolve_inputs rec g (input # inputs) st paths failure depth =
     (case map_of (g_candidates g) (di_CandidateID input) of
        None \<Rightarrow> resolve_inputs rec g inputs st paths
          (bestError [failure, Some (errID DanglingReference ''derivation input'')]) depth
      | Some dependency \<Rightarrow>
          if fc_Revision dependency \<noteq> di_CandidateRevision input
          then resolve_inputs rec g inputs st paths
            (bestError [failure, Some (errID DanglingReference ''derivation input'')]) depth
          else (case rec st (di_CandidateID input) of
              (st, resolved, Some e) \<Rightarrow> resolve_inputs rec g inputs st paths (bestError [failure, Some e]) depth
            | (st, resolved, None) \<Rightarrow>
                resolve_inputs rec g inputs st (paths @ elems (gr_paths resolved))
                  (if gr_paths resolved \<noteq> di_SourcePaths input
                   then bestError [failure, Some (errID DanglingReference ''derivation source paths'')] else failure)
                  (if gr_depth resolved + 1 > depth then gr_depth resolved + 1 else depth)))"

definition derived_result :: "SourcePathRef list \<Rightarrow> err \<Rightarrow> int \<Rightarrow> candidateGraphResult" where
  "derived_result paths failure depth =
     (let failure = (if depth > maxDerivationDepth
                     then bestError [failure, Some (errID DerivationCycle ''derivation depth'')] else failure);
          dedup = dedup_adjacent compareSourcePath (sort_by compareSourcePath paths);
          failure = (if length dedup > 32
                     then bestError [failure, Some (errID BoundsExceeded ''derivation source paths'')] else failure)
      in case failure of
           Some e \<Rightarrow> \<lparr>gr_paths = None, gr_depth = depth, gr_err = Some e\<rparr>
         | None \<Rightarrow> \<lparr>gr_paths = append_nil dedup, gr_depth = depth, gr_err = None\<rparr>)"

text \<open>A cycle collects the diagnostics of all its members and is memoised for each of them.\<close>

fun cycle_inputs :: "resolve_fun \<Rightarrow> graph \<Rightarrow> CandidateID list \<Rightarrow> DerivationInput list \<Rightarrow> resolver_state \<Rightarrow>
    err \<Rightarrow> resolver_state \<times> err" where
  "cycle_inputs rec g component [] st failure = (st, failure)"
| "cycle_inputs rec g component (input # inputs) st failure =
     (if (case map_of (g_candidates g) (di_CandidateID input) of
            None \<Rightarrow> True | Some dependency \<Rightarrow> fc_Revision dependency \<noteq> di_CandidateRevision input)
      then cycle_inputs rec g component inputs st
             (bestError [failure, Some (errID DanglingReference ''derivation input'')])
      else if lookup_cycle g (di_CandidateID input) \<noteq> [] \<and>
              hd (lookup_cycle g (di_CandidateID input)) = hd component
      then cycle_inputs rec g component inputs st failure
      else (case rec st (di_CandidateID input) of (st, resolved, e) \<Rightarrow>
          cycle_inputs rec g component inputs st
            (if e = None \<and> gr_paths resolved \<noteq> di_SourcePaths input
             then bestError [bestError [failure, e], Some (errID DanglingReference ''derivation source paths'')]
             else bestError [failure, e])))"

definition inputs_of :: "graph \<Rightarrow> CandidateID \<Rightarrow> DerivationInput list" where
  "inputs_of g cid = (case map_of (g_candidates g) cid of
     None \<Rightarrow> []
   | Some c \<Rightarrow> (case fc_Derivation c of None \<Rightarrow> [] | Some d \<Rightarrow> elems (dv_Inputs d)))"

definition resolveCycle :: "resolve_fun \<Rightarrow> graph \<Rightarrow> CandidateID list \<Rightarrow> resolver_state \<Rightarrow>
    resolver_state \<times> candidateGraphResult \<times> err" where
  "resolveCycle rec g component st =
     (let (st, failure) = foldl (\<lambda>(st, failure) cid. cycle_inputs rec g component (inputs_of g cid) st failure)
            (st, Some (errID DerivationCycle ''candidate graph'')) component;
          result = zero_result\<lparr>gr_err := failure\<rparr>
      in (foldl (\<lambda>st cid. fst (finish cid result st)) st component, result, failure))"

definition resolve_step :: "resolve_fun \<Rightarrow> graph \<Rightarrow> resolve_fun" where
  "resolve_step rec g st cid =
     (if lookup_state st cid = 1 then (st, zero_result, Some (errID DerivationCycle ''candidate graph''))
      else if lookup_state st cid = 2
      then (case map_of (rs_results st) cid of
              Some r \<Rightarrow> (st, r, gr_err r)
            | None \<Rightarrow> (st, zero_result, None))
      else if lookup_cycle g cid \<noteq> [] then resolveCycle rec g (lookup_cycle g cid) st
      else case map_of (g_candidates g) cid of
        None \<Rightarrow> (st, zero_result, Some (errID DanglingReference ''derivation input''))
      | Some c \<Rightarrow>
          (let st = st\<lparr>rs_states := AList.update cid 1 (rs_states st)\<rparr> in
           if ql_Assertion (fc_Quality c) = AssertionObserved then finish cid (observed_result g c) st
           else case fc_Derivation c of
             None \<Rightarrow> finish cid (zero_result\<lparr>gr_depth := 1,
               gr_err := Some (errID DanglingReference ''derived candidate'')\<rparr>) st
           | Some d \<Rightarrow>
               (case resolve_inputs rec g (elems (dv_Inputs d)) st [] None 1 of
                  (st, paths, failure, depth) \<Rightarrow> finish cid (derived_result paths failure depth) st)))"

primrec resolve :: "nat \<Rightarrow> graph \<Rightarrow> resolve_fun" where
  "resolve 0 g = (\<lambda>st cid. (st, zero_result, Some fuel_error))"
| "resolve (Suc n) g = resolve_step (resolve n g) g"

section \<open>Cycles\<close>

text \<open>Tarjan's pass. \<open>ts_index\<close> numbers the visited candidates from 1, so an absent entry reads
  as 0 as in the source's map.\<close>

record tarjan_state =
  ts_index :: "(CandidateID, nat) gomap"
  ts_low :: "(CandidateID, nat) gomap"
  ts_on_stack :: "CandidateID list"
  ts_stack :: "CandidateID list"
  ts_next :: nat
  ts_cycles :: "(CandidateID, CandidateID list) gomap"
  ts_fuel_ok :: bool

definition number_at :: "(CandidateID, nat) gomap \<Rightarrow> CandidateID \<Rightarrow> nat" where
  "number_at m cid = (case map_of m cid of None \<Rightarrow> 0 | Some n \<Rightarrow> n)"

definition lower_low :: "CandidateID \<Rightarrow> nat \<Rightarrow> tarjan_state \<Rightarrow> tarjan_state" where
  "lower_low cid n s = (if n < number_at (ts_low s) cid then s\<lparr>ts_low := AList.update cid n (ts_low s)\<rparr> else s)"

definition visit_input :: "(CandidateID \<Rightarrow> tarjan_state \<Rightarrow> tarjan_state) \<Rightarrow> candidate_map \<Rightarrow> CandidateID \<Rightarrow>
    tarjan_state \<Rightarrow> DerivationInput \<Rightarrow> tarjan_state" where
  "visit_input rec cands cid s input =
     (case map_of cands (di_CandidateID input) of
        None \<Rightarrow> s
      | Some child \<Rightarrow>
          if fc_Revision child \<noteq> di_CandidateRevision input then s
          else if number_at (ts_index s) (di_CandidateID input) = 0
          then (let s = rec (di_CandidateID input) s
                in lower_low cid (number_at (ts_low s) (di_CandidateID input)) s)
          else if di_CandidateID input \<in> set (ts_on_stack s)
          then lower_low cid (number_at (ts_index s) (di_CandidateID input)) s
          else s)"

text \<open>The head of \<open>ts_stack\<close> is the top; popping stops after \<open>cid\<close>.\<close>

fun pop_component :: "CandidateID \<Rightarrow> CandidateID list \<Rightarrow> CandidateID list \<Rightarrow> CandidateID list \<times> CandidateID list" where
  "pop_component cid component [] = (component, [])"
| "pop_component cid component (item # stack) =
     (if item = cid then (component @ [item], stack) else pop_component cid (component @ [item]) stack)"

definition self_cycle :: "candidate_map \<Rightarrow> CandidateID \<Rightarrow> bool" where
  "self_cycle cands cid = (case map_of cands cid of
     None \<Rightarrow> False
   | Some c \<Rightarrow> (case fc_Derivation c of
       None \<Rightarrow> False
     | Some d \<Rightarrow> list_ex (\<lambda>i. di_CandidateID i = cid \<and> di_CandidateRevision i = fc_Revision c) (elems (dv_Inputs d))))"

definition close_component :: "candidate_map \<Rightarrow> CandidateID \<Rightarrow> tarjan_state \<Rightarrow> tarjan_state" where
  "close_component cands cid s =
     (if number_at (ts_low s) cid \<noteq> number_at (ts_index s) cid then s
      else (let (component, stack) = pop_component cid [] (ts_stack s);
                s = s\<lparr>ts_stack := stack, ts_on_stack := filter (\<lambda>x. x \<notin> set component) (ts_on_stack s)\<rparr>
            in if length component > 1 \<or> self_cycle cands cid
               then (let sorted = sort_by string_compare component
                     in s\<lparr>ts_cycles := foldl (\<lambda>m x. AList.update x sorted m) (ts_cycles s) sorted\<rparr>)
               else s))"

definition visit_step :: "(CandidateID \<Rightarrow> tarjan_state \<Rightarrow> tarjan_state) \<Rightarrow> candidate_map \<Rightarrow> CandidateID \<Rightarrow>
    tarjan_state \<Rightarrow> tarjan_state" where
  "visit_step rec cands cid s =
     (let n = ts_next s + 1;
          s = s\<lparr>ts_next := n, ts_index := AList.update cid n (ts_index s), ts_low := AList.update cid n (ts_low s),
                ts_stack := cid # ts_stack s, ts_on_stack := cid # ts_on_stack s\<rparr>;
          ins = (case map_of cands cid of None \<Rightarrow> []
                 | Some c \<Rightarrow> (case fc_Derivation c of None \<Rightarrow> [] | Some d \<Rightarrow> elems (dv_Inputs d)))
      in close_component cands cid (foldl (visit_input rec cands cid) s ins))"

primrec visit :: "nat \<Rightarrow> candidate_map \<Rightarrow> CandidateID \<Rightarrow> tarjan_state \<Rightarrow> tarjan_state" where
  "visit 0 cands = (\<lambda>cid s. s\<lparr>ts_fuel_ok := False\<rparr>)"
| "visit (Suc n) cands = visit_step (visit n cands) cands"

definition findCycles :: "nat \<Rightarrow> candidate_map \<Rightarrow> CandidateID list \<Rightarrow> tarjan_state" where
  "findCycles fuel cands ids =
     foldl (\<lambda>s cid. if number_at (ts_index s) cid = 0 then visit fuel cands cid s else s)
       \<lparr>ts_index = [], ts_low = [], ts_on_stack = [], ts_stack = [], ts_next = 0, ts_cycles = [], ts_fuel_ok = True\<rparr> ids"

section \<open>Closing the graph\<close>

text \<open>A nested call always marks a candidate that was not marked before, or enters a cycle that
  was not entered before, so twice the number of candidates bounds the nesting.\<close>

definition graph_fuel :: "candidate_map \<Rightarrow> nat" where
  "graph_fuel cands = 2 * length cands + 2"

definition close_loop :: "resolve_fun \<Rightarrow> CandidateID list \<Rightarrow> CandidateID list \<Rightarrow> resolver_state \<Rightarrow> err \<Rightarrow>
    CandidateID list \<Rightarrow> resolver_state \<times> err \<times> CandidateID list" where
  "close_loop rec upserted ids st failure remove =
     foldl (\<lambda>(st, failure, remove) cid. case rec st cid of (st, r, e) \<Rightarrow>
         (case e of
            None \<Rightarrow> (st, failure, remove)
          | Some e \<Rightarrow> if cid \<in> set upserted then (st, bestError [failure, Some e], remove)
                      else (st, failure, remove @ [cid])))
       (st, failure, remove) ids"

definition closeCandidateGraph :: "candidate_map \<Rightarrow> CandidateID list \<Rightarrow> binding_map \<Rightarrow> candidate_map \<times> err" where
  "closeCandidateGraph cands upserted bindings =
     (if length cands > maxStagedDerivationNodes
      then (cands, Some (errID BoundsExceeded ''derivation staging nodes''))
      else
        (let ids = sort_by string_compare (map fst cands);
             ts = findCycles (graph_fuel cands) cands ids;
             g = \<lparr>g_candidates = cands, g_bindings = bindings, g_cycles = ts_cycles ts\<rparr>;
             (st, upsertError, remove) = close_loop (resolve (graph_fuel cands) g) upserted ids
               \<lparr>rs_states = [], rs_results = []\<rparr> None [];
             cands' = filter (\<lambda>(cid, c). cid \<notin> set remove) cands
         in (cands', bestError [check_err (\<not> ts_fuel_ok ts) (OtherErrorID ''model.fuel'') ''fuel'', upsertError,
               check_err (length cands' > maxDerivationNodes) BoundsExceeded ''derivation nodes''])))"

definition closeCandidateGraphStrict :: "candidate_map \<Rightarrow> binding_map \<Rightarrow> err" where
  "closeCandidateGraphStrict cands bindings = snd (closeCandidateGraph cands (map fst cands) bindings)"

section \<open>What acceptance means\<close>

text \<open>\<open>derives\<close> is the specification: a candidate rests on current bindings through a derivation of
  bounded depth whose inputs name exactly the source paths they rest on.\<close>

definition observed_path :: "FactCandidate \<Rightarrow> SourcePathRef \<Rightarrow> bool" where
  "observed_path c p \<longleftrightarrow>
     fc_BindingID c = Some (sp_BindingID p) \<and> fc_SourceEpochID c = Some (sp_SourceEpochID p) \<and>
     fc_DriverGeneration c = Some (sp_DriverGeneration p) \<and> or_SourceID (fc_Origin c) = Some (sp_SourceID p)"

definition path_current :: "binding_map \<Rightarrow> SourcePathRef \<Rightarrow> bool" where
  "path_current bindings p \<longleftrightarrow> (\<exists>b. map_of bindings (sp_BindingID p) = Some b \<and> nb_State b = BindingCurrent \<and>
     nb_SourceID b = sp_SourceID p \<and> nb_SourceEpochID b = sp_SourceEpochID p \<and>
     nb_DriverGeneration b = sp_DriverGeneration p)"

definition merged_paths :: "DerivationInput list \<Rightarrow> SourcePathRef list" where
  "merged_paths inputs = dedup_adjacent compareSourcePath
     (sort_by compareSourcePath (concat (map (\<lambda>i. elems (di_SourcePaths i)) inputs)))"

inductive derives :: "candidate_map \<Rightarrow> binding_map \<Rightarrow> CandidateID \<Rightarrow> SourcePathRef slice \<Rightarrow> int \<Rightarrow> bool"
  for cands bindings where
  derives_observed:
    "map_of cands cid = Some c \<Longrightarrow> ql_Assertion (fc_Quality c) = AssertionObserved \<Longrightarrow>
     observed_path c p \<Longrightarrow> path_current bindings p \<Longrightarrow> derives cands bindings cid (Some [p]) 1"
| derives_inferred:
    "map_of cands cid = Some c \<Longrightarrow> ql_Assertion (fc_Quality c) \<noteq> AssertionObserved \<Longrightarrow> fc_Derivation c = Some d \<Longrightarrow>
     \<forall>i \<in> set (elems (dv_Inputs d)). \<exists>dep n. map_of cands (di_CandidateID i) = Some dep \<and>
       fc_Revision dep = di_CandidateRevision i \<and>
       derives cands bindings (di_CandidateID i) (di_SourcePaths i) n \<and> n < depth \<Longrightarrow>
     1 \<le> depth \<Longrightarrow> depth \<le> maxDerivationDepth \<Longrightarrow> length (merged_paths (elems (dv_Inputs d))) \<le> 32 \<Longrightarrow>
     derives cands bindings cid (append_nil (merged_paths (elems (dv_Inputs d)))) depth"

lemma derives_depth: "derives cands bindings cid ps n \<Longrightarrow> 1 \<le> n \<and> n \<le> maxDerivationDepth"
  by (induction rule: derives.induct) (simp_all add: maxDerivationDepth_def)

lemma set_dedup_from: "set (dedup_from cmp x ys) \<subseteq> set (x # ys)"
  by (induction cmp x ys rule: dedup_from.induct) auto

lemma set_dedup_adjacent: "set (dedup_adjacent cmp xs) \<subseteq> set xs"
proof (cases xs)
  case (Cons y ys)
  then show ?thesis using set_dedup_from [of cmp y ys] by simp
qed simp

lemma elems_append_nil [simp]: "elems (append_nil xs) = xs"
  by (simp add: append_nil_def)

lemma derives_current:
  "derives cands bindings cid ps n \<Longrightarrow> p \<in> set (elems ps) \<Longrightarrow> path_current bindings p"
proof (induction arbitrary: p rule: derives.induct)
  case (derives_inferred cid c d depth)
  then have "p \<in> set (concat (map (\<lambda>i. elems (di_SourcePaths i)) (elems (dv_Inputs d))))"
    using set_dedup_adjacent [of compareSourcePath "sort_by compareSourcePath (concat (map (\<lambda>i. elems (di_SourcePaths i)) (elems (dv_Inputs d))))"]
    by (auto simp: merged_paths_def)
  with derives_inferred show ?case by fastforce
qed simp

section \<open>The resolver is sound\<close>

definition memo_ok :: "graph \<Rightarrow> resolver_state \<Rightarrow> bool" where
  "memo_ok g st \<longleftrightarrow> (\<forall>cid. lookup_state st cid = 2 \<longrightarrow> (\<exists>r. map_of (rs_results st) cid = Some r \<and>
     (gr_err r = None \<longrightarrow> derives (g_candidates g) (g_bindings g) cid (gr_paths r) (gr_depth r))))"

definition sound_resolver :: "graph \<Rightarrow> resolve_fun \<Rightarrow> bool" where
  "sound_resolver g rec \<longleftrightarrow> (\<forall>st cid st' r e. memo_ok g st \<longrightarrow> rec st cid = (st', r, e) \<longrightarrow>
     memo_ok g st' \<and> (e = None \<longrightarrow> derives (g_candidates g) (g_bindings g) cid (gr_paths r) (gr_depth r)))"

lemma sound_resolverD:
  assumes "sound_resolver g rec" "memo_ok g st" "rec st cid = (st', r, e)"
  shows "memo_ok g st'" "e = None \<Longrightarrow> derives (g_candidates g) (g_bindings g) cid (gr_paths r) (gr_depth r)"
  using assms by (auto simp: sound_resolver_def)

lemma lookup_state_update: "lookup_state (st\<lparr>rs_states := AList.update c n (rs_states st)\<rparr>) cid =
    (if cid = c then n else lookup_state st cid)"
  by (simp add: lookup_state_def update_conv)

lemma memo_ok_mark:
  assumes "memo_ok g st"
  shows "memo_ok g (st\<lparr>rs_states := AList.update cid 1 (rs_states st)\<rparr>)"
  using assms by (simp add: memo_ok_def lookup_state_update)

lemma memo_ok_finish:
  assumes "memo_ok g st" "gr_err r = None \<Longrightarrow> derives (g_candidates g) (g_bindings g) cid (gr_paths r) (gr_depth r)"
  shows "memo_ok g (fst (finish cid r st))"
proof -
  have "lookup_state (fst (finish cid r st)) x = (if x = cid then 2 else lookup_state st x)" for x
    by (simp add: finish_def lookup_state_def update_conv)
  moreover have "map_of (rs_results (fst (finish cid r st))) x = (if x = cid then Some r else map_of (rs_results st) x)" for x
    by (simp add: finish_def update_conv)
  ultimately show ?thesis using assms by (auto simp: memo_ok_def)
qed

lemma resolve_inputs_sound:
  assumes "sound_resolver g rec"
  shows "memo_ok g st \<Longrightarrow> resolve_inputs rec g inputs st paths failure depth = (st', paths', failure', depth') \<Longrightarrow>
    memo_ok g st' \<and> depth \<le> depth' \<and>
    (failure' = None \<longrightarrow> failure = None \<and> paths' = paths @ concat (map (\<lambda>i. elems (di_SourcePaths i)) inputs) \<and>
      (\<forall>i \<in> set inputs. \<exists>dep n. map_of (g_candidates g) (di_CandidateID i) = Some dep \<and>
        fc_Revision dep = di_CandidateRevision i \<and>
        derives (g_candidates g) (g_bindings g) (di_CandidateID i) (di_SourcePaths i) n \<and> n < depth'))"
proof (induction inputs arbitrary: st paths failure depth)
  case (Cons input inputs)
  let ?skip = "resolve_inputs rec g inputs st paths (bestError [failure, Some (errID DanglingReference ''derivation input'')]) depth"
  show ?case
  proof (cases "\<exists>dep. map_of (g_candidates g) (di_CandidateID input) = Some dep \<and> fc_Revision dep = di_CandidateRevision input")
    case False
    then have "?skip = (st', paths', failure', depth')"
      using Cons.prems(2) by (auto split: option.splits if_splits)
    from Cons.IH [OF Cons.prems(1) this] show ?thesis by auto
  next
    case True
    then obtain dep where dep: "map_of (g_candidates g) (di_CandidateID input) = Some dep"
      "fc_Revision dep = di_CandidateRevision input" by blast
    obtain st1 r e where rec: "rec st (di_CandidateID input) = (st1, r, e)" by (cases "rec st (di_CandidateID input)")
    note s1 = sound_resolverD [OF assms Cons.prems(1) rec]
    show ?thesis
    proof (cases e)
      case (Some x)
      then have "resolve_inputs rec g inputs st1 paths (bestError [failure, Some x]) depth = (st', paths', failure', depth')"
        using Cons.prems(2) dep rec by simp
      from Cons.IH [OF s1(1) this] show ?thesis by auto
    next
      case None
      let ?f = "if gr_paths r \<noteq> di_SourcePaths input
        then bestError [failure, Some (errID DanglingReference ''derivation source paths'')] else failure"
      let ?d = "if gr_depth r + 1 > depth then gr_depth r + 1 else depth"
      have "resolve_inputs rec g inputs st1 (paths @ elems (gr_paths r)) ?f ?d = (st', paths', failure', depth')"
        using Cons.prems(2) dep rec None by simp
      from Cons.IH [OF s1(1) this] have ih: "memo_ok g st'" "?d \<le> depth'"
        "failure' = None \<Longrightarrow> ?f = None \<and> paths' = (paths @ elems (gr_paths r)) @ concat (map (\<lambda>i. elems (di_SourcePaths i)) inputs) \<and>
          (\<forall>i \<in> set inputs. \<exists>dep n. map_of (g_candidates g) (di_CandidateID i) = Some dep \<and>
            fc_Revision dep = di_CandidateRevision i \<and>
            derives (g_candidates g) (g_bindings g) (di_CandidateID i) (di_SourcePaths i) n \<and> n < depth')" by blast+
      have d: "depth \<le> depth'" "gr_depth r < depth'" using ih(2) by (auto split: if_splits)
      have "gr_paths r = di_SourcePaths input \<and> failure = None" if "failure' = None"
        using ih(3) [OF that] by (auto split: if_splits)
      then show ?thesis using ih d s1(2) [OF None] dep by auto
    qed
  qed
qed simp

lemma derived_result_ok:
  assumes "gr_err (derived_result paths failure depth) = None"
  shows "failure = None" "depth \<le> maxDerivationDepth"
    "length (dedup_adjacent compareSourcePath (sort_by compareSourcePath paths)) \<le> 32"
    "gr_paths (derived_result paths failure depth) = append_nil (dedup_adjacent compareSourcePath (sort_by compareSourcePath paths))"
    "gr_depth (derived_result paths failure depth) = depth"
  using assms by (auto simp: derived_result_def Let_def split: if_splits option.splits)

lemma cycle_inputs_keeps:
  assumes "sound_resolver g rec"
  shows "memo_ok g st \<Longrightarrow> failure \<noteq> None \<Longrightarrow> cycle_inputs rec g component inputs st failure = (st', failure') \<Longrightarrow>
    memo_ok g st' \<and> failure' \<noteq> None"
proof (induction inputs arbitrary: st failure)
  case (Cons input inputs)
  obtain st1 r e where rec: "rec st (di_CandidateID input) = (st1, r, e)" by (cases "rec st (di_CandidateID input)")
  note s1 = sound_resolverD(1) [OF assms Cons.prems(1) rec]
  have next_call: ?case if "cycle_inputs rec g component inputs st2 f2 = (st', failure')" "memo_ok g st2" "f2 \<noteq> None" for st2 f2
    using Cons.IH [OF that(2,3,1)] .
  show ?case
  proof (cases "\<exists>dep. map_of (g_candidates g) (di_CandidateID input) = Some dep \<and> fc_Revision dep = di_CandidateRevision input")
    case False
    then have "cycle_inputs rec g component inputs st
        (bestError [failure, Some (errID DanglingReference ''derivation input'')]) = (st', failure')"
      using Cons.prems(3) by (auto split: option.splits)
    then show ?thesis by (rule next_call) (simp_all add: Cons.prems(1))
  next
    case True
    show ?thesis
    proof (cases "lookup_cycle g (di_CandidateID input) \<noteq> [] \<and> hd (lookup_cycle g (di_CandidateID input)) = hd component")
      case same: True
      then have "cycle_inputs rec g component inputs st failure = (st', failure')" using Cons.prems(3) True by auto
      then show ?thesis by (rule next_call) (simp_all add: Cons.prems(1,2))
    next
      case other: False
      have "cycle_inputs rec g component inputs st1
          (if e = None \<and> gr_paths r \<noteq> di_SourcePaths input
           then bestError [bestError [failure, e], Some (errID DanglingReference ''derivation source paths'')]
           else bestError [failure, e]) = (st', failure')"
        using Cons.prems(3) True other rec by (auto split: if_splits)
      then show ?thesis by (rule next_call) (use s1 Cons.prems(2) in \<open>simp_all del: not_None_eq\<close>)
    qed
  qed
qed simp

lemma resolveCycle_sound:
  assumes "sound_resolver g rec" "memo_ok g st" "resolveCycle rec g component st = (st', r, e)"
  shows "memo_ok g st' \<and> e \<noteq> None"
proof -
  let ?step = "\<lambda>(st, failure) cid. cycle_inputs rec g component (inputs_of g cid) st failure"
  have fold: "memo_ok g (fst p) \<and> snd p \<noteq> None \<Longrightarrow> memo_ok g (fst (foldl ?step p cs)) \<and> snd (foldl ?step p cs) \<noteq> None" for p cs
  proof (induction cs arbitrary: p)
    case (Cons c cs)
    have "memo_ok g (fst (?step p c)) \<and> snd (?step p c) \<noteq> None"
      using cycle_inputs_keeps [OF assms(1), of "fst p" "snd p" component "inputs_of g c"] Cons.prems
      by (cases p; cases "?step p c") auto
    from Cons.IH [OF this] show ?case by simp
  qed simp
  obtain st1 f where f: "foldl ?step (st, Some (errID DerivationCycle ''candidate graph'')) component = (st1, f)"
    by (cases "foldl ?step (st, Some (errID DerivationCycle ''candidate graph'')) component")
  have ok: "memo_ok g st1" "f \<noteq> None" using fold [of "(st, Some (errID DerivationCycle ''candidate graph''))" component] f assms(2) by auto
  have mark: "memo_ok g s \<Longrightarrow> memo_ok g (foldl (\<lambda>st cid. fst (finish cid (zero_result\<lparr>gr_err := f\<rparr>) st)) s cs)" for s cs
  proof (induction cs arbitrary: s)
    case (Cons c cs)
    have "memo_ok g (fst (finish c (zero_result\<lparr>gr_err := f\<rparr>) s))"
      by (rule memo_ok_finish [OF Cons.prems]) (use ok(2) in simp)
    from Cons.IH [OF this] show ?case by simp
  qed simp
  show ?thesis using assms(3) f ok mark [OF ok(1)] by (auto simp: resolveCycle_def Let_def)
qed

lemma observed_result_sound:
  assumes "map_of (g_candidates g) cid = Some c" "ql_Assertion (fc_Quality c) = AssertionObserved"
    and "gr_err (observed_result g c) = None"
  shows "derives (g_candidates g) (g_bindings g) cid (gr_paths (observed_result g c)) (gr_depth (observed_result g c))"
proof -
  obtain b ep gen src where c: "fc_BindingID c = Some b" "fc_SourceEpochID c = Some ep"
      "fc_DriverGeneration c = Some gen" "or_SourceID (fc_Origin c) = Some src"
    using assms(3) by (cases "fc_BindingID c"; cases "fc_SourceEpochID c"; cases "fc_DriverGeneration c"; cases "or_SourceID (fc_Origin c)")
      (simp_all add: observed_result_def Let_def)
  obtain r where r: "map_of (g_bindings g) b = Some r" "nb_State r = BindingCurrent"
      "nb_SourceID r = src" "nb_SourceEpochID r = ep" "nb_DriverGeneration r = gen"
    using assms(3) c by (cases "map_of (g_bindings g) b") (auto simp: observed_result_def Let_def split: if_splits)
  let ?p = "\<lparr>sp_BindingID = b, sp_SourceID = src, sp_SourceEpochID = ep, sp_DriverGeneration = gen\<rparr>"
  have p: "gr_paths (observed_result g c) = Some [?p]" "gr_depth (observed_result g c) = 1"
    "observed_path c ?p" "path_current (g_bindings g) ?p"
    using c r by (simp_all add: observed_result_def Let_def zero_result_def observed_path_def path_current_def)
  show ?thesis unfolding p(1,2) by (rule derives_observed [OF assms(1,2) p(3,4)])
qed

lemma resolve_step_sound:
  assumes "sound_resolver g rec"
  shows "sound_resolver g (resolve_step rec g)"
  unfolding sound_resolver_def
proof (intro allI impI)
  fix st cid st' r e
  assume ok: "memo_ok g st" and step: "resolve_step rec g st cid = (st', r, e)"
  let ?D = "\<lambda>r. derives (g_candidates g) (g_bindings g) cid (gr_paths r) (gr_depth r)"
  consider "lookup_state st cid = 1" | "lookup_state st cid = 2"
    | "lookup_state st cid \<notin> {1, 2}" "lookup_cycle g cid \<noteq> []"
    | "lookup_state st cid \<notin> {1, 2}" "lookup_cycle g cid = []" "map_of (g_candidates g) cid = None"
    | c where "lookup_state st cid \<notin> {1, 2}" "lookup_cycle g cid = []" "map_of (g_candidates g) cid = Some c"
    by fastforce
  then show "memo_ok g st' \<and> (e = None \<longrightarrow> ?D r)"
  proof cases
    case 2
    then obtain m where "map_of (rs_results st) cid = Some m" "gr_err m = None \<longrightarrow> ?D m"
      using ok by (auto simp: memo_ok_def)
    then show ?thesis using 2 ok step by (auto simp: resolve_step_def)
  next
    case 3
    then show ?thesis using resolveCycle_sound [OF assms ok, of "lookup_cycle g cid"] step by (auto simp: resolve_step_def)
  next
    case (5 c)
    let ?st = "st\<lparr>rs_states := AList.update cid 1 (rs_states st)\<rparr>"
    have st: "memo_ok g ?st" by (rule memo_ok_mark [OF ok])
    have fin: ?thesis if "finish cid res st1 = (st', r, e)" "memo_ok g st1" "gr_err res = None \<Longrightarrow> ?D res" for res st1
      using that memo_ok_finish [OF that(2,3)] by (auto simp: finish_def)
    show ?thesis
    proof (cases "ql_Assertion (fc_Quality c) = AssertionObserved")
      case True
      then have "finish cid (observed_result g c) ?st = (st', r, e)" using step 5 by (simp add: resolve_step_def)
      then show ?thesis by (rule fin [OF _ st observed_result_sound [OF 5(3) True]])
    next
      case False
      show ?thesis
      proof (cases "fc_Derivation c")
        case None
        with False have "finish cid (zero_result\<lparr>gr_depth := 1,
            gr_err := Some (errID DanglingReference ''derived candidate'')\<rparr>) ?st = (st', r, e)"
          using step 5 by (simp add: resolve_step_def)
        then show ?thesis by (rule fin [OF _ st]) simp
      next
        case (Some d)
        obtain st1 paths failure depth where ri:
          "resolve_inputs rec g (elems (dv_Inputs d)) ?st [] None 1 = (st1, paths, failure, depth)"
          by (cases "resolve_inputs rec g (elems (dv_Inputs d)) ?st [] None 1") auto
        note ok1 = resolve_inputs_sound [OF assms st ri]
        have "finish cid (derived_result paths failure depth) st1 = (st', r, e)"
          using step 5 False Some ri by (simp add: resolve_step_def)
        then show ?thesis
        proof (rule fin)
          show "memo_ok g st1" using ok1 by blast
          assume good: "gr_err (derived_result paths failure depth) = None"
          note dr = derived_result_ok [OF good]
          have paths: "dedup_adjacent compareSourcePath (sort_by compareSourcePath paths) = merged_paths (elems (dv_Inputs d))"
            using ok1 dr(1) by (simp add: merged_paths_def)
          show "?D (derived_result paths failure depth)"
            unfolding dr(4,5) paths
            by (rule derives_inferred [OF 5(3) False Some])
              (use ok1 dr paths in auto)
        qed
      qed
    qed
  qed (use ok step in \<open>auto simp: resolve_step_def\<close>)
qed

lemma resolve_sound: "sound_resolver g (resolve n g)"
proof (induction n)
  case 0
  then show ?case by (simp add: sound_resolver_def)
next
  case (Suc n)
  then show ?case by (simp add: resolve_step_sound)
qed

lemma close_loop_sound:
  assumes "sound_resolver g rec"
  shows "memo_ok g st \<Longrightarrow> close_loop rec ups ids st failure remove = (st', failure', remove') \<Longrightarrow>
    set remove \<subseteq> set remove' \<and> (failure' = None \<longrightarrow> failure = None \<and>
      (\<forall>cid \<in> set ids. (\<exists>ps n. derives (g_candidates g) (g_bindings g) cid ps n) \<or> (cid \<in> set remove' \<and> cid \<notin> set ups)))"
proof (induction ids arbitrary: st failure remove)
  case (Cons cid ids)
  obtain st1 r e where rec: "rec st cid = (st1, r, e)" by (cases "rec st cid")
  note s1 = sound_resolverD [OF assms Cons.prems(1) rec]
  show ?case
  proof (cases e)
    case None
    then have "close_loop rec ups ids st1 failure remove = (st', failure', remove')"
      using Cons.prems(2) rec by (simp add: close_loop_def)
    from Cons.IH [OF s1(1) this] s1(2) [OF None] show ?thesis by auto
  next
    case (Some x)
    show ?thesis
    proof (cases "cid \<in> set ups")
      case True
      then have "close_loop rec ups ids st1 (bestError [failure, Some x]) remove = (st', failure', remove')"
        using Cons.prems(2) rec Some by (simp add: close_loop_def)
      from Cons.IH [OF s1(1) this] show ?thesis by auto
    next
      case False
      then have "close_loop rec ups ids st1 failure (remove @ [cid]) = (st', failure', remove')"
        using Cons.prems(2) rec Some by (simp add: close_loop_def)
      from Cons.IH [OF s1(1) this] False show ?thesis by auto
    qed
  qed
qed (simp add: close_loop_def)

text \<open>If the graph closes, every candidate that stays is derived, and only candidates that were not
  part of the batch have been dropped.\<close>

lemma closeCandidateGraph_sound:
  assumes "closeCandidateGraph cands ups bindings = (cands', None)" and "cid \<in> set (map fst cands)"
  shows "(\<exists>ps n. derives cands bindings cid ps n) \<or> (cid \<notin> set ups \<and> cid \<notin> set (map fst cands'))"
proof -
  let ?ids = "sort_by string_compare (map fst cands)"
  let ?ts = "findCycles (graph_fuel cands) cands ?ids"
  let ?g = "\<lparr>g_candidates = cands, g_bindings = bindings, g_cycles = ts_cycles ?ts\<rparr>"
  have small: "\<not> length cands > maxStagedDerivationNodes"
    using assms(1) by (auto simp: closeCandidateGraph_def split: if_splits)
  obtain st f rm where loop: "close_loop (resolve (graph_fuel cands) ?g) ups ?ids \<lparr>rs_states = [], rs_results = []\<rparr> None [] = (st, f, rm)"
    by (cases "close_loop (resolve (graph_fuel cands) ?g) ups ?ids \<lparr>rs_states = [], rs_results = []\<rparr> None []")
  have res: "f = None" "cands' = filter (\<lambda>(cid, c). cid \<notin> set rm) cands"
    using assms(1) small loop by (auto simp: closeCandidateGraph_def Let_def split: if_splits)
  have "memo_ok ?g \<lparr>rs_states = [], rs_results = []\<rparr>" by (simp add: memo_ok_def lookup_state_def)
  from close_loop_sound [OF resolve_sound this loop] res(1) assms(2)
  have "(\<exists>ps n. derives cands bindings cid ps n) \<or> (cid \<in> set rm \<and> cid \<notin> set ups)" by auto
  then show ?thesis using res(2) by auto
qed

lemma closeCandidateGraphStrict_sound:
  assumes "closeCandidateGraphStrict cands bindings = None" and "cid \<in> set (map fst cands)"
  shows "\<exists>ps n. derives cands bindings cid ps n"
  using closeCandidateGraph_sound [of cands "map fst cands" bindings "fst (closeCandidateGraph cands (map fst cands) bindings)" cid] assms
  by (metis closeCandidateGraphStrict_def prod.collapse)

end
