(* ===== verification/Snapshot.thy ===== *)
theory Snapshot
  imports Derivation_Graph
begin

text \<open>
  The immutable snapshot of one asset and its complete validation (\<^verbatim>\<open>Snapshot.Validate\<close> of
  \<^verbatim>\<open>semreg/v1/publication.go\<close>): collections in canonical form, references that resolve, and
  the lifecycle rules between sources, fences, cursors, bindings and everything that rests on a
  binding. The validator is one long loop nest in the source; here every loop is one definition
  and the whole is the concatenation of their errors.
\<close>

section \<open>Keys and limits\<close>

type_synonym cursorKey = "SourceID \<times> SourceEpochID \<times> Uint64"
type_synonym sourceKey = "SourceID \<times> SourceEpochID"

definition compareSource :: "SourceDescriptor \<Rightarrow> SourceDescriptor \<Rightarrow> int" where
  "compareSource = cmp_then (by_field sd_SourceID) (by_field sd_SourceEpochID)"

definition compareFence :: "GenerationFence \<Rightarrow> GenerationFence \<Rightarrow> int" where
  "compareFence = cmp_then (by_field gf_SourceID)
     (cmp_then (by_field gf_SourceEpochID) (cmp_on gf_DriverGeneration compareUint64))"

definition compareCursor :: "PublicationCursor \<Rightarrow> PublicationCursor \<Rightarrow> int" where
  "compareCursor = cmp_then (by_field pc_SourceID)
     (cmp_then (by_field pc_SourceEpochID) (cmp_on pc_DriverGeneration compareUint64))"

definition SourceDescriptor_identity :: "SourceDescriptor identity" where
  "SourceDescriptor_identity =
     \<lparr>key_valid = (\<lambda>s. validOpaque (sd_SourceID s) \<and> validOpaque (sd_SourceEpochID s)),
      key_of = (\<lambda>s. [sd_SourceID s, sd_SourceEpochID s])\<rparr>"

definition GenerationFence_identity :: "GenerationFence identity" where
  "GenerationFence_identity =
     \<lparr>key_valid = (\<lambda>f. validOpaque (gf_SourceID f) \<and> validOpaque (gf_SourceEpochID f) \<and> positive (gf_DriverGeneration f)),
      key_of = (\<lambda>f. [gf_SourceID f, gf_SourceEpochID f, gf_DriverGeneration f])\<rparr>"

definition PublicationCursor_identity :: "PublicationCursor identity" where
  "PublicationCursor_identity =
     \<lparr>key_valid = (\<lambda>c. validOpaque (pc_SourceID c) \<and> validOpaque (pc_SourceEpochID c) \<and> positive (pc_DriverGeneration c)),
      key_of = (\<lambda>c. [pc_SourceID c, pc_SourceEpochID c, pc_DriverGeneration c])\<rparr>"

definition source_key :: "SourceDescriptor \<Rightarrow> sourceKey" where
  "source_key s = (sd_SourceID s, sd_SourceEpochID s)"

definition fence_key :: "GenerationFence \<Rightarrow> cursorKey" where
  "fence_key f = (gf_SourceID f, gf_SourceEpochID f, gf_DriverGeneration f)"

definition cursor_key :: "PublicationCursor \<Rightarrow> cursorKey" where
  "cursor_key c = (pc_SourceID c, pc_SourceEpochID c, pc_DriverGeneration c)"

definition binding_cursor_key :: "NativeBinding \<Rightarrow> cursorKey" where
  "binding_cursor_key b = (nb_SourceID b, nb_SourceEpochID b, nb_DriverGeneration b)"

definition binding_source_key :: "NativeBinding \<Rightarrow> sourceKey" where
  "binding_source_key b = (nb_SourceID b, nb_SourceEpochID b)"

definition containsFence :: "GenerationFence list \<Rightarrow> SourceID \<Rightarrow> SourceEpochID \<Rightarrow> Uint64 \<Rightarrow> bool" where
  "containsFence fences source epoch generation =
     list_ex (\<lambda>f. gf_SourceID f = source \<and> gf_SourceEpochID f = epoch \<and> gf_DriverGeneration f = generation) fences"

definition snapshot_limits_exceeded :: "Snapshot \<Rightarrow> bool" where
  "snapshot_limits_exceeded s \<longleftrightarrow>
     length (elems (sn_Sources s)) > 32 \<or> length (elems (sn_Bindings s)) > 128 \<or>
     length (elems (sn_IdentityLinks s)) > 128 \<or> length (elems (sn_Facts s)) > 4096 \<or>
     length (elems (sn_Retained s)) > 32 \<or> length (elems (sn_Services s)) > 1024 \<or>
     length (elems (sn_Capabilities s)) > 2048 \<or> length (elems (sn_Fences s)) > 128 \<or>
     length (elems (sn_Cursors s)) > 128"

section \<open>Identity\<close>

definition Snapshot_computedID :: "env \<Rightarrow> Snapshot \<Rightarrow> error + SnapshotID" where
  "Snapshot_computedID E s = digest_without E ''snapshot_id'' ''snapshot identity'' (json_of_Snapshot s)"

section \<open>The loops of Validate\<close>

definition snapshot_sources :: "Snapshot \<Rightarrow> (sourceKey, SourceDescriptor) gomap" where
  "snapshot_sources s = map_from source_key (elems (sn_Sources s))"

definition snapshot_fences :: "Snapshot \<Rightarrow> (cursorKey, GenerationFence) gomap" where
  "snapshot_fences s = map_from fence_key (elems (sn_Fences s))"

definition snapshot_cursors :: "Snapshot \<Rightarrow> (cursorKey, PublicationCursor) gomap" where
  "snapshot_cursors s = map_from cursor_key (elems (sn_Cursors s))"

definition snapshot_bindings :: "Snapshot \<Rightarrow> binding_map" where
  "snapshot_bindings s = map_from nb_BindingID (elems (sn_Bindings s))"

definition snapshot_services :: "Snapshot \<Rightarrow> (ServiceInstanceID, ServiceInstance) gomap" where
  "snapshot_services s = map_from si_InstanceID (elems (sn_Services s))"

text \<open>\<^verbatim>\<open>currentSources\<close> counts the current descriptors of a source; every one after the first is
  an error.\<close>

fun source_errors :: "SourceID list \<Rightarrow> SourceDescriptor list \<Rightarrow> err list" where
  "source_errors current [] = []"
| "source_errors current (s # ss) =
     SourceDescriptor_Validate s #
     (if sd_State s = SourceCurrent
      then check_err (sd_SourceID s \<in> set current) StaleSourceEpoch ''multiple current source epochs'' #
           source_errors (sd_SourceID s # current) ss
      else source_errors current ss)"

definition fence_errors :: "Snapshot \<Rightarrow> err list" where
  "fence_errors s = concat (map (\<lambda>f. [GenerationFence_Validate f,
     check_err (map_of (snapshot_sources s) (gf_SourceID f, gf_SourceEpochID f) = None) DanglingReference ''fence source''])
     (elems (sn_Fences s)))"

fun cursor_errors :: "Snapshot \<Rightarrow> sourceKey list \<Rightarrow> PublicationCursor list \<Rightarrow> err list" where
  "cursor_errors s unfenced [] = []"
| "cursor_errors s unfenced (c # cs) =
     (let group = (pc_SourceID c, pc_SourceEpochID c);
          source = map_of (snapshot_sources s) group;
          counts = (\<not> pc_Fenced c \<and> (case source of None \<Rightarrow> False | Some d \<Rightarrow> sd_State d = SourceCurrent))
      in [PublicationCursor_Validate c,
          check_err (source = None) DanglingReference ''cursor source'',
          check_err (pc_Fenced c \<noteq> (map_of (snapshot_fences s) (cursor_key c) \<noteq> None)) DanglingReference ''cursor fence'',
          check_err (counts \<and> group \<in> set unfenced) StaleDriverGeneration ''multiple current generations''] @
         cursor_errors s (if counts then group # unfenced else unfenced) cs)"

definition source_cursor_errors :: "Snapshot \<Rightarrow> err list" where
  "source_cursor_errors s = map (\<lambda>(key, _).
     check_err (key \<notin> set (map (\<lambda>c. (pc_SourceID c, pc_SourceEpochID c)) (elems (sn_Cursors s))))
       DanglingReference ''source epoch cursor'') (snapshot_sources s)"

definition fence_cursor_errors :: "Snapshot \<Rightarrow> err list" where
  "fence_cursor_errors s = map (\<lambda>(key, _).
     check_err (case map_of (snapshot_cursors s) key of None \<Rightarrow> True | Some c \<Rightarrow> \<not> pc_Fenced c)
       DanglingReference ''fence cursor'') (snapshot_fences s)"

definition binding_errors :: "Snapshot \<Rightarrow> NativeBinding \<Rightarrow> err list" where
  "binding_errors s b =
     NativeBinding_Validate b #
     (case map_of (snapshot_sources s) (binding_source_key b) of
        None \<Rightarrow> [Some (errID DanglingReference ''binding source'')]
      | Some source \<Rightarrow>
          if nb_AssetID b \<noteq> sn_AssetID s then [Some (errID DanglingReference ''binding source'')]
          else
            (let cursor = map_of (snapshot_cursors s) (binding_cursor_key b) in
             [check_err (cursor = None) DanglingReference ''binding cursor'',
              (case nb_State b of
                 BindingCurrent \<Rightarrow> check_err (sd_State source \<noteq> SourceCurrent \<or>
                   (case cursor of None \<Rightarrow> True | Some c \<Rightarrow> pc_Fenced c)) DanglingReference ''current binding lifecycle''
               | BindingFenced \<Rightarrow> check_err (map_of (snapshot_fences s) (binding_cursor_key b) = None)
                   DanglingReference ''fenced binding fence''
               | BindingRetired \<Rightarrow> check_err (sd_State source \<noteq> SourceRetired) DanglingReference ''retired binding source''
               | BindingStateOther _ \<Rightarrow> None)]))"

definition link_errors :: "Snapshot \<Rightarrow> IdentityLink \<Rightarrow> err list" where
  "link_errors s l =
     [IdentityLink_Validate l,
      (case map_of (snapshot_bindings s) (il_BindingID l) of
         None \<Rightarrow> Some (errID DanglingReference ''identity binding'')
       | Some b \<Rightarrow>
           if il_AssetID l \<noteq> sn_AssetID s then Some (errID DanglingReference ''identity binding'')
           else check_err (il_State l \<noteq> LinkWithdrawn \<and> nb_State b \<noteq> BindingCurrent)
             DanglingReference ''actionable identity binding'')]"

definition service_errors :: "Snapshot \<Rightarrow> ServiceInstance \<Rightarrow> err list" where
  "service_errors s v =
     [ServiceInstance_Validate v,
      (case map_of (snapshot_bindings s) (si_BindingID v) of
         None \<Rightarrow> Some (errID DanglingReference ''service binding'')
       | Some b \<Rightarrow>
           if si_AssetID v \<noteq> sn_AssetID s \<or> nb_SourceEpochID b \<noteq> si_SourceEpochID v \<or>
              nb_DriverGeneration b \<noteq> si_DriverGeneration v
           then Some (errID DanglingReference ''service binding'')
           else check_err (si_Availability v \<noteq> AvailabilityWithdrawn \<and> nb_State b \<noteq> BindingCurrent)
             DanglingReference ''actionable service binding'')]"

definition capability_errors :: "env \<Rightarrow> Snapshot \<Rightarrow> CapabilityInstance \<Rightarrow> err list" where
  "capability_errors E s c =
     [CapabilityInstance_Validate E c,
      (case (map_of (snapshot_bindings s) (ci_BindingID c), map_of (snapshot_services s) (ci_ServiceInstance c)) of
         (Some b, Some v) \<Rightarrow>
           if ci_AssetID c \<noteq> sn_AssetID s \<or> nb_SourceEpochID b \<noteq> ci_SourceEpochID c \<or>
              nb_DriverGeneration b \<noteq> ci_DriverGeneration c \<or> si_BindingID v \<noteq> ci_BindingID c
           then Some (errID DanglingReference ''capability references'')
           else if ci_Availability c \<noteq> AvailabilityWithdrawn \<and>
                   (nb_State b \<noteq> BindingCurrent \<or> si_Availability v = AvailabilityWithdrawn)
           then Some (errID DanglingReference ''actionable capability binding'')
           else check_err (nb_State b \<noteq> BindingCurrent \<and>
                  (ci_Availability c \<noteq> AvailabilityWithdrawn \<or> si_Availability v \<noteq> AvailabilityWithdrawn))
             DanglingReference ''capability tombstone''
       | _ \<Rightarrow> Some (errID DanglingReference ''capability references''))]"

text \<open>The candidates of all envelopes, collected under their identifiers.\<close>

fun collect_candidates :: "FactCandidate list \<Rightarrow> candidate_map \<Rightarrow> err list \<Rightarrow> candidate_map \<times> err list" where
  "collect_candidates [] m errs = (m, errs)"
| "collect_candidates (c # cs) m errs =
     (if \<not> validOpaque (fc_CandidateID c) then collect_candidates cs m errs
      else collect_candidates cs (AList.update (fc_CandidateID c) c m)
        (errs @ [check_err (map_of m (fc_CandidateID c) \<noteq> None) DuplicateKey ''candidate id'']))"

fun fact_errors :: "env \<Rightarrow> Snapshot \<Rightarrow> FactEnvelope list \<Rightarrow> candidate_map \<Rightarrow> err list \<Rightarrow>
    candidate_map \<times> err list" where
  "fact_errors E s [] m errs = (m, errs)"
| "fact_errors E s (f # fs) m errs =
     (case collect_candidates (elems (fe_Candidates f)) m
        (errs @ [FactEnvelope_Validate E f, check_err (fe_AssetID f \<noteq> sn_AssetID s) InvalidValue ''fact asset'']) of
      (m', errs') \<Rightarrow> fact_errors E s fs m' errs')"

definition zero_binding :: NativeBinding where
  "zero_binding = \<lparr>nb_BindingID = [], nb_AssetID = [], nb_SourceID = [], nb_SourceEpochID = [],
     nb_DriverGeneration = [], nb_NativeResource = \<lparr>ev_Owner = [], ev_Kind = [], ev_Digest = [], ev_Contract = [],
       ev_Access = EvidenceAccessOther [], ev_Redaction = RedactionOther []\<rparr>,
     nb_State = BindingStateOther [], nb_Revision = []\<rparr>"

definition source_not_retired :: "Snapshot \<Rightarrow> NativeBinding \<Rightarrow> bool" where
  "source_not_retired s b = (case map_of (snapshot_sources s) (binding_source_key b) of
     None \<Rightarrow> True | Some d \<Rightarrow> sd_State d \<noteq> SourceRetired)"

definition retained_errors :: "env \<Rightarrow> Snapshot \<Rightarrow> RetainedObservationRecord \<Rightarrow> err list" where
  "retained_errors E s r =
     (let c = ro_Candidate r in
      RetainedObservationRecord_Validate E r #
      (case (fc_BindingID c, fc_SourceEpochID c, fc_DriverGeneration c, or_SourceID (fc_Origin c)) of
         (Some bid, Some ep, Some gen, Some src) \<Rightarrow>
           if ql_Assertion (fc_Quality c) \<noteq> AssertionObserved
           then [Some (errID InvalidValue ''retained observation path'')]
           else
             (let found = map_of (snapshot_bindings s) bid;
                  b = (case found of None \<Rightarrow> zero_binding | Some b \<Rightarrow> b)
              in [check_err (found = None \<or> nb_State b = BindingCurrent \<or> nb_SourceID b \<noteq> src \<or>
                    nb_SourceEpochID b \<noteq> ep \<or> nb_DriverGeneration b \<noteq> gen \<or>
                    (ro_Removal r = RetainedRemovalGenerationFence \<and> nb_State b \<noteq> BindingFenced \<and> nb_State b \<noteq> BindingRetired) \<or>
                    (ro_Removal r = RetainedRemovalSourceRetirement \<and> nb_State b \<noteq> BindingRetired))
                    DanglingReference ''retained observation binding'',
                  check_err (ro_Removal r = RetainedRemovalGenerationFence \<and>
                    \<not> containsFence (elems (sn_Fences s)) (nb_SourceID b) (nb_SourceEpochID b) (nb_DriverGeneration b))
                    DanglingReference ''retained observation fence'',
                  check_err (ro_Removal r = RetainedRemovalGenerationFence \<and> nb_State b = BindingRetired \<and>
                    source_not_retired s b) DanglingReference ''retained observation retired source'',
                  check_err (ro_Removal r = RetainedRemovalSourceRetirement \<and> source_not_retired s b)
                    DanglingReference ''retained observation source''])
       | _ \<Rightarrow> [Some (errID InvalidValue ''retained observation path'')]))"

definition graph_error :: "Snapshot \<Rightarrow> candidate_map \<Rightarrow> err" where
  "graph_error s candidates =
     (if length candidates > maxDerivationNodes then Some (errID BoundsExceeded ''candidate nodes'')
      else closeCandidateGraphStrict candidates (snapshot_bindings s))"

definition missing_collections :: "Snapshot \<Rightarrow> err list" where
  "missing_collections s = map (\<lambda>absent. check_err absent MissingMember ''snapshot collection'')
     [sn_Sources s = None, sn_Bindings s = None, sn_IdentityLinks s = None, sn_Facts s = None,
      sn_Services s = None, sn_Capabilities s = None, sn_Fences s = None, sn_Cursors s = None]"

definition snapshot_order_errors :: "env \<Rightarrow> Snapshot \<Rightarrow> err list" where
  "snapshot_order_errors E s =
     [orderedUnique SourceDescriptor_identity compareSource (sn_Sources s),
      orderedUnique (opaque_identity nb_BindingID) (by_field nb_BindingID) (sn_Bindings s),
      orderedUnique (opaque_identity il_BindingID) (by_field il_BindingID) (sn_IdentityLinks s),
      orderedUnique (FactEnvelope_identity E) (compareEnvelope E) (sn_Facts s),
      retainedObservationOrderError E (sn_Retained s),
      orderedUnique (opaque_identity si_InstanceID) (by_field si_InstanceID) (sn_Services s),
      orderedUnique (opaque_identity ci_InstanceID) (by_field ci_InstanceID) (sn_Capabilities s),
      orderedUnique GenerationFence_identity compareFence (sn_Fences s),
      orderedUnique PublicationCursor_identity compareCursor (sn_Cursors s)]"

definition snapshot_header_errors :: "Snapshot \<Rightarrow> err list" where
  "snapshot_header_errors s =
     [check_err (sn_Contract s \<noteq> ContractKernelV1) InvalidContract ''snapshot'',
      validateOpaqueValue (sn_SnapshotID s) ''snapshot id'', validateOpaqueValue (sn_AssetID s) ''asset id'',
      RevisionVector_Validate (sn_Revisions s), TimePoint_Validate (sn_EvaluatedAt s),
      MonotonicPoint_Validate (sn_EvaluateMonotonic s)]"

definition snapshot_id_error :: "env \<Rightarrow> Snapshot \<Rightarrow> err" where
  "snapshot_id_error E s = (case Snapshot_computedID E s of
     Inl e \<Rightarrow> Some e
   | Inr expected \<Rightarrow> check_err (expected \<noteq> sn_SnapshotID s) DigestMismatch ''snapshot identity'')"

definition Snapshot_Validate :: "env \<Rightarrow> Snapshot \<Rightarrow> err" where
  "Snapshot_Validate E s =
     (let (candidates, factErrs) = fact_errors E s (elems (sn_Facts s)) [] [] in
      bestError
       (snapshot_header_errors s @ missing_collections s @
        [check_err (snapshot_limits_exceeded s) BoundsExceeded ''snapshot collection''] @
        snapshot_order_errors E s @
        source_errors [] (elems (sn_Sources s)) @ fence_errors s @ cursor_errors s [] (elems (sn_Cursors s)) @
        source_cursor_errors s @ fence_cursor_errors s @
        concat (map (binding_errors s) (elems (sn_Bindings s))) @
        concat (map (link_errors s) (elems (sn_IdentityLinks s))) @
        concat (map (service_errors s) (elems (sn_Services s))) @
        concat (map (capability_errors E s) (elems (sn_Capabilities s))) @
        factErrs @
        concat (map (retained_errors E s) (elems (sn_Retained s))) @
        [graph_error s candidates, snapshot_id_error E s]))"

end
