(* ===== verification/Revisions.thy ===== *)
theory Revisions
  imports Snapshot
begin

text \<open>
  Object revisions (\<^verbatim>\<open>validateRevisionedUpsert\<close> and \<^verbatim>\<open>normalizeObjectRevisions\<close> of
  \<^verbatim>\<open>semreg/v1/publication.go\<close>). The source reaches the \<^verbatim>\<open>Revision\<close> field of any record by
  reflection; here the field is given by its reader and writer. The locale \<open>revisioned\<close> states that
  they are a field access, and is interpreted on every record the kernel revisions.
\<close>

definition validateRevisionedUpsert :: "('a \<Rightarrow> Uint64) \<Rightarrow> ('a \<Rightarrow> Uint64 \<Rightarrow> 'a) \<Rightarrow> 'a \<Rightarrow> 'a \<Rightarrow> bool \<times> err" where
  "validateRevisionedUpsert rv set_rv old nxt =
     (if old = nxt then (False, None)
      else if set_rv old ''0'' = set_rv nxt ''0'' \<or> rv nxt \<noteq> increment (rv old)
      then (False, Some (errID RevisionConflict ''object revision''))
      else (True, None))"

definition normalize_revision :: "('a \<Rightarrow> Uint64) \<Rightarrow> ('a \<Rightarrow> Uint64 \<Rightarrow> 'a) \<Rightarrow> 'a \<Rightarrow> 'a \<Rightarrow> 'a" where
  "normalize_revision rv set_rv old v =
     set_rv v (if set_rv old ''0'' \<noteq> set_rv v ''0'' then increment (rv old) else rv old)"

definition normalizeObjectRevisions :: "('a \<Rightarrow> Uint64) \<Rightarrow> ('a \<Rightarrow> Uint64 \<Rightarrow> 'a) \<Rightarrow> ('a \<Rightarrow> 'k) \<Rightarrow> 'a list \<Rightarrow>
    ('k, 'a) gomap \<Rightarrow> ('k, 'a) gomap" where
  "normalizeObjectRevisions rv set_rv key before after =
     (let previous = map_from key before in
      map (\<lambda>(k, v). (k, case map_of previous k of None \<Rightarrow> v | Some old \<Rightarrow> normalize_revision rv set_rv old v)) after)"

section \<open>The contract\<close>

locale revisioned =
  fixes rv :: "'a \<Rightarrow> Uint64" and set_rv :: "'a \<Rightarrow> Uint64 \<Rightarrow> 'a"
  assumes rev_set: "rv (set_rv x r) = r"
    and set_set: "set_rv (set_rv x r) r' = set_rv x r'"
    and set_rev_id: "set_rv x (rv x) = x"
begin

text \<open>Two objects have the same content if they differ in the revision only.\<close>

lemma same_content_iff: "set_rv x r = set_rv y r \<longleftrightarrow> (\<exists>q. y = set_rv x q)"
proof
  assume eq: "set_rv x r = set_rv y r"
  have "set_rv (set_rv y r) (rv y) = y" by (simp add: set_set set_rev_id)
  then have "y = set_rv x (rv y)" by (simp add: eq [symmetric] set_set)
  then show "\<exists>q. y = set_rv x q" ..
qed (auto simp: set_set)

lemma same_content_eq: "set_rv x r = set_rv y r \<Longrightarrow> rv x = rv y \<Longrightarrow> x = y"
  by (metis set_set set_rev_id)

text \<open>An accepted upsert repeats the object, or changes its content and steps its revision.\<close>

lemma upsert_accepted_iff:
  "snd (validateRevisionedUpsert rv set_rv old nxt) = None \<longleftrightarrow>
     nxt = old \<or> (set_rv old ''0'' \<noteq> set_rv nxt ''0'' \<and> rv nxt = increment (rv old))"
  by (auto simp: validateRevisionedUpsert_def)

lemma normalize_rev:
  "rv (normalize_revision rv set_rv old v) =
     (if set_rv old ''0'' \<noteq> set_rv v ''0'' then increment (rv old) else rv old)"
  by (simp add: normalize_revision_def rev_set)

lemma normalize_unchanged:
  "set_rv old ''0'' = set_rv v ''0'' \<Longrightarrow> normalize_revision rv set_rv old v = old"
  by (simp add: normalize_revision_def) (metis set_set set_rev_id)

text \<open>Normalising keeps an accepted upsert as it is.\<close>

lemma normalize_accepted:
  "snd (validateRevisionedUpsert rv set_rv old nxt) = None \<Longrightarrow> normalize_revision rv set_rv old nxt = nxt"
  unfolding upsert_accepted_iff using set_rev_id by (auto simp: normalize_revision_def) metis

lemma normalize_idem:
  "normalize_revision rv set_rv old (normalize_revision rv set_rv old v) = normalize_revision rv set_rv old v"
  by (simp add: normalize_revision_def set_set)

lemma normalize_map_of:
  "map_of (normalizeObjectRevisions rv set_rv key before after) k =
     map_option (\<lambda>v. case map_of (map_from key before) k of None \<Rightarrow> v
       | Some old \<Rightarrow> normalize_revision rv set_rv old v) (map_of after k)"
  by (induction after) (auto simp: normalizeObjectRevisions_def Let_def split: option.split)

end

section \<open>The revisioned records\<close>

definition sd_set_rev :: "SourceDescriptor \<Rightarrow> Uint64 \<Rightarrow> SourceDescriptor" where
  "sd_set_rev x r = x\<lparr>sd_Revision := r\<rparr>"

definition nb_set_rev :: "NativeBinding \<Rightarrow> Uint64 \<Rightarrow> NativeBinding" where
  "nb_set_rev x r = x\<lparr>nb_Revision := r\<rparr>"

definition il_set_rev :: "IdentityLink \<Rightarrow> Uint64 \<Rightarrow> IdentityLink" where
  "il_set_rev x r = x\<lparr>il_Revision := r\<rparr>"

definition si_set_rev :: "ServiceInstance \<Rightarrow> Uint64 \<Rightarrow> ServiceInstance" where
  "si_set_rev x r = x\<lparr>si_Revision := r\<rparr>"

definition ci_set_rev :: "CapabilityInstance \<Rightarrow> Uint64 \<Rightarrow> CapabilityInstance" where
  "ci_set_rev x r = x\<lparr>ci_Revision := r\<rparr>"

definition fc_set_rev :: "FactCandidate \<Rightarrow> Uint64 \<Rightarrow> FactCandidate" where
  "fc_set_rev x r = x\<lparr>fc_Revision := r\<rparr>"

interpretation source_rev: revisioned sd_Revision sd_set_rev
  by unfold_locales (simp_all add: sd_set_rev_def)

interpretation binding_rev: revisioned nb_Revision nb_set_rev
  by unfold_locales (simp_all add: nb_set_rev_def)

interpretation link_rev: revisioned il_Revision il_set_rev
  by unfold_locales (simp_all add: il_set_rev_def)

interpretation service_rev: revisioned si_Revision si_set_rev
  by unfold_locales (simp_all add: si_set_rev_def)

interpretation capability_rev: revisioned ci_Revision ci_set_rev
  by unfold_locales (simp_all add: ci_set_rev_def)

interpretation candidate_rev: revisioned fc_Revision fc_set_rev
  by unfold_locales (simp_all add: fc_set_rev_def)

end
