(* ===== verification/Registry.thy ===== *)
theory Registry
  imports Validation
begin

text \<open>
  The registry of pack validators (\<^verbatim>\<open>Registry\<close> and \<^verbatim>\<open>frozenValidator\<close> of
  \<^verbatim>\<open>semreg/v1/validation.go\<close>). Validators are supplied by pack packages; a registered validator
  is frozen with the definition index it declared, and every call first checks the record and the
  ownership of its definition and only then reaches the pack's hook. The mutex of a frozen
  validator only serialises hook calls and the copies of \<^verbatim>\<open>hook_inputs.go\<close> only detach memory;
  hooks are functions of their arguments here. The \<open>owners\<close> map is shared by the registry and its
  frozen validators, so the operations take it from the registry.
\<close>

section \<open>State\<close>

datatype DefinitionKind = DefinitionField | DefinitionService | DefinitionCapability
  | DefinitionOperation | DefinitionEffectRule | DefinitionKindOther string

type_synonym definitionKey = "DefinitionKind \<times> DefinitionID \<times> SemanticVersion"

type_synonym owner_map = "(definitionKey, PackRef) gomap"

record frozenValidator =
  fv_hook :: PackValidator
  fv_index :: DefinitionIndex

record Registry =
  rg_validators :: "(PackRef, frozenValidator) gomap"
  rg_indexes :: "(PackRef, DefinitionIndex) gomap"
  rg_owners :: owner_map

definition definition_key :: "DefinitionKind \<Rightarrow> DefinitionRef \<Rightarrow> definitionKey" where
  "definition_key kind ref = (kind, df_ID ref, df_Version ref)"

section \<open>Frozen validators\<close>

definition frozen_Pack :: "frozenValidator \<Rightarrow> PackRef" where
  "frozen_Pack v = dx_Pack (fv_index v)"

definition frozen_owns :: "owner_map \<Rightarrow> frozenValidator \<Rightarrow> DefinitionKind \<Rightarrow> DefinitionRef \<Rightarrow> err" where
  "frozen_owns owners v kind ref =
     check_err (case map_of owners (definition_key kind ref) of
         None \<Rightarrow> True
       | Some owner \<Rightarrow> owner \<noteq> df_Pack ref \<or> owner \<noteq> frozen_Pack v) DefinitionOwnerMissing ''definition''"

definition key_pack :: "FactKey \<Rightarrow> PackRef" where
  "key_pack k = \<lparr>pk_ID = fk_PackID k, pk_Version = fk_PackVersion k\<rparr>"

text \<open>Early returns: the first error of the sequence wins.\<close>

fun first_error :: "err list \<Rightarrow> err" where
  "first_error [] = None"
| "first_error (None # es) = first_error es"
| "first_error (Some e # es) = Some e"

lemma first_error_None [simp]: "first_error es = None \<longleftrightarrow> (\<forall>e \<in> set es. e = None)"
  by (induction es rule: first_error.induct) auto

definition frozen_ValidateFact :: "env \<Rightarrow> frozenValidator \<Rightarrow> FactKey \<Rightarrow> Value option \<Rightarrow> err" where
  "frozen_ValidateFact E v k val =
     first_error
       [bestError [FactKey_Validate E k, opt_err (Value_Validate E) val],
        check_err (key_pack k \<noteq> frozen_Pack v) DefinitionOwnerMissing ''fact pack'',
        pv_ValidateFact (fv_hook v) k val]"

definition frozen_ValidateService :: "owner_map \<Rightarrow> frozenValidator \<Rightarrow> ServiceInstance \<Rightarrow> err" where
  "frozen_ValidateService owners v s =
     first_error
       [ServiceInstance_Validate s, frozen_owns owners v DefinitionService (si_Definition s),
        pv_ValidateService (fv_hook v) s]"

definition frozen_ValidateCapability :: "env \<Rightarrow> owner_map \<Rightarrow> frozenValidator \<Rightarrow> CapabilityInstance \<Rightarrow> err" where
  "frozen_ValidateCapability E owners v c =
     first_error
       [CapabilityInstance_Validate E c, frozen_owns owners v DefinitionCapability (ci_Definition c),
        pv_ValidateCapability (fv_hook v) c]"

definition frozen_ValidateField :: "env \<Rightarrow> owner_map \<Rightarrow> frozenValidator \<Rightarrow> DefinitionRef \<Rightarrow> TypedField \<Rightarrow> err" where
  "frozen_ValidateField E owners v r f =
     first_error
       [bestError [DefinitionRef_Validate r, TypedField_Validate E f],
        check_err (df_ID r \<noteq> tf_ID f) InvalidValue ''field definition'',
        frozen_owns owners v DefinitionField r,
        pv_ValidateField (fv_hook v) r f]"

definition frozen_MatchConstraints :: "env \<Rightarrow> owner_map \<Rightarrow> frozenValidator \<Rightarrow> CapabilityInstance \<Rightarrow>
    TypedField slice \<Rightarrow> err" where
  "frozen_MatchConstraints E owners v c f =
     first_error
       [bestError [CapabilityInstance_Validate E c, validateConstraintFields E f],
        frozen_owns owners v DefinitionCapability (ci_Definition c),
        pv_MatchConstraints (fv_hook v) c f]"

definition frozen_EvaluatePredicate :: "env \<Rightarrow> frozenValidator \<Rightarrow> FactCandidate \<Rightarrow> PredicateOp \<Rightarrow>
    Value \<Rightarrow> error + bool" where
  "frozen_EvaluatePredicate E v c p val =
     (case first_error
         [bestError [FactCandidate_Validate E c, PredicateOp_Validate p, Value_Validate E val],
          check_err (key_pack (fc_Key c) \<noteq> frozen_Pack v) DefinitionOwnerMissing ''fact pack''] of
        Some e \<Rightarrow> Inl e
      | None \<Rightarrow> pv_EvaluatePredicate (fv_hook v) c p val)"

section \<open>Construction\<close>

definition index_groups :: "DefinitionIndex \<Rightarrow> (DefinitionKind \<times> DefinitionRef slice) list" where
  "index_groups i = [(DefinitionField, dx_Fields i), (DefinitionService, dx_Services i),
     (DefinitionCapability, dx_Capabilities i), (DefinitionOperation, dx_Operations i),
     (DefinitionEffectRule, dx_EffectRules i)]"

fun register_refs :: "DefinitionKind \<Rightarrow> DefinitionRef list \<Rightarrow> owner_map \<Rightarrow> err list \<Rightarrow> owner_map \<times> err list" where
  "register_refs kind [] owners errs = (owners, errs)"
| "register_refs kind (ref # refs) owners errs =
     (if DefinitionRef_Validate ref \<noteq> None then register_refs kind refs owners errs
      else case map_of owners (definition_key kind ref) of
        Some owner \<Rightarrow>
          register_refs kind refs owners
            (errs @ [Some (if owner \<noteq> df_Pack ref then errID DefinitionOwnerConflict ''definition owner''
                           else errID DefinitionOwnerConflict ''duplicate definition'')])
      | None \<Rightarrow>
          register_refs kind refs (AList.update (definition_key kind ref) (df_Pack ref) owners) errs)"

definition register_index :: "DefinitionIndex \<Rightarrow> owner_map \<times> err list \<Rightarrow> owner_map \<times> err list" where
  "register_index i st =
     foldl (\<lambda>(owners, errs) (kind, refs). register_refs kind (elems refs) owners errs) st (index_groups i)"

definition register_validator :: "Registry \<times> err list \<Rightarrow> PackValidator option \<Rightarrow> Registry \<times> err list" where
  "register_validator st hook = (case (st, hook) of
     ((r, errs), None) \<Rightarrow> (r, errs @ [Some (errID DefinitionOwnerConflict ''nil validator'')])
   | ((r, errs), Some h) \<Rightarrow>
       (let pack = pv_Pack h; index = pv_Definitions h;
            errs = errs @ [PackRef_Validate pack] @
              DefinitionIndex_validationErrors DefinitionOwnerConflict index @
              [check_err (dx_Pack index \<noteq> pack) DefinitionOwnerConflict ''validator pack mismatch'']
        in if map_of (rg_validators r) pack \<noteq> None
           then (r, errs @ [Some (errID DefinitionOwnerConflict ''duplicate pack'')])
           else (let (owners, errs) = register_index index (rg_owners r, errs)
                 in (r\<lparr>rg_validators := AList.update pack \<lparr>fv_hook = h, fv_index = index\<rparr> (rg_validators r),
                       rg_indexes := AList.update pack index (rg_indexes r),
                       rg_owners := owners\<rparr>, errs))))"

definition NewRegistry :: "PackValidator option list \<Rightarrow> error + Registry" where
  "NewRegistry validators =
     (let (r, errs) = foldl register_validator
            (\<lparr>rg_validators = [], rg_indexes = [], rg_owners = []\<rparr>, []) validators
      in case bestError errs of Some e \<Rightarrow> Inl e | None \<Rightarrow> Inr r)"

section \<open>Dispatch\<close>

definition Registry_Validator :: "Registry option \<Rightarrow> PackRef \<Rightarrow> error + frozenValidator" where
  "Registry_Validator r pack = (case r of
     None \<Rightarrow> Inl (errID DefinitionOwnerMissing ''registry'')
   | Some r \<Rightarrow> (case map_of (rg_validators r) pack of
       None \<Rightarrow> Inl (errID DefinitionOwnerMissing ''pack'')
     | Some v \<Rightarrow> Inr v))"

definition Registry_Definition :: "Registry option \<Rightarrow> DefinitionKind \<Rightarrow> DefinitionRef \<Rightarrow> error + frozenValidator" where
  "Registry_Definition r kind ref = (case r of
     None \<Rightarrow> Inl (errID DefinitionOwnerMissing ''registry'')
   | Some reg \<Rightarrow> (case DefinitionRef_Validate ref of
       Some e \<Rightarrow> Inl e
     | None \<Rightarrow>
         if map_of (rg_owners reg) (definition_key kind ref) \<noteq> Some (df_Pack ref)
         then Inl (errID DefinitionOwnerMissing ''definition'')
         else Registry_Validator r (df_Pack ref)))"

definition owners_of :: "Registry option \<Rightarrow> owner_map" where
  "owners_of r = (case r of None \<Rightarrow> [] | Some r \<Rightarrow> rg_owners r)"

definition then_validator :: "error + frozenValidator \<Rightarrow> (frozenValidator \<Rightarrow> err) \<Rightarrow> err" where
  "then_validator v f = (case v of Inl e \<Rightarrow> Some e | Inr v \<Rightarrow> f v)"

definition Registry_ValidateFact :: "env \<Rightarrow> Registry option \<Rightarrow> FactKey \<Rightarrow> Value option \<Rightarrow> err" where
  "Registry_ValidateFact E r key val =
     first_error
       [bestError [FactKey_Validate E key, opt_err (Value_Validate E) val],
        then_validator (Registry_Validator r (key_pack key)) (\<lambda>v. frozen_ValidateFact E v key val)]"

definition Registry_ValidateService :: "Registry option \<Rightarrow> ServiceInstance \<Rightarrow> err" where
  "Registry_ValidateService r s =
     first_error
       [ServiceInstance_Validate s,
        then_validator (Registry_Definition r DefinitionService (si_Definition s))
          (\<lambda>v. frozen_ValidateService (owners_of r) v s)]"

definition Registry_ValidateCapability :: "env \<Rightarrow> Registry option \<Rightarrow> CapabilityInstance \<Rightarrow> err" where
  "Registry_ValidateCapability E r c =
     first_error
       [CapabilityInstance_Validate E c,
        then_validator (Registry_Definition r DefinitionCapability (ci_Definition c))
          (\<lambda>v. frozen_ValidateCapability E (owners_of r) v c)]"

definition ValidateFactCandidate :: "env \<Rightarrow> Registry option \<Rightarrow> FactCandidate \<Rightarrow> err" where
  "ValidateFactCandidate E r c =
     first_error [FactCandidate_Validate E c, Registry_ValidateFact E r (fc_Key c) (fc_Value c)]"

definition Registry_ValidateField :: "env \<Rightarrow> Registry option \<Rightarrow> DefinitionRef \<Rightarrow> TypedField \<Rightarrow> err" where
  "Registry_ValidateField E r ref field =
     first_error
       [bestError [DefinitionRef_Validate ref, TypedField_Validate E field],
        check_err (df_ID ref \<noteq> tf_ID field) InvalidValue ''field definition'',
        then_validator (Registry_Definition r DefinitionField ref)
          (\<lambda>v. frozen_ValidateField E (owners_of r) v ref field)]"

end
