(* ===== verification/Freshness.thy ===== *)
theory Freshness
  imports Validation
begin

text \<open>
  Time-dependent status of a fact (\<^verbatim>\<open>semreg/v1/evaluation_selection.go\<close>): how old an
  observation is, first by ticks of one monotonic clock epoch and otherwise by comparable wall
  clocks with their uncertainties, and what availability remains of it. Intervals are unbounded
  integers as in the source (\<^verbatim>\<open>math/big\<close>); results that leave 64 bits are rejected.
\<close>

definition earlierComparableWall :: "TimePoint \<Rightarrow> TimePoint \<Rightarrow> err" where
  "earlierComparableWall thenP nowP =
     (if tp_ClockID thenP \<noteq> tp_ClockID nowP then None
      else case (i64_val (tp_UnixNanoseconds thenP), i64_val (tp_UnixNanoseconds nowP),
                 u64_val (tp_UncertaintyNS thenP), u64_val (tp_UncertaintyNS nowP)) of
        (Some thenNS, Some nowNS, Some thenU, Some nowU) \<Rightarrow>
          if \<not> BitLen_le 64 (thenU + nowU) then Some (errID InvalidTime ''wall uncertainty overflow'')
          else check_err (nowNS - thenNS + (thenU + nowU) < 0) InvalidTime ''evaluation before snapshot''
      | _ \<Rightarrow> Some (errID InvalidTime ''wall point''))"

definition classifyElapsed :: "int \<Rightarrow> FreshnessPolicy \<Rightarrow> error + Freshness" where
  "classifyElapsed elapsed policy =
     (if elapsed < 0 \<or> \<not> BitLen_le 64 elapsed then Inl (errID InvalidTime ''elapsed interval'')
      else case (u64_val (fp_FreshForNS policy), u64_val (fp_RetainForNS policy)) of
        (Some fresh, Some retain) \<Rightarrow>
          Inr (if elapsed < fresh then FreshnessFresh
               else if elapsed < retain then FreshnessStale else FreshnessExpired)
      | _ \<Rightarrow> Inl (errID InvalidTime ''freshness policy''))"

definition evaluateCrossEpoch :: "TimePoint \<Rightarrow> FreshnessPolicy \<Rightarrow> TimePoint \<Rightarrow> error + Freshness" where
  "evaluateCrossEpoch received policy evaluated =
     (if tp_ClockID received \<noteq> ''clock.utc'' \<or> tp_ClockID evaluated \<noteq> ''clock.utc'' then Inr FreshnessUnknown
      else case (i64_val (tp_UnixNanoseconds received), i64_val (tp_UnixNanoseconds evaluated),
                 u64_val (tp_UncertaintyNS received), u64_val (tp_UncertaintyNS evaluated),
                 u64_val (fp_MaxWallUncertaintyNS policy)) of
        (Some receivedNS, Some evaluatedNS, Some receivedU, Some evaluatedU, Some maxU) \<Rightarrow>
          (let u = receivedU + evaluatedU; delta = evaluatedNS - receivedNS; upper = delta + u;
               lower = (if delta - u < 0 then 0 else delta - u)
           in if \<not> BitLen_le 64 u then Inl (errID InvalidTime ''wall uncertainty overflow'')
              else if upper < 0 then Inl (errID InvalidTime ''negative wall delta'')
              else if \<not> BitLen_le 64 upper then Inl (errID InvalidTime ''elapsed interval overflow'')
              else if \<not> BitLen_le 64 lower then Inl (errID InvalidTime ''elapsed interval overflow'')
              else if u > maxU then Inr FreshnessUnknown
              else case (fst (u64 (fp_FreshForNS policy)), fst (u64 (fp_RetainForNS policy))) of
                (Some fresh, Some retain) \<Rightarrow>
                  Inr (if upper < fresh then FreshnessFresh
                       else if lower \<ge> fresh \<and> upper < retain then FreshnessStale
                       else if lower \<ge> retain then FreshnessExpired else FreshnessUnknown)
              | _ \<Rightarrow> Inl (ForeignError ''nil counter''))
      | _ \<Rightarrow> Inl (errID InvalidTime ''cross epoch wall point''))"

definition evaluateFreshness :: "Times \<Rightarrow> FreshnessPolicy \<Rightarrow> EvaluationContext \<Rightarrow> error + Freshness" where
  "evaluateFreshness ts policy context =
     (case bestError [Times_Validate ts, FreshnessPolicy_Validate policy, EvaluationContext_Validate context] of
        Some e \<Rightarrow> Inl e
      | None \<Rightarrow>
          if mp_ClockEpochID (tm_ReceiptMonotonic ts) = mp_ClockEpochID (ec_EvaluateMonotonic context)
          then (case (u64_val (mp_Nanoseconds (tm_ReceiptMonotonic ts)),
                      u64_val (mp_Nanoseconds (ec_EvaluateMonotonic context))) of
              (Some receipt, Some evaluation) \<Rightarrow>
                if evaluation < receipt then Inl (errID InvalidTime ''evaluation monotonic order'')
                else classifyElapsed (evaluation - receipt) policy
            | _ \<Rightarrow> Inl (errID InvalidTime ''evaluation monotonic order''))
          else evaluateCrossEpoch (tm_ReceivedAt ts) policy (ec_EvaluatedAt context))"

definition freshness_order :: "Freshness \<Rightarrow> nat" where
  "freshness_order f = (case f of FreshnessFresh \<Rightarrow> 0 | FreshnessStale \<Rightarrow> 1 | FreshnessUnknown \<Rightarrow> 2
     | FreshnessExpired \<Rightarrow> 3 | FreshnessOther _ \<Rightarrow> 0)"

definition combineFreshness :: "Freshness \<Rightarrow> Freshness \<Rightarrow> Freshness" where
  "combineFreshness left right = (if freshness_order right > freshness_order left then right else left)"

definition effectiveAvailability :: "Availability \<Rightarrow> Freshness \<Rightarrow> Availability" where
  "effectiveAvailability stored freshness =
     (if stored = AvailabilityWithdrawn \<or> freshness = FreshnessFresh then stored
      else if freshness = FreshnessExpired then AvailabilityUnavailable
      else if stored = AvailabilityAvailable \<and> (freshness = FreshnessStale \<or> freshness = FreshnessUnknown)
      then AvailabilityDegraded else stored)"

section \<open>Laws\<close>

lemma FreshnessPolicy_bounds:
  assumes "FreshnessPolicy_Validate p = None"
  obtains f r u where "u64_val (fp_FreshForNS p) = Some f" "u64_val (fp_RetainForNS p) = Some r"
    "u64_val (fp_MaxWallUncertaintyNS p) = Some u" "0 < f" "f < r"
  using assms by (auto simp: FreshnessPolicy_Validate_def Let_def split: option.splits)

lemma fst_u64_of_val: "u64_val v = Some n \<Longrightarrow> fst (u64 v) = Some n"
  by (auto simp: u64_val_def split: if_splits)

text \<open>On one clock epoch freshness is decided by the elapsed ticks alone.\<close>

lemma same_epoch_freshness:
  assumes "Times_Validate t = None" "FreshnessPolicy_Validate p = None" "EvaluationContext_Validate c = None"
    and "mp_ClockEpochID (tm_ReceiptMonotonic t) = mp_ClockEpochID (ec_EvaluateMonotonic c)"
    and "u64_val (mp_Nanoseconds (tm_ReceiptMonotonic t)) = Some r"
    and "u64_val (mp_Nanoseconds (ec_EvaluateMonotonic c)) = Some n" and "r \<le> n"
    and "u64_val (fp_FreshForNS p) = Some f" and "u64_val (fp_RetainForNS p) = Some k"
  shows "evaluateFreshness t p c = Inr (if n - r < f then FreshnessFresh
      else if n - r < k then FreshnessStale else FreshnessExpired)"
proof -
  have "0 \<le> r" "n < 2 ^ 64" using u64_valD assms(5,6) by blast+
  with assms show ?thesis
    by (simp add: evaluateFreshness_def classifyElapsed_def BitLen_le_def)
qed

lemma combineFreshness_order:
  "freshness_order (combineFreshness a b) = max (freshness_order a) (freshness_order b)"
  by (simp add: combineFreshness_def)

lemma foldl_combine_order:
  "freshness_order (foldl combineFreshness f fs) = Max (set (map freshness_order (f # fs)))"
proof (induction fs arbitrary: f)
  case (Cons g gs)
  show ?case
  proof (cases gs)
    case Nil
    then show ?thesis by (simp add: combineFreshness_order)
  next
    case (Cons h hs)
    have "freshness_order (foldl combineFreshness f (g # gs)) =
        Max (set (map freshness_order (combineFreshness f g # gs)))"
      using Cons.IH by simp
    then show ?thesis using Cons by (simp add: combineFreshness_order max.assoc)
  qed
qed simp

end
