(* ===== verification/Batch.thy ===== *)
theory Batch
  imports Revisions Registry Freshness
begin

text \<open>
  Publication batches and their staged application (\<^verbatim>\<open>PublicationBatch\<close> and \<^verbatim>\<open>applyTo\<close> of
  \<^verbatim>\<open>semreg/v1/publication.go\<close>). \<^verbatim>\<open>applyTo\<close> builds a detached post-state through a fixed
  sequence of phases and collects every independent failure; each phase is one definition here and
  \<open>applyTo\<close> composes them in the order of the source. The record \<open>staging\<close> holds the maps the
  source keeps in local variables, with the errors noted so far.
\<close>

section \<open>Batch validation\<close>

definition order_errors :: "PublicationBatch \<Rightarrow> err list" where
  "order_errors b =
     [orderedUnique SourceDescriptor_identity compareSource (pb_SourceUpserts b),
      orderedUnique (opaque_identity (\<lambda>x. x)) (by_field (\<lambda>x. x)) (pb_SourceRetirements b),
      orderedUnique (opaque_identity nb_BindingID) (by_field nb_BindingID) (pb_BindingUpserts b),
      orderedUnique (opaque_identity il_BindingID) (by_field il_BindingID) (pb_IdentityLinkUpserts b),
      orderedUnique (opaque_identity fc_CandidateID) (by_field fc_CandidateID) (pb_FactUpserts b),
      orderedUnique (opaque_identity (\<lambda>x. x)) (by_field (\<lambda>x. x)) (pb_FactWithdrawals b),
      orderedUnique (opaque_identity si_InstanceID) (by_field si_InstanceID) (pb_ServiceUpserts b),
      orderedUnique (opaque_identity (\<lambda>x. x)) (by_field (\<lambda>x. x)) (pb_ServiceWithdrawals b),
      orderedUnique (opaque_identity ci_InstanceID) (by_field ci_InstanceID) (pb_CapabilityUpserts b),
      orderedUnique (opaque_identity (\<lambda>x. x)) (by_field (\<lambda>x. x)) (pb_CapabilityWithdrawals b),
      orderedUnique GenerationFence_identity compareFence (pb_GenerationFences b)]"

definition absent_collections :: "PublicationBatch \<Rightarrow> err list" where
  "absent_collections b = map (\<lambda>absent. check_err absent MissingMember ''publication collection'')
     [pb_SourceUpserts b = None, pb_SourceRetirements b = None, pb_BindingUpserts b = None,
      pb_IdentityLinkUpserts b = None, pb_FactUpserts b = None, pb_FactWithdrawals b = None,
      pb_ServiceUpserts b = None, pb_ServiceWithdrawals b = None, pb_CapabilityUpserts b = None,
      pb_CapabilityWithdrawals b = None, pb_GenerationFences b = None]"

definition record_errors :: "env \<Rightarrow> PublicationBatch \<Rightarrow> err list" where
  "record_errors E b =
     concat (map (\<lambda>r. [SourceDescriptor_Validate r,
       check_err (sd_State r = SourceRetired) StaleSourceEpoch ''publisher-retired source'']) (elems (pb_SourceUpserts b))) @
     map (\<lambda>v. validateOpaqueValue v ''source epoch id'') (elems (pb_SourceRetirements b)) @
     concat (map (\<lambda>r. [NativeBinding_Validate r,
       (if nb_State r = BindingFenced then Some (errID StaleDriverGeneration ''publisher-fenced binding'')
        else check_err (nb_State r = BindingRetired) StaleSourceEpoch ''publisher-retired binding'')])
       (elems (pb_BindingUpserts b))) @
     map IdentityLink_Validate (elems (pb_IdentityLinkUpserts b)) @
     map (FactCandidate_Validate E) (elems (pb_FactUpserts b)) @
     map (\<lambda>v. validateOpaqueValue v ''candidate id'') (elems (pb_FactWithdrawals b)) @
     map ServiceInstance_Validate (elems (pb_ServiceUpserts b)) @
     map (\<lambda>v. validateOpaqueValue v ''service instance id'') (elems (pb_ServiceWithdrawals b)) @
     map (CapabilityInstance_Validate E) (elems (pb_CapabilityUpserts b)) @
     map (\<lambda>v. validateOpaqueValue v ''capability instance id'') (elems (pb_CapabilityWithdrawals b)) @
     map GenerationFence_Validate (elems (pb_GenerationFences b))"

definition PublicationBatch_validateStructure :: "env \<Rightarrow> bool \<Rightarrow> PublicationBatch \<Rightarrow> err" where
  "PublicationBatch_validateStructure E requireDigest b =
     bestError
       ([check_err (pb_Contract b \<noteq> ContractKernelV1) InvalidContract ''publication batch'',
         validateOpaqueValue (pb_BatchID b) ''batch id'', validateOpaqueValue (pb_AssetID b) ''asset id'',
         validateOpaqueValue (pb_SourceID b) ''source id'', validateOpaqueValue (pb_SourceEpochID b) ''source epoch id'',
         TimePoint_Validate (pb_ObservedAt b),
         (if requireDigest then Digest_Validate (pb_BatchDigest b) else None),
         check_err (\<not> positive (pb_DriverGeneration b) \<or> \<not> positive (pb_Sequence b)) InvalidIdentifier ''publication order'',
         check_err (\<not> snd (u64 (pb_ExpectedSemanticRevision b))) InvalidValue ''expected semantic revision''] @
        absent_collections b @
        [check_err (length (elems (pb_FactUpserts b)) > maxStagedDerivationNodes \<or>
            length (elems (pb_FactWithdrawals b)) > maxDerivationNodes) BoundsExceeded ''publication candidate operations''] @
        record_errors E b @ order_errors b)"

definition PublicationBatch_computedDigestUnchecked :: "env \<Rightarrow> PublicationBatch \<Rightarrow> error + Digest" where
  "PublicationBatch_computedDigestUnchecked E b =
     digest_without E ''batch_digest'' ''publication batch'' (json_of_PublicationBatch b)"

definition PublicationBatch_ComputedDigest :: "env \<Rightarrow> PublicationBatch \<Rightarrow> error + Digest" where
  "PublicationBatch_ComputedDigest E b = (case PublicationBatch_validateStructure E False b of
     Some e \<Rightarrow> Inl e
   | None \<Rightarrow> PublicationBatch_computedDigestUnchecked E b)"

definition PublicationBatch_Validate :: "env \<Rightarrow> PublicationBatch \<Rightarrow> err" where
  "PublicationBatch_Validate E b =
     (let structureError = PublicationBatch_validateStructure E True b in
      if (case structureError of None \<Rightarrow> False | Some e \<Rightarrow> errorRank e < rankOf DigestMismatch) then structureError
      else case PublicationBatch_computedDigestUnchecked E b of
        Inl e \<Rightarrow> Some e
      | Inr digest \<Rightarrow>
          if digest \<noteq> pb_BatchDigest b
          then bestError [structureError, Some (errID DigestMismatch ''publication batch'')]
          else structureError)"

section \<open>Ownership of supplied and retained records\<close>

definition suppliedObservedOwnershipMismatch :: "FactCandidate \<Rightarrow> PublicationBatch \<Rightarrow> bool" where
  "suppliedObservedOwnershipMismatch c b \<longleftrightarrow>
     differ (or_SourceID (fc_Origin c)) (Some (pb_SourceID b)) \<or>
     differ (fc_SourceEpochID c) (Some (pb_SourceEpochID b)) \<or>
     differ (fc_DriverGeneration c) (Some (pb_DriverGeneration b))"

definition publicationHeaderOwnershipError :: "AssetID \<Rightarrow> PublicationBatch \<Rightarrow> err" where
  "publicationHeaderOwnershipError kernelAsset b =
     bestError
       ([check_err (pb_AssetID b \<noteq> kernelAsset) InvalidValue ''publication asset''] @
        map (\<lambda>s. check_err (sd_SourceID s \<noteq> pb_SourceID b) InvalidValue ''source ownership'') (elems (pb_SourceUpserts b)) @
        map (\<lambda>r. check_err (nb_AssetID r \<noteq> pb_AssetID b \<or> nb_SourceID r \<noteq> pb_SourceID b \<or>
            nb_SourceEpochID r \<noteq> pb_SourceEpochID b \<or> nb_DriverGeneration r \<noteq> pb_DriverGeneration b)
          InvalidValue ''binding ownership'') (elems (pb_BindingUpserts b)) @
        map (\<lambda>f. check_err (gf_SourceID f \<noteq> pb_SourceID b \<or> gf_SourceEpochID f \<noteq> pb_SourceEpochID b)
          InvalidValue ''generation fence ownership'') (elems (pb_GenerationFences b)) @
        map (\<lambda>l. check_err (il_AssetID l \<noteq> pb_AssetID b) InvalidValue ''identity asset'') (elems (pb_IdentityLinkUpserts b)) @
        map (\<lambda>c. check_err (ql_Assertion (fc_Quality c) = AssertionObserved \<and> suppliedObservedOwnershipMismatch c b)
          InvalidValue ''candidate ownership'') (elems (pb_FactUpserts b)) @
        map (\<lambda>s. check_err (si_AssetID s \<noteq> pb_AssetID b \<or> si_SourceEpochID s \<noteq> pb_SourceEpochID b \<or>
            si_DriverGeneration s \<noteq> pb_DriverGeneration b) InvalidValue ''service header ownership'') (elems (pb_ServiceUpserts b)) @
        map (\<lambda>c. check_err (ci_AssetID c \<noteq> pb_AssetID b \<or> ci_SourceEpochID c \<noteq> pb_SourceEpochID b \<or>
            ci_DriverGeneration c \<noteq> pb_DriverGeneration b) InvalidValue ''capability header ownership'')
          (elems (pb_CapabilityUpserts b)))"

text \<open>Which binding, and through it which source, already owns an identifier of the batch.\<close>

definition foreign_binding :: "Snapshot \<Rightarrow> PublicationBatch \<Rightarrow> NativeBindingID \<Rightarrow> bool" where
  "foreign_binding s b bid = (case map_of (snapshot_bindings s) bid of
     None \<Rightarrow> False | Some r \<Rightarrow> nb_SourceID r \<noteq> pb_SourceID b)"

definition owned_by :: "Snapshot \<Rightarrow> PublicationBatch \<Rightarrow> NativeBindingID option \<Rightarrow> string \<Rightarrow> err" where
  "owned_by s b bid detail = (case bid of
     None \<Rightarrow> None | Some i \<Rightarrow> check_err (foreign_binding s b i) InvalidValue detail)"

definition snapshot_candidate_list :: "Snapshot \<Rightarrow> FactCandidate list" where
  "snapshot_candidate_list s = concat (map (\<lambda>f. elems (fe_Candidates f)) (elems (sn_Facts s)))"

definition candidate_bindings :: "Snapshot \<Rightarrow> (CandidateID, NativeBindingID) gomap" where
  "candidate_bindings s = foldl (\<lambda>m c. case fc_BindingID c of
       None \<Rightarrow> m
     | Some bid \<Rightarrow> if ql_Assertion (fc_Quality c) = AssertionObserved then AList.update (fc_CandidateID c) bid m else m)
     [] (snapshot_candidate_list s)"

definition publicationRetainedSourceOwnershipError :: "Snapshot option \<Rightarrow> PublicationBatch \<Rightarrow> err" where
  "publicationRetainedSourceOwnershipError current b = (case current of None \<Rightarrow> None | Some s \<Rightarrow>
     (let candidates = candidate_bindings s;
          services = (\<lambda>i. map_option si_BindingID (map_of (snapshot_services s) i));
          capabilities = (\<lambda>i. map_option ci_BindingID (map_of (map_from ci_InstanceID (elems (sn_Capabilities s))) i))
      in bestError
        (map (\<lambda>l. owned_by s b (Some (il_BindingID l)) ''retained identity-link source ownership'')
           (elems (pb_IdentityLinkUpserts b)) @
         concat (map (\<lambda>c.
           [(if ql_Assertion (fc_Quality c) = AssertionObserved
             then owned_by s b (fc_BindingID c) ''retained candidate binding source ownership'' else None),
            owned_by s b (map_of candidates (fc_CandidateID c)) ''retained candidate source ownership''])
           (elems (pb_FactUpserts b))) @
         map (\<lambda>i. owned_by s b (map_of candidates i) ''retained fact-withdrawal source ownership'')
           (elems (pb_FactWithdrawals b)) @
         concat (map (\<lambda>v. [owned_by s b (Some (si_BindingID v)) ''retained service binding source ownership'',
           owned_by s b (services (si_InstanceID v)) ''retained service source ownership'']) (elems (pb_ServiceUpserts b))) @
         map (\<lambda>i. owned_by s b (services i) ''retained service-withdrawal source ownership'') (elems (pb_ServiceWithdrawals b)) @
         concat (map (\<lambda>c. [owned_by s b (Some (ci_BindingID c)) ''retained capability binding source ownership'',
           owned_by s b (capabilities (ci_InstanceID c)) ''retained capability source ownership'']) (elems (pb_CapabilityUpserts b))) @
         map (\<lambda>i. owned_by s b (capabilities i) ''retained capability-withdrawal source ownership'')
           (elems (pb_CapabilityWithdrawals b)))))"

section \<open>Revision vector\<close>

record componentChanges =
  ch_identity :: bool
  ch_facts :: bool
  ch_services :: bool
  ch_capabilities :: bool

definition nextRevisionVector :: "RevisionVector \<Rightarrow> bool \<Rightarrow> componentChanges \<Rightarrow> RevisionVector" where
  "nextRevisionVector old first changed =
     (if first then \<lparr>rv_Semantic = ''1'', rv_Identity = ''1'', rv_Facts = ''1'', rv_Services = ''1'', rv_Capabilities = ''1''\<rparr>
      else \<lparr>rv_Semantic = increment (rv_Semantic old),
            rv_Identity = (if ch_identity changed then increment (rv_Identity old) else rv_Identity old),
            rv_Facts = (if ch_facts changed then increment (rv_Facts old) else rv_Facts old),
            rv_Services = (if ch_services changed then increment (rv_Services old) else rv_Services old),
            rv_Capabilities = (if ch_capabilities changed then increment (rv_Capabilities old) else rv_Capabilities old)\<rparr>)"

definition zero_time :: TimePoint where
  "zero_time = \<lparr>tp_UnixNanoseconds = [], tp_ClockID = [], tp_UncertaintyNS = []\<rparr>"

definition zero_monotonic :: MonotonicPoint where
  "zero_monotonic = \<lparr>mp_ClockEpochID = [], mp_Nanoseconds = []\<rparr>"

definition zero_revisions :: RevisionVector where
  "zero_revisions = \<lparr>rv_Semantic = [], rv_Identity = [], rv_Facts = [], rv_Services = [], rv_Capabilities = []\<rparr>"

definition emptySnapshot :: "AssetID \<Rightarrow> Snapshot" where
  "emptySnapshot asset = \<lparr>sn_Contract = ContractKernelV1, sn_SnapshotID = [], sn_AssetID = asset,
     sn_Revisions = zero_revisions, sn_EvaluatedAt = zero_time, sn_EvaluateMonotonic = zero_monotonic,
     sn_Sources = Some [], sn_Bindings = Some [], sn_IdentityLinks = Some [], sn_Facts = Some [], sn_Retained = None,
     sn_Services = Some [], sn_Capabilities = Some [], sn_Fences = Some [], sn_Cursors = Some []\<rparr>"

definition cursorMap :: "Snapshot option \<Rightarrow> (cursorKey, PublicationCursor) gomap" where
  "cursorMap s = (case s of None \<Rightarrow> [] | Some s \<Rightarrow> snapshot_cursors s)"

end
