(* ===== verification/Staging.thy ===== *)
theory Staging
  imports Batch
begin

text \<open>
  \<^verbatim>\<open>applyTo\<close> of \<^verbatim>\<open>semreg/v1/publication.go\<close>: the phases that turn the working copy of the
  current snapshot into the proposed next one. No phase stops at an error; errors are noted and the
  caller refuses to commit if there is any.
\<close>

section \<open>Working state\<close>

record staging =
  st_sources :: "(sourceKey, SourceDescriptor) gomap"
  st_bindings :: binding_map
  st_links :: "(NativeBindingID, IdentityLink) gomap"
  st_services :: "(ServiceInstanceID, ServiceInstance) gomap"
  st_capabilities :: "(CapabilityInstanceID, CapabilityInstance) gomap"
  st_fences :: "(cursorKey, GenerationFence) gomap"
  st_cursors :: "(cursorKey, PublicationCursor) gomap"
  st_candidates :: candidate_map
  st_upserted :: "CandidateID list"
  st_retained :: "(string, RetainedObservationRecord) gomap"
  st_errs :: "err list"

definition note_err :: "err \<Rightarrow> staging \<Rightarrow> staging" where
  "note_err e st = st\<lparr>st_errs := st_errs st @ [e]\<rparr>"

definition note_if :: "bool \<Rightarrow> ErrorID \<Rightarrow> string \<Rightarrow> staging \<Rightarrow> staging" where
  "note_if bad eid detail st = note_err (check_err bad eid detail) st"

definition load_retained :: "env \<Rightarrow> staging \<Rightarrow> RetainedObservationRecord \<Rightarrow> staging" where
  "load_retained E st r = (case retainedObservationIdentity E (ro_Candidate r) of
     Inl e \<Rightarrow> note_err (Some e) st
   | Inr i \<Rightarrow> st\<lparr>st_retained := AList.update i r (st_retained st)\<rparr>)"

definition load_staging :: "env \<Rightarrow> Snapshot \<Rightarrow> staging" where
  "load_staging E s =
     foldl (load_retained E)
       \<lparr>st_sources = snapshot_sources s, st_bindings = snapshot_bindings s,
        st_links = map_from il_BindingID (elems (sn_IdentityLinks s)), st_services = snapshot_services s,
        st_capabilities = map_from ci_InstanceID (elems (sn_Capabilities s)), st_fences = snapshot_fences s,
        st_cursors = snapshot_cursors s, st_candidates = map_from fc_CandidateID (snapshot_candidate_list s),
        st_upserted = [], st_retained = [], st_errs = []\<rparr>
       (elems (sn_Retained s))"

section \<open>Sources\<close>

definition retiring :: "PublicationBatch \<Rightarrow> SourceEpochID \<Rightarrow> bool" where
  "retiring b epoch \<longleftrightarrow> epoch \<in> set (elems (pb_SourceRetirements b))"

definition check_retirement :: "PublicationBatch \<Rightarrow> staging \<Rightarrow> SourceEpochID \<Rightarrow> staging" where
  "check_retirement b st epoch = (case map_of (st_sources st) (pb_SourceID b, epoch) of
     None \<Rightarrow> note_err (Some (errID StaleSourceEpoch ''source retirement'')) st
   | Some source \<Rightarrow> note_if (sd_State source \<noteq> SourceCurrent) StaleSourceEpoch ''source retirement'' st)"

definition check_current_epoch :: "PublicationBatch \<Rightarrow> staging \<Rightarrow> SourceDescriptor \<Rightarrow> staging" where
  "check_current_epoch b st source =
     note_if (sd_SourceID source = pb_SourceID b \<and> sd_State source = SourceCurrent \<and>
         sd_SourceEpochID source \<noteq> pb_SourceEpochID b \<and> \<not> retiring b (sd_SourceEpochID source))
       StaleSourceEpoch ''current source epoch'' st"

definition check_publication_epoch :: "PublicationBatch \<Rightarrow> staging \<Rightarrow> staging" where
  "check_publication_epoch b st = (case map_of (st_sources st) (pb_SourceID b, pb_SourceEpochID b) of
     None \<Rightarrow> st
   | Some source \<Rightarrow> note_if (sd_State source \<noteq> SourceCurrent) StaleSourceEpoch ''publication source epoch'' st)"

definition upsert_source :: "PublicationBatch \<Rightarrow> staging \<Rightarrow> SourceDescriptor \<Rightarrow> staging" where
  "upsert_source b st source =
     (let key = source_key source;
          st = (case map_of (st_sources st) key of
            None \<Rightarrow> st
          | Some existing \<Rightarrow>
              note_err (snd (validateRevisionedUpsert sd_Revision sd_set_rev existing source))
                (note_if (sd_State existing \<noteq> SourceCurrent) StaleSourceEpoch ''source upsert''
                  (note_if ((sd_ProfileID existing \<noteq> sd_ProfileID source \<or> sd_ProfileVersion existing \<noteq> sd_ProfileVersion source) \<and>
                      (\<not> retiring b (sd_SourceEpochID source) \<or> sd_SourceEpochID source = pb_SourceEpochID b))
                    StaleSourceEpoch ''profile change requires replacement epoch'' st)))
      in st\<lparr>st_sources := AList.update key source (st_sources st)\<rparr>)"

definition phase_sources :: "Snapshot \<Rightarrow> PublicationBatch \<Rightarrow> staging \<Rightarrow> staging" where
  "phase_sources s b st =
     (let st = foldl (check_retirement b) st (elems (pb_SourceRetirements b));
          st = foldl (check_current_epoch b) st (elems (sn_Sources s));
          st = check_publication_epoch b st;
          st = foldl (upsert_source b) st (elems (pb_SourceUpserts b))
      in note_if (map_of (st_sources st) (pb_SourceID b, pb_SourceEpochID b) = None)
           DanglingReference ''publication source'' st)"

section \<open>Generations and fences\<close>

definition check_generation :: "PublicationBatch \<Rightarrow> staging \<Rightarrow> cursorKey \<times> PublicationCursor \<Rightarrow> staging" where
  "check_generation b st kc = (case kc of ((source, epoch, generation), cursor) \<Rightarrow>
     if source = pb_SourceID b \<and> epoch = pb_SourceEpochID b \<and> \<not> pc_Fenced cursor
     then (let cmp = compareUint64 (pb_DriverGeneration b) generation in
       note_if (cmp > 0 \<and> \<not> containsFence (elems (pb_GenerationFences b)) (pb_SourceID b) (pb_SourceEpochID b) generation)
         GenerationTransitionIncomplete ''missing generation fence''
         (note_if (cmp < 0) StaleDriverGeneration ''publication generation'' st))
     else st)"

definition check_fence :: "PublicationBatch \<Rightarrow> staging \<Rightarrow> GenerationFence \<Rightarrow> staging" where
  "check_fence b st fence = (case map_of (st_cursors st) (fence_key fence) of
     None \<Rightarrow> note_err (Some (errID DanglingReference ''generation fence cursor'')) st
   | Some cursor \<Rightarrow>
       note_if (compareUint64 (gf_DriverGeneration fence) (pb_DriverGeneration b) > 0)
         StaleDriverGeneration ''future generation fence''
         (note_if (pc_Fenced cursor \<or> (case map_of (st_fences st) (fence_key fence) of
              None \<Rightarrow> False | Some f \<Rightarrow> gf_Revision f \<noteq> [])) StaleDriverGeneration ''generation fence'' st))"

definition fences_header :: "PublicationBatch \<Rightarrow> bool" where
  "fences_header b = containsFence (elems (pb_GenerationFences b)) (pb_SourceID b) (pb_SourceEpochID b) (pb_DriverGeneration b)"

definition check_header_fence :: "PublicationBatch \<Rightarrow> staging \<Rightarrow> staging" where
  "check_header_fence b st =
     note_if (fences_header b \<and> (elems (pb_BindingUpserts b) \<noteq> [] \<or> elems (pb_IdentityLinkUpserts b) \<noteq> [] \<or>
         elems (pb_ServiceUpserts b) \<noteq> [] \<or> elems (pb_CapabilityUpserts b) \<noteq> []))
       StaleDriverGeneration ''fenced header generation upsert'' st"

definition unionEvidence :: "EvidenceRef slice list \<Rightarrow> error + EvidenceRef slice" where
  "unionEvidence sets =
     (let result = concat (map elems sets);
          dedup = append_nil (dedup_adjacent compareEvidence (sort_by compareEvidence result))
      in case validateEvidenceSet dedup 1 32 of Some e \<Rightarrow> Inl e | None \<Rightarrow> Inr dedup)"

definition withdraw_service :: "NativeBindingID \<Rightarrow> ServiceInstance \<Rightarrow> ServiceInstance" where
  "withdraw_service bid v = (if si_BindingID v = bid \<and> si_Availability v \<noteq> AvailabilityWithdrawn
     then v\<lparr>si_Availability := AvailabilityWithdrawn, si_Revision := increment (si_Revision v)\<rparr> else v)"

definition withdraw_capability :: "NativeBindingID \<Rightarrow> CapabilityInstance \<Rightarrow> CapabilityInstance" where
  "withdraw_capability bid c = (if ci_BindingID c = bid \<and> ci_Availability c \<noteq> AvailabilityWithdrawn
     then c\<lparr>ci_Availability := AvailabilityWithdrawn, ci_Revision := increment (ci_Revision c)\<rparr> else c)"

definition withdraw_link :: "EvidenceRef slice \<Rightarrow> IdentityLink \<Rightarrow> IdentityLink" where
  "withdraw_link basis l = (if il_State l \<noteq> LinkWithdrawn \<or> il_Basis l \<noteq> basis
     then l\<lparr>il_Basis := basis, il_State := LinkWithdrawn, il_Revision := increment (il_Revision l)\<rparr> else l)"

definition map_values :: "('v \<Rightarrow> 'v) \<Rightarrow> ('k, 'v) gomap \<Rightarrow> ('k, 'v) gomap" where
  "map_values f m = map (\<lambda>(k, v). (k, f v)) m"

text \<open>An error of \<^verbatim>\<open>unionEvidence\<close> returns before the services and capabilities are reached.\<close>

definition transitionBinding :: "BindingState \<Rightarrow> EvidenceRef slice \<Rightarrow> staging \<Rightarrow> NativeBinding \<Rightarrow> staging" where
  "transitionBinding state evidence st binding =
     (let bid = nb_BindingID binding;
          st = (if nb_State binding \<noteq> state
                then st\<lparr>st_bindings := AList.update bid
                   (binding\<lparr>nb_State := state, nb_Revision := increment (nb_Revision binding)\<rparr>) (st_bindings st)\<rparr>
                else st);
          withdraw = (\<lambda>st. st\<lparr>st_services := map_values (withdraw_service bid) (st_services st),
            st_capabilities := map_values (withdraw_capability bid) (st_capabilities st)\<rparr>)
      in case map_of (st_links st) bid of
           None \<Rightarrow> withdraw st
         | Some link \<Rightarrow> (case unionEvidence [il_Basis link, evidence] of
             Inl e \<Rightarrow> note_err (Some e) st
           | Inr basis \<Rightarrow> withdraw (st\<lparr>st_links := AList.update bid (withdraw_link basis link) (st_links st)\<rparr>)))"

definition transition_all :: "(NativeBinding \<Rightarrow> bool) \<Rightarrow> BindingState \<Rightarrow> EvidenceRef slice \<Rightarrow> staging \<Rightarrow> staging" where
  "transition_all covered state evidence st =
     foldl (transitionBinding state evidence) st (filter covered (map snd (st_bindings st)))"

definition apply_fence :: "staging \<Rightarrow> GenerationFence \<Rightarrow> staging" where
  "apply_fence st fence = (case map_of (st_cursors st) (fence_key fence) of
     None \<Rightarrow> st
   | Some cursor \<Rightarrow>
       transition_all (\<lambda>b. binding_cursor_key b = fence_key fence) BindingFenced (gf_Evidence fence)
         (st\<lparr>st_fences := AList.update (fence_key fence) fence (st_fences st),
             st_cursors := AList.update (fence_key fence) (cursor\<lparr>pc_Fenced := True\<rparr>) (st_cursors st)\<rparr>))"

definition apply_retirement :: "PublicationBatch \<Rightarrow> staging \<Rightarrow> SourceEpochID \<Rightarrow> staging" where
  "apply_retirement b st epoch = (case map_of (st_sources st) (pb_SourceID b, epoch) of
     None \<Rightarrow> st
   | Some source \<Rightarrow>
       transition_all (\<lambda>r. binding_source_key r = (pb_SourceID b, epoch)) BindingRetired None
         (st\<lparr>st_sources := AList.update (pb_SourceID b, epoch)
            (source\<lparr>sd_State := SourceRetired, sd_Revision := increment (sd_Revision source)\<rparr>) (st_sources st)\<rparr>))"

definition phase_transitions :: "PublicationBatch \<Rightarrow> staging \<Rightarrow> staging" where
  "phase_transitions b st =
     (let st = foldl (check_generation b) st (st_cursors st);
          st = foldl (check_fence b) st (elems (pb_GenerationFences b));
          st = check_header_fence b st;
          st = foldl apply_fence st (elems (pb_GenerationFences b))
      in foldl (apply_retirement b) st (remdups (elems (pb_SourceRetirements b))))"

section \<open>Bindings and identity\<close>

definition lifecycleOrValue :: "NativeBinding \<Rightarrow> string \<Rightarrow> error" where
  "lifecycleOrValue b detail = (if nb_State b \<noteq> BindingCurrent then lifecycleError b else errID InvalidValue detail)"

definition upsert_binding :: "staging \<Rightarrow> NativeBinding \<Rightarrow> staging" where
  "upsert_binding st binding =
     (let st = (case map_of (st_sources st) (binding_source_key binding) of
            None \<Rightarrow> note_err (Some (errID DanglingReference ''binding source'')) st
          | Some source \<Rightarrow> note_if (sd_State source \<noteq> SourceCurrent) StaleSourceEpoch ''binding source epoch'' st);
          st = (case map_of (st_bindings st) (nb_BindingID binding) of
            None \<Rightarrow> st
          | Some existing \<Rightarrow>
              note_err (snd (validateRevisionedUpsert nb_Revision nb_set_rev existing binding))
                (note_if (nb_AssetID existing \<noteq> nb_AssetID binding \<or> binding_cursor_key existing \<noteq> binding_cursor_key binding \<or>
                    nb_NativeResource existing \<noteq> nb_NativeResource binding) IdentityNotQualified ''binding reuse''
                  (note_err (if nb_State existing \<noteq> BindingCurrent then Some (lifecycleError existing) else None) st)))
      in st\<lparr>st_bindings := AList.update (nb_BindingID binding) binding (st_bindings st)\<rparr>)"

definition validatePriorBindingForBatch :: "NativeBindingID \<Rightarrow> PublicationBatch \<Rightarrow> binding_map \<Rightarrow> err" where
  "validatePriorBindingForBatch bid b bindings = (case map_of bindings bid of
     None \<Rightarrow> Some (errID DanglingReference ''prior object binding'')
   | Some r \<Rightarrow>
       if nb_SourceID r \<noteq> pb_SourceID b then Some (errID InvalidValue ''prior object source ownership'')
       else if nb_State r \<noteq> BindingCurrent then Some (lifecycleError r)
       else check_err (nb_SourceEpochID r \<noteq> pb_SourceEpochID b \<or> nb_DriverGeneration r \<noteq> pb_DriverGeneration b)
         InvalidValue ''prior object lifecycle ownership'')"

text \<open>\<open>orig\<close> is the state loaded from the snapshot, \<open>transitioned\<close> the bindings after the transitions.\<close>

definition upsert_link :: "PublicationBatch \<Rightarrow> staging \<Rightarrow> binding_map \<Rightarrow> staging \<Rightarrow> IdentityLink \<Rightarrow> staging" where
  "upsert_link b orig transitioned st link =
     (let bid = il_BindingID link;
          st = note_err (if map_of (st_bindings orig) bid \<noteq> None then validatePriorBindingForBatch bid b transitioned else None) st
      in case map_of (st_bindings st) bid of
           None \<Rightarrow> note_err (Some (errID DanglingReference ''identity binding'')) st
         | Some binding \<Rightarrow>
             (let st = note_err (if il_AssetID link \<noteq> pb_AssetID b \<or> nb_SourceID binding \<noteq> pb_SourceID b \<or>
                       nb_SourceEpochID binding \<noteq> pb_SourceEpochID b \<or> nb_DriverGeneration binding \<noteq> pb_DriverGeneration b \<or>
                       nb_State binding \<noteq> BindingCurrent
                     then Some (lifecycleOrValue binding ''identity ownership'') else None) st;
                  st = (case map_of (st_links st) bid of
                      None \<Rightarrow> st
                    | Some existing \<Rightarrow>
                        note_err (snd (validateRevisionedUpsert il_Revision il_set_rev existing link))
                          (note_err (if il_State existing = LinkWithdrawn then Some (lifecycleError binding) else None) st))
              in st\<lparr>st_links := AList.update bid link (st_links st)\<rparr>))"

section \<open>Facts\<close>

definition validateObservedForBatch :: "FactCandidate \<Rightarrow> PublicationBatch \<Rightarrow> binding_map \<Rightarrow> err" where
  "validateObservedForBatch c b bindings =
     (let failure = check_err (or_SourceID (fc_Origin c) = None \<or> fc_SourceEpochID c = None \<or> fc_DriverGeneration c = None \<or>
            suppliedObservedOwnershipMismatch c b) InvalidValue ''candidate ownership''
      in case fc_BindingID c of
           None \<Rightarrow> bestError [failure, Some (errID MissingMember ''observed source path'')]
         | Some bid \<Rightarrow> (case map_of bindings bid of
             None \<Rightarrow> bestError [failure, Some (errID DanglingReference ''candidate binding'')]
           | Some r \<Rightarrow> bestError [failure,
               check_err (nb_SourceID r \<noteq> pb_SourceID b \<or> nb_SourceEpochID r \<noteq> pb_SourceEpochID b \<or>
                 nb_DriverGeneration r \<noteq> pb_DriverGeneration b) InvalidValue ''candidate binding ownership'',
               (if nb_State r \<noteq> BindingCurrent then Some (lifecycleError r) else None)]))"

text \<open>The source of the binding of a retained candidate. A committed observed candidate has a
  binding (\<^verbatim>\<open>FactCandidate.Validate\<close>), so the source dereferences it.\<close>

definition binding_source_of :: "binding_map \<Rightarrow> NativeBindingID option \<Rightarrow> SourceID" where
  "binding_source_of bindings bid = (case bid of
     None \<Rightarrow> []
   | Some i \<Rightarrow> (case map_of bindings i of None \<Rightarrow> [] | Some r \<Rightarrow> nb_SourceID r))"

definition upsert_fact :: "env \<Rightarrow> Registry \<Rightarrow> PublicationBatch \<Rightarrow> staging \<Rightarrow> staging \<Rightarrow> FactCandidate \<Rightarrow> staging" where
  "upsert_fact E reg b orig st c =
     (let cid = fc_CandidateID c;
          st = note_err (ValidateFactCandidate E (Some reg) c) st;
          st = note_err (if ql_Assertion (fc_Quality c) = AssertionObserved
                     then validateObservedForBatch c b (st_bindings st) else None) st;
          st = (case map_of (st_candidates orig) cid of
              None \<Rightarrow> st
            | Some existing \<Rightarrow>
                note_err (snd (validateRevisionedUpsert fc_Revision fc_set_rev existing c))
                  (note_if (ql_Assertion (fc_Quality existing) = AssertionObserved \<and>
                      binding_source_of (st_bindings orig) (fc_BindingID existing) \<noteq> pb_SourceID b)
                    InvalidValue ''prior candidate source ownership'' st))
      in if map_of (st_candidates st) cid = None \<and> length (st_candidates st) \<ge> maxStagedDerivationNodes
         then note_err (Some (errID BoundsExceeded ''derivation staging nodes'')) st
         else st\<lparr>st_candidates := AList.update cid c (st_candidates st), st_upserted := cid # st_upserted st\<rparr>)"

definition withdrawalCovered :: "PublicationBatch \<Rightarrow> SourceID \<Rightarrow> SourceEpochID \<Rightarrow> Uint64 \<Rightarrow> bool" where
  "withdrawalCovered b source epoch generation \<longleftrightarrow>
     source = pb_SourceID b \<and>
     (epoch = pb_SourceEpochID b \<and> generation = pb_DriverGeneration b \<or>
      containsFence (elems (pb_GenerationFences b)) source epoch generation \<or> retiring b epoch)"

definition withdraw_retained :: "env \<Rightarrow> PublicationBatch \<Rightarrow> staging \<Rightarrow> RetainedObservationRecord \<Rightarrow> staging" where
  "withdraw_retained E b st r =
     (let c = ro_Candidate r;
          found = (case fc_BindingID c of None \<Rightarrow> None | Some bid \<Rightarrow> map_of (st_bindings st) bid);
          st = note_if (case found of None \<Rightarrow> True
              | Some binding \<Rightarrow> nb_SourceID binding \<noteq> pb_SourceID b \<or> nb_State binding = BindingCurrent)
            InvalidValue ''retained fact withdrawal ownership'' st
      in case retainedObservationIdentity E c of
           Inl e \<Rightarrow> note_err (Some e) st
         | Inr i \<Rightarrow> st\<lparr>st_retained := AList.delete i (st_retained st)\<rparr>)"

definition path_ending :: "PublicationBatch \<Rightarrow> FactCandidate \<Rightarrow> bool" where
  "path_ending b c = (case (fc_SourceEpochID c, fc_DriverGeneration c) of
     (Some ep, Some gen) \<Rightarrow> containsFence (elems (pb_GenerationFences b)) (pb_SourceID b) ep gen \<or> retiring b ep
   | _ \<Rightarrow> False)"

definition withdraw_fact :: "env \<Rightarrow> PublicationBatch \<Rightarrow> staging \<Rightarrow> staging \<Rightarrow> CandidateID \<Rightarrow> staging" where
  "withdraw_fact E b orig st cid =
     (let found = map_of (st_candidates orig) cid;
          observed = (case found of None \<Rightarrow> False | Some c \<Rightarrow> ql_Assertion (fc_Quality c) = AssertionObserved);
          st = note_if (observed \<and> (case found of None \<Rightarrow> False | Some c \<Rightarrow> path_ending b c))
            InvalidValue ''retained fact withdrawal overlap'' st;
          matches = filter (\<lambda>r. fc_CandidateID (ro_Candidate r) = cid) (map snd (st_retained st))
      in if found = None \<and> matches = [] then note_err (Some (errID DanglingReference ''fact withdrawal'')) st
         else
           (let st = note_if (observed \<and> (case found of None \<Rightarrow> False | Some c \<Rightarrow>
                    (case fc_BindingID c of None \<Rightarrow> True | Some bid \<Rightarrow>
                      (case map_of (st_bindings orig) bid of None \<Rightarrow> True
                       | Some r \<Rightarrow> \<not> withdrawalCovered b (nb_SourceID r) (nb_SourceEpochID r) (nb_DriverGeneration r)))))
                  InvalidValue ''fact withdrawal ownership'' st;
                st = foldl (withdraw_retained E b) st matches
            in st\<lparr>st_candidates := AList.delete cid (st_candidates st)\<rparr>))"

section \<open>Services and capabilities\<close>

definition prior_instance_errors :: "PublicationBatch \<Rightarrow> binding_map \<Rightarrow> NativeBindingID \<Rightarrow> Availability \<Rightarrow> staging \<Rightarrow> staging" where
  "prior_instance_errors b transitioned bid availability st =
     note_err (if availability = AvailabilityWithdrawn
           then Some (lifecycleError (case map_of transitioned bid of None \<Rightarrow> zero_binding | Some r \<Rightarrow> r)) else None)
       (note_err (validatePriorBindingForBatch bid b transitioned) st)"

definition upsert_service :: "Registry \<Rightarrow> PublicationBatch \<Rightarrow> staging \<Rightarrow> binding_map \<Rightarrow> staging \<Rightarrow> ServiceInstance \<Rightarrow> staging" where
  "upsert_service reg b orig transitioned st v =
     (let st = note_err (Registry_ValidateService (Some reg) v) st;
          st = (case map_of (st_services orig) (si_InstanceID v) of
              None \<Rightarrow> st
            | Some existing \<Rightarrow>
                note_err (snd (validateRevisionedUpsert si_Revision si_set_rev existing v))
                  (prior_instance_errors b transitioned (si_BindingID existing) (si_Availability existing) st))
      in case map_of (st_bindings st) (si_BindingID v) of
           None \<Rightarrow> note_err (Some (errID DanglingReference ''service binding'')) st
         | Some binding \<Rightarrow>
             (let st = note_if (nb_SourceEpochID binding \<noteq> si_SourceEpochID v \<or> nb_DriverGeneration binding \<noteq> si_DriverGeneration v)
                    DanglingReference ''service binding path'' st;
                  st = note_err (if si_AssetID v \<noteq> pb_AssetID b \<or> nb_SourceID binding \<noteq> pb_SourceID b \<or>
                      si_SourceEpochID v \<noteq> pb_SourceEpochID b \<or> si_DriverGeneration v \<noteq> pb_DriverGeneration b \<or>
                      nb_State binding \<noteq> BindingCurrent then Some (lifecycleOrValue binding ''service ownership'') else None) st
              in st\<lparr>st_services := AList.update (si_InstanceID v) v (st_services st)\<rparr>))"

text \<open>Whether the path of an instance that is withdrawn belongs to the batch.\<close>

definition withdrawal_mismatch :: "PublicationBatch \<Rightarrow> binding_map \<Rightarrow> NativeBindingID \<Rightarrow> SourceEpochID \<Rightarrow> Uint64 \<Rightarrow> bool" where
  "withdrawal_mismatch b bindings bid epoch generation = (case map_of bindings bid of
     None \<Rightarrow> True
   | Some r \<Rightarrow> epoch \<noteq> nb_SourceEpochID r \<or> generation \<noteq> nb_DriverGeneration r \<or>
       \<not> withdrawalCovered b (nb_SourceID r) epoch generation)"

definition withdraw_service_id :: "PublicationBatch \<Rightarrow> staging \<Rightarrow> staging \<Rightarrow> ServiceInstanceID \<Rightarrow> staging" where
  "withdraw_service_id b orig st i = (case map_of (st_services orig) i of
     None \<Rightarrow> note_err (Some (errID DanglingReference ''service withdrawal'')) st
   | Some v \<Rightarrow>
       (let st = note_if (withdrawal_mismatch b (st_bindings orig) (si_BindingID v) (si_SourceEpochID v) (si_DriverGeneration v))
              InvalidValue ''service withdrawal ownership'' st
        in case map_of (st_services st) i of
             None \<Rightarrow> st
           | Some w \<Rightarrow> st\<lparr>st_services := AList.update i (withdraw_service (si_BindingID w) w) (st_services st)\<rparr>))"

definition upsert_capability :: "env \<Rightarrow> Registry \<Rightarrow> PublicationBatch \<Rightarrow> staging \<Rightarrow> binding_map \<Rightarrow> staging \<Rightarrow>
    CapabilityInstance \<Rightarrow> staging" where
  "upsert_capability E reg b orig transitioned st c =
     (let st = note_err (Registry_ValidateCapability E (Some reg) c) st;
          st = (case map_of (st_capabilities orig) (ci_InstanceID c) of
              None \<Rightarrow> st
            | Some existing \<Rightarrow>
                note_err (snd (validateRevisionedUpsert ci_Revision ci_set_rev existing c))
                  (prior_instance_errors b transitioned (ci_BindingID existing) (ci_Availability existing) st))
      in case map_of (st_bindings st) (ci_BindingID c) of
           None \<Rightarrow> note_err (Some (errID DanglingReference ''capability binding'')) st
         | Some binding \<Rightarrow>
             (let st = note_if (nb_SourceID binding \<noteq> pb_SourceID b) InvalidValue ''capability source ownership'' st in
              case map_of (st_services st) (ci_ServiceInstance c) of
                None \<Rightarrow> note_err (Some (errID DanglingReference ''capability service'')) st
              | Some service \<Rightarrow>
                  (let st = note_if (nb_SourceEpochID binding \<noteq> ci_SourceEpochID c \<or>
                         nb_DriverGeneration binding \<noteq> ci_DriverGeneration c \<or> si_BindingID service \<noteq> ci_BindingID c)
                         DanglingReference ''capability reference path'' st;
                       checked = (case map_of (st_services orig) (ci_ServiceInstance c) of None \<Rightarrow> service | Some v \<Rightarrow> v);
                       st = note_err (if ci_AssetID c \<noteq> pb_AssetID b \<or> nb_SourceID binding \<noteq> pb_SourceID b \<or>
                           ci_SourceEpochID c \<noteq> pb_SourceEpochID b \<or> ci_DriverGeneration c \<noteq> pb_DriverGeneration b \<or>
                           nb_State binding \<noteq> BindingCurrent \<or> si_Availability checked = AvailabilityWithdrawn
                         then Some (lifecycleOrValue binding ''capability ownership'') else None) st
                   in st\<lparr>st_capabilities := AList.update (ci_InstanceID c) c (st_capabilities st)\<rparr>)))"

definition withdraw_capability_id :: "PublicationBatch \<Rightarrow> staging \<Rightarrow> staging \<Rightarrow> CapabilityInstanceID \<Rightarrow> staging" where
  "withdraw_capability_id b orig st i = (case map_of (st_capabilities orig) i of
     None \<Rightarrow> note_err (Some (errID DanglingReference ''capability withdrawal'')) st
   | Some c \<Rightarrow>
       (let st = note_if (withdrawal_mismatch b (st_bindings orig) (ci_BindingID c) (ci_SourceEpochID c) (ci_DriverGeneration c))
              InvalidValue ''capability withdrawal ownership'' st
        in case map_of (st_capabilities st) i of
             None \<Rightarrow> st
           | Some w \<Rightarrow> st\<lparr>st_capabilities := AList.update i (withdraw_capability (ci_BindingID w) w) (st_capabilities st)\<rparr>))"

section \<open>Graph and retention\<close>

definition phase_graph :: "staging \<Rightarrow> staging" where
  "phase_graph st =
     (let (candidates, e) = closeCandidateGraph (st_candidates st) (st_upserted st) (st_bindings st)
      in note_err e (st\<lparr>st_candidates := candidates\<rparr>))"

definition retain_candidate :: "env \<Rightarrow> PublicationBatch \<Rightarrow> staging \<Rightarrow> CandidateID \<times> FactCandidate \<Rightarrow> staging" where
  "retain_candidate E b st entry = (case entry of (cid, c) \<Rightarrow>
     if cid \<in> set (elems (pb_FactWithdrawals b)) \<or> ql_Assertion (fc_Quality c) \<noteq> AssertionObserved then st
     else case (case fc_BindingID c of None \<Rightarrow> None | Some bid \<Rightarrow> map_of (st_bindings st) bid) of
       None \<Rightarrow> st
     | Some binding \<Rightarrow>
         if nb_State binding = BindingCurrent then st
         else (case retainedObservationIdentity E c of
             Inl e \<Rightarrow> note_err (Some e) st
           | Inr i \<Rightarrow> st\<lparr>st_retained := AList.update i
               \<lparr>ro_Contract = ContractRetainedObservationV1, ro_Candidate = c,
                ro_Removal = (if nb_State binding = BindingRetired then RetainedRemovalSourceRetirement
                              else RetainedRemovalGenerationFence)\<rparr> (st_retained st)\<rparr>))"

definition expire_retained :: "EvaluationContext \<Rightarrow> staging \<Rightarrow> string \<times> RetainedObservationRecord \<Rightarrow> staging" where
  "expire_retained ctx st entry = (case entry of (i, r) \<Rightarrow>
     (case evaluateFreshness (fc_Times (ro_Candidate r)) (fc_FreshnessPolicy (ro_Candidate r)) ctx of
        Inl e \<Rightarrow> note_err (Some e) st
      | Inr f \<Rightarrow> if f = FreshnessExpired then st\<lparr>st_retained := AList.delete i (st_retained st)\<rparr> else st))"

definition phase_retention :: "env \<Rightarrow> PublicationBatch \<Rightarrow> EvaluationContext \<Rightarrow> staging \<Rightarrow> staging \<Rightarrow> staging" where
  "phase_retention E b ctx orig st =
     (let st = foldl (retain_candidate E b) st (st_candidates orig);
          st = foldl (expire_retained ctx) st (st_retained st)
      in note_if (length (st_retained st) > 32) BoundsExceeded ''retained observations'' st)"

section \<open>The next snapshot\<close>

definition publicationContentErrors :: "env \<Rightarrow> Snapshot \<Rightarrow> err" where
  "publicationContentErrors E s =
     bestError
       ([check_err (snapshot_limits_exceeded s) BoundsExceeded ''snapshot collection''] @
        source_errors [] (elems (sn_Sources s)) @
        map NativeBinding_Validate (elems (sn_Bindings s)) @
        map IdentityLink_Validate (elems (sn_IdentityLinks s)) @
        map (FactEnvelope_Validate E) (elems (sn_Facts s)) @
        map (RetainedObservationRecord_Validate E) (elems (sn_Retained s)) @
        map ServiceInstance_Validate (elems (sn_Services s)) @
        concat (map (\<lambda>c. [CapabilityInstance_Validate E c,
          check_err (case map_of (snapshot_services s) (ci_ServiceInstance c) of
              None \<Rightarrow> True
            | Some v \<Rightarrow> si_BindingID v \<noteq> ci_BindingID c \<or>
                (ci_Availability c \<noteq> AvailabilityWithdrawn \<and> si_Availability v = AvailabilityWithdrawn))
            DanglingReference ''capability service'']) (elems (sn_Capabilities s))))"

definition new_cursor :: "PublicationBatch \<Rightarrow> PublicationCursor" where
  "new_cursor b = \<lparr>pc_SourceID = pb_SourceID b, pc_SourceEpochID = pb_SourceEpochID b,
     pc_DriverGeneration = pb_DriverGeneration b, pc_LastSequence = pb_Sequence b,
     pc_LastBatchDigest = pb_BatchDigest b, pc_Fenced = fences_header b\<rparr>"

definition header_key :: "PublicationBatch \<Rightarrow> cursorKey" where
  "header_key b = (pb_SourceID b, pb_SourceEpochID b, pb_DriverGeneration b)"

definition compareRetained :: "env \<Rightarrow> RetainedObservationRecord \<Rightarrow> RetainedObservationRecord \<Rightarrow> int" where
  "compareRetained E a z = string_compare (identity_text E (ro_Candidate a)) (identity_text E (ro_Candidate z))"

definition store_staging :: "env \<Rightarrow> Snapshot \<Rightarrow> PublicationBatch \<Rightarrow> FactEnvelope slice \<Rightarrow> staging \<Rightarrow> Snapshot" where
  "store_staging E s b facts st = s\<lparr>
     sn_Sources := Some (sortedMapValues compareSource
       (normalizeObjectRevisions sd_Revision sd_set_rev source_key (elems (sn_Sources s)) (st_sources st))),
     sn_Bindings := Some (sortedMapValues (by_field nb_BindingID)
       (normalizeObjectRevisions nb_Revision nb_set_rev nb_BindingID (elems (sn_Bindings s)) (st_bindings st))),
     sn_IdentityLinks := Some (sortedMapValues (by_field il_BindingID)
       (normalizeObjectRevisions il_Revision il_set_rev il_BindingID (elems (sn_IdentityLinks s)) (st_links st))),
     sn_Facts := facts,
     sn_Retained := (if st_retained st = [] then None else Some (sortedMapValues (compareRetained E) (st_retained st))),
     sn_Services := Some (sortedMapValues (by_field si_InstanceID)
       (normalizeObjectRevisions si_Revision si_set_rev si_InstanceID (elems (sn_Services s)) (st_services st))),
     sn_Capabilities := Some (sortedMapValues (by_field ci_InstanceID)
       (normalizeObjectRevisions ci_Revision ci_set_rev ci_InstanceID (elems (sn_Capabilities s)) (st_capabilities st))),
     sn_Fences := Some (sortedMapValues compareFence (st_fences st)),
     sn_Cursors := Some (sortedMapValues compareCursor
       (AList.update (header_key b) (new_cursor b) (st_cursors st)))\<rparr>"

definition component_changes :: "Snapshot \<Rightarrow> Snapshot \<Rightarrow> componentChanges" where
  "component_changes before after =
     \<lparr>ch_identity = (sn_Sources before \<noteq> sn_Sources after \<or> sn_Bindings before \<noteq> sn_Bindings after \<or>
        sn_IdentityLinks before \<noteq> sn_IdentityLinks after \<or> sn_Fences before \<noteq> sn_Fences after),
      ch_facts = (sn_Facts before \<noteq> sn_Facts after \<or> sn_Retained before \<noteq> sn_Retained after),
      ch_services = (sn_Services before \<noteq> sn_Services after),
      ch_capabilities = (sn_Capabilities before \<noteq> sn_Capabilities after)\<rparr>"

definition stage_batch :: "env \<Rightarrow> Registry \<Rightarrow> Snapshot \<Rightarrow> PublicationBatch \<Rightarrow> MonotonicPoint \<Rightarrow> staging" where
  "stage_batch E reg s b pm =
     (let orig = load_staging E s;
          st = phase_transitions b (phase_sources s b orig);
          transitioned = st_bindings st;
          st = foldl upsert_binding st (elems (pb_BindingUpserts b));
          st = foldl (upsert_link b orig transitioned) st (elems (pb_IdentityLinkUpserts b));
          st = foldl (upsert_fact E reg b orig) st (elems (pb_FactUpserts b));
          st = foldl (withdraw_fact E b orig) st (elems (pb_FactWithdrawals b));
          st = foldl (upsert_service reg b orig transitioned) st (elems (pb_ServiceUpserts b));
          st = foldl (withdraw_service_id b orig) st (elems (pb_ServiceWithdrawals b));
          st = foldl (upsert_capability E reg b orig transitioned) st (elems (pb_CapabilityUpserts b));
          st = foldl (withdraw_capability_id b orig) st (elems (pb_CapabilityWithdrawals b));
          st = phase_graph st
      in phase_retention E b \<lparr>ec_EvaluatedAt = pb_ObservedAt b, ec_EvaluateMonotonic = pm\<rparr> orig st)"

definition applyTo :: "env \<Rightarrow> Registry \<Rightarrow> Snapshot \<Rightarrow> PublicationBatch \<Rightarrow> MonotonicPoint \<Rightarrow>
    Snapshot \<times> componentChanges \<times> err" where
  "applyTo E reg s b pm =
     (let st = stage_batch E reg s b pm;
          rebuilt = rebuildEnvelopes E (elems (sn_Facts s)) (sn_AssetID s) (map snd (st_candidates st));
          facts = (case rebuilt of Inl _ \<Rightarrow> None | Inr fs \<Rightarrow> Some fs);
          rebuildErr = (case rebuilt of Inl e \<Rightarrow> Some e | Inr _ \<Rightarrow> None);
          s' = store_staging E s b facts st
      in (s', component_changes s s',
          bestError (st_errs st @ [rebuildErr, publicationContentErrors E s'])))"

end
