(* ===== verification/Publication.thy ===== *)
theory Publication
  imports Staging
begin

text \<open>
  The publication kernel (\<^verbatim>\<open>PublicationKernel\<close> of \<^verbatim>\<open>semreg/v1/publication.go\<close>). One kernel
  owns the current snapshot of one asset. \<^verbatim>\<open>Apply\<close> runs under the kernel's lock, so the model is a
  sequential transition from kernel to kernel; the JSON round trips that detach memory
  (\<^verbatim>\<open>cloneSnapshot\<close>, \<^verbatim>\<open>clonePublicationBatch\<close>) are the identity on the validated values they are
  applied to.
\<close>

section \<open>State\<close>

record publicationResult =
  pr_snapshot :: Snapshot
  pr_canonical :: string

record PublicationKernel =
  k_asset :: AssetID
  k_registry :: Registry
  k_current :: "Snapshot option"
  k_canonical :: string
  k_replays :: "(cursorKey, publicationResult) gomap"

type_synonym apply_result = "error + (Snapshot \<times> string)"

definition NewPublicationKernel :: "AssetID \<Rightarrow> PackValidator option list \<Rightarrow> error + PublicationKernel" where
  "NewPublicationKernel asset validators = (case validateOpaqueValue asset ''asset id'' of
     Some e \<Rightarrow> Inl e
   | None \<Rightarrow> (case NewRegistry validators of
       Inl e \<Rightarrow> Inl e
     | Inr r \<Rightarrow> Inr \<lparr>k_asset = asset, k_registry = r, k_current = None, k_canonical = [], k_replays = []\<rparr>))"

definition Current :: "PublicationKernel option \<Rightarrow> (Snapshot \<times> string) option" where
  "Current k = (case k of
     None \<Rightarrow> None
   | Some k \<Rightarrow> (case k_current k of None \<Rightarrow> None | Some s \<Rightarrow> Some (s, k_canonical k)))"

definition Fork :: "PublicationKernel option \<Rightarrow> error + PublicationKernel" where
  "Fork k = (case k of
     None \<Rightarrow> Inl (errID InvalidValue ''publication kernel'')
   | Some k \<Rightarrow> Inr \<lparr>k_asset = k_asset k, k_registry = k_registry k, k_current = k_current k,
       k_canonical = k_canonical k, k_replays = k_replays k\<rparr>)"

definition replayResult :: "PublicationKernel \<Rightarrow> cursorKey \<Rightarrow> apply_result" where
  "replayResult k key = (case map_of (k_replays k) key of
     None \<Rightarrow> Inl (errID DanglingReference ''publication replay'')
   | Some r \<Rightarrow> Inr (pr_snapshot r, pr_canonical r))"

section \<open>Apply\<close>

definition ranks_before :: "err \<Rightarrow> ErrorID \<Rightarrow> bool" where
  "ranks_before e limit = (case e of None \<Rightarrow> False | Some e \<Rightarrow> errorRank e < rankOf limit)"

text \<open>Checks of the sequencing domain that precede staging, for a batch that is not a replay.\<close>

definition sequence_errors :: "PublicationKernel \<Rightarrow> PublicationBatch \<Rightarrow> err list" where
  "sequence_errors k b =
     (let cursors = cursorMap (k_current k) in
      (case map_of cursors (header_key b) of
         Some cursor \<Rightarrow> check_err (pc_Fenced cursor) StaleDriverGeneration ''fenced publication cursor''
       | None \<Rightarrow> check_err (pb_Sequence b \<noteq> ''1'') SequenceConflict ''first publication sequence'') #
      map (\<lambda>((source, epoch, generation), _).
        check_err (source = pb_SourceID b \<and> epoch = pb_SourceEpochID b \<and> compareUint64 (pb_DriverGeneration b) generation < 0)
          StaleDriverGeneration ''regressed publication generation'') cursors)"

definition current_revision :: "PublicationKernel \<Rightarrow> Uint64" where
  "current_revision k = (case k_current k of None \<Rightarrow> ''0'' | Some s \<Rightarrow> rv_Semantic (sn_Revisions s))"

definition working_snapshot :: "PublicationKernel \<Rightarrow> Snapshot" where
  "working_snapshot k = (case k_current k of None \<Rightarrow> emptySnapshot (k_asset k) | Some s \<Rightarrow> s)"

text \<open>The proposed snapshot before its identity is computed, and the failure of staging.\<close>

definition propose :: "env \<Rightarrow> PublicationKernel \<Rightarrow> PublicationBatch \<Rightarrow> MonotonicPoint \<Rightarrow> Snapshot \<times> err" where
  "propose E k b pm = (case applyTo E (k_registry k) (working_snapshot k) b pm of
     (s, changed, e) \<Rightarrow>
       (s\<lparr>sn_Contract := ContractKernelV1, sn_AssetID := k_asset k, sn_EvaluatedAt := pb_ObservedAt b,
          sn_EvaluateMonotonic := pm,
          sn_Revisions := nextRevisionVector (sn_Revisions s) (k_current k = None) changed\<rparr>, e))"

definition commit :: "env \<Rightarrow> PublicationKernel \<Rightarrow> PublicationBatch \<Rightarrow> Snapshot \<Rightarrow> PublicationKernel \<times> apply_result" where
  "commit E k b working =
     (case Snapshot_computedID E (working\<lparr>sn_SnapshotID := ''snapshot:pending''\<rparr>) of
        Inl e \<Rightarrow> (k, Inl e)
      | Inr sid \<Rightarrow>
          (let s = working\<lparr>sn_SnapshotID := sid\<rparr> in
           case Snapshot_Validate E s of
             Some e \<Rightarrow> (k, Inl e)
           | None \<Rightarrow> (case CanonicalJSON (Snapshot_Validate E) json_of_Snapshot s of
               Inl e \<Rightarrow> (k, Inl e)
             | Inr canonical \<Rightarrow>
                 (k\<lparr>k_current := Some s, k_canonical := canonical,
                    k_replays := AList.update (header_key b) \<lparr>pr_snapshot = s, pr_canonical = canonical\<rparr> (k_replays k)\<rparr>,
                  Inr (s, canonical)))))"

definition publish :: "env \<Rightarrow> PublicationKernel \<Rightarrow> PublicationBatch \<Rightarrow> MonotonicPoint \<Rightarrow> err \<Rightarrow>
    PublicationKernel \<times> apply_result" where
  "publish E k b pm structureError =
     (case PublicationBatch_computedDigestUnchecked E b of
        Inl e \<Rightarrow> (k, Inl e)
      | Inr digest \<Rightarrow>
          (let (working, staged) = propose E k b pm;
               failure = bestError ([structureError] @ sequence_errors k b @
                 [check_err (digest \<noteq> pb_BatchDigest b) DigestMismatch ''publication batch'',
                  check_err (pb_ExpectedSemanticRevision b \<noteq> current_revision k) RevisionConflict ''semantic revision'',
                  staged, RevisionVector_Validate (sn_Revisions working)])
           in case failure of Some e \<Rightarrow> (k, Inl e) | None \<Rightarrow> commit E k b working))"

definition replay :: "env \<Rightarrow> PublicationKernel \<Rightarrow> PublicationBatch \<Rightarrow> PublicationCursor \<Rightarrow> apply_result" where
  "replay E k b cursor =
     (if PublicationBatch_computedDigestUnchecked E b = Inr (pb_BatchDigest b) \<and> pb_BatchDigest b = pc_LastBatchDigest cursor
      then replayResult k (header_key b)
      else Inl (errID SequenceConflict ''publication replay bytes''))"

definition local_error :: "env \<Rightarrow> PublicationKernel \<Rightarrow> PublicationBatch \<Rightarrow> MonotonicPoint \<Rightarrow> err" where
  "local_error E k b pm =
     bestError [PublicationBatch_validateStructure E False b, Digest_Validate (pb_BatchDigest b),
       MonotonicPoint_Validate pm, publicationHeaderOwnershipError (k_asset k) b]"

text \<open>\<^verbatim>\<open>sequenceComparison\<close> is 1 where the cursor is not known.\<close>

definition sequence_comparison :: "PublicationKernel \<Rightarrow> PublicationBatch \<Rightarrow> int" where
  "sequence_comparison k b = (case map_of (cursorMap (k_current k)) (header_key b) of
     None \<Rightarrow> 1
   | Some cursor \<Rightarrow> compareUint64 (pb_Sequence b) (pc_LastSequence cursor))"

definition Apply_locked :: "env \<Rightarrow> PublicationKernel \<Rightarrow> PublicationBatch \<Rightarrow> MonotonicPoint \<Rightarrow>
    PublicationKernel \<times> apply_result" where
  "Apply_locked E k b pm =
     (let structureError = local_error E k b pm in
      if ranks_before structureError InvalidValue then (k, Inl (the structureError))
      else
        (let cmp = sequence_comparison k b;
             structureError = (if cmp > 0
               then bestError [structureError, publicationRetainedSourceOwnershipError (k_current k) b] else structureError)
         in if ranks_before structureError DanglingReference then (k, Inl (the structureError))
            else case map_of (cursorMap (k_current k)) (header_key b) of
              None \<Rightarrow> publish E k b pm structureError
            | Some cursor \<Rightarrow>
                if cmp \<le> 0 \<and> structureError \<noteq> None then (k, Inl (the structureError))
                else if cmp < 0 then (k, Inl (errID SequenceConflict ''publication sequence''))
                else if cmp = 0 then (k, replay E k b cursor)
                else publish E k b pm structureError))"

definition Apply :: "env \<Rightarrow> PublicationKernel option \<Rightarrow> PublicationBatch \<Rightarrow> MonotonicPoint \<Rightarrow>
    PublicationKernel option \<times> apply_result" where
  "Apply E k b pm = (case k of
     None \<Rightarrow> (None, Inl (errID InvalidValue ''publication kernel''))
   | Some k \<Rightarrow> (case Apply_locked E k b pm of (k', r) \<Rightarrow> (Some k', r)))"

end
