(* ===== verification/Publication_Laws.thy ===== *)
theory Publication_Laws
  imports Publication
begin

text \<open>
  Laws of the publication kernel. The first part follows the cursor map through the phases of
  \<open>applyTo\<close>; the second takes \<open>Apply\<close> apart into rejection, replay and commit. The third defines the
  states a kernel can reach and its invariant.
\<close>

section \<open>Cursors through the phases\<close>

lemmas noting = note_err_def note_if_def

lemma note_cursors [simp]: "st_cursors (note_err e st) = st_cursors st" "st_cursors (note_if bad i d st) = st_cursors st"
  by (simp_all add: noting)

lemma transition_cursors [simp]: "st_cursors (transitionBinding state ev st b) = st_cursors st"
  by (simp add: transitionBinding_def Let_def split: option.split sum.split)

lemma transition_all_cursors [simp]: "st_cursors (transition_all covered state ev st) = st_cursors st"
  unfolding transition_all_def by (rule foldl_frame) simp

lemma upsert_cursors [simp]:
  "st_cursors (load_retained E st r) = st_cursors st"
  "st_cursors (check_retirement b st ep) = st_cursors st"
  "st_cursors (check_current_epoch b st src) = st_cursors st"
  "st_cursors (check_publication_epoch b st) = st_cursors st"
  "st_cursors (upsert_source b st src) = st_cursors st"
  "st_cursors (check_generation b st kc) = st_cursors st"
  "st_cursors (check_fence b st f) = st_cursors st"
  "st_cursors (check_header_fence b st) = st_cursors st"
  "st_cursors (apply_retirement b st ep) = st_cursors st"
  "st_cursors (upsert_binding st nb) = st_cursors st"
  "st_cursors (upsert_link b orig transitioned st l) = st_cursors st"
  "st_cursors (prior_instance_errors b transitioned bid av st) = st_cursors st"
  by (simp_all add: load_retained_def check_retirement_def check_current_epoch_def check_publication_epoch_def
    upsert_source_def check_generation_def check_fence_def check_header_fence_def apply_retirement_def
    upsert_binding_def upsert_link_def prior_instance_errors_def Let_def split: option.split sum.split prod.split)

lemma upsert_fact_cursors [simp]: "st_cursors (upsert_fact E reg b orig st c) = st_cursors st"
  by (simp add: upsert_fact_def Let_def split: option.split)

lemma withdraw_retained_cursors [simp]: "st_cursors (withdraw_retained E b st r) = st_cursors st"
  by (simp add: withdraw_retained_def Let_def split: sum.split)

lemma withdraw_fact_cursors [simp]: "st_cursors (withdraw_fact E b orig st cid) = st_cursors st"
proof -
  have "st_cursors (foldl (withdraw_retained E b) st rs) = st_cursors st" for st rs by (rule foldl_frame) simp
  then show ?thesis by (simp add: withdraw_fact_def Let_def)
qed

lemma instance_cursors [simp]:
  "st_cursors (upsert_service reg b orig transitioned st v) = st_cursors st"
  "st_cursors (withdraw_service_id b orig st i) = st_cursors st"
  "st_cursors (upsert_capability E reg b orig transitioned st c) = st_cursors st"
  "st_cursors (withdraw_capability_id b orig st i) = st_cursors st"
  "st_cursors (phase_graph st) = st_cursors st"
  "st_cursors (retain_candidate E b st entry) = st_cursors st"
  "st_cursors (expire_retained ctx st e) = st_cursors st"
  by (simp_all add: upsert_service_def withdraw_service_id_def upsert_capability_def withdraw_capability_id_def
    phase_graph_def retain_candidate_def expire_retained_def Let_def split: option.split sum.split prod.split)

lemma fold_cursors [simp]:
  "st_cursors (foldl (load_retained E) st rs) = st_cursors st"
  "st_cursors (foldl (check_retirement b) st eps) = st_cursors st"
  "st_cursors (foldl (check_current_epoch b) st srcs) = st_cursors st"
  "st_cursors (foldl (upsert_source b) st srcs) = st_cursors st"
  "st_cursors (foldl (check_generation b) st kcs) = st_cursors st"
  "st_cursors (foldl (check_fence b) st fs) = st_cursors st"
  "st_cursors (foldl (apply_retirement b) st eps) = st_cursors st"
  "st_cursors (foldl upsert_binding st nbs) = st_cursors st"
  "st_cursors (foldl (upsert_link b orig transitioned) st ls) = st_cursors st"
  "st_cursors (foldl (upsert_fact E reg b orig) st cs) = st_cursors st"
  "st_cursors (foldl (withdraw_fact E b orig) st ids) = st_cursors st"
  "st_cursors (foldl (upsert_service reg b orig transitioned) st vs) = st_cursors st"
  "st_cursors (foldl (withdraw_service_id b orig) st is) = st_cursors st"
  "st_cursors (foldl (upsert_capability E reg b orig transitioned) st caps) = st_cursors st"
  "st_cursors (foldl (withdraw_capability_id b orig) st is) = st_cursors st"
  "st_cursors (foldl (retain_candidate E b) st es) = st_cursors st"
  "st_cursors (foldl (expire_retained ctx) st xs) = st_cursors st"
  by (rule foldl_frame, simp)+

text \<open>Only fencing changes the cursors, and it only sets \<^verbatim>\<open>Fenced\<close> of existing ones.\<close>

definition fence_cursor :: "(cursorKey, PublicationCursor) gomap \<Rightarrow> GenerationFence \<Rightarrow> (cursorKey, PublicationCursor) gomap" where
  "fence_cursor m f = (case map_of m (fence_key f) of
     None \<Rightarrow> m | Some c \<Rightarrow> AList.update (fence_key f) (c\<lparr>pc_Fenced := True\<rparr>) m)"

lemma apply_fence_cursors: "st_cursors (apply_fence st f) = fence_cursor (st_cursors st) f"
  by (simp add: apply_fence_def fence_cursor_def split: option.split)

lemma fold_apply_fence_cursors: "st_cursors (foldl apply_fence st fs) = foldl fence_cursor (st_cursors st) fs"
  by (induction fs arbitrary: st) (simp_all add: apply_fence_cursors)

lemma stage_batch_cursors:
  "st_cursors (stage_batch E reg s b pm) = foldl fence_cursor (snapshot_cursors s) (elems (pb_GenerationFences b))"
  by (simp add: stage_batch_def phase_retention_def phase_transitions_def phase_sources_def load_staging_def Let_def
    fold_apply_fence_cursors)

text \<open>A cursor is at most fenced: same position, possibly with the fence set.\<close>

definition fenced_or_same :: "PublicationCursor \<Rightarrow> PublicationCursor \<Rightarrow> bool" where
  "fenced_or_same c c' \<longleftrightarrow> c' = c \<or> c' = c\<lparr>pc_Fenced := True\<rparr>"

lemma fold_fence_lookup:
  "(map_of m key = None \<longrightarrow> map_of (foldl fence_cursor m fs) key = None) \<and>
   (\<forall>c. map_of m key = Some c \<longrightarrow> (\<exists>c'. map_of (foldl fence_cursor m fs) key = Some c' \<and> fenced_or_same c c'))"
proof (induction fs arbitrary: m)
  case (Cons f fs)
  have step: "(map_of m key = None \<longrightarrow> map_of (fence_cursor m f) key = None) \<and>
      (\<forall>c. map_of m key = Some c \<longrightarrow> (\<exists>c'. map_of (fence_cursor m f) key = Some c' \<and> fenced_or_same c c'))"
    by (auto simp: fence_cursor_def fenced_or_same_def update_conv split: option.split)
  show ?case using step Cons.IH [of "fence_cursor m f"] by (fastforce simp: fenced_or_same_def)
qed (auto simp: fenced_or_same_def)

lemma keyed_fence_cursor: "keyed cursor_key m \<Longrightarrow> keyed cursor_key (foldl fence_cursor m fs)"
proof (induction fs arbitrary: m)
  case (Cons f fs)
  have "cursor_key (c\<lparr>pc_Fenced := True\<rparr>) = cursor_key c" for c by (simp add: cursor_key_def)
  then have "keyed cursor_key (fence_cursor m f)"
    using Cons.prems keyed_lookup [OF Cons.prems, of "fence_key f"]
    by (simp add: fence_cursor_def keyed_update split: option.split)
  then show ?case using Cons.IH by simp
qed simp

lemma header_key_cursor: "cursor_key (new_cursor b) = header_key b"
  by (simp add: cursor_key_def new_cursor_def header_key_def)

lemma propose_cursors:
  assumes "propose E k b pm = (w, e)"
  shows "map_of (snapshot_cursors w) = (map_of (foldl fence_cursor (cursorMap (k_current k)) (elems (pb_GenerationFences b))))
    (header_key b \<mapsto> new_cursor b)"
proof -
  let ?m = "foldl fence_cursor (snapshot_cursors (working_snapshot k)) (elems (pb_GenerationFences b))"
  have cm: "snapshot_cursors (working_snapshot k) = cursorMap (k_current k)"
    by (simp add: cursorMap_def working_snapshot_def emptySnapshot_def snapshot_cursors_def split: option.split)
  have "sn_Cursors w = Some (sortedMapValues compareCursor (AList.update (header_key b) (new_cursor b) ?m))"
    using assms by (auto simp: propose_def applyTo_def Let_def store_staging_def stage_batch_cursors split: prod.splits)
  moreover have "keyed cursor_key (AList.update (header_key b) (new_cursor b) ?m)"
    by (intro keyed_update keyed_fence_cursor) (simp_all add: header_key_cursor snapshot_cursors_def)
  ultimately show ?thesis
    using map_from_sortedMapValues [of cursor_key "AList.update (header_key b) (new_cursor b) ?m" compareCursor]
    by (simp add: snapshot_cursors_def [of w] update_conv' cm)
qed

section \<open>Apply taken apart\<close>

lemma commit_cases:
  assumes "commit E k b w = (k', r)"
  obtains (rejected) e where "k' = k" "r = Inl e"
  | (committed) s canonical where "r = Inr (s, canonical)" "s = w\<lparr>sn_SnapshotID := sn_SnapshotID s\<rparr>"
      "Snapshot_Validate E s = None" "CanonicalJSON (Snapshot_Validate E) json_of_Snapshot s = Inr canonical"
      "k' = k\<lparr>k_current := Some s, k_canonical := canonical,
        k_replays := AList.update (header_key b) \<lparr>pr_snapshot = s, pr_canonical = canonical\<rparr> (k_replays k)\<rparr>"
  using assms by (auto simp: commit_def Let_def split: sum.splits option.splits)

lemma publish_cases:
  assumes "publish E k b pm se = (k', r)"
  obtains (rejected) e where "k' = k" "r = Inl e"
  | (committed) w where "propose E k b pm = (w, None)" "commit E k b w = (k', r)" "se = None"
      "\<forall>e \<in> set (sequence_errors k b). e = None"
      "PublicationBatch_computedDigestUnchecked E b = Inr (pb_BatchDigest b)"
      "pb_ExpectedSemanticRevision b = current_revision k" "RevisionVector_Validate (sn_Revisions w) = None"
proof (cases "PublicationBatch_computedDigestUnchecked E b")
  case (Inl e)
  then have "k' = k" "r = Inl e" using assms by (simp_all add: publish_def)
  then show ?thesis by (rule rejected)
next
  case (Inr digest)
  obtain w staged where p: "propose E k b pm = (w, staged)" by (cases "propose E k b pm")
  let ?failure = "bestError ([se] @ sequence_errors k b @
     [check_err (digest \<noteq> pb_BatchDigest b) DigestMismatch ''publication batch'',
      check_err (pb_ExpectedSemanticRevision b \<noteq> current_revision k) RevisionConflict ''semantic revision'',
      staged, RevisionVector_Validate (sn_Revisions w)])"
  have eq: "publish E k b pm se = (case ?failure of Some e \<Rightarrow> (k, Inl e) | None \<Rightarrow> commit E k b w)"
    unfolding publish_def Inr p Let_def by (simp only: sum.case prod.case)
  show ?thesis
  proof (cases ?failure)
    case (Some e)
    then have "publish E k b pm se = (k, Inl e)" using eq by (simp only: option.case)
    with assms have "k' = k" "r = Inl e" by simp_all
    then show ?thesis by (rule rejected)
  next
    case None
    then have "publish E k b pm se = commit E k b w" using eq by (simp only: option.case)
    moreover have "se = None" "\<forall>e \<in> set (sequence_errors k b). e = None" "digest = pb_BatchDigest b"
      "pb_ExpectedSemanticRevision b = current_revision k" "staged = None" "RevisionVector_Validate (sn_Revisions w) = None"
      using None by (simp_all add: best.pick_None_iff)
    ultimately show ?thesis using committed [of w] assms p Inr by simp
  qed
qed

lemma Apply_cases:
  assumes "Apply_locked E k b pm = (k', r)"
  obtains (rejected) e where "k' = k" "r = Inl e"
  | (replayed) cursor snap canonical where "k' = k" "r = Inr (snap, canonical)"
      "map_of (cursorMap (k_current k)) (header_key b) = Some cursor" "replayResult k (header_key b) = r"
      "compareUint64 (pb_Sequence b) (pc_LastSequence cursor) = 0" "pb_BatchDigest b = pc_LastBatchDigest cursor"
      "local_error E k b pm = None"
  | (published) "publish E k b pm None = (k', r)" "local_error E k b pm = None" "sequence_comparison k b > 0"
proof -
  let ?se = "local_error E k b pm" and ?cmp = "sequence_comparison k b"
  let ?se2 = "if ?cmp > 0 then bestError [?se, publicationRetainedSourceOwnershipError (k_current k) b] else ?se"
  show thesis
  proof (cases "ranks_before ?se InvalidValue \<or> ranks_before ?se2 DanglingReference")
    case True
    then show ?thesis using assms rejected by (auto simp: Apply_locked_def Let_def split: if_splits)
  next
    case False
    have unfold: "Apply_locked E k b pm = (case map_of (cursorMap (k_current k)) (header_key b) of
              None \<Rightarrow> publish E k b pm ?se2
            | Some cursor \<Rightarrow>
                if ?cmp \<le> 0 \<and> ?se2 \<noteq> None then (k, Inl (the ?se2))
                else if ?cmp < 0 then (k, Inl (errID SequenceConflict ''publication sequence''))
                else if ?cmp = 0 then (k, replay E k b cursor)
                else publish E k b pm ?se2)"
      using False by (simp add: Apply_locked_def Let_def)
    have pub: thesis if "?cmp > 0" "publish E k b pm ?se2 = (k', r)"
      using that(2)
    proof (cases rule: publish_cases)
      case (rejected e)
      then show thesis by (rule \<open>\<And>e. k' = k \<Longrightarrow> r = Inl e \<Longrightarrow> thesis\<close>)
    next
      case (committed w)
      then have "?se = None" using that(1) by simp
      then show thesis using published that committed(3) by simp
    qed
    show ?thesis
    proof (cases "map_of (cursorMap (k_current k)) (header_key b)")
      case None
      then show ?thesis using pub assms unfold by (simp add: sequence_comparison_def)
    next
      case (Some cursor)
      consider "?cmp \<le> 0 \<and> ?se2 \<noteq> None" | "?se2 = None" "?cmp < 0" | "?se2 = None" "?cmp = 0" | "?cmp > 0" by linarith
      then show ?thesis
      proof cases
        case 3
        then have eq: "(k', r) = (k, replay E k b cursor)" using assms unfold Some by auto
        show ?thesis
        proof (cases r)
          case (Inl e)
          have "k' = k" using eq by simp
          then show ?thesis using Inl by (rule rejected)
        next
          case (Inr p)
          obtain snap canonical where p: "p = (snap, canonical)" by (cases p)
          have "replayResult k (header_key b) = r" "pb_BatchDigest b = pc_LastBatchDigest cursor"
            using eq Inr by (auto simp: replay_def split: if_splits)
          moreover have "compareUint64 (pb_Sequence b) (pc_LastSequence cursor) = 0"
            using 3 Some by (simp add: sequence_comparison_def)
          ultimately show ?thesis using replayed [of snap canonical cursor] eq Inr p Some 3 by auto
        qed
      next
        case 4
        then show ?thesis using pub assms unfold Some by simp
      qed (use assms unfold Some rejected in auto)
    qed
  qed
qed

text \<open>Everything a committed publication has passed.\<close>

lemma commit_facts:
  assumes "Apply_locked E k b pm = (k', Inr (s, canonical))" and "sequence_comparison k b > 0"
  obtains w where "propose E k b pm = (w, None)" "s = w\<lparr>sn_SnapshotID := sn_SnapshotID s\<rparr>" "Snapshot_Validate E s = None"
    "CanonicalJSON (Snapshot_Validate E) json_of_Snapshot s = Inr canonical"
    "k' = k\<lparr>k_current := Some s, k_canonical := canonical,
        k_replays := AList.update (header_key b) \<lparr>pr_snapshot = s, pr_canonical = canonical\<rparr> (k_replays k)\<rparr>"
    "\<forall>e \<in> set (sequence_errors k b). e = None" "pb_ExpectedSemanticRevision b = current_revision k"
    "RevisionVector_Validate (sn_Revisions w) = None" "local_error E k b pm = None"
    "PublicationBatch_computedDigestUnchecked E b = Inr (pb_BatchDigest b)"
  using assms(1)
proof (cases rule: Apply_cases)
  case published
  from published(1) show thesis
  proof (cases rule: publish_cases)
    case (committed w)
    from committed(2) show thesis
    proof (cases rule: commit_cases)
      case (committed s' c')
      with \<open>propose E k b pm = (w, None)\<close> that [of w] published \<open>\<forall>e \<in> set (sequence_errors k b). e = None\<close>
        \<open>pb_ExpectedSemanticRevision b = current_revision k\<close> \<open>RevisionVector_Validate (sn_Revisions w) = None\<close>
        \<open>PublicationBatch_computedDigestUnchecked E b = Inr (pb_BatchDigest b)\<close>
      show thesis by simp
    qed simp
  qed simp
qed (use assms(2) in \<open>simp_all add: sequence_comparison_def\<close>)

section \<open>Reachable kernels\<close>

inductive reachable :: "env \<Rightarrow> PublicationKernel \<Rightarrow> bool" for E where
  reachable_new: "NewPublicationKernel asset validators = Inr k \<Longrightarrow> reachable E k"
| reachable_apply: "reachable E k \<Longrightarrow> Apply_locked E k b pm = (k', r) \<Longrightarrow> reachable E k'"

definition committed_bytes :: "env \<Rightarrow> Snapshot \<Rightarrow> string \<Rightarrow> bool" where
  "committed_bytes E s canonical \<longleftrightarrow> Snapshot_Validate E s = None \<and>
     CanonicalJSON (Snapshot_Validate E) json_of_Snapshot s = Inr canonical"

definition kernel_ok :: "env \<Rightarrow> PublicationKernel \<Rightarrow> bool" where
  "kernel_ok E k \<longleftrightarrow>
     (\<forall>s. k_current k = Some s \<longrightarrow> committed_bytes E s (k_canonical k) \<and> sn_AssetID s = k_asset k) \<and>
     (\<forall>key r. map_of (k_replays k) key = Some r \<longrightarrow> committed_bytes E (pr_snapshot r) (pr_canonical r)) \<and>
     (\<forall>key c. map_of (cursorMap (k_current k)) key = Some c \<longrightarrow>
        (\<exists>r c'. map_of (k_replays k) key = Some r \<and> map_of (snapshot_cursors (pr_snapshot r)) key = Some c' \<and> fenced_or_same c' c))"

lemma snapshot_cursors_id [simp]: "snapshot_cursors (w\<lparr>sn_SnapshotID := i\<rparr>) = snapshot_cursors w"
  by (simp add: snapshot_cursors_def)

lemma propose_asset: "propose E k b pm = (w, e) \<Longrightarrow> sn_AssetID w = k_asset k"
  by (auto simp: propose_def split: prod.splits)

lemma fenced_or_same_trans: "fenced_or_same a b \<Longrightarrow> fenced_or_same b c \<Longrightarrow> fenced_or_same a c"
  by (auto simp: fenced_or_same_def)

text \<open>The cursors after a commit: the batch's own, and the earlier ones, some of them now fenced.\<close>

lemma commit_cursors:
  assumes "propose E k b pm = (w, None)" "s = w\<lparr>sn_SnapshotID := i\<rparr>"
  shows "map_of (snapshot_cursors s) (header_key b) = Some (new_cursor b)"
    and "key \<noteq> header_key b \<Longrightarrow> map_of (cursorMap (k_current k)) key = Some c \<Longrightarrow>
      \<exists>c'. map_of (snapshot_cursors s) key = Some c' \<and> fenced_or_same c c'"
    and "key \<noteq> header_key b \<Longrightarrow> map_of (snapshot_cursors s) key = Some c' \<Longrightarrow>
      \<exists>c. map_of (cursorMap (k_current k)) key = Some c \<and> fenced_or_same c c'"
  using propose_cursors [OF assms(1)] assms(2)
    fold_fence_lookup [of "cursorMap (k_current k)" key "elems (pb_GenerationFences b)"]
  by (auto simp: fun_upd_def)

lemma kernel_ok_apply:
  assumes ok: "kernel_ok E k" and ap: "Apply_locked E k b pm = (k', r)"
  shows "kernel_ok E k'"
proof (cases "k' = k")
  case False
  have pos: "sequence_comparison k b > 0" and "\<exists>s canonical. r = Inr (s, canonical)"
    using ap False by (cases rule: Apply_cases; auto elim!: publish_cases commit_cases)+
  then obtain s canonical where r: "r = Inr (s, canonical)" by blast
  obtain w where w: "propose E k b pm = (w, None)" "s = w\<lparr>sn_SnapshotID := sn_SnapshotID s\<rparr>" "Snapshot_Validate E s = None"
    "CanonicalJSON (Snapshot_Validate E) json_of_Snapshot s = Inr canonical"
    "k' = k\<lparr>k_current := Some s, k_canonical := canonical,
        k_replays := AList.update (header_key b) \<lparr>pr_snapshot = s, pr_canonical = canonical\<rparr> (k_replays k)\<rparr>"
    using commit_facts [OF ap [unfolded r] pos] by metis
  have cur: "committed_bytes E s canonical" using w(3,4) by (simp add: committed_bytes_def)
  have asset: "sn_AssetID s = k_asset k" using propose_asset [OF w(1)] w(2) by (metis Snapshot.ext_inject Snapshot.surjective Snapshot.update_convs(2))
  have cursors: "\<exists>p c'. map_of (k_replays k') key = Some p \<and> map_of (snapshot_cursors (pr_snapshot p)) key = Some c' \<and> fenced_or_same c' c"
    if lk: "map_of (snapshot_cursors s) key = Some c" for key c
  proof (cases "key = header_key b")
    case True
    then show ?thesis using commit_cursors(1) [OF w(1,2)] lk w(5) by (simp add: update_conv fenced_or_same_def)
  next
    case False
    obtain c0 where c0: "map_of (cursorMap (k_current k)) key = Some c0" "fenced_or_same c0 c"
      using commit_cursors(3) [OF w(1,2) False lk] by blast
    with ok obtain p c' where "map_of (k_replays k) key = Some p" "map_of (snapshot_cursors (pr_snapshot p)) key = Some c'"
      "fenced_or_same c' c0" unfolding kernel_ok_def by blast
    with c0(2) False w(5) show ?thesis by (auto simp: update_conv intro: fenced_or_same_trans)
  qed
  show ?thesis
    using cur asset cursors ok w(5) by (auto simp: kernel_ok_def cursorMap_def update_conv split: if_splits)
qed (use ok in simp)

lemma reachable_ok: "reachable E k \<Longrightarrow> kernel_ok E k"
proof (induction rule: reachable.induct)
  case (reachable_new asset validators k)
  then show ?case
    by (auto simp: NewPublicationKernel_def kernel_ok_def cursorMap_def split: option.splits sum.splits)
qed (rule kernel_ok_apply)

end
