(* ===== verification/Snapshot_Laws.thy ===== *)
theory Snapshot_Laws
  imports Snapshot
begin

text \<open>
  What acceptance of a snapshot gives: keyed collections, unique current epochs and generations,
  and the lifecycle rules that make a non-withdrawn service, capability or identity link rest on a
  current binding of a current source.
\<close>

section \<open>Canonical collections\<close>

interpretation sources_set: collection SourceDescriptor_identity compareSource
proof -
  have "collection (pair_identity (field_identity sd_SourceID) (field_identity sd_SourceEpochID)) compareSource"
    unfolding compareSource_def by (intro collection_field_then collection_field)
  then show "collection SourceDescriptor_identity compareSource"
    by (rule collection_weaken) (simp_all add: SourceDescriptor_identity_def pair_identity_def field_identity_def fun_eq_iff)
qed

interpretation fences_set: collection GenerationFence_identity compareFence
proof -
  have "collection (pair_identity (field_identity gf_SourceID) (pair_identity (field_identity gf_SourceEpochID)
      (counter_identity gf_DriverGeneration))) compareFence"
    unfolding compareFence_def by (intro collection_field_then by_counter.collection_axioms)
  then show "collection GenerationFence_identity compareFence"
    by (rule collection_weaken) (simp_all add: GenerationFence_identity_def pair_identity_def field_identity_def fun_eq_iff)
qed

interpretation cursors_set: collection PublicationCursor_identity compareCursor
proof -
  have "collection (pair_identity (field_identity pc_SourceID) (pair_identity (field_identity pc_SourceEpochID)
      (counter_identity pc_DriverGeneration))) compareCursor"
    unfolding compareCursor_def by (intro collection_field_then by_counter.collection_axioms)
  then show "collection PublicationCursor_identity compareCursor"
    by (rule collection_weaken) (simp_all add: PublicationCursor_identity_def pair_identity_def field_identity_def fun_eq_iff)
qed

interpretation envelopes_set: collection "FactEnvelope_identity E" "compareEnvelope E" for E
proof -
  have "compareEnvelope E = by_field (\<lambda>f. key_text E (fe_Key f))"
    by (simp add: fun_eq_iff compareEnvelope_def cmp_on_def)
  then show "collection (FactEnvelope_identity E) (compareEnvelope E)"
    by (simp add: collection_on string_cmp.comparator_axioms FactEnvelope_identity_def)
qed

section \<open>Taking Validate apart\<close>

lemma Snapshot_ValidateD:
  assumes "Snapshot_Validate E s = None"
  shows "\<forall>e \<in> set (snapshot_header_errors s). e = None" "\<forall>e \<in> set (snapshot_order_errors E s). e = None"
    "\<forall>e \<in> set (missing_collections s). e = None" "\<not> snapshot_limits_exceeded s"
    "\<forall>e \<in> set (source_errors [] (elems (sn_Sources s))). e = None" "\<forall>e \<in> set (fence_errors s). e = None"
    "\<forall>e \<in> set (cursor_errors s [] (elems (sn_Cursors s))). e = None"
    "\<forall>e \<in> set (source_cursor_errors s). e = None" "\<forall>e \<in> set (fence_cursor_errors s). e = None"
    "\<forall>b \<in> set (elems (sn_Bindings s)). \<forall>e \<in> set (binding_errors s b). e = None"
    "\<forall>l \<in> set (elems (sn_IdentityLinks s)). \<forall>e \<in> set (link_errors s l). e = None"
    "\<forall>v \<in> set (elems (sn_Services s)). \<forall>e \<in> set (service_errors s v). e = None"
    "\<forall>c \<in> set (elems (sn_Capabilities s)). \<forall>e \<in> set (capability_errors E s c). e = None"
    "\<forall>e \<in> set (snd (fact_errors E s (elems (sn_Facts s)) [] [])). e = None"
    "\<forall>r \<in> set (elems (sn_Retained s)). \<forall>e \<in> set (retained_errors E s r). e = None"
    "graph_error s (fst (fact_errors E s (elems (sn_Facts s)) [] [])) = None"
    "Snapshot_computedID E s = Inr (sn_SnapshotID s)"
proof -
  obtain cands ferrs where f: "fact_errors E s (elems (sn_Facts s)) [] [] = (cands, ferrs)"
    by (cases "fact_errors E s (elems (sn_Facts s)) [] []")
  note all = assms [unfolded Snapshot_Validate_def f Let_def prod.case best.pick_append_None_iff best.pick_Cons_None_iff]
  show "\<forall>e \<in> set (snapshot_header_errors s). e = None" "\<forall>e \<in> set (snapshot_order_errors E s). e = None"
    "\<forall>e \<in> set (missing_collections s). e = None" "\<not> snapshot_limits_exceeded s"
    "\<forall>e \<in> set (source_errors [] (elems (sn_Sources s))). e = None" "\<forall>e \<in> set (fence_errors s). e = None"
    "\<forall>e \<in> set (cursor_errors s [] (elems (sn_Cursors s))). e = None"
    "\<forall>e \<in> set (source_cursor_errors s). e = None" "\<forall>e \<in> set (fence_cursor_errors s). e = None"
    "\<forall>b \<in> set (elems (sn_Bindings s)). \<forall>e \<in> set (binding_errors s b). e = None"
    "\<forall>l \<in> set (elems (sn_IdentityLinks s)). \<forall>e \<in> set (link_errors s l). e = None"
    "\<forall>v \<in> set (elems (sn_Services s)). \<forall>e \<in> set (service_errors s v). e = None"
    "\<forall>c \<in> set (elems (sn_Capabilities s)). \<forall>e \<in> set (capability_errors E s c). e = None"
    "\<forall>e \<in> set (snd (fact_errors E s (elems (sn_Facts s)) [] [])). e = None"
    "\<forall>r \<in> set (elems (sn_Retained s)). \<forall>e \<in> set (retained_errors E s r). e = None"
    "graph_error s (fst (fact_errors E s (elems (sn_Facts s)) [] [])) = None"
    using all by (simp_all add: f best.pick_None_iff)
  have "snapshot_id_error E s = None" using all by blast
  then show "Snapshot_computedID E s = Inr (sn_SnapshotID s)"
    by (auto simp: snapshot_id_error_def split: sum.splits)
qed

section \<open>Sources and generations\<close>

lemma source_errors_unique:
  "\<forall>e \<in> set (source_errors current ss). e = None \<Longrightarrow>
     distinct (map sd_SourceID (filter (\<lambda>s. sd_State s = SourceCurrent) ss)) \<and>
     (\<forall>s \<in> set ss. SourceDescriptor_Validate s = None \<and> (sd_State s = SourceCurrent \<longrightarrow> sd_SourceID s \<notin> set current))"
  by (induction current ss rule: source_errors.induct) (auto split: if_splits)

lemma lookup_source: "map_of (snapshot_sources s) key = Some d \<Longrightarrow> d \<in> set (elems (sn_Sources s)) \<and> source_key d = key"
  unfolding snapshot_sources_def by (rule map_from_lookup_key)

lemma lookup_cursor: "map_of (snapshot_cursors s) key = Some c \<Longrightarrow> c \<in> set (elems (sn_Cursors s)) \<and> cursor_key c = key"
  unfolding snapshot_cursors_def by (rule map_from_lookup_key)

lemma lookup_fence: "map_of (snapshot_fences s) key = Some f \<Longrightarrow> f \<in> set (elems (sn_Fences s)) \<and> fence_key f = key"
  unfolding snapshot_fences_def by (rule map_from_lookup_key)

lemma lookup_binding: "map_of (snapshot_bindings s) i = Some b \<Longrightarrow> b \<in> set (elems (sn_Bindings s)) \<and> nb_BindingID b = i"
  unfolding snapshot_bindings_def by (rule map_from_lookup_key)

lemma lookup_service: "map_of (snapshot_services s) i = Some v \<Longrightarrow> v \<in> set (elems (sn_Services s)) \<and> si_InstanceID v = i"
  unfolding snapshot_services_def by (rule map_from_lookup_key)

definition current_source :: "Snapshot \<Rightarrow> sourceKey \<Rightarrow> bool" where
  "current_source s key \<longleftrightarrow> (\<exists>d. map_of (snapshot_sources s) key = Some d \<and> sd_State d = SourceCurrent)"

definition open_cursor :: "Snapshot \<Rightarrow> PublicationCursor \<Rightarrow> bool" where
  "open_cursor s c \<longleftrightarrow> \<not> pc_Fenced c \<and> current_source s (pc_SourceID c, pc_SourceEpochID c)"

lemma cursor_errors_unique:
  "\<forall>e \<in> set (cursor_errors s unfenced cs). e = None \<Longrightarrow>
     distinct (map (\<lambda>c. (pc_SourceID c, pc_SourceEpochID c)) (filter (open_cursor s) cs)) \<and>
     (\<forall>c \<in> set cs. PublicationCursor_Validate c = None \<and>
        map_of (snapshot_sources s) (pc_SourceID c, pc_SourceEpochID c) \<noteq> None \<and>
        (pc_Fenced c \<longleftrightarrow> map_of (snapshot_fences s) (cursor_key c) \<noteq> None) \<and>
        (open_cursor s c \<longrightarrow> (pc_SourceID c, pc_SourceEpochID c) \<notin> set unfenced))"
proof (induction cs arbitrary: unfenced)
  case (Cons c cs)
  let ?g = "(pc_SourceID c, pc_SourceEpochID c)"
  have counts: "(\<not> pc_Fenced c \<and> (case map_of (snapshot_sources s) ?g of None \<Rightarrow> False | Some d \<Rightarrow> sd_State d = SourceCurrent))
      \<longleftrightarrow> open_cursor s c"
    by (simp add: open_cursor_def current_source_def split: option.split)
  have head: "PublicationCursor_Validate c = None" "map_of (snapshot_sources s) ?g \<noteq> None"
      "pc_Fenced c \<longleftrightarrow> map_of (snapshot_fences s) (cursor_key c) \<noteq> None"
    using Cons.prems by (simp_all add: Let_def counts)
  have fresh: "?g \<notin> set unfenced" if "open_cursor s c"
    using Cons.prems counts that by (auto simp: Let_def)
  have "\<forall>e \<in> set (cursor_errors s (if open_cursor s c then ?g # unfenced else unfenced) cs). e = None"
    using Cons.prems by (simp add: Let_def counts)
  from Cons.IH [OF this] head fresh show ?case by (auto split: if_splits)
qed simp

section \<open>Bindings and what rests on them\<close>

lemma binding_lifecycle:
  assumes "\<forall>e \<in> set (binding_errors s b). e = None"
  obtains d c where "map_of (snapshot_sources s) (binding_source_key b) = Some d" "nb_AssetID b = sn_AssetID s"
    "map_of (snapshot_cursors s) (binding_cursor_key b) = Some c"
    "nb_State b = BindingCurrent \<Longrightarrow> sd_State d = SourceCurrent \<and> \<not> pc_Fenced c"
    "nb_State b = BindingFenced \<Longrightarrow> map_of (snapshot_fences s) (binding_cursor_key b) \<noteq> None"
    "nb_State b = BindingRetired \<Longrightarrow> sd_State d = SourceRetired"
  using assms by (cases "nb_State b") (auto simp: binding_errors_def Let_def split: option.splits if_splits)

lemma link_rests:
  assumes "\<forall>e \<in> set (link_errors s l). e = None"
  obtains b where "map_of (snapshot_bindings s) (il_BindingID l) = Some b" "il_AssetID l = sn_AssetID s"
    "il_State l \<noteq> LinkWithdrawn \<Longrightarrow> nb_State b = BindingCurrent"
  using assms by (auto simp: link_errors_def split: option.splits if_splits)

lemma service_rests:
  assumes "\<forall>e \<in> set (service_errors s v). e = None"
  obtains b where "map_of (snapshot_bindings s) (si_BindingID v) = Some b" "si_AssetID v = sn_AssetID s"
    "nb_SourceEpochID b = si_SourceEpochID v" "nb_DriverGeneration b = si_DriverGeneration v"
    "si_Availability v \<noteq> AvailabilityWithdrawn \<Longrightarrow> nb_State b = BindingCurrent"
  using assms by (auto simp: service_errors_def split: option.splits if_splits)

lemma capability_rests:
  assumes "\<forall>e \<in> set (capability_errors E s c). e = None"
  obtains b v where "map_of (snapshot_bindings s) (ci_BindingID c) = Some b"
    "map_of (snapshot_services s) (ci_ServiceInstance c) = Some v" "ci_AssetID c = sn_AssetID s"
    "nb_SourceEpochID b = ci_SourceEpochID c" "nb_DriverGeneration b = ci_DriverGeneration c" "si_BindingID v = ci_BindingID c"
    "ci_Availability c \<noteq> AvailabilityWithdrawn \<Longrightarrow> nb_State b = BindingCurrent \<and> si_Availability v \<noteq> AvailabilityWithdrawn"
    "nb_State b \<noteq> BindingCurrent \<Longrightarrow> ci_Availability c = AvailabilityWithdrawn \<and> si_Availability v = AvailabilityWithdrawn"
  using assms by (auto simp: capability_errors_def split: option.splits if_splits)

text \<open>A binding that acceptance calls current belongs to a current source epoch and to a generation
  that is not fenced.\<close>

definition live_binding :: "Snapshot \<Rightarrow> NativeBindingID \<Rightarrow> bool" where
  "live_binding s bid \<longleftrightarrow> (\<exists>b d c. b \<in> set (elems (sn_Bindings s)) \<and> nb_BindingID b = bid \<and> nb_State b = BindingCurrent \<and>
     nb_AssetID b = sn_AssetID s \<and>
     d \<in> set (elems (sn_Sources s)) \<and> source_key d = binding_source_key b \<and> sd_State d = SourceCurrent \<and>
     c \<in> set (elems (sn_Cursors s)) \<and> cursor_key c = binding_cursor_key b \<and> \<not> pc_Fenced c)"

lemma current_binding_live:
  assumes "Snapshot_Validate E s = None" "b \<in> set (elems (sn_Bindings s))" "nb_State b = BindingCurrent"
  shows "live_binding s (nb_BindingID b)"
proof -
  have "\<forall>e \<in> set (binding_errors s b). e = None" using Snapshot_ValidateD(10) [OF assms(1)] assms(2) by blast
  then obtain d c where "map_of (snapshot_sources s) (binding_source_key b) = Some d" "nb_AssetID b = sn_AssetID s"
    "map_of (snapshot_cursors s) (binding_cursor_key b) = Some c" "sd_State d = SourceCurrent" "\<not> pc_Fenced c"
    using binding_lifecycle assms(3) by metis
  with assms(2,3) lookup_source lookup_cursor show ?thesis unfolding live_binding_def by metis
qed

section \<open>Facts\<close>

lemma collect_candidates_errs:
  "collect_candidates cs m errs = (m', errs') \<Longrightarrow> \<exists>new. errs' = errs @ new"
proof (induction cs m errs rule: collect_candidates.induct)
  case (2 c cs m errs)
  then show ?case by (cases "validOpaque (fc_CandidateID c)") fastforce+
qed simp

lemma fact_errors_errs:
  "fact_errors E s fs m errs = (m', errs') \<Longrightarrow> \<exists>new. errs' = errs @ new"
proof (induction E s fs m errs rule: fact_errors.induct)
  case (2 E s f fs m errs)
  obtain m1 e1 where c: "collect_candidates (elems (fe_Candidates f)) m
      (errs @ [FactEnvelope_Validate E f, check_err (fe_AssetID f \<noteq> sn_AssetID s) InvalidValue ''fact asset'']) = (m1, e1)"
    by (cases "collect_candidates (elems (fe_Candidates f)) m
      (errs @ [FactEnvelope_Validate E f, check_err (fe_AssetID f \<noteq> sn_AssetID s) InvalidValue ''fact asset''])")
  from collect_candidates_errs [OF c] "2.IH" [OF c [symmetric]] "2.prems" c show ?case by fastforce
qed simp

definition candidate_entries :: "FactCandidate list \<Rightarrow> candidate_map" where
  "candidate_entries cs = map (\<lambda>c. (fc_CandidateID c, c)) cs"

lemma candidate_entries_simps:
  "candidate_entries [] = []"
  "candidate_entries (c # cs) = (fc_CandidateID c, c) # candidate_entries cs"
  "candidate_entries (cs @ ds) = candidate_entries cs @ candidate_entries ds"
  by (simp_all add: candidate_entries_def)

lemma collect_candidates_ok:
  assumes "collect_candidates cs m errs = (m', errs')" "\<forall>e \<in> set errs'. e = None"
    and "\<forall>c \<in> set cs. validOpaque (fc_CandidateID c)" "distinct (map fst m)"
  shows "m' = m @ candidate_entries cs \<and> distinct (map fst m')"
  using assms
proof (induction cs arbitrary: m errs)
  case (Cons c cs)
  let ?i = "fc_CandidateID c"
  have step: "collect_candidates cs (AList.update ?i c m)
      (errs @ [check_err (map_of m ?i \<noteq> None) DuplicateKey ''candidate id'']) = (m', errs')"
    using Cons.prems(1,3) by simp
  obtain new where "errs' = (errs @ [check_err (map_of m ?i \<noteq> None) DuplicateKey ''candidate id'']) @ new"
    using collect_candidates_errs [OF step] by blast
  then have "?i \<notin> fst ` set m" using Cons.prems(2) by (simp add: map_of_eq_None_iff [symmetric])
  then have up: "AList.update ?i c m = m @ [(?i, c)]" by (rule update_new)
  have "m' = AList.update ?i c m @ candidate_entries cs \<and> distinct (map fst m')"
    by (rule Cons.IH [OF step Cons.prems(2)])
      (use Cons.prems(3) in simp, rule distinct_update [OF Cons.prems(4), of ?i c])
  then show ?case unfolding up candidate_entries_simps append_assoc append_Cons append_Nil .
qed (simp add: candidate_entries_simps)

lemma FactEnvelope_candidates:
  assumes "FactEnvelope_Validate E f = None" "c \<in> set (elems (fe_Candidates f))"
  shows "FactCandidate_Validate E c = None" "sameFactKey E (fc_Key c) (fe_Key f)"
proof -
  have all: "e \<in> set [FactCandidate_Validate E c,
      check_err (\<not> sameFactKey E (fc_Key c) (fe_Key f)) InvalidValue ''candidate key''] \<Longrightarrow> e = None" for e
    using assms unfolding FactEnvelope_Validate_def Let_def best.pick_None_iff set_append set_concat set_map by blast
  show "FactCandidate_Validate E c = None" by (rule all) simp
  have "check_err (\<not> sameFactKey E (fc_Key c) (fe_Key f)) InvalidValue ''candidate key'' = None" by (rule all) simp
  then show "sameFactKey E (fc_Key c) (fe_Key f)" by simp
qed

lemma FactCandidate_id: "FactCandidate_Validate E c = None \<Longrightarrow> validOpaque (fc_CandidateID c)"
  by (simp add: FactCandidate_Validate_def Let_def)

lemma fact_errors_ok:
  assumes "fact_errors E s fs m errs = (m', errs')" "\<forall>e \<in> set errs'. e = None" "distinct (map fst m)"
  shows "m' = m @ candidate_entries (concat (map (\<lambda>f. elems (fe_Candidates f)) fs)) \<and> distinct (map fst m') \<and>
    (\<forall>f \<in> set fs. FactEnvelope_Validate E f = None \<and> fe_AssetID f = sn_AssetID s)"
  using assms
proof (induction fs arbitrary: m errs)
  case (Cons f fs)
  let ?new = "[FactEnvelope_Validate E f, check_err (fe_AssetID f \<noteq> sn_AssetID s) InvalidValue ''fact asset'']"
  obtain m1 e1 where c: "collect_candidates (elems (fe_Candidates f)) m (errs @ ?new) = (m1, e1)"
    by (cases "collect_candidates (elems (fe_Candidates f)) m (errs @ ?new)")
  have rest: "fact_errors E s fs m1 e1 = (m', errs')" using Cons.prems(1) c by simp
  have e1: "\<forall>e \<in> set e1. e = None" using fact_errors_errs [OF rest] Cons.prems(2) by auto
  have f: "FactEnvelope_Validate E f = None" "fe_AssetID f = sn_AssetID s"
    using collect_candidates_errs [OF c] e1 by auto
  have ids: "\<forall>c \<in> set (elems (fe_Candidates f)). validOpaque (fc_CandidateID c)"
    using FactEnvelope_candidates(1) [OF f(1)] FactCandidate_id by blast
  from collect_candidates_ok [OF c e1 ids Cons.prems(3)]
  have m1: "m1 = m @ candidate_entries (elems (fe_Candidates f))" "distinct (map fst m1)" by blast+
  from Cons.IH [OF rest Cons.prems(2) m1(2)] f show ?case
    unfolding m1(1) list.map concat.simps candidate_entries_simps by (simp only: append_assoc set_simps) blast
qed (simp add: candidate_entries_simps)

definition snapshot_entries :: "Snapshot \<Rightarrow> candidate_map" where
  "snapshot_entries s = candidate_entries (concat (map (\<lambda>f. elems (fe_Candidates f)) (elems (sn_Facts s))))"

lemma valid_snapshot_facts:
  assumes "Snapshot_Validate E s = None"
  shows "distinct (map fst (snapshot_entries s))"
    "\<forall>f \<in> set (elems (sn_Facts s)). FactEnvelope_Validate E f = None \<and> fe_AssetID f = sn_AssetID s"
    "closeCandidateGraphStrict (snapshot_entries s) (snapshot_bindings s) = None"
proof -
  obtain m errs where f: "fact_errors E s (elems (sn_Facts s)) [] [] = (m, errs)"
    by (cases "fact_errors E s (elems (sn_Facts s)) [] []")
  have ok: "m = snapshot_entries s" "distinct (map fst m)"
    "\<forall>f \<in> set (elems (sn_Facts s)). FactEnvelope_Validate E f = None \<and> fe_AssetID f = sn_AssetID s"
    using fact_errors_ok [OF f] Snapshot_ValidateD(14) [OF assms] f by (auto simp: snapshot_entries_def)
  then show "distinct (map fst (snapshot_entries s))"
    "\<forall>f \<in> set (elems (sn_Facts s)). FactEnvelope_Validate E f = None \<and> fe_AssetID f = sn_AssetID s" by blast+
  show "closeCandidateGraphStrict (snapshot_entries s) (snapshot_bindings s) = None"
    using Snapshot_ValidateD(16) [OF assms] f ok(1) by (auto simp: graph_error_def split: if_splits)
qed

end
