(* ===== verification/Runs.thy ===== *)
theory Runs
  imports Prelude
begin

text \<open>
  Runs of a service that handles one request at a time: a step takes the state and a request and
  gives the next state and an answer. \<open>transactional\<close> is the contract that a refused request leaves
  the state alone, \<open>numbered\<close> that its results are numbered in order besides; \<open>evolving\<close> is the contract
  that every step moves the state along a preorder.
  What they promise for one step is lifted here to every run, once for all services.
\<close>

primrec run :: "('k \<Rightarrow> 'b \<Rightarrow> 'k \<times> 'r) \<Rightarrow> 'k \<Rightarrow> 'b list \<Rightarrow> 'k" where
  "run step k [] = k"
| "run step k (b # bs) = run step (fst (step k b)) bs"

lemma run_append: "run step k (bs @ cs) = run step (run step k bs) cs"
  by (induction bs arbitrary: k) simp_all

text \<open>The answers of a run, and the results among them.\<close>

primrec answers :: "('k \<Rightarrow> 'b \<Rightarrow> 'k \<times> 'r) \<Rightarrow> 'k \<Rightarrow> 'b list \<Rightarrow> 'r list" where
  "answers step k [] = []"
| "answers step k (b # bs) = snd (step k b) # answers step (fst (step k b)) bs"

definition accepted_results :: "('k \<Rightarrow> 'b \<Rightarrow> 'k \<times> ('e + 'r)) \<Rightarrow> 'k \<Rightarrow> 'b list \<Rightarrow> 'r set" where
  "accepted_results step k bs = {r. Inr r \<in> set (answers step k bs)}"

lemma accepted_results_Nil [simp]: "accepted_results step k [] = {}"
  by (simp add: accepted_results_def)

lemma accepted_results_Cons:
  "accepted_results step k (b # bs) =
     (case snd (step k b) of Inl _ \<Rightarrow> {} | Inr r \<Rightarrow> {r}) \<union> accepted_results step (fst (step k b)) bs"
  by (auto simp: accepted_results_def split: sum.split)

locale transactional =
  fixes step :: "'k \<Rightarrow> 'b \<Rightarrow> 'k \<times> ('e + 'r)"
  assumes rejected: "step k b = (k', Inl e) \<Longrightarrow> k' = k"
begin

lemma run_unchanged: "accepted_results step k bs = {} \<Longrightarrow> run step k bs = k"
proof (induction bs arbitrary: k)
  case (Cons b bs)
  obtain k' r where step: "step k b = (k', r)" by (cases "step k b")
  with Cons.prems obtain e where r: "r = Inl e" by (cases r) (simp_all add: accepted_results_Cons)
  with step rejected [of k b k' e] Cons show ?case by (simp add: accepted_results_Cons)
qed simp

end

locale evolving =
  fixes step :: "'k \<Rightarrow> 'b \<Rightarrow> 'k \<times> 'r" and inv :: "'k \<Rightarrow> bool" and allowed :: "'b \<Rightarrow> bool" and rel :: "'k \<Rightarrow> 'k \<Rightarrow> bool"
  assumes inv_step: "inv k \<Longrightarrow> step k b = (k', r) \<Longrightarrow> inv k'"
    and rel_refl: "inv k \<Longrightarrow> rel k k"
    and rel_trans: "rel k k' \<Longrightarrow> rel k' k'' \<Longrightarrow> rel k k''"
    and rel_step: "inv k \<Longrightarrow> allowed b \<Longrightarrow> step k b = (k', r) \<Longrightarrow> rel k k'"
begin

lemma run_inv: "inv k \<Longrightarrow> inv (run step k bs)"
proof (induction bs arbitrary: k)
  case (Cons b bs)
  then have "inv (fst (step k b))" using inv_step [of k b "fst (step k b)" "snd (step k b)"] by simp
  with Cons.IH show ?case by simp
qed simp

lemma run_rel: "inv k \<Longrightarrow> \<forall>b \<in> set bs. allowed b \<Longrightarrow> rel k (run step k bs)"
proof (induction bs arbitrary: k)
  case (Cons b bs)
  have "inv (fst (step k b))" "rel k (fst (step k b))"
    using inv_step rel_step Cons.prems by (metis list.set_intros(1) prod.collapse)+
  with Cons.IH [of "fst (step k b)"] Cons.prems rel_trans show ?case by auto
qed (simp add: rel_refl)

end

text \<open>A service that numbers its results: an accepted request either gets a result that is still recorded and
  changes nothing, or takes the next number. Then the results of any run carry the numbers from 1 to
  the counter, each number exactly one result.\<close>

locale numbered = transactional step
  for step :: "'k \<Rightarrow> 'b \<Rightarrow> 'k \<times> ('e + 'r)" +
  fixes inv :: "'k \<Rightarrow> bool" and counter :: "'k \<Rightarrow> int option" and number :: "'r \<Rightarrow> int option" and recorded :: "'k \<Rightarrow> 'r set"
  assumes inv_step: "inv k \<Longrightarrow> step k b = (k', answer) \<Longrightarrow> inv k'"
    and accepted: "inv k \<Longrightarrow> step k b = (k', Inr r) \<Longrightarrow> counter k = Some n \<Longrightarrow>
      k' = k \<and> r \<in> recorded k \<or>
      0 \<le> n \<and> counter k' = Some (n + 1) \<and> number r = Some (n + 1) \<and> recorded k' \<subseteq> insert r (recorded k)"
begin

lemma next_number:
  assumes "bij_betw number A (Some ` {1..n})" "number r = Some (n + 1)" "0 \<le> n"
  shows "bij_betw number (insert r A) (Some ` {1..n + 1})"
proof -
  have fresh: "number r \<notin> Some ` {1..n}" using assms(2) by auto
  moreover have "{1..n + 1} = insert (n + 1) {1..n}" using assms(3) by auto
  ultimately show ?thesis
    using assms(1,2) by (auto simp: bij_betw_def)
qed

lemma run_numbers:
  assumes "inv k" "counter k = Some n" "recorded k \<subseteq> A" "bij_betw number A (Some ` {1..n})"
  shows "\<exists>m. counter (run step k bs) = Some m \<and> bij_betw number (A \<union> accepted_results step k bs) (Some ` {1..m})"
  using assms
proof (induction bs arbitrary: k n A)
  case (Cons b bs)
  obtain k' r where step: "step k b = (k', r)" by (cases "step k b")
  note inv' = inv_step [OF Cons.prems(1) step]
  show ?case
  proof (cases r)
    case (Inl e)
    with step rejected [of k b k' e] Cons.IH [OF Cons.prems] show ?thesis by (simp add: accepted_results_Cons)
  next
    case (Inr x)
    from accepted [OF Cons.prems(1) step [unfolded Inr] Cons.prems(2)] show ?thesis
    proof (elim disjE conjE)
      assume "k' = k" "x \<in> recorded k"
      then have "A \<union> ({x} \<union> B) = A \<union> B" for B using Cons.prems(3) by blast
      with Cons.IH [OF Cons.prems] step Inr \<open>k' = k\<close> show ?thesis by (simp only: accepted_results_Cons run.simps fst_conv snd_conv sum.case)
    next
      assume new: "0 \<le> n" "counter k' = Some (n + 1)" "number x = Some (n + 1)" "recorded k' \<subseteq> insert x (recorded k)"
      have "recorded k' \<subseteq> insert x A" using new(4) Cons.prems(3) by blast
      from Cons.IH [OF inv' new(2) this next_number [OF Cons.prems(4) new(3,1)]] step Inr
      show ?thesis by (simp add: accepted_results_Cons)
    qed
  qed
qed simp

end

text \<open>What \<open>evolving\<close> is for steps with answers, for a step relation: an invariant and a preorder that single steps respect hold along
  every sequence of steps, however the calls interleave.\<close>

locale stepwise =
  fixes step :: "'s \<Rightarrow> 's \<Rightarrow> bool" and inv :: "'s \<Rightarrow> bool" and rel :: "'s \<Rightarrow> 's \<Rightarrow> bool"
  assumes inv_step: "inv s \<Longrightarrow> step s s' \<Longrightarrow> inv s'"
    and rel_refl: "rel s s"
    and rel_trans: "rel s s' \<Longrightarrow> rel s' s'' \<Longrightarrow> rel s s''"
    and rel_step: "inv s \<Longrightarrow> step s s' \<Longrightarrow> rel s s'"
begin

lemma steps_inv: "step\<^sup>*\<^sup>* s s' \<Longrightarrow> inv s \<Longrightarrow> inv s'"
  by (induction rule: rtranclp_induct) (auto intro: inv_step)

lemma steps_rel: "step\<^sup>*\<^sup>* s s' \<Longrightarrow> inv s \<Longrightarrow> rel s s'"
proof (induction rule: rtranclp_induct)
  case (step t u)
  then show ?case using rel_trans rel_step steps_inv by blast
qed (rule rel_refl)

end

end
