(* ===== verification/Kernel_Runs.thy ===== *)
theory Kernel_Runs
  imports Publication_Laws Snapshot_Laws Runs
begin

text \<open>
  Runs of the publication kernel. \<^verbatim>\<open>Apply\<close> is interpreted as a transactional step that numbers its results
  by the semantic revision, and as an
  evolving step for three preorders: what becomes of a fenced cursor, of the sequence of a cursor,
  and of the cursor and the replay record of a key that the requests do not publish on.
\<close>

definition apply_step :: "env \<Rightarrow> PublicationKernel \<Rightarrow> PublicationBatch \<times> MonotonicPoint \<Rightarrow> PublicationKernel \<times> apply_result" where
  "apply_step E k p = Apply_locked E k (fst p) (snd p)"

abbreviation cursor_at :: "PublicationKernel \<Rightarrow> cursorKey \<Rightarrow> PublicationCursor option" where
  "cursor_at k \<equiv> map_of (cursorMap (k_current k))"

lemma Apply_rejected:
  assumes "Apply_locked E k b pm = (k', Inl e)"
  shows "k' = k"
  using assms by (cases rule: Apply_cases; auto elim!: publish_cases commit_cases)

interpretation kernel_tx: transactional "apply_step E" for E
  by unfold_locales (simp add: apply_step_def Apply_rejected)

text \<open>A step that changes the kernel is a commit.\<close>

lemma changed_commit:
  assumes "Apply_locked E k b pm = (k', r)" "k' \<noteq> k"
  obtains s canonical where "r = Inr (s, canonical)" "sequence_comparison k b > 0"
  using assms by (cases rule: Apply_cases; auto elim!: publish_cases commit_cases)

section \<open>Cursors\<close>

definition keeps_fences :: "PublicationKernel \<Rightarrow> PublicationKernel \<Rightarrow> bool" where
  "keeps_fences k k' \<longleftrightarrow> (\<forall>key c. cursor_at k key = Some c \<and> pc_Fenced c \<longrightarrow> cursor_at k' key = Some c)"

definition cursor_progress :: "PublicationCursor \<Rightarrow> PublicationCursor \<Rightarrow> bool" where
  "cursor_progress c c' \<longleftrightarrow> fenced_or_same c c' \<or>
     \<not> pc_Fenced c \<and> (\<exists>m n. u64_val (pc_LastSequence c) = Some m \<and> u64_val (pc_LastSequence c') = Some n \<and> m < n)"

definition cursors_progress :: "PublicationKernel \<Rightarrow> PublicationKernel \<Rightarrow> bool" where
  "cursors_progress k k' \<longleftrightarrow> (\<forall>key c. cursor_at k key = Some c \<longrightarrow> (\<exists>c'. cursor_at k' key = Some c' \<and> cursor_progress c c'))"

definition untouched :: "cursorKey \<Rightarrow> PublicationKernel \<Rightarrow> PublicationKernel \<Rightarrow> bool" where
  "untouched key k k' \<longleftrightarrow> k_asset k' = k_asset k \<and> map_of (k_replays k') key = map_of (k_replays k) key \<and>
     (\<forall>c. cursor_at k key = Some c \<longrightarrow> (\<exists>c'. cursor_at k' key = Some c' \<and> fenced_or_same c c'))"

lemma committed_fresh:
  assumes "Apply_locked E k b pm = (k', Inr (s, canonical))" "sequence_comparison k b > 0"
  shows "cursor_at k' (header_key b) = Some (new_cursor b)"
    and "key \<noteq> header_key b \<Longrightarrow> cursor_at k key = Some c \<Longrightarrow> \<exists>c'. cursor_at k' key = Some c' \<and> fenced_or_same c c'"
    and "cursor_at k (header_key b) = Some c \<Longrightarrow> \<not> pc_Fenced c"
    and "cursor_at k (header_key b) = None \<Longrightarrow> pb_Sequence b = ''1''"
    and "key \<noteq> header_key b \<Longrightarrow> map_of (k_replays k') key = map_of (k_replays k) key"
    and "map_of (k_replays k') (header_key b) = Some \<lparr>pr_snapshot = s, pr_canonical = canonical\<rparr>"
    and "k_asset k' = k_asset k" and "k_registry k' = k_registry k" and "k_current k' = Some s"
proof -
  obtain w where w: "propose E k b pm = (w, None)" "s = w\<lparr>sn_SnapshotID := sn_SnapshotID s\<rparr>"
    "k' = k\<lparr>k_current := Some s, k_canonical := canonical,
        k_replays := AList.update (header_key b) \<lparr>pr_snapshot = s, pr_canonical = canonical\<rparr> (k_replays k)\<rparr>"
    "\<forall>e \<in> set (sequence_errors k b). e = None"
    using commit_facts [OF assms] by metis
  have cur: "cursorMap (k_current k') = snapshot_cursors s" by (simp add: w(3) cursorMap_def)
  show "cursor_at k' (header_key b) = Some (new_cursor b)" using commit_cursors(1) [OF w(1,2)] cur by simp
  show "key \<noteq> header_key b \<Longrightarrow> cursor_at k key = Some c \<Longrightarrow> \<exists>c'. cursor_at k' key = Some c' \<and> fenced_or_same c c'"
    using commit_cursors(2) [OF w(1,2)] cur by simp
  show "cursor_at k (header_key b) = Some c \<Longrightarrow> \<not> pc_Fenced c"
    "cursor_at k (header_key b) = None \<Longrightarrow> pb_Sequence b = ''1''"
    using w(4) by (simp_all add: sequence_errors_def Let_def)
qed (use commit_facts [OF assms] in \<open>force simp: update_conv\<close>)+

lemma fenced_same: "pc_Fenced c \<Longrightarrow> fenced_or_same c c' \<Longrightarrow> c' = c"
  by (cases c) (auto simp: fenced_or_same_def)

lemma fences_step:
  assumes "Apply_locked E k b pm = (k', r)"
  shows "keeps_fences k k'"
proof (cases "k' = k")
  case False
  then obtain s canonical where c: "r = Inr (s, canonical)" "sequence_comparison k b > 0"
    using changed_commit [OF assms] by blast
  note fresh = committed_fresh [OF assms [unfolded c(1)] c(2)]
  show ?thesis unfolding keeps_fences_def
  proof (intro allI impI)
    fix key cur
    assume cur: "cursor_at k key = Some cur \<and> pc_Fenced cur"
    then have "key \<noteq> header_key b" using fresh(3) by blast
    then obtain c' where "cursor_at k' key = Some c'" "fenced_or_same cur c'" using fresh(2) cur by blast
    then show "cursor_at k' key = Some cur" using fenced_same cur by blast
  qed
qed (simp add: keeps_fences_def)

interpretation fences: evolving "apply_step E" "\<lambda>_. True" "\<lambda>_. True" keeps_fences for E
  by unfold_locales (auto simp: apply_step_def keeps_fences_def dest: fences_step [unfolded keeps_fences_def])

lemma batch_sequence_positive: "local_error E k b pm = None \<Longrightarrow> positive (pb_Sequence b) \<and> positive (pb_DriverGeneration b)"
  by (simp add: local_error_def PublicationBatch_validateStructure_def)

lemma kernel_ok_current:
  assumes "kernel_ok E k" "k_current k = Some s"
  shows "Snapshot_Validate E s = None" "CanonicalJSON (Snapshot_Validate E) json_of_Snapshot s = Inr (k_canonical k)"
    "sn_AssetID s = k_asset k"
  using assms by (simp_all add: kernel_ok_def committed_bytes_def)

lemma cursor_valid:
  assumes "kernel_ok E k" "cursor_at k key = Some c"
  shows "PublicationCursor_Validate c = None" "cursor_key c = key"
proof -
  obtain s where s: "k_current k = Some s" "map_of (snapshot_cursors s) key = Some c"
    using assms(2) by (auto simp: cursorMap_def split: option.splits)
  then have "\<forall>e \<in> set (cursor_errors s [] (elems (sn_Cursors s))). e = None"
    using Snapshot_ValidateD(7) kernel_ok_current(1) [OF assms(1)] by blast
  then show "PublicationCursor_Validate c = None" "cursor_key c = key"
    using cursor_errors_unique lookup_cursor s(2) by blast+
qed

lemma cursor_sequence:
  assumes "kernel_ok E k" "cursor_at k key = Some c"
  shows "positive (pc_LastSequence c)"
  using cursor_valid(1) [OF assms] by (simp add: PublicationCursor_Validate_def)

lemma cursor_generation:
  assumes "kernel_ok E k" "cursor_at k (source, epoch, generation) = Some c"
  shows "positive generation"
  using cursor_valid [OF assms] by (simp add: PublicationCursor_Validate_def cursor_key_def)

lemma new_sequence_greater:
  assumes "kernel_ok E k" "Apply_locked E k b pm = (k', Inr (s, canonical))" "sequence_comparison k b > 0"
    and c: "cursor_at k (header_key b) = Some c"
  shows "\<exists>m n. u64_val (pc_LastSequence c) = Some m \<and> u64_val (pb_Sequence b) = Some n \<and> m < n"
proof -
  have "local_error E k b pm = None" using commit_facts [OF assms(2,3)] by metis
  then obtain n where n: "u64_val (pb_Sequence b) = Some n"
    using batch_sequence_positive [of E k b pm] by (auto simp: positive_iff)
  moreover obtain m where m: "u64_val (pc_LastSequence c) = Some m"
    using cursor_sequence [OF assms(1) c] by (auto simp: positive_iff)
  moreover have "int_cmp n m > 0" using assms(3) c compareUint64_val [OF n m] by (simp add: sequence_comparison_def)
  then have "m < n" by (simp add: int_cmp_def split: if_splits)
  ultimately show ?thesis by blast
qed

lemma progress_step:
  assumes ok: "kernel_ok E k" and ap: "Apply_locked E k b pm = (k', r)"
  shows "cursors_progress k k'"
proof (cases "k' = k")
  case False
  then obtain s canonical where c: "r = Inr (s, canonical)" "sequence_comparison k b > 0"
    using changed_commit [OF ap] by blast
  note fresh = committed_fresh [OF ap [unfolded c(1)] c(2)]
  show ?thesis unfolding cursors_progress_def
  proof (intro allI impI)
    fix key cur
    assume cur: "cursor_at k key = Some cur"
    show "\<exists>c'. cursor_at k' key = Some c' \<and> cursor_progress cur c'"
    proof (cases "key = header_key b")
      case True
      with new_sequence_greater [OF ok ap [unfolded c(1)] c(2)] fresh(1,3) cur show ?thesis
        by (auto simp: cursor_progress_def new_cursor_def)
    next
      case False
      with fresh(2) cur show ?thesis unfolding cursor_progress_def by blast
    qed
  qed
qed (auto simp: cursors_progress_def cursor_progress_def fenced_or_same_def)

lemma cursor_progress_trans:
  assumes "cursor_progress c c'" "cursor_progress c' c''"
  shows "cursor_progress c c''"
proof -
  have seq: "pc_LastSequence b = pc_LastSequence a" "pc_Fenced a \<Longrightarrow> pc_Fenced b" if "fenced_or_same a b" for a b
    using that by (auto simp: fenced_or_same_def)
  consider "fenced_or_same c c'" "fenced_or_same c' c''"
    | "fenced_or_same c c'" "\<not> fenced_or_same c' c''" | "\<not> fenced_or_same c c'" "fenced_or_same c' c''"
    | "\<not> fenced_or_same c c'" "\<not> fenced_or_same c' c''" by blast
  then show ?thesis
  proof cases
    case 1
    then show ?thesis unfolding cursor_progress_def using fenced_or_same_trans by blast
  qed (use assms seq [of c c'] seq [of c' c''] in \<open>auto simp: cursor_progress_def\<close>)
qed

interpretation progress: evolving "apply_step E" "kernel_ok E" "\<lambda>_. True" cursors_progress for E
proof
  show "cursors_progress k k''" if "cursors_progress k k'" "cursors_progress k' k''" for k k' k''
    using that unfolding cursors_progress_def by (meson cursor_progress_trans)
  show "cursors_progress k k'" if "kernel_ok E k" "apply_step E k p = (k', r)" for k p k' r
    using progress_step that by (simp add: apply_step_def)
qed (auto simp: apply_step_def cursors_progress_def cursor_progress_def fenced_or_same_def intro: kernel_ok_apply)

lemma untouched_step:
  assumes ap: "Apply_locked E k b pm = (k', r)" and other: "header_key b \<noteq> key"
  shows "untouched key k k'"
proof (cases "k' = k")
  case False
  then obtain s canonical where c: "r = Inr (s, canonical)" "sequence_comparison k b > 0"
    using changed_commit [OF ap] by blast
  note fresh = committed_fresh [OF ap [unfolded c(1)] c(2)]
  show ?thesis unfolding untouched_def using fresh(2,5,7) other by metis
qed (auto simp: untouched_def fenced_or_same_def)

interpretation other_keys: evolving "apply_step E" "\<lambda>_. True" "\<lambda>p. header_key (fst p) \<noteq> key" "untouched key" for E key
proof
  show "untouched key k k''" if "untouched key k k'" "untouched key k' k''" for k k' k''
    using that unfolding untouched_def by (metis fenced_or_same_trans)
  show "untouched key k k'" if "header_key (fst p) \<noteq> key" "apply_step E k p = (k', r)" for k p k' r
    using untouched_step that by (simp add: apply_step_def)
qed (auto simp: untouched_def fenced_or_same_def)

section \<open>Replay\<close>

text \<open>A batch that was accepted is answered with its first result as long as its cursor stands
  where that batch left it, fenced or not.\<close>

lemma compareUint64_eq: "compareUint64 a b = 0 \<Longrightarrow> a = b"
  using fst_u64_nonneg [of a] fst_u64_nonneg [of b]
  by (auto simp: compareUint64_def int_cmp_def split: option.splits if_splits)

lemma local_error_asset:
  assumes "local_error E k b pm = None" "k_asset k' = k_asset k" "MonotonicPoint_Validate pm' = None"
  shows "local_error E k' b pm' = None"
  using assms by (simp add: local_error_def)

lemma replay_step:
  assumes "cursor_at k (header_key b) = Some c" "pc_LastSequence c = pb_Sequence b" "pc_LastBatchDigest c = pb_BatchDigest b"
    and "local_error E k b pm = None" "PublicationBatch_computedDigestUnchecked E b = Inr (pb_BatchDigest b)"
  shows "Apply_locked E k b pm = (k, replayResult k (header_key b))"
proof -
  have "compareUint64 (pb_Sequence b) (pb_Sequence b) = 0"
    by (simp add: compareUint64_def int_cmp_def split: option.split)
  then show ?thesis using assms
    by (simp add: Apply_locked_def sequence_comparison_def ranks_before_def replay_def)
qed

text \<open>What acceptance leaves behind, for a first publication and for a replay.\<close>

lemma accepted_record:
  assumes "Apply_locked E k b pm = (k', Inr (s, canonical))"
  obtains c where "cursor_at k' (header_key b) = Some c" "pc_LastSequence c = pb_Sequence b"
    "pc_LastBatchDigest c = pb_BatchDigest b" "local_error E k b pm = None" "k_asset k' = k_asset k"
    "PublicationBatch_computedDigestUnchecked E b = Inr (pb_BatchDigest b)"
    "replayResult k' (header_key b) = Inr (s, canonical)"
proof (cases "sequence_comparison k b > 0")
  case True
  note fresh = committed_fresh [OF assms True]
  have "local_error E k b pm = None" "PublicationBatch_computedDigestUnchecked E b = Inr (pb_BatchDigest b)"
    using commit_facts [OF assms True] by metis+
  then show thesis using that [of "new_cursor b"] fresh(1,6,7) by (simp add: new_cursor_def replayResult_def)
next
  case False
  from assms show thesis
  proof (cases rule: Apply_cases)
    case (replayed cursor snap can)
    have seq: "pb_Sequence b = pc_LastSequence cursor"
      by (rule compareUint64_eq [OF replayed(5)])
    have "Apply_locked E k b pm = (k, replay E k b cursor)"
      using replayed False by (simp add: Apply_locked_def sequence_comparison_def ranks_before_def)
    then have "replay E k b cursor = Inr (s, canonical)" using assms by simp
    then have "PublicationBatch_computedDigestUnchecked E b = Inr (pb_BatchDigest b)"
      by (auto simp: replay_def split: if_splits)
    then show thesis using that [of cursor] replayed seq by simp
  qed (use False in simp_all)
qed

lemma accepted_again:
  assumes "Apply_locked E k b pm = (k', Inr (s, canonical))" "MonotonicPoint_Validate pm' = None"
  shows "Apply_locked E k' b pm' = (k', Inr (s, canonical))"
proof -
  obtain c where c: "cursor_at k' (header_key b) = Some c" "pc_LastSequence c = pb_Sequence b"
    "pc_LastBatchDigest c = pb_BatchDigest b" "local_error E k b pm = None" "k_asset k' = k_asset k"
    "PublicationBatch_computedDigestUnchecked E b = Inr (pb_BatchDigest b)"
    "replayResult k' (header_key b) = Inr (s, canonical)"
    using accepted_record [OF assms(1)] by blast
  from replay_step [OF c(1-3) local_error_asset [OF c(4,5) assms(2)] c(6)] c(7) show ?thesis by simp
qed

section \<open>Revisions\<close>

lemma propose_revisions:
  assumes "propose E k b pm = (w, e)"
  obtains changed where "sn_Revisions w =
    nextRevisionVector (sn_Revisions (working_snapshot k)) (k_current k = None) changed"
  using assms by (auto simp: propose_def applyTo_def store_staging_def Let_def split: prod.splits)

lemma committed_vector:
  assumes "Apply_locked E k b pm = (k', Inr (s, canonical))" "sequence_comparison k b > 0"
  obtains changed where "sn_Revisions s = nextRevisionVector (sn_Revisions (working_snapshot k)) (k_current k = None) changed"
    "RevisionVector_Validate (sn_Revisions s) = None" "pb_ExpectedSemanticRevision b = current_revision k"
proof -
  obtain w where w: "propose E k b pm = (w, None)" "s = w\<lparr>sn_SnapshotID := sn_SnapshotID s\<rparr>"
    "pb_ExpectedSemanticRevision b = current_revision k" "RevisionVector_Validate (sn_Revisions w) = None"
    using commit_facts [OF assms] by metis
  have "sn_Revisions s = sn_Revisions w"
    using w(2) by (metis Snapshot.select_convs(4) Snapshot.surjective Snapshot.update_convs(2))
  with w(3,4) that show thesis by (metis propose_revisions [OF w(1)])
qed

text \<open>One counter of the vector: kept, or the next value without wrapping.\<close>

definition counter_next :: "Uint64 \<Rightarrow> Uint64 \<Rightarrow> bool" where
  "counter_next old new \<longleftrightarrow> (\<exists>n. u64_val old = Some n \<and> n + 1 < 2 ^ 64 \<and> u64_val new = Some (n + 1))"

definition counter_kept_or_next :: "Uint64 \<Rightarrow> Uint64 \<Rightarrow> bool" where
  "counter_kept_or_next old new \<longleftrightarrow> new = old \<or> counter_next old new"

lemma increment_next: "positive old \<Longrightarrow> positive (increment old) \<Longrightarrow> counter_next old (increment old)"
  using increment_positive increment_u64_val by (fastforce simp: positive_iff [of old] counter_next_def)

lemma next_vector:
  assumes "RevisionVector_Validate old = None" "RevisionVector_Validate (nextRevisionVector old False changed) = None"
  shows "counter_next (rv_Semantic old) (rv_Semantic (nextRevisionVector old False changed))"
    "counter_kept_or_next (rv_Identity old) (rv_Identity (nextRevisionVector old False changed))"
    "counter_kept_or_next (rv_Facts old) (rv_Facts (nextRevisionVector old False changed))"
    "counter_kept_or_next (rv_Services old) (rv_Services (nextRevisionVector old False changed))"
    "counter_kept_or_next (rv_Capabilities old) (rv_Capabilities (nextRevisionVector old False changed))"
  using assms increment_next
  by (auto simp: RevisionVector_Validate_def nextRevisionVector_def counter_kept_or_next_def split: if_splits)

text \<open>The semantic revision numbers the results of the kernel: what is recorded for replay is named by a
  revision the kernel has passed, and a commit takes the next one.\<close>

definition revision_number :: "Snapshot \<times> string \<Rightarrow> int option" where
  "revision_number r = u64_val (rv_Semantic (sn_Revisions (fst r)))"

definition replay_results :: "PublicationKernel \<Rightarrow> (Snapshot \<times> string) set" where
  "replay_results k = (\<lambda>p. (pr_snapshot p, pr_canonical p)) ` ran (map_of (k_replays k))"

lemma replayResult_recorded: "replayResult k key = Inr r \<Longrightarrow> r \<in> replay_results k"
  unfolding replayResult_def replay_results_def by (cases "map_of (k_replays k) key") (auto intro: ranI)

lemma commit_number:
  assumes ok: "kernel_ok E k" and ap: "Apply_locked E k b pm = (k', Inr (s, canonical))" "sequence_comparison k b > 0"
    and n: "u64_val (current_revision k) = Some n"
  shows "u64_val (current_revision k') = Some (n + 1)" "revision_number (s, canonical) = Some (n + 1)"
proof -
  obtain changed where c: "sn_Revisions s = nextRevisionVector (sn_Revisions (working_snapshot k)) (k_current k = None) changed"
    "RevisionVector_Validate (sn_Revisions s) = None"
    using committed_vector [OF ap] by blast
  have one: "u64_val ''0'' = Some 0" "u64_val ''1'' = Some 1" by code_simp+
  show "revision_number (s, canonical) = Some (n + 1)"
  proof (cases "k_current k")
    case None
    with n c(1) one show ?thesis by (simp add: revision_number_def current_revision_def nextRevisionVector_def)
  next
    case (Some s0)
    have "RevisionVector_Validate (sn_Revisions s0) = None"
      using Snapshot_ValidateD(1) [OF kernel_ok_current(1) [OF ok Some]] by (simp add: snapshot_header_errors_def)
    from next_vector(1) [OF this, of changed] c n Some show ?thesis
      by (simp add: working_snapshot_def revision_number_def current_revision_def counter_next_def)
  qed
  then show "u64_val (current_revision k') = Some (n + 1)"
    using committed_fresh(9) [OF ap] by (simp add: current_revision_def revision_number_def)
qed

lemma commit_recorded:
  assumes "Apply_locked E k b pm = (k', Inr (s, canonical))" "sequence_comparison k b > 0"
  shows "replay_results k' \<subseteq> insert (s, canonical) (replay_results k)"
proof
  fix r assume "r \<in> replay_results k'"
  then obtain p where p: "r = (pr_snapshot p, pr_canonical p)" "p \<in> ran (map_of (k_replays k'))"
    by (auto simp: replay_results_def)
  obtain key where key: "map_of (k_replays k') key = Some p" using p(2) unfolding ran_def by blast
  show "r \<in> insert (s, canonical) (replay_results k)"
  proof (cases "key = header_key b")
    case False
    then have "p \<in> ran (map_of (k_replays k))" using committed_fresh(5) [OF assms] key by (metis ranI)
    then show ?thesis using p(1) by (simp add: replay_results_def)
  qed (use committed_fresh(6) [OF assms] key p(1) in auto)
qed

interpretation results: numbered "apply_step E" "kernel_ok E" "\<lambda>k. u64_val (current_revision k)" revision_number replay_results for E
proof
  show "kernel_ok E k'" if "kernel_ok E k" "apply_step E k p = (k', r)" for k p k' r
    using that by (auto simp: apply_step_def intro: kernel_ok_apply)
  fix k p k' r n
  assume ok: "kernel_ok E k" and step: "apply_step E k p = (k', Inr r)" and n: "u64_val (current_revision k) = Some n"
  obtain s canonical where r: "r = (s, canonical)" by (cases r)
  have ap: "Apply_locked E k (fst p) (snd p) = (k', Inr (s, canonical))" using step r by (simp add: apply_step_def)
  show "k' = k \<and> r \<in> replay_results k \<or>
      0 \<le> n \<and> u64_val (current_revision k') = Some (n + 1) \<and> revision_number r = Some (n + 1) \<and>
      replay_results k' \<subseteq> insert r (replay_results k)"
  proof (cases "sequence_comparison k (fst p) > 0")
    case True
    then show ?thesis using commit_number [OF ok ap True n] commit_recorded [OF ap True] u64_valD [OF n] r by simp
  next
    case False
    from ap show ?thesis
    proof (cases rule: Apply_cases)
      case (replayed cursor snap can)
      then show ?thesis using replayResult_recorded r by metis
    qed (use False in simp_all)
  qed
qed

end
