(* ===== verification/Fast_Eval.thy ===== *)
theory Fast_Eval
  imports Marshal "HOL-Library.Code_Target_Nat"
begin

text \<open>
  Code equations for evaluation inside the logic. They read character classes off the bits of a
  character, and take a short way through strings of ASCII characters; each one is a proved
  equation of the definition it stands for.
\<close>

section \<open>Characters\<close>

fun ascii :: "char \<Rightarrow> bool" where
  "ascii (Char b0 b1 b2 b3 b4 b5 b6 b7) = (\<not> b7)"

fun printable :: "char \<Rightarrow> bool" where
  "printable (Char b0 b1 b2 b3 b4 b5 b6 b7) = (b5 \<or> b6 \<or> b7)"

lemma ascii_iff: "ascii c \<longleftrightarrow> byte c < 128"
proof (cases c)
  case (Char b0 b1 b2 b3 b4 b5 b6 b7)
  then show ?thesis by (cases b0; cases b1; cases b2; cases b3; cases b4; cases b5; cases b6; cases b7) simp_all
qed

lemma printable_iff: "printable c \<longleftrightarrow> 32 \<le> byte c"
proof (cases c)
  case (Char b0 b1 b2 b3 b4 b5 b6 b7)
  then show ?thesis by (cases b0; cases b1; cases b2; cases b3; cases b4; cases b5; cases b6; cases b7) simp_all
qed

lemma lower_code [code]:
  "lower (Char b0 b1 b2 b3 b4 b5 b6 b7) =
     (\<not> b7 \<and> b6 \<and> b5 \<and> (b0 \<or> b1 \<or> b2 \<or> b3 \<or> b4) \<and> \<not> (b4 \<and> b3 \<and> (b2 \<or> b1 \<and> b0)))"
  unfolding lower_def by (cases b0; cases b1; cases b2; cases b3; cases b4; cases b5; cases b6; cases b7) simp_all

lemma upper_code [code]:
  "upper (Char b0 b1 b2 b3 b4 b5 b6 b7) =
     (\<not> b7 \<and> b6 \<and> \<not> b5 \<and> (b0 \<or> b1 \<or> b2 \<or> b3 \<or> b4) \<and> \<not> (b4 \<and> b3 \<and> (b2 \<or> b1 \<and> b0)))"
  unfolding upper_def by (cases b0; cases b1; cases b2; cases b3; cases b4; cases b5; cases b6; cases b7) simp_all

lemma digit_code [code]:
  "digit (Char b0 b1 b2 b3 b4 b5 b6 b7) = (\<not> b7 \<and> \<not> b6 \<and> b5 \<and> b4 \<and> \<not> (b3 \<and> (b2 \<or> b1)))"
  unfolding digit_def by (cases b0; cases b1; cases b2; cases b3; cases b4; cases b5; cases b6; cases b7) simp_all

lemma nonzero_digit_code [code]: "nonzero_digit c = (c \<noteq> CHR ''0'' \<and> digit c)"
proof (cases c)
  case (Char b0 b1 b2 b3 b4 b5 b6 b7)
  then show ?thesis unfolding nonzero_digit_def digit_def
    by (cases b0; cases b1; cases b2; cases b3; cases b4; cases b5; cases b6; cases b7) simp_all
qed

lemma hex_digit_code [code]:
  "hex_digit c = (digit c \<or> one_of ''abcdef'' c)"
proof (cases c)
  case (Char b0 b1 b2 b3 b4 b5 b6 b7)
  then show ?thesis unfolding hex_digit_def digit_def one_of_def
    by (cases b0; cases b1; cases b2; cases b3; cases b4; cases b5; cases b6; cases b7) simp_all
qed

section \<open>Strings\<close>

declare string_compare.simps [code del]

lemma string_compare_code [code]:
  "string_compare [] [] = 0" "string_compare [] (d # ds) = -1" "string_compare (c # cs) [] = 1"
  "string_compare (c # cs) (d # ds) =
     (if c = d then string_compare cs ds else if byte c < byte d then -1 else 1)"
  by (auto simp: not_less dest: antisym)

declare utf8_valid_def [code del]

lemma utf8_valid_code [code]: "utf8_valid s = (list_all ascii s \<or> list_all (\<lambda>r. r \<noteq> None) (runes s))"
proof (cases "list_all ascii s")
  case True
  then have "utf8_valid s" by (intro utf8_valid_ascii) (simp add: list_all_iff ascii_iff)
  with True show ?thesis by simp
qed (simp add: utf8_valid_def)

declare utf8_repair.simps [code del]

lemma utf8_repair_code [code]:
  "utf8_repair [] = []"
  "utf8_repair (c # s) =
     (if ascii c then c # utf8_repair s
      else case decode_rune (map of_char (c # s)) of
          None \<Rightarrow> map char_of [239, 191, 189 :: nat] @ utf8_repair s
        | Some (r, w) \<Rightarrow> c # take (w - 1) s @ utf8_repair (drop (w - 1) s))"
  by (simp_all add: ascii_iff)

lemma runes_ascii: "list_all ascii s \<Longrightarrow> runes s = map (\<lambda>c. Some (byte c)) s"
  by (induction s) (simp_all add: ascii_iff)

lemma utf16_ascii: "list_all ascii s \<Longrightarrow> utf16_encode s = map of_char s"
proof -
  have "concat (map utf16_unit (map (\<lambda>c. Some (byte c)) s)) = map of_char s" if "list_all ascii s"
    using that by (induction s) (simp_all add: utf16_unit_def ascii_iff)
  then show "list_all ascii s \<Longrightarrow> ?thesis" by (simp add: utf16_encode_def runes_ascii)
qed

lemma units_compare_bytes: "units_compare (map of_char a) (map of_char b) = string_compare a b"
  by (induction a b rule: string_compare.induct) simp_all

declare compareJCSKey_def [code del]

lemma compareJCSKey_code [code]:
  "compareJCSKey a b = (if list_all ascii a \<and> list_all ascii b then string_compare a b
     else units_compare (utf16_encode a) (utf16_encode b))"
  by (simp add: compareJCSKey_def utf16_ascii units_compare_bytes)

declare escape_def [code del]

lemma escape_code [code]:
  "escape c =
     (if c = dq \<or> c = bs then [bs, c]
      else if printable c then [c]
      else if byte c = 8 then [bs, CHR ''b'']
      else if byte c = 9 then [bs, CHR ''t'']
      else if byte c = 10 then [bs, CHR ''n'']
      else if byte c = 12 then [bs, CHR ''f'']
      else if byte c = 13 then [bs, CHR ''r'']
      else [bs, CHR ''u'', CHR ''0'', CHR ''0'', hex_char (byte c div 16), hex_char (byte c mod 16)])"
  unfolding escape_def printable_iff by (cases "c = dq \<or> c = bs"; cases "32 \<le> byte c") simp_all

section \<open>Counters\<close>

declare BitLen_le_def [code del]

lemma BitLen_le_code [code]:
  "BitLen_le w n = (if w = 64 then \<bar>n\<bar> < 18446744073709551616 else \<bar>n\<bar> < 2 ^ w)"
  by (auto simp: BitLen_le_def)

declare i64_def [code del]

lemma i64_code [code]:
  "i64 v = (if \<not> re_match i64RE v then (None, False)
            else case SetString10 v of
              None \<Rightarrow> (None, False)
            | Some n \<Rightarrow> (Some n, - 9223372036854775808 \<le> n \<and> n < 9223372036854775808))"
  by (auto simp: i64_def split: option.split)

declare u64_val_def [code del] i64_val_def [code del]

lemma u64_val_code [code]: "u64_val v = (case u64 v of (n, ok) \<Rightarrow> if ok then n else None)"
  by (cases "u64 v") (simp add: u64_val_def)

lemma i64_val_code [code]: "i64_val v = (case i64 v of (n, ok) \<Rightarrow> if ok then n else None)"
  by (cases "i64 v") (simp add: i64_val_def)

end
