(* ===== verification/Scenario_Facts.thy ===== *)
theory Scenario_Facts
  imports Scenario Kernel_Runs
begin

text \<open>
  The second publication of the concrete run: an identity link, a service with a capability, an
  observed fact and a fact inferred from it with another value, which gives an envelope with an
  open conflict.
\<close>

definition demo_conflict :: Conflict where
  "demo_conflict = \<lparr>cf_ConflictID = demo_digest, cf_Kind = ConflictValue, cf_Candidates = Some [''fact-a'', ''fact-b''],
     cf_Evidence = Some [demo_evidence], cf_State = ConflictOpen\<rparr>"

definition demo_envelope :: FactEnvelope where
  "demo_envelope = \<lparr>fe_AssetID = ''asset'', fe_Key = demo_key, fe_Candidates = Some [demo_observed, demo_inferred],
     fe_Conflicts = Some [demo_conflict], fe_Revision = ''1''\<rparr>"

definition second_snapshot :: Snapshot where
  "second_snapshot = \<lparr>sn_Contract = ContractKernelV1, sn_SnapshotID = demo_digest, sn_AssetID = ''asset'',
     sn_Revisions = \<lparr>rv_Semantic = ''2'', rv_Identity = ''2'', rv_Facts = ''2'', rv_Services = ''2'', rv_Capabilities = ''2''\<rparr>,
     sn_EvaluatedAt = demo_time ''5'', sn_EvaluateMonotonic = demo_point ''8'',
     sn_Sources = Some [demo_source], sn_Bindings = Some [demo_binding], sn_IdentityLinks = Some [demo_link],
     sn_Facts = Some [demo_envelope], sn_Retained = None, sn_Services = Some [demo_service],
     sn_Capabilities = Some [demo_capability], sn_Fences = Some [], sn_Cursors = Some [demo_cursor ''2'']\<rparr>"

definition second_kernel :: PublicationKernel where
  "second_kernel = first_kernel\<lparr>k_current := Some second_snapshot, k_canonical := canonical_of second_snapshot,
     k_replays := [((''src'', ''ep'', ''1''), \<lparr>pr_snapshot = second_snapshot, pr_canonical = canonical_of second_snapshot\<rparr>)]\<rparr>"

lemma second_local: "local_error demo_env kernel0 second_batch (demo_point ''8'') = None"
  by code_simp

lemma second_staged:
  "applyTo demo_env demo_registry first_snapshot second_batch (demo_point ''8'') =
     (second_snapshot\<lparr>sn_SnapshotID := demo_digest, sn_Revisions := sn_Revisions first_snapshot,
        sn_EvaluateMonotonic := demo_point ''7''\<rparr>,
      \<lparr>ch_identity = True, ch_facts = True, ch_services = True, ch_capabilities = True\<rparr>, None)"
  by code_simp

lemma second_revisions:
  "nextRevisionVector (sn_Revisions first_snapshot) False
     \<lparr>ch_identity = True, ch_facts = True, ch_services = True, ch_capabilities = True\<rparr> = sn_Revisions second_snapshot"
  by code_simp

lemma second_digest: "PublicationBatch_computedDigestUnchecked demo_env second_batch = Inr demo_digest"
proof -
  have "json_wf (json_of_PublicationBatch second_batch)" by code_simp
  then show ?thesis by (simp add: PublicationBatch_computedDigestUnchecked_def constant_digest)
qed

lemma second_json: "json_wf (json_of_Snapshot second_snapshot)"
  by code_simp

lemma second_pending: "json_wf (json_of_Snapshot (second_snapshot\<lparr>sn_SnapshotID := ''snapshot:pending''\<rparr>))"
  by code_simp

lemma second_id: "Snapshot_computedID demo_env (second_snapshot\<lparr>sn_SnapshotID := ''snapshot:pending''\<rparr>) = Inr demo_digest"
  by (simp add: Snapshot_computedID_def constant_digest second_pending)

lemma second_checks: "snapshot_checks demo_env second_snapshot = None"
  by code_simp

lemma second_identity: "sn_SnapshotID second_snapshot = demo_digest"
  by (simp add: second_snapshot_def)

lemmas second_valid = demo_valid(1) [OF second_checks second_json second_identity]
lemmas second_canonical = demo_valid(2) [OF second_checks second_json second_identity]

lemma second_header:
  "header_key second_batch = (''src'', ''ep'', ''1'')" "pb_BatchDigest second_batch = demo_digest" "pb_Sequence second_batch = ''2''"
  "pb_ExpectedSemanticRevision second_batch = ''1''" "pb_ObservedAt second_batch = demo_time ''5''"
  "pb_SourceID second_batch = ''src''" "pb_SourceEpochID second_batch = ''ep''" "pb_DriverGeneration second_batch = ''1''"
  by (simp_all add: second_batch_def empty_batch_def header_key_def)

lemma first_kernel_fields:
  "k_asset first_kernel = ''asset''" "k_registry first_kernel = demo_registry"
  "k_replays first_kernel = [((''src'', ''ep'', ''1''), \<lparr>pr_snapshot = first_snapshot, pr_canonical = canonical_of first_snapshot\<rparr>)]"
  "cursorMap (Some first_snapshot) = [((''src'', ''ep'', ''1''), demo_cursor ''1'')]"
  by (simp_all add: first_kernel_def kernel0_def cursorMap_def snapshot_cursors_def first_snapshot_def map_from_def
    cursor_key_def demo_cursor_def)

lemma second_after_first: "sequence_comparison first_kernel second_batch = 1"
proof -
  have "compareUint64 ''2'' ''1'' = 1" by code_simp
  then show ?thesis by (simp add: sequence_comparison_def first_current first_kernel_fields second_header demo_cursor_def)
qed

lemma second_proposed:
  "propose demo_env first_kernel second_batch (demo_point ''8'') = (second_snapshot, None)"
  by (simp add: propose_def first_kernel_fields first_current working_snapshot_def second_staged second_revisions second_header)
    (simp add: second_snapshot_def)

lemma second_commit:
  "commit demo_env first_kernel second_batch second_snapshot =
     (second_kernel, Inr (second_snapshot, canonical_of second_snapshot))"
proof -
  have "second_snapshot\<lparr>sn_SnapshotID := demo_digest\<rparr> = second_snapshot" by (simp add: second_snapshot_def)
  then show ?thesis
    by (simp add: commit_def second_id second_valid second_canonical second_kernel_def second_header first_kernel_fields)
qed

lemma second_publication:
  "Apply_locked demo_env first_kernel second_batch (demo_point ''8'') =
     (second_kernel, Inr (second_snapshot, canonical_of second_snapshot))"
proof -
  have pt: "MonotonicPoint_Validate (demo_point ''8'') = None" by code_simp
  have asset: "k_asset first_kernel = k_asset kernel0" by (simp add: first_kernel_fields kernel0_def)
  note loc = local_error_asset [OF second_local asset pt]
  have owned: "publicationRetainedSourceOwnershipError (Some first_snapshot) second_batch = None" by code_simp
  have compared: "compareUint64 ''2'' ''1'' = 1" "\<not> compareUint64 ''1'' ''1'' < 0" by code_simp+
  have revs: "RevisionVector_Validate (sn_Revisions second_snapshot) = None" by code_simp
  have cursor: "pc_LastSequence (demo_cursor ''1'') = ''1''" "\<not> pc_Fenced (demo_cursor ''1'')"
    "rv_Semantic (sn_Revisions first_snapshot) = ''1''" by (simp_all add: demo_cursor_def first_snapshot_def)
  have "publish demo_env first_kernel second_batch (demo_point ''8'') None =
      (second_kernel, Inr (second_snapshot, canonical_of second_snapshot))"
    by (simp add: publish_def second_digest second_proposed second_commit second_header sequence_errors_def
      current_revision_def first_current first_kernel_fields compared cursor revs check_err_def Let_def)
  then show ?thesis
    by (simp add: Apply_locked_def loc owned first_kernel_fields first_current sequence_comparison_def second_header compared cursor
      ranks_before_def Let_def)
qed

lemma first_repeated:
  "Apply_locked demo_env first_kernel first_batch (demo_point ''9'') = (first_kernel, Inr (first_snapshot, canonical_of first_snapshot))"
  by (rule accepted_again [OF first_publication]) code_simp

lemma second_reachable: "reachable demo_env second_kernel"
  using first_reachable second_publication by (rule reachable_apply)

end
