(* ===== verification/Foundation_Properties.thy ===== *)
theory Foundation_Properties
  imports Freshness Key_Identity Fast_Eval
begin

text \<open>
  Properties of the foundations: the reported error, canonical JSON and the identities derived from
  it, canonical collections, counters, and freshness.
\<close>

section \<open>Errors\<close>

text \<open>C19: Which error a validation reports does not depend on the order in which its checks ran: for the
  same set of errors, all with a listed identifier, the same identifier is reported, and no error of
  the set ranks before it.\<close>

theorem reported_error_order_independent:
  assumes "set es = set fs" "\<forall>e. Some e \<in> set es \<longrightarrow> listed e"
  shows "map_option ErrorIdentifier (bestError es) = map_option ErrorIdentifier (bestError fs) \<and>
    (\<forall>b e. bestError es = Some b \<and> Some e \<in> set fs \<longrightarrow> rank_with errorRanks b \<le> rank_with errorRanks e)"
  using best.pick_order_independent [of es fs] best.pick_least [of es] assms by blast

theorem reported_error_order_independent_witness:
  "map_option ErrorIdentifier (bestError [Some (errID InvalidValue ''a''), None, Some (errID DuplicateKey ''b'')]) =
   map_option ErrorIdentifier (bestError [Some (errID DuplicateKey ''b''), Some (errID InvalidValue ''a''), None])"
proof -
  let ?es = "[Some (errID InvalidValue ''a''), None, Some (errID DuplicateKey ''b'')]"
  let ?fs = "[Some (errID DuplicateKey ''b''), Some (errID InvalidValue ''a''), None]"
  have "set ?es = set ?fs" "\<forall>e. Some e \<in> set ?es \<longrightarrow> listed e" by (auto simp: listed_def)
  from reported_error_order_independent [OF this] show ?thesis by blast
qed

section \<open>Canonical JSON and identities\<close>

text \<open>Writing a well-formed tree always succeeds, and two well-formed trees have the same bytes exactly when
  they have the same sorted form.\<close>

lemma canonical_json_determines_document:
  assumes "json_wf a" "json_wf b"
  shows "(\<exists>t. writeCanonical a = Some t) \<and> (writeCanonical a = writeCanonical b \<longleftrightarrow> jcs a = jcs b)"
  using assms writeCanonical_inj [OF assms] by (auto simp: writeCanonical_render)

text \<open>C16: The identity text of a fact key is faithful: two keys with the same identity are the same key,
  dimensions included. Grouping candidates and ordering envelopes by this text is therefore
  grouping and ordering by the key.\<close>

theorem fact_key_identity_injective:
  assumes "factKeyIdentity E a = Inr t" "factKeyIdentity E b = Inr t"
  shows "a = b"
  using assms by (rule factKeyIdentity_inj)

definition sample_key :: "bool \<Rightarrow> FactKey" where
  "sample_key v = \<lparr>fk_PackID = ''a.b'', fk_PackVersion = ''1.0.0'', fk_FactID = ''c.d'',
     fk_Dimensions = Some [\<lparr>dm_ID = ''e.f'', dm_Value = boolean_value v\<rparr>]\<rparr>"

definition sample_env :: env where
  "sample_env = \<lparr>nfc_normal = (\<lambda>_. True), sha256_hex = (\<lambda>_. [])\<rparr>"

theorem fact_key_identity_injective_witness:
  "factKeyIdentity sample_env (sample_key True) \<noteq> factKeyIdentity sample_env (sample_key False)"
proof
  assume eq: "factKeyIdentity sample_env (sample_key True) = factKeyIdentity sample_env (sample_key False)"
  have "case factKeyIdentity sample_env (sample_key True) of Inl _ \<Rightarrow> False | Inr _ \<Rightarrow> True" by code_simp
  then obtain t where t: "factKeyIdentity sample_env (sample_key True) = Inr t" by (auto split: sum.splits)
  have "sample_key True = sample_key False"
    using fact_key_identity_injective [OF t] t eq by simp
  then show False by (simp add: sample_key_def boolean_value_def)
qed

lemma evidence_set_accepted:
  assumes "validateEvidenceSet (Some xs) lo hi = None"
  shows "lo \<le> length xs \<and> length xs \<le> hi \<and> ascending compareEvidence xs \<and> list_all (key_valid EvidenceRef_identity) xs"
proof -
  have v: "list_all (key_valid EvidenceRef_identity) xs"
    using assms by (auto simp: validateEvidenceSet_def list_all_iff validateEvidence_def EvidenceRef_identity_def Let_def)
  have "duplicateAndOrder EvidenceRef_identity compareEvidence (Some xs) = (False, True)" "lo \<le> length xs" "length xs \<le> hi"
    using assms by (simp_all add: validateEvidenceSet_def prod_eq_iff)
  with evidence_set.duplicateAndOrder_iff [of "Some xs"] v show ?thesis by simp
qed

text \<open>C18: An accepted evidence set is in canonical form: within its bounds, strictly ascending and free of
  repetitions; and two accepted sets with the same elements are the same list.\<close>

theorem accepted_evidence_is_canonical:
  assumes "validateEvidenceSet (Some es) lo hi = None" "validateEvidenceSet (Some fs) lo hi = None"
  shows "lo \<le> length es \<and> length es \<le> hi \<and> ascending compareEvidence es \<and> distinct es \<and> (set es = set fs \<longrightarrow> es = fs)"
proof -
  have facts: "lo \<le> length xs \<and> length xs \<le> hi \<and> ascending compareEvidence xs \<and> list_all (key_valid EvidenceRef_identity) xs"
    if "validateEvidenceSet (Some xs) lo hi = None" for xs
    by (rule evidence_set_accepted [OF that])
  have "distinct es" using evidence_set.ascending_distinct [of es] facts [OF assms(1)] by (simp add: distinct_map)
  then show ?thesis using facts [OF assms(1)] facts [OF assms(2)] evidence_set.ascending_unique by blast
qed

definition sample_evidence :: "string \<Rightarrow> EvidenceRef" where
  "sample_evidence owner = \<lparr>ev_Owner = owner, ev_Kind = ''k.k'', ev_Digest = ''sha256:'' @ replicate 64 (CHR ''a''),
     ev_Contract = ''c/v1'', ev_Access = EvidenceAccessPublic, ev_Redaction = RedactionNone\<rparr>"

theorem accepted_evidence_is_canonical_witness:
  "validateEvidenceSet (Some [sample_evidence ''a.a'', sample_evidence ''b.b'']) 1 32 = None \<and>
   ascending compareEvidence [sample_evidence ''a.a'', sample_evidence ''b.b'']"
proof -
  have ok: "validateEvidenceSet (Some [sample_evidence ''a.a'', sample_evidence ''b.b'']) 1 32 = None" by code_simp
  from accepted_evidence_is_canonical [OF ok ok] ok show ?thesis by blast
qed

section \<open>Freshness\<close>

definition sample_time :: "Int64 \<Rightarrow> Uint64 \<Rightarrow> TimePoint" where
  "sample_time t u = \<lparr>tp_UnixNanoseconds = t, tp_ClockID = ''clock.utc'', tp_UncertaintyNS = u\<rparr>"

definition sample_point :: "string \<Rightarrow> Uint64 \<Rightarrow> MonotonicPoint" where
  "sample_point e t = \<lparr>mp_ClockEpochID = e, mp_Nanoseconds = t\<rparr>"

definition sample_times :: Times where
  "sample_times = \<lparr>tm_PhenomenonAt = None, tm_SourceAt = None, tm_ReceivedAt = sample_time ''100'' ''1'',
     tm_ReceiptMonotonic = sample_point ''e1'' ''10'', tm_EvaluatedAt = sample_time ''100'' ''1'',
     tm_EvaluateMonotonic = sample_point ''e1'' ''10''\<rparr>"

definition sample_policy :: FreshnessPolicy where
  "sample_policy = \<lparr>fp_PolicyID = ''p'', fp_Version = ''1.0.0'', fp_FreshForNS = ''10'', fp_RetainForNS = ''50'',
     fp_MaxWallUncertaintyNS = ''5''\<rparr>"

definition sample_context :: "string \<Rightarrow> Uint64 \<Rightarrow> Int64 \<Rightarrow> EvaluationContext" where
  "sample_context e t w = \<lparr>ec_EvaluatedAt = sample_time w ''1'', ec_EvaluateMonotonic = sample_point e t\<rparr>"

text \<open>C17: Across clock epochs a definite freshness is true of the real age: whenever the true receipt and
  evaluation instants lie within the stated uncertainties and in order, a fresh answer means an age
  below the fresh limit, a stale one an age between the limits, and an expired one an age past the
  retention limit.\<close>

theorem cross_epoch_freshness_is_sound:
  assumes "evaluateCrossEpoch received policy evaluated = Inr answer"
    and "i64_val (tp_UnixNanoseconds received) = Some r" "u64_val (tp_UncertaintyNS received) = Some ru"
    and "i64_val (tp_UnixNanoseconds evaluated) = Some e" "u64_val (tp_UncertaintyNS evaluated) = Some eu"
    and "u64_val (fp_FreshForNS policy) = Some fresh" "u64_val (fp_RetainForNS policy) = Some retain"
    and "\<bar>true_r - r\<bar> \<le> ru" "\<bar>true_e - e\<bar> \<le> eu" "true_r \<le> true_e"
  shows "(answer = FreshnessFresh \<longrightarrow> true_e - true_r < fresh) \<and>
    (answer = FreshnessStale \<longrightarrow> fresh \<le> true_e - true_r \<and> true_e - true_r < retain) \<and>
    (answer = FreshnessExpired \<longrightarrow> retain \<le> true_e - true_r) \<and>
    answer \<in> {FreshnessFresh, FreshnessStale, FreshnessExpired, FreshnessUnknown}"
proof -
  have upper: "true_e - true_r \<le> e - r + (ru + eu)" and lower: "e - r - (ru + eu) \<le> true_e - true_r"
    using assms(8,9) by linarith+
  have counters: "fst (u64 (fp_FreshForNS policy)) = Some fresh" "fst (u64 (fp_RetainForNS policy)) = Some retain"
    using assms(6,7) by (simp_all add: fst_u64_of_val)
  show ?thesis
    using assms(1) upper lower assms(10)
    by (auto simp: evaluateCrossEpoch_def assms(2-5) counters Let_def split: if_splits option.splits)
qed

theorem cross_epoch_freshness_is_sound_witness:
  "evaluateCrossEpoch (sample_time ''100'' ''1'') sample_policy (sample_time ''105'' ''1'') = Inr FreshnessFresh \<and>
   (106::int) - 99 < 10"
proof -
  have ok: "evaluateCrossEpoch (sample_time ''100'' ''1'') sample_policy (sample_time ''105'' ''1'') = Inr FreshnessFresh"
    "i64_val (tp_UnixNanoseconds (sample_time ''100'' ''1'')) = Some 100" "u64_val (tp_UncertaintyNS (sample_time ''100'' ''1'')) = Some 1"
    "i64_val (tp_UnixNanoseconds (sample_time ''105'' ''1'')) = Some 105" "u64_val (tp_UncertaintyNS (sample_time ''105'' ''1'')) = Some 1"
    "u64_val (fp_FreshForNS sample_policy) = Some 10" "u64_val (fp_RetainForNS sample_policy) = Some 50"
    by code_simp+
  have "\<bar>99 - 100 :: int\<bar> \<le> 1" "\<bar>106 - 105 :: int\<bar> \<le> 1" "(99::int) \<le> 106" by simp_all
  from cross_epoch_freshness_is_sound [OF ok this] ok(1) show ?thesis by blast
qed

fun availability_order :: "Availability \<Rightarrow> nat" where
  "availability_order AvailabilityAvailable = 0"
| "availability_order AvailabilityDegraded = 1"
| "availability_order AvailabilityUnavailable = 2"
| "availability_order AvailabilityWithdrawn = 3"
| "availability_order (AvailabilityOther _) = 2"

text \<open>Ageing never improves availability: with availabilities ordered available, degraded,
  unavailable, withdrawn, the effective availability is never before the stored one, and an expired
  fact is neither available nor degraded.\<close>

lemma availability_never_improves:
  "availability_order stored \<le> availability_order (effectiveAvailability stored f) \<and>
   effectiveAvailability stored FreshnessExpired \<in> {AvailabilityUnavailable, AvailabilityWithdrawn} \<and>
   (effectiveAvailability stored f = AvailabilityAvailable \<longrightarrow> f \<notin> {FreshnessStale, FreshnessUnknown, FreshnessExpired})"
  by (cases stored; cases f) (simp_all add: effectiveAvailability_def)

section \<open>Counters and elapsed ticks\<close>

text \<open>Incrementing a counter adds one below the limit and never wraps: at the limit the result is not a
  counter.\<close>

lemma increment_never_wraps:
  assumes "u64_val v = Some n"
  shows "if n + 1 < 2 ^ 64 then u64_val (increment v) = Some (n + 1) \<and> positive (increment v)
    else u64_val (increment v) = None \<and> \<not> positive (increment v)"
  using increment_positive [OF assms] increment_u64_val [OF assms] u64_valD [OF assms] u64_int_string [of "n + 1"]
  by (auto simp: u64_val_def increment_val [OF assms])
text \<open>Within one clock epoch freshness follows the elapsed ticks, and ticks out of order are an error.\<close>

lemma freshness_by_elapsed_ticks:
  assumes "Times_Validate t = None" "FreshnessPolicy_Validate p = None" "EvaluationContext_Validate c = None"
    and "mp_ClockEpochID (tm_ReceiptMonotonic t) = mp_ClockEpochID (ec_EvaluateMonotonic c)"
    and "u64_val (mp_Nanoseconds (tm_ReceiptMonotonic t)) = Some r"
    and "u64_val (mp_Nanoseconds (ec_EvaluateMonotonic c)) = Some n"
    and "u64_val (fp_FreshForNS p) = Some f" "u64_val (fp_RetainForNS p) = Some k"
  shows "evaluateFreshness t p c =
    (if n < r then Inl (errID InvalidTime ''evaluation monotonic order'')
     else Inr (if n - r < f then FreshnessFresh else if n - r < k then FreshnessStale else FreshnessExpired))"
proof (cases "n < r")
  case True
  with assms show ?thesis by (simp add: evaluateFreshness_def)
next
  case False
  then have "r \<le> n" by simp
  from same_epoch_freshness [OF assms(1-6) this assms(7,8)] False show ?thesis by simp
qed

end
