(* ===== verification/Fact_Properties.thy ===== *)
theory Fact_Properties
  imports Scenario_Facts
begin

text \<open>
  Properties of fact envelopes: conflicts are derived exactly from disagreement, and rebuilding the
  envelopes partitions the candidates by their keys.
\<close>

section \<open>Conflicts\<close>

lemma sum_list_errors_map_Inr [simp]: "sum_list_errors (map Inr ys) = Inr ys"
  by (induction ys) simp_all

lemma sum_list_errors_Inr: "sum_list_errors xs = Inr ys \<longleftrightarrow> xs = map Inr ys"
proof
  show "sum_list_errors xs = Inr ys \<Longrightarrow> xs = map Inr ys"
    by (induction xs arbitrary: ys rule: sum_list_errors.induct) (auto split: sum.splits)
qed simp

lemma sum_list_errors_map:
  assumes "sum_list_errors (map f xs) = Inr ys"
  shows "length ys = length xs" "i < length xs \<Longrightarrow> f (xs ! i) = Inr (ys ! i)" "list_all2 (\<lambda>x y. f x = Inr y) xs ys"
proof -
  have eq: "map f xs = map Inr ys" using assms by (simp add: sum_list_errors_Inr)
  then show "length ys = length xs" by (metis length_map)
  with eq show "i < length xs \<Longrightarrow> f (xs ! i) = Inr (ys ! i)" "list_all2 (\<lambda>x y. f x = Inr y) xs ys"
    by (metis nth_map, auto simp: list_all2_conv_all_nth) (metis nth_map)
qed

lemma few_distinct: "length (remdups xs) < 2 \<longleftrightarrow> (\<forall>x \<in> set xs. \<forall>y \<in> set xs. x = y)"
proof -
  have card: "length (remdups xs) = card (set xs)" by (rule length_remdups_card_conv)
  show ?thesis
  proof
    assume "length (remdups xs) < 2"
    then have "card (set xs) \<le> Suc 0" using card by simp
    then show "\<forall>x \<in> set xs. \<forall>y \<in> set xs. x = y" using card_le_Suc0_iff_eq [of "set xs"] by simp
  next
    assume "\<forall>x \<in> set xs. \<forall>y \<in> set xs. x = y"
    then have "card (set xs) \<le> Suc 0" using card_le_Suc0_iff_eq [of "set xs"] by simp
    then show "length (remdups xs) < 2" using card by simp
  qed
qed

definition value_text :: "env \<Rightarrow> FactCandidate \<Rightarrow> error + string" where
  "value_text E c = CanonicalJSON (Value_Validate E) json_of_Value (the (fc_Value c))"

lemma deriveConflicts_texts:
  "deriveConflicts E asset key cs =
     (case sum_list_errors (map (value_text E) (filter eligible_candidate cs)) of
        Inl e \<Rightarrow> Inl e
      | Inr canonical \<Rightarrow>
          if length (remdups canonical) < 2 then Inr []
          else
            (let ids = map fc_CandidateID (sort_by (by_field fc_CandidateID) (filter eligible_candidate cs));
                 evidence = concat (map (\<lambda>c. elems (fc_Evidence c)) (filter eligible_candidate cs))
             in case canonicalize (conflict_identity_json asset key ids) of
                  Inl e \<Rightarrow> Inl e
                | Inr text \<Rightarrow> Inr
                    [\<lparr>cf_ConflictID = sha256_digest E text, cf_Kind = ConflictValue, cf_Candidates = Some ids,
                      cf_Evidence = append_nil (dedup_adjacent compareEvidence (sort_by compareEvidence evidence)),
                      cf_State = ConflictOpen\<rparr>]))"
  unfolding deriveConflicts_def value_text_def [abs_def] Let_def by (rule refl)

lemma deriveConflicts_cases:
  assumes "deriveConflicts E asset key cs = Inr conflicts"
  obtains (agree) "conflicts = []" "\<forall>c \<in> set cs. \<forall>d \<in> set cs. eligible_candidate c \<and> eligible_candidate d \<longrightarrow> value_text E c = value_text E d"
  | (disagree) x where "conflicts = [x]"
      "\<exists>c \<in> set cs. \<exists>d \<in> set cs. eligible_candidate c \<and> eligible_candidate d \<and> value_text E c \<noteq> value_text E d"
      "cf_Candidates x = Some (map fc_CandidateID (sort_by (by_field fc_CandidateID) (filter eligible_candidate cs)))"
      "cf_State x = ConflictOpen" "cf_Kind x = ConflictValue"
proof -
  let ?el = "filter eligible_candidate cs"
  obtain texts where t: "sum_list_errors (map (value_text E) ?el) = Inr texts"
    using assms by (auto simp: deriveConflicts_texts split: sum.splits)
  have ts: "Inr ` set texts = value_text E ` set ?el"
    using t unfolding sum_list_errors_Inr by (metis list.set_map)
  show thesis
  proof (cases "length (remdups texts) < 2")
    case True
    have one: "\<exists>a \<in> set texts. value_text E c = Inr a" if "c \<in> set ?el" for c
    proof -
      have "value_text E c \<in> Inr ` set texts" unfolding ts using that by (rule imageI)
      then show ?thesis by (rule imageE) blast
    qed
    have "value_text E c = value_text E d" if "c \<in> set ?el" "d \<in> set ?el" for c d
      using one [OF that(1)] one [OF that(2)] True [unfolded few_distinct] by metis
    moreover have "conflicts = []" using assms t True by (simp add: deriveConflicts_texts)
    ultimately show thesis using agree by simp
  next
    case False
    then obtain a b where "a \<in> set texts" "b \<in> set texts" "a \<noteq> b" using few_distinct by blast
    then have "Inr a \<in> value_text E ` set ?el" "Inr b \<in> value_text E ` set ?el" unfolding ts [symmetric] by blast+
    then obtain c d where cd: "c \<in> set ?el" "d \<in> set ?el" "Inr a = value_text E c" "Inr b = value_text E d" by blast
    have "value_text E c \<noteq> value_text E d" unfolding cd(3, 4) [symmetric] using \<open>a \<noteq> b\<close> by simp
    with cd(1, 2) have "\<exists>c \<in> set cs. \<exists>d \<in> set cs. eligible_candidate c \<and> eligible_candidate d \<and> value_text E c \<noteq> value_text E d"
      unfolding set_filter by blast
    then show thesis using assms t False disagree
      by (auto simp: deriveConflicts_texts Let_def split: sum.splits)
  qed
qed

lemma conflict_texts:
  assumes "deriveConflicts E asset key cs = Inr conflicts"
  shows "((conflicts \<noteq> []) = (\<exists>c \<in> set cs. \<exists>d \<in> set cs. eligible_candidate c \<and> eligible_candidate d \<and> value_text E c \<noteq> value_text E d)) \<and>
    length conflicts \<le> 1 \<and>
    (\<forall>x \<in> set conflicts. cf_State x = ConflictOpen \<and> set (elems (cf_Candidates x)) = fc_CandidateID ` {c \<in> set cs. eligible_candidate c})"
    (is "(_ = ?two) \<and> _ \<and> ?named")
  using assms
proof (cases rule: deriveConflicts_cases)
  case agree
  then have none: "\<not> ?two" by blast
  from agree(1) have "length conflicts \<le> 1" ?named by simp_all
  with none agree(1) show ?thesis by blast
next
  case (disagree x)
  have "set (elems (cf_Candidates x)) = fc_CandidateID ` {c \<in> set cs. eligible_candidate c}" by (simp add: disagree(3))
  with disagree(1, 4) have "length conflicts \<le> 1" ?named by simp_all
  with disagree(1, 2) show ?thesis by blast
qed

text \<open>The candidates that may speak for a fact: they carry a value, are qualified and promoted.\<close>

definition qualified_promoted :: "FactCandidate \<Rightarrow> bool" where
  "qualified_promoted c \<longleftrightarrow> (\<exists>v. fc_Value c = Some v) \<and>
     ql_Qualification (fc_Quality c) = QualificationQualified \<and> ql_Promotion (fc_Quality c) = PromotionPromoted"

lemma eligible_qualified: "eligible_candidate = qualified_promoted"
  by (auto simp: eligible_candidate_def qualified_promoted_def)

text \<open>C14: A fact is in conflict exactly when two of its qualified, promoted candidates disagree on the
  canonical value; then there is one open conflict and it names all qualified, promoted
  candidates. Candidates that are not qualified and promoted never cause a conflict.\<close>

theorem conflict_iff_disagreement:
  assumes "deriveConflicts E asset key cs = Inr conflicts"
  shows "(conflicts \<noteq> [] \<longleftrightarrow> (\<exists>c \<in> set cs. \<exists>d \<in> set cs. qualified_promoted c \<and> qualified_promoted d \<and>
      CanonicalJSON (Value_Validate E) json_of_Value (the (fc_Value c)) \<noteq>
      CanonicalJSON (Value_Validate E) json_of_Value (the (fc_Value d)))) \<and>
    length conflicts \<le> 1 \<and>
    (\<forall>x \<in> set conflicts. cf_State x = ConflictOpen \<and> set (elems (cf_Candidates x)) = fc_CandidateID ` {c \<in> set cs. qualified_promoted c})"
  using conflict_texts [OF assms] unfolding value_text_def eligible_qualified .

lemma demo_conflicts:
  "deriveConflicts demo_env ''asset'' demo_key [demo_observed, demo_inferred] = Inr [demo_conflict]"
  by code_simp

theorem conflict_iff_disagreement_witness:
  "deriveConflicts demo_env ''asset'' demo_key [demo_observed, demo_inferred] = Inr [demo_conflict] \<and>
   set (elems (cf_Candidates demo_conflict)) = fc_CandidateID ` {c \<in> set [demo_observed, demo_inferred]. qualified_promoted c} \<and>
   CanonicalJSON (Value_Validate demo_env) json_of_Value (the (fc_Value demo_observed)) \<noteq>
   CanonicalJSON (Value_Validate demo_env) json_of_Value (the (fc_Value demo_inferred))"
proof -
  note claim = conflict_iff_disagreement [OF demo_conflicts]
  from claim have "\<exists>c \<in> set [demo_observed, demo_inferred]. \<exists>d \<in> set [demo_observed, demo_inferred].
      CanonicalJSON (Value_Validate demo_env) json_of_Value (the (fc_Value c)) \<noteq>
      CanonicalJSON (Value_Validate demo_env) json_of_Value (the (fc_Value d))" by blast
  then have "CanonicalJSON (Value_Validate demo_env) json_of_Value (the (fc_Value demo_observed)) \<noteq>
      CanonicalJSON (Value_Validate demo_env) json_of_Value (the (fc_Value demo_inferred))"
    by (simp only: list.set bex_simps empty_iff insert_iff) metis
  with claim demo_conflicts show ?thesis by simp
qed

section \<open>Envelopes\<close>

definition group_members :: "fact_groups \<Rightarrow> FactCandidate list" where
  "group_members groups = concat (map (\<lambda>g. snd (snd g)) groups)"

definition groups_ok :: "env \<Rightarrow> fact_groups \<Rightarrow> bool" where
  "groups_ok E groups \<longleftrightarrow> distinct (map fst groups) \<and>
     (\<forall>(key, k, cs) \<in> set groups. factKeyIdentity E k = Inr key \<and> (\<forall>c \<in> set cs. factKeyIdentity E (fc_Key c) = Inr key))"

lemma mset_group_update:
  "distinct (map fst groups) \<Longrightarrow> map_of groups key = Some (k, cs) \<Longrightarrow>
     mset (group_members (AList.update key (k', cs @ [c]) groups)) = add_mset c (mset (group_members groups))"
  by (induction groups) (auto simp: group_members_def split: if_splits)

lemma add_to_group_ok:
  assumes "groups_ok E groups" "factKeyIdentity E (fc_Key c) = Inr key"
  shows "groups_ok E (add_to_group key c groups)"
    and "mset (group_members (add_to_group key c groups)) = add_mset c (mset (group_members groups))"
proof -
  have d: "distinct (map fst groups)" using assms(1) by (simp add: groups_ok_def)
  have members: "(i, v) \<in> set (AList.update key w groups) \<Longrightarrow> (i, v) \<in> set groups \<or> i = key \<and> v = w" for i v w
    using d by (metis distinct_update map_of_is_SomeI map_of_SomeD update_Some_unfold)
  show "groups_ok E (add_to_group key c groups)"
  proof (cases "map_of groups key")
    case None
    then show ?thesis using assms members [of _ _ "(fc_Key c, [c])"]
      by (fastforce simp: groups_ok_def add_to_group_def distinct_update)
  next
    case (Some g)
    obtain k cs where g: "g = (k, cs)" by (cases g)
    have "(key, k, cs) \<in> set groups" using Some g by (simp add: map_of_SomeD)
    then show ?thesis using assms members [of _ _ "(k, cs @ [c])"] Some g
      by (fastforce simp: groups_ok_def add_to_group_def distinct_update)
  qed
  show "mset (group_members (add_to_group key c groups)) = add_mset c (mset (group_members groups))"
  proof (cases "map_of groups key")
    case None
    then have "AList.update key (fc_Key c, [c]) groups = groups @ [(key, fc_Key c, [c])]"
      by (intro update_new) (simp add: map_of_eq_None_iff)
    with None show ?thesis by (simp add: add_to_group_def group_members_def)
  next
    case (Some g)
    obtain k cs where "g = (k, cs)" by (cases g)
    with Some mset_group_update [OF d, of key k cs k c] show ?thesis by (simp add: add_to_group_def)
  qed
qed

lemma group_candidates_ok:
  assumes "groups_ok E groups" "group_candidates E cs groups = Inr result"
  shows "groups_ok E result \<and> mset (group_members result) = mset (group_members groups) + mset cs"
  using assms
proof (induction cs arbitrary: groups)
  case (Cons c cs)
  then obtain key where key: "factKeyIdentity E (fc_Key c) = Inr key"
    "group_candidates E cs (add_to_group key c groups) = Inr result"
    by (auto split: sum.splits)
  from Cons.IH [OF add_to_group_ok(1) [OF Cons.prems(1) key(1)] key(2)] add_to_group_ok(2) [OF Cons.prems(1) key(1)]
  show ?case by simp
qed simp

lemma rebuild_envelope_Inr:
  assumes "rebuild_envelope E asset old (key, k, cs) = Inr f"
  shows "fe_Key f = k" "fe_AssetID f = asset" "fe_Candidates f = Some (sort_by (by_field fc_CandidateID) cs)"
    "\<exists>x. fe_Conflicts f = Some x \<and> deriveConflicts E asset k (sort_by (by_field fc_CandidateID) cs) = Inr x"
  using assms by (auto simp: rebuild_envelope_def Let_def split: sum.splits)

definition envelope_of_group :: "string \<times> FactKey \<times> FactCandidate list \<Rightarrow> FactEnvelope \<Rightarrow> bool" where
  "envelope_of_group g f \<longleftrightarrow> fe_Key f = fst (snd g) \<and> mset (elems (fe_Candidates f)) = mset (snd (snd g))"

lemma envelopes_members:
  "list_all2 envelope_of_group gs fs \<Longrightarrow>
     mset (concat (map (\<lambda>f. elems (fe_Candidates f)) fs)) = mset (group_members gs)"
  by (induction gs fs rule: list_all2_induct) (simp_all add: group_members_def envelope_of_group_def)

lemma rebuildEnvelopes_groups:
  assumes "rebuildEnvelopes E previous asset cs = Inr fs"
  obtains gs where "groups_ok E gs" "mset (group_members gs) = mset cs"
    "list_all2 envelope_of_group (sort_by (by_field fst) gs) fs" "\<forall>f \<in> set fs. fe_AssetID f = asset"
proof -
  obtain old gs where g: "group_candidates E cs [] = Inr gs"
      "sum_list_errors (map (rebuild_envelope E asset old) (sort_by (by_field fst) gs)) = Inr fs"
    using assms by (auto simp: rebuildEnvelopes_def split: sum.splits)
  have "groups_ok E []" by (simp add: groups_ok_def)
  from group_candidates_ok [OF this g(1)] have ok: "groups_ok E gs" "mset (group_members gs) = mset cs"
    by (simp_all add: group_members_def)
  have all: "list_all2 (\<lambda>x f. rebuild_envelope E asset old x = Inr f) (sort_by (by_field fst) gs) fs"
    by (rule sum_list_errors_map(3) [OF g(2)])
  have one: "envelope_of_group x f \<and> fe_AssetID f = asset" if "rebuild_envelope E asset old x = Inr f" for x f
    using rebuild_envelope_Inr [of E asset old "fst x" "fst (snd x)" "snd (snd x)" f] that
    by (simp add: envelope_of_group_def)
  have "list_all2 envelope_of_group (sort_by (by_field fst) gs) fs"
    by (rule list_all2_mono [OF all]) (use one in blast)
  moreover have "\<forall>f \<in> set fs. fe_AssetID f = asset"
  proof
    fix f assume "f \<in> set fs"
    then obtain i where i: "i < length fs" "f = fs ! i" by (auto simp: in_set_conv_nth)
    from one [OF list_all2_nthD2 [OF all i(1)]] i(2) show "fe_AssetID f = asset" by simp
  qed
  ultimately show thesis using that ok by blast
qed

lemma by_fst_sorted: "sorted_wrt (\<lambda>a b. string_compare (fst a) (fst b) \<le> 0) (sort_by (by_field fst) gs)"
  using comparator.sorted_sort_by [OF comparator_on [OF string_cmp.comparator_axioms, of fst], of gs]
  by (simp add: cmp_on_def)

text \<open>C15: Rebuilding envelopes partitions the candidates: every candidate stands in exactly one envelope,
  the one of its own fact key, no candidate is lost or duplicated, and the envelopes have distinct
  keys in canonical order.\<close>

theorem rebuilt_envelopes_partition:
  assumes "rebuildEnvelopes E previous asset cs = Inr fs"
  shows "mset (concat (map (\<lambda>f. elems (fe_Candidates f)) fs)) = mset cs \<and>
    (\<forall>f \<in> set fs. \<forall>c \<in> set (elems (fe_Candidates f)). fc_Key c = fe_Key f) \<and>
    ascending (compareEnvelope E) fs"
proof -
  obtain gs where gs: "groups_ok E gs" "mset (group_members gs) = mset cs"
      "list_all2 envelope_of_group (sort_by (by_field fst) gs) fs"
    using rebuildEnvelopes_groups [OF assms] by blast
  let ?s = "sort_by (by_field fst) gs"
  have ident: "factKeyIdentity E (fst (snd g)) = Inr (fst g)"
    "c \<in> set (snd (snd g)) \<Longrightarrow> factKeyIdentity E (fc_Key c) = Inr (fst g)" if "g \<in> set ?s" for g c
    using gs(1) that by (auto simp: groups_ok_def)
  have at: "envelope_of_group (?s ! i) (fs ! i)" "?s ! i \<in> set ?s" if "i < length fs" for i
    using gs(3) that by (auto simp: list_all2_conv_all_nth simp del: set_sort_by intro: nth_mem)
  have "mset (group_members ?s) = mset (group_members gs)"
  proof -
    have "mset (group_members xs) = \<Sum>\<^sub># (image_mset (\<lambda>g. mset (snd (snd g))) (mset xs))" for xs :: fact_groups
      by (induction xs) (simp_all add: group_members_def)
    then show ?thesis by simp
  qed
  then have 1: "mset (concat (map (\<lambda>f. elems (fe_Candidates f)) fs)) = mset cs"
    using envelopes_members [OF gs(3)] gs(2) by simp
  have 2: "fc_Key c = fe_Key f" if f: "f \<in> set fs" and c: "c \<in> set (elems (fe_Candidates f))" for f c
  proof -
    obtain i where i: "i < length fs" "f = fs ! i" using f by (auto simp: in_set_conv_nth)
    have "c \<in> set (snd (snd (?s ! i)))" using c at(1) [OF i(1)] i(2) unfolding envelope_of_group_def by (metis set_mset_mset)
    then have "factKeyIdentity E (fc_Key c) = factKeyIdentity E (fe_Key f)"
      using ident at [OF i(1)] i(2) by (simp add: envelope_of_group_def)
    moreover have "factKeyIdentity E (fe_Key f) = Inr (fst (?s ! i))"
      using ident(1) [OF at(2) [OF i(1)]] at(1) [OF i(1)] i(2) by (simp add: envelope_of_group_def)
    ultimately show ?thesis using factKeyIdentity_inj by metis
  qed
  have 3: "ascending (compareEnvelope E) fs"
    unfolding ascending_def sorted_wrt_iff_nth_less
  proof (intro allI impI)
    fix i j assume ij: "i < j" "j < length fs"
    have len: "length ?s = length fs" using gs(3) by (rule list_all2_lengthD)
    have le: "string_compare (fst (?s ! i)) (fst (?s ! j)) \<le> 0"
      using sorted_wrt_nth_less [OF by_fst_sorted [of gs] ij(1)] ij(2) len by simp
    have "distinct (map fst ?s)" using gs(1) by (simp add: groups_ok_def)
    then have "fst (?s ! i) \<noteq> fst (?s ! j)" 
      using ij len nth_eq_iff_index_eq [of "map fst ?s" i j] by simp
    then have "string_compare (fst (?s ! i)) (fst (?s ! j)) < 0" using le by (metis string_compare_0 less_le)
    moreover have "key_text E (fe_Key (fs ! m)) = fst (?s ! m)" if "m < length fs" for m
      using at [OF that] ident(1) by (simp add: key_text_def envelope_of_group_def)
    ultimately show "compareEnvelope E (fs ! i) (fs ! j) < 0"
      using ij(2) less_trans [OF ij] unfolding compareEnvelope_def by presburger
  qed
  from 1 2 3 show ?thesis by blast
qed

lemma demo_envelopes:
  "rebuildEnvelopes demo_env [] ''asset'' [demo_inferred, demo_observed] = Inr [demo_envelope]"
  by code_simp

theorem rebuilt_envelopes_partition_witness:
  "rebuildEnvelopes demo_env [] ''asset'' [demo_inferred, demo_observed] = Inr [demo_envelope] \<and>
   mset (elems (fe_Candidates demo_envelope)) = {#demo_inferred, demo_observed#} \<and>
   list_all (\<lambda>c. fc_Key c = fe_Key demo_envelope) (elems (fe_Candidates demo_envelope))"
  using rebuilt_envelopes_partition [OF demo_envelopes] demo_envelopes by (simp add: list_all_iff)

end
