(* ===== verification/Staging_Boundary.thy ===== *)
theory Staging_Boundary
  imports Scenario_Facts Fast_Eval
begin

text \<open>
  A boundary of staging. Upserts are stored before withdrawals are applied, so a batch that upserts
  a stored candidate and withdraws it in the same publication passes its local checks and is applied
  without an error, and the upserted revision is gone.
\<close>

definition contradictory_batch :: PublicationBatch where
  "contradictory_batch = (empty_batch ''3'' ''2'')
     \<lparr>pb_FactUpserts := Some [demo_observed\<lparr>fc_Value := Some (demo_value False), fc_Revision := ''2''\<rparr>],
      pb_FactWithdrawals := Some [''fact-a'', ''fact-b'']\<rparr>"

lemma contradictory_batch_local: "local_error demo_env kernel0 contradictory_batch (demo_point ''9'') = None"
  by code_simp

theorem withdrawal_discards_upsert:
  "case applyTo demo_env demo_registry second_snapshot contradictory_batch (demo_point ''9'') of
     (s, ch, e) \<Rightarrow> e = None \<and> elems (sn_Facts s) = []"
  by code_simp

end
