(* ===== verification/Operation_Types.thy ===== *)
theory Operation_Types
  imports Marshal
begin

text \<open>
  The records of \<^verbatim>\<open>semreg/v1/operation/types.go\<close> and their JSON encoding: intents, routes, dispatch,
  acknowledgement and readback evidence, and execution records. The conventions are those of the
  kernel records. \<open>OperationPackValidator\<close> holds the two hooks that an operation pack has besides
  those of a pack validator.
\<close>

section \<open>Records\<close>

type_synonym IntentID = OpaqueID
type_synonym AttemptID = OpaqueID
type_synonym IdempotencyKey = OpaqueID

definition ContractOperationV1 :: ContractVersion where
  "ContractOperationV1 = ''helianthus.semantic.operation/v1''"

record CapabilityRequirement =
  cr_Pack :: PackRef
  cr_DefinitionID :: DefinitionID
  cr_Versions :: VersionRange
  cr_InstanceID :: "CapabilityInstanceID option"
  cr_AllowDegraded :: bool

record Precondition =
  pn_Fact :: FactKey
  pn_CandidateID :: CandidateID
  pn_CandidateRevision :: Uint64
  pn_Operator :: PredicateOp
  pn_Expected :: Value

record ExpectedEffect =
  ee_Rule :: DefinitionRef
  ee_Fact :: FactKey
  ee_Operator :: PredicateOp
  ee_Expected :: Value

record Intent =
  in_Contract :: ContractVersion
  in_IntentID :: IntentID
  in_Kind :: DefinitionRef
  in_ExpectedEffect :: ExpectedEffect
  in_AssetID :: AssetID
  in_Arguments :: "TypedField slice"
  in_RequiredCapability :: CapabilityRequirement
  in_Authority :: EvidenceRef
  in_Causal :: CausalContext
  in_ExpectedSemanticRevision :: Uint64
  in_ExpectedCapabilityRevision :: Uint64
  in_ExpectedCapabilityInstanceRevision :: Uint64
  in_ExpectedSourceEpochID :: SourceEpochID
  in_ExpectedDriverGeneration :: Uint64
  in_Preconditions :: "Precondition slice"
  in_IdempotencyKey :: IdempotencyKey
  in_Deadline :: TimePoint

record Route =
  rt_CapabilityInstance :: CapabilityInstanceID
  rt_ServiceInstance :: ServiceInstanceID
  rt_BindingID :: NativeBindingID
  rt_SourceID :: SourceID
  rt_SourceEpochID :: SourceEpochID
  rt_DriverGeneration :: Uint64

datatype DeliveryState = DeliveryNotSent | DeliverySent | DeliveryUnknown | DeliveryStateOther string

record DispatchEvidence =
  de_AttemptID :: AttemptID
  de_Started :: EvaluationContext
  de_Completed :: "EvaluationContext option"
  de_Delivery :: DeliveryState
  de_PossibleSideEffect :: bool
  de_Evidence :: "EvidenceRef slice"

datatype AckState = AckAccepted | AckRejected | AckProvisional | AckStateOther string

record Acknowledgement =
  ak_State :: AckState
  ak_At :: TimePoint
  ak_Evidence :: "EvidenceRef slice"

datatype ReadbackRelation = ReadbackConfirms | ReadbackContradicts | ReadbackInconclusive | ReadbackRelationOther string

record Readback =
  rb_SnapshotID :: SnapshotID
  rb_Revisions :: RevisionVector
  rb_CandidateID :: CandidateID
  rb_CandidateRevision :: Uint64
  rb_BindingID :: NativeBindingID
  rb_SourceID :: SourceID
  rb_SourceEpochID :: SourceEpochID
  rb_DriverGeneration :: Uint64
  rb_Relation :: ReadbackRelation
  rb_Evaluation :: EvaluationContext
  rb_Evidence :: "EvidenceRef slice"

datatype Outcome = OutcomeRejected | OutcomeFailedNoContact | OutcomeAcknowledgedUnverified | OutcomeApplied | OutcomeNoEffect | OutcomeConflict | OutcomeIndeterminate | OutcomeOther string

record ExecutionRecord =
  xr_Contract :: ContractVersion
  xr_Intent :: Intent
  xr_AdmittedAt :: "TimePoint option"
  xr_AdmittedRevision :: "RevisionVector option"
  xr_Route :: "Route option"
  xr_Dispatch :: "DispatchEvidence option"
  xr_Acknowledgement :: "Acknowledgement option"
  xr_Readback :: "Readback option"
  xr_Outcome :: Outcome
  xr_ErrorID :: "ErrorID option"
  xr_OutcomeEvidence :: "EvidenceRef slice"

record OperationPackValidator =
  ov_ValidateIntent :: "Intent \<Rightarrow> err"
  ov_EvaluateReadback :: "Intent \<Rightarrow> FactCandidate \<Rightarrow> error + ReadbackRelation"

section \<open>Enumerations\<close>

fun DeliveryState_string :: "DeliveryState \<Rightarrow> string" where
  "DeliveryState_string DeliveryNotSent = ''not_sent''"
| "DeliveryState_string DeliverySent = ''sent''"
| "DeliveryState_string DeliveryUnknown = ''unknown''"
| "DeliveryState_string (DeliveryStateOther s) = s"

fun AckState_string :: "AckState \<Rightarrow> string" where
  "AckState_string AckAccepted = ''accepted''"
| "AckState_string AckRejected = ''rejected''"
| "AckState_string AckProvisional = ''provisional''"
| "AckState_string (AckStateOther s) = s"

fun ReadbackRelation_string :: "ReadbackRelation \<Rightarrow> string" where
  "ReadbackRelation_string ReadbackConfirms = ''confirms''"
| "ReadbackRelation_string ReadbackContradicts = ''contradicts''"
| "ReadbackRelation_string ReadbackInconclusive = ''inconclusive''"
| "ReadbackRelation_string (ReadbackRelationOther s) = s"

fun Outcome_string :: "Outcome \<Rightarrow> string" where
  "Outcome_string OutcomeRejected = ''rejected''"
| "Outcome_string OutcomeFailedNoContact = ''failed_no_contact''"
| "Outcome_string OutcomeAcknowledgedUnverified = ''acknowledged_unverified''"
| "Outcome_string OutcomeApplied = ''applied''"
| "Outcome_string OutcomeNoEffect = ''no_effect''"
| "Outcome_string OutcomeConflict = ''conflict''"
| "Outcome_string OutcomeIndeterminate = ''indeterminate''"
| "Outcome_string (OutcomeOther s) = s"

fun PredicateOp_string :: "PredicateOp \<Rightarrow> string" where
  "PredicateOp_string PredicateEqual = ''equal''"
| "PredicateOp_string PredicateNotEqual = ''not_equal''"
| "PredicateOp_string PredicateLess = ''less''"
| "PredicateOp_string PredicateLessEqual = ''less_equal''"
| "PredicateOp_string PredicateGreater = ''greater''"
| "PredicateOp_string PredicateGreaterEqual = ''greater_equal''"
| "PredicateOp_string PredicateContains = ''contains''"
| "PredicateOp_string (PredicateOther s) = s"

fun ErrorID_string :: "ErrorID \<Rightarrow> string" where
  "ErrorID_string InvalidJSON = ''invalid_json''"
| "ErrorID_string DuplicateKey = ''duplicate_key''"
| "ErrorID_string InvalidContract = ''invalid_contract''"
| "ErrorID_string MissingMember = ''missing_member''"
| "ErrorID_string UnknownMember = ''unknown_member''"
| "ErrorID_string InvalidIdentifier = ''invalid_identifier''"
| "ErrorID_string InvalidDecimal = ''invalid_decimal''"
| "ErrorID_string InvalidValue = ''invalid_value''"
| "ErrorID_string InvalidTime = ''invalid_time''"
| "ErrorID_string InvalidEvidence = ''invalid_evidence''"
| "ErrorID_string InvalidEnum = ''invalid_enum''"
| "ErrorID_string BoundsExceeded = ''bounds_exceeded''"
| "ErrorID_string NoncanonicalOrder = ''noncanonical_order''"
| "ErrorID_string DigestMismatch = ''digest_mismatch''"
| "ErrorID_string DanglingReference = ''dangling_reference''"
| "ErrorID_string DerivationCycle = ''derivation_cycle''"
| "ErrorID_string StaleSourceEpoch = ''stale_source_epoch''"
| "ErrorID_string StaleDriverGeneration = ''stale_driver_generation''"
| "ErrorID_string SequenceConflict = ''sequence_conflict''"
| "ErrorID_string RevisionConflict = ''revision_conflict''"
| "ErrorID_string IncomparableClockEpoch = ''incomparable_clock_epoch''"
| "ErrorID_string GenerationTransitionIncomplete = ''generation_transition_incomplete''"
| "ErrorID_string DefinitionOwnerConflict = ''definition_owner_conflict''"
| "ErrorID_string DefinitionOwnerMissing = ''definition_owner_missing''"
| "ErrorID_string IdentityNotQualified = ''identity_not_qualified''"
| "ErrorID_string CapabilityNotQualified = ''capability_not_qualified''"
| "ErrorID_string CapabilityUnavailable = ''capability_unavailable''"
| "ErrorID_string AuthorityMissing = ''authority_missing''"
| "ErrorID_string DeadlineExpired = ''deadline_expired''"
| "ErrorID_string PreconditionFailed = ''precondition_failed''"
| "ErrorID_string RouteSelectionForbidden = ''route_selection_forbidden''"
| "ErrorID_string AmbiguousRoute = ''ambiguous_route''"
| "ErrorID_string RetryForbidden = ''retry_forbidden''"
| "ErrorID_string InvalidOutcome = ''invalid_outcome''"
| "ErrorID_string EchoSuppressed = ''echo_suppressed''"
| "ErrorID_string CausalBudgetExceeded = ''causal_budget_exceeded''"
| "ErrorID_string ProjectionIncomplete = ''projection_incomplete''"
| "ErrorID_string AliasNotRoutable = ''alias_not_routable''"
| "ErrorID_string (OtherErrorID s) = s"

section \<open>Encoding\<close>

definition json_of_CapabilityRequirement :: "CapabilityRequirement \<Rightarrow> json" where
  "json_of_CapabilityRequirement x = JObject
    ([(''pack'', json_of_PackRef (cr_Pack x)),
      (''definition_id'', jstr (cr_DefinitionID x)),
      (''versions'', json_of_VersionRange (cr_Versions x))] @
     member_opt ''instance_id'' jstr (cr_InstanceID x) @
     [(''allow_degraded'', JBool (cr_AllowDegraded x))])"

definition json_of_Precondition :: "Precondition \<Rightarrow> json" where
  "json_of_Precondition x = JObject
    ([(''fact'', json_of_FactKey (pn_Fact x)),
      (''candidate_id'', jstr (pn_CandidateID x)),
      (''candidate_revision'', jstr (pn_CandidateRevision x)),
      (''operator'', jstr (PredicateOp_string (pn_Operator x))),
      (''expected'', json_of_Value (pn_Expected x))])"

definition json_of_ExpectedEffect :: "ExpectedEffect \<Rightarrow> json" where
  "json_of_ExpectedEffect x = JObject
    ([(''rule'', json_of_DefinitionRef (ee_Rule x)),
      (''fact'', json_of_FactKey (ee_Fact x)),
      (''operator'', jstr (PredicateOp_string (ee_Operator x))),
      (''expected'', json_of_Value (ee_Expected x))])"

definition json_of_Intent :: "Intent \<Rightarrow> json" where
  "json_of_Intent x = JObject
    ([(''contract'', jstr (in_Contract x)),
      (''intent_id'', jstr (in_IntentID x)),
      (''kind'', json_of_DefinitionRef (in_Kind x)),
      (''expected_effect'', json_of_ExpectedEffect (in_ExpectedEffect x)),
      (''asset_id'', jstr (in_AssetID x)),
      (''arguments'', jslice json_of_TypedField (in_Arguments x)),
      (''required_capability'', json_of_CapabilityRequirement (in_RequiredCapability x)),
      (''authority'', json_of_EvidenceRef (in_Authority x)),
      (''causal'', json_of_CausalContext (in_Causal x)),
      (''expected_semantic_revision'', jstr (in_ExpectedSemanticRevision x)),
      (''expected_capability_revision'', jstr (in_ExpectedCapabilityRevision x)),
      (''expected_capability_instance_revision'', jstr (in_ExpectedCapabilityInstanceRevision x)),
      (''expected_source_epoch_id'', jstr (in_ExpectedSourceEpochID x)),
      (''expected_driver_generation'', jstr (in_ExpectedDriverGeneration x)),
      (''preconditions'', jslice json_of_Precondition (in_Preconditions x)),
      (''idempotency_key'', jstr (in_IdempotencyKey x)),
      (''deadline'', json_of_TimePoint (in_Deadline x))])"

definition json_of_Route :: "Route \<Rightarrow> json" where
  "json_of_Route x = JObject
    ([(''capability_instance'', jstr (rt_CapabilityInstance x)),
      (''service_instance'', jstr (rt_ServiceInstance x)),
      (''binding_id'', jstr (rt_BindingID x)),
      (''source_id'', jstr (rt_SourceID x)),
      (''source_epoch_id'', jstr (rt_SourceEpochID x)),
      (''driver_generation'', jstr (rt_DriverGeneration x))])"

definition json_of_DispatchEvidence :: "DispatchEvidence \<Rightarrow> json" where
  "json_of_DispatchEvidence x = JObject
    ([(''attempt_id'', jstr (de_AttemptID x)),
      (''started'', json_of_EvaluationContext (de_Started x))] @
     member_opt ''completed'' json_of_EvaluationContext (de_Completed x) @
     [(''delivery'', jstr (DeliveryState_string (de_Delivery x))),
      (''possible_side_effect'', JBool (de_PossibleSideEffect x)),
      (''evidence'', jslice json_of_EvidenceRef (de_Evidence x))])"

definition json_of_Acknowledgement :: "Acknowledgement \<Rightarrow> json" where
  "json_of_Acknowledgement x = JObject
    ([(''state'', jstr (AckState_string (ak_State x))),
      (''at'', json_of_TimePoint (ak_At x)),
      (''evidence'', jslice json_of_EvidenceRef (ak_Evidence x))])"

definition json_of_Readback :: "Readback \<Rightarrow> json" where
  "json_of_Readback x = JObject
    ([(''snapshot_id'', jstr (rb_SnapshotID x)),
      (''revisions'', json_of_RevisionVector (rb_Revisions x)),
      (''candidate_id'', jstr (rb_CandidateID x)),
      (''candidate_revision'', jstr (rb_CandidateRevision x)),
      (''binding_id'', jstr (rb_BindingID x)),
      (''source_id'', jstr (rb_SourceID x)),
      (''source_epoch_id'', jstr (rb_SourceEpochID x)),
      (''driver_generation'', jstr (rb_DriverGeneration x)),
      (''relation'', jstr (ReadbackRelation_string (rb_Relation x))),
      (''evaluation'', json_of_EvaluationContext (rb_Evaluation x)),
      (''evidence'', jslice json_of_EvidenceRef (rb_Evidence x))])"

definition json_of_ExecutionRecord :: "ExecutionRecord \<Rightarrow> json" where
  "json_of_ExecutionRecord x = JObject
    ([(''contract'', jstr (xr_Contract x)),
      (''intent'', json_of_Intent (xr_Intent x))] @
     member_opt ''admitted_at'' json_of_TimePoint (xr_AdmittedAt x) @
     member_opt ''admitted_revision'' json_of_RevisionVector (xr_AdmittedRevision x) @
     member_opt ''route'' json_of_Route (xr_Route x) @
     member_opt ''dispatch'' json_of_DispatchEvidence (xr_Dispatch x) @
     member_opt ''acknowledgement'' json_of_Acknowledgement (xr_Acknowledgement x) @
     member_opt ''readback'' json_of_Readback (xr_Readback x) @
     [(''outcome'', jstr (Outcome_string (xr_Outcome x)))] @
     member_opt ''error_id'' (\<lambda>s. jstr (ErrorID_string s)) (xr_ErrorID x) @
     [(''outcome_evidence'', jslice json_of_EvidenceRef (xr_OutcomeEvidence x))])"

end
