(* ===== verification/Operation_Validation.thy ===== *)
theory Operation_Validation
  imports Operation_Types Validation
begin

text \<open>
  Validation of operation records (\<^verbatim>\<open>semreg/v1/operation/validation.go\<close>). The package has its own
  ranking table, counters and evidence order; \<open>mostSpecific_bestError\<close> shows that it reports the
  same errors as the kernel's \<^verbatim>\<open>bestError\<close>, so the laws of that reporter apply. The decoding of
  wire documents is not modelled.
\<close>

section \<open>Errors\<close>

fun operationErrorRank :: "ErrorID \<Rightarrow> nat option" where
  "operationErrorRank InvalidJSON = Some 1" | "operationErrorRank DuplicateKey = Some 2"
| "operationErrorRank InvalidContract = Some 3" | "operationErrorRank MissingMember = Some 4"
| "operationErrorRank UnknownMember = Some 5" | "operationErrorRank InvalidIdentifier = Some 6"
| "operationErrorRank InvalidDecimal = Some 7" | "operationErrorRank InvalidValue = Some 8"
| "operationErrorRank InvalidTime = Some 9" | "operationErrorRank InvalidEvidence = Some 10"
| "operationErrorRank InvalidEnum = Some 11" | "operationErrorRank BoundsExceeded = Some 12"
| "operationErrorRank NoncanonicalOrder = Some 13" | "operationErrorRank DigestMismatch = Some 14"
| "operationErrorRank DanglingReference = Some 15" | "operationErrorRank DerivationCycle = Some 16"
| "operationErrorRank StaleSourceEpoch = Some 17" | "operationErrorRank StaleDriverGeneration = Some 18"
| "operationErrorRank SequenceConflict = Some 19" | "operationErrorRank RevisionConflict = Some 20"
| "operationErrorRank IncomparableClockEpoch = Some 21"
| "operationErrorRank GenerationTransitionIncomplete = Some 22"
| "operationErrorRank DefinitionOwnerConflict = Some 23" | "operationErrorRank DefinitionOwnerMissing = Some 24"
| "operationErrorRank IdentityNotQualified = Some 25" | "operationErrorRank CapabilityNotQualified = Some 26"
| "operationErrorRank CapabilityUnavailable = Some 27" | "operationErrorRank AuthorityMissing = Some 28"
| "operationErrorRank DeadlineExpired = Some 29" | "operationErrorRank PreconditionFailed = Some 30"
| "operationErrorRank RouteSelectionForbidden = Some 31" | "operationErrorRank AmbiguousRoute = Some 32"
| "operationErrorRank RetryForbidden = Some 33" | "operationErrorRank InvalidOutcome = Some 34"
| "operationErrorRank EchoSuppressed = Some 35" | "operationErrorRank CausalBudgetExceeded = Some 36"
| "operationErrorRank ProjectionIncomplete = Some 37" | "operationErrorRank AliasNotRoutable = Some 38"
| "operationErrorRank (OtherErrorID _) = None"

definition opError :: "ErrorID \<Rightarrow> string \<Rightarrow> error" where
  "opError eid detail = Error eid detail"

definition mostSpecific :: "err list \<Rightarrow> err" where
  "mostSpecific errs = best_loop (rank_with operationErrorRank) None max_int errs"

definition op_check :: "bool \<Rightarrow> ErrorID \<Rightarrow> string \<Rightarrow> err" where
  "op_check bad eid detail = (if bad then Some (opError eid detail) else None)"

lemma operationErrorRank_errorRanks: "operationErrorRank = errorRanks"
proof
  show "operationErrorRank i = errorRanks i" for i by (cases i) simp_all
qed

lemma mostSpecific_bestError: "mostSpecific = bestError"
  by (rule ext) (simp add: mostSpecific_def bestError_def operationErrorRank_errorRanks)

lemma mostSpecific_None [simp]: "mostSpecific es = None \<longleftrightarrow> (\<forall>e \<in> set es. e = None)"
  by (simp add: mostSpecific_bestError best.pick_None_iff)

lemma op_check_None [simp]: "op_check bad i d = None \<longleftrightarrow> \<not> bad"
  by (simp add: op_check_def)

lemma ErrorIdentifier_opError [simp]: "ErrorIdentifier (opError i d) = i"
  by (simp add: opError_def)

section \<open>Counters, evidence and collections\<close>

definition op_positive :: "Uint64 \<Rightarrow> bool" where
  "op_positive v = (Uint64_Validate v = None \<and> (case SetString10 v of None \<Rightarrow> False | Some n \<Rightarrow> n > 0))"

definition op_compareUint64 :: "Uint64 \<Rightarrow> Uint64 \<Rightarrow> int" where
  "op_compareUint64 left right = (case (SetString10 left, SetString10 right) of
     (Some a, Some b) \<Rightarrow> int_cmp a b
   | _ \<Rightarrow> string_compare left right)"

definition op_compareEvidence :: "EvidenceRef \<Rightarrow> EvidenceRef \<Rightarrow> int" where
  "op_compareEvidence =
     cmp_then (cmp_on ev_Owner string_compare) (cmp_then (cmp_on ev_Kind string_compare)
       (cmp_then (cmp_on ev_Contract string_compare) (cmp_on ev_Digest string_compare)))"

text \<open>The loop over a keyed collection: every element is validated, and those with a valid key are
  checked against the keys seen and against the last element with a valid key.\<close>

fun collection_errors :: "string \<Rightarrow> ('a \<Rightarrow> err) \<Rightarrow> ('a \<Rightarrow> string option) \<Rightarrow> ('a \<Rightarrow> 'a \<Rightarrow> int) \<Rightarrow> string list \<Rightarrow>
    'a option \<Rightarrow> 'a list \<Rightarrow> err list" where
  "collection_errors detail validate key compare seen prior [] = []"
| "collection_errors detail validate key compare seen prior (item # items) =
     validate item #
     (case key item of
        None \<Rightarrow> collection_errors detail validate key compare seen prior items
      | Some k \<Rightarrow>
          op_check (k \<in> set seen) DuplicateKey detail #
          op_check (case prior of None \<Rightarrow> False | Some p \<Rightarrow> compare p item > 0) NoncanonicalOrder detail #
          collection_errors detail validate key compare (k # seen) (Some item) items)"

definition evidenceCollectionKeyValid :: "EvidenceRef \<Rightarrow> bool" where
  "evidenceCollectionKeyValid e \<longleftrightarrow> DefinitionID_Validate (ev_Owner e) = None \<and> DefinitionID_Validate (ev_Kind e) = None \<and>
     ContractVersion_Validate (ev_Contract e) = None \<and> Digest_Validate (ev_Digest e) = None"

definition requiredEvidence :: "EvidenceRef slice \<Rightarrow> string \<Rightarrow> err" where
  "requiredEvidence evidence detail =
     mostSpecific
       ([op_check (evidence = None) MissingMember detail,
         op_check (length (elems evidence) = 0) InvalidEvidence detail,
         op_check (length (elems evidence) > 32) BoundsExceeded detail] @
        collection_errors detail validateEvidence
          (\<lambda>e. if evidenceCollectionKeyValid e then Some (evidence_key e) else None) op_compareEvidence [] None (elems evidence))"

definition optionalEvidence :: "EvidenceRef slice \<Rightarrow> string \<Rightarrow> err" where
  "optionalEvidence evidence detail = (case evidence of
     None \<Rightarrow> Some (opError MissingMember detail)
   | Some [] \<Rightarrow> None
   | _ \<Rightarrow> requiredEvidence evidence detail)"

section \<open>Intents\<close>

definition CapabilityRequirement_Validate :: "CapabilityRequirement \<Rightarrow> err" where
  "CapabilityRequirement_Validate r =
     mostSpecific [PackRef_Validate (cr_Pack r), DefinitionID_Validate (cr_DefinitionID r), VersionRange_Validate (cr_Versions r),
       opt_err (\<lambda>i. validateOpaqueValue i ''capability instance id'') (cr_InstanceID r)]"

definition Precondition_Validate :: "env \<Rightarrow> Precondition \<Rightarrow> err" where
  "Precondition_Validate E p =
     mostSpecific [FactKey_Validate E (pn_Fact p), validateOpaqueValue (pn_CandidateID p) ''candidate id'',
       op_check (\<not> op_positive (pn_CandidateRevision p)) InvalidIdentifier ''precondition candidate revision'',
       PredicateOp_Validate (pn_Operator p), Value_Validate E (pn_Expected p)]"

definition ExpectedEffect_Validate :: "env \<Rightarrow> ExpectedEffect \<Rightarrow> err" where
  "ExpectedEffect_Validate E e =
     mostSpecific [DefinitionRef_Validate (ee_Rule e), FactKey_Validate E (ee_Fact e), PredicateOp_Validate (ee_Operator e),
       Value_Validate E (ee_Expected e)]"

definition preconditionCollectionKey :: "env \<Rightarrow> Precondition \<Rightarrow> string option" where
  "preconditionCollectionKey E p =
     (if FactKey_Validate E (pn_Fact p) \<noteq> None \<or> validateOpaqueValue (pn_CandidateID p) ''candidate id'' \<noteq> None \<or>
         \<not> op_positive (pn_CandidateRevision p) then None
      else case CanonicalJSON (FactKey_Validate E) json_of_FactKey (pn_Fact p) of
        Inl _ \<Rightarrow> None
      | Inr text \<Rightarrow> Some (text @ nul # pn_CandidateID p @ nul # pn_CandidateRevision p))"

definition comparePrecondition :: "env \<Rightarrow> Precondition \<Rightarrow> Precondition \<Rightarrow> int" where
  "comparePrecondition E left right =
     (let facts = (case (CanonicalJSON (FactKey_Validate E) json_of_FactKey (pn_Fact left),
                         CanonicalJSON (FactKey_Validate E) json_of_FactKey (pn_Fact right)) of
            (Inr l, Inr r) \<Rightarrow> string_compare l r
          | _ \<Rightarrow> 0);
          ids = string_compare (pn_CandidateID left) (pn_CandidateID right)
      in if facts \<noteq> 0 then facts
         else if ids \<noteq> 0 then ids
         else op_compareUint64 (pn_CandidateRevision left) (pn_CandidateRevision right))"

fun argument_errors :: "env \<Rightarrow> DefinitionID list \<Rightarrow> DefinitionID option \<Rightarrow> TypedField list \<Rightarrow> err list" where
  "argument_errors E seen prior [] = []"
| "argument_errors E seen prior (field # rest) =
     TypedField_Validate E field #
     op_check (DefinitionID_Validate (tf_ID field) = None \<and> tf_ID field \<in> set seen) DuplicateKey ''intent arguments'' #
     op_check (case prior of None \<Rightarrow> False | Some p \<Rightarrow> string_compare p (tf_ID field) > 0) NoncanonicalOrder ''intent arguments'' #
     argument_errors E (if DefinitionID_Validate (tf_ID field) = None then tf_ID field # seen else seen) (Some (tf_ID field)) rest"

definition intent_header_errors :: "env \<Rightarrow> Intent \<Rightarrow> err list" where
  "intent_header_errors E i =
     [op_check (in_Contract i \<noteq> ContractOperationV1) InvalidContract ''intent'',
      validateOpaqueValue (in_IntentID i) ''intent id'', DefinitionRef_Validate (in_Kind i),
      ExpectedEffect_Validate E (in_ExpectedEffect i), validateOpaqueValue (in_AssetID i) ''asset id'',
      CapabilityRequirement_Validate (in_RequiredCapability i), validateEvidence (in_Authority i),
      CausalContext_Validate (in_Causal i), validateOpaqueValue (in_ExpectedSourceEpochID i) ''source epoch id'',
      validateOpaqueValue (in_IdempotencyKey i) ''idempotency key'', TimePoint_Validate (in_Deadline i),
      op_check (tp_ClockID (in_Deadline i) \<noteq> ''clock.utc'') InvalidTime ''intent deadline clock'',
      op_check (df_Pack (ee_Rule (in_ExpectedEffect i)) \<noteq> df_Pack (in_Kind i)) InvalidValue ''effect rule pack'',
      op_check (\<not> op_positive (in_ExpectedSemanticRevision i) \<or> \<not> op_positive (in_ExpectedCapabilityRevision i) \<or>
          \<not> op_positive (in_ExpectedCapabilityInstanceRevision i) \<or> \<not> op_positive (in_ExpectedDriverGeneration i))
        InvalidIdentifier ''intent expected revision'']"

definition Intent_Validate :: "env \<Rightarrow> Intent \<Rightarrow> err" where
  "Intent_Validate E i =
     mostSpecific
       (intent_header_errors E i @
        [op_check (in_Arguments i = None) MissingMember ''intent arguments'',
         op_check (length (elems (in_Arguments i)) > 64) BoundsExceeded ''intent arguments''] @
        argument_errors E [] None (elems (in_Arguments i)) @
        [op_check (in_Preconditions i = None) MissingMember ''intent preconditions'',
         op_check (length (elems (in_Preconditions i)) > 64) BoundsExceeded ''intent preconditions''] @
        collection_errors ''intent preconditions'' (Precondition_Validate E) (preconditionCollectionKey E)
          (comparePrecondition E) [] None (elems (in_Preconditions i)))"

section \<open>Chronology\<close>

definition wallChronological :: "TimePoint \<Rightarrow> TimePoint \<Rightarrow> bool \<Rightarrow> err" where
  "wallChronological start end strict =
     (if tp_ClockID start \<noteq> ''clock.utc'' \<or> tp_ClockID end \<noteq> ''clock.utc''
      then Some (opError IncomparableClockEpoch ''wall chronology'')
      else case (SetString10 (tp_UnixNanoseconds start), SetString10 (tp_UnixNanoseconds end),
                 SetString10 (tp_UncertaintyNS start), SetString10 (tp_UncertaintyNS end)) of
        (Some startNS, Some endNS, Some startU, Some endU) \<Rightarrow>
          (let latestStart = startNS + startU; earliestEnd = endNS - endU; cmp = int_cmp earliestEnd latestStart
           in op_check (cmp < 0 \<or> strict \<and> cmp = 0) InvalidOutcome ''wall chronology'')
      | _ \<Rightarrow> Some (opError InvalidTime ''wall chronology''))"

definition contextsChronological :: "EvaluationContext \<Rightarrow> EvaluationContext \<Rightarrow> bool \<Rightarrow> err" where
  "contextsChronological start end strict =
     (if mp_ClockEpochID (ec_EvaluateMonotonic start) = mp_ClockEpochID (ec_EvaluateMonotonic end)
      then (let cmp = op_compareUint64 (mp_Nanoseconds (ec_EvaluateMonotonic end)) (mp_Nanoseconds (ec_EvaluateMonotonic start))
            in op_check (cmp < 0 \<or> strict \<and> cmp = 0) InvalidOutcome ''monotonic chronology'')
      else wallChronological (ec_EvaluatedAt start) (ec_EvaluatedAt end) strict)"

section \<open>Execution records\<close>

definition Route_Validate :: "Route \<Rightarrow> err" where
  "Route_Validate r =
     mostSpecific [validateOpaqueValue (rt_CapabilityInstance r) ''capability instance id'',
       validateOpaqueValue (rt_ServiceInstance r) ''service instance id'', validateOpaqueValue (rt_BindingID r) ''binding id'',
       validateOpaqueValue (rt_SourceID r) ''source id'', validateOpaqueValue (rt_SourceEpochID r) ''source epoch id'',
       op_check (\<not> op_positive (rt_DriverGeneration r)) InvalidIdentifier ''route generation'']"

definition DispatchEvidence_Validate :: "DispatchEvidence \<Rightarrow> err" where
  "DispatchEvidence_Validate d =
     mostSpecific
       [validateOpaqueValue (de_AttemptID d) ''attempt id'', EvaluationContext_Validate (de_Started d),
        requiredEvidence (de_Evidence d) ''dispatch evidence'',
        opt_err EvaluationContext_Validate (de_Completed d),
        opt_err (\<lambda>c. contextsChronological (de_Started d) c False) (de_Completed d),
        op_check (de_Delivery d \<notin> {DeliveryNotSent, DeliverySent, DeliveryUnknown}) InvalidEnum ''dispatch delivery'',
        op_check (de_Delivery d = DeliveryNotSent \<and> de_PossibleSideEffect d) InvalidOutcome ''not-sent side effect'']"

definition Acknowledgement_Validate :: "Acknowledgement \<Rightarrow> err" where
  "Acknowledgement_Validate a =
     mostSpecific
       [op_check (ak_State a \<notin> {AckAccepted, AckRejected, AckProvisional}) InvalidEnum ''acknowledgement state'',
        TimePoint_Validate (ak_At a), requiredEvidence (ak_Evidence a) ''acknowledgement evidence'']"

definition Readback_Validate :: "Readback \<Rightarrow> err" where
  "Readback_Validate r =
     mostSpecific
       [validateOpaqueValue (rb_SnapshotID r) ''snapshot id'', RevisionVector_Validate (rb_Revisions r),
        validateOpaqueValue (rb_CandidateID r) ''candidate id'', validateOpaqueValue (rb_BindingID r) ''binding id'',
        validateOpaqueValue (rb_SourceID r) ''source id'', validateOpaqueValue (rb_SourceEpochID r) ''source epoch id'',
        EvaluationContext_Validate (rb_Evaluation r), requiredEvidence (rb_Evidence r) ''readback evidence'',
        op_check (\<not> op_positive (rb_CandidateRevision r) \<or> \<not> op_positive (rb_DriverGeneration r))
          InvalidIdentifier ''readback revision'',
        op_check (rb_Relation r \<notin> {ReadbackConfirms, ReadbackContradicts, ReadbackInconclusive}) InvalidEnum ''readback relation'']"

text \<open>\<^verbatim>\<open>ErrorID.Validate\<close>: a well-formed identifier that the ranking lists.\<close>

definition ErrorID_Validate :: "ErrorID \<Rightarrow> err" where
  "ErrorID_Validate v =
     check_err (\<not> re_match errorIDRE (ErrorID_string v) \<or> errorRanks v = None) InvalidValue ''error id''"

text \<open>Which evidence each terminal outcome needs and which it excludes.\<close>

definition terminal_evidence_bad :: "Outcome \<Rightarrow> DispatchEvidence \<Rightarrow> Acknowledgement option \<Rightarrow> Readback option \<Rightarrow> err" where
  "terminal_evidence_bad outcome d ack rb = (case outcome of
     OutcomeFailedNoContact \<Rightarrow>
       op_check (de_Delivery d \<noteq> DeliveryNotSent \<or> de_PossibleSideEffect d \<or> ack \<noteq> None \<or> rb \<noteq> None)
         InvalidOutcome ''failed-no-contact evidence''
   | OutcomeAcknowledgedUnverified \<Rightarrow>
       op_check (de_Delivery d \<noteq> DeliverySent \<or> \<not> de_PossibleSideEffect d \<or>
           (case ack of None \<Rightarrow> True | Some a \<Rightarrow> ak_State a \<noteq> AckAccepted \<and> ak_State a \<noteq> AckProvisional) \<or>
           (case rb of None \<Rightarrow> False | Some r \<Rightarrow> rb_Relation r \<noteq> ReadbackInconclusive))
         InvalidOutcome ''acknowledged-unverified evidence''
   | OutcomeApplied \<Rightarrow>
       op_check (de_Delivery d \<noteq> DeliverySent \<or> \<not> de_PossibleSideEffect d \<or> de_Completed d = None \<or>
           (case rb of None \<Rightarrow> True | Some r \<Rightarrow> rb_Relation r \<noteq> ReadbackConfirms)) InvalidOutcome ''applied evidence''
   | OutcomeNoEffect \<Rightarrow>
       op_check (de_Delivery d \<noteq> DeliverySent \<or>
           (case rb of None \<Rightarrow> False | Some r \<Rightarrow> rb_Relation r = ReadbackConfirms)) InvalidOutcome ''no-effect evidence''
   | OutcomeConflict \<Rightarrow>
       op_check (de_Delivery d \<noteq> DeliverySent \<or> \<not> de_PossibleSideEffect d \<or>
           (case rb of None \<Rightarrow> True | Some r \<Rightarrow> rb_Relation r \<noteq> ReadbackContradicts)) InvalidOutcome ''conflict evidence''
   | OutcomeIndeterminate \<Rightarrow>
       op_check (de_Delivery d = DeliveryNotSent \<or> \<not> de_PossibleSideEffect d \<or>
           (case rb of None \<Rightarrow> False | Some r \<Rightarrow> rb_Relation r \<noteq> ReadbackInconclusive)) InvalidOutcome ''indeterminate evidence''
   | _ \<Rightarrow> None)"

definition outcomeCombinationError :: "ExecutionRecord \<Rightarrow> err" where
  "outcomeCombinationError r =
     (if xr_Outcome r = OutcomeRejected
      then op_check (xr_ErrorID r = None \<or> xr_AdmittedAt r \<noteq> None \<or> xr_AdmittedRevision r \<noteq> None \<or> xr_Route r \<noteq> None \<or>
          xr_Dispatch r \<noteq> None \<or> xr_Acknowledgement r \<noteq> None \<or> xr_Readback r \<noteq> None) InvalidOutcome ''rejected evidence''
      else if xr_ErrorID r \<noteq> None \<or> xr_AdmittedAt r = None \<or> xr_AdmittedRevision r = None \<or> xr_Route r = None \<or>
          length (elems (xr_OutcomeEvidence r)) = 0
      then Some (opError InvalidOutcome ''terminal evidence'')
      else case xr_Dispatch r of
        None \<Rightarrow> Some (opError InvalidOutcome ''missing dispatch'')
      | Some d \<Rightarrow> terminal_evidence_bad (xr_Outcome r) d (xr_Acknowledgement r) (xr_Readback r))"

definition ExecutionRecord_Validate :: "env \<Rightarrow> ExecutionRecord \<Rightarrow> err" where
  "ExecutionRecord_Validate E r =
     mostSpecific
       [op_check (xr_Contract r \<noteq> ContractOperationV1) InvalidContract ''execution record'',
        Intent_Validate E (xr_Intent r), optionalEvidence (xr_OutcomeEvidence r) ''outcome evidence'',
        opt_err TimePoint_Validate (xr_AdmittedAt r), opt_err RevisionVector_Validate (xr_AdmittedRevision r),
        opt_err Route_Validate (xr_Route r), opt_err DispatchEvidence_Validate (xr_Dispatch r),
        opt_err Acknowledgement_Validate (xr_Acknowledgement r), opt_err Readback_Validate (xr_Readback r),
        opt_err ErrorID_Validate (xr_ErrorID r),
        op_check (xr_Outcome r \<notin> {OutcomeRejected, OutcomeFailedNoContact, OutcomeAcknowledgedUnverified, OutcomeApplied,
            OutcomeNoEffect, OutcomeConflict, OutcomeIndeterminate}) InvalidEnum ''execution outcome'',
        outcomeCombinationError r]"

section \<open>Equality of fact keys\<close>

definition factKeyEqual :: "env \<Rightarrow> FactKey \<Rightarrow> FactKey \<Rightarrow> bool" where
  "factKeyEqual E left right = (case (CanonicalJSON (FactKey_Validate E) json_of_FactKey left,
                                      CanonicalJSON (FactKey_Validate E) json_of_FactKey right) of
     (Inr a, Inr b) \<Rightarrow> a = b
   | _ \<Rightarrow> False)"

section \<open>Agreement with the kernel\<close>

text \<open>The package's own counters and evidence order agree with those of the kernel.\<close>

lemma op_positive_positive: "op_positive v \<longleftrightarrow> positive v"
proof -
  have "snd (u64 v) \<Longrightarrow> SetString10 v = u64_val v"
    by (auto simp: u64_val_def u64_def split: if_splits option.splits)
  then show ?thesis by (cases "snd (u64 v)") (auto simp: op_positive_def positive_def u64_val_def split: option.splits)
qed

lemma op_compareUint64_val:
  assumes "u64_val a = Some m" "u64_val b = Some n"
  shows "op_compareUint64 a b = int_cmp m n"
proof -
  have "SetString10 v = Some k" if "u64_val v = Some k" for v k
    using that by (auto simp: u64_val_def u64_def split: if_splits option.splits)
  with assms show ?thesis by (simp add: op_compareUint64_def)
qed

end
