(* ===== verification/Evaluation.thy ===== *)
theory Evaluation
  imports Publication
begin

text \<open>
  Evaluation of a snapshot at an explicit time and presentation selection
  (\<^verbatim>\<open>semreg/v1/evaluation_selection.go\<close>, and \<^verbatim>\<open>CurrentAt\<close> of the publication kernel). Both
  only read their arguments. The recursion over derivation inputs carries fuel, one unit per nested
  candidate; the source guards it with \<^verbatim>\<open>visiting\<close>.
\<close>

section \<open>Evaluation views\<close>

definition EvaluationView_computedDigestUnchecked :: "env \<Rightarrow> EvaluationView \<Rightarrow> error + Digest" where
  "EvaluationView_computedDigestUnchecked E v =
     digest_without E ''evaluation_digest'' ''evaluation view'' (json_of_EvaluationView v)"

definition EvaluationView_structure :: "env \<Rightarrow> EvaluationView \<Rightarrow> err" where
  "EvaluationView_structure E v =
     (let I = opaque_identity ef_CandidateID; c = by_field ef_CandidateID in
      bestError
       ([check_err (vw_Contract v \<noteq> ContractEvaluationV1) InvalidContract ''evaluation view'',
         validateOpaqueValue (vw_SnapshotID v) ''snapshot id'', RevisionVector_Validate (vw_Revisions v),
         EvaluationContext_Validate (vw_Context v),
         check_err (vw_Facts v = None) MissingMember ''evaluation facts'',
         check_err (length (elems (vw_Facts v)) > maxDerivationNodes \<or> length (elems (vw_Retained v)) > maxDerivationNodes)
           BoundsExceeded ''evaluation facts''] @
        map EvaluatedFact_Validate (elems (vw_Facts v)) @
        map (EvaluatedRetainedObservation_Validate E) (elems (vw_Retained v)) @
        [check_err (duplicated I c (vw_Facts v)) DuplicateKey ''evaluated candidate'',
         check_err (\<not> in_order I c (vw_Facts v)) NoncanonicalOrder ''evaluated candidates'',
         evaluatedRetainedObservationOrderError E (vw_Retained v)]))"

definition EvaluationView_validateStructure :: "env \<Rightarrow> bool \<Rightarrow> EvaluationView \<Rightarrow> err" where
  "EvaluationView_validateStructure E requireDigest v =
     (let structure = EvaluationView_structure E v; digestErr = Digest_Validate (vw_EvaluationDigest v) in
      if \<not> requireDigest then structure
      else if ranks_before (bestError [structure, digestErr]) DigestMismatch then bestError [structure, digestErr]
      else case EvaluationView_computedDigestUnchecked E v of
        Inl e \<Rightarrow> bestError [structure, digestErr, Some e]
      | Inr digest \<Rightarrow>
          if digest \<noteq> vw_EvaluationDigest v
          then bestError [structure, digestErr, Some (errID DigestMismatch ''evaluation view'')]
          else bestError [structure, digestErr])"

definition EvaluationView_Validate :: "env \<Rightarrow> EvaluationView \<Rightarrow> err" where
  "EvaluationView_Validate E v = EvaluationView_validateStructure E True v"

definition EvaluationDigestValue :: "env \<Rightarrow> EvaluationView \<Rightarrow> error + Digest" where
  "EvaluationDigestValue E v = (case EvaluationView_validateStructure E False v of
     Some e \<Rightarrow> Inl e
   | None \<Rightarrow> EvaluationView_computedDigestUnchecked E v)"

section \<open>EvaluateSnapshot\<close>

definition contextNotEarlierThanSnapshot :: "Snapshot \<Rightarrow> EvaluationContext \<Rightarrow> err" where
  "contextNotEarlierThanSnapshot s ctx =
     (if mp_ClockEpochID (sn_EvaluateMonotonic s) = mp_ClockEpochID (ec_EvaluateMonotonic ctx)
      then (case (u64_val (mp_Nanoseconds (sn_EvaluateMonotonic s)), u64_val (mp_Nanoseconds (ec_EvaluateMonotonic ctx))) of
          (Some snapshotTicks, Some contextTicks) \<Rightarrow>
            check_err (contextTicks < snapshotTicks) InvalidTime ''evaluation before snapshot''
        | _ \<Rightarrow> Some (errID InvalidTime ''evaluation before snapshot''))
      else earlierComparableWall (sn_EvaluatedAt s) (ec_EvaluatedAt ctx))"

type_synonym memo = "(CandidateID, EvaluatedFact) gomap"

type_synonym eval_fun = "CandidateID list \<Rightarrow> memo \<Rightarrow> CandidateID \<Rightarrow> memo \<times> (error + EvaluatedFact)"

fun evaluate_inputs :: "(memo \<Rightarrow> CandidateID \<Rightarrow> memo \<times> (error + EvaluatedFact)) \<Rightarrow> DerivationInput list \<Rightarrow> memo \<Rightarrow>
    Freshness \<Rightarrow> memo \<times> (error + Freshness)" where
  "evaluate_inputs rec [] memo freshness = (memo, Inr freshness)"
| "evaluate_inputs rec (input # inputs) memo freshness = (case rec memo (di_CandidateID input) of
     (memo, Inl e) \<Rightarrow> (memo, Inl e)
   | (memo, Inr r) \<Rightarrow> evaluate_inputs rec inputs memo (combineFreshness freshness (ef_Freshness r)))"

definition candidate_inputs :: "FactCandidate \<Rightarrow> DerivationInput list" where
  "candidate_inputs c = (if ql_Assertion (fc_Quality c) = AssertionInferred
     then (case fc_Derivation c of None \<Rightarrow> [] | Some d \<Rightarrow> elems (dv_Inputs d)) else [])"

definition evaluated_fact :: "FactCandidate \<Rightarrow> Freshness \<Rightarrow> EvaluatedFact" where
  "evaluated_fact c freshness = \<lparr>ef_CandidateID = fc_CandidateID c, ef_CandidateRevision = fc_Revision c,
     ef_Freshness = freshness, ef_EffectiveAvailability = effectiveAvailability (ql_Availability (fc_Quality c)) freshness\<rparr>"

definition evaluate_step :: "eval_fun \<Rightarrow> candidate_map \<Rightarrow> EvaluationContext \<Rightarrow> eval_fun" where
  "evaluate_step rec cands ctx visiting memo cid = (case map_of memo cid of
     Some r \<Rightarrow> (memo, Inr r)
   | None \<Rightarrow> (case map_of cands cid of
       None \<Rightarrow> (memo, Inl (errID DanglingReference ''evaluation derivation input''))
     | Some c \<Rightarrow>
         if cid \<in> set visiting then (memo, Inl (errID DerivationCycle ''evaluation derivation''))
         else (case evaluateFreshness (fc_Times c) (fc_FreshnessPolicy c) ctx of
             Inl e \<Rightarrow> (memo, Inl e)
           | Inr own \<Rightarrow> (case evaluate_inputs (rec (cid # visiting)) (candidate_inputs c) memo own of
               (memo, Inl e) \<Rightarrow> (memo, Inl e)
             | (memo, Inr freshness) \<Rightarrow>
                 (AList.update cid (evaluated_fact c freshness) memo, Inr (evaluated_fact c freshness))))))"

primrec evaluate :: "nat \<Rightarrow> candidate_map \<Rightarrow> EvaluationContext \<Rightarrow> eval_fun" where
  "evaluate 0 cands ctx = (\<lambda>visiting memo cid. (memo, Inl fuel_error))"
| "evaluate (Suc n) cands ctx = evaluate_step (evaluate n cands ctx) cands ctx"

fun evaluate_all :: "(memo \<Rightarrow> CandidateID \<Rightarrow> memo \<times> (error + EvaluatedFact)) \<Rightarrow> CandidateID list \<Rightarrow> memo \<Rightarrow>
    error + EvaluatedFact list" where
  "evaluate_all ev [] memo = Inr []"
| "evaluate_all ev (cid # ids) memo = (case ev memo cid of
     (memo, Inl e) \<Rightarrow> Inl e
   | (memo, Inr r) \<Rightarrow> (case evaluate_all ev ids memo of Inl e \<Rightarrow> Inl e | Inr rs \<Rightarrow> Inr (r # rs)))"

fun evaluate_retained :: "EvaluationContext \<Rightarrow> RetainedObservationRecord list \<Rightarrow> error + EvaluatedRetainedObservation list" where
  "evaluate_retained ctx [] = Inr []"
| "evaluate_retained ctx (r # rs) =
     (case evaluateFreshness (fc_Times (ro_Candidate r)) (fc_FreshnessPolicy (ro_Candidate r)) ctx of
        Inl e \<Rightarrow> Inl e
      | Inr f \<Rightarrow> (case evaluate_retained ctx rs of
          Inl e \<Rightarrow> Inl e
        | Inr es \<Rightarrow> Inr (if f = FreshnessExpired then es else \<lparr>er_Observation = r, er_Freshness = f\<rparr> # es)))"

definition snapshot_candidates :: "Snapshot \<Rightarrow> candidate_map" where
  "snapshot_candidates s = map_from fc_CandidateID (snapshot_candidate_list s)"

definition EvaluateSnapshot :: "env \<Rightarrow> Snapshot \<Rightarrow> EvaluationContext \<Rightarrow> error + EvaluationView" where
  "EvaluateSnapshot E s ctx =
     (case first_error [bestError [Snapshot_Validate E s, EvaluationContext_Validate ctx], contextNotEarlierThanSnapshot s ctx] of
        Some e \<Rightarrow> Inl e
      | None \<Rightarrow>
          (let cands = snapshot_candidates s; ids = sort_by string_compare (map fst cands) in
           case evaluate_all (evaluate (length cands + 1) cands ctx []) ids [] of
             Inl e \<Rightarrow> Inl e
           | Inr facts \<Rightarrow> (case evaluate_retained ctx (elems (sn_Retained s)) of
               Inl e \<Rightarrow> Inl e
             | Inr retained \<Rightarrow>
                 (let view = \<lparr>vw_Contract = ContractEvaluationV1, vw_SnapshotID = sn_SnapshotID s,
                        vw_Revisions = sn_Revisions s, vw_Context = ctx, vw_Facts = Some facts,
                        vw_Retained = Some retained, vw_EvaluationDigest = []\<rparr>
                  in case EvaluationDigestValue E view of
                       Inl e \<Rightarrow> Inl e
                     | Inr digest \<Rightarrow> Inr (view\<lparr>vw_EvaluationDigest := digest\<rparr>)))))"

definition CurrentAt :: "env \<Rightarrow> PublicationKernel option \<Rightarrow> EvaluationContext \<Rightarrow>
    error + (Snapshot \<times> EvaluationView \<times> string) option" where
  "CurrentAt E k ctx = (case k of
     None \<Rightarrow> Inl (errID InvalidValue ''publication kernel'')
   | Some k \<Rightarrow> (case k_current k of
       None \<Rightarrow> Inr None
     | Some s \<Rightarrow> (case EvaluateSnapshot E s ctx of
         Inl e \<Rightarrow> Inl e
       | Inr view \<Rightarrow> Inr (Some (s, view, k_canonical k)))))"

section \<open>Selection\<close>

type_synonym SelectionKernel = "(PolicyID \<times> SemanticVersion, SelectionPolicy) gomap"

record snapshotViewCorrespondence =
  svc_candidates :: candidate_map
  svc_envelopes :: "(CandidateID, FactEnvelope) gomap"
  svc_evaluated :: memo

definition envelope_by_candidate :: "Snapshot \<Rightarrow> (CandidateID, FactEnvelope) gomap" where
  "envelope_by_candidate s = foldl (\<lambda>m f. foldl (\<lambda>m c. AList.update (fc_CandidateID c) f m) m (elems (fe_Candidates f)))
     [] (elems (sn_Facts s))"

definition snapshotViewBinding :: "Snapshot \<Rightarrow> EvaluationView \<Rightarrow> snapshotViewCorrespondence \<times> err" where
  "snapshotViewBinding s v =
     (let candidates = snapshot_candidates s; evaluated = map_from ef_CandidateID (elems (vw_Facts v)) in
      (\<lparr>svc_candidates = candidates, svc_envelopes = envelope_by_candidate s, svc_evaluated = evaluated\<rparr>,
       bestError
        ([check_err (vw_SnapshotID v \<noteq> sn_SnapshotID s \<or> vw_Revisions v \<noteq> sn_Revisions s)
            RevisionConflict ''snapshot evaluation binding''] @
         map (\<lambda>f. case map_of candidates (ef_CandidateID f) of
             None \<Rightarrow> Some (errID DanglingReference ''evaluated candidate'')
           | Some c \<Rightarrow> check_err (fc_Revision c \<noteq> ef_CandidateRevision f) RevisionConflict ''evaluated candidate revision'')
           (elems (vw_Facts v)) @
         map (\<lambda>(cid, _). check_err (map_of evaluated cid = None) DanglingReference ''missing evaluated candidate'') candidates)))"

definition RegisterSelectionPolicy :: "SelectionKernel option \<Rightarrow> SelectionPolicy option \<Rightarrow> SelectionKernel option \<times> err" where
  "RegisterSelectionPolicy k policy = (case (k, policy) of
     (Some m, Some p) \<Rightarrow>
       (case bestError [validateOpaqueValue (py_PolicyID p) ''policy id'', SemanticVersion_Validate (py_Version p)] of
          Some e \<Rightarrow> (k, Some e)
        | None \<Rightarrow>
            if map_of m (py_PolicyID p, py_Version p) \<noteq> None
            then (k, Some (errID DefinitionOwnerConflict ''selection policy''))
            else (Some (AList.update (py_PolicyID p, py_Version p) p m), None))
   | _ \<Rightarrow> (k, Some (errID DefinitionOwnerConflict ''nil selection policy'')))"

fun register_policies :: "SelectionKernel option \<Rightarrow> SelectionPolicy option list \<Rightarrow> error + SelectionKernel option" where
  "register_policies k [] = Inr k"
| "register_policies k (p # ps) = (case RegisterSelectionPolicy k p of
     (k', Some e) \<Rightarrow> Inl e
   | (k', None) \<Rightarrow> register_policies k' ps)"

definition NewSelectionKernel :: "SelectionPolicy option list \<Rightarrow> error + SelectionKernel option" where
  "NewSelectionKernel policies = register_policies (Some []) policies"

definition findEnvelope :: "env \<Rightarrow> FactEnvelope list \<Rightarrow> FactKey \<Rightarrow> FactEnvelope option" where
  "findEnvelope E envelopes key = (case factKeyIdentity E key of
     Inl _ \<Rightarrow> None
   | Inr want \<Rightarrow> find (\<lambda>f. factKeyIdentity E (fe_Key f) = Inr want) envelopes)"

definition selectionFactKeysEqual :: "env \<Rightarrow> FactKey \<Rightarrow> FactKey \<Rightarrow> bool" where
  "selectionFactKeysEqual E left right = (case (factKeyIdentity E left, factKeyIdentity E right) of
     (Inr a, Inr b) \<Rightarrow> a = b
   | _ \<Rightarrow> False)"

definition requested_facts :: "memo \<Rightarrow> FactEnvelope \<Rightarrow> EvaluatedFact list option" where
  "requested_facts evaluated f = map_option (sort_by (by_field ef_CandidateID))
     (those (map (\<lambda>c. map_of evaluated (fc_CandidateID c)) (elems (fe_Candidates f))))"

definition select_candidate :: "env \<Rightarrow> snapshotViewCorrespondence \<Rightarrow> Snapshot \<Rightarrow> EvaluationView \<Rightarrow> FactKey \<Rightarrow>
    SelectionPolicy \<Rightarrow> FactEnvelope \<Rightarrow> PolicyID \<Rightarrow> SemanticVersion \<Rightarrow> error + Selection" where
  "select_candidate E corr s v key policy requested policyID policyVersion =
     (case requested_facts (svc_evaluated corr) requested of
        None \<Rightarrow> Inl (errID DanglingReference ''requested evaluated candidate'')
      | Some facts \<Rightarrow> (case py_Select policy requested facts of
          Inl _ \<Rightarrow> Inl (errID InvalidValue ''selection policy'')
        | Inr selected \<Rightarrow> (case (map_of (svc_candidates corr) selected, map_of (svc_envelopes corr) selected) of
            (Some c, Some f) \<Rightarrow>
              if \<not> selectionFactKeysEqual E (fe_Key f) key then Inl (errID InvalidValue ''selected candidate'')
              else if map_of (svc_evaluated corr) selected = None
              then Inl (errID InvalidValue ''selected candidate evaluation'')
              else Inr \<lparr>sl_Contract = ContractSelectionV1, sl_SnapshotID = sn_SnapshotID s, sl_Revisions = sn_Revisions s,
                 sl_EvaluationDigest = vw_EvaluationDigest v, sl_Context = vw_Context v, sl_Key = key, sl_PolicyID = policyID,
                 sl_PolicyVersion = policyVersion, sl_SelectedCandidate = selected, sl_CandidateRevision = fc_Revision c,
                 sl_PresentationOnly = True\<rparr>
          | _ \<Rightarrow> Inl (errID InvalidValue ''selected candidate''))))"

definition SelectPresentation :: "env \<Rightarrow> SelectionKernel option \<Rightarrow> Snapshot \<Rightarrow> EvaluationView \<Rightarrow> FactKey \<Rightarrow> PolicyID \<Rightarrow>
    SemanticVersion \<Rightarrow> error + Selection" where
  "SelectPresentation E k s v key policyID policyVersion = (case k of
     None \<Rightarrow> Inl (errID DefinitionOwnerMissing ''selection kernel'')
   | Some policies \<Rightarrow>
       (let (corr, correspondenceErr) = snapshotViewBinding s v;
            requested = findEnvelope E (elems (sn_Facts s)) key;
            policy = map_of policies (policyID, policyVersion)
        in case bestError [EvaluationView_Validate E v, Snapshot_Validate E s, FactKey_Validate E key,
                validateOpaqueValue policyID ''policy id'', SemanticVersion_Validate policyVersion, correspondenceErr,
                check_err (requested = None) DanglingReference ''requested fact key'',
                check_err (policy = None) DefinitionOwnerMissing ''selection policy''] of
             Some e \<Rightarrow> Inl e
           | None \<Rightarrow> select_candidate E corr s v key (the policy) (the requested) policyID policyVersion))"

definition ValidateSelection :: "env \<Rightarrow> Snapshot \<Rightarrow> EvaluationView \<Rightarrow> Selection \<Rightarrow> err" where
  "ValidateSelection E s v sel =
     (let (corr, correspondenceErr) = snapshotViewBinding s v;
          requested = findEnvelope E (elems (sn_Facts s)) (sl_Key sel);
          candidates = (case requested of None \<Rightarrow> [] | Some f \<Rightarrow> elems (fe_Candidates f))
      in bestError
       [EvaluationView_Validate E v, Snapshot_Validate E s, Selection_Validate E sel, correspondenceErr,
        check_err (sl_SnapshotID sel \<noteq> sn_SnapshotID s \<or> sl_Revisions sel \<noteq> sn_Revisions s \<or>
            sl_EvaluationDigest sel \<noteq> vw_EvaluationDigest v \<or> sl_Context sel \<noteq> vw_Context v)
          RevisionConflict ''selection evaluation binding'',
        check_err (requested = None) DanglingReference ''selection requested fact key'',
        (case find (\<lambda>c. fc_CandidateID c = sl_SelectedCandidate sel) candidates of
           None \<Rightarrow> Some (errID DanglingReference ''selected candidate'')
         | Some c \<Rightarrow> check_err (fc_Revision c \<noteq> sl_CandidateRevision sel) RevisionConflict ''selected candidate revision''),
        (case map_of (svc_evaluated corr) (sl_SelectedCandidate sel) of
           None \<Rightarrow> Some (errID DanglingReference ''selected evaluated candidate'')
         | Some f \<Rightarrow> check_err (ef_CandidateRevision f \<noteq> sl_CandidateRevision sel)
             RevisionConflict ''selected evaluated candidate revision'')])"

end
