(* ===== verification/Admission.thy ===== *)
theory Admission
  imports Operation_Validation Evaluation
begin

text \<open>
  Admission of intents (\<^verbatim>\<open>semreg/v1/operation/admission.go\<close>). The kernel keeps admitted intents by
  idempotency key. An admission is a mutable object that the kernel and its callers share by
  pointer: \<open>op_state\<close> holds the kernel and the heap of admission objects, and a pointer is an index
  into the heap. \<^verbatim>\<open>Admit\<close> takes the kernel's lock twice, once to look for a retained admission and
  once to install the new one; the two critical sections are \<open>admit_check\<close> and \<open>admit_install\<close>, so
  that other calls can be interleaved between them. The locks of the pack hooks serialise calls of
  pure functions here, and the JSON copies of the package only detach memory.
\<close>

section \<open>State\<close>

type_synonym AuthorityResolver = "Intent \<Rightarrow> Route \<Rightarrow> EvaluationContext \<Rightarrow> err"

type_synonym admission_ref = nat

record OperationKernel =
  ok_registry :: "Registry option"
  ok_validators :: "(PackRef, OperationPackValidator) gomap"
  ok_maxRetainedOperations :: int
  ok_admissions :: "(IdempotencyKey, admission_ref) gomap"

record GuardClaims =
  gc_AssetID :: AssetID
  gc_ExpectedCapabilityRevision :: Uint64
  gc_CapabilityInstance :: CapabilityInstanceID
  gc_ExpectedCapabilityInstanceRevision :: Uint64
  gc_ServiceInstance :: ServiceInstanceID
  gc_BindingID :: NativeBindingID
  gc_SourceID :: SourceID
  gc_SourceEpochID :: SourceEpochID
  gc_DriverGeneration :: Uint64

record Admission =
  ad_intent :: Intent
  ad_intentBytes :: string
  ad_admittedAt :: TimePoint
  ad_admittedContext :: EvaluationContext
  ad_admittedRevision :: RevisionVector
  ad_route :: Route
  ad_hasRoute :: bool
  ad_record :: "ExecutionRecord option"
  ad_recordBytes :: string

record op_state =
  os_kernel :: OperationKernel
  os_heap :: "Admission list"

definition DefaultMaxRetainedOperations :: int where
  "DefaultMaxRetainedOperations = 1024"

definition MaxRetainedOperations :: int where
  "MaxRetainedOperations = 65536"

section \<open>Construction\<close>

text \<open>A supplied validator is \<^verbatim>\<open>nil\<close> or a pack validator that may also implement the operation
  hooks.\<close>

type_synonym supplied_validator = "(PackValidator \<times> OperationPackValidator option) option"

fun install_hooks :: "supplied_validator list \<Rightarrow> (PackRef, OperationPackValidator) gomap \<Rightarrow>
    error + (PackRef, OperationPackValidator) gomap" where
  "install_hooks [] hooks = Inr hooks"
| "install_hooks (None # vs) hooks = install_hooks vs hooks"
| "install_hooks (Some (v, h) # vs) hooks =
     (if elems (dx_Operations (pv_Definitions v)) = [] \<and> elems (dx_EffectRules (pv_Definitions v)) = []
      then install_hooks vs hooks
      else case h of
        None \<Rightarrow> Inl (opError DefinitionOwnerMissing ''operation pack hook'')
      | Some hook \<Rightarrow> install_hooks vs (AList.update (pv_Pack v) hook hooks))"

definition NewKernelWithOptions :: "int \<Rightarrow> supplied_validator list \<Rightarrow> error + OperationKernel" where
  "NewKernelWithOptions maxRetained validators =
     (if maxRetained \<le> 0 \<or> maxRetained > MaxRetainedOperations
      then Inl (opError BoundsExceeded ''operation retention capacity'')
      else case NewRegistry (map (map_option fst) validators) of
        Inl e \<Rightarrow> Inl e
      | Inr registry \<Rightarrow> (case install_hooks validators [] of
          Inl e \<Rightarrow> Inl e
        | Inr hooks \<Rightarrow> Inr \<lparr>ok_registry = Some registry, ok_validators = hooks,
            ok_maxRetainedOperations = maxRetained, ok_admissions = []\<rparr>))"

definition NewKernel :: "supplied_validator list \<Rightarrow> error + OperationKernel" where
  "NewKernel validators = NewKernelWithOptions DefaultMaxRetainedOperations validators"

section \<open>State-independent validation\<close>

definition intentSafeForHooks :: "err \<Rightarrow> bool" where
  "intentSafeForHooks e = (case e of
     None \<Rightarrow> True
   | Some e \<Rightarrow> ErrorIdentifier e = CausalBudgetExceeded \<or> ErrorIdentifier e = EchoSuppressed)"

definition stableHookError :: "err \<Rightarrow> string \<Rightarrow> err" where
  "stableHookError e detail = (case e of
     None \<Rightarrow> None
   | Some e \<Rightarrow> Some (opError (if operationErrorRank (ErrorIdentifier e) = None then InvalidValue else ErrorIdentifier e) detail))"

text \<open>One argument against the pack's index: the errors it adds and whether constraints may still be
  matched.\<close>

definition argument_check :: "env \<Rightarrow> Registry option \<Rightarrow> bool \<Rightarrow> DefinitionIndex \<Rightarrow> PackRef \<Rightarrow> TypedField \<Rightarrow> err \<times> bool" where
  "argument_check E registry registered index pack argument =
     (case filter (\<lambda>f. df_ID f = tf_ID argument \<and> df_Pack f = pack) (elems (dx_Fields index)) of
        [] \<Rightarrow> (Some (opError DefinitionOwnerMissing ''operation argument field''), False)
      | [exact] \<Rightarrow>
          (if registered
           then (let e = Registry_ValidateField E registry exact argument in (e, e = None))
           else (None, True))
      | _ \<Rightarrow> (Some (opError DefinitionOwnerConflict ''operation argument field''), False))"

definition requirement_errors :: "Registry option \<Rightarrow> CapabilityRequirement \<Rightarrow> err list" where
  "requirement_errors registry requirement = (case Registry_Validator registry (cr_Pack requirement) of
     Inl e \<Rightarrow> [Some e]
   | Inr v \<Rightarrow>
       (let matched = map (\<lambda>c. (c, VersionRange_Matches (cr_Versions requirement) (df_Version c))) (elems (dx_Capabilities (fv_index v)))
        in map (\<lambda>(c, m). case m of Inl e \<Rightarrow> Some e | Inr _ \<Rightarrow> None) matched @
           [op_check (\<not> list_ex (\<lambda>(c, m). m = Inr True \<and> df_ID c = cr_DefinitionID requirement) matched)
              DefinitionOwnerMissing ''required capability definition'']))"

definition owner_error :: "error + frozenValidator \<Rightarrow> err" where
  "owner_error v = (case v of Inl e \<Rightarrow> Some e | Inr _ \<Rightarrow> None)"

definition argument_checks :: "env \<Rightarrow> OperationKernel \<Rightarrow> Intent \<Rightarrow> err list \<times> bool" where
  "argument_checks E k i = (case Registry_Validator (ok_registry k) (df_Pack (in_Kind i)) of
     Inl e \<Rightarrow> ([Some e], False)
   | Inr v \<Rightarrow>
       (let checks = map (argument_check E (ok_registry k) (map_of (ok_validators k) (df_Pack (in_Kind i)) \<noteq> None)
              (fv_index v) (df_Pack (in_Kind i))) (elems (in_Arguments i))
        in (map fst checks, list_all snd checks)))"

definition errors_before_hook :: "env \<Rightarrow> OperationKernel \<Rightarrow> Intent \<Rightarrow> err list" where
  "errors_before_hook E k i =
     [owner_error (Registry_Definition (ok_registry k) DefinitionOperation (in_Kind i)),
      owner_error (Registry_Definition (ok_registry k) DefinitionEffectRule (ee_Rule (in_ExpectedEffect i))),
      op_check (map_of (ok_validators k) (df_Pack (in_Kind i)) = None) DefinitionOwnerMissing ''operation pack hook''] @
     fst (argument_checks E k i) @
     requirement_errors (ok_registry k) (in_RequiredCapability i) @
     [Registry_ValidateFact E (ok_registry k) (ee_Fact (in_ExpectedEffect i)) (Some (ee_Expected (in_ExpectedEffect i)))] @
     map (\<lambda>p. Registry_ValidateFact E (ok_registry k) (pn_Fact p) (Some (pn_Expected p))) (elems (in_Preconditions i))"

definition validateIntent :: "env \<Rightarrow> OperationKernel option \<Rightarrow> Intent \<Rightarrow> err \<times> bool" where
  "validateIntent E k i = (case k of
     None \<Rightarrow> (Some (opError DefinitionOwnerMissing ''operation kernel''), False)
   | Some k \<Rightarrow>
       if ok_registry k = None then (Some (opError DefinitionOwnerMissing ''operation kernel''), False)
       else (let typedErr = Intent_Validate E i; before = errors_before_hook E k i; constraintsSafe = snd (argument_checks E k i)
             in if \<not> intentSafeForHooks typedErr then (typedErr, False)
                else if mostSpecific before \<noteq> None then (mostSpecific [typedErr, mostSpecific before], constraintsSafe)
                else case map_of (ok_validators k) (df_Pack (in_Kind i)) of
                  None \<Rightarrow> (typedErr, constraintsSafe)
                | Some hook \<Rightarrow>
                    (mostSpecific (typedErr # before @ [stableHookError (ov_ValidateIntent hook i) ''operation intent'']),
                     constraintsSafe)))"

definition Kernel_ValidateIntent :: "env \<Rightarrow> OperationKernel option \<Rightarrow> Intent \<Rightarrow> err" where
  "Kernel_ValidateIntent E k i = fst (validateIntent E k i)"

section \<open>Time and causality\<close>

definition deadlineError :: "TimePoint \<Rightarrow> TimePoint \<Rightarrow> err" where
  "deadlineError now deadline =
     (if tp_ClockID now \<noteq> ''clock.utc'' \<or> tp_ClockID deadline \<noteq> ''clock.utc''
      then Some (opError InvalidTime ''operation deadline clock'')
      else case (SetString10 (tp_UnixNanoseconds now), SetString10 (tp_UnixNanoseconds deadline),
                 SetString10 (tp_UncertaintyNS now), SetString10 (tp_UncertaintyNS deadline)) of
        (Some nowNS, Some deadlineNS, Some nowU, Some deadlineU) \<Rightarrow>
          op_check (int_cmp (nowNS + nowU) (deadlineNS - deadlineU) \<ge> 0) DeadlineExpired ''operation deadline''
      | _ \<Rightarrow> Some (opError InvalidTime ''operation deadline''))"

definition causalAdmissionError :: "CausalContext \<Rightarrow> TimePoint \<Rightarrow> err" where
  "causalAdmissionError causal now =
     (if or_Kind (cc_Origin causal) = OriginNativeObservation \<or> or_Kind (cc_Origin causal) = OriginProjection
      then Some (opError EchoSuppressed ''reflected origin cannot authorize intent'')
      else case deadlineError now (cc_ExpiresAt causal) of
        None \<Rightarrow> None
      | Some e \<Rightarrow> if ErrorIdentifier e = DeadlineExpired then Some (opError CausalBudgetExceeded ''causal expiry'') else Some e)"

text \<open>\<^verbatim>\<open>HopCount\<close> is a \<^verbatim>\<open>uint16\<close>.\<close>

definition EnterCausal :: "CausalContext \<Rightarrow> TargetID \<Rightarrow> TimePoint \<Rightarrow> error + CausalContext" where
  "EnterCausal incoming receiver now =
     (case mostSpecific [CausalContext_Validate incoming, validateOpaqueValue receiver ''target id'', TimePoint_Validate now] of
        Some e \<Rightarrow> Inl e
      | None \<Rightarrow> (case causalAdmissionError incoming now of
          Some e \<Rightarrow> Inl e
        | None \<Rightarrow>
            if receiver \<in> set (elems (cc_Path incoming)) then Inl (opError EchoSuppressed ''causal receiver'')
            else if cc_HopCount incoming \<ge> cc_MaxHops incoming
            then Inl (opError CausalBudgetExceeded ''causal receiver capacity'')
            else Inr (incoming\<lparr>cc_Path := Some (elems (cc_Path incoming) @ [receiver]),
                        cc_HopCount := (cc_HopCount incoming + 1) mod 65536\<rparr>)))"

section \<open>Snapshot checks\<close>

definition snapshotPackError :: "env \<Rightarrow> OperationKernel \<Rightarrow> Snapshot \<Rightarrow> err" where
  "snapshotPackError E k s =
     mostSpecific
       (map (Registry_ValidateService (ok_registry k)) (elems (sn_Services s)) @
        concat (map (\<lambda>c. [CapabilityInstance_Validate E c,
           Registry_ValidateCapability E (ok_registry k)
             (c\<lparr>ci_Qualification := QualificationQualified, ci_Availability := AvailabilityAvailable\<rparr>)]) (elems (sn_Capabilities s))) @
        concat (map (\<lambda>f. map (ValidateFactCandidate E (ok_registry k)) (elems (fe_Candidates f))) (elems (sn_Facts s))))"

definition exactCandidate :: "env \<Rightarrow> Snapshot \<Rightarrow> FactKey \<Rightarrow> CandidateID \<Rightarrow> (FactCandidate \<times> FactEnvelope) option" where
  "exactCandidate E s key cid = (case find (\<lambda>f. factKeyEqual E (fe_Key f) key) (elems (sn_Facts s)) of
     None \<Rightarrow> None
   | Some f \<Rightarrow> (case find (\<lambda>c. fc_CandidateID c = cid) (elems (fe_Candidates f)) of
       None \<Rightarrow> None
     | Some c \<Rightarrow> Some (c, f)))"

definition candidateInOpenConflict :: "FactEnvelope \<Rightarrow> CandidateID \<Rightarrow> bool" where
  "candidateInOpenConflict f cid =
     list_ex (\<lambda>x. cf_State x = ConflictOpen \<and> cid \<in> set (elems (cf_Candidates x))) (elems (fe_Conflicts f))"

text \<open>A candidate that an operation may rely on: qualified, promoted, good, fresh, available and not
  in an open conflict.\<close>

definition candidate_eligible :: "FactCandidate \<Rightarrow> FactEnvelope \<Rightarrow> EvaluatedFact \<Rightarrow> bool" where
  "candidate_eligible c f v \<longleftrightarrow>
     ql_Qualification (fc_Quality c) = QualificationQualified \<and> ql_Promotion (fc_Quality c) = PromotionPromoted \<and>
     ql_Validity (fc_Quality c) = ValidityGood \<and> ef_Freshness v = FreshnessFresh \<and>
     ef_EffectiveAvailability v = AvailabilityAvailable \<and> \<not> candidateInOpenConflict f (fc_CandidateID c)"

definition precondition_check :: "env \<Rightarrow> Registry option \<Rightarrow> Snapshot \<Rightarrow> memo \<Rightarrow> Precondition \<Rightarrow> err" where
  "precondition_check E registry s evaluated p = (case Registry_Validator registry (key_pack (pn_Fact p)) of
     Inl e \<Rightarrow> Some e
   | Inr v \<Rightarrow> (case exactCandidate E s (pn_Fact p) (pn_CandidateID p) of
       None \<Rightarrow> Some (opError PreconditionFailed ''exact candidate'')
     | Some (c, f) \<Rightarrow>
         if fc_Revision c \<noteq> pn_CandidateRevision p then Some (opError PreconditionFailed ''exact candidate'')
         else if (case map_of evaluated (fc_CandidateID c) of None \<Rightarrow> True | Some r \<Rightarrow> \<not> candidate_eligible c f r)
         then Some (opError PreconditionFailed ''candidate eligibility'')
         else op_check (frozen_EvaluatePredicate E v c (pn_Operator p) (pn_Expected p) \<noteq> Inr True) PreconditionFailed ''predicate''))"

definition preconditionError :: "env \<Rightarrow> OperationKernel \<Rightarrow> Snapshot \<Rightarrow> EvaluationView \<Rightarrow> Precondition list \<Rightarrow> err" where
  "preconditionError E k s view preconditions =
     mostSpecific (map (precondition_check E (ok_registry k) s (map_from ef_CandidateID (elems (vw_Facts view)))) preconditions)"

section \<open>Routes\<close>

definition snapshot_links :: "Snapshot \<Rightarrow> (NativeBindingID, IdentityLink) gomap" where
  "snapshot_links s = map_from il_BindingID (elems (sn_IdentityLinks s))"

definition route_candidate :: "Intent \<Rightarrow> CapabilityInstance \<Rightarrow> bool" where
  "route_candidate i c \<longleftrightarrow> ci_AssetID c = in_AssetID i \<and> df_Pack (ci_Definition c) = cr_Pack (in_RequiredCapability i) \<and>
     df_ID (ci_Definition c) = cr_DefinitionID (in_RequiredCapability i)"

definition route_identity_errors :: "Snapshot \<Rightarrow> Intent \<Rightarrow> CapabilityInstance \<Rightarrow> NativeBinding \<Rightarrow> ServiceInstance \<Rightarrow> err list" where
  "route_identity_errors s i c b v =
     [op_check (case map_of (snapshot_links s) (ci_BindingID c) of
          None \<Rightarrow> True
        | Some l \<Rightarrow> il_AssetID l \<noteq> in_AssetID i \<or> il_State l \<noteq> LinkQualified) IdentityNotQualified ''operation identity link'',
      op_check (nb_AssetID b \<noteq> in_AssetID i \<or> si_AssetID v \<noteq> in_AssetID i \<or> si_BindingID v \<noteq> ci_BindingID c)
        IdentityNotQualified ''operation asset binding'']"

definition route_lifecycle_errors :: "Snapshot \<Rightarrow> Intent \<Rightarrow> CapabilityInstance \<Rightarrow> NativeBinding \<Rightarrow> ServiceInstance \<Rightarrow> err list" where
  "route_lifecycle_errors s i c b v =
     [op_check (nb_SourceEpochID b \<noteq> in_ExpectedSourceEpochID i \<or> ci_SourceEpochID c \<noteq> in_ExpectedSourceEpochID i \<or>
          si_SourceEpochID v \<noteq> in_ExpectedSourceEpochID i) StaleSourceEpoch ''operation route'',
      op_check (nb_DriverGeneration b \<noteq> in_ExpectedDriverGeneration i \<or> ci_DriverGeneration c \<noteq> in_ExpectedDriverGeneration i \<or>
          si_DriverGeneration v \<noteq> in_ExpectedDriverGeneration i) StaleDriverGeneration ''operation route'',
      op_check (case map_of (snapshot_sources s) (nb_SourceID b, nb_SourceEpochID b) of
          None \<Rightarrow> True
        | Some d \<Rightarrow> sd_State d \<noteq> SourceCurrent) StaleSourceEpoch ''operation source'',
      (if nb_State b \<noteq> BindingCurrent
       then Some (opError (if nb_State b = BindingFenced then StaleDriverGeneration else StaleSourceEpoch) ''operation binding'')
       else None)]"

definition route_offer_errors :: "Intent \<Rightarrow> CapabilityInstance \<Rightarrow> ServiceInstance \<Rightarrow> err list" where
  "route_offer_errors i c v =
     (let degraded = ci_Availability c = AvailabilityDegraded \<or> si_Availability v = AvailabilityDegraded;
          unavailable = ci_Availability c = AvailabilityUnavailable \<or> ci_Availability c = AvailabilityWithdrawn \<or>
            si_Availability v = AvailabilityUnavailable \<or> si_Availability v = AvailabilityWithdrawn
      in [op_check (ci_Qualification c \<noteq> QualificationQualified \<or> si_Qualification v \<noteq> QualificationQualified)
            CapabilityNotQualified ''operation capability'',
          op_check (unavailable \<or> degraded \<and> \<not> cr_AllowDegraded (in_RequiredCapability i)) CapabilityUnavailable ''operation capability''])"

definition route_owner_errors :: "env \<Rightarrow> Registry option \<Rightarrow> Intent \<Rightarrow> bool \<Rightarrow> CapabilityInstance \<Rightarrow> err list" where
  "route_owner_errors E registry i invoke c = (case Registry_Definition registry DefinitionCapability (ci_Definition c) of
     Inl e \<Rightarrow> [Some e]
   | Inr v \<Rightarrow> [op_check (invoke \<and> frozen_MatchConstraints E (owners_of registry) v c (in_Arguments i) \<noteq> None)
       AmbiguousRoute ''capability constraints''])"

definition route_errors :: "env \<Rightarrow> Registry option \<Rightarrow> Snapshot \<Rightarrow> Intent \<Rightarrow> bool \<Rightarrow> CapabilityInstance \<Rightarrow> NativeBinding \<Rightarrow>
    ServiceInstance \<Rightarrow> err list" where
  "route_errors E registry s i invoke c b v =
     op_check (ci_Revision c \<noteq> in_ExpectedCapabilityInstanceRevision i) RevisionConflict ''capability instance revision'' #
     route_identity_errors s i c b v @ route_lifecycle_errors s i c b v @ route_offer_errors i c v @
     route_owner_errors E registry i invoke c"

definition route_of :: "CapabilityInstance \<Rightarrow> NativeBinding \<Rightarrow> Route" where
  "route_of c b = \<lparr>rt_CapabilityInstance = ci_InstanceID c, rt_ServiceInstance = ci_ServiceInstance c, rt_BindingID = ci_BindingID c,
     rt_SourceID = nb_SourceID b, rt_SourceEpochID = ci_SourceEpochID c, rt_DriverGeneration = ci_DriverGeneration c\<rparr>"

record route_scan =
  rs_routes :: "Route list"
  rs_sawDefinition :: bool
  rs_skippedConstraints :: bool
  rs_candidateErrors :: "err list"

definition scan_capability :: "env \<Rightarrow> Registry option \<Rightarrow> Snapshot \<Rightarrow> Intent \<Rightarrow> bool \<Rightarrow> route_scan \<Rightarrow> CapabilityInstance \<Rightarrow> route_scan" where
  "scan_capability E registry s i invoke st c =
     (if \<not> route_candidate i c then st
      else case VersionRange_Matches (cr_Versions (in_RequiredCapability i)) (df_Version (ci_Definition c)) of
        Inl e \<Rightarrow> st\<lparr>rs_candidateErrors := rs_candidateErrors st @ [Some e]\<rparr>
      | Inr matches \<Rightarrow>
          if \<not> matches \<or> cr_InstanceID (in_RequiredCapability i) \<noteq> None \<and>
              cr_InstanceID (in_RequiredCapability i) \<noteq> Some (ci_InstanceID c) then st
          else (case (map_of (snapshot_bindings s) (ci_BindingID c), map_of (snapshot_services s) (ci_ServiceInstance c)) of
              (Some b, Some v) \<Rightarrow>
                (let errs = route_errors E registry s i invoke c b v;
                     skipped = (owner_error (Registry_Definition registry DefinitionCapability (ci_Definition c)) = None \<and> \<not> invoke);
                     st = st\<lparr>rs_sawDefinition := True, rs_skippedConstraints := rs_skippedConstraints st \<or> skipped\<rparr>
                 in if mostSpecific errs \<noteq> None then st\<lparr>rs_candidateErrors := rs_candidateErrors st @ errs\<rparr>
                    else if invoke then st\<lparr>rs_routes := rs_routes st @ [route_of c b]\<rparr> else st)
            | _ \<Rightarrow> st\<lparr>rs_sawDefinition := True, rs_candidateErrors := rs_candidateErrors st @
                [op_check (ci_Revision c \<noteq> in_ExpectedCapabilityInstanceRevision i) RevisionConflict ''capability instance revision'',
                 Some (opError DanglingReference ''operation route'')]\<rparr>))"

definition scan_routes :: "env \<Rightarrow> Registry option \<Rightarrow> Snapshot \<Rightarrow> Intent \<Rightarrow> bool \<Rightarrow> route_scan" where
  "scan_routes E registry s i invoke =
     foldl (scan_capability E registry s i invoke)
       \<lparr>rs_routes = [], rs_sawDefinition = False, rs_skippedConstraints = False, rs_candidateErrors = []\<rparr> (elems (sn_Capabilities s))"

definition routes :: "env \<Rightarrow> OperationKernel \<Rightarrow> Snapshot \<Rightarrow> Intent \<Rightarrow> bool \<Rightarrow> error + Route list" where
  "routes E k s i invoke =
     (let st = scan_routes E (ok_registry k) s i invoke; rs = sort_by (by_field rt_CapabilityInstance) (rs_routes st)
      in if length rs > 1 then Inl (opError AmbiguousRoute ''eligible route count'')
         else if length rs = 0
         then (case mostSpecific (rs_candidateErrors st) of
             Some e \<Rightarrow> Inl e
           | None \<Rightarrow>
               if rs_skippedConstraints st then Inr []
               else if rs_sawDefinition st then Inl (opError AmbiguousRoute ''capability constraints'')
               else Inl (opError AmbiguousRoute ''eligible route count''))
         else Inr rs)"

section \<open>Admit\<close>

definition lookupIdempotency :: "op_state \<Rightarrow> IdempotencyKey \<Rightarrow> string \<Rightarrow> error + admission_ref option" where
  "lookupIdempotency st key canonical = (case map_of (ok_admissions (os_kernel st)) key of
     None \<Rightarrow> Inr None
   | Some r \<Rightarrow>
       if ad_intentBytes (os_heap st ! r) \<noteq> canonical then Inl (opError SequenceConflict ''idempotency key'')
       else Inr (Some r))"

definition authority_error :: "AuthorityResolver option \<Rightarrow> Intent \<Rightarrow> EvaluationContext \<Rightarrow> err \<Rightarrow> error + Route list \<Rightarrow> err" where
  "authority_error authority i current intentErr rs = (case authority of
     None \<Rightarrow> Some (opError AuthorityMissing ''authority resolver'')
   | Some authorize \<Rightarrow> (case rs of
       Inr [r] \<Rightarrow> op_check (intentSafeForHooks intentErr \<and> authorize i r current \<noteq> None) AuthorityMissing ''authority resolution''
     | _ \<Rightarrow> None))"

text \<open>The checks between the two critical sections, in the order of the source.\<close>

definition admission_errors :: "env \<Rightarrow> OperationKernel \<Rightarrow> Snapshot \<Rightarrow> EvaluationContext \<Rightarrow> Intent \<Rightarrow> AuthorityResolver option \<Rightarrow>
    err \<Rightarrow> error + Route list \<Rightarrow> err list" where
  "admission_errors E k s current i authority intentErr rs =
     [intentErr, snapshotPackError E k s,
      op_check (sn_AssetID s \<noteq> in_AssetID i) RevisionConflict ''intent asset snapshot'',
      op_check (rv_Semantic (sn_Revisions s) \<noteq> in_ExpectedSemanticRevision i \<or>
          rv_Capabilities (sn_Revisions s) \<noteq> in_ExpectedCapabilityRevision i) RevisionConflict ''intent snapshot revisions'',
      op_check (tp_ClockID (ec_EvaluatedAt current) \<noteq> ''clock.utc'') InvalidTime ''trusted operation wall clock'',
      (case EvaluateSnapshot E s current of Inl e \<Rightarrow> Some e | Inr _ \<Rightarrow> None),
      deadlineError (ec_EvaluatedAt current) (in_Deadline i),
      causalAdmissionError (in_Causal i) (ec_EvaluatedAt current),
      (case EvaluateSnapshot E s current of
         Inl _ \<Rightarrow> None
       | Inr view \<Rightarrow> preconditionError E k s view (elems (in_Preconditions i))),
      (case rs of Inl e \<Rightarrow> Some e | Inr _ \<Rightarrow> None),
      authority_error authority i current intentErr rs]"

definition new_admission :: "Snapshot \<Rightarrow> EvaluationContext \<Rightarrow> Intent \<Rightarrow> string \<Rightarrow> Route \<Rightarrow> Admission" where
  "new_admission s current i intentBytes route =
     \<lparr>ad_intent = i, ad_intentBytes = intentBytes, ad_admittedAt = ec_EvaluatedAt current, ad_admittedContext = current,
      ad_admittedRevision = sn_Revisions s, ad_route = route, ad_hasRoute = True, ad_record = None, ad_recordBytes = []\<rparr>"

datatype admit_step = AdmitDone "error + admission_ref" | AdmitReady Admission

text \<open>What follows the lookup: the remaining checks, which read no shared state.\<close>

definition admit_evaluate :: "env \<Rightarrow> OperationKernel \<Rightarrow> Snapshot \<Rightarrow> EvaluationContext \<Rightarrow> Intent \<Rightarrow> AuthorityResolver option \<Rightarrow>
    err \<Rightarrow> bool \<Rightarrow> string \<Rightarrow> admit_step" where
  "admit_evaluate E k s current i authority intentErr constraintsSafe intentBytes =
     (let rs = routes E k s i constraintsSafe in
      case mostSpecific (admission_errors E k s current i authority intentErr rs) of
        Some e \<Rightarrow> AdmitDone (Inl e)
      | None \<Rightarrow> (case rs of
          Inr [route] \<Rightarrow> AdmitReady (new_admission s current i intentBytes route)
        | _ \<Rightarrow> AdmitDone (Inl (opError AmbiguousRoute ''eligible route count''))))"

definition admit_check :: "env \<Rightarrow> op_state \<Rightarrow> Snapshot \<Rightarrow> EvaluationContext \<Rightarrow> Intent \<Rightarrow> AuthorityResolver option \<Rightarrow> admit_step" where
  "admit_check E st s current i authority =
     (let k = os_kernel st; typedErr = Intent_Validate E i; snapshotErr = Snapshot_Validate E s;
          currentErr = EvaluationContext_Validate current; (intentErr, constraintsSafe) = validateIntent E (Some k) i
      in if \<not> intentSafeForHooks typedErr \<or> snapshotErr \<noteq> None \<or> currentErr \<noteq> None
         then AdmitDone (Inl (the (mostSpecific [intentErr, snapshotErr, currentErr])))
         else if intentErr \<noteq> None then admit_evaluate E k s current i authority intentErr constraintsSafe []
         else case CanonicalJSON (Intent_Validate E) json_of_Intent i of
           Inl e \<Rightarrow> AdmitDone (Inl e)
         | Inr intentBytes \<Rightarrow> (case lookupIdempotency st (in_IdempotencyKey i) intentBytes of
             Inl e \<Rightarrow> AdmitDone (Inl e)
           | Inr (Some prior) \<Rightarrow> AdmitDone (Inr prior)
           | Inr None \<Rightarrow> admit_evaluate E k s current i authority intentErr constraintsSafe intentBytes))"

definition allocate :: "op_state \<Rightarrow> IdempotencyKey \<Rightarrow> Admission \<Rightarrow> op_state" where
  "allocate st key a = st\<lparr>os_heap := os_heap st @ [a],
     os_kernel := (os_kernel st)\<lparr>ok_admissions := AList.update key (length (os_heap st)) (ok_admissions (os_kernel st))\<rparr>\<rparr>"

definition at_capacity :: "OperationKernel \<Rightarrow> bool" where
  "at_capacity k \<longleftrightarrow> int (length (ok_admissions k)) \<ge> ok_maxRetainedOperations k"

definition admit_install :: "op_state \<Rightarrow> Admission \<Rightarrow> op_state \<times> (error + admission_ref)" where
  "admit_install st a = (case map_of (ok_admissions (os_kernel st)) (in_IdempotencyKey (ad_intent a)) of
     Some prior \<Rightarrow>
       (st, if ad_intentBytes (os_heap st ! prior) = ad_intentBytes a then Inr prior
            else Inl (opError SequenceConflict ''idempotency key''))
   | None \<Rightarrow>
       if at_capacity (os_kernel st) then (st, Inl (opError BoundsExceeded ''operation retention capacity''))
       else (allocate st (in_IdempotencyKey (ad_intent a)) a, Inr (length (os_heap st))))"

text \<open>A call that no other call interleaves.\<close>

definition Admit :: "env \<Rightarrow> op_state \<Rightarrow> Snapshot \<Rightarrow> EvaluationContext \<Rightarrow> Intent \<Rightarrow> AuthorityResolver option \<Rightarrow>
    op_state \<times> (error + admission_ref)" where
  "Admit E st s current i authority = (case admit_check E st s current i authority of
     AdmitDone r \<Rightarrow> (st, r)
   | AdmitReady a \<Rightarrow> admit_install st a)"

section \<open>Fail-closed boundaries and accessors\<close>

definition AdmitSelectionRoute :: "env \<Rightarrow> OperationKernel option \<Rightarrow> Selection \<Rightarrow> error + admission_ref" where
  "AdmitSelectionRoute E k selection = (case k of
     None \<Rightarrow> Inl (opError DefinitionOwnerMissing ''operation kernel'')
   | Some _ \<Rightarrow> (case Selection_Validate E selection of
       Some e \<Rightarrow> Inl e
     | None \<Rightarrow> Inl (opError RouteSelectionForbidden ''presentation selection route'')))"

definition AdmitAliasRoute :: "OperationKernel option \<Rightarrow> OpaqueID \<Rightarrow> error + admission_ref" where
  "AdmitAliasRoute k legacyID = (case k of
     None \<Rightarrow> Inl (opError DefinitionOwnerMissing ''operation kernel'')
   | Some _ \<Rightarrow> (case validateOpaqueValue legacyID ''opaque id'' of
       Some e \<Rightarrow> Inl e
     | None \<Rightarrow> Inl (opError AliasNotRoutable ''compatibility alias route'')))"

definition Admission_Route :: "Admission \<Rightarrow> Route option" where
  "Admission_Route a = (if ad_hasRoute a then Some (ad_route a) else None)"

definition Admission_AdmittedAt :: "Admission \<Rightarrow> (TimePoint \<times> RevisionVector) option" where
  "Admission_AdmittedAt a = (if ad_hasRoute a then Some (ad_admittedAt a, ad_admittedRevision a) else None)"

definition Admission_GuardClaims :: "Admission \<Rightarrow> GuardClaims option" where
  "Admission_GuardClaims a = (if \<not> ad_hasRoute a then None else Some
     \<lparr>gc_AssetID = in_AssetID (ad_intent a), gc_ExpectedCapabilityRevision = in_ExpectedCapabilityRevision (ad_intent a),
      gc_CapabilityInstance = rt_CapabilityInstance (ad_route a),
      gc_ExpectedCapabilityInstanceRevision = in_ExpectedCapabilityInstanceRevision (ad_intent a),
      gc_ServiceInstance = rt_ServiceInstance (ad_route a), gc_BindingID = rt_BindingID (ad_route a),
      gc_SourceID = rt_SourceID (ad_route a), gc_SourceEpochID = rt_SourceEpochID (ad_route a),
      gc_DriverGeneration = rt_DriverGeneration (ad_route a)\<rparr>)"

definition ValidateRetry :: "env \<Rightarrow> ExecutionRecord \<Rightarrow> bool \<Rightarrow> err" where
  "ValidateRetry E r fallback = (case ExecutionRecord_Validate E r of
     Some e \<Rightarrow> Some e
   | None \<Rightarrow>
       if fallback \<or> (case xr_Dispatch r of None \<Rightarrow> True | Some d \<Rightarrow> de_PossibleSideEffect d) \<or> xr_Outcome r \<noteq> OutcomeFailedNoContact
       then Some (opError RetryForbidden ''operation retry'')
       else Some (opError RetryForbidden ''owner replay policy required''))"

definition sameRecordAdmission :: "env \<Rightarrow> ExecutionRecord \<Rightarrow> Admission \<Rightarrow> err" where
  "sameRecordAdmission E r a = (case CanonicalJSON (Intent_Validate E) json_of_Intent (xr_Intent r) of
     Inl e \<Rightarrow> Some e
   | Inr intentBytes \<Rightarrow>
       op_check (intentBytes \<noteq> ad_intentBytes a \<or> xr_AdmittedAt r \<noteq> Some (ad_admittedAt a) \<or>
         xr_AdmittedRevision r \<noteq> Some (ad_admittedRevision a) \<or> xr_Route r \<noteq> Some (ad_route a))
         RevisionConflict ''execution admission binding'')"

end
