(* ===== verification/Admission_Laws.thy ===== *)
theory Admission_Laws
  imports Admission
begin

text \<open>
  What admission promises: the conditions under which an intent becomes an admission, read off the
  error lists, and the route search as a filter over the capabilities of the snapshot.
\<close>

section \<open>Validated intents\<close>

lemma mostSpecific_map_None [simp]: "mostSpecific (map f xs) = None \<longleftrightarrow> (\<forall>x \<in> set xs. f x = None)"
  by auto

lemma argument_check_safe: "argument_check E reg True index pack a = (None, safe) \<Longrightarrow> safe"
  by (auto simp: argument_check_def Let_def split: list.splits if_splits)

lemma validateIntent_ok:
  assumes "validateIntent E (Some k) i = (None, safe)"
  shows "Intent_Validate E i = None" "ok_registry k \<noteq> None" safe
    "\<forall>e \<in> set (errors_before_hook E k i). e = None"
    "\<exists>hook. map_of (ok_validators k) (df_Pack (in_Kind i)) = Some hook \<and> ov_ValidateIntent hook i = None"
proof -
  show reg: "ok_registry k \<noteq> None" using assms by (cases "ok_registry k") (simp_all add: validateIntent_def)
  have safeTyped: "intentSafeForHooks (Intent_Validate E i)"
    using assms reg by (auto simp: validateIntent_def Let_def intentSafeForHooks_def split: if_splits)
  have before: "mostSpecific (errors_before_hook E k i) = None"
    using assms reg safeTyped by (auto simp: validateIntent_def Let_def split: if_splits)
  then show all: "\<forall>e \<in> set (errors_before_hook E k i). e = None" by simp
  then have registered: "map_of (ok_validators k) (df_Pack (in_Kind i)) \<noteq> None" by (auto simp: errors_before_hook_def)
  then obtain hook where hook: "map_of (ok_validators k) (df_Pack (in_Kind i)) = Some hook" by blast
  have fin: "mostSpecific (Intent_Validate E i # errors_before_hook E k i @ [stableHookError (ov_ValidateIntent hook i) ''operation intent'']) = None"
    and safe: "safe = snd (argument_checks E k i)"
    using assms reg safeTyped before hook by (auto simp: validateIntent_def Let_def)
  then show "Intent_Validate E i = None" by simp
  have "stableHookError (ov_ValidateIntent hook i) ''operation intent'' = None" using fin by simp
  then have "ov_ValidateIntent hook i = None" by (auto simp: stableHookError_def split: option.splits)
  with hook show "\<exists>hook. map_of (ok_validators k) (df_Pack (in_Kind i)) = Some hook \<and> ov_ValidateIntent hook i = None" by blast
  have args: "\<forall>e \<in> set (fst (argument_checks E k i)). e = None" using all by (simp add: errors_before_hook_def)
  show safe unfolding safe
  proof (cases "Registry_Validator (ok_registry k) (df_Pack (in_Kind i))")
    case (Inr v)
    have "snd (argument_check E (ok_registry k) True (fv_index v) (df_Pack (in_Kind i)) a)" if "a \<in> set (elems (in_Arguments i))" for a
    proof -
      have "fst (argument_check E (ok_registry k) True (fv_index v) (df_Pack (in_Kind i)) a) = None"
        using args that Inr registered by (simp add: argument_checks_def Let_def)
      then show ?thesis using argument_check_safe [of E "ok_registry k" "fv_index v" "df_Pack (in_Kind i)" a] by (metis prod.collapse)
    qed
    with Inr registered show "snd (argument_checks E k i)" by (simp add: argument_checks_def Let_def list_all_iff)
  qed (use args in \<open>simp add: argument_checks_def\<close>)
qed

section \<open>Routes\<close>

definition capability_wanted :: "Intent \<Rightarrow> CapabilityInstance \<Rightarrow> bool" where
  "capability_wanted i c \<longleftrightarrow> route_candidate i c \<and>
     VersionRange_Matches (cr_Versions (in_RequiredCapability i)) (df_Version (ci_Definition c)) = Inr True \<and>
     (cr_InstanceID (in_RequiredCapability i) = None \<or> cr_InstanceID (in_RequiredCapability i) = Some (ci_InstanceID c))"

definition route_from :: "env \<Rightarrow> Registry option \<Rightarrow> Snapshot \<Rightarrow> Intent \<Rightarrow> CapabilityInstance \<Rightarrow> Route list" where
  "route_from E reg s i c = (if \<not> capability_wanted i c then []
     else case (map_of (snapshot_bindings s) (ci_BindingID c), map_of (snapshot_services s) (ci_ServiceInstance c)) of
       (Some b, Some v) \<Rightarrow> if mostSpecific (route_errors E reg s i True c b v) = None then [route_of c b] else []
     | _ \<Rightarrow> [])"

lemma scan_capability_routes: "rs_routes (scan_capability E reg s i True st c) = rs_routes st @ route_from E reg s i c"
  by (auto simp: scan_capability_def route_from_def capability_wanted_def Let_def split: sum.splits option.splits)

lemma foldl_scan_routes:
  "rs_routes (foldl (scan_capability E reg s i True) st cs) = rs_routes st @ concat (map (route_from E reg s i) cs)"
  by (induction cs arbitrary: st) (simp_all add: scan_capability_routes)

lemma scan_routes_concat:
  "rs_routes (scan_routes E reg s i True) = concat (map (route_from E reg s i) (elems (sn_Capabilities s)))"
  by (simp add: scan_routes_def foldl_scan_routes)

lemma route_from_singleton: "length (route_from E reg s i c) \<le> 1"
  by (simp add: route_from_def split: option.splits)

lemma routes_single:
  assumes "routes E k s i True = Inr [r]"
  shows "concat (map (route_from E (ok_registry k) s i) (elems (sn_Capabilities s))) = [r]"
proof -
  let ?rs = "rs_routes (scan_routes E (ok_registry k) s i True)"
  have "mset ?rs = {#r#}"
    using assms by (auto simp: routes_def Let_def split: if_splits option.splits dest!: arg_cong [of _ _ mset])
  then show ?thesis by (simp add: scan_routes_concat)
qed

lemma route_from_mem:
  assumes "r \<in> set (route_from E reg s i c)"
  obtains b v where "capability_wanted i c" "map_of (snapshot_bindings s) (ci_BindingID c) = Some b"
    "map_of (snapshot_services s) (ci_ServiceInstance c) = Some v" "r = route_of c b"
    "\<forall>e \<in> set (route_errors E reg s i True c b v). e = None"
proof -
  obtain b v where "capability_wanted i c" "map_of (snapshot_bindings s) (ci_BindingID c) = Some b"
      "map_of (snapshot_services s) (ci_ServiceInstance c) = Some v"
    using assms by (cases "map_of (snapshot_bindings s) (ci_BindingID c)"; cases "map_of (snapshot_services s) (ci_ServiceInstance c)")
      (auto simp: route_from_def split: if_splits)
  with assms that show thesis by (auto simp: route_from_def split: if_splits)
qed

section \<open>Admission\<close>

lemma admit_evaluate_Ready:
  assumes "admit_evaluate E k s current i authority intentErr safe bytes = AdmitReady a"
  obtains route where "routes E k s i safe = Inr [route]" "a = new_admission s current i bytes route"
    "\<forall>e \<in> set (admission_errors E k s current i authority intentErr (Inr [route])). e = None"
proof -
  have ok: "mostSpecific (admission_errors E k s current i authority intentErr (routes E k s i safe)) = None"
    using assms by (auto simp: admit_evaluate_def Let_def split: option.splits)
  with assms obtain route where "routes E k s i safe = Inr [route]" "a = new_admission s current i bytes route"
    by (auto simp: admit_evaluate_def Let_def split: sum.splits list.splits)
  with ok that show thesis by simp
qed

lemma admit_check_Ready:
  assumes "admit_check E st s current i authority = AdmitReady a"
  obtains route bytes where "a = new_admission s current i bytes route"
    "CanonicalJSON (Intent_Validate E) json_of_Intent i = Inr bytes"
    "lookupIdempotency st (in_IdempotencyKey i) bytes = Inr None"
    "Snapshot_Validate E s = None" "EvaluationContext_Validate current = None"
    "validateIntent E (Some (os_kernel st)) i = (None, True)"
    "routes E (os_kernel st) s i True = Inr [route]"
    "\<forall>e \<in> set (admission_errors E (os_kernel st) s current i authority None (Inr [route])). e = None"
proof -
  let ?k = "os_kernel st"
  obtain intentErr safe where v: "validateIntent E (Some ?k) i = (intentErr, safe)" by (cases "validateIntent E (Some ?k) i")
  have pre: "Snapshot_Validate E s = None" "EvaluationContext_Validate current = None"
    using assms v by (auto simp: admit_check_def Let_def split: if_splits)
  obtain bytes' where ready: "admit_evaluate E ?k s current i authority intentErr safe bytes' = AdmitReady a"
    using assms v by (auto simp: admit_check_def Let_def split: if_splits sum.splits option.splits)
  obtain route where r: "routes E ?k s i safe = Inr [route]" "a = new_admission s current i bytes' route"
      "\<forall>e \<in> set (admission_errors E ?k s current i authority intentErr (Inr [route])). e = None"
    by (rule admit_evaluate_Ready [OF ready])
  have none: "intentErr = None" using r(3) by (simp add: admission_errors_def)
  then have safe using validateIntent_ok(3) v by blast
  obtain bytes where b: "CanonicalJSON (Intent_Validate E) json_of_Intent i = Inr bytes"
      "lookupIdempotency st (in_IdempotencyKey i) bytes = Inr None"
      "admit_evaluate E ?k s current i authority None safe bytes = AdmitReady a"
    using assms v none pre by (auto simp: admit_check_def Let_def split: if_splits sum.splits option.splits)
  obtain route' where "routes E ?k s i safe = Inr [route']" "a = new_admission s current i bytes route'"
      "\<forall>e \<in> set (admission_errors E ?k s current i authority None (Inr [route'])). e = None"
    by (rule admit_evaluate_Ready [OF b(3)])
  with that pre b v none \<open>safe\<close> show thesis by auto
qed

end
