(* ===== verification/Execution_Record.thy ===== *)
theory Execution_Record
  imports Admission
begin

text \<open>
  Execution evidence (\<^verbatim>\<open>semreg/v1/operation/record.go\<close>): \<^verbatim>\<open>Record\<close> binds one terminal record to an
  admission, \<^verbatim>\<open>RecordRejection\<close> retains a rejected intent, and a readback is checked against a later
  snapshot. \<^verbatim>\<open>Record\<close> takes the kernel's lock only to compare pointers and then holds the
  admission's lock; admissions are never removed or replaced, so the comparison stays valid.
\<close>

section \<open>Chronology of the evidence\<close>

definition wallPointChronological :: "TimePoint \<Rightarrow> TimePoint \<Rightarrow> bool \<Rightarrow> err" where
  "wallPointChronological start end strict =
     (if tp_ClockID start = ''clock.utc'' \<and> tp_ClockID end = ''clock.utc'' then wallChronological start end strict
      else wallChronological (start\<lparr>tp_ClockID := ''clock.utc''\<rparr>) (end\<lparr>tp_ClockID := ''clock.utc''\<rparr>) strict)"

definition acknowledgementAfterStart :: "TimePoint \<Rightarrow> TimePoint \<Rightarrow> err" where
  "acknowledgementAfterStart start acknowledgement =
     (if tp_ClockID start \<noteq> tp_ClockID acknowledgement then None else wallPointChronological start acknowledgement False)"

definition receiptAfterDispatch :: "EvaluationContext \<Rightarrow> Times \<Rightarrow> err" where
  "receiptAfterDispatch completed t =
     (if mp_ClockEpochID (ec_EvaluateMonotonic completed) = mp_ClockEpochID (tm_ReceiptMonotonic t)
      then op_check (op_compareUint64 (mp_Nanoseconds (tm_ReceiptMonotonic t)) (mp_Nanoseconds (ec_EvaluateMonotonic completed)) \<le> 0)
        InvalidOutcome ''readback receipt not post-dispatch''
      else op_check (wallChronological (ec_EvaluatedAt completed) (tm_ReceivedAt t) True \<noteq> None)
        InvalidOutcome ''readback receipt wall order'')"

section \<open>The route in the later snapshot\<close>

text \<open>The loops assign their flag at every matching element, so the last one decides.\<close>

fun last_match :: "('a \<Rightarrow> bool) \<Rightarrow> ('a \<Rightarrow> bool) \<Rightarrow> bool \<Rightarrow> 'a list \<Rightarrow> bool" where
  "last_match sel ok found [] = found"
| "last_match sel ok found (x # xs) = last_match sel ok (if sel x then ok x else found) xs"

definition route_source_found :: "Snapshot \<Rightarrow> Route \<Rightarrow> bool" where
  "route_source_found s r =
     last_match (\<lambda>d. sd_SourceID d = rt_SourceID r \<and> sd_SourceEpochID d = rt_SourceEpochID r)
       (\<lambda>d. sd_State d = SourceCurrent) False (elems (sn_Sources s))"

definition route_binding_found :: "Snapshot \<Rightarrow> Route \<Rightarrow> AssetID \<Rightarrow> bool" where
  "route_binding_found s r asset =
     last_match (\<lambda>b. nb_BindingID b = rt_BindingID r)
       (\<lambda>b. nb_AssetID b = asset \<and> nb_State b = BindingCurrent \<and> nb_SourceID b = rt_SourceID r) False (elems (sn_Bindings s))"

definition route_service_found :: "Snapshot \<Rightarrow> Route \<Rightarrow> AssetID \<Rightarrow> bool" where
  "route_service_found s r asset =
     last_match (\<lambda>v. si_InstanceID v = rt_ServiceInstance r)
       (\<lambda>v. si_AssetID v = asset \<and> si_BindingID v = rt_BindingID r \<and> si_SourceEpochID v = rt_SourceEpochID r \<and>
          si_DriverGeneration v = rt_DriverGeneration r \<and> si_Availability v \<noteq> AvailabilityWithdrawn) False (elems (sn_Services s))"

definition route_capability_found :: "Snapshot \<Rightarrow> Route \<Rightarrow> AssetID \<Rightarrow> bool" where
  "route_capability_found s r asset =
     last_match (\<lambda>c. ci_InstanceID c = rt_CapabilityInstance r)
       (\<lambda>c. ci_AssetID c = asset \<and> ci_ServiceInstance c = rt_ServiceInstance r \<and> ci_BindingID c = rt_BindingID r \<and>
          ci_SourceEpochID c = rt_SourceEpochID r \<and> ci_DriverGeneration c = rt_DriverGeneration r \<and>
          ci_Availability c \<noteq> AvailabilityWithdrawn) False (elems (sn_Capabilities s))"

definition link_route_error :: "Route \<Rightarrow> AssetID \<Rightarrow> IdentityLink \<Rightarrow> err" where
  "link_route_error r asset l =
     (if il_BindingID l \<noteq> rt_BindingID r then None
      else if il_AssetID l \<noteq> asset then Some (opError InvalidOutcome ''readback identity asset'')
      else op_check (il_State l \<noteq> LinkQualified) IdentityNotQualified ''readback identity link'')"

definition snapshotRouteCurrent :: "Snapshot \<Rightarrow> Route \<Rightarrow> AssetID \<Rightarrow> err" where
  "snapshotRouteCurrent s r asset =
     mostSpecific
       (map (\<lambda>f. op_check (gf_SourceID f = rt_SourceID r \<and> gf_SourceEpochID f = rt_SourceEpochID r \<and>
            gf_DriverGeneration f = rt_DriverGeneration r) StaleDriverGeneration ''readback fenced route'') (elems (sn_Fences s)) @
        concat (map (\<lambda>b. if nb_BindingID b = rt_BindingID r
            then [op_check (nb_SourceEpochID b \<noteq> rt_SourceEpochID r) StaleSourceEpoch ''readback binding epoch'',
                  op_check (nb_DriverGeneration b \<noteq> rt_DriverGeneration r \<or> nb_State b = BindingFenced)
                    StaleDriverGeneration ''readback binding generation'']
            else []) (elems (sn_Bindings s))) @
        map (link_route_error r asset) (elems (sn_IdentityLinks s)) @
        [op_check (\<not> route_source_found s r) StaleSourceEpoch ''readback source'',
         op_check (\<not> list_ex (\<lambda>l. il_BindingID l = rt_BindingID r) (elems (sn_IdentityLinks s))) IdentityNotQualified ''readback identity link'',
         op_check (\<not> route_binding_found s r asset \<or> \<not> route_service_found s r asset \<or> \<not> route_capability_found s r asset)
           InvalidOutcome ''readback current route''])"

section \<open>Readback\<close>

definition candidateByID :: "Snapshot \<Rightarrow> CandidateID \<Rightarrow> (FactCandidate \<times> FactEnvelope) option" where
  "candidateByID s cid =
     find (\<lambda>(c, f). fc_CandidateID c = cid)
       (concat (map (\<lambda>f. map (\<lambda>c. (c, f)) (elems (fe_Candidates f))) (elems (sn_Facts s))))"

definition readback_header_errors :: "ExecutionRecord \<Rightarrow> Snapshot \<Rightarrow> Readback \<Rightarrow> Route \<Rightarrow> RevisionVector \<Rightarrow> err list" where
  "readback_header_errors r s b route admitted =
     [op_check (sn_AssetID s \<noteq> in_AssetID (xr_Intent r)) InvalidOutcome ''readback asset'',
      op_check (sn_SnapshotID s \<noteq> rb_SnapshotID b \<or> sn_Revisions s \<noteq> rb_Revisions b) DanglingReference ''exact readback snapshot'',
      op_check (op_compareUint64 (rv_Semantic (rb_Revisions b)) (rv_Semantic admitted) \<le> 0) InvalidOutcome ''readback semantic revision'',
      op_check (rb_SourceEpochID b \<noteq> rt_SourceEpochID route) StaleSourceEpoch ''readback route epoch'',
      op_check (rb_DriverGeneration b \<noteq> rt_DriverGeneration route) StaleDriverGeneration ''readback route generation'',
      op_check (rb_BindingID b \<noteq> rt_BindingID route \<or> rb_SourceID b \<noteq> rt_SourceID route) InvalidOutcome ''readback route'']"

definition readback_candidate_errors :: "env \<Rightarrow> ExecutionRecord \<Rightarrow> Readback \<Rightarrow> FactCandidate \<Rightarrow> err list" where
  "readback_candidate_errors E r b c =
     [op_check (ql_Assertion (fc_Quality c) \<noteq> AssertionObserved \<or> no_source_path c) InvalidOutcome ''readback observed candidate'',
      op_check (fc_SourceEpochID c \<noteq> None \<and> fc_SourceEpochID c \<noteq> Some (rb_SourceEpochID b)) StaleSourceEpoch ''readback candidate epoch'',
      op_check (fc_DriverGeneration c \<noteq> None \<and> fc_DriverGeneration c \<noteq> Some (rb_DriverGeneration b))
        StaleDriverGeneration ''readback candidate generation'',
      op_check (fc_BindingID c \<noteq> Some (rb_BindingID b) \<or> or_SourceID (fc_Origin c) \<noteq> Some (rb_SourceID b))
        InvalidOutcome ''readback candidate route'',
      op_check (\<not> factKeyEqual E (fc_Key c) (ee_Fact (in_ExpectedEffect (xr_Intent r)))) InvalidOutcome ''readback fact'']"

text \<open>The facts of the view; none when the evaluation failed.\<close>

definition view_facts :: "error + EvaluationView \<Rightarrow> EvaluatedFact list" where
  "view_facts v = (case v of Inl _ \<Rightarrow> [] | Inr w \<Rightarrow> elems (vw_Facts w))"

definition readback_eligible :: "error + EvaluationView \<Rightarrow> FactCandidate \<Rightarrow> FactEnvelope \<Rightarrow> bool" where
  "readback_eligible view c f = (case find (\<lambda>e. ef_CandidateID e = fc_CandidateID c) (view_facts view) of
     None \<Rightarrow> False
   | Some e \<Rightarrow> ef_CandidateRevision e = fc_Revision c \<and> candidate_eligible c f e)"

definition readback_receipt_error :: "ExecutionRecord \<Rightarrow> DispatchEvidence \<Rightarrow> FactCandidate \<Rightarrow> err" where
  "readback_receipt_error r d c = (case xr_Outcome r of
     OutcomeApplied \<Rightarrow> (case de_Completed d of
         None \<Rightarrow> Some (opError InvalidOutcome ''readback dispatch completion'')
       | Some completed \<Rightarrow> receiptAfterDispatch completed (fc_Times c))
   | OutcomeConflict \<Rightarrow> receiptAfterDispatch (de_Started d) (fc_Times c)
   | _ \<Rightarrow> None)"

definition resolved_candidate :: "Snapshot \<Rightarrow> Readback \<Rightarrow> (FactCandidate \<times> FactEnvelope) option" where
  "resolved_candidate s b = (case candidateByID s (rb_CandidateID b) of
     Some (c, f) \<Rightarrow> if fc_Revision c = rb_CandidateRevision b then Some (c, f) else None
   | None \<Rightarrow> None)"

definition readback_errors :: "env \<Rightarrow> OperationKernel \<Rightarrow> ExecutionRecord \<Rightarrow> Snapshot \<Rightarrow> Readback \<Rightarrow> Route \<Rightarrow> RevisionVector \<Rightarrow>
    DispatchEvidence \<Rightarrow> err list" where
  "readback_errors E k r s b route admitted d =
     (let view = EvaluateSnapshot E s (rb_Evaluation b) in
      [snapshotPackError E k s] @
      readback_header_errors r s b route admitted @
      (case resolved_candidate s b of
         None \<Rightarrow> [Some (opError DanglingReference ''readback candidate'')]
       | Some (c, f) \<Rightarrow> readback_candidate_errors E r b c) @
      [snapshotRouteCurrent s route (in_AssetID (xr_Intent r)),
       (case view of Inl _ \<Rightarrow> Some (opError InvalidOutcome ''readback evaluation'') | Inr _ \<Rightarrow> None)] @
      (case resolved_candidate s b of
         None \<Rightarrow> []
       | Some (c, f) \<Rightarrow> [op_check (\<not> readback_eligible view c f) InvalidOutcome ''readback eligibility'',
           readback_receipt_error r d c]))"

definition readback_hook_error :: "OperationPackValidator \<Rightarrow> ExecutionRecord \<Rightarrow> Readback \<Rightarrow> FactCandidate \<Rightarrow> err" where
  "readback_hook_error hook r b c = (case ov_EvaluateReadback hook (xr_Intent r) c of
     Inl _ \<Rightarrow> Some (opError InvalidOutcome ''pack readback evaluation'')
   | Inr relation \<Rightarrow> op_check (relation \<noteq> rb_Relation b) InvalidOutcome ''readback relation'')"

definition validateReadback :: "env \<Rightarrow> OperationKernel \<Rightarrow> ExecutionRecord \<Rightarrow> Snapshot \<Rightarrow> bool \<Rightarrow> err" where
  "validateReadback E k r s bound = (case (xr_Readback r, xr_Route r, xr_AdmittedRevision r, xr_Dispatch r) of
     (Some b, Some route, Some admitted, Some d) \<Rightarrow>
       (let errs = readback_errors E k r s b route admitted d in
        case map_of (ok_validators k) (df_Pack (in_Kind (xr_Intent r))) of
          None \<Rightarrow> mostSpecific (errs @ [Some (opError DefinitionOwnerMissing ''readback operation pack'')])
        | Some hook \<Rightarrow>
            if bound \<and> mostSpecific errs = None
            then (case resolved_candidate s b of
                Some (c, f) \<Rightarrow> mostSpecific (errs @ [readback_hook_error hook r b c])
              | None \<Rightarrow> mostSpecific errs)
            else mostSpecific errs)
   | _ \<Rightarrow> mostSpecific [snapshotPackError E k s, Some (opError InvalidOutcome ''readback context'')])"

section \<open>Record and RecordRejection\<close>

definition validateRecordInputs :: "env \<Rightarrow> ExecutionRecord \<Rightarrow> Snapshot option \<Rightarrow> err \<times> err" where
  "validateRecordInputs E r s =
     (ExecutionRecord_Validate E r, if xr_Readback r \<noteq> None then opt_err (Snapshot_Validate E) s else None)"

text \<open>The errors that bind a record to its admission.\<close>

definition record_binding_errors :: "env \<Rightarrow> OperationKernel \<Rightarrow> Admission \<Rightarrow> ExecutionRecord \<Rightarrow> Snapshot option \<Rightarrow> bool \<Rightarrow> err \<Rightarrow> err \<Rightarrow>
    err list" where
  "record_binding_errors E k a r later owned recordErr snapshotErr =
     [sameRecordAdmission E r a,
      opt_err (\<lambda>d. contextsChronological (ad_admittedContext a) (de_Started d) False) (xr_Dispatch r),
      (case (xr_Acknowledgement r, xr_Dispatch r) of
         (Some ack, Some d) \<Rightarrow> acknowledgementAfterStart (ec_EvaluatedAt (de_Started d)) (ak_At ack)
       | _ \<Rightarrow> None),
      (if xr_Readback r = None then None
       else case later of
         None \<Rightarrow> Some (opError DanglingReference ''readback snapshot'')
       | Some s \<Rightarrow> if snapshotErr \<noteq> None then None
           else validateReadback E k r s (owned \<and> sameRecordAdmission E r a = None \<and> recordErr = None))]"

definition store_record :: "op_state \<Rightarrow> admission_ref \<Rightarrow> ExecutionRecord \<Rightarrow> string \<Rightarrow> op_state" where
  "store_record st ref r canonical = st\<lparr>os_heap := (os_heap st)[ref := (os_heap st ! ref)\<lparr>ad_record := Some r, ad_recordBytes := canonical\<rparr>]\<rparr>"

definition Record :: "env \<Rightarrow> op_state \<Rightarrow> admission_ref option \<Rightarrow> ExecutionRecord \<Rightarrow> Snapshot option \<Rightarrow>
    op_state \<times> (error + ExecutionRecord)" where
  "Record E st admission r later =
     (let (recordErr, snapshotErr) = validateRecordInputs E r later in
      case admission of
        None \<Rightarrow> (st, Inl (the (mostSpecific [recordErr, snapshotErr, Some (opError InvalidValue ''execution admission'')])))
      | Some ref \<Rightarrow>
          (let k = os_kernel st; a = os_heap st ! ref;
               owned = (map_of (ok_admissions k) (in_IdempotencyKey (xr_Intent r)) = Some ref);
               canonical = CanonicalJSON (ExecutionRecord_Validate E) json_of_ExecutionRecord r;
               errs = [recordErr, snapshotErr, op_check (\<not> owned) DanglingReference ''execution admission'',
                 op_check (ad_record a \<noteq> None) SequenceConflict ''idempotent outcome bytes''] @
                 record_binding_errors E k a r later owned recordErr snapshotErr
           in case (ad_record a, recordErr = None \<and> snapshotErr = None, canonical) of
                (Some prior, True, Inl e) \<Rightarrow> (st, Inl e)
              | (Some prior, True, Inr text) \<Rightarrow>
                  if owned \<and> ad_recordBytes a = text then (st, Inr prior) else (st, Inl (the (mostSpecific errs)))
              | _ \<Rightarrow> (case mostSpecific errs of
                  Some e \<Rightarrow> (st, Inl e)
                | None \<Rightarrow> (case canonical of
                    Inl e \<Rightarrow> (st, Inl e)
                  | Inr text \<Rightarrow> (store_record st ref r text, Inr r)))))"

definition zero_route :: Route where
  "zero_route = \<lparr>rt_CapabilityInstance = [], rt_ServiceInstance = [], rt_BindingID = [], rt_SourceID = [], rt_SourceEpochID = [],
     rt_DriverGeneration = []\<rparr>"

definition rejected_admission :: "Intent \<Rightarrow> string \<Rightarrow> ExecutionRecord \<Rightarrow> string \<Rightarrow> Admission" where
  "rejected_admission i intentBytes r recordBytes =
     (let t = \<lparr>tp_UnixNanoseconds = [], tp_ClockID = [], tp_UncertaintyNS = []\<rparr> in
      \<lparr>ad_intent = i, ad_intentBytes = intentBytes, ad_admittedAt = t,
       ad_admittedContext = \<lparr>ec_EvaluatedAt = t, ec_EvaluateMonotonic = \<lparr>mp_ClockEpochID = [], mp_Nanoseconds = []\<rparr>\<rparr>,
       ad_admittedRevision = \<lparr>rv_Semantic = [], rv_Identity = [], rv_Facts = [], rv_Services = [], rv_Capabilities = []\<rparr>,
       ad_route = zero_route, ad_hasRoute = False, ad_record = Some r, ad_recordBytes = recordBytes\<rparr>)"

definition rejection_record :: "Intent \<Rightarrow> ErrorID \<Rightarrow> EvidenceRef slice \<Rightarrow> ExecutionRecord" where
  "rejection_record i eid evidence = \<lparr>xr_Contract = ContractOperationV1, xr_Intent = i, xr_AdmittedAt = None,
     xr_AdmittedRevision = None, xr_Route = None, xr_Dispatch = None, xr_Acknowledgement = None, xr_Readback = None,
     xr_Outcome = OutcomeRejected, xr_ErrorID = Some eid, xr_OutcomeEvidence = Some (elems evidence)\<rparr>"

definition RecordRejection :: "env \<Rightarrow> op_state \<Rightarrow> Intent \<Rightarrow> ErrorID \<Rightarrow> EvidenceRef slice \<Rightarrow>
    op_state \<times> (error + ExecutionRecord)" where
  "RecordRejection E st i eid evidence =
     (let r = rejection_record i eid evidence; (recordErr, _) = validateRecordInputs E r None in
      case recordErr of
        Some e \<Rightarrow> (st, Inl e)
      | None \<Rightarrow> (case (CanonicalJSON (Intent_Validate E) json_of_Intent i,
                        CanonicalJSON (ExecutionRecord_Validate E) json_of_ExecutionRecord r) of
          (Inl e, _) \<Rightarrow> (st, Inl e)
        | (Inr _, Inl e) \<Rightarrow> (st, Inl e)
        | (Inr intentBytes, Inr recordBytes) \<Rightarrow>
            (case map_of (ok_admissions (os_kernel st)) (in_IdempotencyKey i) of
               Some prior \<Rightarrow>
                 (let a = os_heap st ! prior in
                  if ad_intentBytes a \<noteq> intentBytes then (st, Inl (opError SequenceConflict ''idempotency key''))
                  else case ad_record a of
                    Some p \<Rightarrow> (st, if ad_recordBytes a = recordBytes then Inr p
                       else Inl (opError SequenceConflict ''idempotent outcome bytes''))
                  | None \<Rightarrow> (st, Inl (opError SequenceConflict ''idempotent outcome bytes'')))
             | None \<Rightarrow>
                 if at_capacity (os_kernel st) then (st, Inl (opError BoundsExceeded ''operation retention capacity''))
                 else (allocate st (in_IdempotencyKey i) (rejected_admission i intentBytes r recordBytes), Inr r))))"

end
