(* ===== verification/Operation_Ledger.thy ===== *)
theory Operation_Ledger
  imports Admission_Laws Execution_Record Runs
begin

text \<open>
  The operation kernel under concurrent calls. A system state is the kernel with its heap and the
  admissions that calls of \<^verbatim>\<open>Admit\<close> have prepared but not yet installed; every step is one critical
  section. The abstract specification is a write-once ledger: a key is entered at most once, and an
  entry is closed by at most one outcome. The last part shows that every step of the kernel is a
  step of the ledger or leaves the ledger alone.
\<close>

section \<open>Steps\<close>

abbreviation intent_text :: "env \<Rightarrow> Intent \<Rightarrow> error + string" where
  "intent_text E \<equiv> CanonicalJSON (Intent_Validate E) json_of_Intent"

abbreviation record_text :: "env \<Rightarrow> ExecutionRecord \<Rightarrow> error + string" where
  "record_text E \<equiv> CanonicalJSON (ExecutionRecord_Validate E) json_of_ExecutionRecord"

type_synonym op_system = "op_state \<times> Admission multiset"

inductive op_step :: "env \<Rightarrow> op_system \<Rightarrow> op_system \<Rightarrow> bool" for E where
  admit_begins: "admit_check E st s current i authority = AdmitReady a \<Longrightarrow> op_step E (st, P) (st, add_mset a P)"
| admit_ends: "admit_install st a = (st', result) \<Longrightarrow> op_step E (st, add_mset a P) (st', P)"
| records: "Record E st (Some ref) r later = (st', outcome) \<Longrightarrow> ref < length (os_heap st) \<Longrightarrow> op_step E (st, P) (st', P)"
| rejects: "RecordRejection E st i eid evidence = (st', outcome) \<Longrightarrow> op_step E (st, P) (st', P)"

definition initial_system :: "OperationKernel \<Rightarrow> op_system" where
  "initial_system k = (\<lparr>os_kernel = k, os_heap = []\<rparr>, {#})"

section \<open>What a call can change\<close>

lemma admit_install_cases:
  assumes "admit_install st a = (st', result)"
  obtains (same) "st' = st"
  | (new) "map_of (ok_admissions (os_kernel st)) (in_IdempotencyKey (ad_intent a)) = None" "\<not> at_capacity (os_kernel st)"
      "st' = allocate st (in_IdempotencyKey (ad_intent a)) a" "result = Inr (length (os_heap st))"
  using assms by (auto simp: admit_install_def split: option.splits if_splits)

lemma RecordRejection_cases:
  assumes "RecordRejection E st i eid evidence = (st', outcome)"
  obtains (same) "st' = st"
  | (new) intentBytes recordBytes where "map_of (ok_admissions (os_kernel st)) (in_IdempotencyKey i) = None"
      "\<not> at_capacity (os_kernel st)" "intent_text E i = Inr intentBytes"
      "record_text E (rejection_record i eid evidence) = Inr recordBytes"
      "st' = allocate st (in_IdempotencyKey i) (rejected_admission i intentBytes (rejection_record i eid evidence) recordBytes)"
proof (cases "st' = st")
  case False
  let ?r = "rejection_record i eid evidence"
  obtain intentBytes recordBytes where bytes: "intent_text E i = Inr intentBytes" "record_text E ?r = Inr recordBytes"
    using assms False unfolding RecordRejection_def validateRecordInputs_def Let_def
    by (cases "ExecutionRecord_Validate E ?r"; cases "intent_text E i"; cases "record_text E ?r") simp_all
  moreover have valid: "ExecutionRecord_Validate E ?r = None" using bytes(2) by (simp add: CanonicalJSON_def split: option.splits)
  moreover have "map_of (ok_admissions (os_kernel st)) (in_IdempotencyKey i) = None"
    using assms False bytes valid unfolding RecordRejection_def validateRecordInputs_def Let_def
    by (cases "map_of (ok_admissions (os_kernel st)) (in_IdempotencyKey i)") (simp_all split: if_splits option.splits)
  moreover from this have "\<not> at_capacity (os_kernel st) \<and>
      st' = allocate st (in_IdempotencyKey i) (rejected_admission i intentBytes ?r recordBytes)"
    using assms False bytes valid unfolding RecordRejection_def validateRecordInputs_def Let_def by (simp split: if_splits)
  ultimately show thesis using new by blast
qed (rule same)

lemma Record_cases:
  assumes "Record E st (Some ref) r later = (st', outcome)"
  obtains (same) "st' = st"
  | (stored) canonical where "record_text E r = Inr canonical" "outcome = Inr r" "st' = store_record st ref r canonical"
      "map_of (ok_admissions (os_kernel st)) (in_IdempotencyKey (xr_Intent r)) = Some ref"
      "ad_record (os_heap st ! ref) = None"
      "\<forall>e \<in> set (record_binding_errors E (os_kernel st) (os_heap st ! ref) r later True None None). e = None"
      "xr_Readback r \<noteq> None \<longrightarrow> (\<exists>s. later = Some s \<and> Snapshot_Validate E s = None)"
proof (cases "st' = st")
  case False
  let ?a = "os_heap st ! ref" and ?owned = "map_of (ok_admissions (os_kernel st)) (in_IdempotencyKey (xr_Intent r)) = Some ref"
  obtain recordErr snapshotErr where v: "validateRecordInputs E r later = (recordErr, snapshotErr)"
    by (cases "validateRecordInputs E r later")
  let ?errs = "[recordErr, snapshotErr, op_check (\<not> ?owned) DanglingReference ''execution admission'',
      op_check (ad_record ?a \<noteq> None) SequenceConflict ''idempotent outcome bytes''] @
      record_binding_errors E (os_kernel st) ?a r later ?owned recordErr snapshotErr"
  have ok: "mostSpecific ?errs = None"
    and res: "\<exists>canonical. record_text E r = Inr canonical \<and> st' = store_record st ref r canonical \<and> outcome = Inr r"
    using assms False v by (auto simp: Record_def Let_def split: option.splits sum.splits bool.splits if_splits)
  then have "recordErr = None" "snapshotErr = None" ?owned "ad_record ?a = None"
      "\<forall>e \<in> set (record_binding_errors E (os_kernel st) ?a r later True None None). e = None"
    by auto
  moreover have "\<exists>s. later = Some s \<and> Snapshot_Validate E s = None" if "xr_Readback r \<noteq> None"
  proof -
    have "later \<noteq> None" using calculation(5) that by (cases later) (auto simp: record_binding_errors_def)
    moreover have "snapshotErr = opt_err (Snapshot_Validate E) later" using v that by (simp add: validateRecordInputs_def)
    ultimately show ?thesis using \<open>snapshotErr = None\<close> by (cases later) (simp_all add: opt_err_def)
  qed
  ultimately show thesis using stored res by blast
qed (rule same)

section \<open>The invariant\<close>

definition admission_ok :: "env \<Rightarrow> Admission \<Rightarrow> bool" where
  "admission_ok E a \<longleftrightarrow> intent_text E (ad_intent a) = Inr (ad_intentBytes a) \<and>
     (case ad_record a of
        None \<Rightarrow> ad_hasRoute a
      | Some r \<Rightarrow> record_text E r = Inr (ad_recordBytes a) \<and>
          (if ad_hasRoute a then sameRecordAdmission E r a = None else xr_Outcome r = OutcomeRejected))"

definition op_inv :: "env \<Rightarrow> op_state \<Rightarrow> bool" where
  "op_inv E st \<longleftrightarrow> distinct (map fst (ok_admissions (os_kernel st))) \<and> distinct (map snd (ok_admissions (os_kernel st))) \<and>
     (\<forall>key r. map_of (ok_admissions (os_kernel st)) key = Some r \<longrightarrow>
        r < length (os_heap st) \<and> in_IdempotencyKey (ad_intent (os_heap st ! r)) = key) \<and>
     int (length (ok_admissions (os_kernel st))) \<le> ok_maxRetainedOperations (os_kernel st) \<and>
     (\<forall>a \<in> set (os_heap st). admission_ok E a)"

definition sys_inv :: "env \<Rightarrow> op_system \<Rightarrow> bool" where
  "sys_inv E c \<longleftrightarrow> op_inv E (fst c) \<and> (\<forall>a \<in># snd c. admission_ok E a \<and> ad_record a = None)"

lemma allocate_inv:
  assumes inv: "op_inv E st" and new: "map_of (ok_admissions (os_kernel st)) key = None" "\<not> at_capacity (os_kernel st)"
    and ok: "admission_ok E a" "in_IdempotencyKey (ad_intent a) = key"
  shows "op_inv E (allocate st key a)"
proof -
  let ?m = "ok_admissions (os_kernel st)"
  have upd: "AList.update key (length (os_heap st)) ?m = ?m @ [(key, length (os_heap st))]"
    using new(1) by (intro update_new) (simp add: map_of_eq_None_iff)
  have refs: "\<forall>r \<in> snd ` set ?m. r < length (os_heap st)"
    using inv by (fastforce simp: op_inv_def)
  have "length (os_heap st) \<notin> snd ` set ?m" using refs by blast
  moreover have "key \<notin> fst ` set ?m" using new(1) by (simp add: map_of_eq_None_iff)
  moreover have "int (length ?m) + 1 \<le> ok_maxRetainedOperations (os_kernel st)" using new(2) by (simp add: at_capacity_def)
  moreover have "r < length (os_heap (allocate st key a)) \<and> in_IdempotencyKey (ad_intent (os_heap (allocate st key a) ! r)) = k"
    if "map_of (AList.update key (length (os_heap st)) ?m) k = Some r" for k r
    using that inv ok(2) by (cases "k = key") (auto simp: allocate_def update_conv' nth_append op_inv_def less_Suc_eq)
  ultimately show ?thesis using inv ok(1) upd by (auto simp: op_inv_def allocate_def)
qed

lemma sameRecordAdmission_outcome [simp]:
  "sameRecordAdmission E r (a\<lparr>ad_record := x, ad_recordBytes := t\<rparr>) = sameRecordAdmission E r a"
  by (simp add: sameRecordAdmission_def split: sum.split)

lemma store_record_inv:
  assumes inv: "op_inv E st" and ref: "ref < length (os_heap st)"
    and r: "record_text E r = Inr canonical" "ad_record (os_heap st ! ref) = None" "sameRecordAdmission E r (os_heap st ! ref) = None"
  shows "op_inv E (store_record st ref r canonical)"
proof -
  let ?a = "(os_heap st ! ref)\<lparr>ad_record := Some r, ad_recordBytes := canonical\<rparr>"
  have "admission_ok E (os_heap st ! ref)" using inv ref by (simp add: op_inv_def)
  then have "admission_ok E ?a" using r by (simp add: admission_ok_def)
  then have "\<forall>a \<in> set ((os_heap st)[ref := ?a]). admission_ok E a"
    using inv set_update_subset_insert [of "os_heap st" ref ?a] by (auto simp: op_inv_def)
  then show ?thesis using inv ref by (auto simp: op_inv_def store_record_def nth_list_update)
qed

lemma prepared_ok:
  assumes "admit_check E st s current i authority = AdmitReady a"
  shows "admission_ok E a" "ad_record a = None"
proof -
  obtain route bytes where "a = new_admission s current i bytes route" "intent_text E i = Inr bytes"
    by (rule admit_check_Ready [OF assms])
  then show "admission_ok E a" "ad_record a = None" by (simp_all add: admission_ok_def new_admission_def)
qed

lemma rejected_ok:
  assumes "intent_text E i = Inr intentBytes" "record_text E (rejection_record i eid evidence) = Inr recordBytes"
  shows "admission_ok E (rejected_admission i intentBytes (rejection_record i eid evidence) recordBytes)"
    and "in_IdempotencyKey (ad_intent (rejected_admission i intentBytes r recordBytes)) = in_IdempotencyKey i"
  using assms by (simp_all add: admission_ok_def rejected_admission_def rejection_record_def Let_def)

lemma op_step_inv:
  assumes "sys_inv E c" "op_step E c c'"
  shows "sys_inv E c'"
  using assms(2, 1)
proof (induction rule: op_step.induct)
  case (admit_begins st s current i authority a P)
  then show ?case using prepared_ok [OF admit_begins.hyps] by (simp add: sys_inv_def)
next
  case (admit_ends st a st' result P)
  then have inv: "op_inv E st" "admission_ok E a" by (simp_all add: sys_inv_def)
  from admit_ends.hyps have "op_inv E st'"
  proof (cases rule: admit_install_cases)
    case new
    with allocate_inv [OF inv(1) new(1, 2) inv(2)] show ?thesis by simp
  qed (use inv in simp)
  with admit_ends.prems show ?case by (simp add: sys_inv_def)
next
  case (records st ref r later st' outcome P)
  then have inv: "op_inv E st" by (simp add: sys_inv_def)
  from records.hyps(1) have "op_inv E st'"
  proof (cases rule: Record_cases)
    case (stored canonical)
    then have "sameRecordAdmission E r (os_heap st ! ref) = None" by (simp add: record_binding_errors_def)
    with store_record_inv [OF inv records.hyps(2) stored(1, 5)] stored(3) show ?thesis by simp
  qed (use inv in simp)
  with records.prems show ?case by (simp add: sys_inv_def)
next
  case (rejects st i eid evidence st' outcome P)
  then have inv: "op_inv E st" by (simp add: sys_inv_def)
  from rejects.hyps have "op_inv E st'"
  proof (cases rule: RecordRejection_cases)
    case (new intentBytes recordBytes)
    with allocate_inv [OF inv new(1, 2) rejected_ok [OF new(3, 4)]] show ?thesis by simp
  qed (use inv in simp)
  with rejects.prems show ?case by (simp add: sys_inv_def)
qed

section \<open>What never changes\<close>

text \<open>Registered packs and the capacity are fixed, a retained key keeps its admission object, an
  admission object keeps everything but its outcome, and an outcome is final.\<close>

definition same_admission :: "Admission \<Rightarrow> Admission \<Rightarrow> bool" where
  "same_admission a b \<longleftrightarrow> b\<lparr>ad_record := ad_record a, ad_recordBytes := ad_recordBytes a\<rparr> = a \<and> (ad_record a \<noteq> None \<longrightarrow> b = a)"

definition op_keeps :: "op_state \<Rightarrow> op_state \<Rightarrow> bool" where
  "op_keeps st st' \<longleftrightarrow> ok_registry (os_kernel st') = ok_registry (os_kernel st) \<and>
     ok_validators (os_kernel st') = ok_validators (os_kernel st) \<and>
     ok_maxRetainedOperations (os_kernel st') = ok_maxRetainedOperations (os_kernel st) \<and>
     map_of (ok_admissions (os_kernel st)) \<subseteq>\<^sub>m map_of (ok_admissions (os_kernel st')) \<and>
     length (os_heap st) \<le> length (os_heap st') \<and>
     (\<forall>r < length (os_heap st). same_admission (os_heap st ! r) (os_heap st' ! r))"

lemma same_admission_refl [simp]: "same_admission a a"
  by (simp add: same_admission_def)

lemma same_admission_trans: "same_admission a b \<Longrightarrow> same_admission b c \<Longrightarrow> same_admission a c"
  by (cases a; cases b; cases c) (auto simp: same_admission_def)

lemma op_keeps_refl [simp]: "op_keeps st st"
  by (simp add: op_keeps_def)

lemma op_keeps_trans: "op_keeps st st' \<Longrightarrow> op_keeps st' st'' \<Longrightarrow> op_keeps st st''"
  by (auto simp: op_keeps_def intro: map_le_trans) (meson order_less_le_trans same_admission_trans)

lemma allocate_keeps: "map_of (ok_admissions (os_kernel st)) key = None \<Longrightarrow> op_keeps st (allocate st key a)"
  by (auto simp: op_keeps_def allocate_def map_le_def update_conv nth_append)

lemma store_record_keeps: "ad_record (os_heap st ! ref) = None \<Longrightarrow> op_keeps st (store_record st ref r canonical)"
  by (cases "ref < length (os_heap st)") (auto simp: op_keeps_def store_record_def nth_list_update same_admission_def)

lemma op_step_keeps: "op_step E c c' \<Longrightarrow> op_keeps (fst c) (fst c')"
proof (induction rule: op_step.induct)
  case (admit_ends st a st' result P)
  then show ?case by (cases rule: admit_install_cases) (simp_all add: allocate_keeps)
next
  case (records st ref r later st' outcome P)
  from records(1) show ?case by (cases rule: Record_cases) (simp_all add: store_record_keeps)
next
  case (rejects st i eid evidence st' outcome P)
  then show ?case by (cases rule: RecordRejection_cases) (simp_all add: allocate_keeps)
qed simp

interpretation operations: stepwise "op_step E" "sys_inv E" "\<lambda>c c'. op_keeps (fst c) (fst c')" for E
proof
  show "op_keeps (fst c) (fst c')" if "op_step E c c'" for c c' using that by (rule op_step_keeps)
  show "op_keeps (fst c) (fst c'')" if "op_keeps (fst c) (fst c')" "op_keeps (fst c') (fst c'')" for c c' c'' :: op_system
    using that by (rule op_keeps_trans)
qed (auto intro: op_step_inv)

lemma initial_inv:
  assumes "NewKernelWithOptions n validators = Inr k"
  shows "sys_inv E (initial_system k)"
  using assms by (auto simp: NewKernelWithOptions_def sys_inv_def op_inv_def initial_system_def split: if_splits sum.splits)

section \<open>The abstract ledger\<close>

type_synonym ledger = "IdempotencyKey \<rightharpoonup> string \<times> string option"

inductive ledger_step :: "int \<Rightarrow> ledger \<Rightarrow> ledger \<Rightarrow> bool" for capacity where
  enters: "L key = None \<Longrightarrow> int (card (dom L)) < capacity \<Longrightarrow> ledger_step capacity L (L(key \<mapsto> (intent, outcome)))"
| closes: "L key = Some (intent, None) \<Longrightarrow> ledger_step capacity L (L(key \<mapsto> (intent, Some outcome)))"

definition entry_of :: "Admission \<Rightarrow> string \<times> string option" where
  "entry_of a = (ad_intentBytes a, if ad_record a = None then None else Some (ad_recordBytes a))"

definition ledger_of :: "op_state \<Rightarrow> ledger" where
  "ledger_of st key = map_option (\<lambda>r. entry_of (os_heap st ! r)) (map_of (ok_admissions (os_kernel st)) key)"

lemma dom_ledger_of: "dom (ledger_of st) = dom (map_of (ok_admissions (os_kernel st)))"
  by (auto simp: ledger_of_def)

lemma allocate_ledger:
  assumes inv: "op_inv E st" and new: "map_of (ok_admissions (os_kernel st)) key = None" "\<not> at_capacity (os_kernel st)"
  shows "ledger_step (ok_maxRetainedOperations (os_kernel st)) (ledger_of st) (ledger_of (allocate st key a))"
proof -
  have "ledger_of (allocate st key a) = (ledger_of st)(key \<mapsto> entry_of a)"
  proof
    fix x
    have "r < length (os_heap st)" if "map_of (ok_admissions (os_kernel st)) x = Some r" for r
      using inv that by (simp add: op_inv_def)
    then show "ledger_of (allocate st key a) x = ((ledger_of st)(key \<mapsto> entry_of a)) x"
      by (cases "map_of (ok_admissions (os_kernel st)) x") (auto simp: ledger_of_def allocate_def update_conv nth_append)
  qed
  moreover have "int (card (dom (ledger_of st))) < ok_maxRetainedOperations (os_kernel st)"
  proof -
    have "card (dom (ledger_of st)) \<le> length (ok_admissions (os_kernel st))"
      unfolding dom_ledger_of dom_map_of_conv_image_fst by (metis card_length length_map list.set_map)
    with new(2) show ?thesis by (simp add: at_capacity_def)
  qed
  moreover have "ledger_of st key = None" using new(1) by (simp add: ledger_of_def)
  ultimately show ?thesis using ledger_step.enters [of "ledger_of st" key _ "fst (entry_of a)" "snd (entry_of a)"] by simp
qed

lemma store_record_ledger:
  assumes inv: "op_inv E st" and key: "map_of (ok_admissions (os_kernel st)) key = Some ref" and "ad_record (os_heap st ! ref) = None"
  shows "ledger_step capacity (ledger_of st) (ledger_of (store_record st ref r canonical))"
proof -
  let ?m = "ok_admissions (os_kernel st)"
  have ref: "ref < length (os_heap st)" using inv key by (simp add: op_inv_def)
  have "ledger_of (store_record st ref r canonical) = (ledger_of st)(key \<mapsto> (ad_intentBytes (os_heap st ! ref), Some canonical))"
  proof
    fix x
    have "x = key" if "map_of ?m x = Some ref" using inv key that unfolding op_inv_def by metis
    then show "ledger_of (store_record st ref r canonical) x =
        ((ledger_of st)(key \<mapsto> (ad_intentBytes (os_heap st ! ref), Some canonical))) x"
      using key ref by (cases "map_of ?m x") (auto simp: ledger_of_def store_record_def nth_list_update entry_of_def)
  qed
  moreover have "ledger_of st key = Some (ad_intentBytes (os_heap st ! ref), None)"
    using key assms(3) by (simp add: ledger_of_def entry_of_def)
  ultimately show ?thesis using ledger_step.closes [of "ledger_of st" key "ad_intentBytes (os_heap st ! ref)" capacity canonical]
    by simp
qed

lemma op_step_ledger:
  assumes "sys_inv E c" "op_step E c c'"
  shows "ledger_of (fst c') = ledger_of (fst c) \<or>
    ledger_step (ok_maxRetainedOperations (os_kernel (fst c))) (ledger_of (fst c)) (ledger_of (fst c'))"
  using assms(2, 1)
proof (induction rule: op_step.induct)
  case (admit_ends st a st' result P)
  then have inv: "op_inv E st" by (simp add: sys_inv_def)
  from admit_ends(1) show ?case by (cases rule: admit_install_cases) (simp_all add: allocate_ledger [OF inv])
next
  case (records st ref r later st' outcome P)
  then have inv: "op_inv E st" by (simp add: sys_inv_def)
  from records(1) show ?case by (cases rule: Record_cases) (simp_all add: store_record_ledger [OF inv])
next
  case (rejects st i eid evidence st' outcome P)
  then have inv: "op_inv E st" by (simp add: sys_inv_def)
  from rejects(1) show ?case by (cases rule: RecordRejection_cases) (simp_all add: allocate_ledger [OF inv])
qed simp

end
