(* ===== verification/Operation_Properties.thy ===== *)
theory Operation_Properties
  imports Operation_Ledger
begin

text \<open>
  Properties of the operation kernel: idempotent admission under concurrent calls, the ledger
  refinement, what an admitted route and a recorded outcome rest on, and the bound on causal chains.
\<close>

section \<open>Admission\<close>

lemma Admit_steps:
  assumes "Admit E st s current i authority = (st', result)"
  shows "(op_step E)\<^sup>*\<^sup>* (st, P) (st', P)"
proof (cases "admit_check E st s current i authority")
  case (AdmitReady a)
  with assms have "admit_install st a = (st', result)" by (simp add: Admit_def)
  with admit_begins [OF AdmitReady] show ?thesis using admit_ends by (meson converse_rtranclp_into_rtranclp r_into_rtranclp)
qed (use assms in \<open>simp add: Admit_def\<close>)

text \<open>What an accepted call leaves behind, whether it found or installed its admission.\<close>

lemma Admit_retained:
  assumes inv: "op_inv E st" and "Admit E st s current i authority = (st', Inr ref)"
  obtains bytes where "validateIntent E (Some (os_kernel st)) i = (None, True)" "intent_text E i = Inr bytes"
    "map_of (ok_admissions (os_kernel st')) (in_IdempotencyKey i) = Some ref" "ref < length (os_heap st')"
    "ad_intentBytes (os_heap st' ! ref) = bytes"
proof (cases "admit_check E st s current i authority")
  case (AdmitReady a)
  obtain route bytes where a: "a = new_admission s current i bytes route" "intent_text E i = Inr bytes"
      "validateIntent E (Some (os_kernel st)) i = (None, True)"
    by (rule admit_check_Ready [OF AdmitReady])
  have "admit_install st a = (st', Inr ref)" using assms(2) AdmitReady by (simp add: Admit_def)
  then show thesis using a inv that
    by (auto simp: admit_install_def new_admission_def allocate_def op_inv_def update_conv nth_append split: option.splits if_splits)
next
  case (AdmitDone result)
  then have st: "st' = st" "result = Inr ref" using assms(2) by (simp_all add: Admit_def)
  let ?k = "os_kernel st"
  obtain intentErr safe where v: "validateIntent E (Some ?k) i = (intentErr, safe)" by (cases "validateIntent E (Some ?k) i")
  have "\<not> (\<exists>x. admit_evaluate E ?k s current i authority x safe b = AdmitDone (Inr ref))" for b
    by (auto simp: admit_evaluate_def Let_def split: option.splits sum.splits list.splits)
  then obtain bytes where b: "intentErr = None" "intent_text E i = Inr bytes" "lookupIdempotency st (in_IdempotencyKey i) bytes = Inr (Some ref)"
    using AdmitDone v st(2) by (auto simp: admit_check_def Let_def split: if_splits sum.splits option.splits)
  from b(1) have "safe" using v validateIntent_ok(3) by blast
  with b v inv that st show thesis
    by (auto simp: lookupIdempotency_def op_inv_def split: option.splits if_splits)
qed

lemma same_admission_fields:
  "same_admission a b \<Longrightarrow> ad_intent b = ad_intent a \<and> ad_intentBytes b = ad_intentBytes a \<and> ad_route b = ad_route a"
  by (cases a; cases b) (simp add: same_admission_def)

lemma validateIntent_kernel:
  assumes "ok_registry k' = ok_registry k" "ok_validators k' = ok_validators k"
  shows "validateIntent E (Some k') i = validateIntent E (Some k) i"
  unfolding validateIntent_def errors_before_hook_def argument_checks_def option.case assms by (rule refl)

text \<open>C20: Admission is idempotent under concurrency: once an intent was admitted, admitting it again with
  any valid snapshot, context and authority returns the same admission and changes nothing,
  whatever calls ran before, in between and at the same time.\<close>

theorem admission_is_idempotent:
  assumes "NewKernelWithOptions n validators = Inr k" "(op_step E)\<^sup>*\<^sup>* (initial_system k) (st, P)"
    and "Admit E st s current i authority = (st1, Inr ref)" "(op_step E)\<^sup>*\<^sup>* (st1, P) (st2, P2)"
    and "Snapshot_Validate E s' = None" "EvaluationContext_Validate current' = None"
  shows "Admit E st2 s' current' i authority' = (st2, Inr ref)"
proof -
  have inv: "sys_inv E (st, P)" using operations.steps_inv [OF assms(2) initial_inv [OF assms(1)]] .
  then have "op_inv E st" by (simp add: sys_inv_def)
  then obtain bytes where b: "validateIntent E (Some (os_kernel st)) i = (None, True)" "intent_text E i = Inr bytes"
      "map_of (ok_admissions (os_kernel st1)) (in_IdempotencyKey i) = Some ref" "ref < length (os_heap st1)"
      "ad_intentBytes (os_heap st1 ! ref) = bytes"
    by (rule Admit_retained [OF _ assms(3)])
  have steps: "(op_step E)\<^sup>*\<^sup>* (st, P) (st1, P)" by (rule Admit_steps [OF assms(3)])
  have keep: "op_keeps st st1" "op_keeps st1 st2"
    using operations.steps_rel [OF steps inv] operations.steps_rel [OF assms(4)] operations.steps_inv [OF steps inv] by simp_all
  have "validateIntent E (Some (os_kernel st2)) i = (None, True)"
    using b(1) keep validateIntent_kernel by (metis op_keeps_def)
  moreover have "map_of (ok_admissions (os_kernel st2)) (in_IdempotencyKey i) = Some ref"
    using b(3) keep(2) unfolding op_keeps_def map_le_def by (metis domI)
  moreover have "ad_intentBytes (os_heap st2 ! ref) = bytes"
  proof -
    have "same_admission (os_heap st1 ! ref) (os_heap st2 ! ref)" using keep(2) b(4) by (simp add: op_keeps_def)
    then have "ad_intentBytes (os_heap st2 ! ref) = ad_intentBytes (os_heap st1 ! ref)"
      by (simp add: same_admission_fields)
    with b(5) show ?thesis by simp
  qed
  moreover have "Intent_Validate E i = None" using b(2) by (simp add: CanonicalJSON_def split: option.splits)
  ultimately show ?thesis using b(2) assms(5, 6)
    by (simp add: Admit_def admit_check_def lookupIdempotency_def intentSafeForHooks_def)
qed

text \<open>C21: The operation kernel refines a write-once ledger: in every reachable state, each critical
  section of each call either leaves the ledger alone, or enters a new key below the capacity, or
  closes an open entry with its outcome. Nothing is evicted, replaced or reopened.\<close>

theorem operations_refine_ledger:
  assumes "NewKernelWithOptions n validators = Inr k" "(op_step E)\<^sup>*\<^sup>* (initial_system k) c" "op_step E c c'"
  shows "ledger_of (fst c') = ledger_of (fst c) \<or> ledger_step n (ledger_of (fst c)) (ledger_of (fst c'))"
proof -
  note inv0 = initial_inv [OF assms(1), of E]
  have "op_keeps (fst (initial_system k)) (fst c)" by (rule operations.steps_rel [OF assms(2) inv0])
  then have "ok_maxRetainedOperations (os_kernel (fst c)) = ok_maxRetainedOperations k"
    by (simp add: op_keeps_def initial_system_def)
  also have "\<dots> = n" using assms(1) by (auto simp: NewKernelWithOptions_def split: if_splits sum.splits)
  finally show ?thesis using op_step_ledger [OF operations.steps_inv [OF assms(2) inv0] assms(3)] by simp
qed

text \<open>C22: Retention is bounded and fails closed: a reachable kernel retains at most the configured number
  of operations, which is at most 65536, and when it is full a new key is refused without a trace.\<close>

theorem retention_is_bounded:
  assumes "NewKernelWithOptions n validators = Inr k" "(op_step E)\<^sup>*\<^sup>* (initial_system k) (st, P)"
  shows "int (card (dom (ledger_of st))) \<le> n \<and> n \<le> 65536 \<and>
    (int (card (dom (ledger_of st))) = n \<and> ledger_of st (in_IdempotencyKey i) = None \<longrightarrow>
       fst (Admit E st s current i authority) = st \<and> (\<exists>e. snd (Admit E st s current i authority) = Inl e))"
proof -
  note inv0 = initial_inv [OF assms(1), of E]
  have "op_keeps (fst (initial_system k)) st" using operations.steps_rel [OF assms(2) inv0] by simp
  then have mx: "ok_maxRetainedOperations (os_kernel st) = n"
    using assms(1) by (auto simp: op_keeps_def initial_system_def NewKernelWithOptions_def split: if_splits sum.splits)
  have inv: "op_inv E st" using operations.steps_inv [OF assms(2) inv0] by (simp add: sys_inv_def)
  have card: "card (dom (ledger_of st)) = length (ok_admissions (os_kernel st))"
    using inv unfolding dom_ledger_of dom_map_of_conv_image_fst op_inv_def by (metis distinct_card length_map list.set_map)
  have n: "n \<le> 65536" using assms(1) by (auto simp: NewKernelWithOptions_def MaxRetainedOperations_def split: if_splits)
  have "fst (Admit E st s current i authority) = st \<and> (\<exists>e. snd (Admit E st s current i authority) = Inl e)"
    if "int (card (dom (ledger_of st))) = n" "ledger_of st (in_IdempotencyKey i) = None"
  proof -
    obtain st' result where ad: "Admit E st s current i authority = (st', result)" by fastforce
    have full: "at_capacity (os_kernel st)" using that(1) card mx by (simp add: at_capacity_def)
    have same: "st' = st"
    proof (cases "admit_check E st s current i authority")
      case (AdmitReady a)
      with ad have "admit_install st a = (st', result)" by (simp add: Admit_def)
      then show ?thesis by (cases rule: admit_install_cases) (use full in simp_all)
    qed (use ad in \<open>simp add: Admit_def\<close>)
    have "\<exists>e. result = Inl e"
    proof (cases result)
      case (Inr ref)
      obtain bytes where "map_of (ok_admissions (os_kernel st')) (in_IdempotencyKey i) = Some ref"
        by (rule Admit_retained [OF inv, of s current i authority st' ref]) (use ad Inr in simp)
      with same that(2) show ?thesis by (simp add: ledger_of_def)
    qed simp
    with ad same show ?thesis by simp
  qed
  with inv card mx n show ?thesis by (simp add: op_inv_def)
qed

section \<open>What an admission rests on\<close>

lemma admission_errors_None:
  assumes "\<forall>e \<in> set (admission_errors E k s current i authority None (Inr [route])). e = None"
  shows "snapshotPackError E k s = None" "sn_AssetID s = in_AssetID i"
    "rv_Semantic (sn_Revisions s) = in_ExpectedSemanticRevision i" "rv_Capabilities (sn_Revisions s) = in_ExpectedCapabilityRevision i"
    "deadlineError (ec_EvaluatedAt current) (in_Deadline i) = None"
    "causalAdmissionError (in_Causal i) (ec_EvaluatedAt current) = None"
    "\<exists>view. EvaluateSnapshot E s current = Inr view \<and> preconditionError E k s view (elems (in_Preconditions i)) = None"
    "\<exists>authorize. authority = Some authorize \<and> authorize i route current = None"
  using assms unfolding admission_errors_def
  by (auto simp: authority_error_def intentSafeForHooks_def split: sum.splits option.splits simp del: mostSpecific_map_None)

text \<open>C23: An admitted route is live and the only one: exactly one capability of the snapshot passes every
  check of the search, the route is read off it, and it stands on a current binding of a current
  source, a qualified link and a qualified service of the same asset, at the source epoch and driver
  generation the intent expects, with the instance revision it expects.\<close>

theorem admitted_route_is_live:
  assumes "admit_check E st s current i authority = AdmitReady a"
  shows "\<exists>c b v. filter (\<lambda>c. route_from E (ok_registry (os_kernel st)) s i c \<noteq> []) (elems (sn_Capabilities s)) = [c] \<and>
    ad_route a = route_of c b \<and> capability_wanted i c \<and> ci_Revision c = in_ExpectedCapabilityInstanceRevision i \<and>
    map_of (snapshot_bindings s) (ci_BindingID c) = Some b \<and> nb_State b = BindingCurrent \<and>
    {nb_AssetID b, si_AssetID v} = {in_AssetID i} \<and>
    {nb_SourceEpochID b, ci_SourceEpochID c, si_SourceEpochID v} = {in_ExpectedSourceEpochID i} \<and>
    {nb_DriverGeneration b, ci_DriverGeneration c, si_DriverGeneration v} = {in_ExpectedDriverGeneration i} \<and>
    (\<exists>d. map_of (snapshot_sources s) (nb_SourceID b, nb_SourceEpochID b) = Some d \<and> sd_State d = SourceCurrent) \<and>
    (\<exists>l. map_of (snapshot_links s) (ci_BindingID c) = Some l \<and> il_State l = LinkQualified \<and> il_AssetID l = in_AssetID i) \<and>
    map_of (snapshot_services s) (ci_ServiceInstance c) = Some v \<and> si_BindingID v = ci_BindingID c \<and>
    ci_Qualification c = QualificationQualified \<and> si_Qualification v = QualificationQualified \<and>
    {ci_Availability c, si_Availability v} \<inter> {AvailabilityUnavailable, AvailabilityWithdrawn} = {}"
proof -
  let ?reg = "ok_registry (os_kernel st)" and ?caps = "elems (sn_Capabilities s)"
  obtain route bytes where a: "a = new_admission s current i bytes route" and r: "routes E (os_kernel st) s i True = Inr [route]"
    by (rule admit_check_Ready [OF assms])
  have one: "concat (map (route_from E ?reg s i) ?caps) = [route]" by (rule routes_single [OF r])
  have "length (filter (\<lambda>c. route_from E ?reg s i c \<noteq> []) cs) = length (concat (map (route_from E ?reg s i) cs))" for cs
  proof (induction cs)
    case (Cons c cs)
    then show ?case using route_from_singleton [of E ?reg s i c] by (cases "route_from E ?reg s i c") auto
  qed simp
  from this [of ?caps] one obtain c where f: "filter (\<lambda>c. route_from E ?reg s i c \<noteq> []) ?caps = [c]"
    by (cases "filter (\<lambda>c. route_from E ?reg s i c \<noteq> []) ?caps") auto
  have "c \<in> set (filter (\<lambda>c. route_from E ?reg s i c \<noteq> []) ?caps)" by (simp add: f)
  then obtain x where c: "c \<in> set ?caps" "x \<in> set (route_from E ?reg s i c)" 
    by (cases "route_from E ?reg s i c") auto
  moreover have "set (concat (map (route_from E ?reg s i) ?caps)) = {route}" by (simp only: one) simp
  ultimately have "route \<in> set (route_from E ?reg s i c)" by auto
  then obtain b v where bv: "capability_wanted i c" "map_of (snapshot_bindings s) (ci_BindingID c) = Some b"
      "map_of (snapshot_services s) (ci_ServiceInstance c) = Some v" "route = route_of c b"
      "\<forall>e \<in> set (route_errors E ?reg s i True c b v). e = None"
    by (rule route_from_mem)
  show ?thesis
    using bv a f
    by (intro exI [of _ c] exI [of _ b] exI [of _ v])
      (auto simp: new_admission_def route_errors_def route_identity_errors_def route_lifecycle_errors_def
        route_offer_errors_def Let_def split: option.splits if_splits)
qed

text \<open>C24: An admission is authorised, in time and current: the resolver accepted exactly this intent, route
  and context; for every reading of the clocks within their stated uncertainty the admission is
  before the deadline and before the causal expiry; the intent does not stem from an observation or a
  projection; and the snapshot is the asset and revision the intent expects.\<close>

theorem admission_is_authorised_in_time:
  assumes "admit_check E st s current i authority = AdmitReady a"
    and "i64_val (tp_UnixNanoseconds (ec_EvaluatedAt current)) = Some n" "u64_val (tp_UncertaintyNS (ec_EvaluatedAt current)) = Some nu"
    and "i64_val (tp_UnixNanoseconds (in_Deadline i)) = Some d" "u64_val (tp_UncertaintyNS (in_Deadline i)) = Some du"
    and "i64_val (tp_UnixNanoseconds (cc_ExpiresAt (in_Causal i))) = Some x" "u64_val (tp_UncertaintyNS (cc_ExpiresAt (in_Causal i))) = Some xu"
    and "\<bar>now - n\<bar> \<le> nu" "\<bar>deadline - d\<bar> \<le> du" "\<bar>expiry - x\<bar> \<le> xu"
  shows "(\<exists>authorize. authority = Some authorize \<and> authorize i (ad_route a) current = None) \<and>
    now < deadline \<and> now < expiry \<and> or_Kind (cc_Origin (in_Causal i)) \<notin> {OriginNativeObservation, OriginProjection} \<and>
    sn_AssetID s = in_AssetID i \<and> rv_Semantic (sn_Revisions s) = in_ExpectedSemanticRevision i \<and>
    ad_admittedRevision a = sn_Revisions s \<and> ad_admittedContext a = current"
proof -
  obtain route bytes where a: "a = new_admission s current i bytes route"
    and errs: "\<forall>e \<in> set (admission_errors E (os_kernel st) s current i authority None (Inr [route])). e = None"
    by (rule admit_check_Ready [OF assms(1)])
  note none = admission_errors_None [OF errs]
  have sv: "SetString10 v = Some m" if "u64_val v = Some m" for v m
    using that by (auto simp: u64_val_def u64_def split: if_splits option.splits)
  have si: "SetString10 v = Some m" if "i64_val v = Some m" for v m
    using that by (auto simp: i64_val_def i64_def split: if_splits option.splits)
  note val = si [OF assms(2)] sv [OF assms(3)] si [OF assms(4)] sv [OF assms(5)] si [OF assms(6)] sv [OF assms(7)]
  have "n + nu < d - du" using none(5) by (auto simp: deadlineError_def val int_cmp_def split: if_splits)
  moreover have "deadlineError (ec_EvaluatedAt current) (cc_ExpiresAt (in_Causal i)) = None"
    and "or_Kind (cc_Origin (in_Causal i)) \<notin> {OriginNativeObservation, OriginProjection}"
    using none(6) by (auto simp: causalAdmissionError_def split: if_splits option.splits)
  moreover from this(1) have "n + nu < x - xu" by (auto simp: deadlineError_def val int_cmp_def split: if_splits)
  ultimately show ?thesis using none(2, 3, 8) a assms(8, 9, 10) by (simp add: new_admission_def abs_le_iff)
qed

lemma admitted_precondition:
  assumes "admit_check E st s current i authority = AdmitReady a" "p \<in> set (elems (in_Preconditions i))"
  shows "\<exists>view c f e v. EvaluateSnapshot E s current = Inr view \<and> f \<in> set (elems (sn_Facts s)) \<and> c \<in> set (elems (fe_Candidates f)) \<and>
    factKeyEqual E (fe_Key f) (pn_Fact p) \<and> fc_CandidateID c = pn_CandidateID p \<and> fc_Revision c = pn_CandidateRevision p \<and>
    e \<in> set (elems (vw_Facts view)) \<and> ef_CandidateID e = fc_CandidateID c \<and> candidate_eligible c f e \<and>
    Registry_Validator (ok_registry (os_kernel st)) (key_pack (pn_Fact p)) = Inr v \<and>
    frozen_EvaluatePredicate E v c (pn_Operator p) (pn_Expected p) = Inr True"
proof -
  let ?reg = "ok_registry (os_kernel st)"
  obtain route bytes where "\<forall>e \<in> set (admission_errors E (os_kernel st) s current i authority None (Inr [route])). e = None"
    by (rule admit_check_Ready [OF assms(1)])
  from admission_errors_None(7) [OF this] obtain view where view: "EvaluateSnapshot E s current = Inr view"
      "preconditionError E (os_kernel st) s view (elems (in_Preconditions i)) = None" by blast
  let ?ev = "map_from ef_CandidateID (elems (vw_Facts view))"
  have "precondition_check E ?reg s ?ev p = None" using view(2) assms(2) by (simp add: preconditionError_def)
  then obtain v c f e where ok: "Registry_Validator ?reg (key_pack (pn_Fact p)) = Inr v"
      "exactCandidate E s (pn_Fact p) (pn_CandidateID p) = Some (c, f)" "fc_Revision c = pn_CandidateRevision p"
      "map_of ?ev (fc_CandidateID c) = Some e" "candidate_eligible c f e"
      "frozen_EvaluatePredicate E v c (pn_Operator p) (pn_Expected p) = Inr True"
    by (auto simp: precondition_check_def split: sum.splits option.splits if_splits)
  have f: "f \<in> set (elems (sn_Facts s))" "factKeyEqual E (fe_Key f) (pn_Fact p)"
      "c \<in> set (elems (fe_Candidates f))" "fc_CandidateID c = pn_CandidateID p"
    using ok(2) by (auto simp: exactCandidate_def find_Some_iff split: option.splits)
  have e: "e \<in> set (elems (vw_Facts view))" "ef_CandidateID e = fc_CandidateID c"
    using map_from_lookup_key [OF ok(4)] by simp_all
  show ?thesis using view(1) ok f e by blast
qed

text \<open>C25: An admitted intent's preconditions hold: each names a candidate that stands in the envelope of
  its fact with the stated revision, that is qualified, promoted, good, fresh, available and free of
  open conflicts at the admission's context, and on which the owning pack's predicate is true.\<close>

theorem admitted_preconditions_hold:
  assumes "admit_check E st s current i authority = AdmitReady a" "p \<in> set (elems (in_Preconditions i))"
  shows "\<exists>view c f e v. EvaluateSnapshot E s current = Inr view \<and> f \<in> set (elems (sn_Facts s)) \<and> c \<in> set (elems (fe_Candidates f)) \<and>
    factKeyEqual E (fe_Key f) (pn_Fact p) \<and> fc_CandidateID c = pn_CandidateID p \<and> fc_Revision c = pn_CandidateRevision p \<and>
    e \<in> set (elems (vw_Facts view)) \<and> ef_CandidateID e = fc_CandidateID c \<and> candidate_eligible c f e \<and>
    Registry_Validator (ok_registry (os_kernel st)) (key_pack (pn_Fact p)) = Inr v \<and>
    frozen_EvaluatePredicate E v c (pn_Operator p) (pn_Expected p) = Inr True"
  by (rule admitted_precondition [OF assms])

section \<open>Recorded outcomes\<close>

text \<open>C26: A recorded outcome is final: in every later state the admission object is unchanged, outcome
  and canonical bytes included, and no further record on it changes the state.\<close>

theorem recorded_outcome_is_final:
  assumes "NewKernelWithOptions n validators = Inr k" "(op_step E)\<^sup>*\<^sup>* (initial_system k) (st, P)"
    and "ref < length (os_heap st)" "ad_record (os_heap st ! ref) = Some r" "(op_step E)\<^sup>*\<^sup>* (st, P) (st', P')"
  shows "os_heap st' ! ref = os_heap st ! ref \<and> fst (Record E st' (Some ref) r' later) = st'"
proof -
  have "sys_inv E (st, P)" using operations.steps_inv [OF assms(2) initial_inv [OF assms(1)]] .
  from operations.steps_rel [OF assms(5) this] have "same_admission (os_heap st ! ref) (os_heap st' ! ref)"
    using assms(3) by (simp add: op_keeps_def)
  then have same: "os_heap st' ! ref = os_heap st ! ref" using assms(4) by (simp add: same_admission_def)
  obtain st'' outcome where rec: "Record E st' (Some ref) r' later = (st'', outcome)" by fastforce
  then have "st'' = st'" by (cases rule: Record_cases) (use same assms(4) in simp_all)
  with rec same show ?thesis by simp
qed

text \<open>C27: A recorded outcome belongs to its admission: in every reachable state a recorded outcome is a
  valid record stored with its canonical bytes, and it either rejects the intent before any route was
  chosen or carries exactly the admitted intent, instant, revisions and route.\<close>

theorem recorded_outcome_belongs_to_admission:
  assumes "NewKernelWithOptions n validators = Inr k" "(op_step E)\<^sup>*\<^sup>* (initial_system k) (st, P)"
    and "a \<in> set (os_heap st)" "ad_record a = Some r"
  shows "ExecutionRecord_Validate E r = None \<and>
    CanonicalJSON (ExecutionRecord_Validate E) json_of_ExecutionRecord r = Inr (ad_recordBytes a) \<and>
    (if ad_hasRoute a
     then CanonicalJSON (Intent_Validate E) json_of_Intent (xr_Intent r) = Inr (ad_intentBytes a) \<and>
       xr_AdmittedAt r = Some (ad_admittedAt a) \<and> xr_AdmittedRevision r = Some (ad_admittedRevision a) \<and> xr_Route r = Some (ad_route a)
     else xr_Outcome r = OutcomeRejected)"
proof -
  have "sys_inv E (st, P)" using operations.steps_inv [OF assms(2) initial_inv [OF assms(1)]] .
  then have ok: "admission_ok E a" using assms(3) by (simp add: sys_inv_def op_inv_def)
  then have "record_text E r = Inr (ad_recordBytes a)" using assms(4) by (simp add: admission_ok_def)
  moreover from this have "ExecutionRecord_Validate E r = None" by (simp add: CanonicalJSON_def split: option.splits)
  ultimately show ?thesis using ok assms(4)
    by (auto simp: admission_ok_def sameRecordAdmission_def split: sum.splits if_splits)
qed

lemma stored_readback:
  assumes "Record E st (Some ref) r later = (st', outcome)" "st' \<noteq> st" "xr_Readback r = Some b"
  obtains s where "later = Some s" "Snapshot_Validate E s = None" "validateReadback E (os_kernel st) r s True = None"
    "sameRecordAdmission E r (os_heap st ! ref) = None"
  using assms(1)
proof (cases rule: Record_cases)
  case (stored canonical)
  then obtain s where s: "later = Some s" "Snapshot_Validate E s = None" using assms(3) by blast
  with stored(6) assms(3) have "sameRecordAdmission E r (os_heap st ! ref) = None" by (simp add: record_binding_errors_def)
  with stored(6) assms(3) s that show thesis by (simp add: record_binding_errors_def)
qed (use assms(2) in simp)

lemma validateReadback_None:
  assumes "validateReadback E k r s True = None" "xr_Readback r = Some b"
  obtains route admitted d c f hook where "xr_Route r = Some route" "xr_AdmittedRevision r = Some admitted" "xr_Dispatch r = Some d"
    "\<forall>e \<in> set (readback_errors E k r s b route admitted d). e = None"
    "resolved_candidate s b = Some (c, f)" "map_of (ok_validators k) (df_Pack (in_Kind (xr_Intent r))) = Some hook"
    "ov_EvaluateReadback hook (xr_Intent r) c = Inr (rb_Relation b)"
proof -
  obtain route admitted d where some: "xr_Route r = Some route" "xr_AdmittedRevision r = Some admitted" "xr_Dispatch r = Some d"
    using assms by (auto simp: validateReadback_def split: option.splits)
  obtain hook where hook: "map_of (ok_validators k) (df_Pack (in_Kind (xr_Intent r))) = Some hook"
    using assms some by (cases "map_of (ok_validators k) (df_Pack (in_Kind (xr_Intent r)))") (auto simp: validateReadback_def)
  have errs: "mostSpecific (readback_errors E k r s b route admitted d) = None"
    using assms some hook by (auto simp: validateReadback_def Let_def split: if_splits option.splits)
  then obtain c f where cf: "resolved_candidate s b = Some (c, f)"
    by (cases "resolved_candidate s b") (auto simp: readback_errors_def Let_def)
  then have "readback_hook_error hook r b c = None"
    using assms some hook errs by (simp add: validateReadback_def Let_def)
  then have "ov_EvaluateReadback hook (xr_Intent r) c = Inr (rb_Relation b)"
    by (auto simp: readback_hook_error_def split: sum.splits)
  with that some hook errs cf show thesis by simp
qed

lemma applied_combination:
  assumes "ExecutionRecord_Validate E r = None" "xr_Outcome r = OutcomeApplied"
  obtains d b where "xr_Dispatch r = Some d" "de_Delivery d = DeliverySent" "de_Completed d \<noteq> None"
    "xr_Readback r = Some b" "rb_Relation b = ReadbackConfirms"
proof -
  have comb: "outcomeCombinationError r = None" using assms(1) by (simp add: ExecutionRecord_Validate_def)
  then obtain d where d: "xr_Dispatch r = Some d" "terminal_evidence_bad OutcomeApplied d (xr_Acknowledgement r) (xr_Readback r) = None"
    using assms(2) by (auto simp: outcomeCombinationError_def split: if_splits option.splits)
  then obtain b where "xr_Readback r = Some b" "rb_Relation b = ReadbackConfirms"
    by (auto simp: terminal_evidence_bad_def split: option.splits)
  with d that show thesis by (auto simp: terminal_evidence_bad_def)
qed

lemma resolved_candidate_mem:
  assumes "resolved_candidate s b = Some (c, f)"
  shows "f \<in> set (elems (sn_Facts s)) \<and> c \<in> set (elems (fe_Candidates f)) \<and> fc_CandidateID c = rb_CandidateID b"
  using assms by (auto simp: resolved_candidate_def candidateByID_def find_Some_iff split: option.splits if_splits dest!: nth_mem)

text \<open>C28: An outcome is recorded as applied only on confirmed evidence: the record's readback names a
  candidate of a later valid snapshot of the asset, observed through the admitted binding, epoch and
  generation for the fact of the expected effect, received after the dispatch completed, eligible at
  the readback's context, and the operation's pack judged it to confirm the effect.\<close>

theorem applied_outcome_is_confirmed:
  assumes "Record E st (Some ref) r later = (st', outcome)" "st' \<noteq> st" "xr_Outcome r = OutcomeApplied"
  shows "\<exists>s b c f d completed hook. later = Some s \<and> Snapshot_Validate E s = None \<and> sn_AssetID s = in_AssetID (xr_Intent r) \<and>
    op_compareUint64 (rv_Semantic (sn_Revisions s)) (rv_Semantic (ad_admittedRevision (os_heap st ! ref))) > 0 \<and>
    xr_Readback r = Some b \<and> f \<in> set (elems (sn_Facts s)) \<and> c \<in> set (elems (fe_Candidates f)) \<and>
    factKeyEqual E (fc_Key c) (ee_Fact (in_ExpectedEffect (xr_Intent r))) \<and> ql_Assertion (fc_Quality c) = AssertionObserved \<and>
    fc_BindingID c = Some (rt_BindingID (ad_route (os_heap st ! ref))) \<and>
    fc_SourceEpochID c = Some (rt_SourceEpochID (ad_route (os_heap st ! ref))) \<and>
    fc_DriverGeneration c = Some (rt_DriverGeneration (ad_route (os_heap st ! ref))) \<and>
    readback_eligible (EvaluateSnapshot E s (rb_Evaluation b)) c f \<and>
    xr_Dispatch r = Some d \<and> de_Completed d = Some completed \<and> receiptAfterDispatch completed (fc_Times c) = None \<and>
    map_of (ok_validators (os_kernel st)) (df_Pack (in_Kind (xr_Intent r))) = Some hook \<and>
    ov_EvaluateReadback hook (xr_Intent r) c = Inr ReadbackConfirms"
proof -
  from assms(1) have "ExecutionRecord_Validate E r = None"
    by (cases rule: Record_cases) (use assms(2) in \<open>simp_all add: CanonicalJSON_def split: option.splits\<close>)
  then obtain d0 b where b: "xr_Readback r = Some b" "rb_Relation b = ReadbackConfirms" "xr_Dispatch r = Some d0" "de_Completed d0 \<noteq> None"
    by (rule applied_combination [OF _ assms(3)])
  obtain s where s: "later = Some s" "Snapshot_Validate E s = None" "validateReadback E (os_kernel st) r s True = None"
      "sameRecordAdmission E r (os_heap st ! ref) = None"
    by (rule stored_readback [OF assms(1, 2) b(1)])
  obtain route admitted d c f hook where v: "xr_Route r = Some route" "xr_AdmittedRevision r = Some admitted" "xr_Dispatch r = Some d"
      "\<forall>e \<in> set (readback_errors E (os_kernel st) r s b route admitted d). e = None"
      "resolved_candidate s b = Some (c, f)" "map_of (ok_validators (os_kernel st)) (df_Pack (in_Kind (xr_Intent r))) = Some hook"
      "ov_EvaluateReadback hook (xr_Intent r) c = Inr (rb_Relation b)"
    by (rule validateReadback_None [OF s(3) b(1)])
  have bind: "route = ad_route (os_heap st ! ref)" "admitted = ad_admittedRevision (os_heap st ! ref)"
    using s(4) v(1, 2) by (auto simp: sameRecordAdmission_def split: sum.splits)
  have head: "\<forall>e \<in> set (readback_header_errors r s b route admitted). e = None"
    and cand: "\<forall>e \<in> set (readback_candidate_errors E r b c). e = None"
    and elig: "readback_eligible (EvaluateSnapshot E s (rb_Evaluation b)) c f" and rcpt: "readback_receipt_error r d c = None"
    using v(4, 5) by (auto simp: readback_errors_def Let_def)
  obtain completed where comp: "de_Completed d = Some completed" using b(3, 4) v(3) by auto
  have "receiptAfterDispatch completed (fc_Times c) = None" using rcpt assms(3) comp by (simp add: readback_receipt_error_def)
  moreover note resolved_candidate_mem [OF v(5)]
  ultimately show ?thesis using head cand elig bind comp s(1, 2) v(3, 6, 7) b(1, 2)
    unfolding readback_header_errors_def readback_candidate_errors_def
    by (intro exI [of _ s] exI [of _ b] exI [of _ c] exI [of _ f] exI [of _ d] exI [of _ completed] exI [of _ hook]) auto
qed

section \<open>Causal chains\<close>

lemma dup_loop_distinct:
  assumes "\<not> fst (dup_order_loop I cmp seen prev d ordered xs)" "\<forall>x \<in> set xs. key_valid I x"
  shows "\<not> d \<and> distinct (map (key_of I) xs) \<and> set (map (key_of I) xs) \<inter> set seen = {}"
  using assms by (induction I cmp seen prev d ordered xs rule: dup_order_loop.induct) auto

text \<open>A message that is handed from receiver to receiver.\<close>

fun enter_chain :: "CausalContext \<Rightarrow> (TargetID \<times> TimePoint) list \<Rightarrow> error + CausalContext" where
  "enter_chain c [] = Inr c"
| "enter_chain c ((receiver, now) # hops) = (case EnterCausal c receiver now of Inl e \<Rightarrow> Inl e | Inr c' \<Rightarrow> enter_chain c' hops)"

lemma EnterCausal_Inr:
  assumes "EnterCausal c receiver now = Inr c'"
  shows "c' = c\<lparr>cc_Path := Some (elems (cc_Path c) @ [receiver]), cc_HopCount := cc_HopCount c + 1\<rparr>"
    "receiver \<notin> set (elems (cc_Path c))" "cc_HopCount c < cc_MaxHops c" "cc_MaxHops c \<le> 16" "CausalContext_Validate c = None"
proof -
  show valid: "CausalContext_Validate c = None" using assms by (auto simp: EnterCausal_def split: option.splits if_splits)
  then show bound: "cc_MaxHops c \<le> 16" by (simp add: CausalContext_Validate_def)
  show "receiver \<notin> set (elems (cc_Path c))" and hop: "cc_HopCount c < cc_MaxHops c"
    using assms by (auto simp: EnterCausal_def split: option.splits if_splits)
  then have "(cc_HopCount c + 1) mod 65536 = cc_HopCount c + 1" using bound by simp
  then show "c' = c\<lparr>cc_Path := Some (elems (cc_Path c) @ [receiver]), cc_HopCount := cc_HopCount c + 1\<rparr>"
    using assms by (auto simp: EnterCausal_def split: option.splits if_splits)
qed

lemma enter_chain_Inr:
  "enter_chain c hops = Inr c' \<Longrightarrow> cc_MaxHops c' = cc_MaxHops c \<and> cc_HopCount c' = cc_HopCount c + length hops \<and>
     elems (cc_Path c') = elems (cc_Path c) @ map fst hops \<and> (hops \<noteq> [] \<longrightarrow> cc_HopCount c' \<le> cc_MaxHops c \<and> cc_MaxHops c \<le> 16) \<and>
     (distinct (elems (cc_Path c)) \<longrightarrow> distinct (elems (cc_Path c')))"
proof (induction c hops rule: enter_chain.induct)
  case (2 c receiver now hops)
  then obtain d where d: "EnterCausal c receiver now = Inr d" "enter_chain d hops = Inr c'" by (auto split: sum.splits)
  from 2(1) [OF d] EnterCausal_Inr [OF d(1)] show ?case by (cases "hops = []"; clarsimp)
qed simp

text \<open>C29: Causal chains end: a message can enter at most as many receivers as its remaining hop budget,
  never more than 16, no receiver twice, and no counter wraps around.\<close>

theorem causal_chains_end:
  assumes "enter_chain c hops = Inr c'" "CausalContext_Validate c = None"
  shows "cc_HopCount c + length hops \<le> cc_MaxHops c \<and> cc_MaxHops c \<le> 16 \<and>
    cc_HopCount c' = cc_HopCount c + length hops \<and> cc_HopCount c' = length (elems (cc_Path c')) \<and>
    elems (cc_Path c') = elems (cc_Path c) @ map fst hops \<and> distinct (elems (cc_Path c'))"
proof -
  have "cc_MaxHops c \<le> 16" "cc_HopCount c \<le> cc_MaxHops c" "cc_HopCount c = length (elems (cc_Path c))"
      "\<not> duplicated (opaque_identity (\<lambda>x. x)) (by_field (\<lambda>x. x)) (cc_Path c)" "\<forall>t \<in> set (elems (cc_Path c)). validOpaque t"
    using assms(2) by (auto simp: CausalContext_Validate_def)
  moreover from this(4, 5) have "distinct (elems (cc_Path c))"
    using dup_loop_distinct [of "opaque_identity (\<lambda>x. x)" "by_field (\<lambda>x. x)" "[]" None False True "elems (cc_Path c)"]
    by (simp add: duplicateAndOrder_def distinct_map)
  ultimately show ?thesis using enter_chain_Inr [OF assms(1)] by (cases "hops = []"; clarsimp)
qed

end
