(* ===== verification/Operation_Scenario.thy ===== *)
theory Operation_Scenario
  imports Operation_Properties Scenario_Facts
begin

text \<open>
  The records of a concrete operation: packs, snapshots, the intent and its evidence, and the
  evaluation of the checks that admission makes on them.
\<close>

section \<open>Packs and kernel\<close>

definition op_index :: DefinitionIndex where
  "op_index = (pv_Definitions demo_validator)\<lparr>dx_Operations := Some [demo_definition ''demo.switch''],
     dx_EffectRules := Some [demo_definition ''demo.effect'']\<rparr>"

definition op_validator :: PackValidator where
  "op_validator = demo_validator\<lparr>pv_Definitions := op_index\<rparr>"

definition op_hooks :: OperationPackValidator where
  "op_hooks = \<lparr>ov_ValidateIntent = (\<lambda>_. None), ov_EvaluateReadback = (\<lambda>_ _. Inr ReadbackConfirms)\<rparr>"

definition op_registry :: Registry where
  "op_registry = \<lparr>rg_validators = [(demo_pack, \<lparr>fv_hook = op_validator, fv_index = op_index\<rparr>)], rg_indexes = [(demo_pack, op_index)],
     rg_owners = [((DefinitionService, ''demo.service'', ''1.0.0''), demo_pack),
       ((DefinitionCapability, ''demo.capability'', ''1.0.0''), demo_pack),
       ((DefinitionOperation, ''demo.switch'', ''1.0.0''), demo_pack),
       ((DefinitionEffectRule, ''demo.effect'', ''1.0.0''), demo_pack)]\<rparr>"

definition op_kernel :: OperationKernel where
  "op_kernel = \<lparr>ok_registry = Some op_registry, ok_validators = [(demo_pack, op_hooks)], ok_maxRetainedOperations = 1,
     ok_admissions = []\<rparr>"

section \<open>Snapshots\<close>

definition op_envelope :: "FactCandidate \<Rightarrow> FactEnvelope" where
  "op_envelope c = \<lparr>fe_AssetID = ''asset'', fe_Key = demo_key, fe_Candidates = Some [c], fe_Conflicts = Some [], fe_Revision = ''1''\<rparr>"

definition op_snapshot :: Snapshot where
  "op_snapshot = second_snapshot\<lparr>sn_Facts := Some [op_envelope demo_observed]\<rparr>"

definition later_observed :: FactCandidate where
  "later_observed = demo_observed\<lparr>fc_Revision := ''2'', fc_Times := demo_times\<lparr>tm_ReceivedAt := demo_time ''8'',
     tm_ReceiptMonotonic := demo_point ''11'', tm_EvaluatedAt := demo_time ''9'', tm_EvaluateMonotonic := demo_point ''12''\<rparr>\<rparr>"

definition later_snapshot :: Snapshot where
  "later_snapshot = op_snapshot\<lparr>sn_Facts := Some [op_envelope later_observed], sn_EvaluatedAt := demo_time ''9'',
     sn_EvaluateMonotonic := demo_point ''12'',
     sn_Revisions := \<lparr>rv_Semantic = ''3'', rv_Identity = ''2'', rv_Facts = ''3'', rv_Services = ''2'', rv_Capabilities = ''2''\<rparr>\<rparr>"

definition op_context :: "Int64 \<Rightarrow> Uint64 \<Rightarrow> EvaluationContext" where
  "op_context t m = \<lparr>ec_EvaluatedAt = demo_time t, ec_EvaluateMonotonic = demo_point m\<rparr>"

section \<open>The intent and its evidence\<close>

definition op_causal :: CausalContext where
  "op_causal = \<lparr>cc_Origin = \<lparr>or_OriginID = ''operator'', or_Kind = OriginOperator, or_SourceID = None, or_SourceEpochID = None,
       or_BindingID = None, or_Evidence = Some [demo_evidence]\<rparr>, cc_CorrelationID = ''corr'', cc_ParentCorrelationID = None,
     cc_HopCount = 0, cc_MaxHops = 2, cc_FirstSeenAt = demo_time ''5'', cc_ExpiresAt = demo_time ''50'', cc_Path = Some []\<rparr>"

definition op_precondition :: Precondition where
  "op_precondition = \<lparr>pn_Fact = demo_key, pn_CandidateID = ''fact-a'', pn_CandidateRevision = ''1'', pn_Operator = PredicateEqual,
     pn_Expected = demo_value True\<rparr>"

definition op_intent :: Intent where
  "op_intent = \<lparr>in_Contract = ContractOperationV1, in_IntentID = ''intent'', in_Kind = demo_definition ''demo.switch'',
     in_ExpectedEffect = \<lparr>ee_Rule = demo_definition ''demo.effect'', ee_Fact = demo_key, ee_Operator = PredicateEqual,
       ee_Expected = demo_value True\<rparr>,
     in_AssetID = ''asset'', in_Arguments = Some [],
     in_RequiredCapability = \<lparr>cr_Pack = demo_pack, cr_DefinitionID = ''demo.capability'',
       cr_Versions = \<lparr>vr_Minimum = ''1.0.0'', vr_MaximumExclusive = ''2.0.0''\<rparr>, cr_InstanceID = None, cr_AllowDegraded = False\<rparr>,
     in_Authority = demo_evidence, in_Causal = op_causal, in_ExpectedSemanticRevision = ''2'', in_ExpectedCapabilityRevision = ''2'',
     in_ExpectedCapabilityInstanceRevision = ''1'', in_ExpectedSourceEpochID = ''ep'', in_ExpectedDriverGeneration = ''1'',
     in_Preconditions = Some [op_precondition], in_IdempotencyKey = ''key-1'', in_Deadline = demo_time ''100''\<rparr>"

definition op_route :: Route where
  "op_route = \<lparr>rt_CapabilityInstance = ''cap'', rt_ServiceInstance = ''svc'', rt_BindingID = ''bind'', rt_SourceID = ''src'',
     rt_SourceEpochID = ''ep'', rt_DriverGeneration = ''1''\<rparr>"

definition op_authority :: AuthorityResolver where
  "op_authority i r c = None"

definition applied_record :: ExecutionRecord where
  "applied_record = \<lparr>xr_Contract = ContractOperationV1, xr_Intent = op_intent, xr_AdmittedAt = Some (demo_time ''6''),
     xr_AdmittedRevision = Some (sn_Revisions op_snapshot), xr_Route = Some op_route,
     xr_Dispatch = Some \<lparr>de_AttemptID = ''attempt'', de_Started = op_context ''7'' ''10'', de_Completed = Some (op_context ''7'' ''10''),
       de_Delivery = DeliverySent, de_PossibleSideEffect = True, de_Evidence = Some [demo_evidence]\<rparr>,
     xr_Acknowledgement = None,
     xr_Readback = Some \<lparr>rb_SnapshotID = demo_digest, rb_Revisions = sn_Revisions later_snapshot, rb_CandidateID = ''fact-a'',
       rb_CandidateRevision = ''2'', rb_BindingID = ''bind'', rb_SourceID = ''src'', rb_SourceEpochID = ''ep'',
       rb_DriverGeneration = ''1'', rb_Relation = ReadbackConfirms, rb_Evaluation = op_context ''9'' ''12'',
       rb_Evidence = Some [demo_evidence]\<rparr>,
     xr_Outcome = OutcomeApplied, xr_ErrorID = None, xr_OutcomeEvidence = Some [demo_evidence]\<rparr>"

section \<open>Admission\<close>

lemma op_kernel_new: "NewKernelWithOptions 1 [Some (op_validator, Some op_hooks)] = Inr op_kernel"
proof -
  have defs: "pv_Definitions op_validator = op_index" "pv_Pack op_validator = demo_pack" "dx_Pack op_index = demo_pack"
    "elems (dx_Operations op_index) = [demo_definition ''demo.switch'']"
    by (simp_all add: op_validator_def op_index_def demo_validator_def)
  have refs: "PackRef_Validate demo_pack = None" "DefinitionRef_Validate (demo_definition ''demo.service'') = None"
    "DefinitionRef_Validate (demo_definition ''demo.capability'') = None" "DefinitionRef_Validate (demo_definition ''demo.switch'') = None"
    "DefinitionRef_Validate (demo_definition ''demo.effect'') = None" by code_simp+
  have index: "bestError (DefinitionIndex_validationErrors DefinitionOwnerConflict op_index) = None" by code_simp
  have "register_index op_index ([], errs) = (rg_owners op_registry, errs)" for errs
    unfolding register_index_def index_groups_def using refs
    by (simp add: op_index_def demo_validator_def op_registry_def definition_key_def demo_definition_def)
  then have "NewRegistry [Some op_validator] = Inr op_registry"
    using single_pack_registry [of op_validator demo_pack "rg_owners op_registry"] refs(1) index
    by (simp add: defs) (simp add: op_registry_def)
  moreover have "install_hooks [Some (op_validator, Some op_hooks)] [] = Inr [(demo_pack, op_hooks)]" by (simp add: defs)
  ultimately show ?thesis by (simp add: NewKernelWithOptions_def MaxRetainedOperations_def op_kernel_def)
qed

lemma op_snapshot_json: "json_wf (json_of_Snapshot op_snapshot)" "json_wf (json_of_Snapshot later_snapshot)"
  by code_simp+

lemma op_snapshot_checks: "snapshot_checks demo_env op_snapshot = None" "snapshot_checks demo_env later_snapshot = None"
  by code_simp+

lemma op_snapshot_identity: "sn_SnapshotID op_snapshot = demo_digest" "sn_SnapshotID later_snapshot = demo_digest"
  by (simp_all add: op_snapshot_def later_snapshot_def second_snapshot_def)

lemmas op_snapshot_valid = demo_valid(1) [OF op_snapshot_checks(1) op_snapshot_json(1) op_snapshot_identity(1)]
lemmas later_snapshot_valid = demo_valid(1) [OF op_snapshot_checks(2) op_snapshot_json(2) op_snapshot_identity(2)]

lemma op_intent_valid: "Intent_Validate demo_env op_intent = None"
  by code_simp

lemma op_contexts_valid: "EvaluationContext_Validate (op_context ''6'' ''9'') = None" "EvaluationContext_Validate (op_context ''9'' ''12'') = None"
  by code_simp+

lemma op_intent_checked: "validateIntent demo_env (Some op_kernel) op_intent = (None, True)"
  by code_simp

lemma op_routes: "routes demo_env op_kernel op_snapshot op_intent True = Inr [op_route]"
  by code_simp

lemma op_packs: "snapshotPackError demo_env op_kernel op_snapshot = None" "snapshotPackError demo_env op_kernel later_snapshot = None"
  by code_simp+

text \<open>The view of a snapshot with one fact that is fresh and nothing retained.\<close>

definition fresh_view :: "Snapshot \<Rightarrow> EvaluationContext \<Rightarrow> FactCandidate \<Rightarrow> EvaluationView" where
  "fresh_view s ctx c = \<lparr>vw_Contract = ContractEvaluationV1, vw_SnapshotID = sn_SnapshotID s, vw_Revisions = sn_Revisions s,
     vw_Context = ctx, vw_Facts = Some [evaluated_fact c FreshnessFresh], vw_Retained = Some [], vw_EvaluationDigest = []\<rparr>"

lemma fresh_evaluation:
  assumes "Snapshot_Validate demo_env s = None" "EvaluationContext_Validate ctx = None" "contextNotEarlierThanSnapshot s ctx = None"
    and "evaluate_all (evaluate (length (snapshot_candidates s) + 1) (snapshot_candidates s) ctx [])
      (sort_by string_compare (map fst (snapshot_candidates s))) [] = Inr [evaluated_fact c FreshnessFresh]"
    and "sn_Retained s = None" "EvaluationView_validateStructure demo_env False (fresh_view s ctx c) = None"
    and "json_wf (json_of_EvaluationView (fresh_view s ctx c))"
  shows "EvaluateSnapshot demo_env s ctx = Inr ((fresh_view s ctx c)\<lparr>vw_EvaluationDigest := demo_digest\<rparr>)"
proof -
  have "EvaluationDigestValue demo_env (fresh_view s ctx c) = Inr demo_digest"
    by (simp add: EvaluationDigestValue_def assms(6) EvaluationView_computedDigestUnchecked_def constant_digest [OF assms(7)])
  then show ?thesis
    unfolding EvaluateSnapshot_def Let_def assms(4) by (simp add: assms(1-3, 5) fresh_view_def)
qed

lemma op_evaluation:
  "EvaluateSnapshot demo_env op_snapshot (op_context ''6'' ''9'') =
     Inr ((fresh_view op_snapshot (op_context ''6'' ''9'') demo_observed)\<lparr>vw_EvaluationDigest := demo_digest\<rparr>)"
  by (rule fresh_evaluation [OF op_snapshot_valid op_contexts_valid(1)]) code_simp+

lemma later_evaluation:
  "EvaluateSnapshot demo_env later_snapshot (op_context ''9'' ''12'') =
     Inr ((fresh_view later_snapshot (op_context ''9'' ''12'') later_observed)\<lparr>vw_EvaluationDigest := demo_digest\<rparr>)"
  by (rule fresh_evaluation [OF later_snapshot_valid op_contexts_valid(2)]) code_simp+

end
