(* ===== verification/Operation_Run.thy ===== *)
theory Operation_Run
  imports Operation_Scenario
begin

text \<open>
  A concrete run of the operation kernel: the intent is admitted, dispatched and recorded as applied
  after a later snapshot shows the effect. The witnesses apply the properties of the operation kernel
  to this run.
\<close>

section \<open>Admission\<close>

definition op_state0 :: op_state where
  "op_state0 = \<lparr>os_kernel = op_kernel, os_heap = []\<rparr>"

definition op_bytes :: string where
  "op_bytes = (case intent_text demo_env op_intent of Inl _ \<Rightarrow> [] | Inr t \<Rightarrow> t)"

definition op_admission :: Admission where
  "op_admission = new_admission op_snapshot (op_context ''6'' ''9'') op_intent op_bytes op_route"

definition op_state1 :: op_state where
  "op_state1 = \<lparr>os_kernel = op_kernel\<lparr>ok_admissions := [(''key-1'', 0)]\<rparr>, os_heap = [op_admission]\<rparr>"

lemma op_intent_bytes: "intent_text demo_env op_intent = Inr op_bytes"
proof -
  have "json_wf (json_of_Intent op_intent)" by code_simp
  then show ?thesis by (simp add: op_bytes_def CanonicalJSON_def op_intent_valid canonicalize_def writeCanonical_render)
qed

lemma op_intent_fields:
  "in_IdempotencyKey op_intent = ''key-1''" "elems (in_Preconditions op_intent) = [op_precondition]" "in_AssetID op_intent = ''asset''"
  "in_Deadline op_intent = demo_time ''100''" "in_Causal op_intent = op_causal" "cc_ExpiresAt op_causal = demo_time ''50''"
  by (simp_all add: op_intent_def op_causal_def)

lemma op_errors:
  "mostSpecific (admission_errors demo_env op_kernel op_snapshot (op_context ''6'' ''9'') op_intent (Some op_authority) None (Inr [op_route])) = None"
proof -
  have "op_check (sn_AssetID op_snapshot \<noteq> in_AssetID op_intent) RevisionConflict ''intent asset snapshot'' = None"
    "op_check (rv_Semantic (sn_Revisions op_snapshot) \<noteq> in_ExpectedSemanticRevision op_intent \<or>
      rv_Capabilities (sn_Revisions op_snapshot) \<noteq> in_ExpectedCapabilityRevision op_intent) RevisionConflict ''intent snapshot revisions'' = None"
    "op_check (tp_ClockID (ec_EvaluatedAt (op_context ''6'' ''9'')) \<noteq> ''clock.utc'') InvalidTime ''trusted operation wall clock'' = None"
    "deadlineError (ec_EvaluatedAt (op_context ''6'' ''9'')) (in_Deadline op_intent) = None"
    "causalAdmissionError (in_Causal op_intent) (ec_EvaluatedAt (op_context ''6'' ''9'')) = None"
    "preconditionError demo_env op_kernel op_snapshot ((fresh_view op_snapshot (op_context ''6'' ''9'') demo_observed)\<lparr>vw_EvaluationDigest := demo_digest\<rparr>)
      (elems (in_Preconditions op_intent)) = None"
    "authority_error (Some op_authority) op_intent (op_context ''6'' ''9'') None (Inr [op_route]) = None"
    by code_simp+
  then show ?thesis unfolding admission_errors_def op_packs(1) op_evaluation sum.case mostSpecific_None by simp
qed

lemma op_ready: "admit_check demo_env op_state0 op_snapshot (op_context ''6'' ''9'') op_intent (Some op_authority) = AdmitReady op_admission"
proof -
  have "admit_evaluate demo_env op_kernel op_snapshot (op_context ''6'' ''9'') op_intent (Some op_authority) None True op_bytes = AdmitReady op_admission"
    unfolding admit_evaluate_def op_routes Let_def op_errors op_admission_def by simp
  moreover have "os_kernel op_state0 = op_kernel" "lookupIdempotency op_state0 (in_IdempotencyKey op_intent) op_bytes = Inr None"
    by (simp_all add: lookupIdempotency_def op_state0_def op_kernel_def)
  ultimately show ?thesis
    by (simp add: admit_check_def op_intent_checked op_intent_valid op_snapshot_valid op_contexts_valid op_intent_bytes intentSafeForHooks_def)
qed

lemma op_admitted:
  "Admit demo_env op_state0 op_snapshot (op_context ''6'' ''9'') op_intent (Some op_authority) = (op_state1, Inr 0)"
proof -
  have "ad_intent op_admission = op_intent" by (simp add: op_admission_def new_admission_def)
  then show ?thesis unfolding Admit_def op_ready admit_step.case
    by (simp add: admit_install_def op_intent_fields op_state0_def op_kernel_def at_capacity_def allocate_def op_state1_def)
qed

lemma op_initial: "initial_system op_kernel = (op_state0, {#})"
  by (simp add: initial_system_def op_state0_def)

lemma op_reached: "(op_step demo_env)\<^sup>*\<^sup>* (initial_system op_kernel) (op_state1, {#})"
  unfolding op_initial using op_admitted by (rule Admit_steps)

section \<open>The outcome\<close>

definition record_bytes :: string where
  "record_bytes = (case record_text demo_env applied_record of Inl _ \<Rightarrow> [] | Inr t \<Rightarrow> t)"

definition op_state2 :: op_state where
  "op_state2 = store_record op_state1 0 applied_record record_bytes"

lemma applied_record_valid: "ExecutionRecord_Validate demo_env applied_record = None"
  by code_simp

lemma applied_record_bytes: "record_text demo_env applied_record = Inr record_bytes"
proof -
  have "json_wf (json_of_ExecutionRecord applied_record)" by code_simp
  then show ?thesis by (simp add: record_bytes_def CanonicalJSON_def applied_record_valid canonicalize_def writeCanonical_render)
qed

lemma applied_fields:
  "in_IdempotencyKey (xr_Intent applied_record) = ''key-1''" "xr_Intent applied_record = op_intent" "xr_Outcome applied_record = OutcomeApplied"
  "ok_admissions (os_kernel op_state1) = [(''key-1'', 0)]" "os_heap op_state1 = [op_admission]" "ad_record op_admission = None"
  "ok_validators (os_kernel op_state1) = ok_validators op_kernel" "ok_registry (os_kernel op_state1) = ok_registry op_kernel"
  "xr_Acknowledgement applied_record = None" "ad_admittedContext op_admission = op_context ''6'' ''9''"
  by (simp_all add: applied_record_def op_intent_def op_state1_def op_admission_def new_admission_def)

lemma applied_bound: "sameRecordAdmission demo_env applied_record op_admission = None"
proof -
  have "ad_admittedAt op_admission = demo_time ''6''" "ad_admittedRevision op_admission = sn_Revisions op_snapshot" "ad_route op_admission = op_route"
    "ad_intentBytes op_admission = op_bytes" by (simp_all add: op_admission_def new_admission_def op_context_def)
  moreover have "xr_AdmittedAt applied_record = Some (demo_time ''6'')" "xr_AdmittedRevision applied_record = Some (sn_Revisions op_snapshot)"
    "xr_Route applied_record = Some op_route" by (simp_all add: applied_record_def)
  ultimately show ?thesis by (simp add: sameRecordAdmission_def applied_fields op_intent_bytes)
qed

definition op_dispatch :: DispatchEvidence where
  "op_dispatch = the (xr_Dispatch applied_record)"

definition op_readback :: Readback where
  "op_readback = the (xr_Readback applied_record)"

lemma readback_checks:
  "xr_Readback applied_record = Some op_readback" "rb_Evaluation op_readback = op_context ''9'' ''12''" "rb_Relation op_readback = ReadbackConfirms"
  "resolved_candidate later_snapshot op_readback = Some (later_observed, op_envelope later_observed)"
  "mostSpecific (readback_header_errors applied_record later_snapshot op_readback op_route (sn_Revisions op_snapshot)) = None"
  "mostSpecific (readback_candidate_errors demo_env applied_record op_readback later_observed) = None"
  "snapshotRouteCurrent later_snapshot op_route (in_AssetID op_intent) = None"
  "readback_eligible (Inr ((fresh_view later_snapshot (op_context ''9'' ''12'') later_observed)\<lparr>vw_EvaluationDigest := demo_digest\<rparr>))
     later_observed (op_envelope later_observed)"
  "readback_receipt_error applied_record op_dispatch later_observed = None"
  "contextsChronological (op_context ''6'' ''9'') (de_Started op_dispatch) False = None"
  by code_simp+

lemma readback_accepted: "validateReadback demo_env (os_kernel op_state1) applied_record later_snapshot True = None"
proof -
  have parts: "xr_Route applied_record = Some op_route" "xr_AdmittedRevision applied_record = Some (sn_Revisions op_snapshot)"
    "xr_Dispatch applied_record = Some op_dispatch" by (simp_all add: applied_record_def op_dispatch_def)
  have packs: "snapshotPackError demo_env (os_kernel op_state1) later_snapshot = None"
    using op_packs(2) by (simp add: snapshotPackError_def applied_fields)
  have errs: "mostSpecific (readback_errors demo_env (os_kernel op_state1) applied_record later_snapshot op_readback op_route (sn_Revisions op_snapshot) op_dispatch) = None"
    unfolding readback_errors_def Let_def packs readback_checks(2, 4) later_evaluation option.case prod.case sum.case applied_fields(2)
    using readback_checks(5-9) unfolding mostSpecific_None by (simp add: ball_Un)
  have hook: "map_of (ok_validators (os_kernel op_state1)) (df_Pack (in_Kind (xr_Intent applied_record))) = Some op_hooks"
    by (simp add: applied_fields op_kernel_def op_intent_def demo_definition_def)
  have "readback_hook_error op_hooks applied_record op_readback later_observed = None"
    by (simp add: readback_hook_error_def op_hooks_def readback_checks(3))
  with errs show ?thesis
    unfolding validateReadback_def parts readback_checks(1, 4) option.case prod.case hook Let_def by (simp add: ball_Un)
qed

lemma op_recorded:
  "Record demo_env op_state1 (Some 0) applied_record (Some later_snapshot) = (op_state2, Inr applied_record)"
proof -
  have inputs: "validateRecordInputs demo_env applied_record (Some later_snapshot) = (None, None)"
    by (simp add: validateRecordInputs_def applied_record_valid opt_err_def later_snapshot_valid)
  have d: "xr_Dispatch applied_record = Some op_dispatch" by (simp add: applied_record_def op_dispatch_def)
  have "record_binding_errors demo_env (os_kernel op_state1) op_admission applied_record (Some later_snapshot) True None None = [None, None, None, None]"
    using readback_checks(10) d
    by (simp add: record_binding_errors_def applied_bound applied_fields readback_checks(1) readback_accepted opt_err_def)
  moreover have nones: "mostSpecific [None, None, op_check False DanglingReference ''execution admission'',
      op_check False SequenceConflict ''idempotent outcome bytes'', None, None, None, None] = None" by simp
  ultimately show ?thesis
    by (simp add: Record_def inputs applied_fields op_intent_fields applied_record_bytes op_state2_def nones)
qed

section \<open>Witnesses\<close>

theorem admission_is_idempotent_witness:
  "Admit demo_env op_state2 later_snapshot (op_context ''9'' ''12'') op_intent None = (op_state2, Inr 0)"
proof -
  have "(op_step demo_env)\<^sup>*\<^sup>* (op_state1, {#}) (op_state2, {#})"
    by (rule r_into_rtranclp, rule records [OF op_recorded]) (simp add: applied_fields)
  with admission_is_idempotent [OF op_kernel_new, of demo_env op_state0 "{#}"] show ?thesis
    using op_admitted later_snapshot_valid op_contexts_valid(2) op_initial by auto
qed

theorem operations_refine_ledger_witness:
  "ledger_of op_state2 \<noteq> ledger_of op_state1 \<and> ledger_step 1 (ledger_of op_state1) (ledger_of op_state2)"
proof -
  have "op_step demo_env (op_state1, {#}) (op_state2, {#})"
    by (rule records [OF op_recorded]) (simp add: applied_fields)
  from operations_refine_ledger [OF op_kernel_new op_reached this]
  have "ledger_of op_state2 = ledger_of op_state1 \<or> ledger_step 1 (ledger_of op_state1) (ledger_of op_state2)" by simp
  moreover have "ledger_of op_state1 ''key-1'' = Some (ad_intentBytes op_admission, None)"
    by (simp add: ledger_of_def applied_fields entry_of_def)
  moreover have "ledger_of op_state2 ''key-1'' = Some (ad_intentBytes op_admission, Some record_bytes)"
    by (simp add: ledger_of_def op_state2_def store_record_def applied_fields entry_of_def)
  ultimately show ?thesis by (metis option.inject option.simps(3) prod.inject)
qed

theorem retention_is_bounded_witness:
  "int (card (dom (ledger_of op_state1))) = 1 \<and>
   fst (Admit demo_env op_state1 op_snapshot (op_context ''6'' ''9'') (op_intent\<lparr>in_IdempotencyKey := ''key-2''\<rparr>) (Some op_authority)) = op_state1"
proof -
  have "dom (ledger_of op_state1) = {''key-1''}" by (simp add: dom_ledger_of applied_fields)
  then have "int (card (dom (ledger_of op_state1))) = 1" by simp
  moreover have "ledger_of op_state1 ''key-2'' = None" by (simp add: ledger_of_def applied_fields)
  ultimately show ?thesis using retention_is_bounded [OF op_kernel_new op_reached, of "op_intent\<lparr>in_IdempotencyKey := ''key-2''\<rparr>" op_snapshot "op_context ''6'' ''9''" "Some op_authority"]
    by simp
qed

theorem admitted_route_is_live_witness:
  "\<exists>c b. filter (\<lambda>c. route_from demo_env (ok_registry op_kernel) op_snapshot op_intent c \<noteq> []) (elems (sn_Capabilities op_snapshot)) = [c] \<and>
    op_route = route_of c b \<and> nb_State b = BindingCurrent"
proof -
  have eqs: "ad_route op_admission = op_route" "os_kernel op_state0 = op_kernel"
    by (simp_all add: op_admission_def new_admission_def op_state0_def)
  obtain c b where "filter (\<lambda>c. route_from demo_env (ok_registry op_kernel) op_snapshot op_intent c \<noteq> []) (elems (sn_Capabilities op_snapshot)) = [c]"
    "op_route = route_of c b" "nb_State b = BindingCurrent"
    using admitted_route_is_live [OF op_ready] unfolding eqs by (elim exE conjE) (rule that)
  then show ?thesis by (intro exI conjI)
qed

theorem admission_is_authorised_in_time_witness:
  "(6::int) < 100 \<and> (6::int) < 50 \<and> sn_AssetID op_snapshot = in_AssetID op_intent \<and> ad_admittedRevision op_admission = sn_Revisions op_snapshot"
proof -
  have v: "i64_val (tp_UnixNanoseconds (ec_EvaluatedAt (op_context ''6'' ''9''))) = Some 6" "u64_val (tp_UncertaintyNS (ec_EvaluatedAt (op_context ''6'' ''9''))) = Some 0"
    "i64_val (tp_UnixNanoseconds (in_Deadline op_intent)) = Some 100" "u64_val (tp_UncertaintyNS (in_Deadline op_intent)) = Some 0"
    "i64_val (tp_UnixNanoseconds (cc_ExpiresAt (in_Causal op_intent))) = Some 50" "u64_val (tp_UncertaintyNS (cc_ExpiresAt (in_Causal op_intent))) = Some 0"
    by code_simp+
  have "\<bar>6 - 6 :: int\<bar> \<le> 0" "\<bar>100 - 100 :: int\<bar> \<le> 0" "\<bar>50 - 50 :: int\<bar> \<le> 0" by simp_all
  from admission_is_authorised_in_time [OF op_ready v this] show ?thesis by (elim conjE) (intro conjI, assumption+)
qed

theorem admitted_preconditions_hold_witness:
  "\<exists>c f. f \<in> set (elems (sn_Facts op_snapshot)) \<and> c \<in> set (elems (fe_Candidates f)) \<and> fc_CandidateID c = ''fact-a'' \<and> fc_Revision c = ''1''"
proof -
  have "op_precondition \<in> set (elems (in_Preconditions op_intent))" by (simp add: op_intent_fields)
  moreover have "pn_CandidateID op_precondition = ''fact-a''" "pn_CandidateRevision op_precondition = ''1''" by (simp_all add: op_precondition_def)
  ultimately show ?thesis using admitted_preconditions_hold [OF op_ready] by metis
qed

lemma op_reached2: "(op_step demo_env)\<^sup>*\<^sup>* (initial_system op_kernel) (op_state2, {#})"
  by (rule rtranclp.rtrancl_into_rtrancl [OF op_reached], rule records [OF op_recorded]) (simp add: applied_fields)

lemma op_state2_heap: "os_heap op_state2 = [op_admission\<lparr>ad_record := Some applied_record, ad_recordBytes := record_bytes\<rparr>]"
  by (simp add: op_state2_def store_record_def applied_fields)

theorem recorded_outcome_is_final_witness:
  "fst (Record demo_env op_state2 (Some 0) (applied_record\<lparr>xr_Outcome := OutcomeConflict\<rparr>) None) = op_state2"
  using recorded_outcome_is_final [OF op_kernel_new op_reached2, of 0 applied_record op_state2 "{#}"] by (simp add: op_state2_heap)

theorem recorded_outcome_belongs_to_admission_witness:
  "CanonicalJSON (ExecutionRecord_Validate demo_env) json_of_ExecutionRecord applied_record = Inr record_bytes \<and>
   xr_Route applied_record = Some (ad_route op_admission)"
proof -
  let ?a = "op_admission\<lparr>ad_record := Some applied_record, ad_recordBytes := record_bytes\<rparr>"
  have "?a \<in> set (os_heap op_state2)" "ad_record ?a = Some applied_record" "ad_hasRoute ?a"
    by (simp_all add: op_state2_heap op_admission_def new_admission_def)
  from recorded_outcome_belongs_to_admission [OF op_kernel_new op_reached2 this(1, 2)] this(3) show ?thesis by simp
qed

theorem applied_outcome_is_confirmed_witness:
  "\<exists>c f. f \<in> set (elems (sn_Facts later_snapshot)) \<and> c \<in> set (elems (fe_Candidates f)) \<and> ql_Assertion (fc_Quality c) = AssertionObserved \<and>
     fc_BindingID c = Some (rt_BindingID (ad_route op_admission)) \<and>
     op_compareUint64 (rv_Semantic (sn_Revisions later_snapshot)) (rv_Semantic (ad_admittedRevision op_admission)) > 0"
proof -
  have "op_state2 \<noteq> op_state1"
  proof
    assume "op_state2 = op_state1"
    then have "os_heap op_state2 = os_heap op_state1" by simp
    then have "ad_record (op_admission\<lparr>ad_record := Some applied_record, ad_recordBytes := record_bytes\<rparr>) = ad_record op_admission"
      by (simp add: op_state2_heap applied_fields(5))
    then show False by (simp add: applied_fields(6))
  qed
  from applied_outcome_is_confirmed [OF op_recorded this applied_fields(3)] show ?thesis
    unfolding applied_fields(2, 5) nth_Cons_0 option.inject by (elim exE conjE) (intro exI conjI, simp_all)
qed

theorem causal_chains_end_witness:
  "\<exists>c. enter_chain op_causal [(''hub'', demo_time ''6''), (''gateway'', demo_time ''7'')] = Inr c \<and> cc_HopCount c = 2 \<and>
     distinct (elems (cc_Path c))"
proof -
  have "\<exists>c. enter_chain op_causal [(''hub'', demo_time ''6''), (''gateway'', demo_time ''7'')] = Inr c"
    by (cases "enter_chain op_causal [(''hub'', demo_time ''6''), (''gateway'', demo_time ''7'')]") (simp_all add: op_causal_def, code_simp+)
  then obtain c where c: "enter_chain op_causal [(''hub'', demo_time ''6''), (''gateway'', demo_time ''7'')] = Inr c" by blast
  have "CausalContext_Validate op_causal = None" "cc_HopCount op_causal = 0" by code_simp+
  with causal_chains_end [OF c] c show ?thesis by auto
qed

end
