(* ===== verification/Evaluation_Laws.thy ===== *)
theory Evaluation_Laws
  imports Evaluation Snapshot_Laws
begin

text \<open>
  The evaluation of candidates against its specification: the freshness of a candidate is its own,
  combined with that of its derivation inputs. Whatever the memoised recursion returns satisfies it,
  and on the graph of a valid snapshot the recursion returns, with the fuel that
  \<open>EvaluateSnapshot\<close> gives it.
\<close>

section \<open>Specification\<close>

inductive evaluates :: "candidate_map \<Rightarrow> EvaluationContext \<Rightarrow> CandidateID \<Rightarrow> EvaluatedFact \<Rightarrow> bool" for cands ctx where
  evaluates_candidate:
    "map_of cands cid = Some c \<Longrightarrow> evaluateFreshness (fc_Times c) (fc_FreshnessPolicy c) ctx = Inr own \<Longrightarrow>
     list_all2 (\<lambda>i r. evaluates cands ctx (di_CandidateID i) r) (candidate_inputs c) rs \<Longrightarrow>
     evaluates cands ctx cid (evaluated_fact c (foldl combineFreshness own (map ef_Freshness rs)))"

lemma evaluates_identity:
  assumes "evaluates cands ctx cid r"
  shows "\<exists>c. map_of cands cid = Some c \<and> ef_CandidateID r = fc_CandidateID c \<and> ef_CandidateRevision r = fc_Revision c \<and>
    ef_EffectiveAvailability r = effectiveAvailability (ql_Availability (fc_Quality c)) (ef_Freshness r)"
  using assms by (cases rule: evaluates.cases) (auto simp: evaluated_fact_def)

lemma evaluates_unique:
  assumes "evaluates cands ctx cid r" "evaluates cands ctx cid r'"
  shows "r = r'"
  using assms
proof (induction arbitrary: r' rule: evaluates.induct)
  case (evaluates_candidate cid c own rs)
  from evaluates_candidate.prems obtain rs' where r': "r' = evaluated_fact c (foldl combineFreshness own (map ef_Freshness rs'))"
      "list_all2 (\<lambda>i r. evaluates cands ctx (di_CandidateID i) r) (candidate_inputs c) rs'"
    using evaluates_candidate.hyps(1, 2) by (cases rule: evaluates.cases) auto
  have "rs = rs'"
  proof (rule nth_equalityI)
    show len: "length rs = length rs'"
      using list_all2_lengthD [OF evaluates_candidate.IH] list_all2_lengthD [OF r'(2)] by simp
    show "rs ! n = rs' ! n" if "n < length rs" for n
      using list_all2_nthD2 [OF evaluates_candidate.IH that] list_all2_nthD2 [OF r'(2), of n] that len by auto
  qed
  with r' show ?case by simp
qed

section \<open>What the recursion returns\<close>

definition eval_memo_ok :: "candidate_map \<Rightarrow> EvaluationContext \<Rightarrow> memo \<Rightarrow> bool" where
  "eval_memo_ok cands ctx memo \<longleftrightarrow> (\<forall>cid r. map_of memo cid = Some r \<longrightarrow> evaluates cands ctx cid r)"

definition sound_eval :: "candidate_map \<Rightarrow> EvaluationContext \<Rightarrow> (memo \<Rightarrow> CandidateID \<Rightarrow> memo \<times> (error + EvaluatedFact)) \<Rightarrow> bool" where
  "sound_eval cands ctx ev \<longleftrightarrow> (\<forall>memo cid memo' r. eval_memo_ok cands ctx memo \<longrightarrow> ev memo cid = (memo', r) \<longrightarrow>
     eval_memo_ok cands ctx memo' \<and> (\<forall>f. r = Inr f \<longrightarrow> evaluates cands ctx cid f))"

lemma sound_evalD:
  assumes "sound_eval cands ctx ev" "eval_memo_ok cands ctx memo" "ev memo cid = (memo', r)"
  shows "eval_memo_ok cands ctx memo'" "r = Inr f \<Longrightarrow> evaluates cands ctx cid f"
  using assms unfolding sound_eval_def by blast+

lemma evaluate_inputs_sound:
  assumes "sound_eval cands ctx ev" "eval_memo_ok cands ctx memo" "evaluate_inputs ev inputs memo own = (memo', r)"
  shows "eval_memo_ok cands ctx memo' \<and> (\<forall>f. r = Inr f \<longrightarrow> (\<exists>rs. f = foldl combineFreshness own (map ef_Freshness rs) \<and>
    list_all2 (\<lambda>i r. evaluates cands ctx (di_CandidateID i) r) inputs rs))"
  using assms(2, 3)
proof (induction inputs arbitrary: memo own)
  case (Cons i inputs)
  obtain memo1 r1 where step: "ev memo (di_CandidateID i) = (memo1, r1)" by fastforce
  note ok = sound_evalD [OF assms(1) Cons.prems(1) step]
  show ?case
  proof (cases r1)
    case (Inl e)
    with Cons.prems(2) step ok show ?thesis by auto
  next
    case (Inr f1)
    then have rest: "evaluate_inputs ev inputs memo1 (combineFreshness own (ef_Freshness f1)) = (memo', r)"
      using Cons.prems(2) step by simp
    have "eval_memo_ok cands ctx memo'" using Cons.IH [OF ok(1) rest] by blast
    moreover have "\<exists>rs. f = foldl combineFreshness own (map ef_Freshness rs) \<and>
        list_all2 (\<lambda>i r. evaluates cands ctx (di_CandidateID i) r) (i # inputs) rs" if f: "r = Inr f" for f
    proof -
      obtain rs where rs: "f = foldl combineFreshness (combineFreshness own (ef_Freshness f1)) (map ef_Freshness rs)"
          "list_all2 (\<lambda>i r. evaluates cands ctx (di_CandidateID i) r) inputs rs"
        using Cons.IH [OF ok(1) rest] f by blast
      with ok(2) [OF Inr] show ?thesis by (intro exI [of _ "f1 # rs"]) simp
    qed
    ultimately show ?thesis by blast
  qed
qed auto

lemma evaluate_sound: "sound_eval cands ctx (evaluate n cands ctx visiting)"
proof (induction n arbitrary: visiting)
  case (Suc n)
  show ?case unfolding sound_eval_def
  proof (intro allI impI)
    fix memo cid memo' r
    assume memo: "eval_memo_ok cands ctx memo" and ev: "evaluate (Suc n) cands ctx visiting memo cid = (memo', r)"
    show "eval_memo_ok cands ctx memo' \<and> (\<forall>f. r = Inr f \<longrightarrow> evaluates cands ctx cid f)"
    proof (cases "map_of memo cid")
      case (Some f)
      with memo ev show ?thesis by (auto simp: evaluate_step_def eval_memo_ok_def)
    next
      case None
      show ?thesis
      proof (cases "\<exists>c own. map_of cands cid = Some c \<and> cid \<notin> set visiting \<and> evaluateFreshness (fc_Times c) (fc_FreshnessPolicy c) ctx = Inr own")
        case False
        with None memo ev show ?thesis by (auto simp: evaluate_step_def split: option.splits if_splits sum.splits)
      next
        case True
        then obtain c own where c: "map_of cands cid = Some c" "cid \<notin> set visiting"
          "evaluateFreshness (fc_Times c) (fc_FreshnessPolicy c) ctx = Inr own" by blast
        obtain memo1 r1 where inputs: "evaluate_inputs (evaluate n cands ctx (cid # visiting)) (candidate_inputs c) memo own = (memo1, r1)" by fastforce
        note ok = evaluate_inputs_sound [OF Suc.IH memo inputs]
        show ?thesis
        proof (cases r1)
          case (Inl e)
          with None c inputs ev ok show ?thesis by (auto simp: evaluate_step_def)
        next
          case (Inr f)
          with ok obtain rs where "f = foldl combineFreshness own (map ef_Freshness rs)"
            "list_all2 (\<lambda>i r. evaluates cands ctx (di_CandidateID i) r) (candidate_inputs c) rs" by blast
          then have "evaluates cands ctx cid (evaluated_fact c f)" using evaluates_candidate [OF c(1, 3)] by simp
          with None c inputs ev ok Inr show ?thesis by (auto simp: evaluate_step_def eval_memo_ok_def update_conv' split: if_splits)
        qed
      qed
    qed
  qed
qed (auto simp: sound_eval_def)

lemma evaluate_all_sound:
  assumes "sound_eval cands ctx ev" "eval_memo_ok cands ctx memo" "evaluate_all ev ids memo = Inr rs"
  shows "list_all2 (evaluates cands ctx) ids rs"
  using assms(2, 3)
proof (induction ids arbitrary: memo rs)
  case (Cons cid ids)
  obtain memo1 r1 where step: "ev memo cid = (memo1, r1)" by fastforce
  with Cons.prems(2) obtain f rs' where "r1 = Inr f" "evaluate_all ev ids memo1 = Inr rs'" "rs = f # rs'"
    by (auto split: sum.splits)
  with Cons.IH sound_evalD [OF assms(1) Cons.prems(1) step] show ?case by simp
qed simp

section \<open>The recursion returns\<close>

text \<open>A rank that falls along derivation inputs, as a derivation graph without cycles has.\<close>

definition ranked_inputs :: "candidate_map \<Rightarrow> (CandidateID \<Rightarrow> nat) \<Rightarrow> bool" where
  "ranked_inputs cands rank \<longleftrightarrow> (\<forall>cid c i. map_of cands cid = Some c \<longrightarrow> i \<in> set (candidate_inputs c) \<longrightarrow>
     map_of cands (di_CandidateID i) \<noteq> None \<and> rank (di_CandidateID i) < rank cid)"

lemma evaluate_inputs_returns:
  assumes "\<And>memo i. i \<in> set inputs \<Longrightarrow> \<exists>memo' r. ev memo (di_CandidateID i) = (memo', Inr r)"
  shows "\<exists>memo' f. evaluate_inputs ev inputs memo own = (memo', Inr f)"
  using assms
proof (induction inputs arbitrary: memo own)
  case (Cons i inputs)
  obtain memo1 r where "ev memo (di_CandidateID i) = (memo1, Inr r)" using Cons.prems [of i memo] by auto
  with Cons.IH [of memo1 "combineFreshness own (ef_Freshness r)"] Cons.prems show ?case by simp
qed simp

lemma evaluate_returns:
  assumes "ranked_inputs cands rank"
    and "\<And>cid c. map_of cands cid = Some c \<Longrightarrow> \<exists>own. evaluateFreshness (fc_Times c) (fc_FreshnessPolicy c) ctx = Inr own"
    and "map_of cands cid \<noteq> None" "\<forall>v \<in> set visiting. rank cid < rank v" "card (dom (map_of cands) - set visiting) < n"
  shows "\<exists>memo' r. evaluate n cands ctx visiting memo cid = (memo', Inr r)"
  using assms(3-)
proof (induction n arbitrary: cid visiting memo)
  case (Suc n)
  then obtain c where c: "map_of cands cid = Some c" by blast
  obtain own where own: "evaluateFreshness (fc_Times c) (fc_FreshnessPolicy c) ctx = Inr own" using assms(2) [OF c] by blast
  have fresh: "cid \<notin> set visiting" using Suc.prems(2) by auto
  have "\<exists>memo' r. evaluate n cands ctx (cid # visiting) memo (di_CandidateID i) = (memo', Inr r)"
    if "i \<in> set (candidate_inputs c)" for memo i
  proof (rule Suc.IH)
    have i: "map_of cands (di_CandidateID i) \<noteq> None" "rank (di_CandidateID i) < rank cid"
      using assms(1) c that unfolding ranked_inputs_def by blast+
    then show "map_of cands (di_CandidateID i) \<noteq> None" "\<forall>v \<in> set (cid # visiting). rank (di_CandidateID i) < rank v"
      using Suc.prems(2) by auto
    have "cid \<in> dom (map_of cands) - set visiting" using c fresh by auto
    then have "card (dom (map_of cands) - set (cid # visiting)) < card (dom (map_of cands) - set visiting)"
      by (intro psubset_card_mono) (auto simp: finite_dom_map_of)
    then show "card (dom (map_of cands) - set (cid # visiting)) < n" using Suc.prems(3) by simp
  qed
  then obtain memo1 f
    where "evaluate_inputs (evaluate n cands ctx (cid # visiting)) (candidate_inputs c) memo own = (memo1, Inr f)"
    using evaluate_inputs_returns [of "candidate_inputs c" "evaluate n cands ctx (cid # visiting)"] by blast
  with c own fresh show ?case by (cases "map_of memo cid") (simp_all add: evaluate_step_def)
qed simp

lemma evaluate_all_returns:
  assumes "\<And>memo cid. cid \<in> set ids \<Longrightarrow> \<exists>memo' r. ev memo cid = (memo', Inr r)"
  shows "\<exists>rs. evaluate_all ev ids memo = Inr rs"
  using assms
proof (induction ids arbitrary: memo)
  case (Cons cid ids)
  obtain memo1 r where "ev memo cid = (memo1, Inr r)" using Cons.prems [of cid memo] by auto
  with Cons.IH [of memo1] Cons.prems show ?case by auto
qed simp

section \<open>Valid snapshots\<close>

lemma derives_rank:
  assumes "\<And>cid c. map_of cands cid = Some c \<Longrightarrow> \<exists>paths depth. derives cands bindings cid paths depth"
  shows "\<exists>rank. ranked_inputs cands rank"
proof -
  define rank where "rank cid = (LEAST n. \<exists>paths. derives cands bindings cid paths (int n))" for cid
  have least: "\<exists>paths. derives cands bindings cid paths (int (rank cid))" if d: "derives cands bindings cid paths depth" for cid paths depth
  proof -
    have "derives cands bindings cid paths (int (nat depth))" using d derives_depth [OF d] by simp
    then show ?thesis unfolding rank_def by (intro LeastI [where P = "\<lambda>n. \<exists>paths. derives cands bindings cid paths (int n)"]) blast
  qed
  have "map_of cands (di_CandidateID i) \<noteq> None \<and> rank (di_CandidateID i) < rank cid"
    if c: "map_of cands cid = Some c" and i: "i \<in> set (candidate_inputs c)" for cid c i
  proof -
    obtain paths where d: "derives cands bindings cid paths (int (rank cid))" using assms [OF c] least by blast
    have inferred: "ql_Assertion (fc_Quality c) = AssertionInferred" using i by (cases "ql_Assertion (fc_Quality c) = AssertionInferred") (simp_all add: candidate_inputs_def)
    from d obtain dv where dv: "fc_Derivation c = Some dv" "\<forall>i \<in> set (elems (dv_Inputs dv)). \<exists>dep n. map_of cands (di_CandidateID i) = Some dep \<and>
        derives cands bindings (di_CandidateID i) (di_SourcePaths i) n \<and> n < int (rank cid)"
      using c inferred by (cases rule: derives.cases) auto
    have "i \<in> set (elems (dv_Inputs dv))" using i inferred dv(1) by (simp add: candidate_inputs_def)
    with dv(2) obtain dep n where n: "map_of cands (di_CandidateID i) = Some dep"
      "derives cands bindings (di_CandidateID i) (di_SourcePaths i) n" "n < int (rank cid)" by blast
    have "rank (di_CandidateID i) \<le> nat n" unfolding rank_def
      by (rule Least_le) (use n(2) derives_depth [OF n(2)] in auto)
    with n derives_depth [OF n(2)] show ?thesis by auto
  qed
  then show ?thesis unfolding ranked_inputs_def by blast
qed

lemma snapshot_candidates_entries:
  assumes "Snapshot_Validate E s = None"
  shows "snapshot_candidates s = snapshot_entries s"
proof -
  have "distinct (map fc_CandidateID (snapshot_candidate_list s))"
    using valid_snapshot_facts(1) [OF assms] by (simp add: snapshot_entries_def candidate_entries_def snapshot_candidate_list_def comp_def)
  then show ?thesis
    by (simp add: snapshot_candidates_def map_from_distinct snapshot_entries_def candidate_entries_def snapshot_candidate_list_def)
qed

lemma valid_snapshot_ranked:
  assumes "Snapshot_Validate E s = None"
  shows "\<exists>rank. ranked_inputs (snapshot_candidates s) rank"
  unfolding snapshot_candidates_entries [OF assms]
proof (rule derives_rank)
  fix cid c assume "map_of (snapshot_entries s) cid = Some c"
  then have "cid \<in> set (map fst (snapshot_entries s))" by (force dest: map_of_SomeD)
  from closeCandidateGraphStrict_sound [OF valid_snapshot_facts(3) [OF assms] this]
  show "\<exists>paths depth. derives (snapshot_entries s) (snapshot_bindings s) cid paths depth" by blast
qed

lemma evaluate_all_valid:
  assumes "Snapshot_Validate E s = None" "\<And>c. c \<in> set (snapshot_candidate_list s) \<Longrightarrow>
      \<exists>f. evaluateFreshness (fc_Times c) (fc_FreshnessPolicy c) ctx = Inr f"
  shows "\<exists>facts. evaluate_all (evaluate (length (snapshot_candidates s) + 1) (snapshot_candidates s) ctx [])
      (sort_by string_compare (map fst (snapshot_candidates s))) [] = Inr facts"
proof (rule evaluate_all_returns)
  let ?m = "snapshot_candidates s"
  fix memo cid assume "cid \<in> set (sort_by string_compare (map fst ?m))"
  then have dom: "map_of ?m cid \<noteq> None" by (simp add: map_of_eq_None_iff)
  obtain rank where rank: "ranked_inputs ?m rank" using valid_snapshot_ranked [OF assms(1)] by blast
  have own: "\<exists>own. evaluateFreshness (fc_Times c) (fc_FreshnessPolicy c) ctx = Inr own" if "map_of ?m cid = Some c" for cid c
    using assms(2) map_from_lookup_key [OF that [unfolded snapshot_candidates_def]] by blast
  have "card (dom (map_of ?m)) \<le> length ?m" by (simp add: dom_map_of_conv_image_fst) (metis card_length length_map list.set_map)
  then show "\<exists>memo' r. evaluate (length ?m + 1) ?m ctx [] memo cid = (memo', Inr r)"
    by (intro evaluate_returns [OF rank own dom]) auto
qed

text \<open>The identifiers of evaluated facts are those of the candidates, in order.\<close>

lemma evaluated_ids:
  assumes "evaluate_all (evaluate n (snapshot_candidates s) ctx []) ids [] = Inr facts"
  shows "map ef_CandidateID facts = ids" "list_all2 (evaluates (snapshot_candidates s) ctx) ids facts"
proof -
  show ok: "list_all2 (evaluates (snapshot_candidates s) ctx) ids facts"
    by (rule evaluate_all_sound [OF evaluate_sound _ assms]) (simp add: eval_memo_ok_def)
  have "ef_CandidateID r = cid" if "evaluates (snapshot_candidates s) ctx cid r" for cid r
    using evaluates_identity [OF that] map_from_lookup_key [of fc_CandidateID "snapshot_candidate_list s"] by (auto simp: snapshot_candidates_def)
  with ok show "map ef_CandidateID facts = ids" by (induction rule: list_all2_induct) simp_all
qed

end
