(* ===== verification/Evaluation_Properties.thy ===== *)
theory Evaluation_Properties
  imports Evaluation_Laws Scenario_Facts
begin

text \<open>
  The evaluation of a valid snapshot returns: the recursion over derivations ends, for every
  candidate, and the retained observations are those that have not expired.
\<close>

definition freshness_known :: "EvaluationContext \<Rightarrow> FactCandidate \<Rightarrow> bool" where
  "freshness_known ctx c = (case evaluateFreshness (fc_Times c) (fc_FreshnessPolicy c) ctx of Inl e \<Rightarrow> False | Inr f \<Rightarrow> True)"

definition own_freshness :: "EvaluationContext \<Rightarrow> FactCandidate \<Rightarrow> Freshness" where
  "own_freshness ctx c = (case evaluateFreshness (fc_Times c) (fc_FreshnessPolicy c) ctx of Inl e \<Rightarrow> FreshnessUnknown | Inr f \<Rightarrow> f)"

definition unexpired :: "EvaluationContext \<Rightarrow> RetainedObservationRecord list \<Rightarrow> EvaluatedRetainedObservation list" where
  "unexpired ctx rs = map (\<lambda>r. \<lparr>er_Observation = r, er_Freshness = own_freshness ctx (ro_Candidate r)\<rparr>)
     (filter (\<lambda>r. own_freshness ctx (ro_Candidate r) \<noteq> FreshnessExpired) rs)"

lemma freshness_known_iff:
  "freshness_known ctx c \<longleftrightarrow> evaluateFreshness (fc_Times c) (fc_FreshnessPolicy c) ctx = Inr (own_freshness ctx c)"
  by (simp add: freshness_known_def own_freshness_def split: sum.split)

lemma evaluate_retained_unexpired:
  "list_all (\<lambda>r. freshness_known ctx (ro_Candidate r)) rs \<Longrightarrow> evaluate_retained ctx rs = Inr (unexpired ctx rs)"
  by (induction rs) (auto simp: unexpired_def freshness_known_iff)

text \<open>The view an evaluation computes, before its digest.\<close>

definition evaluation_view :: "Snapshot \<Rightarrow> EvaluationContext \<Rightarrow> EvaluatedFact list \<Rightarrow> EvaluationView" where
  "evaluation_view s ctx facts = \<lparr>vw_Contract = ContractEvaluationV1, vw_SnapshotID = sn_SnapshotID s, vw_Revisions = sn_Revisions s,
     vw_Context = ctx, vw_Facts = Some facts, vw_Retained = Some (unexpired ctx (elems (sn_Retained s))), vw_EvaluationDigest = []\<rparr>"

text \<open>C34: Evaluation is complete. For a valid snapshot and a valid context that is not earlier than it,
  if the freshness of every single candidate and retained observation can be computed, then the
  evaluation returns: the recursion over the derivation inputs ends for every candidate without
  finding a cycle, a missing input or the end of its fuel. The facts are those of all candidates,
  ordered by identifier, each the value that the inductive specification gives it (own freshness
  combined with that of all derivation inputs), the retained observations are the ones that have not
  expired, and the result is the digest of that view, or the error of the digest.\<close>

theorem evaluation_is_complete:
  assumes "Snapshot_Validate E s = None" "EvaluationContext_Validate ctx = None" "contextNotEarlierThanSnapshot s ctx = None"
    and "list_all (freshness_known ctx) (snapshot_candidate_list s)"
    and "list_all (\<lambda>r. freshness_known ctx (ro_Candidate r)) (elems (sn_Retained s))"
  shows "\<exists>facts. map ef_CandidateID facts = sort_by string_compare (map fst (snapshot_candidates s)) \<and>
    list_all2 (evaluates (snapshot_candidates s) ctx) (map ef_CandidateID facts) facts \<and>
    EvaluateSnapshot E s ctx = (case EvaluationDigestValue E (evaluation_view s ctx facts) of
      Inl e \<Rightarrow> Inl e | Inr digest \<Rightarrow> Inr ((evaluation_view s ctx facts)\<lparr>vw_EvaluationDigest := digest\<rparr>))"
proof -
  have "\<exists>f. evaluateFreshness (fc_Times c) (fc_FreshnessPolicy c) ctx = Inr f" if "c \<in> set (snapshot_candidate_list s)" for c
    using assms(4) that by (auto simp: list_all_iff freshness_known_iff)
  from evaluate_all_valid [OF assms(1) this]
  obtain facts where facts: "evaluate_all (evaluate (length (snapshot_candidates s) + 1) (snapshot_candidates s) ctx [])
      (sort_by string_compare (map fst (snapshot_candidates s))) [] = Inr facts" by blast
  have "EvaluateSnapshot E s ctx = (case EvaluationDigestValue E (evaluation_view s ctx facts) of
      Inl e \<Rightarrow> Inl e | Inr digest \<Rightarrow> Inr ((evaluation_view s ctx facts)\<lparr>vw_EvaluationDigest := digest\<rparr>))"
    using assms(1-3) facts evaluate_retained_unexpired [OF assms(5)]
    by (simp add: EvaluateSnapshot_def Let_def evaluation_view_def split: sum.split)
  with evaluated_ids [OF facts] show ?thesis by auto
qed

definition later_context :: EvaluationContext where
  "later_context = \<lparr>ec_EvaluatedAt = demo_time ''9'', ec_EvaluateMonotonic = demo_point ''12''\<rparr>"

theorem evaluation_is_complete_witness:
  "\<exists>facts. map ef_CandidateID facts = sort_by string_compare (map fst (snapshot_candidates second_snapshot)) \<and>
    list_all2 (evaluates (snapshot_candidates second_snapshot) later_context) (map ef_CandidateID facts) facts \<and>
    EvaluateSnapshot demo_env second_snapshot later_context = (case EvaluationDigestValue demo_env (evaluation_view second_snapshot later_context facts) of
      Inl e \<Rightarrow> Inl e | Inr digest \<Rightarrow> Inr ((evaluation_view second_snapshot later_context facts)\<lparr>vw_EvaluationDigest := digest\<rparr>))"
proof (rule evaluation_is_complete)
  show "Snapshot_Validate demo_env second_snapshot = None" by (rule second_valid)
  show "EvaluationContext_Validate later_context = None" by code_simp
  show "contextNotEarlierThanSnapshot second_snapshot later_context = None" by code_simp
  show "list_all (freshness_known later_context) (snapshot_candidate_list second_snapshot)" by code_simp
  show "list_all (\<lambda>r. freshness_known later_context (ro_Candidate r)) (elems (sn_Retained second_snapshot))" by code_simp
qed

end
