(* ===== verification/Pack_Validator.thy ===== *)
theory Pack_Validator
  imports Complex_Main Operation_Validation Registry
begin

text \<open>
  What the five packages under \<^verbatim>\<open>semreg/v1/packs\<close> have in common. Each package is a table of fields,
  services, capabilities and operations with a validator that reads it; the validators are copies of
  one another up to the word in their error details and the differences kept apart here: the check of
  a key's dimensions and the wording for a bad symbol. A \<open>pack_tables\<close> record holds one
  package's tables. The line ranges of these shared definitions are those of the EVSE package; the
  definitions of the other packages are instances of them or, where a package differs, their own.
\<close>

section \<open>Tables\<close>

record decimalBound =
  db_coefficient :: string
  db_exponent10 :: int

definition decimal :: "decimalBound \<Rightarrow> Decimal" where
  "decimal b = \<lparr>dc_Coefficient = db_coefficient b, dc_Exponent10 = db_exponent10 b\<rparr>"

definition bound :: "string \<Rightarrow> int \<Rightarrow> decimalBound option" where
  "bound c e = Some \<lparr>db_coefficient = c, db_exponent10 = e\<rparr>"

record fieldSpec =
  fs_id :: DefinitionID
  fs_kind :: ValueKind
  fs_unit :: DefinitionID
  fs_dimension :: DefinitionID
  fs_minimum :: "decimalBound option"
  fs_maximum :: "decimalBound option"
  fs_symbols :: "string list"

record capabilitySpec =
  cs_service :: DefinitionID
  cs_constraints :: "DefinitionID list"

record operationSpec =
  op_capability :: DefinitionID
  op_argument :: DefinitionID
  op_effect :: DefinitionID

text \<open>One row of a field table: a quantity with its unit and bounds, or a symbol with its tokens.\<close>

definition quantity_field :: "DefinitionID \<Rightarrow> DefinitionID \<Rightarrow> DefinitionID \<Rightarrow> decimalBound option \<Rightarrow> decimalBound option \<Rightarrow> fieldSpec" where
  "quantity_field i unit dimension lo hi =
     \<lparr>fs_id = i, fs_kind = ValueQuantity, fs_unit = unit, fs_dimension = dimension, fs_minimum = lo, fs_maximum = hi, fs_symbols = []\<rparr>"

definition symbol_field :: "DefinitionID \<Rightarrow> DefinitionID \<Rightarrow> string list \<Rightarrow> fieldSpec" where
  "symbol_field i dimension symbols =
     \<lparr>fs_id = i, fs_kind = ValueSymbol, fs_unit = '''', fs_dimension = dimension, fs_minimum = None, fs_maximum = None, fs_symbols = symbols\<rparr>"

record pack_tables =
  pt_name :: string
  pt_symbol_name :: string
  pt_pack :: PackRef
  pt_dimensions_ok :: "Dimension slice \<Rightarrow> DefinitionID \<Rightarrow> err"
  pt_fields :: "fieldSpec list"
  pt_services :: "(DefinitionID, DefinitionID) gomap"
  pt_capabilities :: "(DefinitionID, capabilitySpec) gomap"
  pt_operations :: "(DefinitionID, operationSpec) gomap"

definition definition_ref :: "PackRef \<Rightarrow> DefinitionID \<Rightarrow> DefinitionRef" where
  "definition_ref pack i = \<lparr>df_Pack = pack, df_ID = i, df_Version = pk_Version pack\<rparr>"

definition findField :: "fieldSpec list \<Rightarrow> DefinitionID \<Rightarrow> fieldSpec option" where
  "findField fs i = List.find (\<lambda>f. fs_id f = i) fs"

section \<open>Values\<close>

text \<open>\<^verbatim>\<open>big.Rat\<close> arithmetic is exact. A coefficient that passed validation is an integer literal; for any
  other text \<^verbatim>\<open>SetString\<close> leaves the receiver undefined, and the model takes zero. Every call in the
  packages comes after the validation of both values.\<close>

definition decimalRat :: "Decimal \<Rightarrow> rat" where
  "decimalRat v =
     (let r = rat_of_int (case SetString10 (dc_Coefficient v) of Some n \<Rightarrow> n | None \<Rightarrow> 0)
      in if dc_Exponent10 v \<ge> 0 then r * rat_of_int (10 ^ nat (dc_Exponent10 v))
         else r / rat_of_int (10 ^ nat (- dc_Exponent10 v)))"

definition compareDecimal :: "Decimal \<Rightarrow> Decimal \<Rightarrow> int" where
  "compareDecimal a b =
     (if decimalRat a < decimalRat b then -1 else if decimalRat a = decimalRat b then 0 else 1)"

definition equalValue :: "Value \<Rightarrow> Value \<Rightarrow> bool" where
  "equalValue a b \<longleftrightarrow>
     (case (vl_Quantity a, vl_Quantity b) of
        (Some p, Some q) \<Rightarrow>
          if vl_Kind a = ValueQuantity \<and> vl_Kind b = ValueQuantity
          then qt_Unit p = qt_Unit q \<and> compareDecimal (qt_Number p) (qt_Number q) = 0
          else a = b
      | _ \<Rightarrow> a = b)"

text \<open>Only the storage package has quantities without a bound; the other packages read both bounds of a
  quantity, which all their quantities have (\<open>shipped_bounds_present\<close>).\<close>

definition below_minimum :: "fieldSpec \<Rightarrow> Decimal \<Rightarrow> bool" where
  "below_minimum s n \<longleftrightarrow> (case fs_minimum s of None \<Rightarrow> False | Some b \<Rightarrow> compareDecimal n (decimal b) < 0)"

definition above_maximum :: "fieldSpec \<Rightarrow> Decimal \<Rightarrow> bool" where
  "above_maximum s n \<longleftrightarrow> (case fs_maximum s of None \<Rightarrow> False | Some b \<Rightarrow> compareDecimal n (decimal b) > 0)"

definition valueOK :: "pack_tables \<Rightarrow> fieldSpec \<Rightarrow> Value \<Rightarrow> err" where
  "valueOK t s v =
     (if vl_Kind v \<noteq> fs_kind s then Some (errID InvalidValue (pt_name t @ '' value kind''))
      else case fs_kind s of
        ValueQuantity \<Rightarrow>
          (case vl_Quantity v of
             None \<Rightarrow> Some (errID InvalidValue (pt_name t @ '' quantity unit''))
           | Some q \<Rightarrow>
               if qt_Unit q \<noteq> fs_unit s then Some (errID InvalidValue (pt_name t @ '' quantity unit''))
               else check_err (below_minimum s (qt_Number q) \<or> above_maximum s (qt_Number q)) BoundsExceeded
                 (pt_name t @ '' quantity bounds''))
      | ValueSymbol \<Rightarrow>
          (case vl_Symbol v of
             None \<Rightarrow> Some (errID InvalidValue (pt_symbol_name t @ '' symbol''))
           | Some y \<Rightarrow>
               check_err (\<not> sy_Known y \<or> sy_Namespace y \<noteq> fs_id s \<or> sy_Namespace y @ ''.'' @ sy_Token y \<notin> set (fs_symbols s))
                 InvalidValue (pt_symbol_name t @ '' symbol''))
      | _ \<Rightarrow> Some (errID InvalidValue (pt_name t @ '' value kind'')))"

definition dimensionsOK :: "string \<Rightarrow> Dimension slice \<Rightarrow> DefinitionID \<Rightarrow> err" where
  "dimensionsOK name ds want = (case elems ds of
     [d] \<Rightarrow> check_err (dm_ID d \<noteq> want \<or> vl_Kind (dm_Value d) \<noteq> ValueText \<or> vl_Text (dm_Value d) = None)
       InvalidValue (name @ '' dimension'')
   | _ \<Rightarrow> Some (errID InvalidValue (name @ '' dimensions'')))"

section \<open>Validator methods\<close>

definition pack_ValidateFact :: "env \<Rightarrow> pack_tables \<Rightarrow> FactKey \<Rightarrow> Value option \<Rightarrow> err" where
  "pack_ValidateFact E t k value = first_error
     [FactKey_Validate E k,
      check_err (value = None) MissingMember ''fact value'',
      opt_err (Value_Validate E) value,
      check_err (fk_PackID k \<noteq> pk_ID (pt_pack t) \<or> fk_PackVersion k \<noteq> pk_Version (pt_pack t)) DefinitionOwnerMissing (pt_name t @ '' pack''),
      (case findField (pt_fields t) (fk_FactID k) of
         None \<Rightarrow> Some (errID DefinitionOwnerMissing (pt_name t @ '' fact''))
       | Some s \<Rightarrow> first_error [pt_dimensions_ok t (fk_Dimensions k) (fs_dimension s), opt_err (valueOK t s) value])]"

definition pack_ValidateService :: "pack_tables \<Rightarrow> ServiceInstance \<Rightarrow> err" where
  "pack_ValidateService t s = first_error
     [ServiceInstance_Validate s,
      check_err (df_Pack (si_Definition s) \<noteq> pt_pack t \<or> df_Version (si_Definition s) \<noteq> pk_Version (pt_pack t))
        DefinitionOwnerMissing (pt_name t @ '' service pack''),
      check_err (map_of (pt_services t) (df_ID (si_Definition s)) = None) DefinitionOwnerMissing (pt_name t @ '' service'')]"

definition pack_ValidateField :: "env \<Rightarrow> pack_tables \<Rightarrow> DefinitionRef \<Rightarrow> TypedField \<Rightarrow> err" where
  "pack_ValidateField E t r f = first_error
     [DefinitionRef_Validate r, TypedField_Validate E f,
      check_err (df_Pack r \<noteq> pt_pack t \<or> df_Version r \<noteq> pk_Version (pt_pack t) \<or> df_ID r \<noteq> tf_ID f)
        DefinitionOwnerMissing (pt_name t @ '' field''),
      (case findField (pt_fields t) (df_ID r) of
         None \<Rightarrow> Some (errID DefinitionOwnerMissing (pt_name t @ '' field''))
       | Some s \<Rightarrow> valueOK t s (tf_Value f))]"

definition constraintsOK :: "env \<Rightarrow> pack_tables \<Rightarrow> TypedField slice \<Rightarrow> DefinitionID list \<Rightarrow> err" where
  "constraintsOK E t values want = (case values of
     None \<Rightarrow> Some (errID MissingMember ''constraints'')
   | Some vs \<Rightarrow>
       if length vs \<noteq> length want then Some (errID InvalidValue (pt_name t @ '' capability constraints''))
       else first_error (map (\<lambda>(v, w). first_error
         [check_err (tf_ID v \<noteq> w) InvalidValue (pt_name t @ '' capability constraint''),
          pack_ValidateField E t (definition_ref (pt_pack t) (tf_ID v)) v]) (zip vs want)))"

definition capability_head :: "env \<Rightarrow> pack_tables \<Rightarrow> CapabilityInstance \<Rightarrow> err list" where
  "capability_head E t c =
     [CapabilityInstance_Validate E c,
      check_err (df_Pack (ci_Definition c) \<noteq> pt_pack t \<or> df_Version (ci_Definition c) \<noteq> pk_Version (pt_pack t))
        DefinitionOwnerMissing (pt_name t @ '' capability pack''),
      check_err (map_of (pt_capabilities t) (df_ID (ci_Definition c)) = None) DefinitionOwnerMissing (pt_name t @ '' capability''),
      check_err (ci_Qualification c \<noteq> QualificationQualified) CapabilityNotQualified ''qualified current binding'',
      check_err (ci_Availability c \<noteq> AvailabilityAvailable) CapabilityUnavailable ''current binding'']"

definition pack_ValidateCapability :: "env \<Rightarrow> pack_tables \<Rightarrow> CapabilityInstance \<Rightarrow> err" where
  "pack_ValidateCapability E t c = first_error (capability_head E t c @
     [opt_err (\<lambda>s. constraintsOK E t (ci_Constraints c) (cs_constraints s)) (map_of (pt_capabilities t) (df_ID (ci_Definition c)))])"

definition pack_MatchConstraints :: "env \<Rightarrow> pack_tables \<Rightarrow> CapabilityInstance \<Rightarrow> TypedField slice \<Rightarrow> err" where
  "pack_MatchConstraints E t c fs = (case pack_ValidateCapability E t c of
     Some e \<Rightarrow> Some e
   | None \<Rightarrow> (case fs of
       None \<Rightarrow> Some (errID MissingMember ''constraints'')
     | Some given \<Rightarrow>
         (let want = (case map_of (pt_capabilities t) (df_ID (ci_Definition c)) of None \<Rightarrow> [] | Some s \<Rightarrow> cs_constraints s)
          in if length given \<noteq> length want then Some (errID InvalidValue (pt_name t @ '' capability constraints''))
             else first_error (map (\<lambda>(f, w, have). first_error
               [check_err (tf_ID f \<noteq> w) InvalidValue (pt_name t @ '' capability constraint''),
                pack_ValidateField E t (definition_ref (pt_pack t) (tf_ID f)) f,
                check_err (\<not> equalValue (tf_Value f) (tf_Value have)) InvalidValue (pt_name t @ '' capability constraint value'')])
               (zip given (zip want (elems (ci_Constraints c))))))))"

definition ordered_predicate :: "pack_tables \<Rightarrow> PredicateOp \<Rightarrow> int \<Rightarrow> error + bool" where
  "ordered_predicate t p n = (case p of
     PredicateLess \<Rightarrow> Inr (n < 0)
   | PredicateLessEqual \<Rightarrow> Inr (n \<le> 0)
   | PredicateGreater \<Rightarrow> Inr (n > 0)
   | PredicateGreaterEqual \<Rightarrow> Inr (n \<ge> 0)
   | _ \<Rightarrow> Inl (errID InvalidEnum (pt_name t @ '' predicate'')))"

definition pack_EvaluatePredicate :: "env \<Rightarrow> pack_tables \<Rightarrow> FactCandidate \<Rightarrow> PredicateOp \<Rightarrow> Value \<Rightarrow> error + bool" where
  "pack_EvaluatePredicate E t c p e =
     (case first_error [FactCandidate_Validate E c, Value_Validate E e, pack_ValidateFact E t (fc_Key c) (fc_Value c),
         pack_ValidateFact E t (fc_Key c) (Some e)] of
        Some err \<Rightarrow> Inl err
      | None \<Rightarrow>
          (let v = the (fc_Value c) in
           if p = PredicateEqual then Inr (equalValue v e)
           else if p = PredicateNotEqual then Inr (\<not> equalValue v e)
           else if vl_Kind v \<noteq> ValueQuantity \<or> vl_Kind e \<noteq> ValueQuantity then Inl (errID InvalidValue (pt_name t @ '' predicate''))
           else ordered_predicate t p (compareDecimal (qt_Number (the (vl_Quantity v))) (qt_Number (the (vl_Quantity e))))))"

text \<open>The checks of an intent after its operation was found in the table.\<close>

definition intent_shape_errors :: "env \<Rightarrow> pack_tables \<Rightarrow> operationSpec \<Rightarrow> Intent \<Rightarrow> err" where
  "intent_shape_errors E t spec i =
     (let q = in_RequiredCapability i; e = in_ExpectedEffect i; fact_key = ee_Fact e in
      first_error
       [check_err (cr_Pack q \<noteq> pt_pack t \<or> cr_DefinitionID q \<noteq> op_capability spec \<or>
          vr_Minimum (cr_Versions q) \<noteq> pk_Version (pt_pack t) \<or> vr_MaximumExclusive (cr_Versions q) \<noteq> ''2.0.0'')
          InvalidValue (pt_name t @ '' required capability''),
        (case elems (in_Arguments i) of
           [argument] \<Rightarrow>
             if tf_ID argument \<noteq> op_argument spec then Some (errID InvalidValue (pt_name t @ '' operation arguments''))
             else first_error
               [pack_ValidateField E t (definition_ref (pt_pack t) (op_argument spec)) argument,
                check_err (ee_Rule e \<noteq> definition_ref (pt_pack t) (op_effect spec) \<or> fk_PackID fact_key \<noteq> pk_ID (pt_pack t) \<or>
                  fk_PackVersion fact_key \<noteq> pk_Version (pt_pack t) \<or> fk_FactID fact_key \<noteq> op_argument spec \<or>
                  ee_Operator e \<noteq> PredicateEqual) InvalidValue (pt_name t @ '' expected effect''),
                (case findField (pt_fields t) (op_argument spec) of
                   None \<Rightarrow> Some (errID DefinitionOwnerMissing (pt_name t @ '' field''))
                 | Some s \<Rightarrow> first_error
                     [pt_dimensions_ok t (fk_Dimensions fact_key) (fs_dimension s), valueOK t s (ee_Expected e),
                      check_err (\<not> equalValue (tf_Value argument) (ee_Expected e)) InvalidValue (pt_name t @ '' expected effect value'')])]
         | _ \<Rightarrow> Some (errID InvalidValue (pt_name t @ '' operation arguments'')))])"

definition pack_ValidateIntent :: "env \<Rightarrow> pack_tables \<Rightarrow> Intent \<Rightarrow> err" where
  "pack_ValidateIntent E t i = (case Intent_Validate E i of
     Some e \<Rightarrow> Some e
   | None \<Rightarrow> (case map_of (pt_operations t) (df_ID (in_Kind i)) of
       None \<Rightarrow> Some (errID DefinitionOwnerMissing (pt_name t @ '' operation''))
     | Some spec \<Rightarrow>
         if in_Kind i \<noteq> definition_ref (pt_pack t) (df_ID (in_Kind i))
         then Some (errID DefinitionOwnerMissing (pt_name t @ '' operation''))
         else intent_shape_errors E t spec i))"

definition readback_relation :: "env \<Rightarrow> pack_tables \<Rightarrow> (Intent \<Rightarrow> err) \<Rightarrow> Intent \<Rightarrow> FactCandidate \<Rightarrow> error + ReadbackRelation" where
  "readback_relation E t validate i c = (case validate i of
     Some e \<Rightarrow> Inl e
   | None \<Rightarrow> (case fc_Value c of
       None \<Rightarrow> Inr ReadbackInconclusive
     | Some v \<Rightarrow>
         if fc_Key c \<noteq> ee_Fact (in_ExpectedEffect i) \<or> pack_ValidateFact E t (fc_Key c) (Some v) \<noteq> None then Inr ReadbackInconclusive
         else Inr (if equalValue v (ee_Expected (in_ExpectedEffect i)) then ReadbackConfirms else ReadbackContradicts)))"

section \<open>Definitions and metadata\<close>

record FieldMetadata =
  fm_Ref :: DefinitionRef
  fm_CanonicalUnit :: "DefinitionRef option"
  fm_Dimension :: DefinitionRef

record ServiceMetadata =
  sm_Ref :: DefinitionRef
  sm_FactKeyDimension :: DefinitionRef

record CapabilityMetadata =
  cm_Ref :: DefinitionRef
  cm_Service :: DefinitionRef

record OperationMetadata =
  om_Ref :: DefinitionRef
  om_Capability :: DefinitionRef
  om_Service :: DefinitionRef
  om_Argument :: DefinitionRef
  om_Effect :: DefinitionRef

record PackMetadata =
  md_Pack :: PackRef
  md_Units :: "DefinitionRef slice"
  md_Fields :: "FieldMetadata slice"
  md_Services :: "ServiceMetadata slice"
  md_Capabilities :: "CapabilityMetadata slice"
  md_Operations :: "OperationMetadata slice"

text \<open>A collection that nothing was appended to stays nil.\<close>

definition appended :: "'a list \<Rightarrow> 'a slice" where
  "appended xs = (if xs = [] then None else Some xs)"

definition by_id :: "('a \<Rightarrow> DefinitionRef) \<Rightarrow> 'a list \<Rightarrow> 'a slice" where
  "by_id ref xs = appended (sort_by (cmp_on (\<lambda>x. df_ID (ref x)) string_compare) xs)"

definition field_metadata :: "PackRef \<Rightarrow> fieldSpec \<Rightarrow> FieldMetadata" where
  "field_metadata pack s = \<lparr>fm_Ref = definition_ref pack (fs_id s),
     fm_CanonicalUnit = (if fs_unit s \<noteq> '''' then Some (definition_ref pack (fs_unit s)) else None),
     fm_Dimension = definition_ref pack (fs_dimension s)\<rparr>"

definition operation_metadata :: "pack_tables \<Rightarrow> DefinitionID \<times> operationSpec \<Rightarrow> OperationMetadata" where
  "operation_metadata t = (\<lambda>(i, s).
     \<lparr>om_Ref = definition_ref (pt_pack t) i, om_Capability = definition_ref (pt_pack t) (op_capability s),
      om_Service = definition_ref (pt_pack t)
        (case map_of (pt_capabilities t) (op_capability s) of None \<Rightarrow> '''' | Some c \<Rightarrow> cs_service c),
      om_Argument = definition_ref (pt_pack t) (op_argument s), om_Effect = definition_ref (pt_pack t) (op_effect s)\<rparr>)"

definition pack_Metadata :: "pack_tables \<Rightarrow> PackMetadata" where
  "pack_Metadata t =
     (let ref = definition_ref (pt_pack t) in
      \<lparr>md_Pack = pt_pack t,
       md_Units = by_id (\<lambda>r. r) (map ref (remdups (filter (\<lambda>u. u \<noteq> '''') (map fs_unit (pt_fields t))))),
       md_Fields = by_id fm_Ref (map (field_metadata (pt_pack t)) (pt_fields t)),
       md_Services = by_id sm_Ref (map (\<lambda>(i, d). \<lparr>sm_Ref = ref i, sm_FactKeyDimension = ref d\<rparr>) (pt_services t)),
       md_Capabilities = by_id cm_Ref (map (\<lambda>(i, s). \<lparr>cm_Ref = ref i, cm_Service = ref (cs_service s)\<rparr>) (pt_capabilities t)),
       md_Operations = by_id om_Ref (map (operation_metadata t) (pt_operations t))\<rparr>)"

text \<open>A definition index from the identifiers the package lists in order; the field references are
  those of the table, sorted by the packages whose table is not.\<close>

definition pack_index :: "PackRef \<Rightarrow> DefinitionID list \<Rightarrow> DefinitionID list \<Rightarrow> DefinitionID list \<Rightarrow> DefinitionID list \<Rightarrow>
    DefinitionID list \<Rightarrow> DefinitionIndex" where
  "pack_index pack field_ids service_ids capability_ids operation_ids effect_ids =
     (let refs = (\<lambda>ids. Some (map (definition_ref pack) ids)) in
      \<lparr>dx_Pack = pack, dx_Fields = refs field_ids, dx_Services = refs service_ids, dx_Capabilities = refs capability_ids,
       dx_Operations = refs operation_ids, dx_EffectRules = refs effect_ids\<rparr>)"

end
