(* ===== verification/Packs.thy ===== *)
theory Packs
  imports Pack_Validator
begin

text \<open>
  The five built-in packs: \<^verbatim>\<open>packs/evse\<close>, \<^verbatim>\<open>packs/pv\<close>, \<^verbatim>\<open>packs/storage\<close>,
  \<^verbatim>\<open>packs/thermal\<close> and \<^verbatim>\<open>packs/infrastructure\<close>. Each section has the package's tables,
  its definition index and its validator. Go maps are association lists; the packages only look
  keys up in them or sort what they collect.
\<close>

section \<open>EVSE\<close>

definition evse_pack :: PackRef where
  "evse_pack = \<lparr>pk_ID = ''helianthus.pack.evse'', pk_Version = ''1.0.0''\<rparr>"

definition evse_fields :: "fieldSpec list" where
  "evse_fields =
    [quantity_field ''evse.ac.active_power'' ''unit.watt'' ''evse.dimension.phase'' (bound ''-1'' 7) (bound ''1'' 7),
     quantity_field ''evse.ac.current'' ''unit.ampere'' ''evse.dimension.phase'' (bound ''0'' 0) (bound ''1'' 3),
     quantity_field ''evse.ac.frequency'' ''unit.hertz'' ''evse.dimension.evse'' (bound ''0'' 0) (bound ''1'' 3),
     quantity_field ''evse.ac.voltage'' ''unit.volt'' ''evse.dimension.phase'' (bound ''0'' 0) (bound ''1'' 3),
     quantity_field ''evse.energy.lifetime'' ''unit.kilowatt_hour'' ''evse.dimension.meter'' (bound ''0'' 0) (bound ''1'' 12),
     quantity_field ''evse.energy.session'' ''unit.kilowatt_hour'' ''evse.dimension.session'' (bound ''0'' 0) (bound ''1'' 12),
     quantity_field ''evse.limit.actual_current'' ''unit.ampere'' ''evse.dimension.connector'' (bound ''0'' 0) (bound ''1'' 3),
     quantity_field ''evse.limit.advertised_current'' ''unit.ampere'' ''evse.dimension.connector'' (bound ''0'' 0) (bound ''1'' 3),
     quantity_field ''evse.limit.allocated_current'' ''unit.ampere'' ''evse.dimension.connector'' (bound ''0'' 0) (bound ''1'' 3),
     quantity_field ''evse.limit.configured_current'' ''unit.ampere'' ''evse.dimension.evse'' (bound ''0'' 0) (bound ''1'' 3),
     symbol_field ''evse.status.charging'' ''evse.dimension.connector'' [''evse.status.charging.charging'', ''evse.status.charging.complete'', ''evse.status.charging.idle''],
     symbol_field ''evse.status.connection'' ''evse.dimension.connector'' [''evse.status.connection.connected'', ''evse.status.connection.disconnected''],
     symbol_field ''evse.status.fault'' ''evse.dimension.evse'' [''evse.status.fault.clear'', ''evse.status.fault.present''],
     symbol_field ''evse.status.interlock'' ''evse.dimension.connector'' [''evse.status.interlock.active'', ''evse.status.interlock.clear''],
     symbol_field ''evse.status.readiness'' ''evse.dimension.evse'' [''evse.status.readiness.not_ready'', ''evse.status.readiness.ready'']]"

definition evse_services :: "(DefinitionID, DefinitionID) gomap" where
  "evse_services =
    [(''evse.service.evse'', ''evse.dimension.evse''),
     (''evse.service.connector'', ''evse.dimension.connector''),
     (''evse.service.phase'', ''evse.dimension.phase''),
     (''evse.service.session'', ''evse.dimension.session''),
     (''evse.service.meter'', ''evse.dimension.meter'')]"

definition evse_capabilities :: "(DefinitionID, capabilitySpec) gomap" where
  "evse_capabilities =
    [(''evse.capability.read.evse'', \<lparr>cs_service = ''evse.service.evse'', cs_constraints = []\<rparr>),
     (''evse.capability.read.connector'', \<lparr>cs_service = ''evse.service.connector'', cs_constraints = []\<rparr>),
     (''evse.capability.read.phase'', \<lparr>cs_service = ''evse.service.phase'', cs_constraints = []\<rparr>),
     (''evse.capability.read.session'', \<lparr>cs_service = ''evse.service.session'', cs_constraints = []\<rparr>),
     (''evse.capability.read.meter'', \<lparr>cs_service = ''evse.service.meter'', cs_constraints = []\<rparr>),
     (''evse.capability.set_allocated_current'', \<lparr>cs_service = ''evse.service.connector'', cs_constraints = [''evse.limit.allocated_current'']\<rparr>)]"

definition evse_operations :: "(DefinitionID, operationSpec) gomap" where
  "evse_operations =
    [(''evse.operation.set_allocated_current'',
       \<lparr>op_capability = ''evse.capability.set_allocated_current'', op_argument = ''evse.limit.allocated_current'',
        op_effect = ''evse.effect.set_allocated_current''\<rparr>)]"

definition evse_index :: DefinitionIndex where
  "evse_index = pack_index evse_pack (map fs_id evse_fields)
     [''evse.service.connector'', ''evse.service.evse'', ''evse.service.meter'', ''evse.service.phase'',
      ''evse.service.session'']
     [''evse.capability.read.connector'', ''evse.capability.read.evse'', ''evse.capability.read.meter'',
      ''evse.capability.read.phase'', ''evse.capability.read.session'',
      ''evse.capability.set_allocated_current'']
     [''evse.operation.set_allocated_current'']
     [''evse.effect.set_allocated_current'']"

definition evse_tables :: pack_tables where
  "evse_tables = \<lparr>pt_name = ''evse'', pt_symbol_name = ''evse'', pt_pack = evse_pack, pt_dimensions_ok = dimensionsOK ''evse'',
     pt_fields = evse_fields, pt_services = evse_services, pt_capabilities = evse_capabilities, pt_operations = evse_operations\<rparr>"

definition evse_ValidateFact :: "env \<Rightarrow> FactKey \<Rightarrow> Value option \<Rightarrow> err" where
  "evse_ValidateFact E = pack_ValidateFact E evse_tables"

definition evse_ValidateService :: "ServiceInstance \<Rightarrow> err" where
  "evse_ValidateService = pack_ValidateService evse_tables"

definition evse_ValidateCapability :: "env \<Rightarrow> CapabilityInstance \<Rightarrow> err" where
  "evse_ValidateCapability E = pack_ValidateCapability E evse_tables"

definition evse_ValidateField :: "env \<Rightarrow> DefinitionRef \<Rightarrow> TypedField \<Rightarrow> err" where
  "evse_ValidateField E = pack_ValidateField E evse_tables"

definition evse_MatchConstraints :: "env \<Rightarrow> CapabilityInstance \<Rightarrow> TypedField slice \<Rightarrow> err" where
  "evse_MatchConstraints E = pack_MatchConstraints E evse_tables"

definition evse_EvaluatePredicate :: "env \<Rightarrow> FactCandidate \<Rightarrow> PredicateOp \<Rightarrow> Value \<Rightarrow> error + bool" where
  "evse_EvaluatePredicate E = pack_EvaluatePredicate E evse_tables"

definition evse_Metadata :: PackMetadata where
  "evse_Metadata = pack_Metadata evse_tables"

definition evse_New :: "env \<Rightarrow> PackValidator" where
  "evse_New E = \<lparr>pv_Pack = evse_pack, pv_Definitions = evse_index, pv_ValidateFact = evse_ValidateFact E,
     pv_ValidateService = evse_ValidateService, pv_ValidateCapability = evse_ValidateCapability E, pv_ValidateField = evse_ValidateField E,
     pv_MatchConstraints = evse_MatchConstraints E, pv_EvaluatePredicate = evse_EvaluatePredicate E\<rparr>"

definition evse_ValidateIntent :: "env \<Rightarrow> Intent \<Rightarrow> err" where
  "evse_ValidateIntent E = pack_ValidateIntent E evse_tables"

definition evse_EvaluateReadback :: "env \<Rightarrow> Intent \<Rightarrow> FactCandidate \<Rightarrow> error + ReadbackRelation" where
  "evse_EvaluateReadback E = readback_relation E evse_tables (evse_ValidateIntent E)"

definition evse_hooks :: "env \<Rightarrow> OperationPackValidator" where
  "evse_hooks E = \<lparr>ov_ValidateIntent = evse_ValidateIntent E, ov_EvaluateReadback = evse_EvaluateReadback E\<rparr>"

section \<open>PV\<close>

definition photovoltaic_pack :: PackRef where
  "photovoltaic_pack = \<lparr>pk_ID = ''helianthus.pack.pv'', pk_Version = ''1.0.0''\<rparr>"

definition photovoltaic_fields :: "fieldSpec list" where
  "photovoltaic_fields =
    [quantity_field ''pv.dc.voltage'' ''unit.volt'' ''pv.dimension.input'' (bound ''0'' 0) (bound ''2'' 3),
     quantity_field ''pv.dc.current'' ''unit.ampere'' ''pv.dimension.input'' (bound ''0'' 0) (bound ''2'' 3),
     quantity_field ''pv.dc.power'' ''unit.watt'' ''pv.dimension.input'' (bound ''0'' 0) (bound ''1'' 7),
     quantity_field ''pv.ac.voltage'' ''unit.volt'' ''pv.dimension.phase'' (bound ''0'' 0) (bound ''1'' 3),
     quantity_field ''pv.ac.current'' ''unit.ampere'' ''pv.dimension.phase'' (bound ''0'' 0) (bound ''2'' 3),
     quantity_field ''pv.ac.active_power'' ''unit.watt'' ''pv.dimension.phase'' (bound ''-1'' 7) (bound ''1'' 7),
     quantity_field ''pv.ac.frequency'' ''unit.hertz'' ''pv.dimension.inverter'' (bound ''0'' 0) (bound ''1'' 3),
     quantity_field ''pv.ac.power_factor'' ''unit.ratio'' ''pv.dimension.inverter'' (bound ''-1'' 0) (bound ''1'' 0),
     quantity_field ''pv.energy.generated'' ''unit.kilowatt_hour'' ''pv.dimension.system'' (bound ''0'' 0) (bound ''1'' 12),
     quantity_field ''pv.temperature.inverter'' ''unit.celsius'' ''pv.dimension.inverter'' (bound ''-5'' 1) (bound ''2'' 2),
     quantity_field ''pv.limit.active_power'' ''unit.watt'' ''pv.dimension.inverter'' (bound ''0'' 0) (bound ''1'' 7),
     quantity_field ''pv.limit.export_power'' ''unit.watt'' ''pv.dimension.system'' (bound ''0'' 0) (bound ''1'' 7),
     symbol_field ''pv.status.operating'' ''pv.dimension.inverter'' [''pv.status.operating.generating'', ''pv.status.operating.idle'', ''pv.status.operating.standby''],
     symbol_field ''pv.status.derating'' ''pv.dimension.inverter'' [''pv.status.derating.active'', ''pv.status.derating.clear''],
     symbol_field ''pv.status.fault'' ''pv.dimension.inverter'' [''pv.status.fault.clear'', ''pv.status.fault.present''],
     quantity_field ''pv.dc.aggregate_voltage'' ''unit.volt'' ''pv.dimension.inverter'' (bound ''0'' 0) (bound ''2'' 3),
     quantity_field ''pv.dc.aggregate_current'' ''unit.ampere'' ''pv.dimension.inverter'' (bound ''0'' 0) (bound ''2'' 3),
     quantity_field ''pv.dc.aggregate_power'' ''unit.watt'' ''pv.dimension.inverter'' (bound ''0'' 0) (bound ''1'' 7),
     quantity_field ''pv.ac.aggregate_voltage'' ''unit.volt'' ''pv.dimension.inverter'' (bound ''0'' 0) (bound ''1'' 3),
     quantity_field ''pv.ac.aggregate_current'' ''unit.ampere'' ''pv.dimension.inverter'' (bound ''0'' 0) (bound ''2'' 3),
     quantity_field ''pv.ac.aggregate_active_power'' ''unit.watt'' ''pv.dimension.inverter'' (bound ''-1'' 7) (bound ''1'' 7)]"

definition photovoltaic_services :: "(DefinitionID, DefinitionID) gomap" where
  "photovoltaic_services =
    [(''pv.service.system'', ''pv.dimension.system''), (''pv.service.inverter'', ''pv.dimension.inverter''),
     (''pv.service.array'', ''pv.dimension.array''), (''pv.service.string'', ''pv.dimension.string''),
     (''pv.service.input'', ''pv.dimension.input''), (''pv.service.phase'', ''pv.dimension.phase'')]"

definition photovoltaic_capabilities :: "(DefinitionID, capabilitySpec) gomap" where
  "photovoltaic_capabilities =
    [(''pv.capability.read.system'', \<lparr>cs_service = ''pv.service.system'', cs_constraints = []\<rparr>),
     (''pv.capability.read.inverter'', \<lparr>cs_service = ''pv.service.inverter'', cs_constraints = []\<rparr>),
     (''pv.capability.read.array'', \<lparr>cs_service = ''pv.service.array'', cs_constraints = []\<rparr>),
     (''pv.capability.read.string'', \<lparr>cs_service = ''pv.service.string'', cs_constraints = []\<rparr>),
     (''pv.capability.read.input'', \<lparr>cs_service = ''pv.service.input'', cs_constraints = []\<rparr>),
     (''pv.capability.read.phase'', \<lparr>cs_service = ''pv.service.phase'', cs_constraints = []\<rparr>),
     (''pv.capability.set_active_power_limit'', \<lparr>cs_service = ''pv.service.inverter'', cs_constraints = [''pv.limit.active_power'']\<rparr>),
     (''pv.capability.set_export_limit'', \<lparr>cs_service = ''pv.service.system'', cs_constraints = [''pv.limit.export_power'']\<rparr>)]"

definition photovoltaic_operations :: "(DefinitionID, operationSpec) gomap" where
  "photovoltaic_operations =
    [(''pv.operation.set_active_power_limit'',
       \<lparr>op_capability = ''pv.capability.set_active_power_limit'', op_argument = ''pv.limit.active_power'',
        op_effect = ''pv.effect.set_active_power_limit''\<rparr>),
     (''pv.operation.set_export_limit'',
       \<lparr>op_capability = ''pv.capability.set_export_limit'', op_argument = ''pv.limit.export_power'',
        op_effect = ''pv.effect.set_export_limit''\<rparr>)]"

definition photovoltaic_index :: DefinitionIndex where
  "photovoltaic_index = pack_index photovoltaic_pack (sort_by string_compare (map fs_id photovoltaic_fields))
     [''pv.service.array'', ''pv.service.input'', ''pv.service.inverter'', ''pv.service.phase'',
      ''pv.service.string'', ''pv.service.system'']
     [''pv.capability.read.array'', ''pv.capability.read.input'', ''pv.capability.read.inverter'',
      ''pv.capability.read.phase'', ''pv.capability.read.string'', ''pv.capability.read.system'',
      ''pv.capability.set_active_power_limit'', ''pv.capability.set_export_limit'']
     [''pv.operation.set_active_power_limit'', ''pv.operation.set_export_limit'']
     [''pv.effect.set_active_power_limit'', ''pv.effect.set_export_limit'']"

definition photovoltaic_tables :: pack_tables where
  "photovoltaic_tables = \<lparr>pt_name = ''pv'', pt_symbol_name = ''pv'', pt_pack = photovoltaic_pack, pt_dimensions_ok = dimensionsOK ''pv'',
     pt_fields = photovoltaic_fields, pt_services = photovoltaic_services, pt_capabilities = photovoltaic_capabilities, pt_operations = photovoltaic_operations\<rparr>"

definition photovoltaic_ValidateFact :: "env \<Rightarrow> FactKey \<Rightarrow> Value option \<Rightarrow> err" where
  "photovoltaic_ValidateFact E = pack_ValidateFact E photovoltaic_tables"

definition photovoltaic_ValidateService :: "ServiceInstance \<Rightarrow> err" where
  "photovoltaic_ValidateService = pack_ValidateService photovoltaic_tables"

definition photovoltaic_ValidateCapability :: "env \<Rightarrow> CapabilityInstance \<Rightarrow> err" where
  "photovoltaic_ValidateCapability E = pack_ValidateCapability E photovoltaic_tables"

definition photovoltaic_ValidateField :: "env \<Rightarrow> DefinitionRef \<Rightarrow> TypedField \<Rightarrow> err" where
  "photovoltaic_ValidateField E = pack_ValidateField E photovoltaic_tables"

definition photovoltaic_MatchConstraints :: "env \<Rightarrow> CapabilityInstance \<Rightarrow> TypedField slice \<Rightarrow> err" where
  "photovoltaic_MatchConstraints E = pack_MatchConstraints E photovoltaic_tables"

definition photovoltaic_EvaluatePredicate :: "env \<Rightarrow> FactCandidate \<Rightarrow> PredicateOp \<Rightarrow> Value \<Rightarrow> error + bool" where
  "photovoltaic_EvaluatePredicate E = pack_EvaluatePredicate E photovoltaic_tables"

definition photovoltaic_Metadata :: PackMetadata where
  "photovoltaic_Metadata = pack_Metadata photovoltaic_tables"

definition photovoltaic_New :: "env \<Rightarrow> PackValidator" where
  "photovoltaic_New E = \<lparr>pv_Pack = photovoltaic_pack, pv_Definitions = photovoltaic_index, pv_ValidateFact = photovoltaic_ValidateFact E,
     pv_ValidateService = photovoltaic_ValidateService, pv_ValidateCapability = photovoltaic_ValidateCapability E, pv_ValidateField = photovoltaic_ValidateField E,
     pv_MatchConstraints = photovoltaic_MatchConstraints E, pv_EvaluatePredicate = photovoltaic_EvaluatePredicate E\<rparr>"

definition photovoltaic_ValidateIntent :: "env \<Rightarrow> Intent \<Rightarrow> err" where
  "photovoltaic_ValidateIntent E = pack_ValidateIntent E photovoltaic_tables"

definition photovoltaic_EvaluateReadback :: "env \<Rightarrow> Intent \<Rightarrow> FactCandidate \<Rightarrow> error + ReadbackRelation" where
  "photovoltaic_EvaluateReadback E = readback_relation E photovoltaic_tables (photovoltaic_ValidateIntent E)"

definition photovoltaic_hooks :: "env \<Rightarrow> OperationPackValidator" where
  "photovoltaic_hooks E = \<lparr>ov_ValidateIntent = photovoltaic_ValidateIntent E, ov_EvaluateReadback = photovoltaic_EvaluateReadback E\<rparr>"

section \<open>Storage\<close>

definition storage_pack :: PackRef where
  "storage_pack = \<lparr>pk_ID = ''helianthus.pack.storage'', pk_Version = ''1.1.0''\<rparr>"

definition storage_fields :: "fieldSpec list" where
  "storage_fields =
    [quantity_field ''storage.state.soc'' ''unit.percent'' ''storage.dimension.pack'' (bound ''0'' 0) (bound ''1'' 2),
     quantity_field ''storage.state.soh'' ''unit.percent'' ''storage.dimension.pack'' (bound ''0'' 0) (bound ''1'' 2),
     quantity_field ''storage.pack.voltage'' ''unit.volt'' ''storage.dimension.pack'' (bound ''0'' 0) None,
     quantity_field ''storage.pack.current'' ''unit.ampere'' ''storage.dimension.pack'' None None,
     quantity_field ''storage.pack.power'' ''unit.watt'' ''storage.dimension.pack'' None None,
     quantity_field ''storage.energy.charged'' ''unit.kilowatt_hour'' ''storage.dimension.pack'' (bound ''0'' 0) None,
     quantity_field ''storage.energy.discharged'' ''unit.kilowatt_hour'' ''storage.dimension.pack'' (bound ''0'' 0) None,
     quantity_field ''storage.capacity.charge'' ''unit.ampere_hour'' ''storage.dimension.pack'' (bound ''0'' 0) None,
     quantity_field ''storage.capacity.discharge'' ''unit.ampere_hour'' ''storage.dimension.pack'' (bound ''0'' 0) None,
     quantity_field ''storage.temperature.pack'' ''unit.celsius'' ''storage.dimension.pack'' None None,
     quantity_field ''storage.temperature.cell'' ''unit.celsius'' ''storage.dimension.cell'' None None,
     quantity_field ''storage.cell.voltage_minimum'' ''unit.volt'' ''storage.dimension.cell'' (bound ''0'' 0) None,
     quantity_field ''storage.cell.voltage_maximum'' ''unit.volt'' ''storage.dimension.cell'' (bound ''0'' 0) None,
     quantity_field ''storage.limit.charge_power'' ''unit.watt'' ''storage.dimension.interface'' (bound ''0'' 0) None,
     quantity_field ''storage.limit.discharge_power'' ''unit.watt'' ''storage.dimension.interface'' (bound ''0'' 0) None,
     symbol_field ''storage.status.operating'' ''storage.dimension.pack'' [''storage.status.operating.active'', ''storage.status.operating.idle'', ''storage.status.operating.standby''],
     symbol_field ''storage.status.alarm'' ''storage.dimension.pack'' [''storage.status.alarm.clear'', ''storage.status.alarm.present''],
     symbol_field ''storage.status.protection'' ''storage.dimension.pack'' [''storage.status.protection.active'', ''storage.status.protection.clear''],
     symbol_field ''storage.status.warning'' ''storage.dimension.pack'' [''storage.status.warning.clear'', ''storage.status.warning.present''],
     symbol_field ''storage.status.interlock'' ''storage.dimension.interface'' [''storage.status.interlock.active'', ''storage.status.interlock.clear'']]"

definition storage_services :: "(DefinitionID, DefinitionID) gomap" where
  "storage_services =
    [(''storage.service.system'', ''storage.dimension.system''),
     (''storage.service.battery'', ''storage.dimension.battery''),
     (''storage.service.pack'', ''storage.dimension.pack''),
     (''storage.service.module'', ''storage.dimension.module''),
     (''storage.service.cell'', ''storage.dimension.cell''),
     (''storage.service.string'', ''storage.dimension.string''),
     (''storage.service.interface'', ''storage.dimension.interface'')]"

definition storage_capabilities :: "(DefinitionID, capabilitySpec) gomap" where
  "storage_capabilities =
    [(''storage.capability.read.pack'', \<lparr>cs_service = ''storage.service.pack'', cs_constraints = []\<rparr>),
     (''storage.capability.read.cell'', \<lparr>cs_service = ''storage.service.cell'', cs_constraints = []\<rparr>),
     (''storage.capability.read.interface'', \<lparr>cs_service = ''storage.service.interface'', cs_constraints = []\<rparr>),
     (''storage.capability.set_charge_limit'', \<lparr>cs_service = ''storage.service.interface'', cs_constraints = [''storage.limit.charge_power'']\<rparr>),
     (''storage.capability.set_discharge_limit'', \<lparr>cs_service = ''storage.service.interface'', cs_constraints = [''storage.limit.discharge_power'']\<rparr>)]"

definition storage_operations :: "(DefinitionID, operationSpec) gomap" where
  "storage_operations =
    [(''storage.operation.set_charge_limit'',
       \<lparr>op_capability = ''storage.capability.set_charge_limit'', op_argument = ''storage.limit.charge_power'',
        op_effect = ''storage.effect.set_charge_limit''\<rparr>),
     (''storage.operation.set_discharge_limit'',
       \<lparr>op_capability = ''storage.capability.set_discharge_limit'', op_argument = ''storage.limit.discharge_power'',
        op_effect = ''storage.effect.set_discharge_limit''\<rparr>)]"

definition storage_index :: DefinitionIndex where
  "storage_index = pack_index storage_pack (sort_by string_compare (map fs_id storage_fields))
     [''storage.service.battery'', ''storage.service.cell'', ''storage.service.interface'',
      ''storage.service.module'', ''storage.service.pack'', ''storage.service.string'',
      ''storage.service.system'']
     [''storage.capability.read.cell'', ''storage.capability.read.interface'',
      ''storage.capability.read.pack'', ''storage.capability.set_charge_limit'',
      ''storage.capability.set_discharge_limit'']
     [''storage.operation.set_charge_limit'', ''storage.operation.set_discharge_limit'']
     [''storage.effect.set_charge_limit'', ''storage.effect.set_discharge_limit'']"

definition storage_tables :: pack_tables where
  "storage_tables = \<lparr>pt_name = ''storage'', pt_symbol_name = ''storage'', pt_pack = storage_pack, pt_dimensions_ok = dimensionsOK ''storage'',
     pt_fields = storage_fields, pt_services = storage_services, pt_capabilities = storage_capabilities, pt_operations = storage_operations\<rparr>"

definition storage_ValidateFact :: "env \<Rightarrow> FactKey \<Rightarrow> Value option \<Rightarrow> err" where
  "storage_ValidateFact E = pack_ValidateFact E storage_tables"

definition storage_ValidateService :: "ServiceInstance \<Rightarrow> err" where
  "storage_ValidateService = pack_ValidateService storage_tables"

definition storage_ValidateCapability :: "env \<Rightarrow> CapabilityInstance \<Rightarrow> err" where
  "storage_ValidateCapability E = pack_ValidateCapability E storage_tables"

definition storage_ValidateField :: "env \<Rightarrow> DefinitionRef \<Rightarrow> TypedField \<Rightarrow> err" where
  "storage_ValidateField E = pack_ValidateField E storage_tables"

definition storage_MatchConstraints :: "env \<Rightarrow> CapabilityInstance \<Rightarrow> TypedField slice \<Rightarrow> err" where
  "storage_MatchConstraints E = pack_MatchConstraints E storage_tables"

definition storage_EvaluatePredicate :: "env \<Rightarrow> FactCandidate \<Rightarrow> PredicateOp \<Rightarrow> Value \<Rightarrow> error + bool" where
  "storage_EvaluatePredicate E = pack_EvaluatePredicate E storage_tables"

definition storage_Metadata :: PackMetadata where
  "storage_Metadata = pack_Metadata storage_tables"

definition storage_New :: "env \<Rightarrow> PackValidator" where
  "storage_New E = \<lparr>pv_Pack = storage_pack, pv_Definitions = storage_index, pv_ValidateFact = storage_ValidateFact E,
     pv_ValidateService = storage_ValidateService, pv_ValidateCapability = storage_ValidateCapability E, pv_ValidateField = storage_ValidateField E,
     pv_MatchConstraints = storage_MatchConstraints E, pv_EvaluatePredicate = storage_EvaluatePredicate E\<rparr>"

text \<open>An operation on a storage interface carries the interlock of the same interface as a precondition,
  exactly once and in one form: equal to clear.\<close>

definition clearValue :: Value where
  "clearValue = \<lparr>vl_Kind = ValueSymbol, vl_Quantity = None, vl_Boolean = None, vl_Text = None,
     vl_Symbol = Some \<lparr>sy_Namespace = ''storage.status.interlock'', sy_Token = ''clear'', sy_Known = True\<rparr>,
     vl_Symbols = None, vl_Time = None\<rparr>"

definition canonicalInterlock :: "Precondition \<Rightarrow> FactKey \<Rightarrow> bool" where
  "canonicalInterlock p effect \<longleftrightarrow>
     fk_PackID (pn_Fact p) = pk_ID storage_pack \<and> fk_PackVersion (pn_Fact p) = pk_Version storage_pack \<and>
     fk_FactID (pn_Fact p) = ''storage.status.interlock'' \<and>
     (case elems (fk_Dimensions (pn_Fact p)) of
        [d] \<Rightarrow> dm_ID d = ''storage.dimension.interface'' \<and> vl_Kind (dm_Value d) = ValueText \<and> vl_Text (dm_Value d) \<noteq> None
      | _ \<Rightarrow> False) \<and>
     fk_Dimensions (pn_Fact p) = fk_Dimensions effect \<and> pn_Operator p = PredicateEqual \<and> equalValue (pn_Expected p) clearValue"

fun interlock_errors :: "FactKey \<Rightarrow> Precondition list \<Rightarrow> nat \<Rightarrow> err" where
  "interlock_errors effect [] canonical =
     check_err (canonical \<noteq> 1) InvalidValue ''storage canonical interlock predicate''"
| "interlock_errors effect (p # ps) canonical =
     (if fk_FactID (pn_Fact p) = ''storage.status.interlock''
      then if \<not> canonicalInterlock p effect then Some (errID InvalidValue ''storage interlock predicate'')
           else interlock_errors effect ps (canonical + 1)
      else interlock_errors effect ps canonical)"

definition storage_ValidateIntent :: "env \<Rightarrow> Intent \<Rightarrow> err" where
  "storage_ValidateIntent E i = first_error
     [pack_ValidateIntent E storage_tables i, interlock_errors (ee_Fact (in_ExpectedEffect i)) (elems (in_Preconditions i)) 0]"

definition storage_EvaluateReadback :: "env \<Rightarrow> Intent \<Rightarrow> FactCandidate \<Rightarrow> error + ReadbackRelation" where
  "storage_EvaluateReadback E = readback_relation E storage_tables (storage_ValidateIntent E)"

definition storage_hooks :: "env \<Rightarrow> OperationPackValidator" where
  "storage_hooks E = \<lparr>ov_ValidateIntent = storage_ValidateIntent E, ov_EvaluateReadback = storage_EvaluateReadback E\<rparr>"

section \<open>Thermal\<close>

definition thermal_pack :: PackRef where
  "thermal_pack = \<lparr>pk_ID = ''helianthus.pack.thermal'', pk_Version = ''1.0.0''\<rparr>"

definition thermal_fields :: "fieldSpec list" where
  "thermal_fields =
    [symbol_field ''thermal.action.state'' ''thermal.dimension.system'' [''thermal.action.state.cooling'', ''thermal.action.state.dhw'', ''thermal.action.state.heating'', ''thermal.action.state.idle'', ''thermal.action.state.ventilating''],
     quantity_field ''thermal.demand.level'' ''unit.percent'' ''thermal.dimension.ratio'' (bound ''0'' 0) (bound ''1'' 2),
     quantity_field ''thermal.measurement.air_temperature'' ''unit.celsius'' ''thermal.dimension.temperature'' (bound ''-1'' 2) (bound ''2'' 2),
     quantity_field ''thermal.measurement.flow_rate'' ''unit.litre_per_minute'' ''thermal.dimension.volumetric_flow'' (bound ''0'' 0) (bound ''1'' 4),
     quantity_field ''thermal.measurement.humidity_relative'' ''unit.percent'' ''thermal.dimension.ratio'' (bound ''0'' 0) (bound ''1'' 2),
     quantity_field ''thermal.measurement.power'' ''unit.watt'' ''thermal.dimension.power'' (bound ''-1'' 6) (bound ''1'' 6),
     quantity_field ''thermal.measurement.water_temperature'' ''unit.celsius'' ''thermal.dimension.temperature'' (bound ''-1'' 2) (bound ''2'' 2),
     symbol_field ''thermal.mode.system'' ''thermal.dimension.system'' [''thermal.mode.system.auto'', ''thermal.mode.system.cool'', ''thermal.mode.system.heat'', ''thermal.mode.system.off''],
     symbol_field ''thermal.mode.zone'' ''thermal.dimension.zone'' [''thermal.mode.zone.auto'', ''thermal.mode.zone.comfort'', ''thermal.mode.zone.eco'', ''thermal.mode.zone.off''],
     quantity_field ''thermal.setpoint.dhw_temperature'' ''unit.celsius'' ''thermal.dimension.temperature'' (bound ''-5'' 1) (bound ''15'' 1),
     quantity_field ''thermal.setpoint.temperature'' ''unit.celsius'' ''thermal.dimension.temperature'' (bound ''-5'' 1) (bound ''15'' 1),
     symbol_field ''thermal.status.fault'' ''thermal.dimension.system'' [''thermal.status.fault.clear'', ''thermal.status.fault.present''],
     symbol_field ''thermal.status.operation'' ''thermal.dimension.system'' [''thermal.status.operation.active'', ''thermal.status.operation.idle'']]"

definition thermal_services :: "(DefinitionID, DefinitionID) gomap" where
  "thermal_services =
    [(''thermal.service.system'', ''thermal.dimension.system''),
     (''thermal.service.zone'', ''thermal.dimension.zone''),
     (''thermal.service.circuit'', ''thermal.dimension.circuit''),
     (''thermal.service.dhw'', ''thermal.dimension.dhw''),
     (''thermal.service.ventilation'', ''thermal.dimension.ventilation'')]"

definition thermal_capabilities :: "(DefinitionID, capabilitySpec) gomap" where
  "thermal_capabilities =
    [(''thermal.capability.read.system'', \<lparr>cs_service = ''thermal.service.system'', cs_constraints = []\<rparr>),
     (''thermal.capability.read.zone'', \<lparr>cs_service = ''thermal.service.zone'', cs_constraints = []\<rparr>),
     (''thermal.capability.read.circuit'', \<lparr>cs_service = ''thermal.service.circuit'', cs_constraints = []\<rparr>),
     (''thermal.capability.read.dhw'', \<lparr>cs_service = ''thermal.service.dhw'', cs_constraints = []\<rparr>),
     (''thermal.capability.read.ventilation'', \<lparr>cs_service = ''thermal.service.ventilation'', cs_constraints = []\<rparr>),
     (''thermal.capability.set_temperature'', \<lparr>cs_service = ''thermal.service.zone'', cs_constraints = [''thermal.setpoint.temperature'']\<rparr>),
     (''thermal.capability.set_mode'', \<lparr>cs_service = ''thermal.service.system'', cs_constraints = [''thermal.mode.system'']\<rparr>)]"

definition thermal_operations :: "(DefinitionID, operationSpec) gomap" where
  "thermal_operations =
    [(''thermal.operation.set_temperature'',
       \<lparr>op_capability = ''thermal.capability.set_temperature'', op_argument = ''thermal.setpoint.temperature'',
        op_effect = ''thermal.effect.set_temperature''\<rparr>),
     (''thermal.operation.set_mode'',
       \<lparr>op_capability = ''thermal.capability.set_mode'', op_argument = ''thermal.mode.system'',
        op_effect = ''thermal.effect.set_mode''\<rparr>)]"

definition thermal_index :: DefinitionIndex where
  "thermal_index = pack_index thermal_pack (map fs_id thermal_fields)
     [''thermal.service.circuit'', ''thermal.service.dhw'', ''thermal.service.system'',
      ''thermal.service.ventilation'', ''thermal.service.zone'']
     [''thermal.capability.read.circuit'', ''thermal.capability.read.dhw'',
      ''thermal.capability.read.system'', ''thermal.capability.read.ventilation'',
      ''thermal.capability.read.zone'', ''thermal.capability.set_mode'',
      ''thermal.capability.set_temperature'']
     [''thermal.operation.set_mode'', ''thermal.operation.set_temperature'']
     [''thermal.effect.set_mode'', ''thermal.effect.set_temperature'']"

definition thermal_tables :: pack_tables where
  "thermal_tables = \<lparr>pt_name = ''thermal'', pt_symbol_name = ''thermal'', pt_pack = thermal_pack, pt_dimensions_ok = dimensionsOK ''thermal fact'',
     pt_fields = thermal_fields, pt_services = thermal_services, pt_capabilities = thermal_capabilities, pt_operations = thermal_operations\<rparr>"

definition thermal_ValidateFact :: "env \<Rightarrow> FactKey \<Rightarrow> Value option \<Rightarrow> err" where
  "thermal_ValidateFact E = pack_ValidateFact E thermal_tables"

definition thermal_ValidateService :: "ServiceInstance \<Rightarrow> err" where
  "thermal_ValidateService = pack_ValidateService thermal_tables"

definition thermal_ValidateCapability :: "env \<Rightarrow> CapabilityInstance \<Rightarrow> err" where
  "thermal_ValidateCapability E = pack_ValidateCapability E thermal_tables"

definition thermal_ValidateField :: "env \<Rightarrow> DefinitionRef \<Rightarrow> TypedField \<Rightarrow> err" where
  "thermal_ValidateField E = pack_ValidateField E thermal_tables"

definition thermal_MatchConstraints :: "env \<Rightarrow> CapabilityInstance \<Rightarrow> TypedField slice \<Rightarrow> err" where
  "thermal_MatchConstraints E = pack_MatchConstraints E thermal_tables"

definition thermal_EvaluatePredicate :: "env \<Rightarrow> FactCandidate \<Rightarrow> PredicateOp \<Rightarrow> Value \<Rightarrow> error + bool" where
  "thermal_EvaluatePredicate E = pack_EvaluatePredicate E thermal_tables"

definition thermal_Metadata :: PackMetadata where
  "thermal_Metadata = pack_Metadata thermal_tables"

definition thermal_New :: "env \<Rightarrow> PackValidator" where
  "thermal_New E = \<lparr>pv_Pack = thermal_pack, pv_Definitions = thermal_index, pv_ValidateFact = thermal_ValidateFact E,
     pv_ValidateService = thermal_ValidateService, pv_ValidateCapability = thermal_ValidateCapability E, pv_ValidateField = thermal_ValidateField E,
     pv_MatchConstraints = thermal_MatchConstraints E, pv_EvaluatePredicate = thermal_EvaluatePredicate E\<rparr>"

definition thermal_ValidateIntent :: "env \<Rightarrow> Intent \<Rightarrow> err" where
  "thermal_ValidateIntent E i = first_error
     [Intent_Validate E i,
      check_err (df_Pack (in_Kind i) \<noteq> thermal_pack \<or> df_Version (in_Kind i) \<noteq> pk_Version thermal_pack)
        DefinitionOwnerMissing ''thermal operation pack'',
      (case map_of thermal_operations (df_ID (in_Kind i)) of
         None \<Rightarrow> Some (errID DefinitionOwnerMissing ''thermal operation'')
       | Some spec \<Rightarrow> intent_shape_errors E thermal_tables spec i)]"

definition thermal_EvaluateReadback :: "env \<Rightarrow> Intent \<Rightarrow> FactCandidate \<Rightarrow> error + ReadbackRelation" where
  "thermal_EvaluateReadback E = readback_relation E thermal_tables (thermal_ValidateIntent E)"

definition thermal_hooks :: "env \<Rightarrow> OperationPackValidator" where
  "thermal_hooks E = \<lparr>ov_ValidateIntent = thermal_ValidateIntent E, ov_EvaluateReadback = thermal_EvaluateReadback E\<rparr>"

section \<open>Infrastructure\<close>

definition infrastructure_pack :: PackRef where
  "infrastructure_pack = \<lparr>pk_ID = ''helianthus.pack.infrastructure'', pk_Version = ''1.0.0''\<rparr>"

definition infrastructure_fields :: "fieldSpec list" where
  "infrastructure_fields =
    [quantity_field ''infrastructure.ac.active_power'' ''unit.watt'' ''infrastructure.dimension.phase'' (bound ''-1'' 7) (bound ''1'' 7),
     quantity_field ''infrastructure.ac.apparent_power'' ''unit.volt_ampere'' ''infrastructure.dimension.phase'' (bound ''0'' 0) (bound ''1'' 7),
     quantity_field ''infrastructure.ac.current'' ''unit.ampere'' ''infrastructure.dimension.phase'' (bound ''0'' 0) (bound ''1'' 3),
     quantity_field ''infrastructure.ac.frequency'' ''unit.hertz'' ''infrastructure.dimension.grid_connection'' (bound ''0'' 0) (bound ''1'' 3),
     quantity_field ''infrastructure.ac.power_factor'' ''unit.ratio'' ''infrastructure.dimension.grid_connection'' (bound ''-1'' 0) (bound ''1'' 0),
     quantity_field ''infrastructure.ac.reactive_power'' ''unit.volt_ampere_reactive'' ''infrastructure.dimension.phase'' (bound ''-1'' 7) (bound ''1'' 7),
     quantity_field ''infrastructure.ac.voltage'' ''unit.volt'' ''infrastructure.dimension.phase'' (bound ''0'' 0) (bound ''1'' 3),
     quantity_field ''infrastructure.energy.export'' ''unit.kilowatt_hour'' ''infrastructure.dimension.meter'' (bound ''0'' 0) (bound ''1'' 12),
     quantity_field ''infrastructure.energy.import'' ''unit.kilowatt_hour'' ''infrastructure.dimension.meter'' (bound ''0'' 0) (bound ''1'' 12),
     quantity_field ''infrastructure.power.apparent'' ''unit.volt_ampere'' ''infrastructure.dimension.grid_connection'' (bound ''0'' 0) (bound ''1'' 7),
     quantity_field ''infrastructure.power.export_active'' ''unit.watt'' ''infrastructure.dimension.grid_connection'' (bound ''0'' 0) (bound ''1'' 7),
     quantity_field ''infrastructure.power.export_reactive'' ''unit.volt_ampere_reactive'' ''infrastructure.dimension.grid_connection'' (bound ''0'' 0) (bound ''1'' 7),
     quantity_field ''infrastructure.power.import_active'' ''unit.watt'' ''infrastructure.dimension.grid_connection'' (bound ''0'' 0) (bound ''1'' 7),
     quantity_field ''infrastructure.power.import_reactive'' ''unit.volt_ampere_reactive'' ''infrastructure.dimension.grid_connection'' (bound ''0'' 0) (bound ''1'' 7),
     symbol_field ''infrastructure.status.breaker'' ''infrastructure.dimension.circuit'' [''infrastructure.status.breaker.closed'', ''infrastructure.status.breaker.open''],
     symbol_field ''infrastructure.status.connection'' ''infrastructure.dimension.grid_connection'' [''infrastructure.status.connection.connected'', ''infrastructure.status.connection.disconnected''],
     symbol_field ''infrastructure.status.fault'' ''infrastructure.dimension.site'' [''infrastructure.status.fault.clear'', ''infrastructure.status.fault.present''],
     symbol_field ''infrastructure.status.interlock'' ''infrastructure.dimension.circuit'' [''infrastructure.status.interlock.active'', ''infrastructure.status.interlock.clear''],
     symbol_field ''infrastructure.status.readiness'' ''infrastructure.dimension.grid_connection'' [''infrastructure.status.readiness.not_ready'', ''infrastructure.status.readiness.ready'']]"

definition infrastructure_dimensions :: "(DefinitionID, ValueKind) gomap" where
  "infrastructure_dimensions =
    [(''infrastructure.dimension.site'', ValueText),
     (''infrastructure.dimension.grid_connection'', ValueText),
     (''infrastructure.dimension.feeder'', ValueText), (''infrastructure.dimension.circuit'', ValueText),
     (''infrastructure.dimension.phase'', ValueText), (''infrastructure.dimension.meter'', ValueText)]"

definition infrastructure_services :: "(DefinitionID, DefinitionID) gomap" where
  "infrastructure_services =
    [(''infrastructure.service.site'', ''infrastructure.dimension.site''),
     (''infrastructure.service.grid_connection'', ''infrastructure.dimension.grid_connection''),
     (''infrastructure.service.feeder'', ''infrastructure.dimension.feeder''),
     (''infrastructure.service.circuit'', ''infrastructure.dimension.circuit''),
     (''infrastructure.service.phase'', ''infrastructure.dimension.phase''),
     (''infrastructure.service.meter'', ''infrastructure.dimension.meter'')]"

definition infrastructure_capabilities :: "(DefinitionID, capabilitySpec) gomap" where
  "infrastructure_capabilities =
    [(''infrastructure.capability.read.site'', \<lparr>cs_service = ''infrastructure.service.site'', cs_constraints = []\<rparr>),
     (''infrastructure.capability.read.grid_connection'', \<lparr>cs_service = ''infrastructure.service.grid_connection'', cs_constraints = []\<rparr>),
     (''infrastructure.capability.read.feeder'', \<lparr>cs_service = ''infrastructure.service.feeder'', cs_constraints = []\<rparr>),
     (''infrastructure.capability.read.circuit'', \<lparr>cs_service = ''infrastructure.service.circuit'', cs_constraints = []\<rparr>),
     (''infrastructure.capability.read.phase'', \<lparr>cs_service = ''infrastructure.service.phase'', cs_constraints = []\<rparr>),
     (''infrastructure.capability.read.meter'', \<lparr>cs_service = ''infrastructure.service.meter'', cs_constraints = []\<rparr>)]"

definition infrastructure_index :: DefinitionIndex where
  "infrastructure_index = pack_index infrastructure_pack (map fs_id infrastructure_fields)
     [''infrastructure.service.circuit'', ''infrastructure.service.feeder'',
      ''infrastructure.service.grid_connection'', ''infrastructure.service.meter'',
      ''infrastructure.service.phase'', ''infrastructure.service.site'']
     [''infrastructure.capability.read.circuit'', ''infrastructure.capability.read.feeder'',
      ''infrastructure.capability.read.grid_connection'', ''infrastructure.capability.read.meter'',
      ''infrastructure.capability.read.phase'', ''infrastructure.capability.read.site'']
     []
     []"

text \<open>The dimension check reads the kind from the table of dimensions, where a missing entry is the empty
  kind.\<close>

definition infrastructure_validateDimensions :: "Dimension slice \<Rightarrow> DefinitionID \<Rightarrow> err" where
  "infrastructure_validateDimensions ds expected = (case elems ds of
     [d] \<Rightarrow> check_err (dm_ID d \<noteq> expected \<or>
         (case map_of infrastructure_dimensions (dm_ID d) of None \<Rightarrow> ValueKindOther '''' | Some kind \<Rightarrow> kind) \<noteq> vl_Kind (dm_Value d) \<or>
         vl_Text (dm_Value d) = None) InvalidValue ''infrastructure fact dimension''
   | _ \<Rightarrow> Some (errID InvalidValue ''infrastructure fact dimensions''))"

definition infrastructure_tables :: pack_tables where
  "infrastructure_tables = \<lparr>pt_name = ''infrastructure'', pt_symbol_name = ''infrastructure status'', pt_pack = infrastructure_pack, pt_dimensions_ok = infrastructure_validateDimensions,
     pt_fields = infrastructure_fields, pt_services = infrastructure_services, pt_capabilities = infrastructure_capabilities, pt_operations = []\<rparr>"

definition infrastructure_ValidateFact :: "env \<Rightarrow> FactKey \<Rightarrow> Value option \<Rightarrow> err" where
  "infrastructure_ValidateFact E = pack_ValidateFact E infrastructure_tables"

definition infrastructure_ValidateService :: "ServiceInstance \<Rightarrow> err" where
  "infrastructure_ValidateService = pack_ValidateService infrastructure_tables"

definition infrastructure_ValidateCapability :: "env \<Rightarrow> CapabilityInstance \<Rightarrow> err" where
  "infrastructure_ValidateCapability E c = first_error (capability_head E infrastructure_tables c @
     [check_err (elems (ci_Constraints c) \<noteq> []) InvalidValue ''read capability constraints''])"

definition infrastructure_ValidateField :: "env \<Rightarrow> DefinitionRef \<Rightarrow> TypedField \<Rightarrow> err" where
  "infrastructure_ValidateField E = pack_ValidateField E infrastructure_tables"

definition infrastructure_MatchConstraints :: "env \<Rightarrow> CapabilityInstance \<Rightarrow> TypedField slice \<Rightarrow> err" where
  "infrastructure_MatchConstraints E c given = first_error
     [infrastructure_ValidateCapability E c, check_err (given = None) MissingMember ''constraints'',
      check_err (elems given \<noteq> []) InvalidValue ''read capability constraints'']"

definition infrastructure_EvaluatePredicate :: "env \<Rightarrow> FactCandidate \<Rightarrow> PredicateOp \<Rightarrow> Value \<Rightarrow> error + bool" where
  "infrastructure_EvaluatePredicate E = pack_EvaluatePredicate E infrastructure_tables"

definition infrastructure_Metadata :: PackMetadata where
  "infrastructure_Metadata = pack_Metadata infrastructure_tables"

definition infrastructure_New :: "env \<Rightarrow> PackValidator" where
  "infrastructure_New E = \<lparr>pv_Pack = infrastructure_pack, pv_Definitions = infrastructure_index, pv_ValidateFact = infrastructure_ValidateFact E,
     pv_ValidateService = infrastructure_ValidateService, pv_ValidateCapability = infrastructure_ValidateCapability E, pv_ValidateField = infrastructure_ValidateField E,
     pv_MatchConstraints = infrastructure_MatchConstraints E, pv_EvaluatePredicate = infrastructure_EvaluatePredicate E\<rparr>"

end
