(* ===== verification/Pack_Metadata.thy ===== *)
theory Pack_Metadata
  imports Packs
begin

text \<open>
  \<^verbatim>\<open>pack_metadata.go\<close> and \<^verbatim>\<open>packs/metadata.go\<close>: the index of what the packs describe about
  themselves. A registry is built source by source; the first error ends the construction. A Go set
  is a list of its members, a map an association list. A source carries the validator and, when the
  validator can describe itself, the metadata it derives from its own tables.
\<close>

section \<open>Results\<close>

definition and_then :: "error + 'a \<Rightarrow> ('a \<Rightarrow> error + 'b) \<Rightarrow> error + 'b" where
  "and_then r f = (case r of Inl e \<Rightarrow> Inl e | Inr x \<Rightarrow> f x)"

definition ensure :: "err \<Rightarrow> 'a \<Rightarrow> error + 'a" where
  "ensure e x = (case e of Some e \<Rightarrow> Inl e | None \<Rightarrow> Inr x)"

fun fold_result :: "('a \<Rightarrow> 's \<Rightarrow> error + 's) \<Rightarrow> 'a list \<Rightarrow> 's \<Rightarrow> error + 's" where
  "fold_result f [] s = Inr s"
| "fold_result f (x # xs) s = and_then (f x s) (fold_result f xs)"

lemma and_then_Inr [simp]: "and_then r f = Inr y \<longleftrightarrow> (\<exists>x. r = Inr x \<and> f x = Inr y)"
  by (simp add: and_then_def split: sum.split)

lemma ensure_Inr [simp]: "ensure e x = Inr y \<longleftrightarrow> e = None \<and> y = x"
  by (auto simp: ensure_def split: option.split)

text \<open>What every successful step keeps, the whole loop keeps.\<close>

lemma fold_result_invariant:
  assumes "fold_result f xs s = Inr s'" "I s" "\<And>x s s'. x \<in> set xs \<Longrightarrow> I s \<Longrightarrow> f x s = Inr s' \<Longrightarrow> I s'"
  shows "I s'"
  using assms by (induction xs arbitrary: s) auto

section \<open>Records\<close>

record PackMetadataSource =
  ms_Validator :: "PackValidator option"
  ms_Provided :: "PackMetadata option"
  ms_Metadata :: PackMetadata

type_synonym operationMetadataKey = "DefinitionRef \<times> DefinitionRef \<times> DefinitionRef \<times> DefinitionRef \<times> DefinitionRef"

record PackMetadataRegistry =
  mr_packs :: "PackRef list"
  mr_definitions :: "DefinitionRef list"
  mr_units :: "DefinitionRef list"
  mr_fields :: "(DefinitionRef, FieldMetadata) gomap"
  mr_services :: "(DefinitionRef, ServiceMetadata) gomap"
  mr_caps :: "(DefinitionRef, DefinitionRef) gomap"
  mr_operations :: "operationMetadataKey list"

section \<open>Canonical metadata\<close>

definition comparePackMetadataRef :: "PackRef \<Rightarrow> PackRef \<Rightarrow> int" where
  "comparePackMetadataRef = cmp_then (cmp_on pk_ID string_compare) (cmp_on pk_Version string_compare)"

definition comparePackMetadataDefinition :: "DefinitionRef \<Rightarrow> DefinitionRef \<Rightarrow> int" where
  "comparePackMetadataDefinition = cmp_then (cmp_on df_Pack comparePackMetadataRef)
     (cmp_then (cmp_on df_ID string_compare) (cmp_on df_Version string_compare))"

text \<open>The copy keeps a nil or empty slice nil, except for the fields, which are made.\<close>

definition canonicalPackMetadata :: "PackMetadata \<Rightarrow> PackMetadata" where
  "canonicalPackMetadata m =
     \<lparr>md_Pack = md_Pack m,
       md_Units = appended (sort_by comparePackMetadataDefinition (elems (md_Units m))),
       md_Fields = Some (sort_by (cmp_on fm_Ref comparePackMetadataDefinition) (elems (md_Fields m))),
       md_Services = appended (sort_by (cmp_on sm_Ref comparePackMetadataDefinition) (elems (md_Services m))),
       md_Capabilities = appended (sort_by (cmp_on cm_Ref comparePackMetadataDefinition) (elems (md_Capabilities m))),
       md_Operations = appended (sort_by (cmp_on om_Ref comparePackMetadataDefinition) (elems (md_Operations m)))\<rparr>"

section \<open>References\<close>

definition metadataRefOwns :: "PackRef \<Rightarrow> DefinitionRef \<Rightarrow> err" where
  "metadataRefOwns pack ref = first_error
     [DefinitionRef_Validate ref, check_err (df_Pack ref \<noteq> pack) DefinitionOwnerConflict ''metadata reference pack'']"

definition operation_refs :: "OperationMetadata \<Rightarrow> DefinitionRef list" where
  "operation_refs p = [om_Ref p, om_Capability p, om_Service p, om_Argument p, om_Effect p]"

definition validatePackMetadataReferences :: "PackMetadata \<Rightarrow> err" where
  "validatePackMetadataReferences m =
     (let owns = metadataRefOwns (md_Pack m) in
      first_error
       (PackRef_Validate (md_Pack m) #
        map owns (elems (md_Units m)) @
        map (\<lambda>f. first_error [bestError [owns (fm_Ref f), owns (fm_Dimension f)], opt_err owns (fm_CanonicalUnit f)]) (elems (md_Fields m)) @
        map (\<lambda>s. bestError [owns (sm_Ref s), owns (sm_FactKeyDimension s)]) (elems (md_Services m)) @
        map (\<lambda>c. bestError [owns (cm_Ref c), owns (cm_Service c)]) (elems (md_Capabilities m)) @
        map (\<lambda>p. first_error (map owns (operation_refs p))) (elems (md_Operations m))))"

section \<open>Registration of one pack\<close>

type_synonym index_refs = "(DefinitionRef, DefinitionKind) gomap"

definition index_ref :: "PackRef \<Rightarrow> DefinitionKind \<Rightarrow> DefinitionRef \<Rightarrow> index_refs \<Rightarrow> error + index_refs" where
  "index_ref pack kind ref refs =
     (if df_Pack ref \<noteq> pack then Inl (errID DefinitionOwnerConflict ''definition index pack'')
      else if map_of refs ref \<notin> {None, Some kind} then Inl (errID DefinitionOwnerConflict ''ambiguous metadata definition'')
      else Inr (AList.update ref kind refs))"

definition collect_index :: "PackRef \<Rightarrow> DefinitionIndex \<Rightarrow> error + index_refs" where
  "collect_index pack i =
     fold_result (\<lambda>(kind, refs). fold_result (index_ref pack kind) (elems refs)) (index_groups i) []"

definition countKind :: "index_refs \<Rightarrow> DefinitionKind \<Rightarrow> nat" where
  "countKind refs kind = length (filter (\<lambda>(r, k). k = kind) refs)"

definition register_unit :: "PackRef \<Rightarrow> DefinitionRef \<Rightarrow> PackMetadataRegistry \<Rightarrow> error + PackMetadataRegistry" where
  "register_unit pack unit r = ensure (first_error
     [metadataRefOwns pack unit,
      check_err (unit \<in> set (mr_definitions r) \<or> unit \<in> set (mr_units r)) DefinitionOwnerConflict ''duplicate metadata unit''])
     (r\<lparr>mr_definitions := unit # mr_definitions r, mr_units := unit # mr_units r\<rparr>)"

definition register_definition :: "DefinitionRef \<Rightarrow> PackMetadataRegistry \<Rightarrow> error + PackMetadataRegistry" where
  "register_definition ref r = ensure
     (check_err (ref \<in> set (mr_definitions r)) DefinitionOwnerConflict ''duplicate metadata definition'')
     (r\<lparr>mr_definitions := ref # mr_definitions r\<rparr>)"

text \<open>Each of the four loops threads the references seen in this pack with the registry; at its end every
  definition of the kind must have been described.\<close>

type_synonym seen = "DefinitionRef list"

definition register_field :: "PackRef \<Rightarrow> index_refs \<Rightarrow> FieldMetadata \<Rightarrow> seen \<times> PackMetadataRegistry \<Rightarrow> error + (seen \<times> PackMetadataRegistry)" where
  "register_field pack refs f = (\<lambda>(seen, r). ensure (first_error
     [metadataRefOwns pack (fm_Ref f),
      check_err (map_of refs (fm_Ref f) \<noteq> Some DefinitionField) DefinitionOwnerMissing ''metadata field'',
      check_err (fm_Ref f \<in> set seen) DefinitionOwnerConflict ''duplicate metadata field'',
      metadataRefOwns pack (fm_Dimension f),
      opt_err (metadataRefOwns pack) (fm_CanonicalUnit f),
      opt_err (\<lambda>u. check_err (u \<notin> set (mr_units r)) DefinitionOwnerMissing ''metadata canonical unit'') (fm_CanonicalUnit f)])
     (fm_Ref f # seen, r\<lparr>mr_fields := AList.update (fm_Ref f) f (mr_fields r)\<rparr>))"

definition register_service :: "PackRef \<Rightarrow> index_refs \<Rightarrow> ServiceMetadata \<Rightarrow> seen \<times> PackMetadataRegistry \<Rightarrow> error + (seen \<times> PackMetadataRegistry)" where
  "register_service pack refs s = (\<lambda>(seen, r). ensure (first_error
     [bestError [metadataRefOwns pack (sm_Ref s), metadataRefOwns pack (sm_FactKeyDimension s)],
      check_err (map_of refs (sm_Ref s) \<noteq> Some DefinitionService) DefinitionOwnerMissing ''metadata service'',
      check_err (sm_Ref s \<in> set seen) DefinitionOwnerConflict ''duplicate metadata service''])
     (sm_Ref s # seen, r\<lparr>mr_services := AList.update (sm_Ref s) s (mr_services r)\<rparr>))"

definition register_capability :: "PackRef \<Rightarrow> index_refs \<Rightarrow> CapabilityMetadata \<Rightarrow> seen \<times> PackMetadataRegistry \<Rightarrow> error + (seen \<times> PackMetadataRegistry)" where
  "register_capability pack refs c = (\<lambda>(seen, r). ensure (first_error
     [bestError [metadataRefOwns pack (cm_Ref c), metadataRefOwns pack (cm_Service c)],
      check_err (map_of refs (cm_Ref c) \<noteq> Some DefinitionCapability) DefinitionOwnerMissing ''metadata capability'',
      check_err (map_of (mr_services r) (cm_Service c) = None) DefinitionOwnerMissing ''metadata capability service'',
      check_err (cm_Ref c \<in> set seen) DefinitionOwnerConflict ''duplicate metadata capability''])
     (cm_Ref c # seen, r\<lparr>mr_caps := AList.update (cm_Ref c) (cm_Service c) (mr_caps r)\<rparr>))"

definition operation_key :: "OperationMetadata \<Rightarrow> operationMetadataKey" where
  "operation_key p = (om_Ref p, om_Capability p, om_Service p, om_Argument p, om_Effect p)"

definition register_operation :: "PackRef \<Rightarrow> index_refs \<Rightarrow> OperationMetadata \<Rightarrow> seen \<times> PackMetadataRegistry \<Rightarrow> error + (seen \<times> PackMetadataRegistry)" where
  "register_operation pack refs p = (\<lambda>(seen, r). ensure (first_error
     (map (metadataRefOwns pack) (operation_refs p) @
     [check_err (map_of refs (om_Ref p) \<noteq> Some DefinitionOperation \<or> map_of refs (om_Argument p) \<noteq> Some DefinitionField \<or>
        map_of refs (om_Effect p) \<noteq> Some DefinitionEffectRule) DefinitionOwnerMissing ''metadata operation definition'',
      check_err (map_of (mr_caps r) (om_Capability p) \<noteq> Some (om_Service p)) DefinitionOwnerConflict ''metadata operation capability'',
      check_err (om_Ref p \<in> set seen) DefinitionOwnerConflict ''duplicate metadata operation'']))
     (om_Ref p # seen, r\<lparr>mr_operations := operation_key p # mr_operations r\<rparr>))"

definition register_all :: "('a \<Rightarrow> seen \<times> PackMetadataRegistry \<Rightarrow> error + (seen \<times> PackMetadataRegistry)) \<Rightarrow> 'a list \<Rightarrow>
    index_refs \<Rightarrow> DefinitionKind \<Rightarrow> string \<Rightarrow> PackMetadataRegistry \<Rightarrow> error + PackMetadataRegistry" where
  "register_all step items refs kind detail r = and_then (fold_result step items ([], r)) (\<lambda>(seen, r).
     ensure (check_err (length seen \<noteq> countKind refs kind) DefinitionOwnerMissing detail) r)"

definition registerPack :: "PackMetadata \<Rightarrow> DefinitionIndex \<Rightarrow> PackMetadataRegistry \<Rightarrow> error + PackMetadataRegistry" where
  "registerPack m i r =
     (let pack = md_Pack m in
      and_then (collect_index pack i) (\<lambda>refs.
      and_then (fold_result (register_unit pack) (elems (md_Units m)) r) (\<lambda>r.
      and_then (fold_result register_definition (map fst refs) r) (\<lambda>r.
      and_then (register_all (register_field pack refs) (elems (md_Fields m)) refs DefinitionField ''metadata fields'' r) (\<lambda>r.
      and_then (register_all (register_service pack refs) (elems (md_Services m)) refs DefinitionService ''metadata services'' r) (\<lambda>r.
      and_then (register_all (register_capability pack refs) (elems (md_Capabilities m)) refs DefinitionCapability ''metadata capabilities'' r) (\<lambda>r.
      register_all (register_operation pack refs) (elems (md_Operations m)) refs DefinitionOperation ''metadata operations'' r)))))))"

section \<open>Construction\<close>

definition empty_metadata_registry :: PackMetadataRegistry where
  "empty_metadata_registry = \<lparr>mr_packs = [], mr_definitions = [], mr_units = [], mr_fields = [], mr_services = [], mr_caps = [],
     mr_operations = []\<rparr>"

definition register_source :: "PackMetadataSource \<Rightarrow> PackMetadataRegistry \<Rightarrow> error + PackMetadataRegistry" where
  "register_source source r = (case ms_Validator source of
     None \<Rightarrow> Inl (errID DefinitionOwnerConflict ''nil pack metadata validator'')
   | Some v \<Rightarrow> (case ms_Provided source of
       None \<Rightarrow> Inl (errID DefinitionOwnerMissing ''pack metadata provider'')
     | Some provided \<Rightarrow>
         (let m = canonicalPackMetadata (ms_Metadata source); expected = canonicalPackMetadata provided; i = pv_Definitions v in
          and_then (ensure (first_error
            [validatePackMetadataReferences m,
             check_err (validatePackMetadataReferences expected \<noteq> None \<or> md_Pack expected \<noteq> pv_Pack v) DefinitionOwnerConflict ''validator metadata'',
             bestError [PackRef_Validate (md_Pack m), DefinitionIndex_Validate i],
             check_err (md_Pack m \<noteq> pv_Pack v \<or> dx_Pack i \<noteq> md_Pack m) DefinitionOwnerConflict ''metadata validator pack'',
             check_err (md_Pack m \<in> set (mr_packs r)) DefinitionOwnerConflict ''duplicate metadata pack'',
             check_err (m \<noteq> expected) DefinitionOwnerConflict ''metadata differs from validator tables'']) r) (\<lambda>r.
          and_then (registerPack m i r) (\<lambda>r. Inr (r\<lparr>mr_packs := mr_packs r @ [md_Pack m]\<rparr>))))))"

definition NewPackMetadataRegistry :: "PackMetadataSource list \<Rightarrow> error + PackMetadataRegistry" where
  "NewPackMetadataRegistry sources = and_then (fold_result register_source sources empty_metadata_registry)
     (\<lambda>r. Inr (r\<lparr>mr_packs := sort_by comparePackMetadataRef (mr_packs r)\<rparr>))"

section \<open>Queries\<close>

definition Packs_of :: "PackMetadataRegistry option \<Rightarrow> PackRef list" where
  "Packs_of r = (case r of None \<Rightarrow> [] | Some r \<Rightarrow> mr_packs r)"

definition HasDefinition :: "PackMetadataRegistry option \<Rightarrow> DefinitionRef \<Rightarrow> bool" where
  "HasDefinition r ref = (case r of
     None \<Rightarrow> False | Some r \<Rightarrow> DefinitionRef_Validate ref = None \<and> ref \<in> set (mr_definitions r))"

definition CanonicalUnit :: "PackMetadataRegistry option \<Rightarrow> DefinitionRef \<Rightarrow> DefinitionRef option" where
  "CanonicalUnit r field = (case r of
     None \<Rightarrow> None
   | Some r \<Rightarrow> if DefinitionRef_Validate field \<noteq> None then None
       else (case map_of (mr_fields r) field of None \<Rightarrow> None | Some m \<Rightarrow> fm_CanonicalUnit m))"

definition ServiceOwnsCapability :: "PackMetadataRegistry option \<Rightarrow> DefinitionRef \<Rightarrow> DefinitionRef \<Rightarrow> bool" where
  "ServiceOwnsCapability r service capability = (case r of
     None \<Rightarrow> False
   | Some r \<Rightarrow> DefinitionRef_Validate service = None \<and> DefinitionRef_Validate capability = None \<and>
       map_of (mr_caps r) capability = Some service)"

definition FieldMatches :: "PackMetadataRegistry option \<Rightarrow> DefinitionRef \<Rightarrow> DefinitionRef \<Rightarrow> DefinitionRef \<Rightarrow> bool" where
  "FieldMatches r field service capability = (case r of
     None \<Rightarrow> False
   | Some m \<Rightarrow> DefinitionRef_Validate field = None \<and> ServiceOwnsCapability r service capability \<and>
       (case (map_of (mr_fields m) field, map_of (mr_services m) service) of
          (Some f, Some s) \<Rightarrow> fm_Dimension f = sm_FactKeyDimension s
        | _ \<Rightarrow> False))"

definition OperationMatches :: "PackMetadataRegistry option \<Rightarrow> DefinitionRef \<Rightarrow> DefinitionRef \<Rightarrow> DefinitionRef \<Rightarrow> DefinitionRef \<Rightarrow> DefinitionRef \<Rightarrow> bool" where
  "OperationMatches r operation capability service argument effect = (case r of
     None \<Rightarrow> False
   | Some r \<Rightarrow> (\<forall>ref \<in> set [operation, capability, service, argument, effect]. DefinitionRef_Validate ref = None) \<and>
       (operation, capability, service, argument, effect) \<in> set (mr_operations r))"

section \<open>The shipped packs\<close>

definition shipped_source :: "PackValidator \<Rightarrow> PackMetadata \<Rightarrow> PackMetadataSource" where
  "shipped_source v m = \<lparr>ms_Validator = Some v, ms_Provided = Some m, ms_Metadata = m\<rparr>"

definition NewMetadataRegistry :: "env \<Rightarrow> error + PackMetadataRegistry" where
  "NewMetadataRegistry E = NewPackMetadataRegistry
     [shipped_source (thermal_New E) thermal_Metadata, shipped_source (photovoltaic_New E) photovoltaic_Metadata,
      shipped_source (storage_New E) storage_Metadata, shipped_source (evse_New E) evse_Metadata,
      shipped_source (infrastructure_New E) infrastructure_Metadata]"

end
