(* ===== verification/Metadata_Laws.thy ===== *)
theory Metadata_Laws
  imports Pack_Metadata
begin

text \<open>
  Laws of the metadata registry. What is registered for one pack stays within it: every relation
  between definitions joins definitions of the same pack that the registry has.
\<close>

section \<open>The invariant\<close>

definition field_ok :: "PackMetadataRegistry \<Rightarrow> DefinitionRef \<Rightarrow> FieldMetadata \<Rightarrow> bool" where
  "field_ok r ref m \<longleftrightarrow> ref \<in> set (mr_definitions r) \<and> df_Pack (fm_Dimension m) = df_Pack ref \<and>
     (\<forall>u. fm_CanonicalUnit m = Some u \<longrightarrow> df_Pack u = df_Pack ref \<and> u \<in> set (mr_units r) \<and> DefinitionRef_Validate u = None)"

definition service_ok :: "PackMetadataRegistry \<Rightarrow> DefinitionRef \<Rightarrow> ServiceMetadata \<Rightarrow> bool" where
  "service_ok r ref m \<longleftrightarrow> ref \<in> set (mr_definitions r) \<and> df_Pack (sm_FactKeyDimension m) = df_Pack ref"

definition capability_ok :: "PackMetadataRegistry \<Rightarrow> DefinitionRef \<Rightarrow> DefinitionRef \<Rightarrow> bool" where
  "capability_ok r c s \<longleftrightarrow> c \<in> set (mr_definitions r) \<and> map_of (mr_services r) s \<noteq> None \<and> df_Pack s = df_Pack c"

definition operation_ok :: "PackMetadataRegistry \<Rightarrow> operationMetadataKey \<Rightarrow> bool" where
  "operation_ok r = (\<lambda>(operation, c, s, a, e). {operation, a, e} \<subseteq> set (mr_definitions r) \<and> map_of (mr_caps r) c = Some s \<and>
     df_Pack ` {operation, c, s, a, e} = {df_Pack operation})"

text \<open>The packs are those of the definitions; \<open>Q\<close> are the packs whose operations are registered.\<close>

definition metadata_ok :: "PackRef list \<Rightarrow> PackRef set \<Rightarrow> PackRef set \<Rightarrow> PackMetadataRegistry \<Rightarrow> bool" where
  "metadata_ok ps P Q r \<longleftrightarrow> mr_packs r = ps \<and> df_Pack ` set (mr_definitions r) \<subseteq> P \<and> set (mr_units r) \<subseteq> set (mr_definitions r) \<and>
     (\<forall>ref m. map_of (mr_fields r) ref = Some m \<longrightarrow> field_ok r ref m) \<and>
     (\<forall>ref m. map_of (mr_services r) ref = Some m \<longrightarrow> service_ok r ref m) \<and>
     (\<forall>c s. map_of (mr_caps r) c = Some s \<longrightarrow> capability_ok r c s) \<and>
     (\<forall>p \<in> set (mr_operations r). operation_ok r p \<and> df_Pack (fst p) \<in> Q)"

lemma ok_update [simp]:
  "field_ok (r\<lparr>mr_fields := x\<rparr>) = field_ok r" "service_ok (r\<lparr>mr_services := y\<rparr>) = service_ok r"
  "capability_ok (r\<lparr>mr_caps := z\<rparr>) = capability_ok r" "operation_ok (r\<lparr>mr_operations := w\<rparr>) = operation_ok r"
  "field_ok (r\<lparr>mr_packs := ps\<rparr>) = field_ok r" "service_ok (r\<lparr>mr_packs := ps\<rparr>) = service_ok r"
  "capability_ok (r\<lparr>mr_packs := ps\<rparr>) = capability_ok r" "operation_ok (r\<lparr>mr_packs := ps\<rparr>) = operation_ok r"
  by (intro ext; simp add: field_ok_def service_ok_def capability_ok_def operation_ok_def)+

lemma owns_None: "metadataRefOwns pack ref = None \<longleftrightarrow> DefinitionRef_Validate ref = None \<and> df_Pack ref = pack"
  by (simp add: metadataRefOwns_def)

lemma key_mapped: "map_of m k = Some v \<Longrightarrow> k \<in> fst ` set m"
  by (force dest: map_of_SomeD)

section \<open>Registration keeps the invariant\<close>

text \<open>What a step has to show: it only adds, and what it adds is in order.\<close>

lemma metadata_ok_extend:
  assumes "metadata_ok ps P Q r" "mr_packs r' = mr_packs r"
    and "set (mr_definitions r) \<subseteq> set (mr_definitions r')" "df_Pack ` set (mr_definitions r') \<subseteq> P"
    and "set (mr_units r) \<subseteq> set (mr_units r')" "set (mr_units r') \<subseteq> set (mr_definitions r')"
    and fields_ext: "\<And>ref m. map_of (mr_fields r') ref = Some m \<Longrightarrow> map_of (mr_fields r) ref = Some m \<or> field_ok r' ref m"
    and services_ext: "\<And>ref m. map_of (mr_services r') ref = Some m \<Longrightarrow> map_of (mr_services r) ref = Some m \<or> service_ok r' ref m"
    and services_keep: "\<And>ref. map_of (mr_services r) ref \<noteq> None \<Longrightarrow> map_of (mr_services r') ref \<noteq> None"
    and caps_ext: "\<And>c s. map_of (mr_caps r') c = Some s \<Longrightarrow> map_of (mr_caps r) c = Some s \<or> capability_ok r' c s"
    and caps_keep: "\<And>c. df_Pack c \<in> Q \<Longrightarrow> map_of (mr_caps r) c \<noteq> None \<Longrightarrow> map_of (mr_caps r') c = map_of (mr_caps r) c"
    and ops_ext: "\<And>p. p \<in> set (mr_operations r') \<Longrightarrow> p \<in> set (mr_operations r) \<or> operation_ok r' p \<and> df_Pack (fst p) \<in> Q"
  shows "metadata_ok ps P Q r'"
proof -
  have "field_ok r' ref m" if "map_of (mr_fields r') ref = Some m" for ref m
    using fields_ext [OF that] assms(1, 3, 5) unfolding metadata_ok_def field_ok_def by blast
  moreover have "service_ok r' ref m" if "map_of (mr_services r') ref = Some m" for ref m
    using services_ext [OF that] assms(1, 3) unfolding metadata_ok_def service_ok_def by blast
  moreover have "capability_ok r' c s" if "map_of (mr_caps r') c = Some s" for c s
    using caps_ext [OF that] assms(1, 3) services_keep unfolding metadata_ok_def capability_ok_def by blast
  moreover have "operation_ok r' p \<and> df_Pack (fst p) \<in> Q" if "p \<in> set (mr_operations r')" for p
  proof (cases "p \<in> set (mr_operations r)")
    case True
    obtain operation c s a e where p: "p = (operation, c, s, a, e)" by (cases p)
    have old: "{operation, a, e} \<subseteq> set (mr_definitions r)" "map_of (mr_caps r) c = Some s"
        "df_Pack ` {operation, c, s, a, e} = {df_Pack operation}" "df_Pack operation \<in> Q"
      using assms(1) True unfolding metadata_ok_def p operation_ok_def by auto
    then have "df_Pack c \<in> Q" by simp
    then have "map_of (mr_caps r') c = Some s" using caps_keep [of c] old(2) by simp
    with old assms(3) show ?thesis unfolding p operation_ok_def by auto
  next
    case False
    with ops_ext [OF that] show ?thesis by blast
  qed
  ultimately show ?thesis using assms(1, 2, 4, 6) unfolding metadata_ok_def by simp
qed

lemma metadata_okD:
  assumes "metadata_ok ps P Q r"
  shows "df_Pack ` set (mr_definitions r) \<subseteq> P" "set (mr_units r) \<subseteq> set (mr_definitions r)"
  using assms by (simp_all add: metadata_ok_def)

lemma register_unit_ok:
  assumes "register_unit pack u r = Inr r'" "metadata_ok ps P Q r" "pack \<in> P"
  shows "metadata_ok ps P Q r'"
proof -
  have "df_Pack u = pack" "r' = r\<lparr>mr_definitions := u # mr_definitions r, mr_units := u # mr_units r\<rparr>"
    using assms(1) by (simp_all add: register_unit_def owns_None)
  then show ?thesis using assms(3) metadata_okD [OF assms(2)] by (intro metadata_ok_extend [OF assms(2)]) auto
qed

lemma register_definition_ok:
  assumes "register_definition ref r = Inr r'" "metadata_ok ps P Q r" "df_Pack ref \<in> P"
  shows "metadata_ok ps P Q r'" "set (mr_definitions r') = insert ref (set (mr_definitions r))"
proof -
  have r': "r' = r\<lparr>mr_definitions := ref # mr_definitions r\<rparr>" using assms(1) by (simp add: register_definition_def)
  then show "set (mr_definitions r') = insert ref (set (mr_definitions r))" by simp
  show "metadata_ok ps P Q r'"
    using r' assms(3) metadata_okD [OF assms(2)] by (intro metadata_ok_extend [OF assms(2)]) auto
qed

text \<open>The references of the index are known before the loops; each loop keeps them.\<close>

definition registered :: "PackRef list \<Rightarrow> PackRef set \<Rightarrow> PackRef set \<Rightarrow> DefinitionRef set \<Rightarrow> seen \<times> PackMetadataRegistry \<Rightarrow> bool" where
  "registered ps P Q D st \<longleftrightarrow> metadata_ok ps P Q (snd st) \<and> D \<subseteq> set (mr_definitions (snd st))"

lemma register_field_ok:
  assumes "register_field pack refs f st = Inr st'" "registered ps P Q (fst ` set refs) st"
  shows "registered ps P Q (fst ` set refs) st'"
proof -
  obtain seen r where st: "st = (seen, r)" by (cases st)
  have ok: "metadataRefOwns pack (fm_Ref f) = None" "fm_Ref f \<in> fst ` set refs" "metadataRefOwns pack (fm_Dimension f) = None"
    "\<forall>u. fm_CanonicalUnit f = Some u \<longrightarrow> metadataRefOwns pack u = None \<and> u \<in> set (mr_units r)"
    "st' = (fm_Ref f # seen, r\<lparr>mr_fields := AList.update (fm_Ref f) f (mr_fields r)\<rparr>)"
    using assms(1) by (auto simp: register_field_def st opt_err_def split: option.splits dest: key_mapped)
  have r: "metadata_ok ps P Q r" "fst ` set refs \<subseteq> set (mr_definitions r)" using assms(2) by (simp_all add: registered_def st)
  have "field_ok r (fm_Ref f) f" using ok(1-4) r(2) by (auto simp: field_ok_def owns_None)
  then have "metadata_ok ps P Q (snd st')"
    using metadata_okD [OF r(1)] unfolding ok(5)
    by (intro metadata_ok_extend [OF r(1)]) (auto simp: update_conv' split: if_splits)
  then show ?thesis using r(2) by (simp add: registered_def ok(5))
qed

lemma register_service_ok:
  assumes "register_service pack refs s st = Inr st'" "registered ps P Q (fst ` set refs) st"
  shows "registered ps P Q (fst ` set refs) st'"
proof -
  obtain seen r where st: "st = (seen, r)" by (cases st)
  have ok: "metadataRefOwns pack (sm_Ref s) = None" "metadataRefOwns pack (sm_FactKeyDimension s) = None" "sm_Ref s \<in> fst ` set refs"
    "st' = (sm_Ref s # seen, r\<lparr>mr_services := AList.update (sm_Ref s) s (mr_services r)\<rparr>)"
    using assms(1) by (auto simp: register_service_def st dest: key_mapped)
  have r: "metadata_ok ps P Q r" "fst ` set refs \<subseteq> set (mr_definitions r)" using assms(2) by (simp_all add: registered_def st)
  have "service_ok r (sm_Ref s) s" using ok(1-3) r(2) by (auto simp: service_ok_def owns_None)
  then have "metadata_ok ps P Q (snd st')"
    using metadata_okD [OF r(1)] unfolding ok(4)
    by (intro metadata_ok_extend [OF r(1)]) (auto simp: update_conv' split: if_splits)
  then show ?thesis using r(2) by (simp add: registered_def ok(4))
qed

lemma register_capability_ok:
  assumes "register_capability pack refs c st = Inr st'" "registered ps P Q (fst ` set refs) st" "pack \<notin> Q"
  shows "registered ps P Q (fst ` set refs) st'"
proof -
  obtain seen r where st: "st = (seen, r)" by (cases st)
  have ok: "metadataRefOwns pack (cm_Ref c) = None" "metadataRefOwns pack (cm_Service c) = None" "cm_Ref c \<in> fst ` set refs"
    "map_of (mr_services r) (cm_Service c) \<noteq> None"
    "st' = (cm_Ref c # seen, r\<lparr>mr_caps := AList.update (cm_Ref c) (cm_Service c) (mr_caps r)\<rparr>)"
    using assms(1) by (auto simp: register_capability_def st dest: key_mapped)
  have r: "metadata_ok ps P Q r" "fst ` set refs \<subseteq> set (mr_definitions r)" using assms(2) by (simp_all add: registered_def st)
  have "capability_ok r (cm_Ref c) (cm_Service c)" using ok(1-4) r(2) by (auto simp: capability_ok_def owns_None)
  moreover have "df_Pack (cm_Ref c) \<notin> Q" using ok(1) assms(3) by (simp add: owns_None)
  ultimately have "metadata_ok ps P Q (snd st')"
    using metadata_okD [OF r(1)] unfolding ok(5)
    by (intro metadata_ok_extend [OF r(1)]) (auto simp: update_conv' split: if_splits)
  then show ?thesis using r(2) by (simp add: registered_def ok(5))
qed

lemma register_operation_ok:
  assumes "register_operation pack refs p st = Inr st'" "registered ps P Q (fst ` set refs) st" "pack \<in> Q"
  shows "registered ps P Q (fst ` set refs) st'"
proof -
  obtain seen r where st: "st = (seen, r)" by (cases st)
  have ok: "\<forall>x \<in> set (operation_refs p). metadataRefOwns pack x = None" "{om_Ref p, om_Argument p, om_Effect p} \<subseteq> fst ` set refs"
    "map_of (mr_caps r) (om_Capability p) = Some (om_Service p)"
    "st' = (om_Ref p # seen, r\<lparr>mr_operations := operation_key p # mr_operations r\<rparr>)"
    using assms(1) by (auto simp: register_operation_def st dest: key_mapped)
  have r: "metadata_ok ps P Q r" "fst ` set refs \<subseteq> set (mr_definitions r)" using assms(2) by (simp_all add: registered_def st)
  have "operation_ok r (operation_key p) \<and> df_Pack (fst (operation_key p)) \<in> Q"
    using ok(1-3) r(2) assms(3) by (simp add: operation_ok_def operation_key_def operation_refs_def owns_None) blast
  then have "metadata_ok ps P Q (snd st')"
    using metadata_okD [OF r(1)] unfolding ok(4)
    by (intro metadata_ok_extend [OF r(1)]) auto
  then show ?thesis using r(2) by (simp add: registered_def ok(4))
qed

lemma register_all_ok:
  assumes "register_all step items refs kind detail r = Inr r'" "registered ps P Q D ([], r)"
    and "\<And>x st st'. step x st = Inr st' \<Longrightarrow> registered ps P Q D st \<Longrightarrow> registered ps P Q D st'"
  shows "registered ps P Q D ([], r')"
proof -
  obtain seen where "fold_result step items ([], r) = Inr (seen, r')"
    using assms(1) by (auto simp: register_all_def)
  from fold_result_invariant [OF this, where I = "registered ps P Q D"] assms(2, 3) show ?thesis by (simp add: registered_def)
qed

lemma collect_index_packs:
  assumes "collect_index pack i = Inr refs"
  shows "df_Pack ` fst ` set refs \<subseteq> {pack}"
proof -
  have group: "df_Pack ` fst ` set refs' \<subseteq> {pack}"
    if "fold_result (index_ref pack kind) items refs = Inr refs'" "df_Pack ` fst ` set refs \<subseteq> {pack}" for kind items refs refs'
  proof (rule fold_result_invariant [where I = "\<lambda>refs. df_Pack ` fst ` set refs \<subseteq> {pack}", OF that])
    fix x and s s' :: index_refs assume "df_Pack ` fst ` set s \<subseteq> {pack}" "index_ref pack kind x s = Inr s'"
    then have "s' = AList.update x kind s" "df_Pack x = pack" by (auto simp: index_ref_def split: if_splits)
    then show "df_Pack ` fst ` set s' \<subseteq> {pack}" using \<open>df_Pack ` fst ` set s \<subseteq> {pack}\<close> by (simp add: dom_update)
  qed
  show ?thesis
  proof (rule fold_result_invariant [where I = "\<lambda>refs. df_Pack ` fst ` set refs \<subseteq> {pack}", OF assms [unfolded collect_index_def]])
    fix x and s s' :: index_refs
    assume "df_Pack ` fst ` set s \<subseteq> {pack}" "(\<lambda>(kind, refs). fold_result (index_ref pack kind) (elems refs)) x s = Inr s'"
    then show "df_Pack ` fst ` set s' \<subseteq> {pack}" using group [of "fst x" "elems (snd x)" s s'] by (cases x) simp
  qed simp
qed

lemma registerPack_ok:
  assumes "registerPack m i r = Inr r'" "metadata_ok ps P P r" "md_Pack m \<notin> P"
  shows "metadata_ok ps (insert (md_Pack m) P) (insert (md_Pack m) P) r'"
proof -
  let ?p = "md_Pack m"
  let ?P = "insert ?p P"
  obtain refs r1 r2 r3 r4 r5 where st: "collect_index ?p i = Inr refs" "fold_result (register_unit ?p) (elems (md_Units m)) r = Inr r1"
      "fold_result register_definition (map fst refs) r1 = Inr r2"
      "register_all (register_field ?p refs) (elems (md_Fields m)) refs DefinitionField ''metadata fields'' r2 = Inr r3"
      "register_all (register_service ?p refs) (elems (md_Services m)) refs DefinitionService ''metadata services'' r3 = Inr r4"
      "register_all (register_capability ?p refs) (elems (md_Capabilities m)) refs DefinitionCapability ''metadata capabilities'' r4 = Inr r5"
      "register_all (register_operation ?p refs) (elems (md_Operations m)) refs DefinitionOperation ''metadata operations'' r5 = Inr r'"
    using assms(1) by (auto simp: registerPack_def Let_def)
  have "metadata_ok ps ?P P r" using assms(2) by (auto simp: metadata_ok_def)
  then have r1: "metadata_ok ps ?P P r1"
    using fold_result_invariant [OF st(2), where I = "metadata_ok ps ?P P"] register_unit_ok by blast
  have "df_Pack ` fst ` set refs \<subseteq> ?P" using collect_index_packs [OF st(1)] by blast
  then have "metadata_ok ps ?P P r2 \<and> fst ` set refs \<subseteq> set (mr_definitions r2)"
    using st(3) r1
  proof (induction refs arbitrary: r1)
    case (Cons x refs)
    obtain r' where r': "register_definition (fst x) r1 = Inr r'" "fold_result register_definition (map fst refs) r' = Inr r2"
      using Cons.prems(2) by auto
    have "metadata_ok ps ?P P r'" "set (mr_definitions r') = insert (fst x) (set (mr_definitions r1))"
      using register_definition_ok [OF r'(1) Cons.prems(3)] Cons.prems(1) by auto
    moreover have "set (mr_definitions r') \<subseteq> set (mr_definitions r2)"
      using r'(2) by (rule fold_result_invariant [where I = "\<lambda>r. set (mr_definitions r') \<subseteq> set (mr_definitions r)"])
        (auto simp: register_definition_def)
    ultimately show ?case using Cons.IH [of r'] r'(2) Cons.prems(1) by auto
  qed simp
  then have "registered ps ?P P (fst ` set refs) ([], r2)" by (simp add: registered_def)
  from register_all_ok [OF st(4) this] have "registered ps ?P P (fst ` set refs) ([], r3)" using register_field_ok by blast
  from register_all_ok [OF st(5) this] have "registered ps ?P P (fst ` set refs) ([], r4)" using register_service_ok by blast
  from register_all_ok [OF st(6) this] have "registered ps ?P P (fst ` set refs) ([], r5)" using register_capability_ok assms(3) by blast
  then have "registered ps ?P ?P (fst ` set refs) ([], r5)" by (auto simp: registered_def metadata_ok_def)
  from register_all_ok [OF st(7) this] have "registered ps ?P ?P (fst ` set refs) ([], r')" using register_operation_ok by blast
  then show ?thesis by (simp add: registered_def)
qed

section \<open>Every registry satisfies the invariant\<close>

lemma metadata_ok_packs: "metadata_ok ps P Q r \<Longrightarrow> metadata_ok ps' P Q (r\<lparr>mr_packs := ps'\<rparr>)"
  by (simp add: metadata_ok_def)

definition closed_registry :: "PackMetadataRegistry \<Rightarrow> bool" where
  "closed_registry r \<longleftrightarrow> distinct (mr_packs r) \<and> metadata_ok (mr_packs r) (set (mr_packs r)) (set (mr_packs r)) r"

lemma register_source_ok:
  assumes "register_source source r = Inr r'" "closed_registry r"
  shows "closed_registry r'"
proof -
  obtain m i r1 where m: "md_Pack m \<notin> set (mr_packs r)" "registerPack m i r = Inr r1" "r' = r1\<lparr>mr_packs := mr_packs r1 @ [md_Pack m]\<rparr>"
    using assms(1) by (auto simp: register_source_def Let_def split: option.splits)
  have r1: "metadata_ok (mr_packs r) (insert (md_Pack m) (set (mr_packs r))) (insert (md_Pack m) (set (mr_packs r))) r1"
    using registerPack_ok [OF m(2) _ m(1)] assms(2) by (simp add: closed_registry_def)
  moreover have "mr_packs r1 = mr_packs r" using r1 by (simp add: metadata_ok_def)
  ultimately show ?thesis using metadata_ok_packs [OF r1, of "mr_packs r @ [md_Pack m]"] assms(2) m(1) by (simp add: m(3) closed_registry_def)
qed

lemma NewPackMetadataRegistry_ok:
  assumes "NewPackMetadataRegistry sources = Inr r"
  shows "closed_registry r"
proof -
  obtain r0 where r0: "fold_result register_source sources empty_metadata_registry = Inr r0"
      "r = r0\<lparr>mr_packs := sort_by comparePackMetadataRef (mr_packs r0)\<rparr>"
    using assms by (auto simp: NewPackMetadataRegistry_def)
  have "closed_registry empty_metadata_registry"
    by (simp add: closed_registry_def metadata_ok_def empty_metadata_registry_def)
  then have "closed_registry r0" using fold_result_invariant [OF r0(1), where I = closed_registry] register_source_ok by blast
  then show ?thesis using distinct_map_sort_by [of "\<lambda>x. x" comparePackMetadataRef "mr_packs r0"]
    by (auto simp: r0(2) closed_registry_def intro: metadata_ok_packs)
qed

end
