(* ===== verification/Registry_Laws.thy ===== *)
theory Registry_Laws
  imports Registry Admission
begin

text \<open>
  What a constructed registry and the hooks of an operation kernel hold: exactly the supplied
  validators, one for each pack.
\<close>

section \<open>The registry\<close>

lemma register_refs_errs: "\<exists>more. snd (register_refs kind refs owners errs) = errs @ more"
proof (induction kind refs owners errs rule: register_refs.induct)
  case (2 kind ref refs owners errs)
  show ?case
  proof (cases "map_of owners (definition_key kind ref)")
    case None
    with 2 show ?thesis by auto
  next
    case (Some owner)
    with 2 show ?thesis by (cases "DefinitionRef_Validate ref") (fastforce+)
  qed
qed simp

lemma register_index_errs: "set errs \<subseteq> set (snd (register_index i (owners, errs)))"
  unfolding register_index_def
proof (rule foldl_invariant [where I = "\<lambda>st. set errs \<subseteq> set (snd st)"])
  fix st :: "owner_map \<times> err list" and x :: "DefinitionKind \<times> DefinitionRef slice" assume "set errs \<subseteq> set (snd st)"
  moreover obtain kind refs o' e' where "x = (kind, refs)" "st = (o', e')" by (cases x; cases st) blast
  ultimately show "set errs \<subseteq> set (snd ((\<lambda>(owners, errs) (kind, refs). register_refs kind (elems refs) owners errs) st x))"
    using register_refs_errs [of kind "elems refs" o' e'] by auto
qed simp

definition frozen_entry :: "PackValidator option \<Rightarrow> PackRef \<times> frozenValidator" where
  "frozen_entry v = (pv_Pack (the v), \<lparr>fv_hook = the v, fv_index = pv_Definitions (the v)\<rparr>)"

lemma frozen_entry_simps [simp]:
  "fst (frozen_entry v) = pv_Pack (the v)" "frozen_entry (Some h) = (pv_Pack h, \<lparr>fv_hook = h, fv_index = pv_Definitions h\<rparr>)"
  by (simp_all add: frozen_entry_def)

lemma register_validators:
  assumes "foldl register_validator (\<lparr>rg_validators = [], rg_indexes = [], rg_owners = []\<rparr>, []) vs = (r, errs)" "\<forall>e \<in> set errs. e = None"
  shows "None \<notin> set vs \<and> rg_validators r = map frozen_entry vs \<and> distinct (map (\<lambda>v. pv_Pack (the v)) vs)"
  using assms
proof (induction vs arbitrary: r errs rule: rev_induct)
  case (snoc v vs)
  obtain r0 errs0 where st: "foldl register_validator (\<lparr>rg_validators = [], rg_indexes = [], rg_owners = []\<rparr>, []) vs = (r0, errs0)"
    by fastforce
  with snoc.prems have step: "register_validator (r0, errs0) v = (r, errs)" by simp
  then obtain h where v: "v = Some h" using snoc.prems(2) by (cases v) (auto simp: register_validator_def)
  have fresh: "map_of (rg_validators r0) (pv_Pack h) = None"
  proof (rule ccontr)
    assume "map_of (rg_validators r0) (pv_Pack h) \<noteq> None"
    with step snoc.prems(2) show False by (auto simp: register_validator_def v Let_def)
  qed
  then obtain more owners where new: "register_index (pv_Definitions h) (rg_owners r0, errs0 @ more) = (owners, errs)"
    "rg_validators r = AList.update (pv_Pack h) \<lparr>fv_hook = h, fv_index = pv_Definitions h\<rparr> (rg_validators r0)"
    using step by (auto simp: register_validator_def v Let_def split: prod.splits)
  have "set errs0 \<subseteq> set errs" using register_index_errs [of "errs0 @ more" "pv_Definitions h" "rg_owners r0"] new(1) by simp
  then have IH: "None \<notin> set vs \<and> rg_validators r0 = map frozen_entry vs \<and> distinct (map (\<lambda>v. pv_Pack (the v)) vs)"
    using snoc.IH [OF st] snoc.prems(2) by blast
  with fresh have "pv_Pack h \<notin> fst ` set (rg_validators r0)" by (simp add: map_of_eq_None_iff)
  then show ?case using IH new(2) by (auto simp: update_new v image_image)
qed simp

lemma NewRegistry_validators:
  assumes "NewRegistry vs = Inr r"
  shows "None \<notin> set vs" "rg_validators r = map frozen_entry vs" "distinct (map (\<lambda>v. pv_Pack (the v)) vs)"
proof -
  obtain r0 errs where st: "foldl register_validator (\<lparr>rg_validators = [], rg_indexes = [], rg_owners = []\<rparr>, []) vs = (r0, errs)" by fastforce
  with assms have "r0 = r" "bestError errs = None" by (auto simp: NewRegistry_def split: option.splits)
  then have "\<forall>e \<in> set errs. e = None" by (simp add: best.pick_None_iff)
  from register_validators [OF st this] \<open>r0 = r\<close>
  show "None \<notin> set vs" "rg_validators r = map frozen_entry vs" "distinct (map (\<lambda>v. pv_Pack (the v)) vs)" by blast+
qed

lemma NewRegistry_Validator:
  assumes "NewRegistry vs = Inr r" "Some h \<in> set vs"
  shows "Registry_Validator (Some r) (pv_Pack h) = Inr \<lparr>fv_hook = h, fv_index = pv_Definitions h\<rparr>"
proof -
  have "frozen_entry (Some h) \<in> set (rg_validators r)" using NewRegistry_validators(2) [OF assms(1)] assms(2) by (simp del: frozen_entry_simps)
  moreover have "distinct (map fst (rg_validators r))" using NewRegistry_validators(2, 3) [OF assms(1)] by (simp add: comp_def)
  ultimately have "map_of (rg_validators r) (pv_Pack h) = Some \<lparr>fv_hook = h, fv_index = pv_Definitions h\<rparr>"
    by simp
  then show ?thesis by (simp add: Registry_Validator_def)
qed

section \<open>Fresh definitions\<close>

text \<open>The owners an index adds to a registry that has none of its definitions.\<close>

definition index_owners :: "DefinitionIndex \<Rightarrow> owner_map" where
  "index_owners i = concat (map (\<lambda>(kind, refs). map (\<lambda>ref. (definition_key kind ref, df_Pack ref)) (elems refs)) (index_groups i))"

lemma register_refs_fresh:
  assumes "\<forall>ref \<in> set refs. DefinitionRef_Validate ref = None" "distinct (map (definition_key kind) refs)"
    and "definition_key kind ` set refs \<inter> fst ` set owners = {}"
  shows "register_refs kind refs owners errs = (owners @ map (\<lambda>ref. (definition_key kind ref, df_Pack ref)) refs, errs)"
  using assms
proof (induction refs arbitrary: owners)
  case (Cons ref refs)
  then have "map_of owners (definition_key kind ref) = None" "definition_key kind ref \<notin> fst ` set owners"
    by (auto simp: map_of_eq_None_iff)
  with Cons.prems Cons.IH [of "owners @ [(definition_key kind ref, df_Pack ref)]"] show ?case by (auto simp: update_new)
qed simp

lemma dup_order_loop_distinct:
  assumes "\<not> fst (dup_order_loop I compare seen previous duplicate ordered xs)" "list_all (key_valid I) xs"
  shows "\<not> duplicate \<and> distinct (map (key_of I) xs) \<and> key_of I ` set xs \<inter> set seen = {}"
  using assms by (induction I compare seen previous duplicate ordered xs rule: dup_order_loop.induct) auto

lemma group_distinct:
  assumes "\<forall>e \<in> set (group_errors pack class refs). e = None"
  shows "\<forall>ref \<in> set (elems refs). DefinitionRef_Validate ref = None" "distinct (map (definition_key kind) (elems refs))"
proof -
  have "\<not> duplicated DefinitionRef_identity compareDefinition refs" and valid: "\<forall>ref \<in> set (elems refs). DefinitionRef_Validate ref = None"
    using assms by (auto simp: group_errors_def ball_Un)
  then have "distinct (map (key_of DefinitionRef_identity) (elems refs))"
    using dup_order_loop_distinct [of DefinitionRef_identity compareDefinition "[]" None False True "elems refs"]
    by (auto simp: duplicateAndOrder_def list_all_iff DefinitionRef_identity_def DefinitionRef_Validate_def
        DefinitionID_Validate_def SemanticVersion_Validate_def)
  then show "distinct (map (definition_key kind) (elems refs))"
    by (auto simp: distinct_map inj_on_def DefinitionRef_identity_def definition_key_def)
  show "\<forall>ref \<in> set (elems refs). DefinitionRef_Validate ref = None" by (rule valid)
qed

lemma register_index_fresh:
  assumes "bestError (DefinitionIndex_validationErrors class i) = None" "fst ` set (index_owners i) \<inter> fst ` set owners = {}"
  shows "register_index i (owners, errs) = (owners @ index_owners i, errs)"
proof -
  have ok: "\<forall>ref \<in> set (elems refs). DefinitionRef_Validate ref = None" "distinct (map (definition_key kind) (elems refs))"
    if "(k, refs) \<in> set (index_groups i)" for k refs kind
  proof -
    have "\<forall>e \<in> set (group_errors (dx_Pack i) class refs). e = None"
      using assms(1) that by (auto simp: DefinitionIndex_validationErrors_def index_groups_def best.pick_None_iff)
    from group_distinct [OF this] show "\<forall>ref \<in> set (elems refs). DefinitionRef_Validate ref = None" "distinct (map (definition_key kind) (elems refs))" .
  qed
  have "foldl (\<lambda>(owners, errs) (kind, refs). register_refs kind (elems refs) owners errs) (owners, errs) gs =
      (owners @ concat (map (\<lambda>(kind, refs). map (\<lambda>ref. (definition_key kind ref, df_Pack ref)) (elems refs)) gs), errs)"
    if "set gs \<subseteq> set (index_groups i)" "distinct (map fst gs)"
      "\<forall>(kind, refs) \<in> set gs. definition_key kind ` set (elems refs) \<inter> fst ` set owners = {}" for gs owners
    using that
  proof (induction gs arbitrary: owners)
    case (Cons g gs)
    obtain kind refs where g: "g = (kind, refs)" by (cases g)
    have "register_refs kind (elems refs) owners errs = (owners @ map (\<lambda>ref. (definition_key kind ref, df_Pack ref)) (elems refs), errs)"
      using Cons.prems ok [of kind refs] by (intro register_refs_fresh) (auto simp: g)
    moreover have "\<forall>(kind', refs') \<in> set gs. definition_key kind' ` set (elems refs') \<inter>
        fst ` set (owners @ map (\<lambda>ref. (definition_key kind ref, df_Pack ref)) (elems refs)) = {}"
    proof (clarify)
      fix kind' refs' assume mem: "(kind', refs') \<in> set gs"
      then have "kind' \<noteq> kind" using Cons.prems(2) by (force simp: g)
      moreover have "definition_key kind' ` set (elems refs') \<inter> fst ` set owners = {}"
        using bspec [OF Cons.prems(3), of "(kind', refs')"] mem by simp
      ultimately show "definition_key kind' ` set (elems refs') \<inter>
          fst ` set (owners @ map (\<lambda>ref. (definition_key kind ref, df_Pack ref)) (elems refs)) = {}"
        by (auto simp: definition_key_def)
    qed
    ultimately show ?case using Cons by (simp add: g)
  qed simp
  moreover have "distinct (map fst (index_groups i))" by (simp add: index_groups_def)
  moreover have "\<forall>(kind, refs) \<in> set (index_groups i). definition_key kind ` set (elems refs) \<inter> fst ` set owners = {}"
    using assms(2) unfolding index_owners_def by force
  ultimately show ?thesis by (simp add: register_index_def index_owners_def)
qed

section \<open>Operation hooks\<close>

lemma install_hooks_frame:
  assumes "install_hooks vs hooks = Inr all" "p \<notin> (\<lambda>x. pv_Pack (fst (the x))) ` set vs"
  shows "map_of all p = map_of hooks p"
  using assms
proof (induction vs hooks rule: install_hooks.induct)
  case (3 v h vs hooks)
  then show ?case by (auto simp: update_conv' split: if_splits option.splits)
qed auto

lemma install_hooks_lookup:
  assumes "install_hooks vs hooks = Inr all" "Some (v, Some h) \<in> set vs" "elems (dx_Operations (pv_Definitions v)) \<noteq> []"
    and "distinct (map (\<lambda>x. pv_Pack (fst (the x))) vs)" "None \<notin> set vs"
  shows "map_of all (pv_Pack v) = Some h"
  using assms
proof (induction vs hooks rule: install_hooks.induct)
  case (3 v' h' vs hooks)
  show ?case
  proof (cases "Some (v, Some h) = Some (v', h')")
    case True
    then have "pv_Pack v \<notin> (\<lambda>x. pv_Pack (fst (the x))) ` set vs" using 3(6) by simp
    from install_hooks_frame [OF _ this, of "AList.update (pv_Pack v) h hooks" all] 3(3, 5) True show ?thesis by (auto simp: update_conv')
  next
    case False
    with 3 show ?thesis by (auto split: if_splits option.splits)
  qed
qed auto

text \<open>A kernel keeps the registry and the hooks it was made with.\<close>

lemma NewKernel_pack:
  assumes "NewKernelWithOptions n vs = Inr k" "Some (v, Some h) \<in> set vs" "elems (dx_Operations (pv_Definitions v)) \<noteq> []"
  shows "Registry_Validator (ok_registry k) (pv_Pack v) = Inr \<lparr>fv_hook = v, fv_index = pv_Definitions v\<rparr>"
    and "map_of (ok_validators k) (pv_Pack v) = Some h"
proof -
  obtain r hooks where k: "NewRegistry (map (map_option fst) vs) = Inr r" "install_hooks vs [] = Inr hooks"
      "ok_registry k = Some r" "ok_validators k = hooks"
    using assms(1) by (auto simp: NewKernelWithOptions_def split: if_splits sum.splits)
  have "Some v \<in> set (map (map_option fst) vs)" using assms(2) by force
  from NewRegistry_Validator [OF k(1) this] k(3)
  show "Registry_Validator (ok_registry k) (pv_Pack v) = Inr \<lparr>fv_hook = v, fv_index = pv_Definitions v\<rparr>" by simp
  note reg = NewRegistry_validators [OF k(1)]
  have none: "None \<notin> set vs" using reg(1) by force
  have "distinct (map (\<lambda>v. pv_Pack (the v)) (map (map_option fst) vs))" by (rule reg(3))
  also have "map (\<lambda>v. pv_Pack (the v)) (map (map_option fst) vs) = map (\<lambda>x. pv_Pack (fst (the x))) vs"
    using none by (simp add: comp_def) (metis option.map_sel)
  finally show "map_of (ok_validators k) (pv_Pack v) = Some h"
    unfolding k(4) by (rule install_hooks_lookup [OF k(2) assms(2, 3) _ none])
qed

end
