(* ===== verification/Pack_Laws.thy ===== *)
theory Pack_Laws
  imports Packs
begin

text \<open>
  Laws of the pack validators. Decimals that pass validation are canonical, so the exact comparison of
  values is equality of records; the validators accept exactly the facts their tables describe; and
  the hooks of an operation pack agree with each other.
\<close>

section \<open>Decimals\<close>

lemma coefficientRE_iff:
  "re_match coefficientRE v \<longleftrightarrow>
     v = ''0'' \<or> (\<exists>d ds. (v = d # ds \<or> v = CHR ''-'' # d # ds) \<and> nonzero_digit d \<and> list_all digit ds)"
proof -
  let ?R = "Seq (Class nonzero_digit) (Star (Class digit))"
  have digits: "in_lang ?R w \<longleftrightarrow> (\<exists>d ds. w = d # ds \<and> nonzero_digit d \<and> list_all digit ds)" for w
    by (auto simp: in_lang_simps in_lang_star_class list_all_iff) (metis append_Cons append_Nil)
  have sign: "in_lang (Seq (Alt Empty (Class (one_of ''-''))) R) v \<longleftrightarrow> in_lang R v \<or> (\<exists>w. v = CHR ''-'' # w \<and> in_lang R w)" for R
    by (auto simp: in_lang_simps one_of_def) (metis append_Cons append_Nil)
  have zero: "in_lang (Alt (Class (one_of ''0'')) R) v \<longleftrightarrow> v = ''0'' \<or> in_lang R v" for R
    by (auto simp: in_lang_simps one_of_def)
  have logic: "(z \<or> (\<exists>d ds. v = f d ds \<and> P d ds) \<or> (\<exists>w. v = g w \<and> (\<exists>d ds. w = f d ds \<and> P d ds))) \<longleftrightarrow>
      z \<or> (\<exists>d ds. (v = f d ds \<or> v = g (f d ds)) \<and> P d ds)" for z f and g :: "string \<Rightarrow> string" and P :: "char \<Rightarrow> string \<Rightarrow> bool" by blast
  show ?thesis unfolding re_match_iff coefficientRE_def zero sign digits by (rule logic)
qed

lemma last_digit:
  assumes "list_all digit (ds @ [x])"
  shows "x = CHR ''0'' \<longleftrightarrow> 10 dvd digits_val (ds @ [x])"
proof -
  have "0 \<le> digit_val x" "digit_val x \<le> 9" using assms by (auto simp: digit_val_def digit_def)
  then have "10 dvd digits_val (ds @ [x]) \<longleftrightarrow> digit_val x = 0" by (simp add: digits_val_snoc) presburger
  moreover have "byte x = byte (CHR ''0'') \<longleftrightarrow> x = CHR ''0''" by (rule of_char_eq_iff)
  then have "x = CHR ''0'' \<longleftrightarrow> byte x = 48" by simp
  ultimately show ?thesis by (auto simp: digit_val_def)
qed

lemma coefficient_value:
  assumes "re_match coefficientRE c"
  obtains n where "SetString10 c = Some n" "int_string n = c" "n = 0 \<longleftrightarrow> c = ''0''" "last c = CHR ''0'' \<longleftrightarrow> 10 dvd n"
proof (cases "c = ''0''")
  case True
  have "SetString10 ''0'' = Some 0" "int_string 0 = ''0''"
    by (simp_all add: SetString10_def digit_def digits_val_def digit_val_def int_string_def nat_string.simps digit_char_0)
  with True that [of 0] show thesis by simp
next
  case False
  with assms obtain d ds where c: "c = d # ds \<or> c = CHR ''-'' # d # ds" "nonzero_digit d" "list_all digit ds"
    by (auto simp: coefficientRE_iff)
  let ?n = "digits_val (d # ds)"
  have dig: "list_all digit (d # ds)" using c by (simp add: nonzero_digit_iff)
  have pos: "0 < ?n" by (rule less_le_trans [OF _ digits_val_lower [OF dig c(2)]]) simp
  have str: "nat_string (nat ?n) = d # ds" by (rule canonical_digits [OF dig c(2)])
  have lst: "last (d # ds) = CHR ''0'' \<longleftrightarrow> 10 dvd ?n"
    by (metis last_digit dig append_butlast_last_id list.distinct(1))
  have nz: "d \<noteq> CHR ''0''" using c(2) by (simp add: nonzero_digit_iff)
  from c(1) show thesis
  proof
    assume "c = d # ds"
    with that [of ?n] show thesis using SetString10_digits [OF dig] pos str lst nz by (simp add: int_string_def)
  next
    assume c: "c = CHR ''-'' # d # ds"
    have "SetString10 c = Some (- ?n)" using dig by (simp add: c SetString10_def)
    with that [of "- ?n"] show thesis using pos str lst by (simp add: c int_string_def)
  qed
qed

lemma decimalRat_powi:
  "SetString10 (dc_Coefficient v) = Some n \<Longrightarrow> decimalRat v = of_int n * 10 powi dc_Exponent10 v"
  by (auto simp: decimalRat_def power_int_def Let_def field_simps)

lemma canonical_products:
  assumes "of_int n * 10 powi e = (of_int m * 10 powi f :: rat)" "n \<noteq> 0" "\<not> 10 dvd n" "e \<le> f"
  shows "n = m \<and> e = f"
proof -
  define k where "k = nat (f - e)"
  have "(10 :: rat) powi f = 10 powi e * 10 ^ k" using assms(4) by (simp add: k_def flip: power_int_add power_int_of_nat)
  then have "of_int n = (of_int m * 10 ^ k :: rat)" using assms(1) by simp
  then have "(of_int n :: rat) = of_int (m * 10 ^ k)" by simp
  then have n: "n = m * 10 ^ k" by (simp only: of_int_eq_iff)
  have "k = 0"
  proof (rule ccontr)
    assume "k \<noteq> 0"
    then have "10 dvd n" unfolding n by (cases k) simp_all
    with assms(3) show False by simp
  qed
  with n assms(4) show ?thesis by (simp add: k_def)
qed

lemma decimal_canonical:
  assumes "Decimal_Validate a = None" "Decimal_Validate b = None"
  shows "decimalRat a = decimalRat b \<longleftrightarrow> a = b"
proof
  assume eq: "decimalRat a = decimalRat b"
  have ok: "re_match coefficientRE (dc_Coefficient v)" "dc_Coefficient v = ''0'' \<Longrightarrow> dc_Exponent10 v = 0"
    "dc_Coefficient v \<noteq> ''0'' \<Longrightarrow> last (dc_Coefficient v) \<noteq> CHR ''0''" if "Decimal_Validate v = None" for v
    using that by (auto simp: Decimal_Validate_def check_err_def coefficientRE_iff split: if_splits)
  obtain n where n: "SetString10 (dc_Coefficient a) = Some n" "int_string n = dc_Coefficient a" "n = 0 \<longleftrightarrow> dc_Coefficient a = ''0''"
      "last (dc_Coefficient a) = CHR ''0'' \<longleftrightarrow> 10 dvd n" by (rule coefficient_value [OF ok(1) [OF assms(1)]])
  obtain m where m: "SetString10 (dc_Coefficient b) = Some m" "int_string m = dc_Coefficient b" "m = 0 \<longleftrightarrow> dc_Coefficient b = ''0''"
      "last (dc_Coefficient b) = CHR ''0'' \<longleftrightarrow> 10 dvd m" by (rule coefficient_value [OF ok(1) [OF assms(2)]])
  have prod: "of_int n * 10 powi dc_Exponent10 a = (of_int m * 10 powi dc_Exponent10 b :: rat)"
    using eq by (simp add: decimalRat_powi [OF n(1)] decimalRat_powi [OF m(1)])
  have "n = m \<and> dc_Exponent10 a = dc_Exponent10 b"
  proof (cases "n = 0")
    case True
    with prod have "m = 0" by simp
    with True show ?thesis using ok(2) [OF assms(1)] ok(2) [OF assms(2)] n(3) m(3) by simp
  next
    case False
    then have "m \<noteq> 0" using prod by auto
    then have "\<not> 10 dvd n" "\<not> 10 dvd m" using False ok(3) [OF assms(1)] ok(3) [OF assms(2)] n m by auto
    note div = this
    show ?thesis
    proof (cases "dc_Exponent10 a \<le> dc_Exponent10 b")
      case True
      then show ?thesis by (rule canonical_products [OF prod False div(1)])
    next
      case False
      then have "dc_Exponent10 b \<le> dc_Exponent10 a" by simp
      then show ?thesis using canonical_products [OF prod [symmetric] \<open>m \<noteq> 0\<close> div(2)] by simp
    qed
  qed
  then have "dc_Coefficient a = dc_Coefficient b" "dc_Exponent10 a = dc_Exponent10 b" using n(2) m(2) by auto
  then show "a = b" by (cases a; cases b) simp
qed simp

lemma quantity_payload:
  assumes "Value_Validate E v = None" "vl_Quantity v = Some q"
  shows "Decimal_Validate (qt_Number q) = None" "vl_Boolean v = None" "vl_Text v = None" "vl_Symbol v = None" "vl_Symbols v = None" "vl_Time v = None"
proof -
  have ok: "Quantity_Validate q = None" "payload_count v = 1"
    using assms by (auto simp: Value_Validate_def best.pick_None_iff check_err_def split: if_splits)
  show "Decimal_Validate (qt_Number q) = None" using ok(1) by (simp add: Quantity_Validate_def best.pick_None_iff)
  show "vl_Boolean v = None" "vl_Text v = None" "vl_Symbol v = None" "vl_Symbols v = None" "vl_Time v = None"
    using ok(2) assms(2) by (auto simp: payload_count_def of_bool_def split: if_splits)
qed

text \<open>For valid values the exact comparison of the packs is equality.\<close>

lemma equalValue_valid:
  assumes "Value_Validate E a = None" "Value_Validate E b = None"
  shows "equalValue a b \<longleftrightarrow> a = b"
proof (cases "\<exists>p q. vl_Quantity a = Some p \<and> vl_Quantity b = Some q \<and> vl_Kind a = ValueQuantity \<and> vl_Kind b = ValueQuantity")
  case True
  then obtain p q where pq: "vl_Quantity a = Some p" "vl_Quantity b = Some q" "vl_Kind a = ValueQuantity" "vl_Kind b = ValueQuantity" by blast
  have "compareDecimal (qt_Number p) (qt_Number q) = 0 \<longleftrightarrow> qt_Number p = qt_Number q"
    using decimal_canonical [OF quantity_payload(1) [OF assms(1) pq(1)] quantity_payload(1) [OF assms(2) pq(2)]]
    by (simp add: compareDecimal_def)
  then have "equalValue a b \<longleftrightarrow> p = q" using pq by (auto simp: equalValue_def)
  also have "\<dots> \<longleftrightarrow> a = b"
    using quantity_payload(2-6) [OF assms(1) pq(1)] quantity_payload(2-6) [OF assms(2) pq(2)] pq by (cases a; cases b) auto
  finally show ?thesis .
next
  case False
  then show ?thesis by (auto simp: equalValue_def split: option.splits)
qed

section \<open>Facts\<close>

text \<open>What a row of a field table admits: a quantity in the canonical unit between the bounds, compared as
  rational numbers, or one of the known symbols of the field.\<close>

definition field_admits :: "fieldSpec \<Rightarrow> Value \<Rightarrow> bool" where
  "field_admits s v \<longleftrightarrow>
     fs_kind s = ValueQuantity \<and> vl_Kind v = ValueQuantity \<and> (\<exists>q. vl_Quantity v = Some q \<and> qt_Unit q = fs_unit s \<and>
       (\<forall>b. fs_minimum s = Some b \<longrightarrow> decimalRat (decimal b) \<le> decimalRat (qt_Number q)) \<and>
       (\<forall>b. fs_maximum s = Some b \<longrightarrow> decimalRat (qt_Number q) \<le> decimalRat (decimal b))) \<or>
     fs_kind s = ValueSymbol \<and> vl_Kind v = ValueSymbol \<and> (\<exists>y. vl_Symbol v = Some y \<and> sy_Known y \<and> sy_Namespace y = fs_id s \<and>
       fs_id s @ ''.'' @ sy_Token y \<in> set (fs_symbols s))"

lemma compareDecimal_sign:
  "compareDecimal a b < 0 \<longleftrightarrow> decimalRat a < decimalRat b" "compareDecimal a b > 0 \<longleftrightarrow> decimalRat b < decimalRat a"
  "compareDecimal a b \<le> 0 \<longleftrightarrow> decimalRat a \<le> decimalRat b" "compareDecimal a b \<ge> 0 \<longleftrightarrow> decimalRat b \<le> decimalRat a"
  "compareDecimal a b = 0 \<longleftrightarrow> decimalRat a = decimalRat b"
  by (auto simp: compareDecimal_def)

lemma valueOK_iff: "valueOK t s v = None \<longleftrightarrow> field_admits s v"
proof (cases "fs_kind s")
  case ValueQuantity
  then show ?thesis
    by (auto simp: valueOK_def field_admits_def check_err_def below_minimum_def above_maximum_def compareDecimal_sign not_less
        split: option.splits)
next
  case ValueSymbol
  then show ?thesis by (auto simp: valueOK_def field_admits_def check_err_def split: option.splits)
qed (auto simp: valueOK_def field_admits_def)

definition text_dimension :: "Dimension slice \<Rightarrow> DefinitionID \<Rightarrow> bool" where
  "text_dimension ds want \<longleftrightarrow> (\<exists>d txt. elems ds = [d] \<and> dm_ID d = want \<and> vl_Kind (dm_Value d) = ValueText \<and> vl_Text (dm_Value d) = Some txt)"

lemma dimensionsOK_iff: "dimensionsOK name ds want = None \<longleftrightarrow> text_dimension ds want"
  by (auto simp: dimensionsOK_def text_dimension_def check_err_def split: list.splits)

text \<open>A table whose rows have distinct identifiers and whose dimension check asks for one text dimension.\<close>

definition regular :: "pack_tables \<Rightarrow> bool" where
  "regular t \<longleftrightarrow> distinct (map fs_id (pt_fields t)) \<and>
     (\<forall>s \<in> set (pt_fields t). \<forall>ds. pt_dimensions_ok t ds (fs_dimension s) = None \<longleftrightarrow> text_dimension ds (fs_dimension s))"

lemma findField_iff:
  assumes "distinct (map fs_id fs)"
  shows "findField fs i = Some s \<longleftrightarrow> s \<in> set fs \<and> fs_id s = i"
  using assms by (induction fs) (auto simp: findField_def)

lemma pack_ValidateFact_iff:
  assumes "regular t"
  shows "pack_ValidateFact E t k given = None \<longleftrightarrow> FactKey_Validate E k = None \<and> key_pack k = pt_pack t \<and>
    (\<exists>v s. given = Some v \<and> Value_Validate E v = None \<and> s \<in> set (pt_fields t) \<and> fs_id s = fk_FactID k \<and>
      text_dimension (fk_Dimensions k) (fs_dimension s) \<and> field_admits s v)"
proof -
  have dist: "distinct (map fs_id (pt_fields t))" using assms by (simp add: regular_def)
  have dims: "pt_dimensions_ok t ds (fs_dimension s) = None \<longleftrightarrow> text_dimension ds (fs_dimension s)" if "s \<in> set (pt_fields t)" for s ds
    using assms that by (simp add: regular_def)
  have pack: "key_pack k = pt_pack t \<longleftrightarrow> fk_PackID k = pk_ID (pt_pack t) \<and> fk_PackVersion k = pk_Version (pt_pack t)"
    by (cases "pt_pack t") (simp add: key_pack_def)
  show ?thesis
  proof (cases "findField (pt_fields t) (fk_FactID k)")
    case None
    then have "\<forall>s \<in> set (pt_fields t). fs_id s \<noteq> fk_FactID k" 
      using findField_iff [OF dist, of "fk_FactID k"] by (metis option.distinct(1))
    with None show ?thesis by (auto simp: pack_ValidateFact_def)
  next
    case (Some s)
    then have s: "s \<in> set (pt_fields t)" using findField_iff [OF dist] by blast
    have only: "s' \<in> set (pt_fields t) \<and> fs_id s' = fk_FactID k \<longleftrightarrow> s' = s" for s'
      using Some findField_iff [OF dist, of "fk_FactID k" s'] by (metis option.inject)
    have "pack_ValidateFact E t k given = None \<longleftrightarrow> FactKey_Validate E k = None \<and> key_pack k = pt_pack t \<and>
        (\<exists>v. given = Some v \<and> Value_Validate E v = None \<and> text_dimension (fk_Dimensions k) (fs_dimension s) \<and> field_admits s v)"
      by (cases given) (simp_all add: pack_ValidateFact_def Some dims [OF s] valueOK_iff pack check_err_def opt_err_def conj_commute conj_left_commute)
    also have "\<dots> \<longleftrightarrow> FactKey_Validate E k = None \<and> key_pack k = pt_pack t \<and>
        (\<exists>v s'. given = Some v \<and> Value_Validate E v = None \<and> (s' \<in> set (pt_fields t) \<and> fs_id s' = fk_FactID k) \<and>
          text_dimension (fk_Dimensions k) (fs_dimension s') \<and> field_admits s' v)" by (simp only: only) simp
    finally show ?thesis by (simp only: conj_assoc)
  qed
qed

section \<open>The contract of an operation pack\<close>

locale operation_pack =
  fixes E :: env
    and ValidateFact :: "FactKey \<Rightarrow> Value option \<Rightarrow> err"
    and EvaluatePredicate :: "FactCandidate \<Rightarrow> PredicateOp \<Rightarrow> Value \<Rightarrow> error + bool"
    and ValidateIntent :: "Intent \<Rightarrow> err"
    and EvaluateReadback :: "Intent \<Rightarrow> FactCandidate \<Rightarrow> error + ReadbackRelation"
  assumes fact_valid: "ValidateFact k given = None \<Longrightarrow> \<exists>x. given = Some x \<and> Value_Validate E x = None"
    and intent_effect: "ValidateIntent i = None \<Longrightarrow> ee_Operator (in_ExpectedEffect i) = PredicateEqual \<and>
      ValidateFact (ee_Fact (in_ExpectedEffect i)) (Some (ee_Expected (in_ExpectedEffect i))) = None"
    and predicate_equal: "EvaluatePredicate c PredicateEqual v =
      (case first_error [FactCandidate_Validate E c, Value_Validate E v, ValidateFact (fc_Key c) (fc_Value c), ValidateFact (fc_Key c) (Some v)] of
         Some err \<Rightarrow> Inl err | None \<Rightarrow> Inr (equalValue (the (fc_Value c)) v))"
    and readback_ok: "ValidateIntent i = None \<Longrightarrow> fc_Key c = ee_Fact (in_ExpectedEffect i) \<Longrightarrow> fc_Value c = Some v \<Longrightarrow>
      ValidateFact (fc_Key c) (Some v) = None \<Longrightarrow>
      EvaluateReadback i c = Inr (if equalValue v (ee_Expected (in_ExpectedEffect i)) then ReadbackConfirms else ReadbackContradicts)"
    and readback_inconclusive: "ValidateIntent i = None \<Longrightarrow>
      fc_Key c \<noteq> ee_Fact (in_ExpectedEffect i) \<or> ValidateFact (fc_Key c) (fc_Value c) \<noteq> None \<Longrightarrow> EvaluateReadback i c = Inr ReadbackInconclusive"
    and readback_error: "ValidateIntent i = Some e \<Longrightarrow> EvaluateReadback i c = Inl e"
begin

lemma readback_conclusive:
  assumes "EvaluateReadback i c = Inr relation" "relation \<noteq> ReadbackInconclusive"
  shows "ValidateIntent i = None \<and> fc_Key c = ee_Fact (in_ExpectedEffect i) \<and> ValidateFact (fc_Key c) (fc_Value c) = None"
proof -
  have ok: "ValidateIntent i = None" using assms(1) readback_error by (cases "ValidateIntent i") auto
  with readback_inconclusive [OF ok, of c] assms show ?thesis by (metis sum.inject(2))
qed

lemma readback_value:
  assumes "ValidateIntent i = None" "fc_Key c = ee_Fact (in_ExpectedEffect i)" "ValidateFact (fc_Key c) (fc_Value c) = None"
  shows "EvaluateReadback i c = Inr (if fc_Value c = Some (ee_Expected (in_ExpectedEffect i)) then ReadbackConfirms else ReadbackContradicts)"
proof -
  obtain v where v: "fc_Value c = Some v" "Value_Validate E v = None" using fact_valid [OF assms(3)] by blast
  have "Value_Validate E (ee_Expected (in_ExpectedEffect i)) = None" using intent_effect [OF assms(1)] fact_valid by blast
  from equalValue_valid [OF v(2) this] show ?thesis using readback_ok [OF assms(1, 2) v(1)] assms(3) v(1) by simp
qed

lemma readback_confirms_iff:
  "EvaluateReadback i c = Inr ReadbackConfirms \<longleftrightarrow>
     ValidateIntent i = None \<and> fc_Key c = ee_Fact (in_ExpectedEffect i) \<and> fc_Value c = Some (ee_Expected (in_ExpectedEffect i))"
proof
  assume confirms: "EvaluateReadback i c = Inr ReadbackConfirms"
  then have ok: "ValidateIntent i = None" "fc_Key c = ee_Fact (in_ExpectedEffect i)" "ValidateFact (fc_Key c) (fc_Value c) = None"
    using readback_conclusive [OF confirms] by blast+
  with readback_value [OF ok] confirms
  show "ValidateIntent i = None \<and> fc_Key c = ee_Fact (in_ExpectedEffect i) \<and> fc_Value c = Some (ee_Expected (in_ExpectedEffect i))"
    by (auto split: if_splits)
next
  assume "ValidateIntent i = None \<and> fc_Key c = ee_Fact (in_ExpectedEffect i) \<and> fc_Value c = Some (ee_Expected (in_ExpectedEffect i))"
  then show "EvaluateReadback i c = Inr ReadbackConfirms" using readback_value [of i c] intent_effect by simp
qed

lemma readback_contradicts_iff:
  "EvaluateReadback i c = Inr ReadbackContradicts \<longleftrightarrow>
     ValidateIntent i = None \<and> fc_Key c = ee_Fact (in_ExpectedEffect i) \<and> ValidateFact (fc_Key c) (fc_Value c) = None \<and>
     fc_Value c \<noteq> Some (ee_Expected (in_ExpectedEffect i))"
proof
  assume against: "EvaluateReadback i c = Inr ReadbackContradicts"
  then have ok: "ValidateIntent i = None" "fc_Key c = ee_Fact (in_ExpectedEffect i)" "ValidateFact (fc_Key c) (fc_Value c) = None"
    using readback_conclusive [OF against] by blast+
  with readback_value [OF ok] against
  show "ValidateIntent i = None \<and> fc_Key c = ee_Fact (in_ExpectedEffect i) \<and> ValidateFact (fc_Key c) (fc_Value c) = None \<and>
      fc_Value c \<noteq> Some (ee_Expected (in_ExpectedEffect i))" by (auto split: if_splits)
next
  assume "ValidateIntent i = None \<and> fc_Key c = ee_Fact (in_ExpectedEffect i) \<and> ValidateFact (fc_Key c) (fc_Value c) = None \<and>
      fc_Value c \<noteq> Some (ee_Expected (in_ExpectedEffect i))"
  then show "EvaluateReadback i c = Inr ReadbackContradicts" using readback_value [of i c] by metis
qed

text \<open>The predicate that the intent states of its effect is what the readback decides.\<close>

lemma readback_predicate:
  assumes "FactCandidate_Validate E c = None" "EvaluateReadback i c = Inr relation" "relation \<noteq> ReadbackInconclusive"
  shows "EvaluatePredicate c (ee_Operator (in_ExpectedEffect i)) (ee_Expected (in_ExpectedEffect i)) = Inr (relation = ReadbackConfirms)"
proof -
  let ?e = "ee_Expected (in_ExpectedEffect i)"
  have ok: "ValidateIntent i = None" and key: "fc_Key c = ee_Fact (in_ExpectedEffect i)" "ValidateFact (fc_Key c) (fc_Value c) = None"
    using readback_conclusive [OF assms(2, 3)] by blast+
  note effect = intent_effect [OF ok]
  obtain v where v: "fc_Value c = Some v" "Value_Validate E v = None" using fact_valid [OF key(2)] by blast
  have e: "Value_Validate E ?e = None" using effect fact_valid by blast
  have "relation = ReadbackConfirms \<longleftrightarrow> v = ?e" using readback_value [OF ok key] assms(2) v(1) by (auto split: if_splits)
  then show ?thesis using effect key v e assms(1) equalValue_valid [OF v(2) e] by (simp add: predicate_equal)
qed

end

lemma Intent_effect_valid:
  "Intent_Validate E i = None \<Longrightarrow> FactKey_Validate E (ee_Fact (in_ExpectedEffect i)) = None \<and> Value_Validate E (ee_Expected (in_ExpectedEffect i)) = None"
  by (simp add: Intent_Validate_def intent_header_errors_def ExpectedEffect_Validate_def ball_Un)

lemma intent_shape_effect:
  assumes "Intent_Validate E i = None" "intent_shape_errors E t spec i = None"
  shows "ee_Operator (in_ExpectedEffect i) = PredicateEqual \<and>
    pack_ValidateFact E t (ee_Fact (in_ExpectedEffect i)) (Some (ee_Expected (in_ExpectedEffect i))) = None"
proof -
  obtain a where a: "elems (in_Arguments i) = [a]"
    using assms(2) by (auto simp: intent_shape_errors_def Let_def split: list.splits)
  then obtain s where "findField (pt_fields t) (op_argument spec) = Some s"
    using assms(2) by (auto simp: intent_shape_errors_def Let_def split: option.splits if_splits)
  with a assms(2) Intent_effect_valid [OF assms(1)] show ?thesis
    by (auto simp: intent_shape_errors_def pack_ValidateFact_def Let_def check_err_def split: if_splits)
qed

text \<open>What the four operation packs share: the intent check of the table, with more checks or other errors.\<close>

lemma table_operation_pack:
  assumes "\<And>i. validate i = None \<Longrightarrow> Intent_Validate E i = None \<and> (\<exists>spec. intent_shape_errors E t spec i = None)"
  shows "operation_pack E (pack_ValidateFact E t) (pack_EvaluatePredicate E t) validate (readback_relation E t validate)"
proof
  fix k given assume "pack_ValidateFact E t k given = None"
  then show "\<exists>x. given = Some x \<and> Value_Validate E x = None" by (cases given) (simp_all add: pack_ValidateFact_def check_err_def)
next
  fix i assume "validate i = None"
  from assms [OF this] show "ee_Operator (in_ExpectedEffect i) = PredicateEqual \<and>
      pack_ValidateFact E t (ee_Fact (in_ExpectedEffect i)) (Some (ee_Expected (in_ExpectedEffect i))) = None"
    using intent_shape_effect by blast
next
  fix i v and c :: FactCandidate assume "validate i = None" "fc_Key c = ee_Fact (in_ExpectedEffect i)" "fc_Value c = Some v" "pack_ValidateFact E t (fc_Key c) (Some v) = None"
  then show "readback_relation E t validate i c = Inr (if equalValue v (ee_Expected (in_ExpectedEffect i)) then ReadbackConfirms else ReadbackContradicts)"
    by (simp add: readback_relation_def)
next
  fix i and c :: FactCandidate assume "validate i = None" "fc_Key c \<noteq> ee_Fact (in_ExpectedEffect i) \<or> pack_ValidateFact E t (fc_Key c) (fc_Value c) \<noteq> None"
  then show "readback_relation E t validate i c = Inr ReadbackInconclusive" by (cases "fc_Value c") (auto simp: readback_relation_def)
qed (simp_all add: pack_EvaluatePredicate_def readback_relation_def Let_def cong: option.case_cong split: option.split)

lemma pack_ValidateIntent_shape:
  "pack_ValidateIntent E t i = None \<Longrightarrow> Intent_Validate E i = None \<and> (\<exists>spec. intent_shape_errors E t spec i = None)"
  by (auto simp: pack_ValidateIntent_def split: option.splits if_splits)

interpretation evse: operation_pack E "evse_ValidateFact E" "evse_EvaluatePredicate E" "evse_ValidateIntent E" "evse_EvaluateReadback E" for E
  unfolding evse_ValidateFact_def evse_EvaluatePredicate_def evse_ValidateIntent_def evse_EvaluateReadback_def
  by (rule table_operation_pack) (rule pack_ValidateIntent_shape)

interpretation photovoltaic: operation_pack E "photovoltaic_ValidateFact E" "photovoltaic_EvaluatePredicate E" "photovoltaic_ValidateIntent E"
    "photovoltaic_EvaluateReadback E" for E
  unfolding photovoltaic_ValidateFact_def photovoltaic_EvaluatePredicate_def photovoltaic_ValidateIntent_def photovoltaic_EvaluateReadback_def
  by (rule table_operation_pack) (rule pack_ValidateIntent_shape)

interpretation storage: operation_pack E "storage_ValidateFact E" "storage_EvaluatePredicate E" "storage_ValidateIntent E" "storage_EvaluateReadback E" for E
  unfolding storage_ValidateFact_def storage_EvaluatePredicate_def storage_EvaluateReadback_def
  by (rule table_operation_pack) (rule pack_ValidateIntent_shape, simp add: storage_ValidateIntent_def)

interpretation thermal: operation_pack E "thermal_ValidateFact E" "thermal_EvaluatePredicate E" "thermal_ValidateIntent E" "thermal_EvaluateReadback E" for E
  unfolding thermal_ValidateFact_def thermal_EvaluatePredicate_def thermal_EvaluateReadback_def
  by (rule table_operation_pack) (auto simp: thermal_ValidateIntent_def split: option.splits)

section \<open>The interlock of the storage pack\<close>

lemma clearValue_valid: "equalValue v clearValue \<longleftrightarrow> v = clearValue"
  by (auto simp: equalValue_def clearValue_def split: option.splits)

lemma interlock_errors_None:
  assumes "interlock_errors effect ps n = None"
  shows "\<forall>p \<in> set ps. fk_FactID (pn_Fact p) = ''storage.status.interlock'' \<longrightarrow> canonicalInterlock p effect"
    and "length (filter (\<lambda>p. fk_FactID (pn_Fact p) = ''storage.status.interlock'') ps) + n = 1"
  using assms by (induction effect ps n rule: interlock_errors.induct) (auto simp: check_err_def split: if_splits)

lemma storage_interlock:
  assumes "storage_ValidateIntent E i = None"
  obtains p where "p \<in> set (elems (in_Preconditions i))" "canonicalInterlock p (ee_Fact (in_ExpectedEffect i))"
    "\<And>q. q \<in> set (elems (in_Preconditions i)) \<Longrightarrow> fk_FactID (pn_Fact q) = ''storage.status.interlock'' \<Longrightarrow> q = p"
proof -
  let ?is = "\<lambda>p. fk_FactID (pn_Fact p) = ''storage.status.interlock''" and ?ps = "elems (in_Preconditions i)"
  have none: "interlock_errors (ee_Fact (in_ExpectedEffect i)) ?ps 0 = None" using assms by (simp add: storage_ValidateIntent_def)
  then have "length (filter ?is ?ps) = 1" using interlock_errors_None(2) [OF none] by simp
  then obtain p where p: "filter ?is ?ps = [p]" by (auto simp: length_Suc_conv)
  have mem: "q \<in> set ?ps \<and> ?is q \<longleftrightarrow> q = p" for q using arg_cong [OF p, of set] by auto
  with interlock_errors_None(1) [OF none] that show thesis by blast
qed

end
