(* ===== verification/Pack_Properties.thy ===== *)
theory Pack_Properties
  imports Pack_Laws Registry_Laws Operation_Properties
begin

text \<open>
  What the shipped packs promise: they accept exactly the facts their tables describe, a readback
  confirms exactly the expected value, and an operation kernel that runs the storage pack admits no
  storage operation while an interlock is not observed to be clear.
\<close>

section \<open>The shipped packs\<close>

definition shipped_packs :: "env \<Rightarrow> (PackValidator \<times> pack_tables) list" where
  "shipped_packs E = [(thermal_New E, thermal_tables), (photovoltaic_New E, photovoltaic_tables), (storage_New E, storage_tables),
     (evse_New E, evse_tables), (infrastructure_New E, infrastructure_tables)]"

definition operation_packs :: "env \<Rightarrow> (PackValidator \<times> OperationPackValidator) list" where
  "operation_packs E = [(thermal_New E, thermal_hooks E), (photovoltaic_New E, photovoltaic_hooks E), (storage_New E, storage_hooks E),
     (evse_New E, evse_hooks E)]"

lemma shipped_pack_cases:
  assumes "(v, t) \<in> set (shipped_packs E)"
  shows "pv_ValidateFact v = pack_ValidateFact E t \<and> pv_Pack v = pt_pack t \<and>
    t \<in> {thermal_tables, photovoltaic_tables, storage_tables, evse_tables, infrastructure_tables}"
  using assms
  by (auto simp: shipped_packs_def thermal_New_def photovoltaic_New_def storage_New_def evse_New_def infrastructure_New_def
      thermal_ValidateFact_def photovoltaic_ValidateFact_def storage_ValidateFact_def evse_ValidateFact_def infrastructure_ValidateFact_def
      thermal_tables_def photovoltaic_tables_def storage_tables_def evse_tables_def infrastructure_tables_def)

lemma table_ids:
  "distinct (map fs_id thermal_fields)" "distinct (map fs_id photovoltaic_fields)" "distinct (map fs_id storage_fields)"
  "distinct (map fs_id evse_fields)" "distinct (map fs_id infrastructure_fields)"
  by code_simp+

lemma infrastructure_dimension_kind:
  "s \<in> set infrastructure_fields \<Longrightarrow> map_of infrastructure_dimensions (fs_dimension s) = Some ValueText"
proof -
  have "list_all (\<lambda>s. map_of infrastructure_dimensions (fs_dimension s) = Some ValueText) infrastructure_fields" by code_simp
  then show "s \<in> set infrastructure_fields \<Longrightarrow> map_of infrastructure_dimensions (fs_dimension s) = Some ValueText" by (simp add: list_all_iff)
qed

lemma infrastructure_dimensions_iff:
  assumes "s \<in> set infrastructure_fields"
  shows "infrastructure_validateDimensions ds (fs_dimension s) = None \<longleftrightarrow> text_dimension ds (fs_dimension s)"
  using infrastructure_dimension_kind [OF assms]
  by (auto simp: infrastructure_validateDimensions_def text_dimension_def check_err_def split: list.splits)

lemma shipped_regular:
  assumes "t \<in> {thermal_tables, photovoltaic_tables, storage_tables, evse_tables, infrastructure_tables}"
  shows "regular t"
  using assms table_ids infrastructure_dimensions_iff
  by (auto simp: regular_def dimensionsOK_iff thermal_tables_def photovoltaic_tables_def storage_tables_def evse_tables_def infrastructure_tables_def)

text \<open>Quantities of the packages that read both bounds have both.\<close>

lemma shipped_bounds_present:
  "\<forall>s \<in> set (thermal_fields @ photovoltaic_fields @ evse_fields @ infrastructure_fields).
     fs_kind s = ValueQuantity \<longrightarrow> fs_minimum s \<noteq> None \<and> fs_maximum s \<noteq> None"
proof -
  have "list_all (\<lambda>s. fs_kind s = ValueQuantity \<longrightarrow> fs_minimum s \<noteq> None \<and> fs_maximum s \<noteq> None)
      (thermal_fields @ photovoltaic_fields @ evse_fields @ infrastructure_fields)" by code_simp
  then show ?thesis by (simp only: list_all_iff)
qed

text \<open>C36: Each of the five packs accepts exactly the facts its table describes: a valid key of this pack
  version whose identifier is a row of the table, with the one text dimension of the row, and a
  value that is a quantity in the unit of the row within its bounds as exact numbers, or one of the
  known symbols of the row.\<close>

theorem pack_facts_match_tables:
  assumes "(v, t) \<in> set (shipped_packs E)"
  shows "pv_ValidateFact v k given = None \<longleftrightarrow> FactKey_Validate E k = None \<and> key_pack k = pv_Pack v \<and>
    (\<exists>x s. given = Some x \<and> Value_Validate E x = None \<and> s \<in> set (pt_fields t) \<and> fs_id s = fk_FactID k \<and>
      text_dimension (fk_Dimensions k) (fs_dimension s) \<and> field_admits s x)"
proof -
  note pack = shipped_pack_cases [OF assms]
  then have "regular t" using shipped_regular by blast
  from pack_ValidateFact_iff [OF this] pack show ?thesis by simp
qed

section \<open>Readbacks\<close>

lemma operation_pack_contract:
  assumes "(v, h) \<in> set (operation_packs E)"
  shows "operation_pack E (pv_ValidateFact v) (pv_EvaluatePredicate v) (ov_ValidateIntent h) (ov_EvaluateReadback h)"
  using assms evse.operation_pack_axioms photovoltaic.operation_pack_axioms storage.operation_pack_axioms thermal.operation_pack_axioms
  by (auto simp: operation_packs_def thermal_New_def photovoltaic_New_def storage_New_def evse_New_def
      thermal_hooks_def photovoltaic_hooks_def storage_hooks_def evse_hooks_def)

text \<open>C35: The readback of an operation pack decides by the exact value: it confirms an intent exactly when
  the intent is valid and the candidate carries the expected value of the expected fact; it
  contradicts exactly when the candidate is a valid fact of that key with another value; and where
  it decides, the predicate the intent states of its effect has the same answer.\<close>

theorem readback_decides_by_value:
  assumes "(v, h) \<in> set (operation_packs E)" "FactCandidate_Validate E c = None"
  shows "(ov_EvaluateReadback h i c = Inr ReadbackConfirms \<longleftrightarrow> ov_ValidateIntent h i = None \<and>
      fc_Key c = ee_Fact (in_ExpectedEffect i) \<and> fc_Value c = Some (ee_Expected (in_ExpectedEffect i))) \<and>
    (ov_EvaluateReadback h i c = Inr ReadbackContradicts \<longleftrightarrow> ov_ValidateIntent h i = None \<and>
      fc_Key c = ee_Fact (in_ExpectedEffect i) \<and> pv_ValidateFact v (fc_Key c) (fc_Value c) = None \<and>
      fc_Value c \<noteq> Some (ee_Expected (in_ExpectedEffect i))) \<and>
    (\<forall>relation. ov_EvaluateReadback h i c = Inr relation \<and> relation \<noteq> ReadbackInconclusive \<longrightarrow>
      pv_EvaluatePredicate v c (ee_Operator (in_ExpectedEffect i)) (ee_Expected (in_ExpectedEffect i)) = Inr (relation = ReadbackConfirms))"
proof -
  note pack = operation_pack_contract [OF assms(1)]
  show ?thesis
    using operation_pack.readback_confirms_iff [OF pack, of i c] operation_pack.readback_contradicts_iff [OF pack, of i c]
      operation_pack.readback_predicate [OF pack assms(2), of i] by blast
qed

section \<open>The storage interlock in a running kernel\<close>

lemma storage_predicate_clear:
  assumes "frozen_EvaluatePredicate E \<lparr>fv_hook = storage_New E, fv_index = index\<rparr> c PredicateEqual w = Inr True" "equalValue w clearValue"
  shows "fc_Value c = Some clearValue"
proof -
  have w: "w = clearValue" using assms(2) by (simp add: clearValue_valid)
  have "storage_EvaluatePredicate E c PredicateEqual w = Inr True"
    using assms(1) by (auto simp: frozen_EvaluatePredicate_def storage_New_def split: option.splits if_splits)
  then have "\<exists>x. fc_Value c = Some x \<and> equalValue x w"
    by (cases "fc_Value c") (auto simp: storage_EvaluatePredicate_def pack_EvaluatePredicate_def pack_ValidateFact_def check_err_def split: option.splits if_splits)
  then show ?thesis by (auto simp: w clearValue_valid)
qed

lemma factKeyEqual_eq: "factKeyEqual E a b \<Longrightarrow> a = b"
  by (auto simp: factKeyEqual_def factKeyIdentity_def intro!: factKeyIdentity_inj [of E a _ b] split: sum.splits)

text \<open>C31: A kernel that runs the storage pack admits a storage operation only while the interlock of the
  operated interface is observed to be clear: at the admission's context the snapshot has a
  qualified, promoted, fresh and undisputed candidate of the interlock fact, for the same
  interface as the expected effect, whose value is clear.\<close>

theorem storage_needs_clear_interlock:
  assumes "NewKernelWithOptions n validators = Inr k" "Some (storage_New E, Some (storage_hooks E)) \<in> set validators"
    and "(op_step E)\<^sup>*\<^sup>* (initial_system k) (st, P)" "admit_check E st s current i authority = AdmitReady a"
    and "df_Pack (in_Kind i) = storage_pack"
  shows "\<exists>f c view e. f \<in> set (elems (sn_Facts s)) \<and> c \<in> set (elems (fe_Candidates f)) \<and>
    fe_Key f = \<lparr>fk_PackID = pk_ID storage_pack, fk_PackVersion = pk_Version storage_pack, fk_FactID = ''storage.status.interlock'',
      fk_Dimensions = fk_Dimensions (ee_Fact (in_ExpectedEffect i))\<rparr> \<and>
    fc_Value c = Some clearValue \<and> EvaluateSnapshot E s current = Inr view \<and> e \<in> set (elems (vw_Facts view)) \<and>
    ef_CandidateID e = fc_CandidateID c \<and> candidate_eligible c f e"
proof -
  have ops: "elems (dx_Operations (pv_Definitions (storage_New E))) \<noteq> []" and pack: "pv_Pack (storage_New E) = storage_pack"
    by (simp_all add: storage_New_def storage_index_def pack_index_def Let_def)
  note made = NewKernel_pack [OF assms(1, 2) ops, unfolded pack]
  have kept: "ok_registry (os_kernel st) = ok_registry k" "ok_validators (os_kernel st) = ok_validators k"
    using operations.steps_rel [OF assms(3) initial_inv [OF assms(1)]] by (simp_all add: op_keeps_def initial_system_def)
  have intent: "validateIntent E (Some (os_kernel st)) i = (None, True)" by (rule admit_check_Ready [OF assms(4)])
  then have "storage_ValidateIntent E i = None"
    using validateIntent_ok(5) [OF intent] made(2) kept assms(5) by (simp add: storage_hooks_def)
  then obtain p where p: "p \<in> set (elems (in_Preconditions i))" "canonicalInterlock p (ee_Fact (in_ExpectedEffect i))"
    by (rule storage_interlock) blast
  have key: "pn_Fact p = \<lparr>fk_PackID = pk_ID storage_pack, fk_PackVersion = pk_Version storage_pack, fk_FactID = ''storage.status.interlock'',
      fk_Dimensions = fk_Dimensions (ee_Fact (in_ExpectedEffect i))\<rparr>" "pn_Operator p = PredicateEqual" "equalValue (pn_Expected p) clearValue"
    using p(2) by (simp_all add: canonicalInterlock_def)
  have "key_pack (pn_Fact p) = storage_pack" by (simp add: key key_pack_def)
  obtain view c f e v where held: "EvaluateSnapshot E s current = Inr view" "f \<in> set (elems (sn_Facts s))" "c \<in> set (elems (fe_Candidates f))"
      "factKeyEqual E (fe_Key f) (pn_Fact p)" "e \<in> set (elems (vw_Facts view))" "ef_CandidateID e = fc_CandidateID c" "candidate_eligible c f e"
      "Registry_Validator (ok_registry (os_kernel st)) (key_pack (pn_Fact p)) = Inr v"
      "frozen_EvaluatePredicate E v c (pn_Operator p) (pn_Expected p) = Inr True"
    using admitted_precondition [OF assms(4) p(1)] by blast
  have "v = \<lparr>fv_hook = storage_New E, fv_index = pv_Definitions (storage_New E)\<rparr>"
    using held(8) made(1) kept(1) \<open>key_pack (pn_Fact p) = storage_pack\<close> by simp
  then have "fc_Value c = Some clearValue" using storage_predicate_clear held(9) key(2, 3) by simp
  moreover have "fe_Key f = pn_Fact p" by (rule factKeyEqual_eq [OF held(4)])
  ultimately show ?thesis using held key(1) by metis
qed

end
