(* ===== verification/Pack_Composition.thy ===== *)
theory Pack_Composition
  imports Metadata_Laws Registry_Laws Pack_Properties
begin

text \<open>
  The shipped packs fit together. A table is consistent when its identifiers are valid and distinct
  and what it refers to is in it; the metadata of a consistent table is accepted by a registry that
  does not have the pack. Consistency of the five tables is evaluated on their identifiers.
\<close>

section \<open>Loops that succeed\<close>

lemma fold_result_success:
  assumes "J [] s" "\<And>ys x zs s. xs = ys @ x # zs \<Longrightarrow> J ys s \<Longrightarrow> \<exists>s'. f x s = Inr s' \<and> J (ys @ [x]) s'"
  shows "\<exists>s'. fold_result f xs s = Inr s' \<and> J xs s'"
proof -
  have "\<exists>s'. fold_result f zs s = Inr s' \<and> J xs s'" if "xs = ys @ zs" "J ys s" for ys zs s
    using that
  proof (induction zs arbitrary: ys s)
    case (Cons x zs)
    from assms(2) [OF Cons.prems] obtain s1 where s1: "f x s = Inr s1" "J (ys @ [x]) s1" by blast
    with Cons.IH [of "ys @ [x]" s1] Cons.prems(1) show ?case by auto
  qed auto
  from this [of "[]" xs s] assms(1) show ?thesis by simp
qed

lemma register_all_success:
  assumes "J [] r" "length items = countKind refs kind"
    and "\<And>ys x zs r. items = ys @ x # zs \<Longrightarrow> J ys r \<Longrightarrow> \<exists>r'. step x (rev (map key ys), r) = Inr (key x # rev (map key ys), r') \<and> J (ys @ [x]) r'"
  shows "\<exists>r'. register_all step items refs kind detail r = Inr r' \<and> J items r'"
proof -
  have "\<exists>st'. fold_result step items ([], r) = Inr st' \<and> (fst st' = rev (map key items) \<and> J items (snd st'))"
  proof (rule fold_result_success [where J = "\<lambda>ys st. fst st = rev (map key ys) \<and> J ys (snd st)"])
    fix ys x zs st assume "items = ys @ x # zs" "fst st = rev (map key ys) \<and> J ys (snd st)"
    with assms(3) [of ys x zs "snd st"] show "\<exists>st'. step x st = Inr st' \<and> fst st' = rev (map key (ys @ [x])) \<and> J (ys @ [x]) (snd st')"
      by (cases st) auto
  qed (simp add: assms(1))
  then show ?thesis using assms(2) by (auto simp: register_all_def)
qed

section \<open>References of one pack\<close>

lemma definition_ref_inj [simp]: "definition_ref pack i = definition_ref pack j \<longleftrightarrow> i = j"
  by (simp add: definition_ref_def)

lemma df_Pack_definition_ref [simp]: "df_Pack (definition_ref pack i) = pack"
  by (simp add: definition_ref_def)

lemma owns_definition_ref:
  assumes "PackRef_Validate pack = None"
  shows "metadataRefOwns pack (definition_ref pack i) = None \<longleftrightarrow> DefinitionID_Validate i = None"
  using assms by (auto simp: owns_None definition_ref_def DefinitionRef_Validate_def PackRef_Validate_def)

lemma distinct_sort_by [simp]: "distinct (sort_by cmp xs) = distinct xs"
  using distinct_map_sort_by [of "\<lambda>x. x" cmp xs] by simp

lemma elems_appended [simp]: "elems (appended xs) = xs"
  by (simp add: appended_def)

lemma fold_index_ref:
  assumes "distinct items" "df_Pack ` set items \<subseteq> {pack}" "set items \<inter> fst ` set acc = {}"
  shows "fold_result (index_ref pack kind) items acc = Inr (acc @ map (\<lambda>x. (x, kind)) items)"
  using assms
proof (induction items arbitrary: acc)
  case (Cons x items)
  then have "map_of acc x = None" "x \<notin> fst ` set acc" by (auto simp: map_of_eq_None_iff)
  with Cons.prems Cons.IH [of "acc @ [(x, kind)]"] show ?case by (auto simp: index_ref_def and_then_def update_new)
qed simp

section \<open>Consistent tables\<close>

definition table_units :: "pack_tables \<Rightarrow> DefinitionID list" where
  "table_units t = remdups (filter (\<lambda>u. u \<noteq> []) (map fs_unit (pt_fields t)))"

record index_ids =
  ix_fields :: "DefinitionID list"
  ix_services :: "DefinitionID list"
  ix_capabilities :: "DefinitionID list"
  ix_operations :: "DefinitionID list"
  ix_effects :: "DefinitionID list"

definition index_of :: "PackRef \<Rightarrow> index_ids \<Rightarrow> DefinitionIndex" where
  "index_of pack x = pack_index pack (ix_fields x) (ix_services x) (ix_capabilities x) (ix_operations x) (ix_effects x)"

definition all_ids :: "index_ids \<Rightarrow> DefinitionID list" where
  "all_ids x = ix_fields x @ ix_services x @ ix_capabilities x @ ix_operations x @ ix_effects x"

text \<open>The identifiers the table mentions beyond those of the index.\<close>

definition other_ids :: "pack_tables \<Rightarrow> DefinitionID list" where
  "other_ids t = table_units t @ map fs_dimension (pt_fields t) @ map snd (pt_services t)"

definition lists_exactly :: "string list \<Rightarrow> string list \<Rightarrow> bool" where
  "lists_exactly xs ys \<longleftrightarrow> distinct xs \<and> length xs = length ys \<and> list_all (\<lambda>x. x \<in> set ys) xs"

definition consistent :: "pack_tables \<Rightarrow> index_ids \<Rightarrow> bool" where
  "consistent t x \<longleftrightarrow> PackRef_Validate (pt_pack t) = None \<and>
     list_all (\<lambda>i. DefinitionID_Validate i = None) (all_ids x @ other_ids t) \<and>
     distinct (table_units t @ all_ids x) \<and>
     lists_exactly (map fs_id (pt_fields t)) (ix_fields x) \<and> lists_exactly (map fst (pt_services t)) (ix_services x) \<and>
     lists_exactly (map fst (pt_capabilities t)) (ix_capabilities x) \<and> lists_exactly (map fst (pt_operations t)) (ix_operations x) \<and>
     list_all (\<lambda>(i, s). cs_service s \<in> set (ix_services x)) (pt_capabilities t) \<and>
     list_all (\<lambda>(i, s). op_argument s \<in> set (ix_fields x) \<and> op_effect s \<in> set (ix_effects x) \<and>
       op_capability s \<in> set (map fst (pt_capabilities t))) (pt_operations t)"

lemma lists_exactly_set: "lists_exactly xs ys \<Longrightarrow> distinct ys \<Longrightarrow> set xs = set ys"
  by (simp add: lists_exactly_def list_all_iff subset_iff [symmetric]) (metis List.finite_set card_subset_eq distinct_card subsetI)

section \<open>The metadata of a table\<close>

abbreviation shipped_metadata :: "pack_tables \<Rightarrow> PackMetadata" where
  "shipped_metadata t \<equiv> canonicalPackMetadata (pack_Metadata t)"

definition service_metadata :: "PackRef \<Rightarrow> DefinitionID \<times> DefinitionID \<Rightarrow> ServiceMetadata" where
  "service_metadata pack = (\<lambda>(i, d). \<lparr>sm_Ref = definition_ref pack i, sm_FactKeyDimension = definition_ref pack d\<rparr>)"

definition capability_metadata :: "PackRef \<Rightarrow> DefinitionID \<times> capabilitySpec \<Rightarrow> CapabilityMetadata" where
  "capability_metadata pack = (\<lambda>(i, s). \<lparr>cm_Ref = definition_ref pack i, cm_Service = definition_ref pack (cs_service s)\<rparr>)"

lemma metadata_sets:
  "set (elems (md_Units (shipped_metadata t))) = definition_ref (pt_pack t) ` set (table_units t)"
  "set (elems (md_Fields (shipped_metadata t))) = field_metadata (pt_pack t) ` set (pt_fields t)"
  "set (elems (md_Services (shipped_metadata t))) = service_metadata (pt_pack t) ` set (pt_services t)"
  "set (elems (md_Capabilities (shipped_metadata t))) = capability_metadata (pt_pack t) ` set (pt_capabilities t)"
  "set (elems (md_Operations (shipped_metadata t))) = operation_metadata t ` set (pt_operations t)"
  "md_Pack (shipped_metadata t) = pt_pack t"
  by (simp_all add: canonicalPackMetadata_def pack_Metadata_def Let_def by_id_def table_units_def service_metadata_def capability_metadata_def)

lemma metadata_lengths:
  "length (elems (md_Fields (shipped_metadata t))) = length (pt_fields t)"
  "length (elems (md_Services (shipped_metadata t))) = length (pt_services t)"
  "length (elems (md_Capabilities (shipped_metadata t))) = length (pt_capabilities t)"
  "length (elems (md_Operations (shipped_metadata t))) = length (pt_operations t)"
  by (simp_all add: canonicalPackMetadata_def pack_Metadata_def Let_def by_id_def)

lemma metadata_distinct:
  "distinct (elems (md_Units (shipped_metadata t)))"
  "distinct (map fm_Ref (elems (md_Fields (shipped_metadata t)))) \<longleftrightarrow> distinct (map fs_id (pt_fields t))"
  "distinct (map sm_Ref (elems (md_Services (shipped_metadata t)))) \<longleftrightarrow> distinct (map fst (pt_services t))"
  "distinct (map cm_Ref (elems (md_Capabilities (shipped_metadata t)))) \<longleftrightarrow> distinct (map fst (pt_capabilities t))"
  "distinct (map om_Ref (elems (md_Operations (shipped_metadata t)))) \<longleftrightarrow> distinct (map fst (pt_operations t))"
proof -
  have inj: "distinct (map (\<lambda>x. definition_ref (pt_pack t) (f x)) xs) \<longleftrightarrow> distinct (map f xs)" for f :: "'a \<Rightarrow> DefinitionID" and xs
    by (induction xs) auto
  have units: "distinct (map (definition_ref (pt_pack t)) (table_units t))" by (simp add: distinct_map inj_on_def table_units_def)
  show "distinct (elems (md_Units (shipped_metadata t)))"
    using units by (simp add: canonicalPackMetadata_def pack_Metadata_def Let_def by_id_def table_units_def)
  show "distinct (map fm_Ref (elems (md_Fields (shipped_metadata t)))) \<longleftrightarrow> distinct (map fs_id (pt_fields t))"
    using inj [of fs_id "pt_fields t"] by (simp add: canonicalPackMetadata_def pack_Metadata_def Let_def by_id_def comp_def field_metadata_def)
  show "distinct (map sm_Ref (elems (md_Services (shipped_metadata t)))) \<longleftrightarrow> distinct (map fst (pt_services t))"
    using inj [of fst "pt_services t"] by (simp add: canonicalPackMetadata_def pack_Metadata_def Let_def by_id_def comp_def case_prod_beta)
  show "distinct (map cm_Ref (elems (md_Capabilities (shipped_metadata t)))) \<longleftrightarrow> distinct (map fst (pt_capabilities t))"
    using inj [of fst "pt_capabilities t"] by (simp add: canonicalPackMetadata_def pack_Metadata_def Let_def by_id_def comp_def case_prod_beta)
  show "distinct (map om_Ref (elems (md_Operations (shipped_metadata t)))) \<longleftrightarrow> distinct (map fst (pt_operations t))"
    using inj [of fst "pt_operations t"]
    by (simp add: canonicalPackMetadata_def pack_Metadata_def Let_def by_id_def comp_def case_prod_beta operation_metadata_def)
qed

section \<open>A consistent table registers\<close>

definition index_kinds :: "PackRef \<Rightarrow> index_ids \<Rightarrow> index_refs" where
  "index_kinds pack x = (let refs = \<lambda>kind. map (\<lambda>i. (definition_ref pack i, kind)) in
     refs DefinitionField (ix_fields x) @ refs DefinitionService (ix_services x) @ refs DefinitionCapability (ix_capabilities x) @
     refs DefinitionOperation (ix_operations x) @ refs DefinitionEffectRule (ix_effects x))"

lemma collect_index_of:
  assumes "distinct (all_ids x)"
  shows "collect_index pack (index_of pack x) = Inr (index_kinds pack x)"
proof -
  let ?ref = "definition_ref pack" and ?r = "\<lambda>kind. map (\<lambda>i. (definition_ref pack i, kind))"
  have step: "fold_result (index_ref pack kind) (map ?ref ids) acc = Inr (acc @ ?r kind ids)"
    if "distinct ids" "\<forall>i \<in> set ids. ?ref i \<notin> fst ` set acc" for kind ids acc
  proof -
    have "distinct (map ?ref ids)" "df_Pack ` set (map ?ref ids) \<subseteq> {pack}" "set (map ?ref ids) \<inter> fst ` set acc = {}"
      using that by (auto simp: distinct_map inj_on_def)
    from fold_index_ref [OF this] show ?thesis by (simp add: comp_def)
  qed
  have ids: "distinct (ix_fields x)" "distinct (ix_services x)" "distinct (ix_capabilities x)" "distinct (ix_operations x)" "distinct (ix_effects x)"
    using assms by (simp_all add: all_ids_def)
  have 1: "fold_result (index_ref pack DefinitionField) (map ?ref (ix_fields x)) [] = Inr ([] @ ?r DefinitionField (ix_fields x))"
    by (rule step [OF ids(1)]) simp
  have 2: "fold_result (index_ref pack DefinitionService) (map ?ref (ix_services x)) acc = Inr (acc @ ?r DefinitionService (ix_services x))"
    if "fst ` set acc = ?ref ` set (ix_fields x)" for acc
    by (rule step [OF ids(2)]) (use assms that in \<open>auto simp: all_ids_def\<close>)
  have 3: "fold_result (index_ref pack DefinitionCapability) (map ?ref (ix_capabilities x)) acc = Inr (acc @ ?r DefinitionCapability (ix_capabilities x))"
    if "fst ` set acc = ?ref ` (set (ix_fields x) \<union> set (ix_services x))" for acc
    by (rule step [OF ids(3)]) (use assms that in \<open>auto simp: all_ids_def\<close>)
  have 4: "fold_result (index_ref pack DefinitionOperation) (map ?ref (ix_operations x)) acc = Inr (acc @ ?r DefinitionOperation (ix_operations x))"
    if "fst ` set acc = ?ref ` (set (ix_fields x) \<union> set (ix_services x) \<union> set (ix_capabilities x))" for acc
    by (rule step [OF ids(4)]) (use assms that in \<open>auto simp: all_ids_def\<close>)
  have 5: "fold_result (index_ref pack DefinitionEffectRule) (map ?ref (ix_effects x)) acc = Inr (acc @ ?r DefinitionEffectRule (ix_effects x))"
    if "fst ` set acc = ?ref ` (set (ix_fields x) \<union> set (ix_services x) \<union> set (ix_capabilities x) \<union> set (ix_operations x))" for acc
    by (rule step [OF ids(5)]) (use assms that in \<open>auto simp: all_ids_def\<close>)
  show ?thesis
    by (simp add: collect_index_def index_of_def pack_index_def index_groups_def index_kinds_def Let_def and_then_def
        1 2 3 4 5 image_Un image_image Un_assoc)
qed

lemma index_kinds_lookup:
  assumes "distinct (all_ids x)"
  shows "i \<in> set (ix_fields x) \<Longrightarrow> map_of (index_kinds pack x) (definition_ref pack i) = Some DefinitionField"
    "i \<in> set (ix_services x) \<Longrightarrow> map_of (index_kinds pack x) (definition_ref pack i) = Some DefinitionService"
    "i \<in> set (ix_capabilities x) \<Longrightarrow> map_of (index_kinds pack x) (definition_ref pack i) = Some DefinitionCapability"
    "i \<in> set (ix_operations x) \<Longrightarrow> map_of (index_kinds pack x) (definition_ref pack i) = Some DefinitionOperation"
    "i \<in> set (ix_effects x) \<Longrightarrow> map_of (index_kinds pack x) (definition_ref pack i) = Some DefinitionEffectRule"
proof -
  have d: "distinct (map fst (index_kinds pack x))"
    using assms by (auto simp: index_kinds_def all_ids_def Let_def comp_def distinct_map inj_on_def)
  show "i \<in> set (ix_fields x) \<Longrightarrow> map_of (index_kinds pack x) (definition_ref pack i) = Some DefinitionField"
    "i \<in> set (ix_services x) \<Longrightarrow> map_of (index_kinds pack x) (definition_ref pack i) = Some DefinitionService"
    "i \<in> set (ix_capabilities x) \<Longrightarrow> map_of (index_kinds pack x) (definition_ref pack i) = Some DefinitionCapability"
    "i \<in> set (ix_operations x) \<Longrightarrow> map_of (index_kinds pack x) (definition_ref pack i) = Some DefinitionOperation"
    "i \<in> set (ix_effects x) \<Longrightarrow> map_of (index_kinds pack x) (definition_ref pack i) = Some DefinitionEffectRule"
    by (rule map_of_is_SomeI [OF d], simp add: index_kinds_def Let_def)+
qed

lemma countKind_index_kinds:
  "countKind (index_kinds pack x) DefinitionField = length (ix_fields x)"
  "countKind (index_kinds pack x) DefinitionService = length (ix_services x)"
  "countKind (index_kinds pack x) DefinitionCapability = length (ix_capabilities x)"
  "countKind (index_kinds pack x) DefinitionOperation = length (ix_operations x)"
  by (simp_all add: countKind_def index_kinds_def Let_def filter_map comp_def)

lemma check_err_False [simp]: "check_err False e d = None"
  by (simp add: check_err_def)

lemma ensure_None: "e = None \<Longrightarrow> ensure e x = Inr x"
  by (simp add: ensure_def)

lemma register_units_success:
  assumes "\<forall>u \<in> set us. metadataRefOwns pack u = None" "distinct us" "set us \<inter> set (mr_definitions r) = {}" "set us \<inter> set (mr_units r) = {}"
  shows "fold_result (register_unit pack) us r = Inr (r\<lparr>mr_definitions := rev us @ mr_definitions r, mr_units := rev us @ mr_units r\<rparr>)"
  using assms by (induction us arbitrary: r) (auto simp: register_unit_def and_then_def ensure_def)

lemma register_definitions_success:
  assumes "distinct ds" "set ds \<inter> set (mr_definitions r) = {}"
  shows "fold_result register_definition ds r = Inr (r\<lparr>mr_definitions := rev ds @ mr_definitions r\<rparr>)"
  using assms by (induction ds arbitrary: r) (auto simp: register_definition_def and_then_def ensure_def)

lemma register_fields_success:
  assumes "distinct (map fm_Ref fs)" "length fs = countKind refs DefinitionField"
    and "\<forall>f \<in> set fs. metadataRefOwns pack (fm_Ref f) = None \<and> map_of refs (fm_Ref f) = Some DefinitionField \<and>
      metadataRefOwns pack (fm_Dimension f) = None \<and> (\<forall>u. fm_CanonicalUnit f = Some u \<longrightarrow> metadataRefOwns pack u = None \<and> u \<in> set (mr_units r))"
  shows "\<exists>m. register_all (register_field pack refs) fs refs DefinitionField detail r = Inr (r\<lparr>mr_fields := m\<rparr>)"
proof -
  have "\<exists>r'. register_all (register_field pack refs) fs refs DefinitionField detail r = Inr r' \<and> (\<exists>m. r' = r\<lparr>mr_fields := m\<rparr>)"
  proof (rule register_all_success [where key = fm_Ref])
    show "\<exists>m. r = r\<lparr>mr_fields := m\<rparr>" by (rule exI [of _ "mr_fields r"]) simp
  next
    fix ys x zs r1 assume split: "fs = ys @ x # zs" and "\<exists>m. r1 = r\<lparr>mr_fields := m\<rparr>"
    then obtain m where r1: "r1 = r\<lparr>mr_fields := m\<rparr>" by blast
    have "first_error [metadataRefOwns pack (fm_Ref x),
      check_err (map_of refs (fm_Ref x) \<noteq> Some DefinitionField) DefinitionOwnerMissing ''metadata field'',
      check_err (fm_Ref x \<in> set (rev (map fm_Ref ys))) DefinitionOwnerConflict ''duplicate metadata field'',
      metadataRefOwns pack (fm_Dimension x),
      opt_err (metadataRefOwns pack) (fm_CanonicalUnit x),
      opt_err (\<lambda>u. check_err (u \<notin> set (mr_units r1)) DefinitionOwnerMissing ''metadata canonical unit'') (fm_CanonicalUnit x)] = None"
      using assms(1, 3) by (cases "fm_CanonicalUnit x") (auto simp: split r1 opt_err_def)
    from ensure_None [OF this]
    have "register_field pack refs x (rev (map fm_Ref ys), r1) =
        Inr (fm_Ref x # rev (map fm_Ref ys), r1\<lparr>mr_fields := AList.update (fm_Ref x) x (mr_fields r1)\<rparr>)"
      unfolding register_field_def prod.case .
    then show "\<exists>r'. register_field pack refs x (rev (map fm_Ref ys), r1) = Inr (fm_Ref x # rev (map fm_Ref ys), r') \<and> (\<exists>m. r' = r\<lparr>mr_fields := m\<rparr>)"
      unfolding r1 by force
  qed (rule assms(2))
  then show ?thesis by blast
qed

lemma register_services_success:
  assumes "distinct (map sm_Ref ss)" "length ss = countKind refs DefinitionService"
    and "\<forall>s \<in> set ss. metadataRefOwns pack (sm_Ref s) = None \<and> metadataRefOwns pack (sm_FactKeyDimension s) = None \<and>
      map_of refs (sm_Ref s) = Some DefinitionService"
  shows "\<exists>m. register_all (register_service pack refs) ss refs DefinitionService detail r = Inr (r\<lparr>mr_services := m\<rparr>) \<and>
    (\<forall>s \<in> set ss. map_of m (sm_Ref s) \<noteq> None)"
proof -
  let ?J = "\<lambda>ys r'. \<exists>m. r' = r\<lparr>mr_services := m\<rparr> \<and> (\<forall>s \<in> set ys. map_of m (sm_Ref s) \<noteq> None)"
  have "\<exists>r'. register_all (register_service pack refs) ss refs DefinitionService detail r = Inr r' \<and> ?J ss r'"
  proof (rule register_all_success [where key = sm_Ref and J = ?J])
    show "?J [] r" by (rule exI [of _ "mr_services r"]) simp
  next
    fix ys x zs r1 assume split: "ss = ys @ x # zs" and "?J ys r1"
    then obtain m where r1: "r1 = r\<lparr>mr_services := m\<rparr>" "\<forall>s \<in> set ys. map_of m (sm_Ref s) \<noteq> None" by blast
    have "register_service pack refs x (rev (map sm_Ref ys), r1) = Inr (sm_Ref x # rev (map sm_Ref ys), r\<lparr>mr_services := AList.update (sm_Ref x) x m\<rparr>)"
      using assms(1, 3) by (auto simp: split r1(1) register_service_def ensure_def split: option.split)
    then show "\<exists>r'. register_service pack refs x (rev (map sm_Ref ys), r1) = Inr (sm_Ref x # rev (map sm_Ref ys), r') \<and> ?J (ys @ [x]) r'"
      using r1(2) by (auto simp: update_conv')
  qed (rule assms(2))
  then show ?thesis by blast
qed

lemma register_capabilities_success:
  assumes "distinct (map cm_Ref cs)" "length cs = countKind refs DefinitionCapability"
    and "\<forall>c \<in> set cs. metadataRefOwns pack (cm_Ref c) = None \<and> metadataRefOwns pack (cm_Service c) = None \<and>
      map_of refs (cm_Ref c) = Some DefinitionCapability \<and> map_of (mr_services r) (cm_Service c) \<noteq> None"
  shows "\<exists>m. register_all (register_capability pack refs) cs refs DefinitionCapability detail r = Inr (r\<lparr>mr_caps := m\<rparr>) \<and>
    (\<forall>c \<in> set cs. map_of m (cm_Ref c) = Some (cm_Service c))"
proof -
  let ?J = "\<lambda>ys r'. \<exists>m. r' = r\<lparr>mr_caps := m\<rparr> \<and> (\<forall>c \<in> set ys. map_of m (cm_Ref c) = Some (cm_Service c))"
  have "\<exists>r'. register_all (register_capability pack refs) cs refs DefinitionCapability detail r = Inr r' \<and> ?J cs r'"
  proof (rule register_all_success [where key = cm_Ref and J = ?J])
    show "?J [] r" by (rule exI [of _ "mr_caps r"]) simp
  next
    fix ys x zs r1 assume split: "cs = ys @ x # zs" and "?J ys r1"
    then obtain m where r1: "r1 = r\<lparr>mr_caps := m\<rparr>" "\<forall>c \<in> set ys. map_of m (cm_Ref c) = Some (cm_Service c)" by blast
    have "register_capability pack refs x (rev (map cm_Ref ys), r1) =
        Inr (cm_Ref x # rev (map cm_Ref ys), r\<lparr>mr_caps := AList.update (cm_Ref x) (cm_Service x) m\<rparr>)"
      using assms(1, 3) by (auto simp: split r1(1) register_capability_def ensure_def split: option.split)
    moreover have "\<forall>c \<in> set (ys @ [x]). map_of (AList.update (cm_Ref x) (cm_Service x) m) (cm_Ref c) = Some (cm_Service c)"
    proof -
      have "cm_Ref x \<notin> cm_Ref ` set ys" using assms(1) by (simp add: split)
      then have "cm_Ref c \<noteq> cm_Ref x" if "c \<in> set ys" for c using imageI [OF that, of cm_Ref] by metis
      then show ?thesis using r1(2) by (auto simp: update_conv')
    qed
    ultimately show "\<exists>r'. register_capability pack refs x (rev (map cm_Ref ys), r1) = Inr (cm_Ref x # rev (map cm_Ref ys), r') \<and> ?J (ys @ [x]) r'"
      by blast
  qed (rule assms(2))
  then show ?thesis by blast
qed

lemma register_operations_success:
  assumes "distinct (map om_Ref os)" "length os = countKind refs DefinitionOperation"
    and "\<forall>p \<in> set os. (\<forall>x \<in> set (operation_refs p). metadataRefOwns pack x = None) \<and> map_of refs (om_Ref p) = Some DefinitionOperation \<and>
      map_of refs (om_Argument p) = Some DefinitionField \<and> map_of refs (om_Effect p) = Some DefinitionEffectRule \<and>
      map_of (mr_caps r) (om_Capability p) = Some (om_Service p)"
  shows "\<exists>r'. register_all (register_operation pack refs) os refs DefinitionOperation detail r = Inr r'"
proof -
  have "\<exists>r'. register_all (register_operation pack refs) os refs DefinitionOperation detail r = Inr r' \<and> (\<exists>m. r' = r\<lparr>mr_operations := m\<rparr>)"
  proof (rule register_all_success [where key = om_Ref])
    show "\<exists>m. r = r\<lparr>mr_operations := m\<rparr>" by (rule exI [of _ "mr_operations r"]) simp
  next
    fix ys x zs r1 assume split: "os = ys @ x # zs" and "\<exists>m. r1 = r\<lparr>mr_operations := m\<rparr>"
    then obtain m where r1: "r1 = r\<lparr>mr_operations := m\<rparr>" by blast
    have "register_operation pack refs x (rev (map om_Ref ys), r1) = Inr (om_Ref x # rev (map om_Ref ys), r\<lparr>mr_operations := operation_key x # m\<rparr>)"
      using assms(1, 3) by (auto simp: split r1 register_operation_def ensure_def split: option.split)
    then show "\<exists>r'. register_operation pack refs x (rev (map om_Ref ys), r1) = Inr (om_Ref x # rev (map om_Ref ys), r') \<and> (\<exists>m. r' = r\<lparr>mr_operations := m\<rparr>)"
      by blast
  qed (rule assms(2))
  then show ?thesis by blast
qed

text \<open>The contract of a table with its index; each loop of the registration succeeds on it.\<close>

locale consistent_table =
  fixes t :: pack_tables and x :: index_ids
  assumes table_ok: "consistent t x"
begin

lemma units_apart: "distinct (table_units t)" "distinct (all_ids x)" "set (table_units t) \<inter> set (all_ids x) = {}"
  using table_ok unfolding consistent_def by auto

lemma owned: "i \<in> set (all_ids x) \<union> set (other_ids t) \<Longrightarrow> metadataRefOwns (pt_pack t) (definition_ref (pt_pack t) i) = None"
  using table_ok owns_definition_ref [of "pt_pack t"] unfolding consistent_def list_all_iff by auto

lemma exact:
  "distinct (map fs_id (pt_fields t)) \<and> length (pt_fields t) = length (ix_fields x) \<and> fs_id ` set (pt_fields t) \<subseteq> set (ix_fields x)"
  "distinct (map fst (pt_services t)) \<and> length (pt_services t) = length (ix_services x) \<and> fst ` set (pt_services t) = set (ix_services x)"
  "distinct (map fst (pt_capabilities t)) \<and> length (pt_capabilities t) = length (ix_capabilities x) \<and>
    fst ` set (pt_capabilities t) \<subseteq> set (ix_capabilities x)"
  "distinct (map fst (pt_operations t)) \<and> length (pt_operations t) = length (ix_operations x) \<and>
    fst ` set (pt_operations t) \<subseteq> set (ix_operations x)"
  using table_ok lists_exactly_set [of "map fst (pt_services t)" "ix_services x"]
  unfolding consistent_def lists_exactly_def list_all_iff all_ids_def by auto

lemma referred:
  "(i, s) \<in> set (pt_capabilities t) \<Longrightarrow> cs_service s \<in> set (ix_services x)"
  "(i, p) \<in> set (pt_operations t) \<Longrightarrow> op_argument p \<in> set (ix_fields x) \<and> op_effect p \<in> set (ix_effects x) \<and>
    op_capability p \<in> fst ` set (pt_capabilities t)"
  using table_ok unfolding consistent_def list_all_iff by auto

lemmas kinds = index_kinds_lookup [OF units_apart(2), of _ "pt_pack t"]
lemmas counts = countKind_index_kinds [of "pt_pack t" x]

lemma units_register:
  assumes "\<forall>d \<in> set (mr_definitions r) \<union> set (mr_units r). df_Pack d \<noteq> pt_pack t"
  obtains r' where "fold_result (register_unit (pt_pack t)) (elems (md_Units (shipped_metadata t))) r = Inr r'"
    "set (mr_definitions r') = definition_ref (pt_pack t) ` set (table_units t) \<union> set (mr_definitions r)"
    "definition_ref (pt_pack t) ` set (table_units t) \<subseteq> set (mr_units r')"
  using register_units_success [of "elems (md_Units (shipped_metadata t))" "pt_pack t" r] owned assms
  by (force simp: metadata_sets metadata_distinct other_ids_def)

lemma definitions_register:
  assumes "set (mr_definitions r') = definition_ref (pt_pack t) ` set (table_units t) \<union> set (mr_definitions r)"
    and "\<forall>d \<in> set (mr_definitions r). df_Pack d \<noteq> pt_pack t"
  obtains r2 where "fold_result register_definition (map fst (index_kinds (pt_pack t) x)) r' = Inr r2" "mr_units r2 = mr_units r'"
proof -
  have keys: "set (map fst (index_kinds (pt_pack t) x)) = definition_ref (pt_pack t) ` set (all_ids x)"
    by (simp add: index_kinds_def all_ids_def Let_def image_Un image_image)
  have "definition_ref (pt_pack t) i \<notin> set (mr_definitions r)" for i using assms(2) df_Pack_definition_ref by blast
  then have "set (map fst (index_kinds (pt_pack t) x)) \<inter> set (mr_definitions r') = {}"
    unfolding keys assms(1) using units_apart(3) by auto
  moreover have "distinct (map fst (index_kinds (pt_pack t) x))"
    using units_apart(2) by (auto simp: index_kinds_def all_ids_def Let_def comp_def distinct_map inj_on_def)
  ultimately show thesis using register_definitions_success that by simp
qed

lemma fields_register:
  assumes "definition_ref (pt_pack t) ` set (table_units t) \<subseteq> set (mr_units r)"
  obtains m where "register_all (register_field (pt_pack t) (index_kinds (pt_pack t) x)) (elems (md_Fields (shipped_metadata t)))
    (index_kinds (pt_pack t) x) DefinitionField detail r = Inr (r\<lparr>mr_fields := m\<rparr>)"
proof -
  have "metadataRefOwns (pt_pack t) (fm_Ref f) = None \<and> map_of (index_kinds (pt_pack t) x) (fm_Ref f) = Some DefinitionField \<and>
      metadataRefOwns (pt_pack t) (fm_Dimension f) = None \<and>
      (\<forall>u. fm_CanonicalUnit f = Some u \<longrightarrow> metadataRefOwns (pt_pack t) u = None \<and> u \<in> set (mr_units r))"
    if mem: "f \<in> set (elems (md_Fields (shipped_metadata t)))" for f
  proof -
    obtain s where s: "s \<in> set (pt_fields t)" "f = field_metadata (pt_pack t) s" using mem by (auto simp: metadata_sets)
    have "fs_id s \<in> set (ix_fields x)" "fs_dimension s \<in> set (other_ids t)" "fs_unit s \<noteq> [] \<Longrightarrow> fs_unit s \<in> set (table_units t)"
      using s(1) exact(1) by (auto simp: other_ids_def table_units_def)
    then show ?thesis using owned assms kinds(1) by (auto simp: s(2) field_metadata_def all_ids_def other_ids_def split: if_splits)
  qed
  then show thesis
    using register_fields_success [of "elems (md_Fields (shipped_metadata t))" "index_kinds (pt_pack t) x" "pt_pack t" r detail] exact(1) that
    by (simp add: metadata_distinct metadata_lengths counts) blast
qed

lemma services_register:
  obtains m where "register_all (register_service (pt_pack t) (index_kinds (pt_pack t) x)) (elems (md_Services (shipped_metadata t)))
      (index_kinds (pt_pack t) x) DefinitionService detail r = Inr (r\<lparr>mr_services := m\<rparr>)"
    "\<And>i. i \<in> set (ix_services x) \<Longrightarrow> map_of m (definition_ref (pt_pack t) i) \<noteq> None"
proof -
  have "metadataRefOwns (pt_pack t) (sm_Ref s) = None \<and> metadataRefOwns (pt_pack t) (sm_FactKeyDimension s) = None \<and>
      map_of (index_kinds (pt_pack t) x) (sm_Ref s) = Some DefinitionService" if mem: "s \<in> set (elems (md_Services (shipped_metadata t)))" for s
  proof -
    obtain i d where s: "(i, d) \<in> set (pt_services t)" "s = service_metadata (pt_pack t) (i, d)" using mem by (auto simp: metadata_sets)
    have "i \<in> set (ix_services x)" "d \<in> set (other_ids t)" using s(1) exact(2) by (auto simp: other_ids_def) force+
    then show ?thesis using owned kinds(2) by (simp add: s(2) service_metadata_def all_ids_def)
  qed
  then obtain m where m: "register_all (register_service (pt_pack t) (index_kinds (pt_pack t) x)) (elems (md_Services (shipped_metadata t)))
      (index_kinds (pt_pack t) x) DefinitionService detail r = Inr (r\<lparr>mr_services := m\<rparr>)"
    "\<forall>s \<in> set (elems (md_Services (shipped_metadata t))). map_of m (sm_Ref s) \<noteq> None"
    using register_services_success [of "elems (md_Services (shipped_metadata t))" "index_kinds (pt_pack t) x" "pt_pack t" detail r] exact(2)
    by (simp add: metadata_distinct metadata_lengths counts) blast
  have "map_of m (definition_ref (pt_pack t) i) \<noteq> None" if i: "i \<in> set (ix_services x)" for i
  proof -
    obtain d where "(i, d) \<in> set (pt_services t)" using i exact(2) by force
    then have "service_metadata (pt_pack t) (i, d) \<in> set (elems (md_Services (shipped_metadata t)))" by (simp add: metadata_sets)
    from bspec [OF m(2) this] show ?thesis by (simp add: service_metadata_def)
  qed
  with m(1) that show thesis by blast
qed

lemma capabilities_register:
  assumes "\<And>i. i \<in> set (ix_services x) \<Longrightarrow> map_of (mr_services r) (definition_ref (pt_pack t) i) \<noteq> None"
  obtains m where "register_all (register_capability (pt_pack t) (index_kinds (pt_pack t) x)) (elems (md_Capabilities (shipped_metadata t)))
      (index_kinds (pt_pack t) x) DefinitionCapability detail r = Inr (r\<lparr>mr_caps := m\<rparr>)"
    "\<And>i s. (i, s) \<in> set (pt_capabilities t) \<Longrightarrow> map_of m (definition_ref (pt_pack t) i) = Some (definition_ref (pt_pack t) (cs_service s))"
proof -
  have "metadataRefOwns (pt_pack t) (cm_Ref c) = None \<and> metadataRefOwns (pt_pack t) (cm_Service c) = None \<and>
      map_of (index_kinds (pt_pack t) x) (cm_Ref c) = Some DefinitionCapability \<and> map_of (mr_services r) (cm_Service c) \<noteq> None"
    if mem: "c \<in> set (elems (md_Capabilities (shipped_metadata t)))" for c
  proof -
    obtain i s where c: "(i, s) \<in> set (pt_capabilities t)" "c = capability_metadata (pt_pack t) (i, s)" using mem by (auto simp: metadata_sets)
    have "i \<in> set (ix_capabilities x)" "cs_service s \<in> set (ix_services x)" using c(1) exact(3) referred(1) by (auto simp: image_subset_iff)
    then show ?thesis using owned kinds(3) assms by (simp add: c(2) capability_metadata_def all_ids_def)
  qed
  then obtain m where m: "register_all (register_capability (pt_pack t) (index_kinds (pt_pack t) x)) (elems (md_Capabilities (shipped_metadata t)))
      (index_kinds (pt_pack t) x) DefinitionCapability detail r = Inr (r\<lparr>mr_caps := m\<rparr>)"
    "\<forall>c \<in> set (elems (md_Capabilities (shipped_metadata t))). map_of m (cm_Ref c) = Some (cm_Service c)"
    using register_capabilities_success [of "elems (md_Capabilities (shipped_metadata t))" "index_kinds (pt_pack t) x" "pt_pack t" r detail] exact(3)
    by (simp add: metadata_distinct metadata_lengths counts) blast
  have "map_of m (definition_ref (pt_pack t) i) = Some (definition_ref (pt_pack t) (cs_service s))" if mem: "(i, s) \<in> set (pt_capabilities t)" for i s
  proof -
    have "capability_metadata (pt_pack t) (i, s) \<in> set (elems (md_Capabilities (shipped_metadata t)))" using mem by (simp add: metadata_sets)
    from bspec [OF m(2) this] show ?thesis by (simp add: capability_metadata_def)
  qed
  with m(1) that show thesis by blast
qed

lemma operations_register:
  assumes "\<And>i s. (i, s) \<in> set (pt_capabilities t) \<Longrightarrow>
      map_of (mr_caps r) (definition_ref (pt_pack t) i) = Some (definition_ref (pt_pack t) (cs_service s))"
  obtains r' where "register_all (register_operation (pt_pack t) (index_kinds (pt_pack t) x)) (elems (md_Operations (shipped_metadata t)))
      (index_kinds (pt_pack t) x) DefinitionOperation detail r = Inr r'"
proof -
  have "(\<forall>y \<in> set (operation_refs p). metadataRefOwns (pt_pack t) y = None) \<and> map_of (index_kinds (pt_pack t) x) (om_Ref p) = Some DefinitionOperation \<and>
      map_of (index_kinds (pt_pack t) x) (om_Argument p) = Some DefinitionField \<and> map_of (index_kinds (pt_pack t) x) (om_Effect p) = Some DefinitionEffectRule \<and>
      map_of (mr_caps r) (om_Capability p) = Some (om_Service p)" if mem: "p \<in> set (elems (md_Operations (shipped_metadata t)))" for p
  proof -
    obtain i s where p: "(i, s) \<in> set (pt_operations t)" "p = operation_metadata t (i, s)" using mem by (auto simp: metadata_sets)
    have op: "i \<in> set (ix_operations x)" "op_argument s \<in> set (ix_fields x)" "op_effect s \<in> set (ix_effects x)"
        "op_capability s \<in> fst ` set (pt_capabilities t)"
      using p(1) exact(4) referred(2) by (auto simp: image_subset_iff)
    then obtain c where c: "(op_capability s, c) \<in> set (pt_capabilities t)" "map_of (pt_capabilities t) (op_capability s) = Some c"
      using exact(3) by (auto simp: map_of_eq_Some_iff)
    then have "op_capability s \<in> set (ix_capabilities x)" "cs_service c \<in> set (ix_services x)" using exact(3) referred(1) by (auto simp: image_subset_iff)
    then show ?thesis using op owned kinds(1, 4, 5) c(2) assms [OF c(1)]
      by (simp add: p(2) operation_metadata_def operation_refs_def all_ids_def)
  qed
  then show thesis
    using register_operations_success [of "elems (md_Operations (shipped_metadata t))" "index_kinds (pt_pack t) x" "pt_pack t" r detail] exact(4) that
    by (simp add: metadata_distinct metadata_lengths counts) blast
qed

lemma pack_registers:
  assumes "\<forall>d \<in> set (mr_definitions r) \<union> set (mr_units r). df_Pack d \<noteq> pt_pack t"
  shows "\<exists>r'. registerPack (shipped_metadata t) (index_of (pt_pack t) x) r = Inr r'"
proof -
  obtain r1 where r1: "fold_result (register_unit (pt_pack t)) (elems (md_Units (shipped_metadata t))) r = Inr r1"
      "set (mr_definitions r1) = definition_ref (pt_pack t) ` set (table_units t) \<union> set (mr_definitions r)"
      "definition_ref (pt_pack t) ` set (table_units t) \<subseteq> set (mr_units r1)" by (rule units_register [OF assms])
  obtain r2 where r2: "fold_result register_definition (map fst (index_kinds (pt_pack t) x)) r1 = Inr r2" "mr_units r2 = mr_units r1"
    by (rule definitions_register [OF r1(2)]) (use assms in auto)
  obtain m3 where r3: "register_all (register_field (pt_pack t) (index_kinds (pt_pack t) x)) (elems (md_Fields (shipped_metadata t)))
      (index_kinds (pt_pack t) x) DefinitionField ''metadata fields'' r2 = Inr (r2\<lparr>mr_fields := m3\<rparr>)"
    by (rule fields_register [of r2]) (use r1(3) r2(2) in simp_all)
  let ?r3 = "r2\<lparr>mr_fields := m3\<rparr>"
  obtain m4 where r4: "register_all (register_service (pt_pack t) (index_kinds (pt_pack t) x)) (elems (md_Services (shipped_metadata t)))
      (index_kinds (pt_pack t) x) DefinitionService ''metadata services'' ?r3 = Inr (?r3\<lparr>mr_services := m4\<rparr>)"
      "\<And>i. i \<in> set (ix_services x) \<Longrightarrow> map_of m4 (definition_ref (pt_pack t) i) \<noteq> None" by (rule services_register [of "''metadata services''" ?r3]) blast
  let ?r4 = "?r3\<lparr>mr_services := m4\<rparr>"
  obtain m5 where r5: "register_all (register_capability (pt_pack t) (index_kinds (pt_pack t) x)) (elems (md_Capabilities (shipped_metadata t)))
      (index_kinds (pt_pack t) x) DefinitionCapability ''metadata capabilities'' ?r4 = Inr (?r4\<lparr>mr_caps := m5\<rparr>)"
      "\<And>i s. (i, s) \<in> set (pt_capabilities t) \<Longrightarrow> map_of m5 (definition_ref (pt_pack t) i) = Some (definition_ref (pt_pack t) (cs_service s))"
    by (rule capabilities_register [of ?r4 "''metadata capabilities''"]) (use r4(2) in auto)
  let ?r5 = "?r4\<lparr>mr_caps := m5\<rparr>"
  obtain r6 where r6: "register_all (register_operation (pt_pack t) (index_kinds (pt_pack t) x)) (elems (md_Operations (shipped_metadata t)))
      (index_kinds (pt_pack t) x) DefinitionOperation ''metadata operations'' ?r5 = Inr r6"
    by (rule operations_register [of ?r5 "''metadata operations''"]) (use r5(2) in simp_all)
  then have "registerPack (shipped_metadata t) (index_of (pt_pack t) x) r = Inr r6"
    by (simp add: registerPack_def Let_def metadata_sets(6) collect_index_of [OF units_apart(2)] r1 r2 r3 r4 r5 and_then_def)
  then show ?thesis by blast
qed

lemma references_valid: "validatePackMetadataReferences (shipped_metadata t) = None"
proof -
  let ?owns = "metadataRefOwns (pt_pack t)"
  have pack: "PackRef_Validate (pt_pack t) = None" using table_ok by (simp add: consistent_def)
  have units: "?owns u = None" if "u \<in> set (elems (md_Units (shipped_metadata t)))" for u
    using that owned by (auto simp: metadata_sets other_ids_def)
  have fields: "?owns (fm_Ref f) = None \<and> ?owns (fm_Dimension f) = None \<and> opt_err ?owns (fm_CanonicalUnit f) = None"
    if mem: "f \<in> set (elems (md_Fields (shipped_metadata t)))" for f
  proof -
    obtain s where s: "s \<in> set (pt_fields t)" "f = field_metadata (pt_pack t) s" using mem by (auto simp: metadata_sets)
    have "fs_id s \<in> set (ix_fields x)" "fs_dimension s \<in> set (other_ids t)" "fs_unit s \<noteq> [] \<Longrightarrow> fs_unit s \<in> set (table_units t)"
      using s(1) exact(1) by (auto simp: other_ids_def table_units_def)
    then show ?thesis using owned by (simp add: s(2) field_metadata_def all_ids_def other_ids_def opt_err_def)
  qed
  have services: "?owns (sm_Ref f) = None \<and> ?owns (sm_FactKeyDimension f) = None" if mem: "f \<in> set (elems (md_Services (shipped_metadata t)))" for f
  proof -
    obtain i d where f: "(i, d) \<in> set (pt_services t)" "f = service_metadata (pt_pack t) (i, d)" using mem by (auto simp: metadata_sets)
    have "i \<in> set (ix_services x)" "d \<in> set (other_ids t)" using f(1) exact(2) by (auto simp: other_ids_def) force+
    then show ?thesis using owned by (simp add: f(2) service_metadata_def all_ids_def)
  qed
  have caps: "?owns (cm_Ref f) = None \<and> ?owns (cm_Service f) = None" if mem: "f \<in> set (elems (md_Capabilities (shipped_metadata t)))" for f
  proof -
    obtain i s where f: "(i, s) \<in> set (pt_capabilities t)" "f = capability_metadata (pt_pack t) (i, s)" using mem by (auto simp: metadata_sets)
    have "i \<in> set (ix_capabilities x)" "cs_service s \<in> set (ix_services x)" using f(1) exact(3) referred(1) by (auto simp: image_subset_iff)
    then show ?thesis using owned by (simp add: f(2) capability_metadata_def all_ids_def)
  qed
  have ops: "?owns y = None" if p: "p \<in> set (elems (md_Operations (shipped_metadata t)))" "y \<in> set (operation_refs p)" for p y
  proof -
    obtain i s where s: "(i, s) \<in> set (pt_operations t)" "p = operation_metadata t (i, s)" using p(1) by (auto simp: metadata_sets)
    obtain c where c: "(op_capability s, c) \<in> set (pt_capabilities t)" "map_of (pt_capabilities t) (op_capability s) = Some c"
      using referred(2) [OF s(1)] exact(3) by (auto simp: map_of_eq_Some_iff)
    have "i \<in> set (ix_operations x)" "op_capability s \<in> set (ix_capabilities x)" using s(1) c(1) exact(3, 4) by (auto simp: image_subset_iff)
    then show ?thesis using p(2) s c owned referred(2) [OF s(1)] referred(1) [OF c(1)]
      by (auto simp: operation_metadata_def operation_refs_def all_ids_def)
  qed
  show ?thesis using pack units fields services caps ops
    by (simp add: validatePackMetadataReferences_def metadata_sets(6) Let_def ball_Un)
qed

lemma source_registers:
  assumes "closed_registry r" "pt_pack t \<notin> set (mr_packs r)" "pv_Pack v = pt_pack t" "pv_Definitions v = index_of (pt_pack t) x"
    and "DefinitionIndex_Validate (index_of (pt_pack t) x) = None"
  shows "\<exists>r'. register_source (shipped_source v (pack_Metadata t)) r = Inr r' \<and> closed_registry r' \<and> mr_packs r' = mr_packs r @ [pt_pack t]"
proof -
  have ok: "metadata_ok (mr_packs r) (set (mr_packs r)) (set (mr_packs r)) r" using assms(1) by (simp add: closed_registry_def)
  have "\<forall>d \<in> set (mr_definitions r) \<union> set (mr_units r). df_Pack d \<noteq> pt_pack t"
  proof
    fix d assume "d \<in> set (mr_definitions r) \<union> set (mr_units r)"
    then have "d \<in> set (mr_definitions r)" using metadata_okD(2) [OF ok] by auto
    then have "df_Pack d \<in> set (mr_packs r)" using metadata_okD(1) [OF ok] by auto
    then show "df_Pack d \<noteq> pt_pack t" using assms(2) by auto
  qed
  then obtain r1 where r1: "registerPack (shipped_metadata t) (index_of (pt_pack t) x) r = Inr r1" using pack_registers by blast
  have "mr_packs r1 = mr_packs r" using registerPack_ok [OF r1 ok] assms(2) by (simp add: metadata_sets(6) metadata_ok_def)
  moreover have "dx_Pack (index_of (pt_pack t) x) = pt_pack t" by (simp add: index_of_def pack_index_def Let_def)
  moreover have "PackRef_Validate (pt_pack t) = None" using table_ok by (simp add: consistent_def)
  ultimately have checks: "first_error
        [validatePackMetadataReferences (shipped_metadata t),
         check_err (validatePackMetadataReferences (shipped_metadata t) \<noteq> None \<or> md_Pack (shipped_metadata t) \<noteq> pv_Pack v) DefinitionOwnerConflict ''validator metadata'',
         bestError [PackRef_Validate (md_Pack (shipped_metadata t)), DefinitionIndex_Validate (pv_Definitions v)],
         check_err (md_Pack (shipped_metadata t) \<noteq> pv_Pack v \<or> dx_Pack (pv_Definitions v) \<noteq> md_Pack (shipped_metadata t)) DefinitionOwnerConflict ''metadata validator pack'',
         check_err (md_Pack (shipped_metadata t) \<in> set (mr_packs r)) DefinitionOwnerConflict ''duplicate metadata pack'',
         check_err (shipped_metadata t \<noteq> shipped_metadata t) DefinitionOwnerConflict ''metadata differs from validator tables''] = None"
    and packs: "mr_packs r1 = mr_packs r"
    using references_valid assms(2-5) by (simp_all add: metadata_sets(6))
  have "register_source (shipped_source v (pack_Metadata t)) r = Inr (r1\<lparr>mr_packs := mr_packs r @ [pt_pack t]\<rparr>)"
    unfolding register_source_def shipped_source_def PackMetadataSource.select_convs option.case Let_def ensure_None [OF checks]
    by (simp add: assms(4) r1 and_then_def metadata_sets(6) packs)
  with register_source_ok assms(1) show ?thesis by fastforce
qed

end

end
