(* ===== verification/Projection.thy ===== *)
theory Projection
  imports Snapshot Registry
begin

text \<open>
  \<^verbatim>\<open>projection/types.go\<close>, \<^verbatim>\<open>validation.go\<close> and \<^verbatim>\<open>project.go\<close>: reports that account for every
  requested item of a target, bound to one snapshot, and compatibility aliases. A report is detached
  by writing its canonical JSON and decoding it again; the decoder is not modelled and the detached
  report is the report.
\<close>

section \<open>Records\<close>

definition ContractProjectionV1 :: ContractVersion where
  "ContractProjectionV1 = ''helianthus.semantic.projection/v1''"

definition ContractAliasV1 :: ContractVersion where
  "ContractAliasV1 = ''helianthus.semantic.alias/v1''"

datatype ItemKind = ItemFact | ItemRelation | ItemCapability | ItemOperation | ItemKindOther string

datatype LossKind = LossUnit | LossRange | LossPrecision | LossTime | LossSymbol | LossProvenance
  | LossIdentity | LossCapability | LossOperation | LossPolicy | LossKindOther string

datatype ProjectionOutcome = ProjectionExact | ProjectionTransformed | ProjectionWithheld
  | ProjectionUnrepresentable | ProjectionUnsupported | ProjectionUnknown | ProjectionOutcomeOther string

record ProjectionManifest =
  mf_TargetID :: TargetID
  mf_TargetVersion :: VersionLabel
  mf_KernelVersion :: ContractVersion
  mf_PackVersions :: "PackRef slice"
  mf_MappingRevision :: Uint64

record RequestedItem =
  rq_ItemID :: DefinitionID
  rq_Kind :: ItemKind

record LossDetail =
  ld_Kind :: LossKind
  ld_SourceItems :: "DefinitionID slice"
  ld_Description :: string
  ld_Reversible :: bool

record ProjectionDisposition =
  pd_Kind :: ItemKind
  pd_ItemID :: DefinitionID
  pd_Outcome :: ProjectionOutcome
  pd_SourceKeys :: "FactKey slice"
  pd_Loss :: "LossDetail slice"
  pd_Reason :: "DefinitionID option"

record ProjectionReport =
  pj_Contract :: ContractVersion
  pj_Manifest :: ProjectionManifest
  pj_SnapshotID :: SnapshotID
  pj_Revisions :: RevisionVector
  pj_Requested :: "RequestedItem slice"
  pj_Dispositions :: "ProjectionDisposition slice"
  pj_Causal :: "CausalContext option"

record CompatibilityAlias =
  al_AliasContract :: ContractVersion
  al_LegacyID :: OpaqueID
  al_AssetID :: AssetID
  al_ValidFrom :: SemanticVersion
  al_ValidUntil :: "SemanticVersion option"
  al_Routable :: bool
  al_Evidence :: "EvidenceRef slice"

fun ItemKind_string :: "ItemKind \<Rightarrow> string" where
  "ItemKind_string ItemFact = ''fact''"
| "ItemKind_string ItemRelation = ''relation''"
| "ItemKind_string ItemCapability = ''capability''"
| "ItemKind_string ItemOperation = ''operation''"
| "ItemKind_string (ItemKindOther s) = s"

fun LossKind_string :: "LossKind \<Rightarrow> string" where
  "LossKind_string LossUnit = ''unit''"
| "LossKind_string LossRange = ''range''"
| "LossKind_string LossPrecision = ''precision''"
| "LossKind_string LossTime = ''time''"
| "LossKind_string LossSymbol = ''symbol''"
| "LossKind_string LossProvenance = ''provenance''"
| "LossKind_string LossIdentity = ''identity''"
| "LossKind_string LossCapability = ''capability''"
| "LossKind_string LossOperation = ''operation''"
| "LossKind_string LossPolicy = ''policy''"
| "LossKind_string (LossKindOther s) = s"

fun ProjectionOutcome_string :: "ProjectionOutcome \<Rightarrow> string" where
  "ProjectionOutcome_string ProjectionExact = ''exact''"
| "ProjectionOutcome_string ProjectionTransformed = ''transformed''"
| "ProjectionOutcome_string ProjectionWithheld = ''withheld''"
| "ProjectionOutcome_string ProjectionUnrepresentable = ''unrepresentable''"
| "ProjectionOutcome_string ProjectionUnsupported = ''unsupported''"
| "ProjectionOutcome_string ProjectionUnknown = ''unknown''"
| "ProjectionOutcome_string (ProjectionOutcomeOther s) = s"

section \<open>Encoding\<close>

definition json_of_ProjectionManifest :: "ProjectionManifest \<Rightarrow> json" where
  "json_of_ProjectionManifest x = JObject
    [(''target_id'', jstr (mf_TargetID x)),
     (''target_version'', jstr (mf_TargetVersion x)),
     (''kernel_version'', jstr (mf_KernelVersion x)),
     (''pack_versions'', jslice json_of_PackRef (mf_PackVersions x)),
     (''mapping_revision'', jstr (mf_MappingRevision x))]"

definition json_of_RequestedItem :: "RequestedItem \<Rightarrow> json" where
  "json_of_RequestedItem x = JObject
    [(''item_id'', jstr (rq_ItemID x)), (''kind'', jstr (ItemKind_string (rq_Kind x)))]"

definition json_of_LossDetail :: "LossDetail \<Rightarrow> json" where
  "json_of_LossDetail x = JObject
    [(''kind'', jstr (LossKind_string (ld_Kind x))),
     (''source_items'', jslice jstr (ld_SourceItems x)),
     (''description'', jstr (ld_Description x)),
     (''reversible'', JBool (ld_Reversible x))]"

definition json_of_ProjectionDisposition :: "ProjectionDisposition \<Rightarrow> json" where
  "json_of_ProjectionDisposition x = JObject
    ([(''kind'', jstr (ItemKind_string (pd_Kind x))),
      (''item_id'', jstr (pd_ItemID x)),
      (''outcome'', jstr (ProjectionOutcome_string (pd_Outcome x))),
      (''source_keys'', jslice json_of_FactKey (pd_SourceKeys x)),
      (''loss'', jslice json_of_LossDetail (pd_Loss x))] @
     member_opt ''reason'' jstr (pd_Reason x))"

definition json_of_ProjectionReport :: "ProjectionReport \<Rightarrow> json" where
  "json_of_ProjectionReport x = JObject
    ([(''contract'', jstr (pj_Contract x)),
      (''manifest'', json_of_ProjectionManifest (pj_Manifest x)),
      (''snapshot_id'', jstr (pj_SnapshotID x)),
      (''revisions'', json_of_RevisionVector (pj_Revisions x)),
      (''requested'', jslice json_of_RequestedItem (pj_Requested x)),
      (''dispositions'', jslice json_of_ProjectionDisposition (pj_Dispositions x))] @
     member_opt ''causal'' json_of_CausalContext (pj_Causal x))"

section \<open>Error ranking\<close>

fun projectionErrorRank :: "ErrorID \<Rightarrow> nat option" where
  "projectionErrorRank InvalidJSON = Some 1" | "projectionErrorRank DuplicateKey = Some 2"
| "projectionErrorRank InvalidContract = Some 3" | "projectionErrorRank MissingMember = Some 4"
| "projectionErrorRank UnknownMember = Some 5" | "projectionErrorRank InvalidIdentifier = Some 6"
| "projectionErrorRank InvalidDecimal = Some 7" | "projectionErrorRank InvalidValue = Some 8"
| "projectionErrorRank InvalidTime = Some 9" | "projectionErrorRank InvalidEvidence = Some 10"
| "projectionErrorRank InvalidEnum = Some 11" | "projectionErrorRank BoundsExceeded = Some 12"
| "projectionErrorRank NoncanonicalOrder = Some 13" | "projectionErrorRank DigestMismatch = Some 14"
| "projectionErrorRank DanglingReference = Some 15" | "projectionErrorRank DerivationCycle = Some 16"
| "projectionErrorRank StaleSourceEpoch = Some 17" | "projectionErrorRank StaleDriverGeneration = Some 18"
| "projectionErrorRank SequenceConflict = Some 19" | "projectionErrorRank RevisionConflict = Some 20"
| "projectionErrorRank IncomparableClockEpoch = Some 21"
| "projectionErrorRank GenerationTransitionIncomplete = Some 22"
| "projectionErrorRank DefinitionOwnerConflict = Some 23" | "projectionErrorRank DefinitionOwnerMissing = Some 24"
| "projectionErrorRank IdentityNotQualified = Some 25" | "projectionErrorRank CapabilityNotQualified = Some 26"
| "projectionErrorRank CapabilityUnavailable = Some 27" | "projectionErrorRank AuthorityMissing = Some 28"
| "projectionErrorRank DeadlineExpired = Some 29" | "projectionErrorRank PreconditionFailed = Some 30"
| "projectionErrorRank RouteSelectionForbidden = Some 31" | "projectionErrorRank AmbiguousRoute = Some 32"
| "projectionErrorRank RetryForbidden = Some 33" | "projectionErrorRank InvalidOutcome = Some 34"
| "projectionErrorRank EchoSuppressed = Some 35" | "projectionErrorRank CausalBudgetExceeded = Some 36"
| "projectionErrorRank ProjectionIncomplete = Some 37" | "projectionErrorRank AliasNotRoutable = Some 38"
| "projectionErrorRank (OtherErrorID _) = None"

definition ranked :: "err list \<Rightarrow> err" where
  "ranked errs = best_loop (rank_with projectionErrorRank) None max_int errs"

lemma projectionErrorRank_errorRanks: "projectionErrorRank = errorRanks"
proof
  fix x show "projectionErrorRank x = errorRanks x" by (cases x) simp_all
qed

lemma ranked_bestError: "ranked = bestError"
  by (rule ext) (simp add: ranked_def bestError_def projectionErrorRank_errorRanks)

lemma ranked_None [simp]: "ranked es = None \<longleftrightarrow> (\<forall>e \<in> set es. e = None)"
  by (simp add: ranked_bestError best.pick_None_iff)

section \<open>Ordered collections\<close>

fun ordered_loop :: "('a \<Rightarrow> string option) \<Rightarrow> string list \<Rightarrow> string option \<Rightarrow> bool \<Rightarrow> bool \<Rightarrow> 'a list \<Rightarrow> bool \<times> bool" where
  "ordered_loop key seen previous duplicate ordered [] = (duplicate, ordered)"
| "ordered_loop key seen previous duplicate ordered (item # items) = (case key item of
     None \<Rightarrow> ordered_loop key seen previous duplicate ordered items
   | Some current \<Rightarrow>
       ordered_loop key (current # seen) (Some current) (duplicate \<or> current \<in> set seen)
         (ordered \<and> (case previous of None \<Rightarrow> True | Some p \<Rightarrow> \<not> string_compare p current > 0)) items)"

text \<open>A key is \<open>None\<close> for an item that takes no part because it is invalid.\<close>

definition orderedValid :: "('a \<Rightarrow> string option) \<Rightarrow> 'a list \<Rightarrow> bool \<times> bool" where
  "orderedValid key items = (if length items < 2 then (False, True) else ordered_loop key [] None False True items)"

definition orderedDefinitionIDs :: "DefinitionID slice \<Rightarrow> bool \<times> bool" where
  "orderedDefinitionIDs items = orderedValid (\<lambda>i. if DefinitionID_Validate i = None then Some i else None) (elems items)"

definition tuple_key :: "ItemKind \<Rightarrow> DefinitionID \<Rightarrow> string" where
  "tuple_key kind i = ItemKind_string kind @ nul # i"

definition ItemKind_Validate :: "ItemKind \<Rightarrow> err" where
  "ItemKind_Validate k = check_err (k \<notin> {ItemFact, ItemRelation, ItemCapability, ItemOperation}) InvalidEnum ''projection item kind''"

definition LossKind_Validate :: "LossKind \<Rightarrow> err" where
  "LossKind_Validate k = (case k of LossKindOther _ \<Rightarrow> Some (errID InvalidEnum ''projection loss kind'') | _ \<Rightarrow> None)"

definition ProjectionOutcome_Validate :: "ProjectionOutcome \<Rightarrow> err" where
  "ProjectionOutcome_Validate v = (case v of ProjectionOutcomeOther _ \<Rightarrow> Some (errID InvalidEnum ''projection outcome'') | _ \<Rightarrow> None)"

definition orderedRequested :: "RequestedItem slice \<Rightarrow> bool \<times> bool" where
  "orderedRequested items = orderedValid (\<lambda>x. if ItemKind_Validate (rq_Kind x) = None \<and> DefinitionID_Validate (rq_ItemID x) = None
     then Some (tuple_key (rq_Kind x) (rq_ItemID x)) else None) (elems items)"

definition orderedDispositions :: "ProjectionDisposition slice \<Rightarrow> bool \<times> bool" where
  "orderedDispositions items = orderedValid (\<lambda>x. if ItemKind_Validate (pd_Kind x) = None \<and> DefinitionID_Validate (pd_ItemID x) = None
     then Some (tuple_key (pd_Kind x) (pd_ItemID x)) else None) (elems items)"

definition orderedEvidence :: "EvidenceRef slice \<Rightarrow> bool \<times> bool" where
  "orderedEvidence items = orderedValid (\<lambda>e.
     if DefinitionID_Validate (ev_Owner e) = None \<and> DefinitionID_Validate (ev_Kind e) = None \<and>
        ContractVersion_Validate (ev_Contract e) = None \<and> Digest_Validate (ev_Digest e) = None
     then Some (ev_Owner e @ nul # ev_Kind e @ nul # ev_Contract e @ nul # ev_Digest e) else None) (elems items)"

definition orderedFactKeys :: "env \<Rightarrow> FactKey slice \<Rightarrow> bool \<times> bool" where
  "orderedFactKeys E items = orderedValid (\<lambda>k. case CanonicalJSON (FactKey_Validate E) json_of_FactKey k of
     Inl _ \<Rightarrow> None | Inr s \<Rightarrow> Some s) (elems items)"

text \<open>The text of a loss detail: \<^verbatim>\<open>validatePublicText\<close> has no length bound.\<close>

definition validatePublicText :: "env \<Rightarrow> string \<Rightarrow> err" where
  "validatePublicText E s =
     (if \<not> utf8_valid s \<or> \<not> nfc_normal E s then Some (errID InvalidValue ''loss description'')
      else check_err (list_ex (\<lambda>r. case r of None \<Rightarrow> False | Some r \<Rightarrow> is_control r) (runes s)) InvalidValue ''loss description'')"

definition maxLossSourceItems :: nat where "maxLossSourceItems = 32"
definition maxProjectionPacks :: nat where "maxProjectionPacks = 256"
definition maxProjectionItems :: nat where "maxProjectionItems = 4096"
definition maxDispositionSourceKeys :: nat where "maxDispositionSourceKeys = 32"
definition maxLossDetails :: nat where "maxLossDetails = 32"

text \<open>\<^verbatim>\<open>json.Marshal\<close> of identifiers that are valid, and so need no escapes.\<close>

fun joined :: "string list \<Rightarrow> string" where
  "joined [] = []"
| "joined [x] = CHR 0x22 # x @ [CHR 0x22]"
| "joined (x # xs) = CHR 0x22 # x @ [CHR 0x22] @ '','' @ joined xs"

definition marshal_ids :: "DefinitionID list \<Rightarrow> string" where
  "marshal_ids xs = ''['' @ joined xs @ '']''"

definition loss_key :: "env \<Rightarrow> LossDetail \<Rightarrow> string option" where
  "loss_key E l =
     (let (duplicate, ordered) = orderedDefinitionIDs (ld_SourceItems l) in
      if LossKind_Validate (ld_Kind l) = None \<and> ld_SourceItems l \<noteq> None \<and> length (elems (ld_SourceItems l)) \<le> maxLossSourceItems \<and>
         (\<forall>i \<in> set (elems (ld_SourceItems l)). DefinitionID_Validate i = None) \<and> \<not> duplicate \<and> ordered \<and>
         validatePublicText E (ld_Description l) = None
      then Some (LossKind_string (ld_Kind l) @ nul # marshal_ids (elems (ld_SourceItems l)) @ nul # ld_Description l) else None)"

definition orderedLossDetails :: "env \<Rightarrow> LossDetail slice \<Rightarrow> bool \<times> bool" where
  "orderedLossDetails E items = orderedValid (loss_key E) (elems items)"

text \<open>The version comparison of this package falls back to text where a part is not a number.\<close>

fun semver_parts :: "(string \<times> string) list \<Rightarrow> int option" where
  "semver_parts [] = Some 0"
| "semver_parts ((a, b) # ps) = (case (SetString10 a, SetString10 b) of
     (Some an, Some bn) \<Rightarrow> if int_cmp an bn < 0 then Some (-1) else if int_cmp an bn > 0 then Some 1 else semver_parts ps
   | _ \<Rightarrow> None)"

definition projection_compareSemver :: "SemanticVersion \<Rightarrow> SemanticVersion \<Rightarrow> int" where
  "projection_compareSemver l r =
     (if length (split_dots l) \<noteq> 3 \<or> length (split_dots r) \<noteq> 3 then string_compare l r
      else case semver_parts (zip (split_dots l) (split_dots r)) of None \<Rightarrow> string_compare l r | Some n \<Rightarrow> n)"

fun packs_loop :: "string list \<Rightarrow> PackRef option \<Rightarrow> bool \<Rightarrow> bool \<Rightarrow> PackRef list \<Rightarrow> bool \<times> bool" where
  "packs_loop seen previous duplicate ordered [] = (duplicate, ordered)"
| "packs_loop seen previous duplicate ordered (p # ps) =
     (if PackRef_Validate p \<noteq> None then packs_loop seen previous duplicate ordered ps
      else let key = pk_ID p @ nul # pk_Version p in
        packs_loop (key # seen) (Some p) (duplicate \<or> key \<in> set seen)
          (ordered \<and> (case previous of
             None \<Rightarrow> True
           | Some q \<Rightarrow> \<not> (if string_compare (pk_ID q) (pk_ID p) = 0 then projection_compareSemver (pk_Version q) (pk_Version p)
               else string_compare (pk_ID q) (pk_ID p)) > 0)) ps)"

definition orderedPacks :: "PackRef slice \<Rightarrow> bool \<times> bool" where
  "orderedPacks items = (if length (elems items) < 2 then (False, True) else packs_loop [] None False True (elems items))"

text \<open>The error a pair of flags stands for.\<close>

definition order_error :: "bool \<times> bool \<Rightarrow> ErrorID \<Rightarrow> string \<Rightarrow> err" where
  "order_error flags dup detail = (case flags of (duplicate, ordered) \<Rightarrow>
     if duplicate then Some (errID dup detail) else check_err (\<not> ordered) NoncanonicalOrder detail)"

section \<open>Validation\<close>

definition ProjectionManifest_Validate :: "ProjectionManifest \<Rightarrow> err" where
  "ProjectionManifest_Validate m = ranked
     ([validateOpaqueValue (mf_TargetID m) ''target id'', VersionLabel_Validate (mf_TargetVersion m),
       ContractVersion_Validate (mf_KernelVersion m), Uint64_Validate (mf_MappingRevision m),
       check_err (mf_KernelVersion m \<noteq> ContractKernelV1) InvalidContract ''projection kernel version'',
       check_err (mf_PackVersions m = None) MissingMember ''pack versions'',
       check_err (length (elems (mf_PackVersions m)) > maxProjectionPacks) BoundsExceeded ''pack versions''] @
      map PackRef_Validate (elems (mf_PackVersions m)) @
      [order_error (orderedPacks (mf_PackVersions m)) DuplicateKey ''pack versions''])"

definition RequestedItem_Validate :: "RequestedItem \<Rightarrow> err" where
  "RequestedItem_Validate r = ranked [DefinitionID_Validate (rq_ItemID r), ItemKind_Validate (rq_Kind r)]"

definition LossDetail_Validate :: "env \<Rightarrow> LossDetail \<Rightarrow> err" where
  "LossDetail_Validate E l = ranked
     ([LossKind_Validate (ld_Kind l), validatePublicText E (ld_Description l),
       check_err (ld_SourceItems l = None) MissingMember ''loss source items'',
       check_err (length (elems (ld_SourceItems l)) > maxLossSourceItems) BoundsExceeded ''loss source items''] @
      map DefinitionID_Validate (elems (ld_SourceItems l)) @
      [order_error (orderedDefinitionIDs (ld_SourceItems l)) DuplicateKey ''loss source items''])"

definition disposition_outcome_errors :: "ProjectionDisposition \<Rightarrow> err list" where
  "disposition_outcome_errors d =
     [check_err (pd_Outcome d = ProjectionExact \<and> elems (pd_Loss d) \<noteq> []) ProjectionIncomplete ''exact projection loss'',
      check_err (pd_Outcome d = ProjectionTransformed \<and> elems (pd_Loss d) = []) ProjectionIncomplete ''transformed projection loss'',
      check_err (pd_Outcome d \<in> {ProjectionWithheld, ProjectionUnrepresentable, ProjectionUnsupported, ProjectionUnknown} \<and>
        pd_Reason d = None) ProjectionIncomplete ''projection reason'',
      opt_err DefinitionID_Validate (pd_Reason d)]"

definition ProjectionDisposition_Validate :: "env \<Rightarrow> ProjectionDisposition \<Rightarrow> err" where
  "ProjectionDisposition_Validate E d = ranked
     ([ItemKind_Validate (pd_Kind d), DefinitionID_Validate (pd_ItemID d), ProjectionOutcome_Validate (pd_Outcome d),
       check_err (pd_SourceKeys d = None) MissingMember ''projection source keys'',
       check_err (pd_Loss d = None) MissingMember ''projection loss'',
       check_err (length (elems (pd_SourceKeys d)) > maxDispositionSourceKeys \<or> length (elems (pd_Loss d)) > maxLossDetails)
         BoundsExceeded ''projection disposition''] @
      map (FactKey_Validate E) (elems (pd_SourceKeys d)) @ map (LossDetail_Validate E) (elems (pd_Loss d)) @
      [order_error (orderedFactKeys E (pd_SourceKeys d)) DuplicateKey ''projection source keys'',
       order_error (orderedLossDetails E (pd_Loss d)) DuplicateKey ''projection loss''] @
      disposition_outcome_errors d)"

text \<open>Every requested tuple has one disposition: the requested keys, without repetition, are removed one by
  one by the dispositions.\<close>

fun requested_keys :: "string list \<Rightarrow> RequestedItem list \<Rightarrow> string list option" where
  "requested_keys seen [] = Some seen"
| "requested_keys seen (r # rs) =
     (let key = tuple_key (rq_Kind r) (rq_ItemID r) in
      if key \<in> set seen then None else requested_keys (key # seen) rs)"

fun account :: "string list \<Rightarrow> ProjectionDisposition list \<Rightarrow> bool" where
  "account seen [] \<longleftrightarrow> seen = []"
| "account seen (d # ds) \<longleftrightarrow>
     (let key = tuple_key (pd_Kind d) (pd_ItemID d) in key \<in> set seen \<and> account (removeAll key seen) ds)"

definition sameRequestedTuples :: "RequestedItem slice \<Rightarrow> ProjectionDisposition slice \<Rightarrow> bool" where
  "sameRequestedTuples requested dispositions \<longleftrightarrow>
     length (elems requested) = length (elems dispositions) \<and>
     (case requested_keys [] (elems requested) of None \<Rightarrow> False | Some seen \<Rightarrow> account seen (elems dispositions))"

definition ProjectionReport_Validate :: "env \<Rightarrow> ProjectionReport \<Rightarrow> err" where
  "ProjectionReport_Validate E r = ranked
     ([ProjectionManifest_Validate (pj_Manifest r), validateOpaqueValue (pj_SnapshotID r) ''snapshot id'',
       RevisionVector_Validate (pj_Revisions r),
       check_err (pj_Contract r \<noteq> ContractProjectionV1) InvalidContract ''projection report'',
       check_err (pj_Requested r = None) MissingMember ''requested'',
       check_err (pj_Dispositions r = None) MissingMember ''dispositions'',
       check_err (length (elems (pj_Requested r)) > maxProjectionItems \<or> length (elems (pj_Dispositions r)) > maxProjectionItems)
         BoundsExceeded ''projection items''] @
      map RequestedItem_Validate (elems (pj_Requested r)) @
      map (ProjectionDisposition_Validate E) (elems (pj_Dispositions r)) @
      [order_error (orderedRequested (pj_Requested r)) ProjectionIncomplete ''requested tuples'',
       order_error (orderedDispositions (pj_Dispositions r)) ProjectionIncomplete ''projection dispositions'',
       check_err (\<not> sameRequestedTuples (pj_Requested r) (pj_Dispositions r)) ProjectionIncomplete ''projection tuple accounting'',
       opt_err CausalContext_Validate (pj_Causal r)])"

definition CompatibilityAlias_Validate :: "CompatibilityAlias \<Rightarrow> err" where
  "CompatibilityAlias_Validate a = ranked
     ([validateOpaqueValue (al_LegacyID a) ''opaque id'', validateOpaqueValue (al_AssetID a) ''asset id'',
       SemanticVersion_Validate (al_ValidFrom a),
       check_err (al_AliasContract a \<noteq> ContractAliasV1) InvalidContract ''compatibility alias'',
       check_err (al_Evidence a = None) MissingMember ''alias evidence'',
       check_err (length (elems (al_Evidence a)) > 32) BoundsExceeded ''alias evidence''] @
      map validateEvidence (elems (al_Evidence a)) @
      [check_err (elems (al_Evidence a) = []) BoundsExceeded ''alias evidence'',
       order_error (orderedEvidence (al_Evidence a)) DuplicateKey ''alias evidence'',
       opt_err SemanticVersion_Validate (al_ValidUntil a),
       opt_err (\<lambda>until. check_err (SemanticVersion_Validate (al_ValidFrom a) = None \<and> SemanticVersion_Validate until = None \<and>
         projection_compareSemver (al_ValidFrom a) until \<ge> 0) InvalidValue ''alias validity interval'') (al_ValidUntil a),
       check_err (al_Routable a) AliasNotRoutable ''compatibility alias''])"

section \<open>Reports of a snapshot\<close>

definition resolvable_keys :: "env \<Rightarrow> Snapshot \<Rightarrow> string list" where
  "resolvable_keys E s = List.map_filter (\<lambda>e. case CanonicalJSON (FactKey_Validate E) json_of_FactKey (fe_Key e) of
     Inl _ \<Rightarrow> None | Inr text \<Rightarrow> Some text) (elems (sn_Facts s))"

definition sourceResolutionError :: "env \<Rightarrow> Snapshot \<Rightarrow> ProjectionDisposition list \<Rightarrow> err" where
  "sourceResolutionError E s dispositions = first_error (concat (map (\<lambda>d. map (\<lambda>k.
     case CanonicalJSON (FactKey_Validate E) json_of_FactKey k of
       Inl _ \<Rightarrow> None
     | Inr text \<Rightarrow> check_err (text \<notin> set (resolvable_keys E s)) DanglingReference ''projection source key'')
     (elems (pd_SourceKeys d))) dispositions))"

definition detached :: "env \<Rightarrow> ProjectionReport \<Rightarrow> error + ProjectionReport" where
  "detached E r = (case CanonicalJSON (ProjectionReport_Validate E) json_of_ProjectionReport r of Inl e \<Rightarrow> Inl e | Inr _ \<Rightarrow> Inr r)"

definition Project :: "env \<Rightarrow> Snapshot \<Rightarrow> ProjectionManifest \<Rightarrow> RequestedItem slice \<Rightarrow> ProjectionDisposition slice \<Rightarrow>
    CausalContext option \<Rightarrow> error + ProjectionReport" where
  "Project E s manifest requested dispositions causal =
     (let report = \<lparr>pj_Contract = ContractProjectionV1, pj_Manifest = manifest, pj_SnapshotID = sn_SnapshotID s,
            pj_Revisions = sn_Revisions s, pj_Requested = requested, pj_Dispositions = dispositions, pj_Causal = causal\<rparr>
      in case ranked [Snapshot_Validate E s, ProjectionReport_Validate E report, sourceResolutionError E s (elems dispositions)] of
           Some e \<Rightarrow> Inl e
         | None \<Rightarrow> detached E report)"

definition ValidateReport :: "env \<Rightarrow> Snapshot \<Rightarrow> ProjectionReport \<Rightarrow> error + ProjectionReport" where
  "ValidateReport E s report =
     (case ranked [Snapshot_Validate E s, ProjectionReport_Validate E report,
         (if sn_SnapshotID s \<noteq> pj_SnapshotID report then Some (errID DanglingReference ''projection snapshot'')
          else check_err (sn_Revisions s \<noteq> pj_Revisions report) RevisionConflict ''projection revisions''),
         sourceResolutionError E s (elems (pj_Dispositions report))] of
        Some e \<Rightarrow> Inl e
      | None \<Rightarrow> detached E report)"

end
