(* ===== verification/Pack_Availability.thy ===== *)
theory Pack_Availability
  imports Projection Pack_Metadata Evaluation
begin

text \<open>
  \<^verbatim>\<open>projection/availability.go\<close>: the read view that sorts the services, capabilities, facts and
  retained observations of a snapshot into one row for each of the five built-in packs. The deep
  copies through the wire codec are the values themselves; a canonical text that cannot be written
  is an error.
\<close>

section \<open>Records\<close>

record AvailabilityFact =
  af_Envelope :: FactEnvelope
  af_Evaluation :: "EvaluatedFact list"

record PackAvailability =
  pa_Pack :: PackRef
  pa_Services :: "ServiceInstance list"
  pa_Capabilities :: "CapabilityInstance list"
  pa_Facts :: "AvailabilityFact list"
  pa_Retained :: "EvaluatedRetainedObservation list"

record PackAvailabilityView =
  av_AssetID :: AssetID
  av_SnapshotID :: SnapshotID
  av_Revisions :: RevisionVector
  av_Context :: EvaluationContext
  av_EvaluationDigest :: Digest
  av_Packs :: "PackAvailability list"

section \<open>The built-in validators\<close>

definition builtin_validators :: "env \<Rightarrow> (PackRef, PackValidator \<times> PackMetadata) gomap" where
  "builtin_validators E = foldl (\<lambda>m (v, d). AList.update (pv_Pack v) (v, d) m) []
     [(thermal_New E, thermal_Metadata), (photovoltaic_New E, photovoltaic_Metadata), (storage_New E, storage_Metadata), (evse_New E, evse_Metadata),
      (infrastructure_New E, infrastructure_Metadata)]"

definition availabilityFactValid :: "env \<Rightarrow> PackMetadataRegistry \<Rightarrow> PackValidator \<times> PackMetadata \<Rightarrow> FactCandidate \<Rightarrow> err" where
  "availabilityFactValid E registry = (\<lambda>(validator, provided) c. first_error
     [FactKey_Validate E (fc_Key c),
      (case List.find (\<lambda>f. df_ID (fm_Ref f) = fk_FactID (fc_Key c)) (elems (md_Fields provided)) of
         None \<Rightarrow> Some (errID DefinitionOwnerMissing ''availability field'')
       | Some f \<Rightarrow> first_error
           [check_err (\<not> HasDefinition (Some registry) (fm_Ref f)) DefinitionOwnerMissing ''availability field'',
            (case elems (fk_Dimensions (fc_Key c)) of
               [d] \<Rightarrow> check_err (dm_ID d \<noteq> df_ID (fm_Dimension f) \<or> vl_Kind (dm_Value d) \<noteq> ValueText \<or> vl_Text (dm_Value d) = None)
                 InvalidValue ''availability fact dimensions''
             | _ \<Rightarrow> Some (errID InvalidValue ''availability fact dimensions'')),
            (if fc_Value c = None then None else pv_ValidateFact validator (fc_Key c) (fc_Value c))])])"

definition availabilityEvaluationMatches :: "env \<Rightarrow> EvaluationView \<Rightarrow> EvaluationView \<Rightarrow> err" where
  "availabilityEvaluationMatches E expected supplied =
     (let facts = map_from ef_CandidateID (elems (vw_Facts expected)) in
      if length (elems (vw_Facts expected)) \<noteq> length (elems (vw_Facts supplied))
      then Some (errID DanglingReference ''availability evaluated candidates'')
      else case first_error (map (\<lambda>f. case map_of facts (ef_CandidateID f) of
             None \<Rightarrow> Some (errID DanglingReference ''availability evaluated candidate'')
           | Some current \<Rightarrow> check_err (ef_CandidateRevision current \<noteq> ef_CandidateRevision f) RevisionConflict ''availability evaluated revision'')
           (elems (vw_Facts supplied))) of
        Some e \<Rightarrow> Some e
      | None \<Rightarrow> (case CanonicalJSON (EvaluationView_Validate E) json_of_EvaluationView expected of
          Inl e \<Rightarrow> Some e
        | Inr a \<Rightarrow> (case CanonicalJSON (EvaluationView_Validate E) json_of_EvaluationView supplied of
            Inl e \<Rightarrow> Some e
          | Inr b \<Rightarrow> check_err (a \<noteq> b) InvalidValue ''availability evaluation differs from kernel'')))"

section \<open>Rows\<close>

type_synonym row_state = "(PackRef, nat) gomap \<times> PackAvailability list"

definition empty_row :: "PackRef \<Rightarrow> PackAvailability" where
  "empty_row pack = \<lparr>pa_Pack = pack, pa_Services = [], pa_Capabilities = [], pa_Facts = [], pa_Retained = []\<rparr>"

definition add_row :: "(PackRef, PackValidator \<times> PackMetadata) gomap \<Rightarrow> row_state \<Rightarrow> PackRef \<Rightarrow> row_state" where
  "add_row validators st pack = (case st of (rows, packs) \<Rightarrow>
     if map_of validators pack = None then (rows, packs)
     else (AList.update pack (length packs) rows, packs @ [empty_row pack]))"

definition change_row :: "(PackRef, nat) gomap \<Rightarrow> PackRef \<Rightarrow> err \<Rightarrow> (PackAvailability \<Rightarrow> PackAvailability) \<Rightarrow>
    PackAvailability list \<Rightarrow> error + PackAvailability list" where
  "change_row rows pack e f packs = (case map_of rows pack of
     None \<Rightarrow> Inr packs
   | Some i \<Rightarrow> (case e of Some e \<Rightarrow> Inl e | None \<Rightarrow> Inr (packs[i := f (packs ! i)])))"

definition zero_definition :: DefinitionRef where
  "zero_definition = \<lparr>df_Pack = \<lparr>pk_ID = '''', pk_Version = ''''\<rparr>, df_ID = '''', df_Version = ''''\<rparr>"

definition zero_evaluated :: EvaluatedFact where
  "zero_evaluated = \<lparr>ef_CandidateID = '''', ef_CandidateRevision = '''', ef_Freshness = FreshnessOther '''',
     ef_EffectiveAvailability = AvailabilityOther ''''\<rparr>"

definition service_row :: "env \<Rightarrow> PackMetadataRegistry \<Rightarrow> (PackRef, nat) gomap \<Rightarrow> ServiceInstance \<Rightarrow> PackAvailability list \<Rightarrow>
    error + PackAvailability list" where
  "service_row E registry rows s = (let pack = df_Pack (si_Definition s) in
     change_row rows pack (first_error
       [check_err (\<not> HasDefinition (Some registry) (si_Definition s)) DefinitionOwnerMissing ''availability service'',
        opt_err (\<lambda>(v, _). pv_ValidateService v s) (map_of (builtin_validators E) pack)])
       (\<lambda>row. row\<lparr>pa_Services := pa_Services row @ [s]\<rparr>))"

definition capability_row :: "env \<Rightarrow> PackMetadataRegistry \<Rightarrow> (PackRef, nat) gomap \<Rightarrow> (ServiceInstanceID, ServiceInstance) gomap \<Rightarrow>
    CapabilityInstance \<Rightarrow> PackAvailability list \<Rightarrow> error + PackAvailability list" where
  "capability_row E registry rows services c =
     (let pack = df_Pack (ci_Definition c);
          owner = (case map_of services (ci_ServiceInstance c) of None \<Rightarrow> zero_definition | Some s \<Rightarrow> si_Definition s);
          structural = c\<lparr>ci_Qualification := QualificationQualified, ci_Availability := AvailabilityAvailable\<rparr> in
      change_row rows pack (first_error
       [check_err (\<not> HasDefinition (Some registry) (ci_Definition c) \<or> \<not> ServiceOwnsCapability (Some registry) owner (ci_Definition c))
          DefinitionOwnerMissing ''availability capability service'',
        opt_err (\<lambda>(v, _). pv_ValidateCapability v structural) (map_of (builtin_validators E) pack)])
       (\<lambda>row. row\<lparr>pa_Capabilities := pa_Capabilities row @ [c]\<rparr>))"

definition fact_row :: "env \<Rightarrow> PackMetadataRegistry \<Rightarrow> (PackRef, nat) gomap \<Rightarrow> (CandidateID, EvaluatedFact) gomap \<Rightarrow>
    FactEnvelope \<Rightarrow> PackAvailability list \<Rightarrow> error + PackAvailability list" where
  "fact_row E registry rows evaluated e = (let pack = key_pack (fe_Key e) in
     change_row rows pack (first_error (map (\<lambda>c. opt_err (\<lambda>v. availabilityFactValid E registry v c) (map_of (builtin_validators E) pack))
         (elems (fe_Candidates e))))
       (\<lambda>row. row\<lparr>pa_Facts := pa_Facts row @ [\<lparr>af_Envelope = e, af_Evaluation = map (\<lambda>c.
          case map_of evaluated (fc_CandidateID c) of None \<Rightarrow> zero_evaluated | Some f \<Rightarrow> f) (elems (fe_Candidates e))\<rparr>]\<rparr>))"

definition retained_row :: "env \<Rightarrow> PackMetadataRegistry \<Rightarrow> (PackRef, nat) gomap \<Rightarrow> EvaluatedRetainedObservation \<Rightarrow>
    PackAvailability list \<Rightarrow> error + PackAvailability list" where
  "retained_row E registry rows r =
     (let c = ro_Candidate (er_Observation r); pack = key_pack (fc_Key c) in
      change_row rows pack (opt_err (\<lambda>v. availabilityFactValid E registry v c) (map_of (builtin_validators E) pack))
       (\<lambda>row. row\<lparr>pa_Retained := pa_Retained row @ [r]\<rparr>))"

section \<open>The view\<close>

definition availability_rows :: "env \<Rightarrow> PackMetadataRegistry \<Rightarrow> Snapshot \<Rightarrow> EvaluationView \<Rightarrow> error + PackAvailability list" where
  "availability_rows E registry s view =
     (let (rows, packs) = foldl (add_row (builtin_validators E)) ([], []) (Packs_of (Some registry));
          services = map_from si_InstanceID (elems (sn_Services s));
          evaluated = map_from ef_CandidateID (elems (vw_Facts view))
      in if length rows \<noteq> length (builtin_validators E) then Inl (errID DefinitionOwnerMissing ''availability five-pack metadata'')
         else and_then (fold_result (service_row E registry rows) (elems (sn_Services s)) packs) (\<lambda>packs.
              and_then (fold_result (capability_row E registry rows services) (elems (sn_Capabilities s)) packs) (\<lambda>packs.
              and_then (fold_result (fact_row E registry rows evaluated) (elems (sn_Facts s)) packs) (\<lambda>packs.
              fold_result (retained_row E registry rows) (elems (vw_Retained view)) packs))))"

definition availability_checks :: "env \<Rightarrow> Snapshot \<Rightarrow> EvaluationView \<Rightarrow> err" where
  "availability_checks E s view = first_error
     [ranked [Snapshot_Validate E s, EvaluationView_Validate E view],
      check_err (sn_SnapshotID s \<noteq> vw_SnapshotID view \<or> sn_Revisions s \<noteq> vw_Revisions view) RevisionConflict ''availability snapshot evaluation'',
      (case EvaluateSnapshot E s (vw_Context view) of
         Inl e \<Rightarrow> Some e
       | Inr expected \<Rightarrow> availabilityEvaluationMatches E expected view),
      (case CanonicalJSON (Snapshot_Validate E) json_of_Snapshot s of Inl e \<Rightarrow> Some e | Inr _ \<Rightarrow> None),
      (case CanonicalJSON (EvaluationView_Validate E) json_of_EvaluationView view of Inl e \<Rightarrow> Some e | Inr _ \<Rightarrow> None)]"

definition DerivePackAvailability :: "env \<Rightarrow> PackMetadataRegistry option \<Rightarrow> Snapshot \<Rightarrow> EvaluationView \<Rightarrow> error + PackAvailabilityView" where
  "DerivePackAvailability E metadata s view = (case metadata of
     None \<Rightarrow> Inl (errID MissingMember ''availability metadata'')
   | Some registry \<Rightarrow>
       and_then (ensure (availability_checks E s view) ()) (\<lambda>_.
       and_then (availability_rows E registry s view) (\<lambda>packs.
         Inr \<lparr>av_AssetID = sn_AssetID s, av_SnapshotID = sn_SnapshotID s, av_Revisions = sn_Revisions s,
           av_Context = vw_Context view, av_EvaluationDigest = vw_EvaluationDigest view, av_Packs = packs\<rparr>)))"

end
