(* ===== verification/Availability_Laws.thy ===== *)
theory Availability_Laws
  imports Pack_Availability Metadata_Laws Evaluation_Laws Registry_Laws
begin

text \<open>
  Laws of the availability view: how the loops distribute the records of a snapshot over the rows.
\<close>

section \<open>Rows\<close>

lemma add_rows:
  assumes "distinct ps" "foldl (add_row V) ([], []) ps = (rows, packs)"
  shows "packs = map empty_row (filter (\<lambda>p. map_of V p \<noteq> None) ps) \<and>
    rows = zip (filter (\<lambda>p. map_of V p \<noteq> None) ps) [0..<length packs]"
  using assms
proof (induction ps arbitrary: rows packs rule: rev_induct)
  case (snoc p ps)
  obtain rows0 packs0 where st: "foldl (add_row V) ([], []) ps = (rows0, packs0)" by fastforce
  let ?f = "filter (\<lambda>p. map_of V p \<noteq> None) ps"
  have IH: "packs0 = map empty_row ?f" "rows0 = zip ?f [0..<length packs0]" using snoc.IH [OF _ st] snoc.prems(1) by auto
  have step: "add_row V (rows0, packs0) p = (rows, packs)" using snoc.prems(2) st by simp
  show ?case
  proof (cases "map_of V p = None")
    case True
    then have "rows = rows0" "packs = packs0" using step by (simp_all add: add_row_def)
    with IH True show ?thesis by simp
  next
    case False
    have len: "length ?f = length packs0" by (simp add: IH(1))
    have "p \<notin> fst ` set rows0"
    proof
      assume "p \<in> fst ` set rows0"
      then have "p \<in> set ?f" unfolding IH(2) by (auto dest: set_zip_leftD)
      with snoc.prems(1) show False by simp
    qed
    then have "rows = rows0 @ [(p, length packs0)]" "packs = packs0 @ [empty_row p]"
      using step False by (simp_all add: add_row_def update_new)
    then show ?thesis using False IH len by (simp add: zip_append)
  qed
qed simp

lemma row_index:
  assumes "distinct fs"
  shows "map_of (zip fs [0..<length fs]) p = Some i \<longleftrightarrow> i < length fs \<and> fs ! i = p"
proof -
  have d: "distinct (map fst (zip fs [0..<length fs]))" using assms by simp
  have "map_of (zip fs [0..<length fs]) p = Some i \<longleftrightarrow> (p, i) \<in> set (zip fs [0..<length fs])"
    using d map_of_eq_Some_iff by force
  also have "\<dots> \<longleftrightarrow> i < length fs \<and> fs ! i = p" by (auto simp: set_zip)
  finally show ?thesis .
qed

lemma change_rows:
  assumes "fold_result (\<lambda>x. change_row rows (key x) (e x) (upd x)) xs packs = Inr packs'"
    and "\<And>p i. map_of rows p = Some i \<Longrightarrow> i < length packs"
  shows "length packs' = length packs \<and>
    (\<forall>i < length packs. packs' ! i = fold upd (filter (\<lambda>x. map_of rows (key x) = Some i) xs) (packs ! i))"
  using assms
proof (induction xs arbitrary: packs)
  case (Cons x xs)
  obtain packs1 where step: "change_row rows (key x) (e x) (upd x) packs = Inr packs1"
      "fold_result (\<lambda>x. change_row rows (key x) (e x) (upd x)) xs packs1 = Inr packs'" using Cons.prems(1) by auto
  show ?case
  proof (cases "map_of rows (key x)")
    case None
    then show ?thesis using Cons.IH [OF step(2)] step(1) Cons.prems(2) by (simp add: change_row_def)
  next
    case (Some j)
    then have packs1: "packs1 = packs[j := upd x (packs ! j)]" "j < length packs"
      using step(1) Cons.prems(2) by (auto simp: change_row_def split: option.splits)
    then have "length packs1 = length packs" by simp
    moreover note Cons.IH [OF step(2)] Cons.prems(2)
    ultimately show ?thesis using Some packs1 by (auto simp: nth_list_update)
  qed
qed simp

lemma append_services: "fold (\<lambda>x row. row\<lparr>pa_Services := pa_Services row @ [x]\<rparr>) xs row = row\<lparr>pa_Services := pa_Services row @ xs\<rparr>"
  by (induction xs arbitrary: row) simp_all

lemma append_capabilities:
  "fold (\<lambda>x row. row\<lparr>pa_Capabilities := pa_Capabilities row @ [x]\<rparr>) xs row = row\<lparr>pa_Capabilities := pa_Capabilities row @ xs\<rparr>"
  by (induction xs arbitrary: row) simp_all

lemma append_facts:
  "fold (\<lambda>x row. row\<lparr>pa_Facts := pa_Facts row @ [g x]\<rparr>) xs row = row\<lparr>pa_Facts := pa_Facts row @ map g xs\<rparr>"
  by (induction xs arbitrary: row) simp_all

lemma append_retained: "fold (\<lambda>x row. row\<lparr>pa_Retained := pa_Retained row @ [x]\<rparr>) xs row = row\<lparr>pa_Retained := pa_Retained row @ xs\<rparr>"
  by (induction xs arbitrary: row) simp_all

section \<open>The built-in packs\<close>

definition builtin_packs :: "PackRef list" where
  "builtin_packs = [thermal_pack, photovoltaic_pack, storage_pack, evse_pack, infrastructure_pack]"

lemma distinct_builtin: "distinct builtin_packs"
  by code_simp

lemma builtin_validators_packs: "map fst (builtin_validators E) = builtin_packs"
proof -
  have "distinct builtin_packs" by (rule distinct_builtin)
  then show ?thesis
    by (simp add: builtin_validators_def builtin_packs_def thermal_New_def photovoltaic_New_def storage_New_def evse_New_def infrastructure_New_def)
qed

lemma covers_builtin:
  assumes "distinct fs" "set fs \<subseteq> set builtin_packs" "length fs = length builtin_packs"
  shows "set fs = set builtin_packs"
  using assms distinct_builtin by (metis List.finite_set card_subset_eq distinct_card)

section \<open>Distribution\<close>

text \<open>What a row holds of a snapshot and its evaluation: exactly the records of its pack, in order.\<close>

definition row_exact :: "Snapshot \<Rightarrow> EvaluationView \<Rightarrow> PackAvailability \<Rightarrow> bool" where
  "row_exact s view row \<longleftrightarrow>
     pa_Services row = filter (\<lambda>x. df_Pack (si_Definition x) = pa_Pack row) (elems (sn_Services s)) \<and>
     pa_Capabilities row = filter (\<lambda>x. df_Pack (ci_Definition x) = pa_Pack row) (elems (sn_Capabilities s)) \<and>
     map af_Envelope (pa_Facts row) = filter (\<lambda>x. key_pack (fe_Key x) = pa_Pack row) (elems (sn_Facts s)) \<and>
     pa_Retained row = filter (\<lambda>x. key_pack (fc_Key (ro_Candidate (er_Observation x))) = pa_Pack row) (elems (vw_Retained view))"

definition view_lookup :: "EvaluationView \<Rightarrow> FactCandidate \<Rightarrow> EvaluatedFact" where
  "view_lookup view c = (case map_of (map_from ef_CandidateID (elems (vw_Facts view))) (fc_CandidateID c) of None \<Rightarrow> zero_evaluated | Some f \<Rightarrow> f)"

lemma availability_rows_exact:
  assumes "availability_rows E registry s view = Inr packs" "distinct (mr_packs registry)"
  shows "distinct (map pa_Pack packs) \<and> set (map pa_Pack packs) = set builtin_packs \<and>
    (\<forall>row \<in> set packs. row_exact s view row \<and>
      (\<forall>x \<in> set (pa_Facts row). af_Evaluation x = map (view_lookup view) (elems (fe_Candidates (af_Envelope x)))))"
proof -
  let ?V = "builtin_validators E"
  define fs where "fs = filter (\<lambda>p. map_of ?V p \<noteq> None) (mr_packs registry)"
  obtain rows packs0 where st: "foldl (add_row ?V) ([], []) (mr_packs registry) = (rows, packs0)" by fastforce
  have rows: "packs0 = map empty_row fs" "rows = zip fs [0..<length fs]"
    using add_rows [OF assms(2) st] by (simp_all add: fs_def)
  have dist: "distinct fs" using assms(2) by (simp add: fs_def)
  have idx: "map_of rows p = Some i \<longleftrightarrow> i < length fs \<and> fs ! i = p" for p i unfolding rows(2) by (rule row_index [OF dist])
  define ev where "ev = map_from ef_CandidateID (elems (vw_Facts view))"
  define sv where "sv = map_from si_InstanceID (elems (sn_Services s))"
  have "length rows = length ?V" and "\<exists>p1 p2 p3. fold_result (service_row E registry rows) (elems (sn_Services s)) packs0 = Inr p1 \<and>
      fold_result (capability_row E registry rows sv) (elems (sn_Capabilities s)) p1 = Inr p2 \<and>
      fold_result (fact_row E registry rows ev) (elems (sn_Facts s)) p2 = Inr p3 \<and>
      fold_result (retained_row E registry rows) (elems (vw_Retained view)) p3 = Inr packs"
    using assms(1) unfolding availability_rows_def Let_def Packs_of_def ev_def sv_def by (auto simp: st split: if_splits)
  then obtain p1 p2 p3 where folds: "fold_result (service_row E registry rows) (elems (sn_Services s)) packs0 = Inr p1"
      "fold_result (capability_row E registry rows sv) (elems (sn_Capabilities s)) p1 = Inr p2"
      "fold_result (fact_row E registry rows ev) (elems (sn_Facts s)) p2 = Inr p3"
      "fold_result (retained_row E registry rows) (elems (vw_Retained view)) p3 = Inr packs" and "length rows = length ?V" by blast
  then have len: "length fs = length builtin_packs" using arg_cong [OF builtin_validators_packs [of E], of length] by (simp add: rows(2))
  have "set fs \<subseteq> fst ` set ?V" by (auto simp: fs_def dest: key_mapped)
  then have "set fs \<subseteq> set builtin_packs" using builtin_validators_packs [of E] by (metis list.set_map)
  from covers_builtin [OF dist this len] have cover: "set fs = set builtin_packs" .
  have bound: "i < length packs0" if "map_of rows p = Some i" for p i using that by (simp add: idx rows(1))
  have 1: "length p1 = length packs0 \<and> (\<forall>i < length packs0. p1 ! i =
      fold (\<lambda>x row. row\<lparr>pa_Services := pa_Services row @ [x]\<rparr>) (filter (\<lambda>x. map_of rows (df_Pack (si_Definition x)) = Some i) (elems (sn_Services s))) (packs0 ! i))"
    by (rule change_rows [OF folds(1) [unfolded service_row_def Let_def] bound])
  then have "length p1 = length packs0" ..
  have 2: "length p2 = length p1 \<and> (\<forall>i < length p1. p2 ! i =
      fold (\<lambda>x row. row\<lparr>pa_Capabilities := pa_Capabilities row @ [x]\<rparr>) (filter (\<lambda>x. map_of rows (df_Pack (ci_Definition x)) = Some i) (elems (sn_Capabilities s))) (p1 ! i))"
    by (rule change_rows [OF folds(2) [unfolded capability_row_def Let_def]]) (use bound 1 in simp)
  have 3: "length p3 = length p2 \<and> (\<forall>i < length p2. p3 ! i =
      fold (\<lambda>x row. row\<lparr>pa_Facts := pa_Facts row @ [\<lparr>af_Envelope = x, af_Evaluation = map (\<lambda>c.
          case map_of ev (fc_CandidateID c) of None \<Rightarrow> zero_evaluated | Some f \<Rightarrow> f) (elems (fe_Candidates x))\<rparr>]\<rparr>)
        (filter (\<lambda>x. map_of rows (key_pack (fe_Key x)) = Some i) (elems (sn_Facts s))) (p2 ! i))"
    by (rule change_rows [OF folds(3) [unfolded fact_row_def Let_def]]) (use bound 1 2 in simp)
  have 4: "length packs = length p3 \<and> (\<forall>i < length p3. packs ! i =
      fold (\<lambda>x row. row\<lparr>pa_Retained := pa_Retained row @ [x]\<rparr>)
        (filter (\<lambda>x. map_of rows (key_pack (fc_Key (ro_Candidate (er_Observation x)))) = Some i) (elems (vw_Retained view))) (p3 ! i))"
    by (rule change_rows [OF folds(4) [unfolded retained_row_def Let_def]]) (use bound 1 2 3 in simp)
  have row: "packs ! i = \<lparr>pa_Pack = fs ! i, pa_Services = filter (\<lambda>x. df_Pack (si_Definition x) = fs ! i) (elems (sn_Services s)),
      pa_Capabilities = filter (\<lambda>x. df_Pack (ci_Definition x) = fs ! i) (elems (sn_Capabilities s)),
      pa_Facts = map (\<lambda>x. \<lparr>af_Envelope = x, af_Evaluation = map (view_lookup view) (elems (fe_Candidates x))\<rparr>)
        (filter (\<lambda>x. key_pack (fe_Key x) = fs ! i) (elems (sn_Facts s))),
      pa_Retained = filter (\<lambda>x. key_pack (fc_Key (ro_Candidate (er_Observation x))) = fs ! i) (elems (vw_Retained view))\<rparr>"
    if i: "i < length fs" for i
  proof -
    have "map_of rows q = Some i \<longleftrightarrow> q = fs ! i" for q using idx i by auto
    then show ?thesis using 1 2 3 4 i rows(1)
      by (simp add: append_services append_capabilities append_facts append_retained empty_row_def view_lookup_def flip: ev_def)
  qed
  have "length packs = length fs" using 1 2 3 4 rows(1) by simp
  then have "map pa_Pack packs = fs" using row by (intro nth_equalityI) simp_all
  moreover have "row_exact s view x \<and> (\<forall>y \<in> set (pa_Facts x). af_Evaluation y = map (view_lookup view) (elems (fe_Candidates (af_Envelope y))))"
    if mem: "x \<in> set packs" for x
  proof -
    obtain i where "i < length packs" "packs ! i = x" using mem by (auto simp: in_set_conv_nth)
    with row [of i] \<open>length packs = length fs\<close> show ?thesis by (auto simp: row_exact_def comp_def)
  qed
  ultimately show ?thesis using dist cover by simp
qed

section \<open>The evaluation in the view\<close>

lemma supplied_distinct:
  assumes "EvaluationView_Validate E view = None"
  shows "distinct (map ef_CandidateID (elems (vw_Facts view)))"
proof -
  have "EvaluationView_structure E view = None"
    using assms by (auto simp: EvaluationView_Validate_def EvaluationView_validateStructure_def Let_def ranks_before_def split: sum.splits if_splits)
  then have "\<not> duplicated (opaque_identity ef_CandidateID) (by_field ef_CandidateID) (vw_Facts view)"
    "\<forall>f \<in> set (elems (vw_Facts view)). EvaluatedFact_Validate f = None"
    by (auto simp: EvaluationView_structure_def Let_def best.pick_None_iff ball_Un)
  then have "distinct (map (key_of (opaque_identity ef_CandidateID)) (elems (vw_Facts view)))"
    using dup_order_loop_distinct [of "opaque_identity ef_CandidateID" "by_field ef_CandidateID" "[]" None False True "elems (vw_Facts view)"]
    by (auto simp: duplicateAndOrder_def list_all_iff string_identity_def EvaluatedFact_Validate_def validateOpaqueValue_def)
  then show ?thesis by (auto simp: distinct_map inj_on_def string_identity_def)
qed

lemma EvaluateSnapshot_facts:
  assumes "EvaluateSnapshot E s ctx = Inr view"
  shows "Snapshot_Validate E s = None"
    and "list_all2 (evaluates (snapshot_candidates s) ctx) (map ef_CandidateID (elems (vw_Facts view))) (elems (vw_Facts view))"
    and "set (map ef_CandidateID (elems (vw_Facts view))) = fst ` set (snapshot_candidates s)"
    and "length (elems (vw_Facts view)) = length (snapshot_candidates s)"
proof -
  let ?ids = "sort_by string_compare (map fst (snapshot_candidates s))"
  obtain facts where f: "evaluate_all (evaluate (length (snapshot_candidates s) + 1) (snapshot_candidates s) ctx []) ?ids [] = Inr facts"
      "elems (vw_Facts view) = facts" and valid: "Snapshot_Validate E s = None"
    using assms by (auto simp: EvaluateSnapshot_def Let_def split: option.splits sum.splits)
  note ids = evaluated_ids [OF f(1)]
  show "Snapshot_Validate E s = None" by (rule valid)
  show "list_all2 (evaluates (snapshot_candidates s) ctx) (map ef_CandidateID (elems (vw_Facts view))) (elems (vw_Facts view))"
    using ids by (simp add: f(2))
  have ids': "map ef_CandidateID (elems (vw_Facts view)) = ?ids" using ids(1) by (simp add: f(2))
  show "set (map ef_CandidateID (elems (vw_Facts view))) = fst ` set (snapshot_candidates s)" unfolding ids' by simp
  show "length (elems (vw_Facts view)) = length (snapshot_candidates s)" using arg_cong [OF ids', of length] by simp
qed

lemma view_covers:
  assumes "EvaluateSnapshot E s ctx = Inr expected" "availabilityEvaluationMatches E expected view = None" "EvaluationView_Validate E view = None"
    and "c \<in> set (snapshot_candidate_list s)"
  shows "ef_CandidateID (view_lookup view c) = fc_CandidateID c \<and> ef_CandidateRevision (view_lookup view c) = fc_Revision c"
proof -
  let ?m = "snapshot_candidates s" and ?supplied = "elems (vw_Facts view)" and ?facts = "elems (vw_Facts expected)"
  note facts = EvaluateSnapshot_facts [OF assms(1)]
  have match: "length ?facts = length ?supplied" "\<forall>f \<in> set ?supplied. \<exists>current. map_of (map_from ef_CandidateID ?facts) (ef_CandidateID f) = Some current \<and>
      ef_CandidateRevision current = ef_CandidateRevision f"
    using assms(2) by (auto simp: availabilityEvaluationMatches_def Let_def split: if_splits option.splits)
  have dist: "distinct (map fst ?m)" by (simp add: snapshot_candidates_def)
  have sub: "set (map ef_CandidateID ?supplied) \<subseteq> fst ` set ?m"
  proof
    fix x assume "x \<in> set (map ef_CandidateID ?supplied)"
    then obtain f where f: "f \<in> set ?supplied" "x = ef_CandidateID f" by auto
    with match(2) obtain current where "map_of (map_from ef_CandidateID ?facts) x = Some current" by blast
    then have "x \<in> set (map ef_CandidateID ?facts)" using map_from_lookup_key by fastforce
    then show "x \<in> fst ` set ?m" unfolding facts(3) .
  qed
  have "card (set (map ef_CandidateID ?supplied)) = card (fst ` set ?m)"
    using distinct_card [OF supplied_distinct [OF assms(3)]] distinct_card [OF dist] match(1) facts(4) by simp
  then have cover: "set (map ef_CandidateID ?supplied) = fst ` set ?m" using sub by (intro card_subset_eq) simp_all
  have c: "map_of ?m (fc_CandidateID c) = Some c"
    using assms(4) valid_snapshot_facts(1) [OF facts(1)]
    by (simp add: snapshot_candidates_entries [OF facts(1)] snapshot_entries_def candidate_entries_def snapshot_candidate_list_def image_iff)
  then have "fc_CandidateID c \<in> set (map ef_CandidateID ?supplied)" unfolding cover by (rule key_mapped)
  then obtain f where f: "map_of (map_from ef_CandidateID ?supplied) (fc_CandidateID c) = Some f" "f \<in> set ?supplied" "ef_CandidateID f = fc_CandidateID c"
    using map_from_lookup_None [of ef_CandidateID ?supplied "fc_CandidateID c"] map_from_lookup_key [of ef_CandidateID ?supplied] by fastforce
  obtain current where current: "map_of (map_from ef_CandidateID ?facts) (fc_CandidateID c) = Some current" "ef_CandidateRevision current = ef_CandidateRevision f"
    using match(2) f(2, 3) by metis
  then have "current \<in> set ?facts" "ef_CandidateID current = fc_CandidateID c" using map_from_lookup_key by fast+
  then have "evaluates ?m ctx (fc_CandidateID c) current" using facts(2) by (auto simp: list_all2_conv_all_nth in_set_conv_nth)
  from evaluates_identity [OF this] c have "ef_CandidateRevision current = fc_Revision c" by simp
  with f current show ?thesis by (simp add: view_lookup_def)
qed

end
