(* ===== verification/Shipped_Packs.thy ===== *)
theory Shipped_Packs
  imports Pack_Composition Availability_Laws Fast_Eval
begin

text \<open>
  The five packs of the repository, composed: their validators make one registry and their metadata
  one metadata registry. The tables and the definition indexes are two hand-written lists in the
  code; that they agree is evaluated here on the identifiers of each pack.
\<close>

section \<open>Validators that make a registry\<close>

lemma index_valid_any_class:
  "bestError (DefinitionIndex_validationErrors c i) = None \<longleftrightarrow> bestError (DefinitionIndex_validationErrors d i) = None"
  by (simp add: DefinitionIndex_validationErrors_def group_errors_def best.pick_None_iff ball_Un)

text \<open>The owners of the definitions of one validator are told apart from the others by a function of the key.\<close>

lemma NewRegistry_success:
  assumes ok: "\<forall>h \<in> set hs. PackRef_Validate (pv_Pack h) = None \<and> dx_Pack (pv_Definitions h) = pv_Pack h \<and> DefinitionIndex_Validate (pv_Definitions h) = None"
    and dist: "distinct (map pv_Pack hs)"
    and apart: "\<forall>h \<in> set hs. \<forall>k \<in> fst ` set (index_owners (pv_Definitions h)). family k = pv_Pack h"
  shows "\<exists>r. NewRegistry (map Some hs) = Inr r"
proof -
  let ?start = "(\<lparr>rg_validators = [], rg_indexes = [], rg_owners = []\<rparr>, [])"
  have "\<exists>r errs. foldl register_validator ?start (map Some hs) = (r, errs) \<and> bestError errs = None \<and>
      map fst (rg_validators r) = map pv_Pack hs \<and> family ` fst ` set (rg_owners r) \<subseteq> pv_Pack ` set hs"
    using assms
  proof (induction hs rule: rev_induct)
    case (snoc h hs)
    then obtain r errs where IH: "foldl register_validator ?start (map Some hs) = (r, errs)" "bestError errs = None"
        "map fst (rg_validators r) = map pv_Pack hs" "family ` fst ` set (rg_owners r) \<subseteq> pv_Pack ` set hs" by auto
    have new: "pv_Pack h \<notin> pv_Pack ` set hs" using snoc.prems(2) by simp
    have index: "bestError (DefinitionIndex_validationErrors DefinitionOwnerConflict (pv_Definitions h)) = None"
      using snoc.prems(1) index_valid_any_class [of DefinitionOwnerConflict "pv_Definitions h" DuplicateKey] by (simp add: DefinitionIndex_Validate_def)
    have "fst ` set (index_owners (pv_Definitions h)) \<inter> fst ` set (rg_owners r) = {}"
    proof (rule ccontr)
      assume "fst ` set (index_owners (pv_Definitions h)) \<inter> fst ` set (rg_owners r) \<noteq> {}"
      then obtain k where k: "k \<in> fst ` set (index_owners (pv_Definitions h))" "k \<in> fst ` set (rg_owners r)" by blast
      from k(1) have "family k = pv_Pack h" using snoc.prems(3) by auto
      moreover have "family k \<in> pv_Pack ` set hs" using k(2) IH(4) by blast
      ultimately show False using new by simp
    qed
    note owners = register_index_fresh [OF index this]
    have fresh: "pv_Pack h \<notin> fst ` set (rg_validators r)" using new arg_cong [OF IH(3), of set] by simp
    then have "map_of (rg_validators r) (pv_Pack h) = None" by (simp add: map_of_eq_None_iff)
    then have step: "register_validator (r, errs) (Some h) =
      (r\<lparr>rg_validators := AList.update (pv_Pack h) \<lparr>fv_hook = h, fv_index = pv_Definitions h\<rparr> (rg_validators r),
         rg_indexes := AList.update (pv_Pack h) (pv_Definitions h) (rg_indexes r), rg_owners := rg_owners r @ index_owners (pv_Definitions h)\<rparr>,
       errs @ [PackRef_Validate (pv_Pack h)] @ DefinitionIndex_validationErrors DefinitionOwnerConflict (pv_Definitions h) @
         [check_err (dx_Pack (pv_Definitions h) \<noteq> pv_Pack h) DefinitionOwnerConflict ''validator pack mismatch''])"
      by (simp add: register_validator_def Let_def owners)
    moreover have "bestError (errs @ [PackRef_Validate (pv_Pack h)] @ DefinitionIndex_validationErrors DefinitionOwnerConflict (pv_Definitions h) @
        [check_err (dx_Pack (pv_Definitions h) \<noteq> pv_Pack h) DefinitionOwnerConflict ''validator pack mismatch'']) = None"
      unfolding best.pick_append_None_iff using IH(2) index snoc.prems(1) by simp
    moreover have "map fst (AList.update (pv_Pack h) \<lparr>fv_hook = h, fv_index = pv_Definitions h\<rparr> (rg_validators r)) = map pv_Pack (hs @ [h])"
      using IH(3) fresh by (simp add: update_new)
    moreover have "family ` fst ` set (rg_owners r @ index_owners (pv_Definitions h)) \<subseteq> pv_Pack ` set (hs @ [h])"
      using IH(4) snoc.prems(3) by (auto simp: image_Un)
    ultimately show ?case using IH(1) by simp
  qed simp
  then show ?thesis by (auto simp: NewRegistry_def)
qed

section \<open>Tables and indexes agree\<close>

definition ids_of :: "DefinitionIndex \<Rightarrow> index_ids" where
  "ids_of i = \<lparr>ix_fields = map df_ID (elems (dx_Fields i)), ix_services = map df_ID (elems (dx_Services i)),
     ix_capabilities = map df_ID (elems (dx_Capabilities i)), ix_operations = map df_ID (elems (dx_Operations i)),
     ix_effects = map df_ID (elems (dx_EffectRules i))\<rparr>"

lemma index_of_ids: "index_of pack (ids_of (pack_index pack a b c d e)) = pack_index pack a b c d e"
  by (simp add: index_of_def ids_of_def pack_index_def Let_def comp_def definition_ref_def)

interpretation evse_table: consistent_table evse_tables "ids_of evse_index"
  by unfold_locales code_simp

interpretation photovoltaic_table: consistent_table photovoltaic_tables "ids_of photovoltaic_index"
  by unfold_locales code_simp

interpretation storage_table: consistent_table storage_tables "ids_of storage_index"
  by unfold_locales code_simp

interpretation thermal_table: consistent_table thermal_tables "ids_of thermal_index"
  by unfold_locales code_simp

interpretation infrastructure_table: consistent_table infrastructure_tables "ids_of infrastructure_index"
  by unfold_locales code_simp

lemma shipped_indexes_valid:
  "DefinitionIndex_Validate evse_index = None"
  "DefinitionIndex_Validate photovoltaic_index = None"
  "DefinitionIndex_Validate storage_index = None"
  "DefinitionIndex_Validate thermal_index = None"
  "DefinitionIndex_Validate infrastructure_index = None"
  by code_simp+

lemma shipped_index_of:
  "index_of evse_pack (ids_of evse_index) = evse_index"
  "index_of photovoltaic_pack (ids_of photovoltaic_index) = photovoltaic_index"
  "index_of storage_pack (ids_of storage_index) = storage_index"
  "index_of thermal_pack (ids_of thermal_index) = thermal_index"
  "index_of infrastructure_pack (ids_of infrastructure_index) = infrastructure_index"
  by (simp_all add: index_of_ids evse_index_def photovoltaic_index_def storage_index_def thermal_index_def infrastructure_index_def)

lemma shipped_pt_pack:
  "pt_pack evse_tables = evse_pack"
  "pt_pack photovoltaic_tables = photovoltaic_pack"
  "pt_pack storage_tables = storage_pack"
  "pt_pack thermal_tables = thermal_pack"
  "pt_pack infrastructure_tables = infrastructure_pack"
  by (simp_all add: evse_tables_def photovoltaic_tables_def storage_tables_def thermal_tables_def infrastructure_tables_def)

lemma shipped_New:
  "pv_Pack (evse_New E) = evse_pack" "pv_Definitions (evse_New E) = evse_index"
  "pv_Pack (photovoltaic_New E) = photovoltaic_pack" "pv_Definitions (photovoltaic_New E) = photovoltaic_index"
  "pv_Pack (storage_New E) = storage_pack" "pv_Definitions (storage_New E) = storage_index"
  "pv_Pack (thermal_New E) = thermal_pack" "pv_Definitions (thermal_New E) = thermal_index"
  "pv_Pack (infrastructure_New E) = infrastructure_pack" "pv_Definitions (infrastructure_New E) = infrastructure_index"
  by (simp_all add: evse_New_def photovoltaic_New_def storage_New_def thermal_New_def infrastructure_New_def)

text \<open>The first letters of an identifier name its pack.\<close>

definition key_family :: "definitionKey \<Rightarrow> PackRef" where
  "key_family k = (let prefix = take 2 (fst (snd k)) in
     if prefix = ''ev'' then evse_pack else if prefix = ''pv'' then photovoltaic_pack else if prefix = ''st'' then storage_pack
     else if prefix = ''th'' then thermal_pack else infrastructure_pack)"

lemma shipped_families:
  "list_all (\<lambda>k. key_family k = evse_pack) (map fst (index_owners evse_index))"
  "list_all (\<lambda>k. key_family k = photovoltaic_pack) (map fst (index_owners photovoltaic_index))"
  "list_all (\<lambda>k. key_family k = storage_pack) (map fst (index_owners storage_index))"
  "list_all (\<lambda>k. key_family k = thermal_pack) (map fst (index_owners thermal_index))"
  "list_all (\<lambda>k. key_family k = infrastructure_pack) (map fst (index_owners infrastructure_index))"
  by code_simp+

lemma shipped_packs_valid:
  "PackRef_Validate evse_pack = None" "PackRef_Validate photovoltaic_pack = None" "PackRef_Validate storage_pack = None"
  "PackRef_Validate thermal_pack = None" "PackRef_Validate infrastructure_pack = None"
  by code_simp+

section \<open>The registries\<close>

definition shipped_validators :: "env \<Rightarrow> PackValidator list" where
  "shipped_validators E = [thermal_New E, photovoltaic_New E, storage_New E, evse_New E, infrastructure_New E]"

lemma shipped_validators_packs: "map pv_Pack (shipped_validators E) = builtin_packs"
  by (simp add: shipped_validators_def builtin_packs_def shipped_New)

lemma shipped_registry: "\<exists>r. NewRegistry (map Some (shipped_validators E)) = Inr r"
proof (rule NewRegistry_success [where family = key_family])
  have dx: "dx_Pack evse_index = evse_pack" "dx_Pack photovoltaic_index = photovoltaic_pack" "dx_Pack storage_index = storage_pack"
    "dx_Pack thermal_index = thermal_pack" "dx_Pack infrastructure_index = infrastructure_pack"
    by (simp_all add: pack_index_def Let_def evse_index_def photovoltaic_index_def storage_index_def thermal_index_def infrastructure_index_def)
  show "\<forall>h \<in> set (shipped_validators E). PackRef_Validate (pv_Pack h) = None \<and> dx_Pack (pv_Definitions h) = pv_Pack h \<and>
      DefinitionIndex_Validate (pv_Definitions h) = None"
    by (simp add: shipped_validators_def shipped_New dx shipped_packs_valid shipped_indexes_valid)
  show "distinct (map pv_Pack (shipped_validators E))" using distinct_builtin by (simp add: shipped_validators_packs)
  show "\<forall>h \<in> set (shipped_validators E). \<forall>k \<in> fst ` set (index_owners (pv_Definitions h)). key_family k = pv_Pack h"
    using shipped_families by (simp add: shipped_validators_def shipped_New list_all_iff)
qed

lemma shipped_source_registers:
  assumes "consistent_table t (ids_of i)" "index_of (pt_pack t) (ids_of i) = i" "DefinitionIndex_Validate i = None"
    and "pv_Pack v = pt_pack t" "pv_Definitions v = i" "closed_registry r" "pt_pack t \<notin> set (mr_packs r)"
  shows "\<exists>r'. register_source (shipped_source v (pack_Metadata t)) r = Inr r' \<and> closed_registry r' \<and> mr_packs r' = mr_packs r @ [pt_pack t]"
  using consistent_table.source_registers [OF assms(1, 6, 7, 4)] assms(2, 3, 5) by simp

lemma shipped_metadata_fold:
  "\<exists>r. fold_result register_source
     [shipped_source (thermal_New E) thermal_Metadata, shipped_source (photovoltaic_New E) photovoltaic_Metadata,
      shipped_source (storage_New E) storage_Metadata, shipped_source (evse_New E) evse_Metadata,
      shipped_source (infrastructure_New E) infrastructure_Metadata] empty_metadata_registry = Inr r \<and> closed_registry r \<and> mr_packs r = builtin_packs"
proof -
  have empty: "closed_registry empty_metadata_registry" "mr_packs empty_metadata_registry = []"
    by (simp_all add: closed_registry_def metadata_ok_def empty_metadata_registry_def)
  have apart: "distinct [thermal_pack, photovoltaic_pack, storage_pack, evse_pack, infrastructure_pack]"
    using distinct_builtin by (simp add: builtin_packs_def)
  note facts = shipped_pt_pack shipped_index_of shipped_New shipped_indexes_valid
  obtain r1 where r1: "register_source (shipped_source (thermal_New E) thermal_Metadata) empty_metadata_registry = Inr r1"
      "closed_registry r1" "mr_packs r1 = [thermal_pack]"
    using shipped_source_registers [OF thermal_table.consistent_table_axioms, of "thermal_New E" empty_metadata_registry] empty
    by (auto simp: facts thermal_Metadata_def)
  obtain r2 where r2: "register_source (shipped_source (photovoltaic_New E) photovoltaic_Metadata) r1 = Inr r2"
      "closed_registry r2" "mr_packs r2 = [thermal_pack, photovoltaic_pack]"
    using shipped_source_registers [OF photovoltaic_table.consistent_table_axioms, of "photovoltaic_New E" r1] r1 apart
    by (auto simp: facts photovoltaic_Metadata_def)
  obtain r3 where r3: "register_source (shipped_source (storage_New E) storage_Metadata) r2 = Inr r3"
      "closed_registry r3" "mr_packs r3 = [thermal_pack, photovoltaic_pack, storage_pack]"
    using shipped_source_registers [OF storage_table.consistent_table_axioms, of "storage_New E" r2] r2 apart
    by (auto simp: facts storage_Metadata_def)
  obtain r4 where r4: "register_source (shipped_source (evse_New E) evse_Metadata) r3 = Inr r4"
      "closed_registry r4" "mr_packs r4 = [thermal_pack, photovoltaic_pack, storage_pack, evse_pack]"
    using shipped_source_registers [OF evse_table.consistent_table_axioms, of "evse_New E" r3] r3 apart
    by (auto simp: facts evse_Metadata_def)
  obtain r5 where r5: "register_source (shipped_source (infrastructure_New E) infrastructure_Metadata) r4 = Inr r5"
      "closed_registry r5" "mr_packs r5 = [thermal_pack, photovoltaic_pack, storage_pack, evse_pack, infrastructure_pack]"
    using shipped_source_registers [OF infrastructure_table.consistent_table_axioms, of "infrastructure_New E" r4] r4 apart
    by (auto simp: facts infrastructure_Metadata_def)
  show ?thesis using r1 r2 r3 r4 r5 by (simp add: builtin_packs_def and_then_def)
qed

definition sorted_packs :: "PackRef list" where
  "sorted_packs = [evse_pack, infrastructure_pack, photovoltaic_pack, storage_pack, thermal_pack]"

lemma sort_builtin: "sort_by comparePackMetadataRef builtin_packs = sorted_packs"
  by code_simp

lemma shipped_metadata_registry: "\<exists>m. NewMetadataRegistry E = Inr m \<and> mr_packs m = sorted_packs"
  using shipped_metadata_fold [of E] unfolding NewMetadataRegistry_def NewPackMetadataRegistry_def by (force simp: sort_builtin)

text \<open>C32: The packs the repository ships fit together: for every environment the registry of the five
  validators is built without a conflict of definition owners, and the metadata registry of the five
  metadata tables is built without an error, that is the hand-written definition indexes and the
  tables behind the metadata agree, with every reference of a table resolved. The metadata registry
  holds the five packs, in order.\<close>

theorem shipped_packs_compose:
  "\<exists>r m. NewRegistry [Some (thermal_New E), Some (photovoltaic_New E), Some (storage_New E), Some (evse_New E), Some (infrastructure_New E)] = Inr r \<and>
     NewMetadataRegistry E = Inr m \<and>
     Packs_of (Some m) = [evse_pack, infrastructure_pack, photovoltaic_pack, storage_pack, thermal_pack]"
proof -
  obtain r where "NewRegistry (map Some (shipped_validators E)) = Inr r" using shipped_registry by blast
  moreover obtain m where "NewMetadataRegistry E = Inr m" "mr_packs m = sorted_packs" using shipped_metadata_registry by blast
  ultimately show ?thesis by (simp add: shipped_validators_def sorted_packs_def Packs_of_def)
qed

end
