(* ===== verification/Storage_Scenario.thy ===== *)
theory Storage_Scenario
  imports Pack_Properties Operation_Scenario
begin

text \<open>
  A concrete storage operation: a kernel that runs the storage pack admits the change of a charge
  limit while the interlock of the interface is observed to be clear, and its readback is decided.
  The witnesses apply the properties of the packs to it.
\<close>

section \<open>Records\<close>

definition interface_key :: "DefinitionID \<Rightarrow> FactKey" where
  "interface_key i = \<lparr>fk_PackID = pk_ID storage_pack, fk_PackVersion = pk_Version storage_pack, fk_FactID = i,
     fk_Dimensions = Some [\<lparr>dm_ID = ''storage.dimension.interface'', dm_Value = text_value ''if-1''\<rparr>]\<rparr>"

definition charge_value :: "string \<Rightarrow> Value" where
  "charge_value n = quantity_value \<lparr>qt_Number = \<lparr>dc_Coefficient = n, dc_Exponent10 = 3\<rparr>, qt_Unit = ''unit.watt''\<rparr>"

definition charge_field :: TypedField where
  "charge_field = \<lparr>tf_ID = ''storage.limit.charge_power'', tf_Value = charge_value ''5''\<rparr>"

definition interlock_observed :: FactCandidate where
  "interlock_observed = demo_observed\<lparr>fc_Key := interface_key ''storage.status.interlock'', fc_Value := Some clearValue\<rparr>"

definition storage_snapshot :: Snapshot where
  "storage_snapshot = second_snapshot
     \<lparr>sn_Facts := Some [(op_envelope interlock_observed)\<lparr>fe_Key := interface_key ''storage.status.interlock''\<rparr>],
      sn_Services := Some [demo_service\<lparr>si_Definition := definition_ref storage_pack ''storage.service.interface''\<rparr>],
      sn_Capabilities := Some [demo_capability\<lparr>ci_Definition := definition_ref storage_pack ''storage.capability.set_charge_limit'',
        ci_Constraints := Some [charge_field]\<rparr>]\<rparr>"

definition storage_intent :: Intent where
  "storage_intent = op_intent
     \<lparr>in_Kind := definition_ref storage_pack ''storage.operation.set_charge_limit'',
      in_ExpectedEffect := \<lparr>ee_Rule = definition_ref storage_pack ''storage.effect.set_charge_limit'',
        ee_Fact = interface_key ''storage.limit.charge_power'', ee_Operator = PredicateEqual, ee_Expected = charge_value ''5''\<rparr>,
      in_Arguments := Some [charge_field],
      in_RequiredCapability := \<lparr>cr_Pack = storage_pack, cr_DefinitionID = ''storage.capability.set_charge_limit'',
        cr_Versions = \<lparr>vr_Minimum = pk_Version storage_pack, vr_MaximumExclusive = ''2.0.0''\<rparr>, cr_InstanceID = None, cr_AllowDegraded = False\<rparr>,
      in_Preconditions := Some [\<lparr>pn_Fact = interface_key ''storage.status.interlock'', pn_CandidateID = ''fact-a'',
        pn_CandidateRevision = ''1'', pn_Operator = PredicateEqual, pn_Expected = clearValue\<rparr>]\<rparr>"

definition storage_registry :: Registry where
  "storage_registry = \<lparr>rg_validators = [(storage_pack, \<lparr>fv_hook = storage_New demo_env, fv_index = storage_index\<rparr>)],
     rg_indexes = [(storage_pack, storage_index)], rg_owners = index_owners storage_index\<rparr>"

definition storage_kernel :: OperationKernel where
  "storage_kernel = \<lparr>ok_registry = Some storage_registry, ok_validators = [(storage_pack, storage_hooks demo_env)],
     ok_maxRetainedOperations = 1, ok_admissions = []\<rparr>"

section \<open>Construction\<close>

lemma storage_index_valid: "bestError (DefinitionIndex_validationErrors DefinitionOwnerConflict storage_index) = None"
  by code_simp

lemma storage_kernel_new: "NewKernelWithOptions 1 [Some (storage_New demo_env, Some (storage_hooks demo_env))] = Inr storage_kernel"
proof -
  have v: "pv_Pack (storage_New demo_env) = storage_pack" "pv_Definitions (storage_New demo_env) = storage_index"
    "dx_Pack storage_index = storage_pack" "elems (dx_Operations storage_index) \<noteq> []"
    by (simp_all add: storage_New_def storage_index_def pack_index_def Let_def)
  have pack: "PackRef_Validate storage_pack = None" by code_simp
  have "register_index storage_index ([], errs) = (index_owners storage_index, errs)" for errs
    using register_index_fresh [OF storage_index_valid, of "[]" errs] by simp
  then have "NewRegistry [Some (storage_New demo_env)] = Inr storage_registry"
    using single_pack_registry [of "storage_New demo_env" storage_pack "index_owners storage_index"] pack storage_index_valid
    by (simp add: v storage_registry_def)
  moreover have "install_hooks [Some (storage_New demo_env, Some (storage_hooks demo_env))] [] = Inr [(storage_pack, storage_hooks demo_env)]"
    by (simp add: v)
  ultimately show ?thesis by (simp add: NewKernelWithOptions_def MaxRetainedOperations_def storage_kernel_def)
qed

section \<open>Checks\<close>

lemma storage_snapshot_json: "json_wf (json_of_Snapshot storage_snapshot)"
  by code_simp

lemma storage_snapshot_checks: "snapshot_checks demo_env storage_snapshot = None"
  by code_simp

lemma storage_snapshot_identity: "sn_SnapshotID storage_snapshot = demo_digest"
  by (simp add: storage_snapshot_def second_snapshot_def)

lemmas storage_snapshot_valid = demo_valid(1) [OF storage_snapshot_checks storage_snapshot_json storage_snapshot_identity]

lemma storage_intent_valid: "Intent_Validate demo_env storage_intent = None"
  by code_simp

lemma storage_intent_accepted: "storage_ValidateIntent demo_env storage_intent = None"
  by code_simp

lemma storage_intent_checked: "validateIntent demo_env (Some storage_kernel) storage_intent = (None, True)"
  by code_simp

lemma storage_routes: "routes demo_env storage_kernel storage_snapshot storage_intent True = Inr [op_route]"
  by code_simp

lemma storage_packs: "snapshotPackError demo_env storage_kernel storage_snapshot = None"
  by code_simp

lemma storage_evaluation:
  "EvaluateSnapshot demo_env storage_snapshot (op_context ''6'' ''9'') =
     Inr ((fresh_view storage_snapshot (op_context ''6'' ''9'') interlock_observed)\<lparr>vw_EvaluationDigest := demo_digest\<rparr>)"
  by (rule fresh_evaluation [OF storage_snapshot_valid op_contexts_valid(1)]) code_simp+

section \<open>Admission\<close>

definition storage_state :: op_state where
  "storage_state = \<lparr>os_kernel = storage_kernel, os_heap = []\<rparr>"

definition storage_bytes :: string where
  "storage_bytes = (case intent_text demo_env storage_intent of Inl _ \<Rightarrow> [] | Inr t \<Rightarrow> t)"

lemma storage_intent_bytes: "intent_text demo_env storage_intent = Inr storage_bytes"
proof -
  have "json_wf (json_of_Intent storage_intent)" by code_simp
  then show ?thesis by (simp add: storage_bytes_def CanonicalJSON_def storage_intent_valid canonicalize_def writeCanonical_render)
qed

lemma storage_errors:
  "mostSpecific (admission_errors demo_env storage_kernel storage_snapshot (op_context ''6'' ''9'') storage_intent (Some op_authority) None (Inr [op_route])) = None"
proof -
  have "op_check (sn_AssetID storage_snapshot \<noteq> in_AssetID storage_intent) RevisionConflict ''intent asset snapshot'' = None"
    "op_check (rv_Semantic (sn_Revisions storage_snapshot) \<noteq> in_ExpectedSemanticRevision storage_intent \<or>
      rv_Capabilities (sn_Revisions storage_snapshot) \<noteq> in_ExpectedCapabilityRevision storage_intent) RevisionConflict ''intent snapshot revisions'' = None"
    "op_check (tp_ClockID (ec_EvaluatedAt (op_context ''6'' ''9'')) \<noteq> ''clock.utc'') InvalidTime ''trusted operation wall clock'' = None"
    "deadlineError (ec_EvaluatedAt (op_context ''6'' ''9'')) (in_Deadline storage_intent) = None"
    "causalAdmissionError (in_Causal storage_intent) (ec_EvaluatedAt (op_context ''6'' ''9'')) = None"
    "preconditionError demo_env storage_kernel storage_snapshot
      ((fresh_view storage_snapshot (op_context ''6'' ''9'') interlock_observed)\<lparr>vw_EvaluationDigest := demo_digest\<rparr>)
      (elems (in_Preconditions storage_intent)) = None"
    "authority_error (Some op_authority) storage_intent (op_context ''6'' ''9'') None (Inr [op_route]) = None"
    by code_simp+
  then show ?thesis unfolding admission_errors_def storage_packs storage_evaluation sum.case mostSpecific_None by simp
qed

lemma storage_ready:
  "admit_check demo_env storage_state storage_snapshot (op_context ''6'' ''9'') storage_intent (Some op_authority) =
     AdmitReady (new_admission storage_snapshot (op_context ''6'' ''9'') storage_intent storage_bytes op_route)"
proof -
  have "admit_evaluate demo_env storage_kernel storage_snapshot (op_context ''6'' ''9'') storage_intent (Some op_authority) None True storage_bytes =
      AdmitReady (new_admission storage_snapshot (op_context ''6'' ''9'') storage_intent storage_bytes op_route)"
    unfolding admit_evaluate_def storage_routes Let_def storage_errors by simp
  moreover have "os_kernel storage_state = storage_kernel" "lookupIdempotency storage_state (in_IdempotencyKey storage_intent) storage_bytes = Inr None"
    by (simp_all add: lookupIdempotency_def storage_state_def storage_kernel_def)
  ultimately show ?thesis
    by (simp add: admit_check_def storage_intent_checked storage_intent_valid storage_snapshot_valid op_contexts_valid storage_intent_bytes intentSafeForHooks_def)
qed

section \<open>Witnesses\<close>

theorem storage_needs_clear_interlock_witness:
  "NewKernelWithOptions 1 [Some (storage_New demo_env, Some (storage_hooks demo_env))] = Inr storage_kernel \<and>
   (\<exists>f c. f \<in> set (elems (sn_Facts storage_snapshot)) \<and> c \<in> set (elems (fe_Candidates f)) \<and>
     fk_FactID (fe_Key f) = ''storage.status.interlock'' \<and> fc_Value c = Some clearValue)"
proof -
  have reached: "(op_step demo_env)\<^sup>*\<^sup>* (initial_system storage_kernel) (storage_state, {#})"
    by (simp add: initial_system_def storage_state_def)
  have kind: "df_Pack (in_Kind storage_intent) = storage_pack" by (simp add: storage_intent_def definition_ref_def)
  have "Some (storage_New demo_env, Some (storage_hooks demo_env)) \<in> set [Some (storage_New demo_env, Some (storage_hooks demo_env))]" by simp
  from storage_needs_clear_interlock [OF storage_kernel_new this reached storage_ready kind] storage_kernel_new show ?thesis by fastforce
qed

definition charge_observed :: FactCandidate where
  "charge_observed = demo_observed\<lparr>fc_Key := interface_key ''storage.limit.charge_power'', fc_Value := Some (charge_value ''5'')\<rparr>"

lemma charge_observed_valid: "FactCandidate_Validate demo_env charge_observed = None"
  by code_simp

theorem readback_decides_by_value_witness:
  "ov_EvaluateReadback (storage_hooks demo_env) storage_intent charge_observed = Inr ReadbackConfirms"
proof -
  have pack: "(storage_New demo_env, storage_hooks demo_env) \<in> set (operation_packs demo_env)" by (simp add: operation_packs_def)
  from readback_decides_by_value [OF pack charge_observed_valid, of storage_intent] storage_intent_accepted
  show ?thesis by (simp add: storage_hooks_def charge_observed_def storage_intent_def)
qed

theorem pack_facts_match_tables_witness:
  "pv_ValidateFact (storage_New demo_env) (interface_key ''storage.limit.charge_power'') (Some (charge_value ''5'')) = None \<and>
   (\<exists>s \<in> set storage_fields. fs_id s = ''storage.limit.charge_power'' \<and> field_admits s (charge_value ''5''))"
proof -
  have pack: "(storage_New demo_env, storage_tables) \<in> set (shipped_packs demo_env)" by (simp add: shipped_packs_def)
  have "pv_ValidateFact (storage_New demo_env) (interface_key ''storage.limit.charge_power'') (Some (charge_value ''5'')) = None" by code_simp
  with pack_facts_match_tables [OF pack, of "interface_key ''storage.limit.charge_power''" "Some (charge_value ''5'')"]
  show ?thesis by (auto simp: interface_key_def storage_tables_def)
qed

end
