(* ===== verification/Metadata_Properties.thy ===== *)
theory Metadata_Properties
  imports Availability_Laws Storage_Scenario Fast_Eval
begin

text \<open>
  What a consumer of the metadata registry and of the availability view can rely on. The witnesses
  run on a registry of the five packs in which only the storage pack has definitions.
\<close>

section \<open>The metadata registry\<close>

lemma closed_registry_relations:
  assumes "closed_registry r"
  shows "map_of (mr_fields r) field = Some m \<Longrightarrow> field_ok r field m"
    and "map_of (mr_services r) service = Some sm \<Longrightarrow> service_ok r service sm"
    and "map_of (mr_caps r) capability = Some s \<Longrightarrow> capability_ok r capability s"
    and "p \<in> set (mr_operations r) \<Longrightarrow> operation_ok r p"
    and "d \<in> set (mr_definitions r) \<Longrightarrow> df_Pack d \<in> set (mr_packs r)"
    and "u \<in> set (mr_units r) \<Longrightarrow> u \<in> set (mr_definitions r)"
  using assms unfolding closed_registry_def metadata_ok_def by (auto simp: image_subset_iff)

lemma registered_unit:
  assumes "closed_registry r" "CanonicalUnit (Some r) f = Some u"
  shows "HasDefinition (Some r) f" "HasDefinition (Some r) u" "df_Pack u = df_Pack f"
proof -
  obtain m where m: "map_of (mr_fields r) f = Some m" "fm_CanonicalUnit m = Some u" "DefinitionRef_Validate f = None"
    using assms(2) by (auto simp: CanonicalUnit_def split: if_splits option.splits)
  have ok: "field_ok r f m" by (rule closed_registry_relations(1) [OF assms(1) m(1)])
  then have "u \<in> set (mr_definitions r)" using closed_registry_relations(6) [OF assms(1)] m(2) by (simp add: field_ok_def)
  with ok m show "HasDefinition (Some r) f" "HasDefinition (Some r) u" "df_Pack u = df_Pack f"
    by (simp_all add: field_ok_def HasDefinition_def)
qed

lemma registered_owner:
  assumes "closed_registry r" "ServiceOwnsCapability (Some r) s c"
  shows "HasDefinition (Some r) s" "HasDefinition (Some r) c" "df_Pack s = df_Pack c"
proof -
  have own: "map_of (mr_caps r) c = Some s" "DefinitionRef_Validate s = None" "DefinitionRef_Validate c = None"
    using assms(2) by (simp_all add: ServiceOwnsCapability_def)
  have ok: "capability_ok r c s" by (rule closed_registry_relations(3) [OF assms(1) own(1)])
  then obtain m where m: "map_of (mr_services r) s = Some m" by (auto simp: capability_ok_def)
  have "service_ok r s m" by (rule closed_registry_relations(2) [OF assms(1) m])
  with ok own show "HasDefinition (Some r) s" "HasDefinition (Some r) c" "df_Pack s = df_Pack c"
    by (simp_all add: capability_ok_def service_ok_def HasDefinition_def)
qed

lemma registered_field:
  assumes "closed_registry r" "FieldMatches (Some r) f s c"
  shows "HasDefinition (Some r) f" "ServiceOwnsCapability (Some r) s c" "df_Pack f = df_Pack c"
proof -
  obtain m n where m: "map_of (mr_fields r) f = Some m" "map_of (mr_services r) s = Some n" "fm_Dimension m = sm_FactKeyDimension n"
      "DefinitionRef_Validate f = None" and own: "ServiceOwnsCapability (Some r) s c"
    using assms(2) by (auto simp: FieldMatches_def split: option.splits)
  have "field_ok r f m" "service_ok r s n"
    using closed_registry_relations(1) [OF assms(1) m(1)] closed_registry_relations(2) [OF assms(1) m(2)] .
  then show "HasDefinition (Some r) f" "df_Pack f = df_Pack c"
    using m(3, 4) registered_owner(3) [OF assms(1) own] by (simp_all add: field_ok_def service_ok_def HasDefinition_def)
  show "ServiceOwnsCapability (Some r) s c" by (rule own)
qed

lemma registered_operation:
  assumes "closed_registry r" "OperationMatches (Some r) p c s a e"
  shows "ServiceOwnsCapability (Some r) s c" "HasDefinition (Some r) p" "HasDefinition (Some r) a" "HasDefinition (Some r) e"
    "df_Pack ` {p, c, s, a, e} = {df_Pack p}"
proof -
  have "operation_ok r (p, c, s, a, e)"
    using closed_registry_relations(4) [OF assms(1)] assms(2) by (simp add: OperationMatches_def)
  with assms(2) show "ServiceOwnsCapability (Some r) s c" "HasDefinition (Some r) p" "HasDefinition (Some r) a" "HasDefinition (Some r) e"
    "df_Pack ` {p, c, s, a, e} = {df_Pack p}"
    by (simp_all add: OperationMatches_def operation_ok_def ServiceOwnsCapability_def HasDefinition_def)
qed

lemmas registered = registered_unit registered_owner registered_field registered_operation

text \<open>C37: A metadata registry that was constructed is closed and keeps packs apart. What it calls an
  operation joins an operation, an argument field and an effect it has, with a capability it has and
  the service that owns that capability, all of one pack. A field that matches a capability of a
  service is in the registry, in the pack of both. The canonical unit of a field is in the registry and
  in the pack of the field. Every definition it has belongs to one of its packs, and no pack is listed
  twice.\<close>

theorem metadata_relations_are_coherent:
  assumes "NewPackMetadataRegistry sources = Inr r"
  shows "distinct (Packs_of (Some r)) \<and>
    (\<forall>d. HasDefinition (Some r) d \<longrightarrow> df_Pack d \<in> set (Packs_of (Some r))) \<and>
    (\<forall>f u. CanonicalUnit (Some r) f = Some u \<longrightarrow>
      HasDefinition (Some r) f \<and> HasDefinition (Some r) u \<and> df_Pack u = df_Pack f) \<and>
    (\<forall>s c. ServiceOwnsCapability (Some r) s c \<longrightarrow>
      HasDefinition (Some r) s \<and> HasDefinition (Some r) c \<and> df_Pack s = df_Pack c) \<and>
    (\<forall>f s c. FieldMatches (Some r) f s c \<longrightarrow>
      HasDefinition (Some r) f \<and> ServiceOwnsCapability (Some r) s c \<and> df_Pack f = df_Pack c) \<and>
    (\<forall>p c s a e. OperationMatches (Some r) p c s a e \<longrightarrow>
      ServiceOwnsCapability (Some r) s c \<and> HasDefinition (Some r) p \<and> HasDefinition (Some r) a \<and> HasDefinition (Some r) e \<and>
      df_Pack ` {p, c, s, a, e} = {df_Pack p})"
proof (intro conjI allI impI)
  note closed = NewPackMetadataRegistry_ok [OF assms]
  show "distinct (Packs_of (Some r))" using closed by (simp add: Packs_of_def closed_registry_def)
  show "HasDefinition (Some r) d \<Longrightarrow> df_Pack d \<in> set (Packs_of (Some r))" for d
    using closed_registry_relations(5) [OF closed] by (simp add: HasDefinition_def Packs_of_def)
qed (erule registered [OF NewPackMetadataRegistry_ok [OF assms]])+

section \<open>The availability view\<close>

text \<open>C33: The availability view of a snapshot is exact. It has one row for each of the five built-in
  packs and no other; a row holds the services, the capabilities, the fact envelopes and the retained
  observations of its pack, all of them, in the order of the snapshot and of the evaluation; and the
  evaluations beside an envelope are those of its candidates, one for each, at the revision of the
  candidate. The view names the snapshot and the evaluation it was derived from.\<close>

theorem availability_view_is_exact:
  assumes "NewPackMetadataRegistry sources = Inr r" "DerivePackAvailability E (Some r) s view = Inr v"
  shows "distinct (map pa_Pack (av_Packs v)) \<and>
    set (map pa_Pack (av_Packs v)) = {thermal_pack, photovoltaic_pack, storage_pack, evse_pack, infrastructure_pack} \<and>
    list_all (row_exact s view) (av_Packs v) \<and>
    list_all (\<lambda>row. list_all (\<lambda>x. list_all2 (\<lambda>c e. ef_CandidateID e = fc_CandidateID c \<and> ef_CandidateRevision e = fc_Revision c)
      (elems (fe_Candidates (af_Envelope x))) (af_Evaluation x)) (pa_Facts row)) (av_Packs v) \<and>
    av_AssetID v = sn_AssetID s \<and> av_SnapshotID v = sn_SnapshotID s \<and> av_SnapshotID v = vw_SnapshotID view \<and>
    av_EvaluationDigest v = vw_EvaluationDigest view"
proof -
  have rows: "availability_rows E r s view = Inr (av_Packs v)" and checks: "availability_checks E s view = None"
    and head: "av_AssetID v = sn_AssetID s" "av_SnapshotID v = sn_SnapshotID s" "av_EvaluationDigest v = vw_EvaluationDigest view"
    using assms(2) by (auto simp: DerivePackAvailability_def)
  have "distinct (mr_packs r)" using NewPackMetadataRegistry_ok [OF assms(1)] by (simp add: closed_registry_def)
  note exact = availability_rows_exact [OF rows this]
  obtain expected where e: "EvaluateSnapshot E s (vw_Context view) = Inr expected" "availabilityEvaluationMatches E expected view = None"
      "EvaluationView_Validate E view = None" "sn_SnapshotID s = vw_SnapshotID view"
    using checks by (auto simp: availability_checks_def ranked_bestError split: sum.splits)
  have "list_all2 (\<lambda>c e. ef_CandidateID e = fc_CandidateID c \<and> ef_CandidateRevision e = fc_Revision c)
      (elems (fe_Candidates (af_Envelope x))) (af_Evaluation x)" if mem: "row \<in> set (av_Packs v)" "x \<in> set (pa_Facts row)" for row x
  proof -
    have eval: "af_Evaluation x = map (view_lookup view) (elems (fe_Candidates (af_Envelope x)))" and "row_exact s view row"
      using exact mem by blast+
    then have "af_Envelope x \<in> set (elems (sn_Facts s))"
      using imageI [OF mem(2), of af_Envelope] unfolding row_exact_def by (metis filter_is_subset list.set_map subsetD)
    then have "c \<in> set (snapshot_candidate_list s)" if "c \<in> set (elems (fe_Candidates (af_Envelope x)))" for c
      using that by (auto simp: snapshot_candidate_list_def)
    then show ?thesis using view_covers [OF e(1-3)] by (simp add: eval list_all2_conv_all_nth)
  qed
  then show ?thesis using exact head e(4) by (auto simp: list_all_iff builtin_packs_def)
qed

section \<open>Witnesses\<close>

abbreviation storage_ref :: "DefinitionID \<Rightarrow> DefinitionRef" where
  "storage_ref \<equiv> definition_ref storage_pack"

definition bare_metadata :: "PackRef \<Rightarrow> PackMetadata" where
  "bare_metadata pack = \<lparr>md_Pack = pack, md_Units = Some [], md_Fields = Some [], md_Services = Some [], md_Capabilities = Some [],
     md_Operations = Some []\<rparr>"

definition limit_metadata :: PackMetadata where
  "limit_metadata = \<lparr>md_Pack = storage_pack, md_Units = Some [storage_ref ''unit.watt''],
     md_Fields = Some [\<lparr>fm_Ref = storage_ref ''storage.limit.charge_power'', fm_CanonicalUnit = Some (storage_ref ''unit.watt''),
         fm_Dimension = storage_ref ''storage.dimension.interface''\<rparr>,
       \<lparr>fm_Ref = storage_ref ''storage.status.interlock'', fm_CanonicalUnit = None, fm_Dimension = storage_ref ''storage.dimension.interface''\<rparr>],
     md_Services = Some [\<lparr>sm_Ref = storage_ref ''storage.service.interface'', sm_FactKeyDimension = storage_ref ''storage.dimension.interface''\<rparr>],
     md_Capabilities = Some [\<lparr>cm_Ref = storage_ref ''storage.capability.set_charge_limit'', cm_Service = storage_ref ''storage.service.interface''\<rparr>],
     md_Operations = Some [\<lparr>om_Ref = storage_ref ''storage.operation.set_charge_limit'',
       om_Capability = storage_ref ''storage.capability.set_charge_limit'', om_Service = storage_ref ''storage.service.interface'',
       om_Argument = storage_ref ''storage.limit.charge_power'', om_Effect = storage_ref ''storage.effect.set_charge_limit''\<rparr>]\<rparr>"

definition limit_index :: DefinitionIndex where
  "limit_index = pack_index storage_pack [''storage.limit.charge_power'', ''storage.status.interlock''] [''storage.service.interface'']
     [''storage.capability.set_charge_limit''] [''storage.operation.set_charge_limit''] [''storage.effect.set_charge_limit'']"

definition limit_sources :: "PackMetadataSource list" where
  "limit_sources = shipped_source (demo_validator\<lparr>pv_Pack := storage_pack, pv_Definitions := limit_index\<rparr>) limit_metadata #
     map (\<lambda>pack. shipped_source (demo_validator\<lparr>pv_Pack := pack, pv_Definitions := pack_index pack [] [] [] [] []\<rparr>) (bare_metadata pack))
       [thermal_pack, photovoltaic_pack, evse_pack, infrastructure_pack]"

definition limit_registry :: PackMetadataRegistry where
  "limit_registry = (case NewPackMetadataRegistry limit_sources of Inl e \<Rightarrow> empty_metadata_registry | Inr r \<Rightarrow> r)"

lemma limit_registry_new: "NewPackMetadataRegistry limit_sources = Inr limit_registry"
  by code_simp

theorem metadata_relations_are_coherent_witness:
  "OperationMatches (Some limit_registry) (storage_ref ''storage.operation.set_charge_limit'') (storage_ref ''storage.capability.set_charge_limit'')
      (storage_ref ''storage.service.interface'') (storage_ref ''storage.limit.charge_power'') (storage_ref ''storage.effect.set_charge_limit'') \<and>
    ServiceOwnsCapability (Some limit_registry) (storage_ref ''storage.service.interface'') (storage_ref ''storage.capability.set_charge_limit'') \<and>
    HasDefinition (Some limit_registry) (storage_ref ''storage.effect.set_charge_limit'')"
proof -
  have "OperationMatches (Some limit_registry) (storage_ref ''storage.operation.set_charge_limit'') (storage_ref ''storage.capability.set_charge_limit'')
      (storage_ref ''storage.service.interface'') (storage_ref ''storage.limit.charge_power'') (storage_ref ''storage.effect.set_charge_limit'')"
    by code_simp
  with metadata_relations_are_coherent [OF limit_registry_new] show ?thesis by blast
qed

definition limit_view :: EvaluationView where
  "limit_view = (fresh_view storage_snapshot (op_context ''6'' ''9'') interlock_observed)\<lparr>vw_EvaluationDigest := demo_digest\<rparr>"

lemma limit_view_json: "json_wf (json_of_EvaluationView limit_view)"
  by code_simp

lemma limit_view_valid: "EvaluationView_Validate demo_env limit_view = None"
proof -
  have "EvaluationView_structure demo_env limit_view = None" "Digest_Validate demo_digest = None" by code_simp+
  moreover have "vw_EvaluationDigest limit_view = demo_digest" by (simp add: limit_view_def)
  ultimately show ?thesis
    by (simp add: EvaluationView_Validate_def EvaluationView_validateStructure_def Let_def EvaluationView_computedDigestUnchecked_def
        constant_digest [OF limit_view_json])
qed

lemma limit_checks: "availability_checks demo_env storage_snapshot limit_view = None"
proof -
  have "vw_Context limit_view = op_context ''6'' ''9''" "vw_SnapshotID limit_view = sn_SnapshotID storage_snapshot"
    "vw_Revisions limit_view = sn_Revisions storage_snapshot" by (simp_all add: limit_view_def fresh_view_def)
  moreover have evaluated: "EvaluateSnapshot demo_env storage_snapshot (op_context ''6'' ''9'') = Inr limit_view"
    unfolding limit_view_def by (rule storage_evaluation)
  moreover have json: "\<exists>t. CanonicalJSON (Snapshot_Validate demo_env) json_of_Snapshot storage_snapshot = Inr t"
      "\<exists>t. CanonicalJSON (EvaluationView_Validate demo_env) json_of_EvaluationView limit_view = Inr t"
    by (simp_all add: CanonicalJSON_def canonicalize_def storage_snapshot_valid limit_view_valid
        writeCanonical_render [OF storage_snapshot_json] writeCanonical_render [OF limit_view_json])
  moreover have "first_error (map (\<lambda>f. case map_of (map_from ef_CandidateID (elems (vw_Facts limit_view))) (ef_CandidateID f) of
      None \<Rightarrow> Some (errID DanglingReference ''availability evaluated candidate'')
    | Some current \<Rightarrow> check_err (ef_CandidateRevision current \<noteq> ef_CandidateRevision f) RevisionConflict ''availability evaluated revision'')
      (elems (vw_Facts limit_view))) = None" by code_simp
  ultimately have "availabilityEvaluationMatches demo_env limit_view limit_view = None"
    by (auto simp: availabilityEvaluationMatches_def Let_def simp del: first_error_None)
  with \<open>vw_Context limit_view = op_context ''6'' ''9''\<close> \<open>vw_SnapshotID limit_view = sn_SnapshotID storage_snapshot\<close>
    \<open>vw_Revisions limit_view = sn_Revisions storage_snapshot\<close> evaluated json show ?thesis
    by (auto simp: availability_checks_def ranked_bestError storage_snapshot_valid limit_view_valid)
qed

lemma limit_builtin:
  "map_of (builtin_validators demo_env) storage_pack = Some (storage_New demo_env, storage_Metadata)"
  "map_of (builtin_validators demo_env) p = None \<longleftrightarrow> p \<notin> set builtin_packs"
proof -
  have "storage_pack \<noteq> thermal_pack" "storage_pack \<noteq> photovoltaic_pack" "distinct builtin_packs" by code_simp+
  then show "map_of (builtin_validators demo_env) storage_pack = Some (storage_New demo_env, storage_Metadata)"
    by (simp add: builtin_validators_def builtin_packs_def thermal_New_def photovoltaic_New_def storage_New_def evse_New_def infrastructure_New_def)
  show "map_of (builtin_validators demo_env) p = None \<longleftrightarrow> p \<notin> set builtin_packs"
    using arg_cong [OF builtin_validators_packs [of demo_env], of set] by (simp add: map_of_eq_None_iff)
qed

lemma limit_packs: "mr_packs limit_registry = [evse_pack, infrastructure_pack, photovoltaic_pack, storage_pack, thermal_pack]"
  by code_simp

definition limit_rows :: "(PackRef, nat) gomap" where
  "limit_rows = [(evse_pack, 0), (infrastructure_pack, 1), (photovoltaic_pack, 2), (storage_pack, 3), (thermal_pack, 4)]"

lemma limit_add_rows:
  "foldl (add_row (builtin_validators demo_env)) ([], []) (mr_packs limit_registry) = (limit_rows, map (empty_row \<circ> fst) limit_rows)"
proof -
  have "distinct [evse_pack, infrastructure_pack, photovoltaic_pack, storage_pack, thermal_pack]" by code_simp
  then show ?thesis
    by (simp add: limit_packs add_row_def limit_builtin(2) builtin_packs_def limit_rows_def)
qed

lemma limit_storage_row: "map_of limit_rows storage_pack = Some 3"
  by code_simp

definition limit_service :: ServiceInstance where
  "limit_service = demo_service\<lparr>si_Definition := storage_ref ''storage.service.interface''\<rparr>"

definition limit_capability :: CapabilityInstance where
  "limit_capability = demo_capability\<lparr>ci_Definition := storage_ref ''storage.capability.set_charge_limit'', ci_Constraints := Some [charge_field]\<rparr>"

definition limit_envelope :: FactEnvelope where
  "limit_envelope = (op_envelope interlock_observed)\<lparr>fe_Key := interface_key ''storage.status.interlock''\<rparr>"

lemma limit_checked:
  "HasDefinition (Some limit_registry) (storage_ref ''storage.service.interface'')"
  "HasDefinition (Some limit_registry) (storage_ref ''storage.capability.set_charge_limit'')"
  "ServiceOwnsCapability (Some limit_registry) (storage_ref ''storage.service.interface'') (storage_ref ''storage.capability.set_charge_limit'')"
  "pv_ValidateService (storage_New demo_env) limit_service = None"
  "pv_ValidateCapability (storage_New demo_env)
    (limit_capability\<lparr>ci_Qualification := QualificationQualified, ci_Availability := AvailabilityAvailable\<rparr>) = None"
  by code_simp+

lemma limit_fact_checked: "availabilityFactValid demo_env limit_registry (storage_New demo_env, storage_Metadata) interlock_observed = None"
  by code_simp

lemma limit_snapshot_lists:
  "elems (sn_Services storage_snapshot) = [limit_service]" "elems (sn_Capabilities storage_snapshot) = [limit_capability]"
  "elems (sn_Facts storage_snapshot) = [limit_envelope]" "elems (vw_Retained limit_view) = []"
  "si_Definition limit_service = storage_ref ''storage.service.interface''" "si_InstanceID limit_service = ci_ServiceInstance limit_capability"
  "ci_Definition limit_capability = storage_ref ''storage.capability.set_charge_limit''"
  "key_pack (fe_Key limit_envelope) = storage_pack" "elems (fe_Candidates limit_envelope) = [interlock_observed]"
  by (simp_all add: storage_snapshot_def limit_service_def limit_capability_def limit_envelope_def limit_view_def fresh_view_def
      key_pack_def interface_key_def op_envelope_def demo_service_def demo_capability_def)

lemma change_row_succeeds: "e = None \<Longrightarrow> \<exists>packs'. change_row rows pack e f packs = Inr packs'"
  by (simp add: change_row_def split: option.split)

lemma limit_row_steps:
  "\<exists>packs'. service_row demo_env limit_registry limit_rows limit_service packs = Inr packs'"
  "\<exists>packs'. capability_row demo_env limit_registry limit_rows (map_from si_InstanceID [limit_service]) limit_capability packs = Inr packs'"
  "\<exists>packs'. fact_row demo_env limit_registry limit_rows (map_from ef_CandidateID (elems (vw_Facts limit_view))) limit_envelope packs = Inr packs'"
proof -
  have pack: "df_Pack (storage_ref i) = storage_pack" for i by (simp add: definition_ref_def)
  have owner: "map_of (map_from si_InstanceID [limit_service]) (ci_ServiceInstance limit_capability) = Some limit_service" by code_simp
  show "\<exists>packs'. service_row demo_env limit_registry limit_rows limit_service packs = Inr packs'"
    unfolding service_row_def Let_def
    by (rule change_row_succeeds) (simp add: limit_snapshot_lists pack limit_builtin(1) limit_checked opt_err_def)
  show "\<exists>packs'. capability_row demo_env limit_registry limit_rows (map_from si_InstanceID [limit_service]) limit_capability packs = Inr packs'"
    unfolding capability_row_def Let_def
    by (rule change_row_succeeds) (simp add: limit_snapshot_lists pack owner limit_builtin(1) limit_checked opt_err_def)
  show "\<exists>packs'. fact_row demo_env limit_registry limit_rows (map_from ef_CandidateID (elems (vw_Facts limit_view))) limit_envelope packs = Inr packs'"
    unfolding fact_row_def Let_def
    by (rule change_row_succeeds) (simp add: limit_snapshot_lists limit_builtin(1) limit_fact_checked opt_err_def)
qed

lemma limit_availability: "\<exists>packs. availability_rows demo_env limit_registry storage_snapshot limit_view = Inr packs"
proof -
  have len: "length limit_rows = length (builtin_validators demo_env)"
    using arg_cong [OF builtin_validators_packs [of demo_env], of length] by (simp add: limit_rows_def builtin_packs_def)
  let ?p0 = "map (empty_row \<circ> fst) limit_rows"
  obtain p1 where p1: "service_row demo_env limit_registry limit_rows limit_service ?p0 = Inr p1" using limit_row_steps(1) by blast
  obtain p2 where p2: "capability_row demo_env limit_registry limit_rows (map_from si_InstanceID [limit_service]) limit_capability p1 = Inr p2"
    using limit_row_steps(2) by blast
  obtain p3 where p3: "fact_row demo_env limit_registry limit_rows (map_from ef_CandidateID (elems (vw_Facts limit_view))) limit_envelope p2 = Inr p3"
    using limit_row_steps(3) by blast
  show ?thesis
    by (simp add: availability_rows_def Packs_of_def limit_add_rows len limit_snapshot_lists(1-4) p1 p2 p3)
qed

theorem availability_view_is_exact_witness:
  "\<exists>v. DerivePackAvailability demo_env (Some limit_registry) storage_snapshot limit_view = Inr v \<and>
    set (map pa_Pack (av_Packs v)) = {thermal_pack, photovoltaic_pack, storage_pack, evse_pack, infrastructure_pack} \<and>
    (\<exists>row. row \<in> set (av_Packs v) \<and> pa_Pack row = storage_pack \<and> pa_Services row = [limit_service] \<and>
      pa_Capabilities row = [limit_capability] \<and> map af_Envelope (pa_Facts row) = [limit_envelope])"
proof -
  obtain packs where "availability_rows demo_env limit_registry storage_snapshot limit_view = Inr packs" using limit_availability by blast
  with limit_checks obtain v where v: "DerivePackAvailability demo_env (Some limit_registry) storage_snapshot limit_view = Inr v"
    by (simp add: DerivePackAvailability_def)
  note exact = availability_view_is_exact [OF limit_registry_new v]
  then have "storage_pack \<in> set (map pa_Pack (av_Packs v))" by blast
  then obtain row where row: "row \<in> set (av_Packs v)" "pa_Pack row = storage_pack" by auto
  have "row_exact storage_snapshot limit_view row" using exact row(1) by (simp add: list_all_iff)
  moreover have "df_Pack (storage_ref i) = storage_pack" for i by (simp add: definition_ref_def)
  ultimately have "pa_Services row = [limit_service]" "pa_Capabilities row = [limit_capability]" "map af_Envelope (pa_Facts row) = [limit_envelope]"
    by (simp_all add: row_exact_def row(2) limit_snapshot_lists)
  moreover have "set (map pa_Pack (av_Packs v)) = {thermal_pack, photovoltaic_pack, storage_pack, evse_pack, infrastructure_pack}"
    using exact by (elim conjE)
  ultimately show ?thesis using v row by (intro exI [of _ v] exI [of _ row] conjI)
qed

end
