(* ===== verification/Projection_Laws.thy ===== *)
theory Projection_Laws
  imports Projection
begin

text \<open>
  Laws of the projection reports: what the ordered collections of \<^verbatim>\<open>projection/validation.go\<close> accept,
  that the accounting of tuples pairs requested items and dispositions one to one, and that accepted
  source keys are keys of the snapshot.
\<close>

section \<open>Ordered collections\<close>

definition text_ascending :: "string list \<Rightarrow> bool" where
  "text_ascending ks \<longleftrightarrow> sorted_wrt (\<lambda>a b. string_compare a b \<le> 0) ks \<and> distinct ks"

lemma ordered_loop_iff:
  "ordered_loop key seen previous duplicate ordered items = (False, True) \<longleftrightarrow>
     \<not> duplicate \<and> ordered \<and> distinct (List.map_filter key items) \<and> set (List.map_filter key items) \<inter> set seen = {} \<and>
     sorted_wrt (\<lambda>a b. string_compare a b \<le> 0) ((case previous of None \<Rightarrow> [] | Some p \<Rightarrow> [p]) @ List.map_filter key items)"
proof (induction key seen previous duplicate ordered items rule: ordered_loop.induct)
  case (2 key seen previous duplicate ordered item items)
  show ?case
  proof (cases "key item")
    case None
    then show ?thesis using 2(1) by (simp add: map_filter_simps)
  next
    case (Some k)
    then show ?thesis using 2(2) [OF Some]
      by (auto simp: map_filter_simps not_less split: option.splits intro: string_cmp.cmp_trans)
  qed
qed (auto simp: map_filter_simps split: option.splits)

lemma orderedValid_iff: "orderedValid key items = (False, True) \<longleftrightarrow> text_ascending (List.map_filter key items)"
proof (cases "length items < 2")
  case True
  then have "length (List.map_filter key items) < 2"
    by (simp add: map_filter_def) (use length_filter_le le_less_trans in blast)
  then have "text_ascending (List.map_filter key items)"
    by (cases "List.map_filter key items" rule: remdups_adj.cases) (simp_all add: text_ascending_def)
  with True show ?thesis by (simp add: orderedValid_def)
qed (auto simp: orderedValid_def ordered_loop_iff text_ascending_def)

lemma order_error_None [simp]: "order_error flags dup detail = None \<longleftrightarrow> flags = (False, True)"
  by (cases flags) (auto simp: order_error_def)

lemma map_filter_all: "(\<And>x. x \<in> set xs \<Longrightarrow> key x = Some (f x)) \<Longrightarrow> List.map_filter key xs = map f xs"
  by (induction xs) (simp_all add: map_filter_simps)

lemma text_ascending_unique:
  assumes "text_ascending xs" "text_ascending ys" "set xs = set ys"
  shows "xs = ys"
proof -
  have m: "mset xs = mset ys" using assms set_eq_iff_mset_eq_distinct by (auto simp: text_ascending_def)
  have "sort_by string_compare ys = xs" "sort_by string_compare ys = ys"
    using assms m by (auto intro!: string_cmp.sort_by_unique simp: text_ascending_def)
  then show ?thesis by simp
qed

section \<open>Accounting\<close>

lemma tuple_key_inj:
  assumes "ItemKind_Validate a = None" "ItemKind_Validate b = None"
  shows "tuple_key a i = tuple_key b j \<longleftrightarrow> a = b \<and> i = j"
  using assms by (cases a; cases b) (simp_all add: ItemKind_Validate_def tuple_key_def)

lemma requested_keys_Some:
  "requested_keys seen rs = Some all \<Longrightarrow> set all = set seen \<union> (\<lambda>r. tuple_key (rq_Kind r) (rq_ItemID r)) ` set rs"
  by (induction seen rs rule: requested_keys.induct) (auto simp: Let_def split: if_splits)

lemma account_set:
  "account seen ds \<Longrightarrow> set seen = (\<lambda>d. tuple_key (pd_Kind d) (pd_ItemID d)) ` set ds"
  by (induction seen ds rule: account.induct) (auto simp: Let_def)

abbreviation request_tuple :: "RequestedItem \<Rightarrow> ItemKind \<times> DefinitionID" where
  "request_tuple r \<equiv> (rq_Kind r, rq_ItemID r)"

abbreviation disposition_tuple :: "ProjectionDisposition \<Rightarrow> ItemKind \<times> DefinitionID" where
  "disposition_tuple d \<equiv> (pd_Kind d, pd_ItemID d)"

text \<open>Both lists are in canonical order and hold the same tuples, so they are the same list of tuples.\<close>

lemma report_accounting:
  assumes "ProjectionReport_Validate E r = None"
  shows "map request_tuple (elems (pj_Requested r)) = map disposition_tuple (elems (pj_Dispositions r)) \<and>
    distinct (map disposition_tuple (elems (pj_Dispositions r)))"
proof -
  let ?rs = "elems (pj_Requested r)" and ?ds = "elems (pj_Dispositions r)"
  let ?rk = "\<lambda>r. tuple_key (rq_Kind r) (rq_ItemID r)" and ?dk = "\<lambda>d. tuple_key (pd_Kind d) (pd_ItemID d)"
  have rs: "ItemKind_Validate (rq_Kind x) = None \<and> DefinitionID_Validate (rq_ItemID x) = None" if "x \<in> set ?rs" for x
    using assms that by (auto simp: ProjectionReport_Validate_def RequestedItem_Validate_def ball_Un)
  have ds: "ItemKind_Validate (pd_Kind x) = None \<and> DefinitionID_Validate (pd_ItemID x) = None" if "x \<in> set ?ds" for x
    using assms that by (auto simp: ProjectionReport_Validate_def ProjectionDisposition_Validate_def ball_Un)
  have "orderedRequested (pj_Requested r) = (False, True)" "orderedDispositions (pj_Dispositions r) = (False, True)"
    and same: "sameRequestedTuples (pj_Requested r) (pj_Dispositions r)"
    using assms by (simp_all add: ProjectionReport_Validate_def ball_Un)
  then have sorted: "text_ascending (map ?rk ?rs)" "text_ascending (map ?dk ?ds)"
    unfolding orderedRequested_def orderedDispositions_def orderedValid_iff
    by (subst (asm) map_filter_all; use rs ds in simp)+
  have "set (map ?rk ?rs) = set (map ?dk ?ds)"
    using same requested_keys_Some [of "[]" ?rs] account_set [of _ ?ds] by (auto simp: sameRequestedTuples_def split: option.splits)
  with sorted have keys: "map ?rk ?rs = map ?dk ?ds" by (rule text_ascending_unique)
  then have len: "length ?rs = length ?ds" by (rule map_eq_imp_length_eq)
  have "request_tuple (?rs ! n) = disposition_tuple (?ds ! n)" if n: "n < length ?rs" for n
  proof -
    have "?rk (?rs ! n) = ?dk (?ds ! n)" using arg_cong [OF keys, of "\<lambda>l. l ! n"] n len by simp
    then show ?thesis using tuple_key_inj rs [of "?rs ! n"] ds [of "?ds ! n"] n len by simp
  qed
  then have "map request_tuple ?rs = map disposition_tuple ?ds" using len by (auto intro: nth_equalityI)
  moreover have "distinct (map disposition_tuple ?ds)"
    using sorted(2) by (auto simp: text_ascending_def distinct_map inj_on_def)
  ultimately show ?thesis ..
qed

section \<open>Source keys\<close>

lemma in_map_filter: "t \<in> set (List.map_filter f xs) \<longleftrightarrow> (\<exists>x \<in> set xs. f x = Some t)"
  by (induction xs) (auto simp: map_filter_simps split: option.splits)

lemma resolvable_key:
  "t \<in> set (resolvable_keys E s) \<longleftrightarrow> (\<exists>e \<in> set (elems (sn_Facts s)). factKeyIdentity E (fe_Key e) = Inr t)"
proof -
  have "(case x of Inl _ \<Rightarrow> None | Inr u \<Rightarrow> Some u) = Some t \<longleftrightarrow> x = Inr t" for x :: "error + string" by (cases x) auto
  then show ?thesis by (simp add: resolvable_keys_def in_map_filter factKeyIdentity_def)
qed

lemma source_key_resolves:
  assumes "sourceResolutionError E s ds = None" "d \<in> set ds" "k \<in> set (elems (pd_SourceKeys d))" "FactKey_Validate E k = None"
  shows "\<exists>e \<in> set (elems (sn_Facts s)). fe_Key e = k"
proof -
  obtain t where t: "factKeyIdentity E k = Inr t" using factKeyIdentity_valid [OF assms(4)] by blast
  then have "t \<in> set (resolvable_keys E s)"
    using assms(1-3) by (fastforce simp: sourceResolutionError_def factKeyIdentity_def)
  then show ?thesis using t factKeyIdentity_inj unfolding resolvable_key by blast
qed

lemma report_source_keys:
  assumes "ProjectionReport_Validate E r = None" "sourceResolutionError E s (elems (pj_Dispositions r)) = None"
    "d \<in> set (elems (pj_Dispositions r))"
  shows "set (elems (pd_SourceKeys d)) \<subseteq> fe_Key ` set (elems (sn_Facts s))"
proof
  fix k assume k: "k \<in> set (elems (pd_SourceKeys d))"
  then have "FactKey_Validate E k = None"
    using assms(1, 3) by (auto simp: ProjectionReport_Validate_def ProjectionDisposition_Validate_def ball_Un)
  from source_key_resolves [OF assms(2, 3) k this] show "k \<in> fe_Key ` set (elems (sn_Facts s))" by blast
qed

section \<open>Accepted reports\<close>

lemma detached_Inr: "detached E r = Inr r' \<Longrightarrow> r' = r \<and> ProjectionReport_Validate E r = None"
  by (auto simp: detached_def CanonicalJSON_def split: sum.splits option.splits)

lemma Project_Inr:
  assumes "Project E s m requested dispositions causal = Inr r"
  shows "r = \<lparr>pj_Contract = ContractProjectionV1, pj_Manifest = m, pj_SnapshotID = sn_SnapshotID s, pj_Revisions = sn_Revisions s,
      pj_Requested = requested, pj_Dispositions = dispositions, pj_Causal = causal\<rparr>"
    and "Snapshot_Validate E s = None" "ProjectionReport_Validate E r = None" "sourceResolutionError E s (elems dispositions) = None"
  using assms by (auto simp: Project_def Let_def dest!: detached_Inr split: option.splits)

end
