(* ===== verification/Catalog.thy ===== *)
theory Catalog
  imports Types Scalars
begin

text \<open>
  \<^verbatim>\<open>catalog/catalog.go\<close>: the family catalog and its validation. Errors of this package are plain
  messages; the model keeps what they name as a datatype. Decoding of the JSON document is done by
  \<^verbatim>\<open>encoding/json\<close> and is not modelled.
\<close>

section \<open>Records\<close>

definition Contract :: string where
  "Contract = ''helianthus.semreg.family-catalog/v1''"

datatype Composition = CompositionComposed | CompositionComposedLegacy | CompositionProviderLocal | CompositionNotComposed
  | CompositionOther string

datatype Reason = ReasonOfflineProfileOnly | ReasonOfflineMappingGateOnly | ReasonFamilyCompatibleOffline
  | ReasonNoAdmissibleProfile | ReasonQualificationTestReadyOnly | ReasonEvidenceBlocked | ReasonNoGoMissingEvidence
  | ReasonOfflineReplayOnly | ReasonSemanticMappingUnknown | ReasonLegacyLayerComposition | ReasonUnknownPendingSTD01
  | ReasonNoProducer | ReasonOther string

definition EvidenceKindGatewayComposition :: string where
  "EvidenceKindGatewayComposition = ''gateway_composition''"

definition gatewayOwnerPrefix :: string where
  "gatewayOwnerPrefix = ''Project-Helianthus/helianthus-ebusgateway@''"

definition pinPrefix :: string where
  "pinPrefix = ''Project-Helianthus/helianthus-docs-semantic@''"

record Evidence =
  ce_Owner :: string
  ce_Kind :: string
  ce_Locator :: string
  ce_Statement :: string

record Family =
  fa_FamilyID :: string
  fa_Name :: string
  fa_NativeOwner :: string
  fa_SemanticPack :: string
  fa_State :: Qualification
  fa_Composition :: Composition
  fa_CompositionVerified :: bool
  fa_Reason :: Reason
  fa_Evidence :: "Evidence slice"

record Catalog =
  ct_Contract :: string
  ct_SemanticDocsPin :: string
  ct_States :: "Qualification slice"
  ct_Families :: "Family slice"

datatype FamilyError = IdentityRequired | StateNotAllowed Qualification | CompositionNotAllowed Composition
  | ReasonNotAllowed Reason | EvidenceRequired | EvidenceIncomplete | GatewayNotPinned | CompositionUnverified
  | NotComposedVerified | VerifiedWithoutGateway

datatype CatalogError = BadContract string | BadDocsPin | ForeignState Qualification | StateDeclaredTwice Qualification
  | StatesDiffer | BadFamily string FamilyError | DuplicateFamily string | MissingFamilies "string list" | UnlistedFamily

section \<open>Vocabulary\<close>

definition AllowedStates :: "Qualification list" where
  "AllowedStates = [QualificationCandidate, QualificationQualified, QualificationUnsupported, QualificationUnknown, QualificationRejected]"

definition RequiredFamilyIDs :: "string list" where
  "RequiredFamilyIDs =
    [''sunspec-fronius-pv'', ''growatt-bms-rs485-v202'', ''tesla-gen3-evse'', ''tesla-legacy-fbe0-fde0'',
     ''growatt-protocol-ii'', ''huawei-smartlogger'', ''huawei-emma'', ''huawei-sdongle'', ''outback-axs'',
     ''growatt-bms-can-v104'', ''gree-vrf-can'', ''vaillant-ebus-thermal'', ''eebus-inbound'', ''infrastructure'']"

definition compositions :: "Composition list" where
  "compositions = [CompositionComposed, CompositionComposedLegacy, CompositionProviderLocal, CompositionNotComposed]"

definition reasons :: "Reason list" where
  "reasons =
    [ReasonOfflineProfileOnly, ReasonOfflineMappingGateOnly, ReasonFamilyCompatibleOffline, ReasonNoAdmissibleProfile,
     ReasonQualificationTestReadyOnly, ReasonEvidenceBlocked, ReasonNoGoMissingEvidence, ReasonOfflineReplayOnly,
     ReasonSemanticMappingUnknown, ReasonLegacyLayerComposition, ReasonUnknownPendingSTD01, ReasonNoProducer]"

text \<open>The loop of \<^verbatim>\<open>isCommitSHA\<close> runs over runes; a character outside ASCII has no byte in the two ranges,
  so the bytes decide.\<close>

definition isCommitSHA :: "string \<Rightarrow> bool" where
  "isCommitSHA s \<longleftrightarrow> length s = 40 \<and> list_all (\<lambda>c. digit c \<or> one_of ''abcdef'' c) s"

definition pinned :: "string \<Rightarrow> string \<Rightarrow> bool" where
  "pinned prefix s \<longleftrightarrow> take (length prefix) s = prefix \<and> isCommitSHA (drop (length prefix) s)"

section \<open>Validation\<close>

text \<open>The loop over the evidence of a family: an error, or whether gateway evidence was found.\<close>

fun evidence_loop :: "bool \<Rightarrow> Evidence list \<Rightarrow> FamilyError + bool" where
  "evidence_loop gateway [] = Inr gateway"
| "evidence_loop gateway (e # es) =
     (if ce_Owner e = '''' \<or> ce_Kind e = '''' \<or> ce_Locator e = '''' \<or> ce_Statement e = '''' then Inl EvidenceIncomplete
      else if ce_Kind e = EvidenceKindGatewayComposition
      then if \<not> pinned gatewayOwnerPrefix (ce_Owner e) then Inl GatewayNotPinned else evidence_loop True es
      else evidence_loop gateway es)"

definition Family_validate :: "Family \<Rightarrow> FamilyError option" where
  "Family_validate f =
     (if fa_FamilyID f = '''' \<or> fa_Name f = '''' then Some IdentityRequired
      else if fa_State f \<notin> set AllowedStates then Some (StateNotAllowed (fa_State f))
      else if fa_Composition f \<notin> set compositions then Some (CompositionNotAllowed (fa_Composition f))
      else if fa_Reason f \<notin> set reasons then Some (ReasonNotAllowed (fa_Reason f))
      else if elems (fa_Evidence f) = [] then Some EvidenceRequired
      else case evidence_loop False (elems (fa_Evidence f)) of
        Inl e \<Rightarrow> Some e
      | Inr gateway \<Rightarrow>
          if fa_Composition f \<noteq> CompositionNotComposed \<and> \<not> (fa_CompositionVerified f \<and> gateway) then Some CompositionUnverified
          else if fa_Composition f = CompositionNotComposed \<and> (fa_CompositionVerified f \<or> gateway) then Some NotComposedVerified
          else if fa_CompositionVerified f \<and> \<not> gateway then Some VerifiedWithoutGateway
          else None)"

fun states_loop :: "Qualification list \<Rightarrow> Qualification list \<Rightarrow> CatalogError + Qualification list" where
  "states_loop declared [] = Inr declared"
| "states_loop declared (s # ss) =
     (if s \<notin> set AllowedStates then Inl (ForeignState s)
      else if s \<in> set declared then Inl (StateDeclaredTwice s)
      else states_loop (s # declared) ss)"

fun families_loop :: "string list \<Rightarrow> Family list \<Rightarrow> CatalogError + string list" where
  "families_loop seen [] = Inr seen"
| "families_loop seen (f # fs) = (case Family_validate f of
     Some e \<Rightarrow> Inl (BadFamily (fa_FamilyID f) e)
   | None \<Rightarrow> if fa_FamilyID f \<in> set seen then Inl (DuplicateFamily (fa_FamilyID f)) else families_loop (fa_FamilyID f # seen) fs)"

definition Catalog_Validate :: "Catalog \<Rightarrow> CatalogError option" where
  "Catalog_Validate c =
     (if ct_Contract c \<noteq> Contract then Some (BadContract (ct_Contract c))
      else if \<not> pinned pinPrefix (ct_SemanticDocsPin c) then Some BadDocsPin
      else case states_loop [] (elems (ct_States c)) of
        Inl e \<Rightarrow> Some e
      | Inr declared \<Rightarrow>
          if length declared \<noteq> length AllowedStates then Some StatesDiffer
          else case families_loop [] (elems (ct_Families c)) of
            Inl e \<Rightarrow> Some e
          | Inr seen \<Rightarrow>
              (let missing = filter (\<lambda>i. i \<notin> set seen) RequiredFamilyIDs in
               if missing \<noteq> [] then Some (MissingFamilies (sort_by string_compare missing))
               else if length seen \<noteq> length RequiredFamilyIDs then Some UnlistedFamily else None))"

section \<open>What validation guarantees\<close>

lemma states_loop_Inr:
  assumes "states_loop declared ss = Inr all" "distinct declared" "set declared \<subseteq> set AllowedStates"
  shows "distinct all \<and> set all \<subseteq> set AllowedStates \<and> set all = set declared \<union> set ss \<and> length all = length declared + length ss"
  using assms by (induction declared ss rule: states_loop.induct) (auto split: if_splits)

lemma families_loop_Inr:
  assumes "families_loop seen fs = Inr all" "distinct seen"
  shows "distinct all \<and> set all = set seen \<union> fa_FamilyID ` set fs \<and> length all = length seen + length fs \<and>
    (\<forall>f \<in> set fs. Family_validate f = None)"
  using assms by (induction seen fs rule: families_loop.induct) (auto split: if_splits option.splits)

text \<open>What a family of the catalog has to be: named, with declared vocabulary and complete evidence, and claimed as
  composed exactly when its verification flag is set and exactly when gateway evidence is attached;
  every piece of gateway evidence is pinned to a commit.\<close>

definition gateway_evidence :: "Family \<Rightarrow> Evidence set" where
  "gateway_evidence f = {e \<in> set (elems (fa_Evidence f)). ce_Kind e = EvidenceKindGatewayComposition}"

definition family_ok :: "Family \<Rightarrow> bool" where
  "family_ok f \<longleftrightarrow> fa_FamilyID f \<noteq> [] \<and> fa_Name f \<noteq> [] \<and> fa_State f \<in> set AllowedStates \<and>
     fa_Composition f \<in> set compositions \<and> fa_Reason f \<in> set reasons \<and> elems (fa_Evidence f) \<noteq> [] \<and>
     (\<forall>e \<in> set (elems (fa_Evidence f)). ce_Owner e \<noteq> [] \<and> ce_Kind e \<noteq> [] \<and> ce_Locator e \<noteq> [] \<and> ce_Statement e \<noteq> []) \<and>
     (\<forall>e \<in> gateway_evidence f. pinned gatewayOwnerPrefix (ce_Owner e)) \<and>
     (fa_CompositionVerified f \<longleftrightarrow> gateway_evidence f \<noteq> {}) \<and>
     (fa_Composition f \<noteq> CompositionNotComposed \<longleftrightarrow> gateway_evidence f \<noteq> {})"

lemma evidence_loop_iff:
  "evidence_loop gateway es = Inr found \<longleftrightarrow>
     (\<forall>e \<in> set es. ce_Owner e \<noteq> [] \<and> ce_Kind e \<noteq> [] \<and> ce_Locator e \<noteq> [] \<and> ce_Statement e \<noteq> []) \<and>
     (\<forall>e \<in> set es. ce_Kind e = EvidenceKindGatewayComposition \<longrightarrow> pinned gatewayOwnerPrefix (ce_Owner e)) \<and>
     (found \<longleftrightarrow> gateway \<or> (\<exists>e \<in> set es. ce_Kind e = EvidenceKindGatewayComposition))"
  by (induction gateway es rule: evidence_loop.induct) auto

lemma Family_validate_iff: "Family_validate f = None \<longleftrightarrow> family_ok f"
proof -
  let ?es = "elems (fa_Evidence f)"
  have ne: "gateway_evidence f \<noteq> {} \<longleftrightarrow> (\<exists>e \<in> set ?es. ce_Kind e = EvidenceKindGatewayComposition)" by (auto simp: gateway_evidence_def)
  have pins: "(\<forall>e \<in> gateway_evidence f. P e) \<longleftrightarrow> (\<forall>e \<in> set ?es. ce_Kind e = EvidenceKindGatewayComposition \<longrightarrow> P e)" for P
    by (auto simp: gateway_evidence_def)
  show ?thesis
  proof (cases "evidence_loop False ?es")
    case (Inl e)
    then show ?thesis using evidence_loop_iff [of False ?es] unfolding Family_validate_def family_ok_def ne pins by auto
  next
    case (Inr found)
    then show ?thesis using evidence_loop_iff [of False ?es found] unfolding Family_validate_def family_ok_def ne pins by auto
  qed
qed

lemma families_loop_iff:
  "(\<exists>all. families_loop seen fs = Inr all) \<longleftrightarrow>
     (\<forall>f \<in> set fs. family_ok f) \<and> distinct (map fa_FamilyID fs) \<and> fa_FamilyID ` set fs \<inter> set seen = {}"
  by (induction seen fs rule: families_loop.induct) (auto simp flip: Family_validate_iff split: option.splits)

lemma states_loop_iff:
  "(\<exists>all. states_loop declared ss = Inr all) \<longleftrightarrow> set ss \<subseteq> set AllowedStates \<and> distinct ss \<and> set ss \<inter> set declared = {}"
  by (induction declared ss rule: states_loop.induct) auto

lemma covers_exactly:
  assumes "distinct xs" "distinct ys"
  shows "set xs \<subseteq> set ys \<and> length xs = length ys \<longleftrightarrow> set xs = set ys"
  using assms by (metis List.finite_set card_subset_eq distinct_card order_refl)

end
