(* ===== verification/Shipped_Catalog.thy ===== *)
theory Shipped_Catalog
  imports Catalog
begin

text \<open>
  The family catalog that the repository ships, \<^verbatim>\<open>fixtures/v1/family-catalog-v1.json\<close>, as the record
  \<^verbatim>\<open>catalog.Decode\<close> makes of it: the members of each row in the document's order.
\<close>

definition evidence_ref :: "string \<Rightarrow> string \<Rightarrow> string \<Rightarrow> string \<Rightarrow> Evidence" where
  "evidence_ref owner kind locator statement =
     \<lparr>ce_Owner = owner, ce_Kind = kind, ce_Locator = locator, ce_Statement = statement\<rparr>"

definition sunspec_fronius_pv_family :: Family where
  "sunspec_fronius_pv_family =
     \<lparr>fa_FamilyID = ''sunspec-fronius-pv'', fa_Name = ''SunSpec / Fronius PV inverter (Modbus)'',
      fa_NativeOwner = ''Project-Helianthus/helianthus-modbusreg'', fa_SemanticPack = ''helianthus.pack.pv@1.0.0'',
      fa_State = QualificationCandidate, fa_Composition = CompositionComposed, fa_CompositionVerified = True,
      fa_Reason = ReasonOfflineProfileOnly,
      fa_Evidence = Some [
       evidence_ref ''Project-Helianthus/helianthus-modbusreg@1d92f28''
         ''native_disposition'' ''profiles/vendor/fronius/disposition.json''
         ''outcome OFFLINE_PROFILE_ADMITTED; live_qualified=false, write_authority=false, support_claim=false, automatic_runtime_admission=false'',
       evidence_ref ''Project-Helianthus/helianthus-docs-semantic@30f5e5c''
         ''semantic_contract'' ''api/v1/packs/pv-inverter-v1.md''
         ''Fronius rows are candidates only, offline-only, live_qualified=false, no write authority'',
       evidence_ref ''Project-Helianthus/helianthus-semreg@7c56095''
         ''semreg_fixture'' ''fixtures/v1/compatibility/canonical-pv-v1/manifest.json''
         ''canonical-PV v1 migration comparator executes the composed PV path through SemReg; no native mapping or live authority is created'',
       evidence_ref ''Project-Helianthus/helianthus-ebusgateway@e017a547967e449ffbe76ea779d5892596306f07''
         ''gateway_composition'' ''internal/modbusadapter/semreg_pv_publication_core.go''
         ''gateway publishes canonical PV facts through SemReg (also internal/modbusadapter/adapter.go); cmd/gateway/modbus_sunspec_runtime.go is a read-only live-smoke driver, not a composition claim'']\<rparr>"

definition growatt_bms_rs485_v202_family :: Family where
  "growatt_bms_rs485_v202_family =
     \<lparr>fa_FamilyID = ''growatt-bms-rs485-v202'', fa_Name = ''Growatt BMS RS-485 V2.02 (Modbus RTU)'',
      fa_NativeOwner = ''Project-Helianthus/helianthus-modbusreg'', fa_SemanticPack = ''helianthus.pack.storage@1.1.0'',
      fa_State = QualificationCandidate, fa_Composition = CompositionComposed, fa_CompositionVerified = True,
      fa_Reason = ReasonOfflineMappingGateOnly,
      fa_Evidence = Some [
       evidence_ref ''Project-Helianthus/helianthus-docs-semantic@30f5e5c''
         ''semantic_contract'' ''api/v1/mappings/growatt-bms-rs485-v202-storage-v1.md''
         ''accepted source-specific read-only mapping gate over offline synthetic RTU observations; neither device support nor physical qualification'',
       evidence_ref ''Project-Helianthus/helianthus-modbusreg@1d92f28''
         ''native_evidence'' ''growatt_bms_rs485.go''
         ''revision tuple 1xSxxP ESS / Rev2.01 / V2.0 / 2.02 native read-only decoder'',
       evidence_ref ''Project-Helianthus/helianthus-docs-semantic@30f5e5c''
         ''semantic_contract'' ''compatibility/donor-ledger.md''
         ''storage/BMS RS-485 row is an offline candidate only, physical qualification false, no control route'',
       evidence_ref ''Project-Helianthus/helianthus-ebusgateway@e017a547967e449ffbe76ea779d5892596306f07''
         ''gateway_composition'' ''cmd/gateway/growatt_bms_rs485_runtime.go''
         ''SemanticStorageCurrent performs the SemReg-only storage publication (line ~236-256); cmd/gateway/growatt_storage_semreg.go'']\<rparr>"

definition tesla_gen3_evse_family :: Family where
  "tesla_gen3_evse_family =
     \<lparr>fa_FamilyID = ''tesla-gen3-evse'', fa_Name = ''Tesla Wall Connector Gen3 (wc3_24_44_3 current limit)'',
      fa_NativeOwner = ''Project-Helianthus/helianthus-modbusreg'', fa_SemanticPack = ''helianthus.pack.evse@1.0.0'',
      fa_State = QualificationCandidate, fa_Composition = CompositionProviderLocal, fa_CompositionVerified = True,
      fa_Reason = ReasonOfflineMappingGateOnly,
      fa_Evidence = Some [
       evidence_ref ''Project-Helianthus/helianthus-docs-semantic@30f5e5c''
         ''semantic_contract'' ''api/v1/mappings/tesla-gen3-wc3-24443-evse-current-limit-v1.md''
         ''accepted source-specific read-only current-limit mapping gate for the exact profile; offline mapping qualification, not device-support or physical qualification'',
       evidence_ref ''Project-Helianthus/helianthus-modbusreg@1d92f28''
         ''native_evidence'' ''tesla_gen3_evse_current_limit.go''
         ''Gen3 FC100 persistent and provisional current-limit retention; native evidence stays with the registry'',
       evidence_ref ''Project-Helianthus/helianthus-ebusgateway@e017a547967e449ffbe76ea779d5892596306f07''
         ''gateway_composition'' ''cmd/gateway/tesla_hsc_retained_owner.go''
         ''retained owner publishes only to mcp.TeslaGen3EVSESemanticPublication (mcp/tesla_gen3_evse_semantic.go) and serves MCP readers: provider-local, no gateway-wide composition'']\<rparr>"

definition tesla_legacy_fbe0_fde0_family :: Family where
  "tesla_legacy_fbe0_fde0_family =
     \<lparr>fa_FamilyID = ''tesla-legacy-fbe0-fde0'', fa_Name = ''Tesla legacy Wall Connector FBE0/FDE0 (RS-485)'',
      fa_NativeOwner = ''Project-Helianthus/helianthus-modbusreg'', fa_SemanticPack = ''helianthus.pack.evse@1.0.0'',
      fa_State = QualificationCandidate, fa_Composition = CompositionNotComposed, fa_CompositionVerified = False,
      fa_Reason = ReasonFamilyCompatibleOffline,
      fa_Evidence = Some [
       evidence_ref ''Project-Helianthus/helianthus-modbusreg@1d92f28''
         ''native_evidence'' ''tesla_legacy_fbe0_fde0.go''
         ''TeslaLegacyFamilyCompatible and TeslaLegacyBuildConfirmed evidence tiers; relative/unknown state carries no absolute allocation'',
       evidence_ref ''Project-Helianthus/helianthus-docs-semantic@30f5e5c''
         ''semantic_contract'' ''compatibility/donor-ledger.md''
         ''Tesla FBE0/FDE0 is offline family-compatible native evidence only; allocated and actual current remain separate; no sender, control route or live authority'']\<rparr>"

definition growatt_protocol_ii_family :: Family where
  "growatt_protocol_ii_family =
     \<lparr>fa_FamilyID = ''growatt-protocol-ii'', fa_Name = ''Growatt Protocol II (Modbus)'',
      fa_NativeOwner = ''Project-Helianthus/helianthus-modbusreg'', fa_SemanticPack = ''helianthus.pack.pv@1.0.0'',
      fa_State = QualificationUnknown, fa_Composition = CompositionNotComposed, fa_CompositionVerified = False,
      fa_Reason = ReasonNoAdmissibleProfile,
      fa_Evidence = Some [
       evidence_ref ''Project-Helianthus/helianthus-modbusreg@1d92f28''
         ''native_disposition'' ''profiles/vendor/growatt/disposition.json''
         ''outcome OFFLINE_IDENTITY_ADMITTED only; unresolved: automatic_detector_uniqueness, exact_fc04_telemetry_schema, runtime_admission_contract; support_claim=false'',
       evidence_ref ''Project-Helianthus/helianthus-modbusreg@1d92f28''
         ''native_evidence'' ''growatt_protocol_ii_fc04.go''
         ''pinned Protocol II v1.24 source establishes no admissible exact device-type/model-build/protocol tuple; no public successful FC04 applicability constructor'',
       evidence_ref ''Project-Helianthus/helianthus-docs-modbus#143''
         ''issue'' ''https://github.com/Project-Helianthus/helianthus-docs-modbus/issues/143''
         ''TL3-X tuple and FC04 field evidence qualification (closed, evidence still blocks admission)'',
       evidence_ref ''Project-Helianthus/helianthus-modbusreg#196''
         ''issue'' ''https://github.com/Project-Helianthus/helianthus-modbusreg/issues/196''
         ''admit an exact FC04 profile and complete native monitoring (open)'']\<rparr>"

definition huawei_smartlogger_family :: Family where
  "huawei_smartlogger_family =
     \<lparr>fa_FamilyID = ''huawei-smartlogger'', fa_Name = ''Huawei SmartLogger (Modbus)'',
      fa_NativeOwner = ''Project-Helianthus/helianthus-modbusreg'', fa_SemanticPack = ''helianthus.pack.pv@1.0.0'',
      fa_State = QualificationCandidate, fa_Composition = CompositionNotComposed, fa_CompositionVerified = False,
      fa_Reason = ReasonQualificationTestReadyOnly,
      fa_Evidence = Some [
       evidence_ref ''Project-Helianthus/helianthus-modbusreg@1d92f28''
         ''native_qualification_card'' ''huawei_qualification_cards.go''
         ''card huawei.qualification.smartlogger.readonly@1.0.0 reports QUALIFICATION_TEST_READY; HardwareTestReady, LiveQualified, CatalogRegistered, SupportClaim, WriteAuthority all false'',
       evidence_ref ''Project-Helianthus/helianthus-modbusreg@1d92f28''
         ''native_disposition'' ''profiles/vendor/huawei/smartlogger-disposition.json''
         ''older disposition record NO_ADMISSIBLE_PROFILE with missing offline fixtures; superseded for readiness by the qualification card, support_claim=false'']\<rparr>"

definition huawei_emma_family :: Family where
  "huawei_emma_family =
     \<lparr>fa_FamilyID = ''huawei-emma'', fa_Name = ''Huawei EMMA (Modbus)'',
      fa_NativeOwner = ''Project-Helianthus/helianthus-modbusreg'', fa_SemanticPack = ''helianthus.pack.pv@1.0.0'',
      fa_State = QualificationUnknown, fa_Composition = CompositionNotComposed, fa_CompositionVerified = False,
      fa_Reason = ReasonEvidenceBlocked,
      fa_Evidence = Some [
       evidence_ref ''Project-Helianthus/helianthus-modbusreg@1d92f28''
         ''native_qualification_card'' ''huawei_qualification_cards.go''
         ''card huawei.qualification.emma.readonly@1.0.0 reports QUALIFICATION_EVIDENCE_BLOCKED'',
       evidence_ref ''Project-Helianthus/helianthus-modbusreg@1d92f28''
         ''native_disposition'' ''profiles/vendor/huawei/emma-disposition.json''
         ''OFFLINE_IDENTITY_ADMITTED; missing sanitized_readonly_capability_fixture, negative_overlap_with_smartlogger, model_specific_capability_fixture; support_claim=false'']\<rparr>"

definition huawei_sdongle_family :: Family where
  "huawei_sdongle_family =
     \<lparr>fa_FamilyID = ''huawei-sdongle'', fa_Name = ''Huawei S-Dongle (Modbus)'',
      fa_NativeOwner = ''Project-Helianthus/helianthus-modbusreg'', fa_SemanticPack = ''helianthus.pack.pv@1.0.0'',
      fa_State = QualificationUnknown, fa_Composition = CompositionNotComposed, fa_CompositionVerified = False,
      fa_Reason = ReasonEvidenceBlocked,
      fa_Evidence = Some [
       evidence_ref ''Project-Helianthus/helianthus-modbusreg@1d92f28''
         ''native_qualification_card'' ''huawei_qualification_cards.go''
         ''card huawei.qualification.sdongle.evidence-blocked@1.0.0 reports QUALIFICATION_EVIDENCE_BLOCKED with LIVE_STOPPED_PERSISTENT_NON_RESPONSE'',
       evidence_ref ''Project-Helianthus/helianthus-modbusreg@1d92f28''
         ''native_disposition'' ''profiles/vendor/huawei/sdongle-disposition.json''
         ''outcome PRE_LIVE_INSUFFICIENT_EVIDENCE; non-response is neither an identification nor an incompatibility claim'']\<rparr>"

definition outback_axs_family :: Family where
  "outback_axs_family =
     \<lparr>fa_FamilyID = ''outback-axs'', fa_Name = ''OutBack AXS (SunSpec flavor)'',
      fa_NativeOwner = ''Project-Helianthus/helianthus-modbusreg'', fa_SemanticPack = ''helianthus.pack.storage@1.1.0'',
      fa_State = QualificationUnknown, fa_Composition = CompositionNotComposed, fa_CompositionVerified = False,
      fa_Reason = ReasonNoGoMissingEvidence,
      fa_Evidence = Some [
       evidence_ref ''Project-Helianthus/helianthus-modbusreg#204''
         ''pull_request'' ''https://github.com/Project-Helianthus/helianthus-modbusreg/pull/204''
         ''merged at 1d92f28: NO_GO / missing evidence; typed decoding, discovery and acquisition removed; model 64111 stays opaque'',
       evidence_ref ''Project-Helianthus/helianthus-modbusreg@1d92f28''
         ''native_evidence'' ''outback_axs_sunspec.go''
         ''ErrOutBackAXSSourceNotQualified: source selection and read operation are not qualified (docs-modbus #145 NO_GO selector); payload length is not qualification evidence'']\<rparr>"

definition growatt_bms_can_v104_family :: Family where
  "growatt_bms_can_v104_family =
     \<lparr>fa_FamilyID = ''growatt-bms-can-v104'', fa_Name = ''Growatt low-voltage BMS CAN V1.04'',
      fa_NativeOwner = ''Project-Helianthus/helianthus-canbusreg'', fa_SemanticPack = ''helianthus.pack.storage@1.1.0'',
      fa_State = QualificationCandidate, fa_Composition = CompositionNotComposed, fa_CompositionVerified = False,
      fa_Reason = ReasonOfflineReplayOnly,
      fa_Evidence = Some [
       evidence_ref ''Project-Helianthus/helianthus-canbusreg@f5b8cbf''
         ''native_evidence'' ''growatt_v104_replay.go''
         ''V1.04 observations replay-qualified offline (canbusreg #17); receive-only'',
       evidence_ref ''Project-Helianthus/helianthus-canbusreg@f5b8cbf''
         ''native_evidence'' ''growatt_common_projection.go''
         ''caller-selected receive-only common projection exposes only fields shared by V1.04 and V1.08 (canbusreg #19); revision-local fields stay raw evidence'',
       evidence_ref ''Project-Helianthus/helianthus-canbusreg#18''
         ''issue'' ''https://github.com/Project-Helianthus/helianthus-canbusreg/issues/18''
         ''divergent V1.04/V1.08 fields withheld; version-bound admission still open'',
       evidence_ref ''Project-Helianthus/helianthus-docs-semantic@30f5e5c''
         ''semantic_contract'' ''compatibility/donor-ledger.md''
         ''storage/BMS CAN V1.04 row is an offline candidate only, physical qualification false, no control route'']\<rparr>"

definition gree_vrf_can_family :: Family where
  "gree_vrf_can_family =
     \<lparr>fa_FamilyID = ''gree-vrf-can'', fa_Name = ''Gree VRF CAN'',
      fa_NativeOwner = ''Project-Helianthus/helianthus-canbusreg'', fa_SemanticPack = ''helianthus.pack.thermal@1.0.0'',
      fa_State = QualificationCandidate, fa_Composition = CompositionNotComposed, fa_CompositionVerified = False,
      fa_Reason = ReasonSemanticMappingUnknown,
      fa_Evidence = Some [
       evidence_ref ''Project-Helianthus/helianthus-canbusreg@f5b8cbf''
         ''native_evidence'' ''gree_vrf_replay.go''
         ''NATIVE-05 receive-only offline replay qualification; state cells remain native and opaque (canbusreg #15)'',
       evidence_ref ''Project-Helianthus/helianthus-canbusreg@f5b8cbf''
         ''native_evidence'' ''gree_vrf_candidate.go''
         ''gree.vrf.canbus.candidate.v1 bounded candidate state-update classification'',
       evidence_ref ''Project-Helianthus/helianthus-docs-semantic@30f5e5c''
         ''semantic_contract'' ''api/v1/packs/thermal-hvac-v1.md''
         ''thermal.mapping.gree.vrf is a native-owner candidate row; no mapping is normative'']\<rparr>"

definition vaillant_ebus_thermal_family :: Family where
  "vaillant_ebus_thermal_family =
     \<lparr>fa_FamilyID = ''vaillant-ebus-thermal'', fa_Name = ''Vaillant eBUS thermal'',
      fa_NativeOwner = ''Project-Helianthus/helianthus-ebusreg'', fa_SemanticPack = ''helianthus.pack.thermal@1.0.0'',
      fa_State = QualificationCandidate, fa_Composition = CompositionComposedLegacy, fa_CompositionVerified = True,
      fa_Reason = ReasonLegacyLayerComposition,
      fa_Evidence = Some [
       evidence_ref ''Project-Helianthus/helianthus-ebusreg@2342a8d''
         ''native_registry'' ''registry''
         ''owner of Vaillant eBUS identity and native evidence; carries no composition claim'',
       evidence_ref ''Project-Helianthus/helianthus-docs-semantic@30f5e5c''
         ''semantic_contract'' ''api/v1/packs/thermal-hvac-v1.md''
         ''thermal.mapping.ebus.companion is a native-owner candidate row; no mapping is normative'',
       evidence_ref ''Project-Helianthus/helianthus-ebusgateway@e017a547967e449ffbe76ea779d5892596306f07''
         ''gateway_composition'' ''cmd/gateway/semantic_vaillant.go''
         ''Vaillant polling feeds graphql.LiveSemanticProvider, the legacy semantic layer, not a SemReg thermal pack publication'']\<rparr>"

definition eebus_inbound_family :: Family where
  "eebus_inbound_family =
     \<lparr>fa_FamilyID = ''eebus-inbound'', fa_Name = ''eeBUS inbound'',
      fa_NativeOwner = ''Project-Helianthus/helianthus-eebusreg'', fa_SemanticPack = '''',
      fa_State = QualificationUnknown, fa_Composition = CompositionComposedLegacy, fa_CompositionVerified = True,
      fa_Reason = ReasonUnknownPendingSTD01,
      fa_Evidence = Some [
       evidence_ref ''Project-Helianthus/helianthus-eebusreg@cdfdf0c''
         ''native_registry'' ''README.md''
         ''native end to end (runtime v2, raw and evidence packages); exact SHIP/SPINE/use-case revisions unresolved; physical verification Unknown'',
       evidence_ref ''Project-Helianthus/helianthus-docs-semantic@30f5e5c''
         ''semantic_contract'' ''compatibility/donor-ledger.md''
         ''eeBUS remains unknown_pending_std_01 in every pack; no normative mapping or conformance claim'',
       evidence_ref ''Project-Helianthus/helianthus-ebusgateway@e017a547967e449ffbe76ea779d5892596306f07''
         ''gateway_composition'' ''cmd/gateway/eebus_promoted_semantic.go''
         ''wireEEBusPromotedSemanticGraphQL composes graphql.NewPromotedSemanticProvider(base, promoted.Overlay): promoted overlay over the legacy semantic provider'']\<rparr>"

definition infrastructure_family :: Family where
  "infrastructure_family =
     \<lparr>fa_FamilyID = ''infrastructure'', fa_Name = ''Electrical infrastructure (site, grid, feeder, circuit, phase, meter)'',
      fa_NativeOwner = '''', fa_SemanticPack = ''helianthus.pack.infrastructure@1.0.0'',
      fa_State = QualificationUnknown, fa_Composition = CompositionNotComposed, fa_CompositionVerified = False,
      fa_Reason = ReasonNoProducer,
      fa_Evidence = Some [
       evidence_ref ''Project-Helianthus/helianthus-docs-semantic@30f5e5c''
         ''semantic_contract'' ''api/v1/packs/infrastructure-v1.md''
         ''read-only pack; no pin proves a universal site/grid/feeder/circuit/phase/meter mapping; eBUS is identity-only unknown evidence, Modbus a profile-specific candidate, eeBUS unknown_pending_std_01'',
       evidence_ref ''Project-Helianthus/helianthus-semreg@7c56095''
         ''semreg_fixture'' ''fixtures/v1/infrastructure-pack-vectors.json''
         ''accepted static pack vectors only; no producer, topology instance or mapping exists'']\<rparr>"

definition shipped_rows :: "Family list" where
  "shipped_rows =
    [sunspec_fronius_pv_family, growatt_bms_rs485_v202_family, tesla_gen3_evse_family,
     tesla_legacy_fbe0_fde0_family, growatt_protocol_ii_family, huawei_smartlogger_family,
     huawei_emma_family, huawei_sdongle_family, outback_axs_family,
     growatt_bms_can_v104_family, gree_vrf_can_family, vaillant_ebus_thermal_family,
     eebus_inbound_family, infrastructure_family]"

definition shipped_catalog :: Catalog where
  "shipped_catalog =
     \<lparr>ct_Contract = ''helianthus.semreg.family-catalog/v1'',
      ct_SemanticDocsPin = ''Project-Helianthus/helianthus-docs-semantic@0a49173215c98769acf210b696ca6ac81d6db60e'',
      ct_States = Some [QualificationCandidate, QualificationQualified, QualificationUnsupported, QualificationUnknown, QualificationRejected],
      ct_Families = Some shipped_rows\<rparr>"

end
