(* ===== verification/Consumer_Properties.thy ===== *)
theory Consumer_Properties
  imports Projection_Laws Scenario_Facts Shipped_Catalog
begin

text \<open>
  What the consumers of a snapshot and of the family catalog can rely on: projection reports account
  for every requested item against one snapshot, and a validated catalog claims a composition exactly
  where there is pinned evidence for it.
\<close>

section \<open>Projection reports\<close>

text \<open>C38: A projection report is bound to one valid snapshot and accounts for every requested item exactly
  once, in the same canonical order. An exact disposition has no loss, a transformed one names its
  losses, one that was not delivered names its reason, and every source key is the key of a fact of
  the snapshot.\<close>

theorem projection_accounts_for_requests:
  assumes "Project E s m requested dispositions causal = Inr report"
  shows "Snapshot_Validate E s = None \<and> pj_SnapshotID report = sn_SnapshotID s \<and> pj_Revisions report = sn_Revisions s \<and>
    map request_tuple (elems requested) = map disposition_tuple (elems (pj_Dispositions report)) \<and>
    distinct (map request_tuple (elems requested)) \<and>
    (\<forall>d \<in> set (elems (pj_Dispositions report)).
       (case pd_Outcome d of
          ProjectionExact \<Rightarrow> elems (pd_Loss d) = []
        | ProjectionTransformed \<Rightarrow> elems (pd_Loss d) \<noteq> []
        | ProjectionOutcomeOther _ \<Rightarrow> False
        | _ \<Rightarrow> pd_Reason d \<noteq> None) \<and>
       set (elems (pd_SourceKeys d)) \<subseteq> fe_Key ` set (elems (sn_Facts s)))"
proof -
  note report = Project_Inr [OF assms]
  have "case pd_Outcome d of ProjectionExact \<Rightarrow> elems (pd_Loss d) = [] | ProjectionTransformed \<Rightarrow> elems (pd_Loss d) \<noteq> []
      | ProjectionOutcomeOther _ \<Rightarrow> False | _ \<Rightarrow> pd_Reason d \<noteq> None" if "d \<in> set (elems dispositions)" for d
  proof -
    have "ProjectionDisposition_Validate E d = None"
      using report(3) that unfolding report(1) by (simp add: ProjectionReport_Validate_def ball_Un)
    then show ?thesis by (cases "pd_Outcome d")
      (simp_all add: ProjectionDisposition_Validate_def disposition_outcome_errors_def ProjectionOutcome_Validate_def ball_Un)
  qed
  moreover have "set (elems (pd_SourceKeys d)) \<subseteq> fe_Key ` set (elems (sn_Facts s))" if "d \<in> set (elems dispositions)" for d
    using report_source_keys [OF report(3)] report(4) that unfolding report(1) by simp
  ultimately show ?thesis using report(1, 2) report_accounting [OF report(3)] by simp
qed

definition demo_manifest :: ProjectionManifest where
  "demo_manifest = \<lparr>mf_TargetID = ''target'', mf_TargetVersion = ''v1'', mf_KernelVersion = ContractKernelV1,
     mf_PackVersions = Some [demo_pack], mf_MappingRevision = ''1''\<rparr>"

definition demo_requested :: "RequestedItem list" where
  "demo_requested = [\<lparr>rq_ItemID = ''item.mode'', rq_Kind = ItemFact\<rparr>, \<lparr>rq_ItemID = ''item.set'', rq_Kind = ItemOperation\<rparr>]"

definition demo_dispositions :: "ProjectionDisposition list" where
  "demo_dispositions =
    [\<lparr>pd_Kind = ItemFact, pd_ItemID = ''item.mode'', pd_Outcome = ProjectionExact, pd_SourceKeys = Some [demo_key],
       pd_Loss = Some [], pd_Reason = None\<rparr>,
     \<lparr>pd_Kind = ItemOperation, pd_ItemID = ''item.set'', pd_Outcome = ProjectionUnsupported, pd_SourceKeys = Some [],
       pd_Loss = Some [], pd_Reason = Some ''reason.readonly''\<rparr>]"

definition demo_report :: ProjectionReport where
  "demo_report = \<lparr>pj_Contract = ContractProjectionV1, pj_Manifest = demo_manifest, pj_SnapshotID = sn_SnapshotID second_snapshot,
     pj_Revisions = sn_Revisions second_snapshot, pj_Requested = Some demo_requested, pj_Dispositions = Some demo_dispositions,
     pj_Causal = None\<rparr>"

lemma demo_report_valid: "ProjectionReport_Validate demo_env demo_report = None"
  by code_simp

lemma demo_report_json: "json_wf (json_of_ProjectionReport demo_report)"
  by code_simp

lemma demo_sources: "sourceResolutionError demo_env second_snapshot demo_dispositions = None"
proof -
  obtain t where t: "factKeyIdentity demo_env demo_key = Inr t"
  proof -
    have "FactKey_Validate demo_env demo_key = None" by code_simp
    from that [OF factKeyIdentity_valid [OF this]] show thesis .
  qed
  have "t \<in> set (resolvable_keys demo_env second_snapshot)"
    using t by (simp add: resolvable_key second_snapshot_def demo_envelope_def)
  then show ?thesis using t by (simp add: sourceResolutionError_def demo_dispositions_def factKeyIdentity_def)
qed

lemma demo_projected: "Project demo_env second_snapshot demo_manifest (Some demo_requested) (Some demo_dispositions) None = Inr demo_report"
  using demo_report_valid demo_sources second_valid writeCanonical_render [OF demo_report_json]
  by (simp add: ranked_bestError Project_def Let_def detached_def CanonicalJSON_def canonicalize_def flip: demo_report_def)

theorem projection_accounts_for_requests_witness:
  "Project demo_env second_snapshot demo_manifest (Some demo_requested) (Some demo_dispositions) None = Inr demo_report \<and>
   map disposition_tuple (elems (pj_Dispositions demo_report)) = [(ItemFact, ''item.mode''), (ItemOperation, ''item.set'')]"
  using projection_accounts_for_requests [OF demo_projected] demo_projected by (simp add: demo_requested_def)

text \<open>C39: Checking a report against a snapshot and making it from the snapshot agree: a report is accepted for
  a snapshot exactly when projecting the same manifest, requests and dispositions gives that report.\<close>

theorem report_check_agrees_with_projection:
  "ValidateReport E s report = Inr report \<longleftrightarrow>
     Project E s (pj_Manifest report) (pj_Requested report) (pj_Dispositions report) (pj_Causal report) = Inr report"
proof
  assume "Project E s (pj_Manifest report) (pj_Requested report) (pj_Dispositions report) (pj_Causal report) = Inr report"
  moreover note Project_Inr [OF this]
  ultimately show "ValidateReport E s report = Inr report"
    by (cases report) (auto simp: Project_def ValidateReport_def Let_def check_err_def split: option.splits)
next
  assume ok: "ValidateReport E s report = Inr report"
  then have "ProjectionReport_Validate E report = None" "pj_SnapshotID report = sn_SnapshotID s" "pj_Revisions report = sn_Revisions s"
    by (auto simp: ValidateReport_def check_err_def split: option.splits if_splits)
  moreover from this(1) have "pj_Contract report = ContractProjectionV1" by (simp add: ProjectionReport_Validate_def)
  ultimately show "Project E s (pj_Manifest report) (pj_Requested report) (pj_Dispositions report) (pj_Causal report) = Inr report"
    using ok by (cases report) (auto simp: Project_def ValidateReport_def Let_def check_err_def split: option.splits if_splits)
qed

section \<open>The family catalog\<close>

text \<open>C40: Validation of the family catalog accepts exactly the catalogs that declare the contract, a pinned
  document revision, every state and every required family once and nothing else, and whose families
  are sound. As the contract \<^verbatim>\<open>family-catalog/v1\<close> asks (package comment of \<^verbatim>\<open>catalog.go\<close>, \<^verbatim>\<open>fixtures/README.md\<close>),
  every composition but \<^verbatim>\<open>not_composed\<close> is a claim that carries \<^verbatim>\<open>composition_verified\<close> and evidence at a full
  gateway commit, and a \<^verbatim>\<open>not_composed\<close> row carries neither. A \<^verbatim>\<open>provider_local\<close> row claims no gateway-wide
  composition; its evidence pins the gateway code that serves the family locally, as in the shipped
  row of \<^verbatim>\<open>tesla-gen3-evse\<close>, which the shipped catalog of the witness contains.\<close>

theorem catalog_validation_is_exact:
  "Catalog_Validate c = None \<longleftrightarrow>
     ct_Contract c = Contract \<and> pinned pinPrefix (ct_SemanticDocsPin c) \<and>
     distinct (elems (ct_States c)) \<and> set (elems (ct_States c)) = set AllowedStates \<and>
     distinct (map fa_FamilyID (elems (ct_Families c))) \<and> fa_FamilyID ` set (elems (ct_Families c)) = set RequiredFamilyIDs \<and>
     (\<forall>f \<in> set (elems (ct_Families c)). family_ok f)"
proof -
  let ?ss = "elems (ct_States c)" and ?fs = "elems (ct_Families c)"
  have dist: "distinct AllowedStates" "distinct RequiredFamilyIDs" by code_simp+
  have states: "(\<exists>all. states_loop [] ?ss = Inr all \<and> length all = length AllowedStates) \<longleftrightarrow> distinct ?ss \<and> set ?ss = set AllowedStates"
    using states_loop_iff [of "[]" ?ss] states_loop_Inr [of "[]" ?ss] covers_exactly [OF _ dist(1), of ?ss] by auto
  have families: "(\<exists>all. families_loop [] ?fs = Inr all \<and> set RequiredFamilyIDs \<subseteq> set all \<and> length all = length RequiredFamilyIDs) \<longleftrightarrow>
      distinct (map fa_FamilyID ?fs) \<and> fa_FamilyID ` set ?fs = set RequiredFamilyIDs \<and> (\<forall>f \<in> set ?fs. family_ok f)"
    using families_loop_iff [of "[]" ?fs] families_loop_Inr [of "[]" ?fs] covers_exactly [OF dist(2), of "map fa_FamilyID ?fs"] by auto
  have missing: "filter (\<lambda>i. i \<notin> set seen) RequiredFamilyIDs = [] \<longleftrightarrow> set RequiredFamilyIDs \<subseteq> set seen" for seen
    by (auto simp: filter_empty_conv)
  have "Catalog_Validate c = None \<longleftrightarrow> ct_Contract c = Contract \<and> pinned pinPrefix (ct_SemanticDocsPin c) \<and>
      (\<exists>all. states_loop [] ?ss = Inr all \<and> length all = length AllowedStates) \<and>
      (\<exists>all. families_loop [] ?fs = Inr all \<and> set RequiredFamilyIDs \<subseteq> set all \<and> length all = length RequiredFamilyIDs)"
    unfolding Catalog_Validate_def Let_def missing by (simp split: sum.split)
  then show ?thesis unfolding states families by blast
qed

theorem catalog_validation_is_exact_witness:
  "Catalog_Validate shipped_catalog = None \<and> family_ok tesla_gen3_evse_family \<and>
   fa_Composition tesla_gen3_evse_family = CompositionProviderLocal \<and> gateway_evidence tesla_gen3_evse_family \<noteq> {}"
proof -
  have row: "tesla_gen3_evse_family \<in> set (elems (ct_Families shipped_catalog))"
    by (simp add: shipped_catalog_def shipped_rows_def)
  have composition: "fa_Composition tesla_gen3_evse_family = CompositionProviderLocal" by (simp add: tesla_gen3_evse_family_def)
  have "Catalog_Validate shipped_catalog = None" by code_simp
  moreover from this row have "family_ok tesla_gen3_evse_family" using catalog_validation_is_exact [of shipped_catalog] by blast
  ultimately show ?thesis using composition by (simp add: family_ok_def)
qed

end
