(* ===== verification/Wire_JSON.thy ===== *)
theory Wire_JSON
  imports Canonical_JSON Marshal
begin

text \<open>
  Reading JSON (\<^verbatim>\<open>validateUnicodeEscapes\<close>, \<^verbatim>\<open>parseJSON\<close>, \<^verbatim>\<open>parseJSONNode\<close> and \<^verbatim>\<open>canonicalize\<close> of
  \<^verbatim>\<open>semreg/v1/validation.go\<close>). The tokens come from \<^verbatim>\<open>json.Decoder\<close> of the standard library, which
  accepts exactly the JSON grammar: the commas and colons that its state machine consumes are read
  where the loops of \<^verbatim>\<open>parseJSONNode\<close> ask for the next token. The reader undoes the canonical writer.
\<close>

section \<open>Escapes\<close>

definition hex_val :: "char \<Rightarrow> nat option" where
  "hex_val c = (let b = byte c in
     if 48 \<le> b \<and> b \<le> 57 then Some (b - 48)
     else if 97 \<le> b \<and> b \<le> 102 then Some (b - 87)
     else if 65 \<le> b \<and> b \<le> 70 then Some (b - 55)
     else None)"

text \<open>\<^verbatim>\<open>strconv.ParseUint\<close> of four hexadecimal digits.\<close>

definition hex4 :: "char \<Rightarrow> char \<Rightarrow> char \<Rightarrow> char \<Rightarrow> nat option" where
  "hex4 a b c d = (case (hex_val a, hex_val b, hex_val c, hex_val d) of
     (Some w, Some x, Some y, Some z) \<Rightarrow> Some (((w * 16 + x) * 16 + y) * 16 + z)
   | _ \<Rightarrow> None)"

definition high_surrogate :: "nat \<Rightarrow> bool" where
  "high_surrogate n \<longleftrightarrow> 55296 \<le> n \<and> n \<le> 56319"

definition low_surrogate :: "nat \<Rightarrow> bool" where
  "low_surrogate n \<longleftrightarrow> 56320 \<le> n \<and> n \<le> 57343"

text \<open>The four digits after \<open>\u\<close>, and the rest.\<close>

fun take_hex4 :: "string \<Rightarrow> (nat \<times> string) option" where
  "take_hex4 (a # b # c # d # s) = map_option (\<lambda>n. (n, s)) (hex4 a b c d)"
| "take_hex4 s = None"

text \<open>The second half of a surrogate pair.\<close>

fun take_low :: "string \<Rightarrow> (nat \<times> string) option" where
  "take_low (a # b # s) =
     (if a = bs \<and> b = CHR ''u'' then (case take_hex4 s of
        Some (m, rest) \<Rightarrow> if low_surrogate m then Some (m, rest) else None
      | None \<Rightarrow> None)
      else None)"
| "take_low s = None"

lemma take_hex4_length: "take_hex4 s = Some (n, rest) \<Longrightarrow> length rest < length s"
  by (cases s rule: take_hex4.cases) auto

lemma take_low_length: "take_low s = Some (n, rest) \<Longrightarrow> length rest < length s"
  by (cases s rule: take_low.cases) (auto split: if_splits option.splits dest!: take_hex4_length)

text \<open>The loop of \<^verbatim>\<open>validateUnicodeEscapes\<close>, with its two flags.\<close>

function (sequential) escapes_ok :: "bool \<Rightarrow> bool \<Rightarrow> string \<Rightarrow> bool" where
  "escapes_ok inString escaped [] \<longleftrightarrow> \<not> inString \<and> \<not> escaped"
| "escapes_ok inString escaped (b # s) \<longleftrightarrow>
     (if \<not> inString then escapes_ok (b = dq) escaped s
      else if escaped then
        (if b \<noteq> CHR ''u'' then escapes_ok True False s
         else case take_hex4 s of
           None \<Rightarrow> False
         | Some (n, s1) \<Rightarrow>
             if high_surrogate n then (case take_low s1 of None \<Rightarrow> False | Some (m, s2) \<Rightarrow> escapes_ok True False s2)
             else \<not> low_surrogate n \<and> escapes_ok True False s1)
      else if b = bs then escapes_ok True True s
      else escapes_ok (b \<noteq> dq) False s)"
  by pat_completeness auto
termination
  by (relation "measure (\<lambda>(_, _, s). length s)") (auto dest!: take_hex4_length take_low_length)

definition validateUnicodeEscapes :: "string \<Rightarrow> bool" where
  "validateUnicodeEscapes raw = escapes_ok False False raw"

section \<open>Tokens\<close>

definition is_space :: "char \<Rightarrow> bool" where
  "is_space c \<longleftrightarrow> byte c = 32 \<or> byte c = 9 \<or> byte c = 10 \<or> byte c = 13"

definition skip_space :: "string \<Rightarrow> string" where
  "skip_space = dropWhile is_space"

definition utf8_encode :: "nat \<Rightarrow> string" where
  "utf8_encode n = map char_of
     (if n < 128 then [n]
      else if n < 2048 then [192 + n div 64, 128 + n mod 64]
      else if n < 65536 then [224 + n div 4096, 128 + n div 64 mod 64, 128 + n mod 64]
      else [240 + n div 262144, 128 + n div 4096 mod 64, 128 + n div 64 mod 64, 128 + n mod 64])"

definition simple_escape :: "char \<Rightarrow> char option" where
  "simple_escape c =
     (if c = dq \<or> c = bs \<or> c = CHR ''/'' then Some c
      else if c = CHR ''b'' then Some (char_of (8::nat))
      else if c = CHR ''f'' then Some (char_of (12::nat))
      else if c = CHR ''n'' then Some (char_of (10::nat))
      else if c = CHR ''r'' then Some (char_of (13::nat))
      else if c = CHR ''t'' then Some (char_of (9::nat))
      else None)"

text \<open>A string token after its opening quote: its content and the rest. A surrogate that has no partner
  becomes U+FFFD.\<close>

function (sequential) read_string :: "string \<Rightarrow> (string \<times> string) option" where
  "read_string [] = None"
| "read_string (b # s) =
     (if b = dq then Some ([], s)
      else if byte b < 32 then None
      else if b \<noteq> bs then map_option (\<lambda>(t, rest). (b # t, rest)) (read_string s)
      else case s of
        [] \<Rightarrow> None
      | e # s1 \<Rightarrow>
          if e = CHR ''u'' then (case take_hex4 s1 of
              None \<Rightarrow> None
            | Some (n, s2) \<Rightarrow>
                if high_surrogate n \<or> low_surrogate n then
                  (case (if high_surrogate n then take_low s2 else None) of
                     Some (m, s3) \<Rightarrow> map_option (\<lambda>(t, rest). (utf8_encode (65536 + (n - 55296) * 1024 + (m - 56320)) @ t, rest)) (read_string s3)
                   | None \<Rightarrow> map_option (\<lambda>(t, rest). (utf8_encode 65533 @ t, rest)) (read_string s2))
                else map_option (\<lambda>(t, rest). (utf8_encode n @ t, rest)) (read_string s2))
          else (case simple_escape e of
              None \<Rightarrow> None
            | Some c \<Rightarrow> map_option (\<lambda>(t, rest). (c # t, rest)) (read_string s1)))"
  by pat_completeness auto
termination
  by (relation "measure length") (auto split: if_splits dest!: take_hex4_length take_low_length)

text \<open>A number token: the longest prefix in the JSON grammar, or nothing where a sign, a point or an
  exponent is not followed by a digit.\<close>

definition span_digits :: "string \<Rightarrow> string \<times> string" where
  "span_digits s = (takeWhile digit s, dropWhile digit s)"

definition read_integer :: "string \<Rightarrow> (string \<times> string) option" where
  "read_integer s = (case s of
     [] \<Rightarrow> None
   | c # r \<Rightarrow> if c = CHR ''0'' then Some ([c], r) else if digit c then Some (span_digits s) else None)"

definition read_fraction :: "string \<Rightarrow> (string \<times> string) option" where
  "read_fraction s = (case s of
     [] \<Rightarrow> Some ([], [])
   | c # r \<Rightarrow> if c \<noteq> CHR ''.'' then Some ([], s)
       else (case span_digits r of (ds, rest) \<Rightarrow> if ds = [] then None else Some (c # ds, rest)))"

definition read_exponent :: "string \<Rightarrow> (string \<times> string) option" where
  "read_exponent s = (case s of
     [] \<Rightarrow> Some ([], [])
   | c # r \<Rightarrow> if c \<noteq> CHR ''e'' \<and> c \<noteq> CHR ''E'' then Some ([], s)
       else (case (case r of x # r' \<Rightarrow> if x = CHR ''+'' \<or> x = CHR ''-'' then ([x], r') else ([], r) | [] \<Rightarrow> ([], [])) of
         (sign, r1) \<Rightarrow> (case span_digits r1 of (ds, rest) \<Rightarrow> if ds = [] then None else Some (c # sign @ ds, rest))))"

definition read_number :: "string \<Rightarrow> (string \<times> string) option" where
  "read_number s = (case (case s of c # r \<Rightarrow> if c = CHR ''-'' then ([c], r) else ([], s) | [] \<Rightarrow> ([], [])) of
     (sign, s1) \<Rightarrow> (case read_integer s1 of
        None \<Rightarrow> None
      | Some (i, s2) \<Rightarrow> (case read_fraction s2 of
          None \<Rightarrow> None
        | Some (f, s3) \<Rightarrow> (case read_exponent s3 of
            None \<Rightarrow> None
          | Some (e, s4) \<Rightarrow> Some (sign @ i @ f @ e, s4)))))"

definition read_literal :: "string \<Rightarrow> json \<Rightarrow> string \<Rightarrow> (json \<times> string) option" where
  "read_literal w j s = (if take (length w) s = w then Some (j, drop (length w) s) else None)"

text \<open>A scalar token, at its first byte.\<close>

definition read_scalar :: "string \<Rightarrow> (json \<times> string) option" where
  "read_scalar s = (case s of
     [] \<Rightarrow> None
   | c # r \<Rightarrow>
       if c = dq then map_option (\<lambda>(t, rest). (JString t, rest)) (read_string r)
       else if c = CHR ''n'' then read_literal ''null'' JNull s
       else if c = CHR ''t'' then read_literal ''true'' (JBool True) s
       else if c = CHR ''f'' then read_literal ''false'' (JBool False) s
       else map_option (\<lambda>(t, rest). (JNumber t, rest)) (read_number s))"

section \<open>Trees\<close>

text \<open>The head of the two loops: \<^verbatim>\<open>More\<close> and the tokens up to the next value. Either the closing bracket
  was read, or the key of a member and its colon, or the comma before an element. \<open>start\<close> tells the first
  turn, which no comma precedes.\<close>

definition next_member :: "bool \<Rightarrow> string \<Rightarrow> (string option \<times> string) option" where
  "next_member start s = (case skip_space s of
     [] \<Rightarrow> None
   | c # r \<Rightarrow>
       if c = CHR ''}'' then Some (None, r)
       else (case (if start then c # r else if c = CHR '','' then skip_space r else []) of
         [] \<Rightarrow> None
       | q # s1 \<Rightarrow> if q \<noteq> dq then None
           else (case read_string s1 of
             None \<Rightarrow> None
           | Some (key, s2) \<Rightarrow> (case skip_space s2 of
               [] \<Rightarrow> None
             | d # s3 \<Rightarrow> if d = CHR '':'' then Some (Some key, s3) else None))))"

definition next_element :: "bool \<Rightarrow> string \<Rightarrow> (bool \<times> string) option" where
  "next_element start s = (case skip_space s of
     [] \<Rightarrow> None
   | c # r \<Rightarrow>
       if c = CHR '']'' then Some (False, r)
       else if start then Some (True, c # r)
       else if c = CHR '','' then Some (True, r)
       else None)"

text \<open>\<^verbatim>\<open>parseJSONNode\<close> and its loops over members and elements, with the keys seen so far; the flag is
  \<^verbatim>\<open>duplicate\<close>. Every call reads at least one byte, except that of a first element, so twice the length
  of the input is fuel enough.\<close>

fun parseJSONNode :: "nat \<Rightarrow> string \<Rightarrow> (json \<times> bool \<times> string) option"
  and parse_members :: "nat \<Rightarrow> bool \<Rightarrow> string list \<Rightarrow> string \<Rightarrow> ((string \<times> json) list \<times> bool \<times> string) option"
  and parse_elements :: "nat \<Rightarrow> bool \<Rightarrow> string \<Rightarrow> (json list \<times> bool \<times> string) option" where
  "parseJSONNode 0 s = None"
| "parseJSONNode (Suc n) s = (case skip_space s of
     [] \<Rightarrow> None
   | c # r \<Rightarrow>
       if c = CHR ''{'' then map_option (\<lambda>(ms, dup, rest). (JObject ms, dup, rest)) (parse_members n True [] r)
       else if c = CHR ''['' then map_option (\<lambda>(js, dup, rest). (JArray js, dup, rest)) (parse_elements n True r)
       else map_option (\<lambda>(j, rest). (j, False, rest)) (read_scalar (c # r)))"
| "parse_members 0 start seen s = None"
| "parse_members (Suc n) start seen s = (case next_member start s of
     None \<Rightarrow> None
   | Some (None, rest) \<Rightarrow> Some ([], False, rest)
   | Some (Some key, s1) \<Rightarrow> (case parseJSONNode n s1 of
       None \<Rightarrow> None
     | Some (child, dup, s2) \<Rightarrow>
         map_option (\<lambda>(ms, dup', rest). ((key, child) # ms, dup \<or> dup' \<or> key \<in> set seen, rest))
           (parse_members n False (key # seen) s2)))"
| "parse_elements 0 start s = None"
| "parse_elements (Suc n) start s = (case next_element start s of
     None \<Rightarrow> None
   | Some (False, rest) \<Rightarrow> Some ([], False, rest)
   | Some (True, s1) \<Rightarrow> (case parseJSONNode n s1 of
       None \<Rightarrow> None
     | Some (child, dup, s2) \<Rightarrow>
         map_option (\<lambda>(js, dup', rest). (child # js, dup \<or> dup', rest)) (parse_elements n False s2)))"

definition parse_fuel :: "string \<Rightarrow> nat" where
  "parse_fuel raw = 2 * length raw + 2"

definition byte_order_mark :: string where
  "byte_order_mark = map char_of [239, 187, 191 :: nat]"

definition parseJSON :: "string \<Rightarrow> error + json \<times> bool" where
  "parseJSON raw =
     (if raw = [] \<or> take 3 raw = byte_order_mark \<or> \<not> utf8_valid raw \<or> \<not> validateUnicodeEscapes raw
      then Inl (errID InvalidJSON ''utf-8 json'')
      else case parseJSONNode (parse_fuel raw) raw of
        None \<Rightarrow> Inl (errID InvalidJSON ''json value'')
      | Some (node, duplicate, rest) \<Rightarrow>
          if skip_space rest \<noteq> [] then Inl (errID InvalidJSON ''trailing data'') else Inr (node, duplicate))"

definition canonicalize_raw :: "string \<Rightarrow> error + string" where
  "canonicalize_raw raw = (case parseJSON raw of
     Inl e \<Rightarrow> Inl e
   | Inr (node, duplicate) \<Rightarrow>
       if duplicate then Inl (errID DuplicateKey ''member'')
       else (case writeCanonical node of
         None \<Rightarrow> Inl (errID InvalidJSON ''canonical json'')
       | Some text \<Rightarrow> Inr text))"

end
