(* ===== verification/Wire_Tokens.thy ===== *)
theory Wire_Tokens
  imports Wire_JSON
begin

text \<open>
  Laws of the tokens: the reader of a string undoes the escapes of \<^verbatim>\<open>writeJSONString\<close>, a number token is
  read back from what follows it in a document, and the text of a document is valid UTF-8 whose
  escapes \<^verbatim>\<open>validateUnicodeEscapes\<close> accepts.
\<close>

section \<open>Strings\<close>

lemma hex_val_char: "n < 16 \<Longrightarrow> hex_val (hex_char n) = Some n"
  by (auto simp: hex_val_def hex_char_def)

lemma hex_val_0 [simp]: "hex_val (CHR ''0'') = Some 0"
  by (simp add: hex_val_def)

lemma take_hex4_control:
  "byte c < 32 \<Longrightarrow> take_hex4 (CHR ''0'' # CHR ''0'' # hex_char (byte c div 16) # hex_char (byte c mod 16) # s) = Some (byte c, s)"
  by (simp add: hex4_def hex_val_char)

lemma not_surrogate: "n < 32 \<Longrightarrow> \<not> high_surrogate n \<and> \<not> low_surrogate n"
  by (simp add: high_surrogate_def low_surrogate_def)

lemma char_of_byte: "byte c = n \<Longrightarrow> char_of n = c"
  by auto

lemma escape_cases:
  obtains (simple) e where "escape c = [bs, e]" "e \<noteq> CHR ''u''" "simple_escape e = Some c"
  | (control) "escape c = [bs, CHR ''u'', CHR ''0'', CHR ''0'', hex_char (byte c div 16), hex_char (byte c mod 16)]" "byte c < 32"
  | (plain) "escape c = [c]" "c \<noteq> dq" "c \<noteq> bs" "\<not> byte c < 32"
proof -
  have s: "simple_escape dq = Some dq" "simple_escape bs = Some bs" "simple_escape (CHR ''b'') = Some (char_of (8::nat))"
    "simple_escape (CHR ''t'') = Some (char_of (9::nat))" "simple_escape (CHR ''n'') = Some (char_of (10::nat))"
    "simple_escape (CHR ''f'') = Some (char_of (12::nat))" "simple_escape (CHR ''r'') = Some (char_of (13::nat))"
    "dq \<noteq> CHR ''u''" "bs \<noteq> CHR ''u''"
    by (simp_all add: simple_escape_def bs_def dq_def)
  consider "c = dq \<or> c = bs" | "c \<noteq> dq" "c \<noteq> bs" "byte c = 8" | "c \<noteq> dq" "c \<noteq> bs" "byte c = 9" | "c \<noteq> dq" "c \<noteq> bs" "byte c = 10"
    | "c \<noteq> dq" "c \<noteq> bs" "byte c = 12" | "c \<noteq> dq" "c \<noteq> bs" "byte c = 13"
    | "c \<noteq> dq" "c \<noteq> bs" "byte c \<notin> {8, 9, 10, 12, 13}" "byte c < 32" | "c \<noteq> dq" "c \<noteq> bs" "\<not> byte c < 32"
    by auto
  then show thesis
  proof cases
    case 1
    then have "escape c = [bs, c]" "c \<noteq> CHR ''u''" "simple_escape c = Some c" using s by (auto simp: escape_def)
    then show thesis by (rule simple)
  next
    case 2
    then show thesis using simple [of "CHR ''b''"] s char_of_byte [of c 8] by (simp add: escape_def)
  next
    case 3
    then show thesis using simple [of "CHR ''t''"] s char_of_byte [of c 9] by (simp add: escape_def)
  next
    case 4
    then show thesis using simple [of "CHR ''n''"] s char_of_byte [of c 10] by (simp add: escape_def)
  next
    case 5
    then show thesis using simple [of "CHR ''f''"] s char_of_byte [of c 12] by (simp add: escape_def)
  next
    case 6
    then show thesis using simple [of "CHR ''r''"] s char_of_byte [of c 13] by (simp add: escape_def)
  next
    case 7
    then show thesis by (intro control) (simp_all add: escape_def)
  next
    case 8
    then show thesis by (intro plain) (simp_all add: escape_def)
  qed
qed

lemma bs_facts: "byte bs = 92" "bs \<noteq> dq"
  by (simp_all add: bs_def dq_def)

declare read_string.simps [simp del] escapes_ok.simps [simp del] take_hex4.simps [simp del]

lemma read_string_escape: "read_string (escape c @ s) = map_option (\<lambda>(t, rest). (c # t, rest)) (read_string s)"
proof (cases c rule: escape_cases)
  case (simple e)
  then show ?thesis by (simp add: read_string.simps(2) [of bs] bs_facts)
next
  case control
  then show ?thesis
    by (simp add: read_string.simps(2) [of bs] bs_facts take_hex4_control not_surrogate utf8_encode_def)
next
  case plain
  then show ?thesis by (simp add: read_string.simps(2) [of c])
qed

lemma read_string_quoted: "read_string (concat (map escape t) @ dq # rest) = Some (t, rest)"
  by (induction t) (simp_all add: read_string_escape read_string.simps(2) [of dq])

lemma escapes_ok_escape: "escapes_ok True False (escape c @ s) = escapes_ok True False s"
proof (cases c rule: escape_cases)
  case (simple e)
  then show ?thesis by (simp add: escapes_ok.simps(2) [of _ _ bs] escapes_ok.simps(2) [of _ _ e])
next
  case control
  then show ?thesis
    by (simp add: escapes_ok.simps(2) [of _ _ bs] escapes_ok.simps(2) [of _ _ "CHR ''u''"] take_hex4_control not_surrogate)
next
  case plain
  then show ?thesis by (simp add: escapes_ok.simps(2) [of _ _ c])
qed

lemma escapes_ok_quoted: "escapes_ok False False (quoted t @ s) = escapes_ok False False s"
proof -
  have "escapes_ok True False (concat (map escape t) @ dq # s) = escapes_ok False False s"
    by (induction t) (simp_all add: escapes_ok_escape escapes_ok.simps(2) [of _ _ dq] bs_facts(2) [symmetric])
  then show ?thesis by (simp add: quoted_def escapes_ok.simps(2) [of _ _ dq])
qed

lemma escapes_ok_outside: "c \<noteq> dq \<Longrightarrow> escapes_ok False False (c # s) = escapes_ok False False s"
  by (simp add: escapes_ok.simps)

lemma escapes_ok_plain: "dq \<notin> set t \<Longrightarrow> escapes_ok False False (t @ s) = escapes_ok False False s"
  by (induction t) (auto simp: escapes_ok_outside)

section \<open>UTF-8\<close>

lemma decode_rune_prefix:
  assumes "decode_rune xs = Some (r, w)"
  shows "0 < w" "w \<le> length xs" "decode_rune (xs @ ys) = Some (r, w)" "decode_rune (take w xs) = Some (r, w)"
    "128 \<le> hd xs \<Longrightarrow> list_all (\<lambda>b. 128 \<le> b) (take w xs)" "hd xs < 128 \<Longrightarrow> w = 1"
proof -
  obtain a bs where xs: "xs = a # bs" using assms by (cases xs) auto
  consider (one) "a < 128" "w = 1"
    | (two) b cs where "bs = b # cs" "w = 2" "194 \<le> a" "a \<le> 223" "cont b"
    | (three) b c ds where "bs = b # c # ds" "w = 3" "224 \<le> a" "a \<le> 239" "cont b" "cont c"
        "a = 224 \<longrightarrow> 160 \<le> b" "a = 237 \<longrightarrow> b \<le> 159"
    | (four) b c d es where "bs = b # c # d # es" "w = 4" "240 \<le> a" "cont b" "cont c" "cont d"
    using assms unfolding xs by (auto split: if_splits list.splits)
  note shape = this
  show "0 < w" "w \<le> length xs" by (rule shape; simp add: xs)+
  show "decode_rune (xs @ ys) = Some (r, w)" by (rule shape) (use assms in \<open>auto simp: xs split: if_splits\<close>)
  show "decode_rune (take w xs) = Some (r, w)" by (rule shape) (use assms in \<open>auto simp: xs split: if_splits\<close>)
  show "list_all (\<lambda>b. 128 \<le> b) (take w xs)" if "128 \<le> hd xs"
    by (rule shape) (use that in \<open>auto simp: xs cont_def\<close>)
  show "w = 1" if "hd xs < 128"
    by (rule shape) (use that in \<open>auto simp: xs\<close>)
qed

lemma utf8_valid_Nil [simp]: "utf8_valid []"
  by (simp add: utf8_valid_def)

lemma utf8_valid_rune:
  assumes "decode_rune (map of_char t) = Some (r, length t)"
  shows "utf8_valid (t @ s) = utf8_valid s"
proof -
  have w: "0 < length t" by (rule decode_rune_prefix(1) [OF assms])
  then obtain c u where t: "t = c # u" by (cases t) auto
  have "decode_rune (map of_char (c # (u @ s))) = Some (r, length t)"
    using decode_rune_prefix(3) [OF assms, of "map of_char s"] by (simp add: t)
  then have "runes (c # (u @ s)) = Some r # runes s" by (simp only: runes.simps) (simp add: t)
  then show ?thesis by (simp add: utf8_valid_def t)
qed

text \<open>A valid string is a sequence of encoded code points: an induction rule.\<close>

lemma utf8_induct [consumes 1, case_names Nil rune]:
  assumes "utf8_valid s" and nil: "P []"
    and rune: "\<And>t r s. decode_rune (map of_char t) = Some (r, length t) \<Longrightarrow> utf8_valid s \<Longrightarrow> P s \<Longrightarrow> P (t @ s)"
  shows "P s"
  using assms(1)
proof (induction "length s" arbitrary: s rule: less_induct)
  case less
  show ?case
  proof (cases s)
    case Nil
    with nil show ?thesis by simp
  next
    case (Cons c u)
    obtain r w where d: "decode_rune (map of_char s) = Some (r, w)"
      using less.prems Cons by (auto simp: utf8_valid_def split: option.splits)
    have w: "0 < w" "w \<le> length s" using decode_rune_prefix(1,2) [OF d] by simp_all
    have t: "decode_rune (map of_char (take w s)) = Some (r, length (take w s))"
      using decode_rune_prefix(4) [OF d] w by (simp add: take_map)
    have v: "utf8_valid (drop w s)" using utf8_valid_rune [OF t, of "drop w s"] less.prems by simp
    have "P (drop w s)" using less.hyps [OF _ v] w by simp
    from rune [OF t v this] show ?thesis by simp
  qed
qed

lemma utf8_valid_append: "utf8_valid s \<Longrightarrow> utf8_valid u \<Longrightarrow> utf8_valid (s @ u)"
  by (induction rule: utf8_induct) (simp_all add: utf8_valid_rune)

lemma utf8_valid_concat: "(\<And>t. t \<in> set ts \<Longrightarrow> utf8_valid t) \<Longrightarrow> utf8_valid (concat ts)"
  by (induction ts) (simp_all add: utf8_valid_append)

lemma escape_ascii: "byte c < 128 \<Longrightarrow> d \<in> set (escape c) \<Longrightarrow> byte d < 128"
  by (cases c rule: escape_cases) (auto simp: bs_facts hex_char_def simple_escape_def split: if_splits)

lemma escape_high: "128 \<le> byte c \<Longrightarrow> escape c = [c]"
  by (auto simp: escape_def bs_def dq_def)

lemma utf8_valid_escapes: "utf8_valid s \<Longrightarrow> utf8_valid (concat (map escape s))"
proof (induction rule: utf8_induct)
  case (rune t r s)
  have "utf8_valid t" using utf8_valid_rune [OF rune(1), of "[]"] by simp
  obtain c u where t: "t = c # u" using decode_rune_prefix(1) [OF rune(1)] by (cases t) auto
  have "utf8_valid (concat (map escape t))"
  proof (cases "byte c < 128")
    case True
    then have "t = [c]" using decode_rune_prefix(6) [OF rune(1)] t by simp
    with True show ?thesis by (auto intro!: utf8_valid_ascii dest: escape_ascii)
  next
    case False
    then have "list_all (\<lambda>c. 128 \<le> byte c) t"
      using decode_rune_prefix(5) [OF rune(1)] by (simp add: t list_all_iff)
    then have "concat (map escape t) = t" by (induction t) (simp_all add: escape_high)
    with \<open>utf8_valid t\<close> show ?thesis by simp
  qed
  with rune show ?case by (simp add: utf8_valid_append)
qed simp

lemma utf8_valid_quoted:
  assumes "utf8_valid s"
  shows "utf8_valid (quoted s)"
proof -
  have q: "utf8_valid [dq]" by (rule utf8_valid_ascii) (simp add: dq_def)
  have "utf8_valid ([dq] @ concat (map escape s) @ [dq])"
    by (intro utf8_valid_append q utf8_valid_escapes assms)
  then show ?thesis by (simp add: quoted_def)
qed

section \<open>Numbers\<close>

text \<open>The grammar of a number, part by part.\<close>

definition digits_text :: "string \<Rightarrow> bool" where
  "digits_text ds \<longleftrightarrow> ds \<noteq> [] \<and> list_all digit ds"

definition integer_text :: "string \<Rightarrow> bool" where
  "integer_text i \<longleftrightarrow> i = ''0'' \<or> digits_text i \<and> hd i \<noteq> CHR ''0''"

definition fraction_text :: "string \<Rightarrow> bool" where
  "fraction_text f \<longleftrightarrow> f = [] \<or> hd f = CHR ''.'' \<and> digits_text (tl f)"

definition exponent_text :: "string \<Rightarrow> bool" where
  "exponent_text e \<longleftrightarrow> e = [] \<or> (\<exists>x sign ds. e = x # sign @ ds \<and> (x = CHR ''e'' \<or> x = CHR ''E'') \<and>
     sign \<in> {[], ''+'', ''-''} \<and> digits_text ds)"

definition number_token :: "string \<Rightarrow> bool" where
  "number_token n \<longleftrightarrow> (\<exists>sign i f e. n = sign @ i @ f @ e \<and> sign \<in> {[], ''-''} \<and>
     integer_text i \<and> fraction_text f \<and> exponent_text e)"

text \<open>A character that ends a number.\<close>

definition number_end :: "string \<Rightarrow> bool" where
  "number_end r \<longleftrightarrow> r = [] \<or> \<not> digit (hd r) \<and> hd r \<notin> {CHR ''.'', CHR ''e'', CHR ''E''}"

lemma digit_facts: "digit c \<Longrightarrow> c \<notin> {CHR ''.'', CHR ''e'', CHR ''E'', CHR ''+'', CHR ''-'', dq, bs}"
  by (auto simp: digit_def dq_def bs_def)

lemma delim_number_end: "delim r \<Longrightarrow> number_end r"
  by (auto simp: delim_def number_end_def digit_def)

lemma span_digits_append:
  assumes "digits_text ds" "r = [] \<or> \<not> digit (hd r)"
  shows "span_digits (ds @ r) = (ds, r)"
  using assms by (cases r) (auto simp: span_digits_def digits_text_def list_all_iff takeWhile_append dropWhile_append)

lemma span_digits_sound: "span_digits s = (ds, r) \<Longrightarrow> s = ds @ r \<and> list_all digit ds"
  by (auto simp: span_digits_def list_all_iff dest: set_takeWhileD)

lemma digits_text_Cons: "digits_text ds \<Longrightarrow> \<exists>d r. ds = d # r \<and> digit d"
  by (cases ds) (auto simp: digits_text_def)

lemma integer_hd: "integer_text i \<Longrightarrow> \<exists>d u. i = d # u \<and> digit d"
  using digits_text_Cons [of i] by (cases "i = ''0''") (simp_all add: integer_text_def digit_def)

lemma read_integer_append:
  assumes "integer_text i" "r = [] \<or> \<not> digit (hd r)"
  shows "read_integer (i @ r) = Some (i, r)"
proof (cases "i = ''0''")
  case False
  then have i: "digits_text i" "hd i \<noteq> CHR ''0''" using assms(1) by (auto simp: integer_text_def)
  obtain d u where du: "i = d # u" "digit d" using digits_text_Cons [OF i(1)] by blast
  show ?thesis using span_digits_append [OF i(1) assms(2)] i(2) du by (simp add: read_integer_def)
qed (simp add: read_integer_def)

lemma read_integer_sound: "read_integer s = Some (i, r) \<Longrightarrow> s = i @ r \<and> integer_text i"
  by (auto simp: read_integer_def integer_text_def digits_text_def span_digits_def list_all_iff
        split: list.splits if_splits dest: set_takeWhileD)

lemma read_fraction_append:
  assumes "fraction_text f" "r = [] \<or> \<not> digit (hd r) \<and> hd r \<noteq> CHR ''.''"
  shows "read_fraction (f @ r) = Some (f, r)"
proof (cases "f = []")
  case True
  with assms(2) show ?thesis by (cases r) (auto simp: read_fraction_def)
next
  case False
  then obtain ds where f: "f = CHR ''.'' # ds" "digits_text ds"
    using assms(1) by (cases f) (auto simp: fraction_text_def)
  have "span_digits (ds @ r) = (ds, r)" by (rule span_digits_append [OF f(2)]) (use assms(2) in blast)
  with f show ?thesis by (auto simp: read_fraction_def digits_text_def)
qed

lemma read_fraction_sound: "read_fraction s = Some (f, r) \<Longrightarrow> s = f @ r \<and> fraction_text f"
  by (auto simp: read_fraction_def fraction_text_def digits_text_def
        split: list.splits if_splits prod.splits dest!: span_digits_sound)

lemma read_exponent_append:
  assumes "exponent_text e" "number_end r"
  shows "read_exponent (e @ r) = Some (e, r)"
proof (cases "e = []")
  case True
  with assms(2) show ?thesis by (cases r) (auto simp: read_exponent_def number_end_def)
next
  case False
  then obtain x sign ds where e: "e = x # sign @ ds" "x = CHR ''e'' \<or> x = CHR ''E''" "sign \<in> {[], ''+'', ''-''}" "digits_text ds"
    using assms(1) by (auto simp: exponent_text_def)
  have sp: "span_digits (ds @ r) = (ds, r)"
    by (rule span_digits_append [OF e(4)]) (use assms(2) in \<open>auto simp: number_end_def\<close>)
  obtain d u where du: "ds = d # u" "digit d" using digits_text_Cons [OF e(4)] by blast
  have "d \<noteq> CHR ''+''" "d \<noteq> CHR ''-''" using digit_facts [OF du(2)] by auto
  then show ?thesis using e(1-3) sp du by (auto simp: read_exponent_def)
qed

lemma read_exponent_sound:
  assumes re: "read_exponent s = Some (e, r)"
  shows "s = e @ r \<and> exponent_text e"
proof (cases s)
  case (Cons c s')
  show ?thesis
  proof (cases "c = CHR ''e'' \<or> c = CHR ''E''")
    case True
    obtain sign r1 where sg: "(case s' of x # u \<Rightarrow> if x = CHR ''+'' \<or> x = CHR ''-'' then ([x], u) else ([], s') | [] \<Rightarrow> ([], [])) = (sign, r1)"
      by fastforce
    then have s': "s' = sign @ r1" "sign \<in> {[], ''+'', ''-''}" by (auto split: list.splits if_splits)
    obtain ds q where sp: "span_digits r1 = (ds, q)" by fastforce
    from span_digits_sound [OF this] have ds: "r1 = ds @ q" "list_all digit ds" by simp_all
    have "ds \<noteq> []" "e = c # sign @ ds" "r = q"
      using re True sg sp by (auto simp: read_exponent_def Cons split: if_splits)
    with True s' ds Cons show ?thesis by (auto simp: exponent_text_def digits_text_def)
  next
    case False
    with re Cons show ?thesis by (auto simp: read_exponent_def exponent_text_def)
  qed
qed (use re in \<open>simp add: read_exponent_def exponent_text_def\<close>)

lemma read_number_append:
  assumes "number_token n" "number_end r"
  shows "read_number (n @ r) = Some (n, r)"
proof -
  obtain sign i f e where n: "n = sign @ i @ f @ e" "sign \<in> {[], ''-''}" "integer_text i" "fraction_text f" "exponent_text e"
    using assms(1) by (auto simp: number_token_def)
  have fe: "hd (f @ w) = CHR ''.'' \<or> f = []" for w using n(4) by (cases f) (auto simp: fraction_text_def)
  have ee: "hd (e @ w) = CHR ''e'' \<or> hd (e @ w) = CHR ''E'' \<or> e = []" for w using n(5) by (auto simp: exponent_text_def)
  have e: "read_exponent (e @ r) = Some (e, r)" by (rule read_exponent_append [OF n(5) assms(2)])
  have after_f: "e @ r = [] \<or> \<not> digit (hd (e @ r)) \<and> hd (e @ r) \<noteq> CHR ''.''"
    using ee [of r] assms(2) digit_facts [of "hd (e @ r)"] by (auto simp: number_end_def)
  have f: "read_fraction (f @ e @ r) = Some (f, e @ r)" by (rule read_fraction_append [OF n(4) after_f])
  have after_i: "f @ e @ r = [] \<or> \<not> digit (hd (f @ e @ r))"
    using fe [of "e @ r"] after_f digit_facts [of "hd (f @ e @ r)"] by auto
  have i: "read_integer (i @ f @ e @ r) = Some (i, f @ e @ r)" by (rule read_integer_append [OF n(3) after_i])
  obtain d u where du: "i = d # u" "digit d"
    using integer_hd [OF n(3)] by blast
  have "d \<noteq> CHR ''-''" using digit_facts [OF du(2)] by auto
  with n(1,2) i f e du show ?thesis by (auto simp: read_number_def)
qed

lemma read_number_sound:
  assumes "read_number s = Some (n, r)"
  shows "s = n @ r \<and> number_token n"
proof -
  obtain sign s1 where s1: "s = sign @ s1" "sign \<in> {[], ''-''}"
    and m: "(case read_integer s1 of None \<Rightarrow> None
      | Some (i, s2) \<Rightarrow> (case read_fraction s2 of None \<Rightarrow> None
        | Some (f, s3) \<Rightarrow> (case read_exponent s3 of None \<Rightarrow> None | Some (e, s4) \<Rightarrow> Some (sign @ i @ f @ e, s4)))) = Some (n, r)"
  proof (cases "\<exists>u. s = CHR ''-'' # u")
    case True
    then obtain u where u: "s = ''-'' @ u" by auto
    show thesis by (rule that [OF u]) (use assms u in \<open>simp_all add: read_number_def\<close>)
  next
    case False
    show thesis by (rule that [of "[]" s]) (use assms False in \<open>auto simp: read_number_def split: list.splits if_splits\<close>)
  qed
  then obtain i s2 f s3 e where "read_integer s1 = Some (i, s2)" "read_fraction s2 = Some (f, s3)"
    "read_exponent s3 = Some (e, r)" "n = sign @ i @ f @ e"
    by (auto split: option.splits)
  with s1 show ?thesis
    using read_integer_sound [of s1 i s2] read_fraction_sound [of s2 f s3] read_exponent_sound [of s3 e r]
    by (auto simp: number_token_def)
qed

lemma number_token_chars:
  assumes "number_token n" "c \<in> set n"
  shows "byte c < 128 \<and> c \<noteq> dq"
proof -
  have d: "digits_text ds \<Longrightarrow> c \<in> set ds \<Longrightarrow> byte c < 128 \<and> c \<noteq> dq" for ds
    by (auto simp: digits_text_def list_all_iff digit_def dq_def)
  have i: "integer_text i \<Longrightarrow> c \<in> set i \<Longrightarrow> byte c < 128 \<and> c \<noteq> dq" for i
    using d by (auto simp: integer_text_def dq_def)
  have f: "fraction_text f \<Longrightarrow> c \<in> set f \<Longrightarrow> byte c < 128 \<and> c \<noteq> dq" for f
    using d by (cases f) (auto simp: fraction_text_def dq_def)
  have e: "exponent_text e \<Longrightarrow> c \<in> set e \<Longrightarrow> byte c < 128 \<and> c \<noteq> dq" for e
    using d by (auto simp: exponent_text_def dq_def)
  show ?thesis using assms i f e by (auto simp: number_token_def dq_def)
qed

lemma number_token_hd: "number_token n \<Longrightarrow> \<exists>c r. n = c # r \<and> (digit c \<or> c = CHR ''-'')"
  unfolding number_token_def by (elim exE conjE) (drule integer_hd, elim exE conjE, auto)

end
