(* ===== verification/Wire_Laws.thy ===== *)
theory Wire_Laws
  imports Wire_Tokens
begin

text \<open>
  Laws of \<^verbatim>\<open>parseJSON\<close> and \<^verbatim>\<open>canonicalize\<close>: the reader undoes the writer on every tree of readable tokens,
  what the reader yields has readable tokens, the fuel of the model is never the reason for a failure,
  and canonical text is a fixed point of canonicalization.
\<close>

section \<open>Trees that the writer accepts and trees that the reader yields\<close>

fun strings_valid :: "json \<Rightarrow> bool" where
  "strings_valid (JString s) = utf8_valid s"
| "strings_valid (JArray xs) = list_all strings_valid xs"
| "strings_valid (JObject ms) = list_all (\<lambda>m. utf8_valid (fst m) \<and> strings_valid (snd m)) ms"
| "strings_valid j = True"

fun tokens_ok :: "json \<Rightarrow> bool" where
  "tokens_ok (JNumber n) = number_token n"
| "tokens_ok (JArray xs) = list_all tokens_ok xs"
| "tokens_ok (JObject ms) = (distinct (map fst ms) \<and> list_all (\<lambda>m. tokens_ok (snd m)) ms)"
| "tokens_ok j = True"

lemma those_map_iff:
  assumes "\<And>x. x \<in> set xs \<Longrightarrow> f x = (if P x then Some (g x) else None)"
  shows "those (map f xs) = (if list_all P xs then Some (map g xs) else None)"
  using assms by (induction xs) auto

lemma writeCanonical_eq: "writeCanonical j = (if strings_valid j then Some (render (jcs j)) else None)"
proof (induction j rule: writeCanonical.induct)
  case (5 xs)
  have "those (map writeCanonical xs) = (if list_all strings_valid xs then Some (map (\<lambda>x. render (jcs x)) xs) else None)"
    by (rule those_map_iff) (rule 5)
  then show ?case by (simp add: comp_def)
next
  case (6 ms)
  let ?w = "\<lambda>m. (fst m, quoted (fst m) @ CHR '':'' # render (jcs (snd m)))"
  have "those (map (\<lambda>m. write_member (fst m) (writeCanonical (snd m))) ms)
      = (if list_all (\<lambda>m. utf8_valid (fst m) \<and> strings_valid (snd m)) ms then Some (map ?w ms) else None)"
    by (rule those_map_iff) (simp add: 6 write_member_def writeJSONString_def)
  moreover have "map snd (sort_by (cmp_on fst compareJCSKey) (map ?w ms))
      = map (\<lambda>m. quoted (fst m) @ CHR '':'' # render (snd m)) (sort_by (cmp_on fst compareJCSKey) (map (\<lambda>m. (fst m, jcs (snd m))) ms))"
    (is "?l = map ?r (sort_by _ ?js)")
  proof -
    have w: "map ?w ms = map (\<lambda>m. (fst m, ?r m)) ?js" by simp
    have "sort_by (cmp_on fst compareJCSKey) (map ?w ms) = map (\<lambda>m. (fst m, ?r m)) (sort_by (cmp_on fst compareJCSKey) ?js)"
      unfolding w by (rule map_sort_by [symmetric]) simp
    then show ?thesis by simp
  qed
  ultimately show ?case by simp
qed (simp_all add: writeJSONString_def)

section \<open>Canonical order\<close>

lemma units_compare_flip: "units_compare b a = - units_compare a b"
  by (induction a b rule: units_compare.induct) auto

lemma units_compare_trans: "units_compare a b \<le> 0 \<Longrightarrow> units_compare b c \<le> 0 \<Longrightarrow> units_compare a c \<le> 0"
proof (induction a c arbitrary: b rule: units_compare.induct)
  case (4 x xs y ys)
  then obtain z zs where "b = z # zs" by (cases b) auto
  with 4 show ?case by (auto split: if_splits)
next
  case (3 x xs)
  then show ?case by (cases b) auto
qed auto

interpretation jcs_cmp: comparator compareJCSKey
proof
  show "compareJCSKey x x = 0" for x
    unfolding compareJCSKey_def using units_compare_flip [of "utf16_encode x" "utf16_encode x"] by linarith
  show "compareJCSKey y x = - compareJCSKey x y" for x y
    unfolding compareJCSKey_def by (rule units_compare_flip)
  show "compareJCSKey x y \<le> 0 \<Longrightarrow> compareJCSKey y z \<le> 0 \<Longrightarrow> compareJCSKey x z \<le> 0" for x y z
    unfolding compareJCSKey_def by (rule units_compare_trans)
qed

lemma sort_by_sorted: "sorted_wrt (\<lambda>a b. cmp a b \<le> 0) xs \<Longrightarrow> sort_by cmp xs = xs"
proof (induction xs)
  case (Cons x xs)
  then have "sort_by cmp (x # xs) = insert_by cmp x xs" by (simp add: sort_by_def)
  with Cons.prems show ?case by (cases xs) auto
qed (simp add: sort_by_def)

lemma jcs_jcs [simp]: "jcs (jcs j) = jcs j"
proof (induction j rule: jcs.induct)
  case (2 ms)
  let ?s = "sort_by (cmp_on fst compareJCSKey) (map (\<lambda>m. (fst m, jcs (snd m))) ms)"
  have "map (\<lambda>m. (fst m, jcs (snd m))) ?s = ?s"
    by (rule map_idI) (use 2 in \<open>force\<close>)
  moreover have "sort_by (cmp_on fst compareJCSKey) ?s = ?s"
    by (rule sort_by_sorted) (rule comparator.sorted_sort_by [OF comparator_on [OF jcs_cmp.comparator_axioms]])
  ultimately show ?case by simp
qed simp_all

lemma list_all_sort_by [simp]: "list_all P (sort_by cmp xs) = list_all P xs"
  by (simp add: list_all_iff)

lemma strings_valid_jcs [simp]: "strings_valid (jcs j) = strings_valid j"
  by (induction j rule: jcs.induct) (auto simp: list_all_iff)

lemma tokens_ok_jcs: "tokens_ok j \<Longrightarrow> tokens_ok (jcs j)"
  by (induction j rule: jcs.induct) (auto simp: list_all_iff comp_def)

section \<open>The text of a tree\<close>

lemma join_tail: "join (w # ws) = w @ concat (map (Cons (CHR '','')) ws)"
  by (induction ws arbitrary: w) simp_all

lemma join_valid:
  assumes "\<And>w. w \<in> set ws \<Longrightarrow> utf8_valid w"
  shows "utf8_valid (join ws)"
proof (cases ws)
  case (Cons w us)
  have k: "utf8_valid [CHR '','']" by (rule utf8_valid_ascii) simp
  have "utf8_valid (CHR '','' # u)" if "u \<in> set us" for u
    using utf8_valid_append [OF k, of u] assms that Cons by simp
  then show ?thesis using assms by (auto simp: Cons join_tail intro!: utf8_valid_append utf8_valid_concat)
qed simp

lemma utf8_valid_Cons: "byte c < 128 \<Longrightarrow> utf8_valid (c # s) = utf8_valid s"
  by (simp add: utf8_valid_def)

lemma render_valid: "strings_valid j \<Longrightarrow> tokens_ok j \<Longrightarrow> utf8_valid (render j)"
proof (induction j rule: render.induct)
  case (4 n)
  then show ?case by (auto intro!: utf8_valid_ascii dest: number_token_chars)
next
  case (5 xs)
  have "utf8_valid (join (map render xs))" by (rule join_valid) (use 5 in \<open>auto simp: list_all_iff\<close>)
  then show ?case by (simp add: utf8_valid_Cons utf8_valid_append)
next
  case (6 ms)
  have "utf8_valid (join (map (\<lambda>m. quoted (fst m) @ CHR '':'' # render (snd m)) ms))"
  proof (rule join_valid, clarsimp simp del: render.simps)
    fix k j assume "(k, j) \<in> set ms"
    then have "utf8_valid k" "utf8_valid (render j)" using 6 by (force simp: list_all_iff)+
    then show "utf8_valid (quoted k @ CHR '':'' # render j)"
      by (simp add: utf8_valid_append utf8_valid_quoted utf8_valid_Cons)
  qed
  then show ?case by (simp add: utf8_valid_Cons utf8_valid_append)
qed (simp_all add: utf8_valid_quoted utf8_valid_Cons)

lemma escapes_ok_concat:
  "(\<And>w r. w \<in> set ws \<Longrightarrow> escapes_ok False False (w @ r) = escapes_ok False False r) \<Longrightarrow>
    escapes_ok False False (concat ws @ s) = escapes_ok False False s"
  by (induction ws) auto

lemma escapes_ok_join:
  assumes "\<And>w r. w \<in> set ws \<Longrightarrow> escapes_ok False False (w @ r) = escapes_ok False False r"
  shows "escapes_ok False False (join ws @ s) = escapes_ok False False s"
proof (cases ws)
  case (Cons w us)
  have k: "CHR '','' \<noteq> dq" by (simp add: dq_def)
  show ?thesis using assms
    by (auto simp: Cons join_tail escapes_ok_outside [OF k] intro!: escapes_ok_concat)
qed simp

lemma escapes_ok_render: "tokens_ok j \<Longrightarrow> escapes_ok False False (render j @ s) = escapes_ok False False s"
proof (induction j arbitrary: s rule: render.induct)
  case (4 n)
  then show ?case by (auto intro!: escapes_ok_plain dest: number_token_chars)
next
  case (5 xs)
  have q: "CHR ''['' \<noteq> dq" "CHR '']'' \<noteq> dq" by (simp_all add: dq_def)
  have "escapes_ok False False (join (map render xs) @ u) = escapes_ok False False u" for u
    by (rule escapes_ok_join) (use 5 in \<open>auto simp: list_all_iff\<close>)
  then show ?case by (simp add: escapes_ok_outside q)
next
  case (6 ms)
  have q: "CHR ''{'' \<noteq> dq" "CHR ''}'' \<noteq> dq" "CHR '':'' \<noteq> dq" by (simp_all add: dq_def)
  have "escapes_ok False False (join (map (\<lambda>m. quoted (fst m) @ CHR '':'' # render (snd m)) ms) @ u) = escapes_ok False False u" for u
    by (rule escapes_ok_join) (use 6 in \<open>auto simp: list_all_iff escapes_ok_quoted escapes_ok_outside q\<close>)
  then show ?case by (simp add: escapes_ok_outside q)
qed (simp_all add: escapes_ok_quoted escapes_ok_outside dq_def)

section \<open>Reading what was written\<close>

definition scalar_head :: "char \<Rightarrow> bool" where
  "scalar_head c \<longleftrightarrow> c \<noteq> CHR ''{'' \<and> c \<noteq> CHR ''['' \<and> c \<noteq> CHR ''}'' \<and> c \<noteq> CHR '']'' \<and> \<not> is_space c"

lemma number_char_facts:
  assumes "digit c \<or> c = CHR ''-''"
  shows "scalar_head c" "c \<noteq> dq" "c \<noteq> CHR ''n''" "c \<noteq> CHR ''t''" "c \<noteq> CHR ''f''" "byte c < 128"
proof -
  have "digit c \<Longrightarrow> \<not> digit d \<Longrightarrow> c \<noteq> d" for d by blast
  then have ne: "\<not> digit d \<Longrightarrow> d \<noteq> CHR ''-'' \<Longrightarrow> c \<noteq> d" for d using assms by blast
  show "c \<noteq> dq" "c \<noteq> CHR ''n''" "c \<noteq> CHR ''t''" "c \<noteq> CHR ''f''"
    by (rule ne; simp add: digit_def dq_def)+
  have "\<not> is_space c" using assms by (auto simp: is_space_def digit_def)
  moreover have "c \<noteq> CHR ''{''" "c \<noteq> CHR ''[''" "c \<noteq> CHR ''}''" "c \<noteq> CHR '']''"
    by (rule ne; simp add: digit_def)+
  ultimately show "scalar_head c" by (simp add: scalar_head_def)
  show "byte c < 128" using assms by (auto simp: digit_def)
qed

text \<open>The first character of a text, and the value that a scalar reads as.\<close>

lemma render_scalar:
  assumes "tokens_ok j" "\<not> (\<exists>xs. j = JArray xs)" "\<not> (\<exists>ms. j = JObject ms)" "delim r"
  shows "\<exists>c t. render j = c # t \<and> scalar_head c \<and> byte c < 128 \<and> read_scalar (c # t @ r) = Some (j, r)"
proof (cases j)
  case (JNumber n)
  then obtain c t where n: "n = c # t" "digit c \<or> c = CHR ''-''" using assms(1) number_token_hd [of n] by auto
  have "read_number (n @ r) = Some (n, r)"
    using assms(1) JNumber by (intro read_number_append delim_number_end assms(4)) simp
  with JNumber n number_char_facts [OF n(2)] show ?thesis by (simp add: read_scalar_def)
next
  case (JString s)
  have "scalar_head dq" by (simp add: scalar_head_def is_space_def dq_def)
  moreover have "read_scalar (dq # concat (map escape s) @ dq # r) = Some (JString s, r)"
    by (simp add: read_scalar_def read_string_quoted)
  ultimately show ?thesis by (simp add: JString quoted_def) (simp add: dq_def)
next
  case (JBool b)
  then show ?thesis by (auto simp: read_scalar_def read_literal_def scalar_head_def is_space_def dq_def)
next
  case JNull
  then show ?thesis by (auto simp: read_scalar_def read_literal_def scalar_head_def is_space_def dq_def)
qed (use assms in auto)

lemma skip_space_Cons [simp]: "\<not> is_space c \<Longrightarrow> skip_space (c # s) = c # s"
  by (simp add: skip_space_def)

lemma bracket_not_space [simp]:
  "\<not> is_space (CHR ''{'')" "\<not> is_space (CHR ''}'')" "\<not> is_space (CHR ''['')" "\<not> is_space (CHR '']'')"
  "\<not> is_space (CHR '','')" "\<not> is_space (CHR '':'')" "\<not> is_space dq"
  by (simp_all add: is_space_def dq_def)

lemma render_head:
  assumes "tokens_ok j"
  shows "\<exists>c t. render j = c # t \<and> \<not> is_space c \<and> c \<noteq> CHR '']'' \<and> byte c < 128"
proof (cases "(\<exists>xs. j = JArray xs) \<or> (\<exists>ms. j = JObject ms)")
  case False
  then show ?thesis using render_scalar [OF assms, of "[]"] by (auto simp: scalar_head_def)
qed (use bracket_not_space in \<open>auto simp del: bracket_not_space\<close>)

definition reads_back :: "json \<Rightarrow> bool" where
  "reads_back j \<longleftrightarrow> (\<forall>n r. 2 * length (render j @ r) < n \<longrightarrow> delim r \<longrightarrow> parseJSONNode n (render j @ r) = Some (j, False, r))"

lemma scalar_reads:
  assumes "tokens_ok j" "\<not> (\<exists>xs. j = JArray xs)" "\<not> (\<exists>ms. j = JObject ms)"
  shows "reads_back j"
  unfolding reads_back_def
proof (intro allI impI)
  fix n r assume n: "2 * length (render j @ r) < n" and r: "delim r"
  obtain m where m: "n = Suc m" using n by (cases n) auto
  obtain c t where "render j = c # t" "scalar_head c" "read_scalar (c # t @ r) = Some (j, r)"
    using render_scalar [OF assms r] by blast
  then show "parseJSONNode n (render j @ r) = Some (j, False, r)" by (simp add: m scalar_head_def)
qed

text \<open>What is left of a list of texts after a first turn.\<close>

definition more :: "string list \<Rightarrow> string" where
  "more ws = concat (map (Cons (CHR '','')) ws)"

lemma more_simps [simp]: "more [] = []" "more (w # ws) = CHR '','' # w @ more ws"
  by (simp_all add: more_def)

lemma delim_more: "delim [k] \<Longrightarrow> delim (more ws @ k # r)"
  by (cases ws) (simp_all add: delim_def)

lemma reads_element:
  assumes "reads_back x" "tokens_ok x" "2 * length (render x @ s) + 1 < n" "delim s"
    and rest: "\<And>m. 2 * length s + 1 < m \<Longrightarrow> parse_elements m False s = Some (xs, False, r)"
  shows "parse_elements n True (render x @ s) = Some (x # xs, False, r)"
    "parse_elements (n + 2) False (CHR '','' # render x @ s) = Some (x # xs, False, r)"
proof -
  obtain m where n: "n = Suc m" using assms(3) by (cases n) auto
  obtain c t where c: "render x = c # t" "\<not> is_space c" "c \<noteq> CHR '']''" using render_head [OF assms(2)] by blast
  have node: "parseJSONNode k (render x @ s) = Some (x, False, s)" if "m \<le> k" for k
    using assms(1,3,4) that by (auto simp: reads_back_def n)
  have els: "parse_elements k False s = Some (xs, False, r)" if "m \<le> k" for k
    by (rule rest) (use assms(3) that n c(1) in simp)
  show "parse_elements n True (render x @ s) = Some (x # xs, False, r)"
    using node [of m] els [of m] c by (simp add: n next_element_def)
  show "parse_elements (n + 2) False (CHR '','' # render x @ s) = Some (x # xs, False, r)"
    using node [of "Suc n"] els [of "Suc n"] by (simp add: n next_element_def)
qed

lemma reads_elements_more:
  assumes "list_all reads_back xs" "list_all tokens_ok xs" "2 * length (more (map render xs) @ CHR '']'' # r) + 1 < n"
  shows "parse_elements n False (more (map render xs) @ CHR '']'' # r) = Some (xs, False, r)"
  using assms
proof (induction xs arbitrary: n)
  case Nil
  then show ?case by (cases n) (simp_all add: next_element_def next_member_def)
next
  case (Cons x xs)
  let ?s = "more (map render xs) @ CHR '']'' # r"
  have "parse_elements (n - 2 + 2) False (CHR '','' # render x @ ?s) = Some (x # xs, False, r)"
  proof (rule reads_element(2))
    show "parse_elements m False ?s = Some (xs, False, r)" if "2 * length ?s + 1 < m" for m
      using Cons that by simp
    show "delim ?s" by (rule delim_more) simp
  qed (use Cons.prems in auto)
  moreover have "n - 2 + 2 = n" using Cons.prems by simp
  ultimately show ?case by (simp only: list.map more_simps append.simps append_assoc)
qed

lemma reads_elements:
  assumes "list_all reads_back xs" "list_all tokens_ok xs" "2 * length (join (map render xs) @ CHR '']'' # r) + 1 < n"
  shows "parse_elements n True (join (map render xs) @ CHR '']'' # r) = Some (xs, False, r)"
proof (cases xs)
  case Nil
  with assms show ?thesis by (cases n) (simp_all add: next_element_def next_member_def)
next
  case (Cons x us)
  let ?s = "more (map render us) @ CHR '']'' # r"
  have j: "join (map render xs) @ CHR '']'' # r = render x @ ?s" by (simp add: Cons join_tail more_def)
  have "parse_elements n True (render x @ ?s) = Some (x # us, False, r)"
  proof (rule reads_element(1))
    show "parse_elements m False ?s = Some (us, False, r)" if "2 * length ?s + 1 < m" for m
      using reads_elements_more [of us r m] assms that Cons by simp
    show "delim ?s" by (rule delim_more) simp
    show "2 * length (render x @ ?s) + 1 < n" using assms(3) by (simp only: j)
  qed (use assms Cons in auto)
  then show ?thesis using j Cons by simp
qed

text \<open>The same for the members of an object.\<close>

definition member_text :: "string \<times> json \<Rightarrow> string" where
  "member_text m = quoted (fst m) @ CHR '':'' # render (snd m)"

lemma reads_member:
  assumes "reads_back j" "2 * length (member_text (k, j) @ s) + 1 < n" "delim s" "k \<notin> set seen"
    and rest: "\<And>m. 2 * length s + 1 < m \<Longrightarrow> parse_members m False (k # seen) s = Some (ms, False, r)"
  shows "parse_members n True seen (member_text (k, j) @ s) = Some ((k, j) # ms, False, r)"
    "parse_members (n + 2) False seen (CHR '','' # member_text (k, j) @ s) = Some ((k, j) # ms, False, r)"
proof -
  obtain m where n: "n = Suc m" using assms(2) by (cases n) auto
  have mt: "member_text (k, j) @ s = dq # concat (map escape k) @ dq # CHR '':'' # render j @ s"
    by (simp add: member_text_def quoted_def)
  have node: "parseJSONNode i (render j @ s) = Some (j, False, s)" if "m \<le> i" for i
    using assms(1,2,3) that by (auto simp: reads_back_def n mt)
  have mems: "parse_members i False (k # seen) s = Some (ms, False, r)" if "m \<le> i" for i
    by (rule rest) (use assms(2) that n in \<open>simp add: mt\<close>)
  have d: "dq \<noteq> CHR ''}''" by (simp add: dq_def)
  show "parse_members n True seen (member_text (k, j) @ s) = Some ((k, j) # ms, False, r)"
    using node [of m] mems [of m] assms(4) by (simp add: n mt next_member_def read_string_quoted d)
  show "parse_members (n + 2) False seen (CHR '','' # member_text (k, j) @ s) = Some ((k, j) # ms, False, r)"
    using node [of "Suc n"] mems [of "Suc n"] assms(4) by (simp add: n mt next_member_def read_string_quoted d)
qed

lemma reads_members_more:
  assumes "list_all (\<lambda>m. reads_back (snd m)) ms" "distinct (map fst ms)" "fst ` set ms \<inter> set seen = {}"
    "2 * length (more (map member_text ms) @ CHR ''}'' # r) + 1 < n"
  shows "parse_members n False seen (more (map member_text ms) @ CHR ''}'' # r) = Some (ms, False, r)"
  using assms
proof (induction ms arbitrary: n seen)
  case Nil
  then show ?case by (cases n) (simp_all add: next_element_def next_member_def)
next
  case (Cons m ms)
  obtain k j where m: "m = (k, j)" by fastforce
  let ?s = "more (map member_text ms) @ CHR ''}'' # r"
  have "parse_members (n - 2 + 2) False seen (CHR '','' # member_text (k, j) @ ?s) = Some ((k, j) # ms, False, r)"
  proof (rule reads_member(2))
    show "parse_members i False (k # seen) ?s = Some (ms, False, r)" if "2 * length ?s + 1 < i" for i
      by (rule Cons.IH) (use Cons.prems that m in auto)
    show "delim ?s" by (rule delim_more) simp
  qed (use Cons.prems m in auto)
  moreover have "n - 2 + 2 = n" using Cons.prems by simp
  ultimately show ?case by (simp only: list.map more_simps append.simps append_assoc m)
qed

lemma reads_members:
  assumes "list_all (\<lambda>m. reads_back (snd m)) ms" "distinct (map fst ms)"
    "2 * length (join (map member_text ms) @ CHR ''}'' # r) + 1 < n"
  shows "parse_members n True [] (join (map member_text ms) @ CHR ''}'' # r) = Some (ms, False, r)"
proof (cases ms)
  case Nil
  with assms show ?thesis by (cases n) (simp_all add: next_element_def next_member_def)
next
  case (Cons m us)
  obtain k j where m: "m = (k, j)" by fastforce
  let ?s = "more (map member_text us) @ CHR ''}'' # r"
  have t: "join (map member_text ms) @ CHR ''}'' # r = member_text (k, j) @ ?s" by (simp add: Cons m join_tail more_def)
  have "parse_members n True [] (member_text (k, j) @ ?s) = Some ((k, j) # us, False, r)"
  proof (rule reads_member(1))
    show "parse_members i False [k] ?s = Some (us, False, r)" if "2 * length ?s + 1 < i" for i
      by (rule reads_members_more) (use assms that Cons m in auto)
    show "delim ?s" by (rule delim_more) simp
    show "2 * length (member_text (k, j) @ ?s) + 1 < n" using assms(3) by (simp only: t)
  qed (use assms Cons m in auto)
  then show ?thesis using t Cons m by simp
qed

lemma render_reads_back: "tokens_ok j \<Longrightarrow> reads_back j"
proof (induction j)
  case (JArray xs)
  show ?case unfolding reads_back_def
  proof (intro allI impI)
    fix n r assume n: "2 * length (render (JArray xs) @ r) < n"
    then obtain m where m: "n = Suc m" by (cases n) auto
    have "parse_elements m True (join (map render xs) @ CHR '']'' # r) = Some (xs, False, r)"
      by (rule reads_elements) (use JArray n m in \<open>auto simp: list_all_iff\<close>)
    then show "parseJSONNode n (render (JArray xs) @ r) = Some (JArray xs, False, r)" by (simp add: m)
  qed
next
  case (JObject ms)
  show ?case unfolding reads_back_def
  proof (intro allI impI)
    fix n r assume n: "2 * length (render (JObject ms) @ r) < n"
    then obtain m where m: "n = Suc m" by (cases n) auto
    have all: "list_all (\<lambda>m. reads_back (snd m)) ms"
      using JObject by (auto simp: list_all_iff snds.simps)
    have w: "render (JObject ms) @ r = CHR ''{'' # join (map member_text ms) @ CHR ''}'' # r"
      by (simp add: member_text_def [abs_def])
    have "parse_members m True [] (join (map member_text ms) @ CHR ''}'' # r) = Some (ms, False, r)"
      by (rule reads_members [OF all]) (use JObject.prems n [unfolded w] m in simp_all)
    then show "parseJSONNode n (render (JObject ms) @ r) = Some (JObject ms, False, r)" unfolding w by (simp add: m)
  qed
qed (auto intro!: scalar_reads)

section \<open>What the reader yields\<close>

lemma read_scalar_tokens: "read_scalar s = Some (j, r) \<Longrightarrow> tokens_ok j"
  by (auto simp: read_scalar_def read_literal_def split: list.splits if_splits dest!: read_number_sound)

lemma parse_tokens:
  "parseJSONNode n s = Some (j, dup, r) \<Longrightarrow> \<not> dup \<Longrightarrow> tokens_ok j"
  "parse_members n start seen s = Some (ms, dup, r) \<Longrightarrow> \<not> dup \<Longrightarrow>
     list_all (\<lambda>m. tokens_ok (snd m)) ms \<and> distinct (map fst ms) \<and> fst ` set ms \<inter> set seen = {}"
  "parse_elements n start s = Some (js, dup, r) \<Longrightarrow> \<not> dup \<Longrightarrow> list_all tokens_ok js"
proof (induction n arbitrary: s j r start seen ms js dup)
  case (Suc n)
  {
    case 1
    then show ?case
      by (auto split: list.splits if_splits dest: Suc(2,3) read_scalar_tokens)
  next
    case 2
    then show ?case
      by (auto split: option.splits dest!: Suc(1,2)) force
  next
    case 3
    then show ?case
      by (auto split: option.splits bool.splits dest!: Suc(1,3))
  }
qed simp_all

section \<open>Fuel\<close>

lemma read_string_rest: "read_string s = Some (t, r) \<Longrightarrow> length r < length s"
proof (induction s arbitrary: t r rule: read_string.induct)
  case (2 b s)
  show ?case
  proof (cases "b = dq \<or> byte b < 32 \<or> b \<noteq> bs")
    case True
    then show ?thesis using 2 by (auto simp: read_string.simps split: if_splits)
  next
    case False
    then have b: "b \<noteq> dq" "\<not> byte b < 32" "\<not> b \<noteq> bs" by blast+
    obtain e s1 where s: "s = e # s1" using 2(6) b by (cases s) (auto simp: read_string.simps)
    note IH = 2(2-5) [OF b s]
    show ?thesis
    proof (cases "e = CHR ''u''")
      case True
      then obtain n s2 where n: "take_hex4 s1 = Some (n, s2)" using 2(6) b s by (auto simp: read_string.simps split: option.splits)
      show ?thesis using 2(6) b s True n IH take_hex4_length [OF n]
        by (fastforce simp: read_string.simps split: option.splits if_splits dest: take_low_length)
    next
      case f: False
      then obtain c where "simple_escape e = Some c" using 2(6) b s by (auto simp: read_string.simps split: option.splits)
      with 2(6) b s f IH(4) show ?thesis by (fastforce simp: read_string.simps)
    qed
  qed
qed (simp add: read_string.simps)

lemma skip_space_length: "length (skip_space s) \<le> length s"
  by (simp add: skip_space_def length_dropWhile_le)

lemma skip_space_rest: "skip_space s = c # r \<Longrightarrow> length r < length s"
  using skip_space_length [of s] by simp

lemma next_member_rest:
  assumes "next_member start s = Some (k, r)"
  shows "length r < length s"
proof (rule ccontr)
  assume "\<not> length r < length s"
  with assms show False
    unfolding next_member_def
    by (auto split: list.splits if_splits option.splits dest!: skip_space_rest read_string_rest)
qed

lemma next_element_rest:
  "next_element start s = Some (b, r) \<Longrightarrow> length r \<le> length s"
  "next_element start s = Some (False, r) \<Longrightarrow> length r < length s"
  using skip_space_rest [of s] by (auto simp: next_element_def skip_space_length less_imp_le split: list.splits if_splits)

lemma read_scalar_rest:
  assumes "read_scalar s = Some (j, r)"
  shows "length r < length s"
proof -
  have "n \<noteq> []" if "number_token n" for n using number_token_hd [OF that] by auto
  then have "read_number s = Some (n, r) \<Longrightarrow> length r < length s" for n r
    using read_number_sound [of s n r] by auto
  then show ?thesis using assms
    by (auto simp: read_scalar_def read_literal_def split: list.splits if_splits dest!: read_string_rest)
qed

lemma parse_rest:
  "parseJSONNode n s = Some (j, dup, r) \<Longrightarrow> length r < length s"
  "parse_members n start seen s = Some (ms, dup, r) \<Longrightarrow> length r < length s"
  "parse_elements n start s = Some (js, dup, r) \<Longrightarrow> length r < length s"
proof (induction n arbitrary: s j r start seen ms js dup)
  case (Suc n)
  {
    case 1
    then show ?case using skip_space_length [of s]
      by (auto split: list.splits if_splits dest!: Suc(2,3) read_scalar_rest)
  next
    case 2
    then show ?case
      by (auto split: option.splits dest!: Suc(1,2) next_member_rest)
  next
    case 3
    then show ?case using next_element_rest [of start s]
      by (auto split: option.splits bool.splits dest!: Suc(1,3))
  }
qed simp_all

lemma parse_enough:
  "2 * length s < n \<Longrightarrow> 2 * length s < m \<Longrightarrow> parseJSONNode n s = parseJSONNode m s"
  "2 * length s + 1 < n \<Longrightarrow> 2 * length s + 1 < m \<Longrightarrow> parse_members n start seen s = parse_members m start seen s"
  "2 * length s + 1 < n \<Longrightarrow> 2 * length s + 1 < m \<Longrightarrow> parse_elements n start s = parse_elements m start s"
proof (induction n arbitrary: s m start seen)
  case (Suc n)
  {
    case 1
    then obtain k where m: "m = Suc k" by (cases m) auto
    have "parse_members n True [] r = parse_members k True [] r" "parse_elements n True r = parse_elements k True r"
      if "skip_space s = c # r" for c r
      by (rule Suc(2,3); use 1 m skip_space_rest [OF that] in simp)+
    then show ?case by (simp add: m split: list.splits)
  next
    case 2
    then obtain k where m: "m = Suc k" by (cases m) auto
    have node: "parseJSONNode n r = parseJSONNode k r" if "next_member start s = Some (x, r)" for x r
      by (rule Suc(1)) (use 2 m next_member_rest [OF that] in simp_all)
    have tail: "parse_members n False seen' r = parse_members k False seen' r"
      if "next_member start s = Some (x, q)" "parseJSONNode k q = Some (j, d, r)" for x q j d r seen'
      by (rule Suc(2)) (use 2 m next_member_rest [OF that(1)] parse_rest(1) [OF that(2)] in simp_all)
    show ?case using node tail by (auto simp: m split: option.splits)
  next
    case 3
    then obtain k where m: "m = Suc k" by (cases m) auto
    have node: "parseJSONNode n r = parseJSONNode k r" if "next_element start s = Some (x, r)" for x r
      by (rule Suc(1)) (use 3 m next_element_rest(1) [OF that] in simp_all)
    have tail: "parse_elements n False r = parse_elements k False r"
      if "next_element start s = Some (x, q)" "parseJSONNode k q = Some (j, d, r)" for x q j d r
      by (rule Suc(3)) (use 3 m next_element_rest(1) [OF that(1)] parse_rest(1) [OF that(2)] in simp_all)
    show ?case
    proof (cases "next_element start s")
      case (Some p)
      obtain b r where p: "p = (b, r)" by fastforce
      show ?thesis using node [of b r] tail [of b r] by (cases b) (simp_all add: m Some p split: option.splits)
    qed (simp add: m)
  }
qed simp_all

text \<open>No failure of \<^verbatim>\<open>parseJSON\<close> is due to the fuel.\<close>

lemma parse_fuel_enough: "parse_fuel raw \<le> n \<Longrightarrow> parseJSONNode n raw = parseJSONNode (parse_fuel raw) raw"
  by (rule parse_enough) (simp_all add: parse_fuel_def)

section \<open>Documents\<close>

lemma parseJSON_Inr:
  "parseJSON raw = Inr (j, dup) \<longleftrightarrow> raw \<noteq> [] \<and> take 3 raw \<noteq> byte_order_mark \<and> utf8_valid raw \<and>
     validateUnicodeEscapes raw \<and> (\<exists>r. parseJSONNode (parse_fuel raw) raw = Some (j, dup, r) \<and> skip_space r = [])"
  by (auto simp: parseJSON_def split: option.splits)

lemma parseJSON_render:
  assumes "strings_valid j" "tokens_ok j"
  shows "parseJSON (render j) = Inr (j, False)"
proof -
  obtain c t where c: "render j = c # t" "byte c < 128" using render_head [OF assms(2)] by blast
  have "take 3 (render j) \<noteq> byte_order_mark"
  proof
    assume "take 3 (render j) = byte_order_mark"
    then have "c = char_of (239 :: nat)" by (simp add: c byte_order_mark_def)
    with c(2) show False by simp
  qed
  moreover have "validateUnicodeEscapes (render j)"
    using escapes_ok_render [OF assms(2), of "[]"] by (simp add: validateUnicodeEscapes_def escapes_ok.simps)
  moreover have "parseJSONNode (parse_fuel (render j)) (render j @ []) = Some (j, False, [])"
    by (rule render_reads_back [OF assms(2), unfolded reads_back_def, rule_format]) (simp_all add: parse_fuel_def)
  ultimately show ?thesis using render_valid [OF assms] c(1) by (simp add: parseJSON_Inr skip_space_def)
qed

lemma parseJSON_tokens: "parseJSON raw = Inr (j, False) \<Longrightarrow> tokens_ok j"
  by (auto simp: parseJSON_Inr dest: parse_tokens(1))

lemma canonicalize_raw_Inr:
  "canonicalize_raw raw = Inr t \<longleftrightarrow> (\<exists>j. parseJSON raw = Inr (j, False) \<and> strings_valid j \<and> t = render (jcs j))"
  by (auto simp: canonicalize_raw_def writeCanonical_eq split: sum.splits if_splits)

lemma canonical_fixed:
  assumes "strings_valid j" "tokens_ok j"
  shows "parseJSON (render (jcs j)) = Inr (jcs j, False)" "canonicalize_raw (render (jcs j)) = Inr (render (jcs j))"
proof -
  have j: "strings_valid (jcs j)" "tokens_ok (jcs j)" using assms by (simp_all add: tokens_ok_jcs)
  show p: "parseJSON (render (jcs j)) = Inr (jcs j, False)" by (rule parseJSON_render [OF j])
  show "canonicalize_raw (render (jcs j)) = Inr (render (jcs j))"
    unfolding canonicalize_raw_Inr by (rule exI [of _ "jcs j"]) (simp add: p assms)
qed

text \<open>On the text of a tree, which is what \<^verbatim>\<open>json.Marshal\<close> hands over, canonicalizing the bytes is
  canonicalizing the tree.\<close>

lemma canonicalize_raw_render: "strings_valid j \<Longrightarrow> tokens_ok j \<Longrightarrow> canonicalize_raw (render j) = canonicalize j"
  by (simp add: canonicalize_raw_def parseJSON_render canonicalize_def)

end
