(* ===== verification/Wire_Properties.thy ===== *)
theory Wire_Properties
  imports Wire_Laws Fast_Eval
begin

text \<open>
  Properties of the JSON reader and of canonicalization.
\<close>

text \<open>C30: Canonicalization of raw bytes is faithful and stable: canonical text reads back as the document it
  was made from, members in canonical order and without a duplicate; canonicalizing it again changes
  nothing; and another document has the same canonical text exactly when it is the same tree up to the
  order of members.\<close>

theorem canonical_text_is_faithful:
  assumes "canonicalize_raw raw = Inr t"
  shows "\<exists>j. parseJSON raw = Inr (j, False) \<and> parseJSON t = Inr (jcs j, False) \<and> canonicalize_raw t = Inr t \<and>
    (\<forall>raw' j'. parseJSON raw' = Inr (j', False) \<longrightarrow> (canonicalize_raw raw' = Inr t \<longleftrightarrow> jcs j' = jcs j))"
proof -
  obtain j where j: "parseJSON raw = Inr (j, False)" "strings_valid j" and t: "t = render (jcs j)"
    using assms by (auto simp: canonicalize_raw_Inr)
  have fixed: "parseJSON t = Inr (jcs j, False)" "canonicalize_raw t = Inr t"
    unfolding t by (rule canonical_fixed [OF j(2) parseJSON_tokens [OF j(1)]])+
  have "canonicalize_raw raw' = Inr t \<longleftrightarrow> jcs j' = jcs j" if p: "parseJSON raw' = Inr (j', False)" for raw' j'
  proof
    assume "canonicalize_raw raw' = Inr t"
    then have j': "strings_valid j'" "t = render (jcs j')" using p by (auto simp: canonicalize_raw_Inr)
    from canonical_fixed(1) [OF j'(1) parseJSON_tokens [OF p]] fixed(1) show "jcs j' = jcs j" by (simp flip: j'(2))
  next
    assume eq: "jcs j' = jcs j"
    then have "strings_valid j'" using j(2) by (metis strings_valid_jcs)
    with p eq show "canonicalize_raw raw' = Inr t" by (auto simp: canonicalize_raw_Inr t)
  qed
  with j(1) fixed show ?thesis by blast
qed

definition spaced_text :: string where
  "spaced_text = ''{ '' @ [dq] @ ''b'' @ [dq] @ '' : [1.50, -2e3, true ] , '' @ [dq] @ ''a'' @ [dq] @ '' : '' @ [dq, bs] @ ''u0041'' @ [bs] @ ''n'' @ [dq] @ ''}''"

definition canonical_text :: string where
  "canonical_text = ''{'' @ [dq] @ ''a'' @ [dq] @ '':'' @ [dq] @ ''A'' @ [bs] @ ''n'' @ [dq] @ '','' @ [dq] @ ''b'' @ [dq] @ '':[1.50,-2e3,true]}''"

theorem canonical_text_is_faithful_witness:
  "canonicalize_raw spaced_text = Inr canonical_text \<and> canonicalize_raw canonical_text = Inr canonical_text"
proof -
  have c: "canonicalize_raw spaced_text = Inr canonical_text" by code_simp
  from canonical_text_is_faithful [OF c] c show ?thesis by blast
qed

end
