(* ===== verification/Spec2Isabelle.thy ===== *)
theory Spec2Isabelle
  imports Kernel_Runs Scenario_Facts Foundation_Properties Fact_Properties Staging_Boundary Operation_Run
    Evaluation_Properties Shipped_Packs Metadata_Properties Consumer_Properties Wire_Properties
begin

text \<open>
  A verification development for the semantic registry of Project Helianthus (\<^verbatim>\<open>src/semreg/v1\<close>), a
  Go library that decides which statements about a physical asset are published, evaluated and acted
  on. Every definition below is a translation of the Go source, executable inside the logic.

  \<^bold>\<open>The program.\<close> Drivers send publication batches; a publication kernel validates and stages a batch,
  closes the derivation graph of its facts, and installs a new immutable snapshot (\<^verbatim>\<open>publication.go\<close>).
  Readers evaluate a snapshot at a time context and select a presentation
  (\<^verbatim>\<open>evaluation_selection.go\<close>). An operation kernel admits intents against a snapshot, binds each to one
  route and records one terminal outcome (\<^verbatim>\<open>operation/\<close>). Packs (\<^verbatim>\<open>packs/\<close>) own the definitions and
  validate facts, services, capabilities, intents and readbacks through the hooks of a registry; their
  metadata forms a second registry (\<^verbatim>\<open>pack_metadata.go\<close>). Consumers derive projection reports and an
  availability view from a snapshot (\<^verbatim>\<open>projection/\<close>) and read a family catalog (\<^verbatim>\<open>catalog/\<close>).

  \<^bold>\<open>Conventions.\<close> A struct is a \<open>record\<close> whose field names carry a prefix, an open string type a datatype
  with its declared constants and a constructor for any other string. A slice is \<open>'a list option\<close>, \<open>None\<close>
  for nil; a map is an association list, and where the source iterates over a map it sorts before the
  order can be observed. A Go string is a list of bytes; identifier patterns are regular expressions
  matched by derivatives. 64-bit decimal counters stay strings, read by \<open>u64_val\<close>; \<open>big.Int\<close> is \<open>int\<close> and
  \<open>big.Rat\<close> is \<open>rat\<close>. An error is \<open>err = error option\<close>; a fallible function returns \<open>error + 'a\<close>. The \<open>check\<close>
  closures that keep the best error are lists of errors under \<open>bestError\<close>; early returns are
  \<open>first_error\<close>. The parameter \<open>E :: env\<close> of most definitions holds what is not in the repository: the test
  for Unicode normal form C of \<^verbatim>\<open>golang.org/x/text\<close> and SHA-256; no property assumes anything of them.
  Hooks (pack validators, selection policies, authority resolvers) are functions.
  Clones only detach memory and have no counterpart.

  \<^bold>\<open>Foundations.\<close> \<open>Prelude\<close> (slices, comparison, stable insertion sort for \<^verbatim>\<open>sort.Slice\<close>), \<open>Go_Strings\<close>,
  \<open>Errors\<close> (identifiers, ranks), \<open>Types\<close> (\<^verbatim>\<open>types.go\<close>), \<open>Scalars\<close> (patterns, counters, versions),
  \<open>Canonical_JSON\<close> and \<open>Marshal\<close> (the canonical writer, the JSON tree of every record), \<open>Collections\<close> and
  \<open>Validation\<close> (the Validate methods of \<^verbatim>\<open>validation.go\<close> with the collection identities of
  \<^verbatim>\<open>collector.go\<close>), \<open>Key_Identity\<close>, \<open>Freshness\<close>. \<open>Foundation_Properties\<close> shows that the reported error does
  not depend on the order of checks, that key identities are faithful, that accepted
  collections are canonical, and that freshness across clocks is sound. \<open>Fast_Eval\<close> proves faster code
  equations for evaluation.

  \<^bold>\<open>Reading JSON.\<close> \<open>Wire_JSON\<close> models \<^verbatim>\<open>parseJSON\<close>, \<^verbatim>\<open>parseJSONNode\<close> and \<^verbatim>\<open>canonicalize\<close> on bytes, with the tokens
  of \<^verbatim>\<open>json.Decoder\<close>. \<open>Wire_Tokens\<close> and \<open>Wire_Laws\<close> show that the reader undoes the writer token by token
  and tree by tree, and \<open>Wire_Properties\<close> that canonical text is faithful and stable.

  \<^bold>\<open>Registry and publication.\<close> \<open>Registry\<close> (\<^verbatim>\<open>NewRegistry\<close>, frozen validators), \<open>Facts\<close> (conflicts,
  envelopes), \<open>Derivation_Graph\<close> (Tarjan's pass and the memoised resolver), \<open>Snapshot\<close>
  (\<^verbatim>\<open>Snapshot.Validate\<close>, loop by loop), \<open>Revisions\<close>, \<open>Batch\<close>, \<open>Staging\<close> (\<^verbatim>\<open>applyTo\<close> as phases over the maps it
  keeps), \<open>Publication\<close> (\<^verbatim>\<open>Apply\<close>, \<^verbatim>\<open>Current\<close>, \<^verbatim>\<open>Fork\<close>). \<open>Publication_Laws\<close>, \<open>Snapshot_Laws\<close>, \<open>Runs\<close> and
  \<open>Kernel_Runs\<close> carry the invariants of reachable kernels and of runs; this theory holds the properties:
  refusals change nothing, the current snapshot is always valid, a semantic revision names one result, revisions, sequences, fences and
  generations never go back, replays return the first result, and what a valid snapshot offers is live
  and derived from current observations. \<open>Fact_Properties\<close> covers conflicts and envelopes,
  \<open>Staging_Boundary\<close> a batch that upserts and withdraws the same candidate.

  \<^bold>\<open>Evaluation and selection.\<close> \<open>Evaluation\<close> models \<^verbatim>\<open>EvaluateSnapshot\<close>, \<^verbatim>\<open>CurrentAt\<close> and the selection kernel.
  \<open>Evaluation_Laws\<close> states the inductive specification of evaluation and shows that the recursion
  implements it; \<open>Evaluation_Properties\<close> that it returns on valid snapshots.

  \<^bold>\<open>Operations.\<close> \<open>Operation_Types\<close>, \<open>Operation_Validation\<close>, \<open>Admission\<close>, \<open>Execution_Record\<close>. The kernel of the
  source holds a mutex in two sections of \<^verbatim>\<open>Admit\<close> and evaluates between them without it:
  \<open>admit_check\<close> is the first section with the evaluation, \<open>admit_install\<close> the second, and in
  \<open>Operation_Ledger\<close> the steps of any number of calls interleave. Admissions are cells of a heap, so
  pointer identity is kept. \<open>Operation_Properties\<close> shows idempotence, the refinement of a write-once
  ledger, bounded retention, what a route, a precondition and an outcome rest on, and that causal
  chains end.

  \<^bold>\<open>Packs and consumers.\<close> \<open>Pack_Validator\<close> is the code the five packages repeat, generic in their tables;
  \<open>Packs\<close> holds the tables and the methods of each package. \<open>Pack_Metadata\<close>, \<open>Projection\<close>,
  \<open>Pack_Availability\<close> and \<open>Catalog\<close> follow their files. \<open>Pack_Laws\<close>, \<open>Registry_Laws\<close>, \<open>Metadata_Laws\<close>,
  \<open>Pack_Composition\<close>, \<open>Availability_Laws\<close> and \<open>Projection_Laws\<close> carry \<open>Pack_Properties\<close> (facts match the
  tables, readback by value, the storage interlock through admission), \<open>Shipped_Packs\<close> (the five packs
  compose), \<open>Metadata_Properties\<close> (closed metadata, exact availability) and \<open>Consumer_Properties\<close> (reports
  account for requests, the catalog check is exact and accepts the catalog the repository ships,
  \<open>Shipped_Catalog\<close>).

  \<^bold>\<open>Interfaces.\<close> The contracts between components are locales: \<open>comparator\<close>, \<open>error_ranking\<close>, \<open>collection\<close>
  (keyed, ordered slices), \<open>revisioned\<close> (objects with a revision), \<open>transactional\<close>, \<open>numbered\<close>, \<open>evolving\<close> and \<open>stepwise\<close>
  (services and step systems), \<open>operation_pack\<close> (what the kernel relies on of a pack) and
  \<open>consistent_table\<close>; each is interpreted on the model.

  \<^bold>\<open>Fuel.\<close> Recursions over maps carry fuel. The graph resolver and Tarjan's pass get \<open>2 n + 2\<close> for \<open>n\<close>
  candidates; running out is an error value, so the model fails closed and acceptance is unaffected. The
  evaluation gets \<open>n + 1\<close>, proved enough for every valid snapshot. The
  JSON reader gets \<open>2 n + 2\<close> for \<open>n\<close> bytes, proved enough for every input. Every other loop is structural.

  \<^bold>\<open>Concrete runs.\<close> \<open>Scenario\<close>, \<open>Scenario_Facts\<close>, \<open>Operation_Scenario\<close>, \<open>Operation_Run\<close> and
  \<open>Storage_Scenario\<close> evaluate a publication, an operation and a storage operation on real records; they
  instantiate the hypotheses of the properties.

  \<^bold>\<open>Not modelled.\<close> Decoding of JSON trees into records: \<^verbatim>\<open>validateShape\<close> and \<^verbatim>\<open>Decode\<close> work by reflection over
  struct tags, as do the partial diagnostics of \<^verbatim>\<open>collector.go\<close>, the wire hooks of the projection records
  and \<^verbatim>\<open>catalog.Decode\<close>; a shallow translation would have to invent the reflection library. Where the
  source decodes what it has just encoded in order to copy it, the model keeps the value.
  The mutexes appear only as the granularity of steps, and panics of a hook or of the Go runtime
  are not represented.
\<close>

section \<open>The publication kernel\<close>

text \<open>C1: A refused publication leaves the kernel exactly as it was: snapshot, canonical bytes, replay
  records and registry are unchanged, whatever phase found the error.\<close>

theorem apply_rejection_keeps_state:
  assumes "Apply E k b pm = (k', Inl e)"
  shows "k' = k"
  using assms by (auto simp: Apply_def Apply_rejected split: option.splits prod.splits)

theorem apply_rejection_keeps_state_witness:
  "\<exists>e. Apply demo_env (Some kernel0) foreign_batch (demo_point ''7'') = (Some kernel0, Inl e) \<and> ErrorIdentifier e = InvalidValue"
proof -
  obtain k' e where ap: "Apply demo_env (Some kernel0) foreign_batch (demo_point ''7'') = (k', Inl e)" "ErrorIdentifier e = InvalidValue"
    using foreign_refused by (cases "Apply demo_env (Some kernel0) foreign_batch (demo_point ''7'')") (auto split: sum.splits)
  with apply_rejection_keeps_state [OF ap(1)] show ?thesis by blast
qed

text \<open>C2: The semantic revision names a publication. Whatever requests a new kernel is sent (refused ones,
  repetitions and fenced cursors included), the results it answers with carry the semantic revisions
  from 1 to the current one without a gap, and one revision never names two results: two answers with the
  same revision are the same snapshot with the same bytes, a replayed answer included.\<close>

theorem semantic_revisions_number_results:
  assumes "NewPublicationKernel asset validators = Inr k"
  shows "\<exists>n. u64_val (current_revision (run (apply_step E) k requests)) = Some n \<and>
    bij_betw (\<lambda>r. u64_val (rv_Semantic (sn_Revisions (fst r)))) (accepted_results (apply_step E) k requests) (Some ` {1..n})"
proof -
  have new: "kernel_ok E k" using assms by (rule reachable_ok [OF reachable_new])
  have k: "k_current k = None" "k_replays k = []"
    using assms by (auto simp: NewPublicationKernel_def split: option.splits sum.splits)
  have "u64_val (current_revision k) = Some 0" unfolding current_revision_def k(1) by code_simp
  moreover have "replay_results k \<subseteq> {}" by (simp add: replay_results_def k(2))
  ultimately show ?thesis
    using results.run_numbers [OF new, of 0 "{}" requests] by (simp add: revision_number_def [abs_def] bij_betw_def)
qed

theorem semantic_revisions_number_results_witness:
  "let requests = [(first_batch, demo_point ''7''), (first_batch, demo_point ''9''), (second_batch, demo_point ''8'')] in
     accepted_results (apply_step demo_env) kernel0 requests =
       {(first_snapshot, canonical_of first_snapshot), (second_snapshot, canonical_of second_snapshot)} \<and>
     u64_val (rv_Semantic (sn_Revisions first_snapshot)) \<noteq> u64_val (rv_Semantic (sn_Revisions second_snapshot))"
proof -
  let ?requests = "[(first_batch, demo_point ''7''), (first_batch, demo_point ''9''), (second_batch, demo_point ''8'')]"
  have steps: "apply_step demo_env kernel0 (first_batch, demo_point ''7'') = (first_kernel, Inr (first_snapshot, canonical_of first_snapshot))"
    "apply_step demo_env first_kernel (first_batch, demo_point ''9'') = (first_kernel, Inr (first_snapshot, canonical_of first_snapshot))"
    "apply_step demo_env first_kernel (second_batch, demo_point ''8'') = (second_kernel, Inr (second_snapshot, canonical_of second_snapshot))"
    by (simp_all add: apply_step_def first_publication first_repeated second_publication)
  then have accepted: "accepted_results (apply_step demo_env) kernel0 ?requests =
      {(first_snapshot, canonical_of first_snapshot), (second_snapshot, canonical_of second_snapshot)}"
    by (simp add: accepted_results_Cons insert_commute)
  moreover have "first_snapshot \<noteq> second_snapshot" by (simp add: first_snapshot_def second_snapshot_def)
  ultimately show ?thesis
    using semantic_revisions_number_results [OF kernel0_new, of demo_env ?requests]
    by (auto simp: Let_def bij_betw_def inj_on_def)
qed

text \<open>C3: In every kernel that publications can lead to, the current snapshot satisfies the full
  snapshot validation, belongs to the kernel's asset, and the stored bytes are its canonical JSON.\<close>

theorem reachable_current_valid:
  assumes "reachable E k" "Current (Some k) = Some (s, canonical)"
  shows "Snapshot_Validate E s = None \<and> sn_AssetID s = k_asset k \<and>
    CanonicalJSON (Snapshot_Validate E) json_of_Snapshot s = Inr canonical"
  using kernel_ok_current [OF reachable_ok [OF assms(1)]] assms(2) by (auto simp: Current_def split: option.splits)

theorem reachable_current_valid_witness:
  "reachable demo_env first_kernel \<and> Snapshot_Validate demo_env first_snapshot = None \<and>
   CanonicalJSON (Snapshot_Validate demo_env) json_of_Snapshot first_snapshot = Inr (canonical_of first_snapshot)"
  using reachable_current_valid [OF first_reachable, of first_snapshot "canonical_of first_snapshot"] first_reachable
  by (simp add: Current_def first_current)

text \<open>C4: An accepted publication with a new sequence expected the current semantic revision and moves it
  to the next 64-bit value without wrapping; every other revision is kept or moves to its next
  value. The first publication starts all of them at 1.\<close>

theorem accepted_publication_revisions:
  assumes "reachable E k" "Apply_locked E k b pm = (k', Inr (s, canonical))" "sequence_comparison k b > 0"
  shows "pb_ExpectedSemanticRevision b = current_revision k \<and>
    (case k_current k of
       None \<Rightarrow> sn_Revisions s = \<lparr>rv_Semantic = ''1'', rv_Identity = ''1'', rv_Facts = ''1'', rv_Services = ''1'', rv_Capabilities = ''1''\<rparr>
     | Some s0 \<Rightarrow> counter_next (rv_Semantic (sn_Revisions s0)) (rv_Semantic (sn_Revisions s)) \<and>
         counter_kept_or_next (rv_Identity (sn_Revisions s0)) (rv_Identity (sn_Revisions s)) \<and>
         counter_kept_or_next (rv_Facts (sn_Revisions s0)) (rv_Facts (sn_Revisions s)) \<and>
         counter_kept_or_next (rv_Services (sn_Revisions s0)) (rv_Services (sn_Revisions s)) \<and>
         counter_kept_or_next (rv_Capabilities (sn_Revisions s0)) (rv_Capabilities (sn_Revisions s)))"
proof -
  obtain changed where c: "sn_Revisions s = nextRevisionVector (sn_Revisions (working_snapshot k)) (k_current k = None) changed"
    "RevisionVector_Validate (sn_Revisions s) = None" "pb_ExpectedSemanticRevision b = current_revision k"
    using committed_vector [OF assms(2,3)] by blast
  show ?thesis
  proof (cases "k_current k")
    case None
    then show ?thesis using c by (simp add: nextRevisionVector_def)
  next
    case (Some s0)
    have "RevisionVector_Validate (sn_Revisions s0) = None"
      using Snapshot_ValidateD(1) [OF kernel_ok_current(1) [OF reachable_ok [OF assms(1)] Some]]
      by (simp add: snapshot_header_errors_def)
    from next_vector [OF this, of changed] c Some show ?thesis by (simp add: working_snapshot_def)
  qed
qed

theorem accepted_publication_revisions_witness:
  "reachable demo_env kernel0 \<and>
   Apply_locked demo_env kernel0 first_batch (demo_point ''7'') = (first_kernel, Inr (first_snapshot, canonical_of first_snapshot)) \<and>
   pb_ExpectedSemanticRevision first_batch = current_revision kernel0 \<and> rv_Semantic (sn_Revisions first_snapshot) = ''1''"
proof -
  have new: "reachable demo_env kernel0" using kernel0_new by (rule reachable_new)
  have pos: "sequence_comparison kernel0 first_batch > 0" and none: "k_current kernel0 = None"
    by (simp_all add: sequence_comparison_def kernel0_def cursorMap_def)
  from accepted_publication_revisions [OF new first_publication pos] new first_publication none show ?thesis by simp
qed

text \<open>C5: A publication that was accepted once is answered with the same snapshot and the same bytes
  whenever it is sent again, after any publications on other cursors and also when its generation
  has been fenced meanwhile; the kernel does not change.\<close>

theorem replay_returns_first_result:
  assumes "Apply_locked E k b pm = (k1, Inr (s, canonical))"
    and "\<forall>p \<in> set later. header_key (fst p) \<noteq> header_key b" "MonotonicPoint_Validate pm' = None"
  shows "Apply_locked E (run (apply_step E) k1 later) b pm' = (run (apply_step E) k1 later, Inr (s, canonical))"
proof -
  let ?k = "run (apply_step E) k1 later"
  obtain c where c: "cursor_at k1 (header_key b) = Some c" "pc_LastSequence c = pb_Sequence b"
      "pc_LastBatchDigest c = pb_BatchDigest b" "local_error E k b pm = None" "k_asset k1 = k_asset k"
      "PublicationBatch_computedDigestUnchecked E b = Inr (pb_BatchDigest b)"
      "replayResult k1 (header_key b) = Inr (s, canonical)"
    using accepted_record [OF assms(1)] by blast
  have same: "untouched (header_key b) k1 ?k" using assms(2) by (intro other_keys.run_rel) simp_all
  then obtain c' where c': "cursor_at ?k (header_key b) = Some c'" "fenced_or_same c c'"
    using c(1) unfolding untouched_def by blast
  have at: "pc_LastSequence c' = pb_Sequence b" "pc_LastBatchDigest c' = pb_BatchDigest b"
    using c'(2) c(2,3) by (auto simp: fenced_or_same_def)
  have "k_asset ?k = k_asset k" "replayResult ?k (header_key b) = Inr (s, canonical)"
    using same c(5,7) by (simp_all add: untouched_def replayResult_def)
  with replay_step [OF c'(1) at local_error_asset [OF c(4) _ assms(3)] c(6)] show ?thesis by simp
qed

theorem replay_returns_first_result_witness:
  "Apply_locked demo_env first_kernel first_batch (demo_point ''9'') =
     (first_kernel, Inr (first_snapshot, canonical_of first_snapshot))"
proof -
  have "MonotonicPoint_Validate (demo_point ''9'') = None" by code_simp
  from replay_returns_first_result [OF first_publication, of "[]", OF _ this] show ?thesis by simp
qed

text \<open>C6: Sequences are strict. On an unknown cursor only sequence 1 is accepted. On a known cursor an
  accepted batch either repeats the last sequence with the same digest and changes nothing, or has
  a greater sequence on a cursor that is not fenced and becomes the cursor's new position.\<close>

theorem accepted_sequence_discipline:
  assumes "reachable E k" "Apply_locked E k b pm = (k', Inr (s, canonical))"
  shows "case cursor_at k (header_key b) of
      None \<Rightarrow> pb_Sequence b = ''1'' \<and> cursor_at k' (header_key b) = Some (new_cursor b)
    | Some c \<Rightarrow>
        pb_Sequence b = pc_LastSequence c \<and> pb_BatchDigest b = pc_LastBatchDigest c \<and> k' = k \<or>
        \<not> pc_Fenced c \<and> cursor_at k' (header_key b) = Some (new_cursor b) \<and>
        (\<exists>m n. u64_val (pc_LastSequence c) = Some m \<and> u64_val (pb_Sequence b) = Some n \<and> m < n)"
proof (cases "sequence_comparison k b > 0")
  case True
  note fresh = committed_fresh [OF assms(2) True]
  show ?thesis using fresh(1,3,4) new_sequence_greater [OF reachable_ok [OF assms(1)] assms(2) True]
    by (auto split: option.split)
next
  case False
  from assms(2) show ?thesis
  proof (cases rule: Apply_cases)
    case (replayed c snap can)
    then show ?thesis using compareUint64_eq [OF replayed(5)] by simp
  qed (use False in simp_all)
qed

theorem accepted_sequence_discipline_witness:
  "cursor_at kernel0 (header_key first_batch) = None \<and> pb_Sequence first_batch = ''1'' \<and>
   cursor_at first_kernel (header_key first_batch) = Some (new_cursor first_batch)"
  using accepted_sequence_discipline [OF kernel0_reachable first_publication] kernel0_empty by (simp add: cursorMap_def)

text \<open>C7: Fencing is final: whatever is published afterwards, a fenced cursor stays exactly as it is, so
  no later batch is ever recorded on it.\<close>

theorem fence_is_final:
  assumes "cursor_at k key = Some c" "pc_Fenced c"
  shows "cursor_at (run (apply_step E) k requests) key = Some c"
proof -
  have "keeps_fences k (run (apply_step E) k requests)" by (rule fences.run_rel) simp_all
  then show ?thesis using assms unfolding keeps_fences_def by blast
qed

theorem fence_is_final_witness:
  "cursor_at (run (apply_step demo_env) fenced_kernel [(first_batch, demo_point ''7''), (second_batch, demo_point ''8'')])
     (''src'', ''ep'', ''1'') = Some ((demo_cursor ''1'')\<lparr>pc_Fenced := True\<rparr>)"
  by (rule fence_is_final) (simp_all add: fenced_kernel_def cursorMap_def snapshot_cursors_def first_snapshot_def
    map_from_def cursor_key_def demo_cursor_def)

text \<open>C8: No cursor disappears and no sequence goes back: from a reachable kernel, every cursor is still
  there after any requests, either where it was (fenced or not) or at a greater sequence.\<close>

theorem cursors_never_go_back:
  assumes "reachable E k" "cursor_at k key = Some c"
  shows "\<exists>c'. cursor_at (run (apply_step E) k requests) key = Some c' \<and> cursor_progress c c'"
proof -
  have "cursors_progress k (run (apply_step E) k requests)"
    by (rule progress.run_rel [OF reachable_ok [OF assms(1)]]) simp
  then show ?thesis using assms(2) unfolding cursors_progress_def by blast
qed

theorem cursors_never_go_back_witness:
  "\<exists>c'. cursor_at (run (apply_step demo_env) first_kernel [(second_batch, demo_point ''8'')]) (''src'', ''ep'', ''1'') = Some c' \<and>
     cursor_progress (demo_cursor ''1'') c'"
  by (rule cursors_never_go_back [OF first_reachable])
    (simp add: first_current cursorMap_def snapshot_cursors_def first_snapshot_def map_from_def cursor_key_def demo_cursor_def)

text \<open>C9: Driver generations do not regress: a batch with a new sequence is accepted only if no cursor of
  its source epoch has a greater generation.\<close>

theorem accepted_generation_is_newest:
  assumes "reachable E k" "Apply_locked E k b pm = (k', Inr (s, canonical))" "sequence_comparison k b > 0"
    and "cursor_at k (pb_SourceID b, pb_SourceEpochID b, generation) = Some c"
  shows "\<exists>m n. u64_val generation = Some m \<and> u64_val (pb_DriverGeneration b) = Some n \<and> m \<le> n"
proof -
  have w: "\<forall>e \<in> set (sequence_errors k b). e = None" "local_error E k b pm = None"
    using commit_facts [OF assms(2,3)] by metis+
  have "((pb_SourceID b, pb_SourceEpochID b, generation), c) \<in> set (cursorMap (k_current k))"
    using assms(4) by (rule map_of_SomeD)
  then have cmp: "compareUint64 (pb_DriverGeneration b) generation \<ge> 0"
    using w(1) by (fastforce simp: sequence_errors_def Let_def)
  obtain n where n: "u64_val (pb_DriverGeneration b) = Some n"
    using batch_sequence_positive [OF w(2)] by (auto simp: positive_iff)
  obtain m where m: "u64_val generation = Some m"
    using cursor_generation [OF reachable_ok [OF assms(1)] assms(4)] by (auto simp: positive_iff)
  have "m \<le> n" using cmp compareUint64_val [OF n m] by (simp add: int_cmp_def split: if_splits)
  with m n show ?thesis by blast
qed

theorem accepted_generation_is_newest_witness:
  "\<exists>m n. u64_val ''1'' = Some m \<and> u64_val (pb_DriverGeneration second_batch) = Some n \<and> m \<le> n"
proof (rule accepted_generation_is_newest [OF first_reachable second_publication])
  show "sequence_comparison first_kernel second_batch > 0"
    by (simp add: second_after_first)
  show "cursor_at first_kernel (pb_SourceID second_batch, pb_SourceEpochID second_batch, ''1'') = Some (demo_cursor ''1'')"
    by (simp add: first_current first_kernel_fields second_header)
qed

section \<open>Valid snapshots\<close>

text \<open>C10: In a valid snapshot a current binding belongs to the snapshot's asset, to a source epoch that
  is current, and to a driver generation whose cursor exists and is not fenced.\<close>

theorem current_binding_is_live:
  assumes "Snapshot_Validate E s = None" "b \<in> set (elems (sn_Bindings s))" "nb_State b = BindingCurrent"
  shows "live_binding s (nb_BindingID b)"
  using assms by (rule current_binding_live)

theorem current_binding_is_live_witness: "live_binding second_snapshot (nb_BindingID demo_binding)"
  by (rule current_binding_is_live [OF second_valid]) (simp_all add: second_snapshot_def demo_binding_def)

text \<open>C11: In a valid snapshot whatever is not withdrawn is live: every available, degraded or unavailable
  service and capability and every identity link that is not withdrawn rests on a live binding, and
  such a capability belongs to a service of the same binding that is not withdrawn either.\<close>

theorem offered_records_are_live:
  assumes "Snapshot_Validate E s = None"
  shows "(\<forall>v \<in> set (elems (sn_Services s)). si_Availability v \<noteq> AvailabilityWithdrawn \<longrightarrow> live_binding s (si_BindingID v)) \<and>
    (\<forall>l \<in> set (elems (sn_IdentityLinks s)). il_State l \<noteq> LinkWithdrawn \<longrightarrow> live_binding s (il_BindingID l)) \<and>
    (\<forall>c \<in> set (elems (sn_Capabilities s)). ci_Availability c \<noteq> AvailabilityWithdrawn \<longrightarrow>
       live_binding s (ci_BindingID c) \<and>
       (\<exists>v \<in> set (elems (sn_Services s)). si_InstanceID v = ci_ServiceInstance c \<and> si_BindingID v = ci_BindingID c \<and>
          si_Availability v \<noteq> AvailabilityWithdrawn))"
proof (intro conjI ballI impI)
  note live = lookup_binding current_binding_live [OF assms]
  fix v assume "v \<in> set (elems (sn_Services s))" "si_Availability v \<noteq> AvailabilityWithdrawn"
  then show "live_binding s (si_BindingID v)"
    using service_rests [of s v] Snapshot_ValidateD(12) [OF assms] live by metis
next
  note live = lookup_binding current_binding_live [OF assms]
  fix l assume "l \<in> set (elems (sn_IdentityLinks s))" "il_State l \<noteq> LinkWithdrawn"
  then show "live_binding s (il_BindingID l)"
    using link_rests [of s l] Snapshot_ValidateD(11) [OF assms] live by metis
next
  note live = lookup_binding current_binding_live [OF assms]
  fix c assume "c \<in> set (elems (sn_Capabilities s))" "ci_Availability c \<noteq> AvailabilityWithdrawn"
  then obtain b v where "map_of (snapshot_bindings s) (ci_BindingID c) = Some b" "nb_State b = BindingCurrent"
      "map_of (snapshot_services s) (ci_ServiceInstance c) = Some v" "si_BindingID v = ci_BindingID c"
      "si_Availability v \<noteq> AvailabilityWithdrawn"
    using capability_rests [of E s c] Snapshot_ValidateD(13) [OF assms] by metis
  with live lookup_service show "live_binding s (ci_BindingID c)"
    "\<exists>v \<in> set (elems (sn_Services s)). si_InstanceID v = ci_ServiceInstance c \<and> si_BindingID v = ci_BindingID c \<and>
       si_Availability v \<noteq> AvailabilityWithdrawn" by metis+
qed

theorem offered_records_are_live_witness:
  "live_binding second_snapshot (si_BindingID demo_service) \<and> live_binding second_snapshot (il_BindingID demo_link) \<and>
   live_binding second_snapshot (ci_BindingID demo_capability)"
  using offered_records_are_live [OF second_valid]
  by (simp add: second_snapshot_def demo_service_def demo_link_def demo_capability_def)

text \<open>C12: A valid snapshot has at most one current epoch per source and, in a current epoch, at most one
  driver generation whose cursor is open; and a cursor is fenced exactly when the snapshot holds a
  fence for it.\<close>

theorem one_epoch_and_generation:
  assumes "Snapshot_Validate E s = None"
  shows "distinct (map sd_SourceID (filter (\<lambda>d. sd_State d = SourceCurrent) (elems (sn_Sources s)))) \<and>
    distinct (map (\<lambda>c. (pc_SourceID c, pc_SourceEpochID c)) (filter (open_cursor s) (elems (sn_Cursors s)))) \<and>
    (\<forall>c \<in> set (elems (sn_Cursors s)). pc_Fenced c \<longleftrightarrow> (\<exists>f \<in> set (elems (sn_Fences s)). fence_key f = cursor_key c))"
proof -
  have found: "map_of (snapshot_fences s) key \<noteq> None \<longleftrightarrow> (\<exists>f \<in> set (elems (sn_Fences s)). fence_key f = key)" for key
    by (auto simp: snapshot_fences_def map_from_lookup_None image_iff simp del: not_None_eq)
  from cursor_errors_unique [OF Snapshot_ValidateD(7) [OF assms]] source_errors_unique [OF Snapshot_ValidateD(5) [OF assms]]
  show ?thesis unfolding found by blast
qed

theorem one_epoch_and_generation_witness:
  "filter (\<lambda>d. sd_State d = SourceCurrent) (elems (sn_Sources second_snapshot)) = [demo_source] \<and>
   sn_Cursors second_snapshot = Some [demo_cursor ''2''] \<and> sn_Fences second_snapshot = Some [] \<and> \<not> pc_Fenced (demo_cursor ''2'')"
  using one_epoch_and_generation [OF second_valid]
  by (simp add: second_snapshot_def demo_source_def)

text \<open>C13: Every candidate of a valid snapshot is derived from current observations: it is observed on a
  current binding, or inferred through a derivation of depth at most 32 whose inputs exist at the
  stated revisions and rest on exactly the source paths they name; all these paths are live.\<close>

theorem valid_facts_are_derived:
  assumes "Snapshot_Validate E s = None" "f \<in> set (elems (sn_Facts s))" "c \<in> set (elems (fe_Candidates f))"
  shows "\<exists>paths depth. derives (snapshot_entries s) (snapshot_bindings s) (fc_CandidateID c) paths depth \<and>
    depth \<le> maxDerivationDepth \<and> (\<forall>p \<in> set (elems paths). live_binding s (sp_BindingID p))"
proof -
  have "fc_CandidateID c \<in> set (map fst (snapshot_entries s))"
    using assms(2,3) by (force simp: snapshot_entries_def candidate_entries_def)
  from closeCandidateGraphStrict_sound [OF valid_snapshot_facts(3) [OF assms(1)] this]
  obtain paths depth where d: "derives (snapshot_entries s) (snapshot_bindings s) (fc_CandidateID c) paths depth" by blast
  have "live_binding s (sp_BindingID p)" if "p \<in> set (elems paths)" for p
    using derives_current [OF d that] lookup_binding current_binding_live [OF assms(1)]
    unfolding path_current_def by metis
  with d derives_depth [OF d] show ?thesis by blast
qed

theorem valid_facts_are_derived_witness:
  "\<exists>paths depth. derives (snapshot_entries second_snapshot) (snapshot_bindings second_snapshot) (fc_CandidateID demo_inferred) paths depth \<and>
    depth \<le> maxDerivationDepth \<and> list_all (\<lambda>p. live_binding second_snapshot (sp_BindingID p)) (elems paths)"
  unfolding list_all_iff
  by (rule valid_facts_are_derived [OF second_valid, of demo_envelope])
    (simp_all add: second_snapshot_def demo_envelope_def)

end
